(* ===== verification/Prelude.thy ===== *)
theory Prelude
  imports Complex_Main "HOL-Library.AList" "HOL-Library.Char_ord"
begin

text \<open>
  What the components share: the collections of rewrite rules the proofs use, the Python
  values and exceptions the program handles, and the few functions of the Python language
  and standard library it calls (\<open>float\<close>, \<open>int\<close>, \<open>round\<close>, \<open>str.strip\<close>, \<open>str.upper\<close>,
  \<open>dict\<close>, \<open>datetime\<close>), with their lemmas.

  Numbers. A finite Python \<open>float\<close> is a \<^typ>\<open>real\<close> and its arithmetic is exact; where the
  program can meet an infinity or a NaN and the difference matters (settings parsed from
  text, quotes, price increments) the type is \<open>pyfloat\<close>, whose comparisons are all false
  on NaN, as IEEE 754 has it. Python's \<open>int\<close> is \<^typ>\<open>int\<close>.

  Text. A \<open>str\<close> is a \<^typ>\<open>string\<close> over ASCII.

  Time. A \<open>datetime\<close> is naive or aware; both carry microseconds since the epoch, the aware
  one in UTC. The New York offset, which the program reads from the operating system's
  time zone database, is a parameter of the definitions that use it.
\<close>

named_theorems repo_laws \<open>what a repository returns after it was written\<close>
named_theorems pyfloat_simps \<open>comparisons and arithmetic of extended floats\<close>
named_theorems num_simps \<open>rounding and clamping of money amounts\<close>

section \<open>Exceptions\<close>

datatype py_error = TypeError | ValueError | OverflowError | KeyError | IndexError | AttributeError
  | ZeroDivisionError | BrokerError string

type_synonym 'a result = "py_error + 'a"

fun bind_result :: "'a result \<Rightarrow> ('a \<Rightarrow> 'b result) \<Rightarrow> 'b result" where
  "bind_result (Inl e) f = Inl e"
| "bind_result (Inr x) f = f x"

lemma bind_result_Inr_iff:
  "bind_result m f = Inr y \<longleftrightarrow> (\<exists>x. m = Inr x \<and> f x = Inr y)"
  by (cases m) auto

lemma bind_result_Inl_iff:
  "bind_result m f = Inl e \<longleftrightarrow> m = Inl e \<or> (\<exists>x. m = Inr x \<and> f x = Inl e)"
  by (cases m) auto

section \<open>Extended floats\<close>

datatype pyfloat = Fin real | PosInf | NegInf | NaN

fun f_isfinite :: "pyfloat \<Rightarrow> bool" where
  "f_isfinite (Fin x) = True"
| "f_isfinite _ = False"

fun f_le :: "pyfloat \<Rightarrow> pyfloat \<Rightarrow> bool" where
  "f_le NaN _ = False"
| "f_le _ NaN = False"
| "f_le (Fin x) (Fin y) = (x \<le> y)"
| "f_le NegInf _ = True"
| "f_le _ PosInf = True"
| "f_le _ _ = False"

fun f_lt :: "pyfloat \<Rightarrow> pyfloat \<Rightarrow> bool" where
  "f_lt NaN _ = False"
| "f_lt _ NaN = False"
| "f_lt (Fin x) (Fin y) = (x < y)"
| "f_lt NegInf NegInf = False"
| "f_lt PosInf PosInf = False"
| "f_lt NegInf _ = True"
| "f_lt _ PosInf = True"
| "f_lt _ _ = False"

fun f_neg :: "pyfloat \<Rightarrow> pyfloat" where
  "f_neg (Fin x) = Fin (- x)"
| "f_neg PosInf = NegInf"
| "f_neg NegInf = PosInf"
| "f_neg NaN = NaN"

text \<open>Multiplication by a finite factor: an infinity times zero is NaN.\<close>

fun f_scale :: "pyfloat \<Rightarrow> real \<Rightarrow> pyfloat" where
  "f_scale (Fin x) k = Fin (x * k)"
| "f_scale PosInf k = (if k = 0 then NaN else if 0 < k then PosInf else NegInf)"
| "f_scale NegInf k = (if k = 0 then NaN else if 0 < k then NegInf else PosInf)"
| "f_scale NaN k = NaN"

text \<open>Sum and product: opposite infinities, and an infinity times zero, are NaN.\<close>

fun f_add :: "pyfloat \<Rightarrow> pyfloat \<Rightarrow> pyfloat" where
  "f_add NaN _ = NaN"
| "f_add _ NaN = NaN"
| "f_add (Fin x) (Fin y) = Fin (x + y)"
| "f_add PosInf NegInf = NaN"
| "f_add NegInf PosInf = NaN"
| "f_add PosInf _ = PosInf"
| "f_add _ PosInf = PosInf"
| "f_add NegInf _ = NegInf"
| "f_add _ NegInf = NegInf"

fun f_mul :: "pyfloat \<Rightarrow> pyfloat \<Rightarrow> pyfloat" where
  "f_mul x (Fin k) = f_scale x k"
| "f_mul (Fin k) y = f_scale y k"
| "f_mul NaN _ = NaN"
| "f_mul _ NaN = NaN"
| "f_mul PosInf PosInf = PosInf"
| "f_mul NegInf NegInf = PosInf"
| "f_mul _ _ = NegInf"

text \<open>Python's \<open>max(x, y)\<close> and \<open>min(x, y)\<close> keep a NaN given first.\<close>

definition py_max :: "pyfloat \<Rightarrow> pyfloat \<Rightarrow> pyfloat" where
  "py_max x y = (if f_lt x y then y else x)"

definition py_min :: "pyfloat \<Rightarrow> pyfloat \<Rightarrow> pyfloat" where
  "py_min x y = (if f_lt y x then y else x)"

definition f_sub :: "pyfloat \<Rightarrow> pyfloat \<Rightarrow> pyfloat" where
  "f_sub x y = f_add x (f_neg y)"

text \<open>Division by something that is not zero.\<close>

fun f_div :: "pyfloat \<Rightarrow> pyfloat \<Rightarrow> pyfloat" where
  "f_div NaN _ = NaN"
| "f_div _ NaN = NaN"
| "f_div (Fin x) (Fin y) = Fin (x / y)"
| "f_div (Fin x) _ = Fin 0"
| "f_div PosInf (Fin y) = (if 0 \<le> y then PosInf else NegInf)"
| "f_div NegInf (Fin y) = (if 0 \<le> y then NegInf else PosInf)"
| "f_div _ _ = NaN"

lemma f_le_Fin [pyfloat_simps]: "f_le (Fin x) (Fin y) = (x \<le> y)"
  by simp

lemma f_lt_Fin [pyfloat_simps]: "f_lt (Fin x) (Fin y) = (x < y)"
  by simp

lemma f_isfinite_iff: "f_isfinite x \<longleftrightarrow> (\<exists>r. x = Fin r)"
  by (cases x) auto

lemma f_lt_imp_le: "f_lt x y \<Longrightarrow> f_le x y"
  by (cases x; cases y) auto

lemma f_le_trans: "f_le x y \<Longrightarrow> f_le y z \<Longrightarrow> f_le x z"
  by (cases x; cases y; cases z) auto

lemma f_not_le: "x \<noteq> NaN \<Longrightarrow> y \<noteq> NaN \<Longrightarrow> \<not> f_le x y \<longleftrightarrow> f_lt y x"
  by (cases x; cases y) auto

section \<open>Rounding\<close>

text \<open>\<open>round(x, n)\<close> rounds a tie to the even neighbour.\<close>

definition round_half_even :: "real \<Rightarrow> int" where
  "round_half_even x =
     (let f = \<lfloor>x\<rfloor>; d = x - of_int f
      in if d < 1 / 2 then f
         else if d > 1 / 2 then f + 1
         else if even f then f else f + 1)"

definition py_round :: "nat \<Rightarrow> real \<Rightarrow> real" where
  "py_round n x = of_int (round_half_even (x * 10 ^ n)) / 10 ^ n"

definition py_trunc :: "real \<Rightarrow> int" where
  "py_trunc x = (if 0 \<le> x then \<lfloor>x\<rfloor> else - \<lfloor>- x\<rfloor>)"

abbreviation round2 :: "real \<Rightarrow> real" where
  "round2 \<equiv> py_round 2"

lemma round_half_even_bounds:
  "x - 1 / 2 \<le> of_int (round_half_even x)" "of_int (round_half_even x) \<le> x + 1 / 2"
  by (auto simp: round_half_even_def Let_def; linarith)+

lemma round_half_even_of_int [simp]: "round_half_even (of_int k) = k"
  by (simp add: round_half_even_def)

lemma round_half_even_mono:
  assumes "x \<le> y"
  shows "round_half_even x \<le> round_half_even y"
proof (cases "\<lfloor>x\<rfloor> = \<lfloor>y\<rfloor>")
  case True
  then show ?thesis using assms by (auto simp: round_half_even_def Let_def)
next
  case False
  with assms have "\<lfloor>x\<rfloor> + 1 \<le> \<lfloor>y\<rfloor>"
    using floor_mono [OF assms] by linarith
  moreover have "round_half_even x \<le> \<lfloor>x\<rfloor> + 1" "\<lfloor>y\<rfloor> \<le> round_half_even y"
    by (auto simp: round_half_even_def Let_def)
  ultimately show ?thesis by linarith
qed

lemma py_round_mono: "x \<le> y \<Longrightarrow> py_round n x \<le> py_round n y"
  by (simp add: py_round_def divide_right_mono round_half_even_mono)

lemma py_round_0 [simp]: "py_round n 0 = 0"
  using round_half_even_of_int [of 0] by (simp add: py_round_def)

lemma py_round_nonneg: "0 \<le> x \<Longrightarrow> 0 \<le> py_round n x"
  using py_round_mono [of 0 x n] by simp

lemma py_round_error: "\<bar>py_round n x - x\<bar> \<le> 1 / 2 / 10 ^ n"
proof -
  have "\<bar>of_int (round_half_even (x * 10 ^ n)) - x * 10 ^ n\<bar> \<le> 1 / 2"
    using round_half_even_bounds [of "x * 10 ^ n"] by linarith
  then have "\<bar>of_int (round_half_even (x * 10 ^ n)) - x * 10 ^ n\<bar> / 10 ^ n \<le> 1 / 2 / 10 ^ n"
    by (rule divide_right_mono) simp
  moreover have "py_round n x - x = (of_int (round_half_even (x * 10 ^ n)) - x * 10 ^ n) / 10 ^ n"
    by (simp add: py_round_def diff_divide_distrib)
  ultimately show ?thesis by (simp add: abs_divide)
qed

lemma round2_error: "\<bar>round2 x - x\<bar> \<le> 1 / 200"
  using py_round_error [of 2 x] by simp

lemma py_round_idem [simp]: "py_round n (py_round n x) = py_round n x"
  by (simp add: py_round_def)

lemma py_round_grid: "py_round n (of_int k / 10 ^ n) = of_int k / 10 ^ n"
  by (simp add: py_round_def)

section \<open>Text\<close>

definition is_py_space :: "char \<Rightarrow> bool" where
  "is_py_space c = (let n = (of_char c :: nat)
     in n = 32 \<or> (9 \<le> n \<and> n \<le> 13) \<or> (28 \<le> n \<and> n \<le> 31))"

definition py_strip :: "string \<Rightarrow> string" where
  "py_strip s = rev (dropWhile is_py_space (rev (dropWhile is_py_space s)))"

definition char_upper :: "char \<Rightarrow> char" where
  "char_upper c = (let n = (of_char c :: nat) in if 97 \<le> n \<and> n \<le> 122 then char_of (n - 32) else c)"

definition char_lower :: "char \<Rightarrow> char" where
  "char_lower c = (let n = (of_char c :: nat) in if 65 \<le> n \<and> n \<le> 90 then char_of (n + 32) else c)"

definition py_upper :: "string \<Rightarrow> string" where
  "py_upper s = map char_upper s"

definition py_lower :: "string \<Rightarrow> string" where
  "py_lower s = map char_lower s"

fun py_startswith :: "string \<Rightarrow> string \<Rightarrow> bool" where
  "py_startswith s [] = True"
| "py_startswith [] (p # ps) = False"
| "py_startswith (c # cs) (p # ps) = (c = p \<and> py_startswith cs ps)"

lemma py_startswith_append [simp]: "py_startswith (p @ s) p"
  by (induction p) auto

lemma py_startswith_iff: "py_startswith s p \<longleftrightarrow> (\<exists>t. s = p @ t)"
  by (induction s p rule: py_startswith.induct) auto

section \<open>Numbers as text\<close>

definition is_digit :: "char \<Rightarrow> bool" where
  "is_digit c = (let n = (of_char c :: nat) in 48 \<le> n \<and> n \<le> 57)"

definition digit_val :: "char \<Rightarrow> nat" where
  "digit_val c = (of_char c :: nat) - 48"

text \<open>
  A digit part: digits with single underscores between them. The result is the value, the
  number of digits and the rest of the text.
\<close>

fun digit_part :: "nat \<Rightarrow> nat \<Rightarrow> string \<Rightarrow> nat \<times> nat \<times> string" where
  "digit_part v n (c # d # cs) =
     (if is_digit c then digit_part (v * 10 + digit_val c) (Suc n) (d # cs)
      else if c = CHR ''_'' \<and> 0 < n \<and> is_digit d
           then digit_part (v * 10 + digit_val d) (Suc n) cs
      else (v, n, c # d # cs))"
| "digit_part v n [c] = (if is_digit c then (v * 10 + digit_val c, Suc n, []) else (v, n, [c]))"
| "digit_part v n [] = (v, n, [])"

definition split_sign :: "string \<Rightarrow> bool \<times> string" where
  "split_sign s = (case s of
       [] \<Rightarrow> (False, [])
     | c # cs \<Rightarrow> if c = CHR ''-'' then (True, cs) else if c = CHR ''+'' then (False, cs) else (False, s))"

definition parse_exponent :: "string \<Rightarrow> int option" where
  "parse_exponent s = (case s of
       [] \<Rightarrow> Some 0
     | c # cs \<Rightarrow>
         if char_lower c \<noteq> CHR ''e'' then None
         else (let (neg, r) = split_sign cs; (v, n, r') = digit_part 0 0 r
               in if n = 0 \<or> r' \<noteq> [] then None
                  else Some (if neg then - int v else int v)))"

definition scale10 :: "real \<Rightarrow> int \<Rightarrow> real" where
  "scale10 x e = (if 0 \<le> e then x * 10 ^ nat e else x / 10 ^ nat (- e))"

definition parse_decimal :: "string \<Rightarrow> real option" where
  "parse_decimal s =
     (let (ip, ni, r) = digit_part 0 0 s;
          (fp, nf, r') = (case r of c # cs \<Rightarrow> if c = CHR ''.'' then digit_part 0 0 cs else (0, 0, r)
                           | [] \<Rightarrow> (0, 0, []))
      in if ni = 0 \<and> nf = 0 then None
         else (case parse_exponent r' of
                 None \<Rightarrow> None
               | Some e \<Rightarrow> Some (scale10 (real ip + real fp / 10 ^ nf) e)))"

text \<open>\<open>float(text)\<close>: \<^const>\<open>None\<close> is \<open>ValueError\<close>.\<close>

definition parse_float :: "string \<Rightarrow> pyfloat option" where
  "parse_float s =
     (let (neg, r) = split_sign (py_strip s); w = py_lower r
      in if w = ''inf'' \<or> w = ''infinity'' then Some (if neg then NegInf else PosInf)
         else if w = ''nan'' then Some NaN
         else map_option (\<lambda>x. Fin (if neg then - x else x)) (parse_decimal r))"

text \<open>\<open>int(text)\<close> in base ten.\<close>

definition parse_int :: "string \<Rightarrow> int option" where
  "parse_int s =
     (let (neg, r) = split_sign (py_strip s); (v, n, r') = digit_part 0 0 r
      in if n = 0 \<or> r' \<noteq> [] then None else Some (if neg then - int v else int v))"

text \<open>\<open>int(x)\<close> of a float: NaN is a \<open>ValueError\<close>, an infinity an \<open>OverflowError\<close>.\<close>

fun int_of_float :: "pyfloat \<Rightarrow> int result" where
  "int_of_float (Fin x) = Inr (py_trunc x)"
| "int_of_float NaN = Inl ValueError"
| "int_of_float _ = Inl OverflowError"

section \<open>Python values\<close>

text \<open>The values a parameter dictionary or a decoded JSON object holds.\<close>

datatype pyval = PNone | PBool bool | PInt int | PFloat pyfloat | PStr string
  | PDict "(string \<times> pyval) list" | PList "pyval list"

type_synonym params = "(string \<times> pyval) list"

text \<open>An optional value as a Python value, as the payloads of events hold it.\<close>

definition v_real :: "real option \<Rightarrow> pyval" where
  "v_real x = (case x of None \<Rightarrow> PNone | Some r \<Rightarrow> PFloat (Fin r))"

definition v_float :: "pyfloat option \<Rightarrow> pyval" where
  "v_float x = (case x of None \<Rightarrow> PNone | Some r \<Rightarrow> PFloat r)"

definition v_text :: "string option \<Rightarrow> pyval" where
  "v_text x = (case x of None \<Rightarrow> PNone | Some s \<Rightarrow> PStr s)"

definition v_int :: "int option \<Rightarrow> pyval" where
  "v_int x = (case x of None \<Rightarrow> PNone | Some n \<Rightarrow> PInt n)"

definition dict_get :: "params \<Rightarrow> string \<Rightarrow> pyval" where
  "dict_get d k = (case map_of d k of None \<Rightarrow> PNone | Some v \<Rightarrow> v)"

definition dict_get_default :: "params \<Rightarrow> string \<Rightarrow> pyval \<Rightarrow> pyval" where
  "dict_get_default d k v = (case map_of d k of None \<Rightarrow> v | Some w \<Rightarrow> w)"

fun py_truthy :: "pyval \<Rightarrow> bool" where
  "py_truthy PNone = False"
| "py_truthy (PBool b) = b"
| "py_truthy (PInt n) = (n \<noteq> 0)"
| "py_truthy (PFloat x) = (x \<noteq> Fin 0)"
| "py_truthy (PStr s) = (s \<noteq> [])"
| "py_truthy (PDict d) = (d \<noteq> [])"
| "py_truthy (PList xs) = (xs \<noteq> [])"

fun float_of :: "pyval \<Rightarrow> pyfloat result" where
  "float_of PNone = Inl TypeError"
| "float_of (PBool b) = Inr (Fin (if b then 1 else 0))"
| "float_of (PInt n) = Inr (Fin (of_int n))"
| "float_of (PFloat x) = Inr x"
| "float_of (PStr s) = (case parse_float s of None \<Rightarrow> Inl ValueError | Some x \<Rightarrow> Inr x)"
| "float_of (PDict d) = Inl TypeError"
| "float_of (PList xs) = Inl TypeError"

text \<open>\<open>float(v)\<close> with \<open>TypeError\<close> and \<open>ValueError\<close> caught.\<close>

definition as_float :: "pyval \<Rightarrow> pyfloat option" where
  "as_float v = (case float_of v of Inl _ \<Rightarrow> None | Inr x \<Rightarrow> Some x)"

text \<open>
  A value where the program compares it with a number: Python refuses text, \<open>None\<close> and
  dictionaries with \<open>TypeError\<close>.
\<close>

fun num_of :: "pyval \<Rightarrow> pyfloat result" where
  "num_of (PBool b) = Inr (Fin (if b then 1 else 0))"
| "num_of (PInt n) = Inr (Fin (of_int n))"
| "num_of (PFloat x) = Inr x"
| "num_of _ = Inl TypeError"

text \<open>\<open>d[k]\<close>.\<close>

definition dict_index :: "params \<Rightarrow> string \<Rightarrow> pyval result" where
  "dict_index d k = (case map_of d k of None \<Rightarrow> Inl KeyError | Some v \<Rightarrow> Inr v)"

fun int_of :: "pyval \<Rightarrow> int result" where
  "int_of PNone = Inl TypeError"
| "int_of (PBool b) = Inr (if b then 1 else 0)"
| "int_of (PInt n) = Inr n"
| "int_of (PFloat x) = int_of_float x"
| "int_of (PStr s) = (case parse_int s of None \<Rightarrow> Inl ValueError | Some n \<Rightarrow> Inr n)"
| "int_of (PDict d) = Inl TypeError"
| "int_of (PList xs) = Inl TypeError"

fun nat_digits :: "nat \<Rightarrow> string" where
  "nat_digits n = (if n < 10 then [char_of (n + 48)]
     else nat_digits (n div 10) @ [char_of (n mod 10 + 48)])"

declare nat_digits.simps [simp del]

definition int_str :: "int \<Rightarrow> string" where
  "int_str n = (if n < 0 then CHR ''-'' # nat_digits (nat (- n)) else nat_digits (nat n))"

text \<open>
  \<open>str(v)\<close> where the program only compares the text with words: a float's or a
  dictionary's text is none of the words compared with, which \<^const>\<open>None\<close> stands for.
\<close>

fun word_of :: "pyval \<Rightarrow> string option" where
  "word_of PNone = Some ''None''"
| "word_of (PBool b) = Some (if b then ''True'' else ''False'')"
| "word_of (PInt n) = Some (int_str n)"
| "word_of (PFloat x) = None"
| "word_of (PStr s) = Some s"
| "word_of (PDict d) = None"
| "word_of (PList xs) = None"

text \<open>\<open>str(v)\<close> where the text itself is used; \<open>tx\<close> is \<open>str()\<close> on a float, list or dictionary.\<close>

definition py_str :: "(pyval \<Rightarrow> string) \<Rightarrow> pyval \<Rightarrow> string" where
  "py_str tx v = (case word_of v of Some w \<Rightarrow> w | None \<Rightarrow> tx v)"

text \<open>\<open>s.split(c)\<close>: never empty.\<close>

fun py_split :: "char \<Rightarrow> string \<Rightarrow> string list" where
  "py_split sep [] = [[]]"
| "py_split sep (c # cs) =
     (if c = sep then [] # py_split sep cs
      else (case py_split sep cs of [] \<Rightarrow> [[c]] | w # ws \<Rightarrow> (c # w) # ws))"

section \<open>Dates and times\<close>

datatype pydt = Naive int | Aware int

text \<open>\<open>_ensure_utc\<close>, \<open>_as_utc\<close>, \<open>aware_utc\<close>: a naive time is read as UTC.\<close>

fun instant :: "pydt \<Rightarrow> int" where
  "instant (Naive t) = t"
| "instant (Aware t) = t"

abbreviation usec_per_sec :: int where
  "usec_per_sec \<equiv> 1000000"

abbreviation usec_per_day :: int where
  "usec_per_day \<equiv> 86400000000"

definition et_micros :: "(int \<Rightarrow> int) \<Rightarrow> int \<Rightarrow> int" where
  "et_micros et_offset t = t + et_offset t"

text \<open>
  A clock time of day, to the minute as \<open>dt_time(h, m)\<close> makes it, with the seconds and
  microseconds a bar's time can have.
\<close>

datatype dt_time = DtTime (hour: int) (minute: int) (micros: int)

instantiation dt_time :: linorder
begin
definition less_eq_dt_time :: "dt_time \<Rightarrow> dt_time \<Rightarrow> bool" where
  "s \<le> t \<longleftrightarrow> hour s < hour t \<or> (hour s = hour t \<and> (minute s < minute t
     \<or> (minute s = minute t \<and> micros s \<le> micros t)))"
definition less_dt_time :: "dt_time \<Rightarrow> dt_time \<Rightarrow> bool" where
  "s < t \<longleftrightarrow> s \<le> t \<and> \<not> t \<le> (s :: dt_time)"
instance
  by standard (auto simp: less_eq_dt_time_def less_dt_time_def intro: dt_time.expand)
end

definition time_of_micros :: "int \<Rightarrow> dt_time" where
  "time_of_micros t = (let d = t mod usec_per_day in
     DtTime (d div 3600000000) ((d div 60000000) mod 60) (d mod 60000000))"

section \<open>Lists and dictionaries\<close>

lemma update_lookup: "map_of (AList.update k v xs) = (map_of xs)(k \<mapsto> v)"
  by (rule update_conv')

lemma fst_set_update: "fst ` set (AList.update k v xs) = insert k (fst ` set xs)"
  by (induction xs) auto

lemma sum_list_map_nonneg: "(\<And>x. x \<in> set xs \<Longrightarrow> 0 \<le> (f x :: real)) \<Longrightarrow> 0 \<le> sum_list (map f xs)"
  by (induction xs) auto

lemma length_filter_split: "length (filter P xs) + length (filter (\<lambda>x. \<not> P x) xs) = length xs"
  by (induction xs) auto

end
