(* ===== verification/Domain.thy ===== *)
theory Domain
  imports Prelude
begin

text \<open>
  The records of \<open>src/bhiksha/domain/models.py\<close> and \<open>src/bhiksha/domain/enums.py\<close> that the
  modelled components exchange. Isabelle selectors are global, so a field carries a prefix
  for its class (\<open>tr_quantity\<close> is \<open>TradeRecord.quantity\<close>). Of \<open>TradeRecord\<close> the trading
  fields are modelled; the research-lineage columns after \<open>can_ladder\<close>, which the source
  says are never read by order management, are not.
\<close>

datatype signal_direction = LONG | SHORT

datatype exit_mode = STRATEGY | HARD_FLAT_MODE | EMERGENCY

fun direction_value :: "signal_direction \<Rightarrow> string" where
  "direction_value LONG = ''long''"
| "direction_value SHORT = ''short''"

record exit_decision =
  xd_deployment_id :: string
  xd_symbol :: string
  xd_timestamp :: "pydt option"
  xd_exit :: bool
  xd_action :: string
  xd_reason :: "string list"
  xd_cancel_protection_orders :: bool
  xd_replacement_stop_price :: "real option"
  xd_target_price :: "real option"
  xd_features :: params

record option_contract =
  oc_option_symbol :: string
  oc_underlying_symbol :: string
  oc_contract_type :: string
  oc_expiration_date :: string
  oc_dte :: int
  oc_strike :: real
  oc_delta :: "real option"
  oc_bid :: "real option"
  oc_ask :: "real option"
  oc_open_interest :: "int option"

definition abs_delta :: "option_contract \<Rightarrow> real option" where
  "abs_delta c = map_option abs (oc_delta c)"

definition contract_spread_pct :: "option_contract \<Rightarrow> real option" where
  "contract_spread_pct c =
     (case (oc_bid c, oc_ask c) of
        (Some bid, Some ask) \<Rightarrow>
          if ask \<le> 0 then None
          else let mid = (bid + ask) / 2 in if mid \<le> 0 then None else Some ((ask - bid) / mid)
      | _ \<Rightarrow> None)"

record option_selection =
  os_option_symbol :: string
  os_contract_type :: string
  os_dte :: int
  os_abs_delta :: "real option"
  os_bid :: "real option"
  os_ask :: "real option"
  os_strike :: "real option"
  os_open_interest :: "int option"
  os_open_interest_percentile :: "real option"
  os_dte_fallback_policy :: "string option"
  os_requested_dte_min :: "int option"
  os_requested_dte_max :: "int option"
  os_attempted_fallback_dtes_count :: int

definition estimated_entry_price :: "option_selection \<Rightarrow> real option" where
  "estimated_entry_price s = (case os_ask s of Some a \<Rightarrow> Some a | None \<Rightarrow> os_bid s)"

record option_selection_request =
  rq_deployment_id :: string
  rq_symbol :: string
  rq_direction :: signal_direction
  rq_execution_params :: params

record trade_record =
  tr_trade_id :: string
  tr_deployment_id :: string
  tr_symbol :: string
  tr_option_symbol :: "string option"
  tr_quantity :: int
  tr_entry_price :: "real option"
  tr_underlying_entry_price :: "real option"
  tr_entry_timestamp :: "pydt option"
  tr_status :: string
  tr_entry_order_id :: "string option"
  tr_stop_order_id :: "string option"
  tr_stop_price :: "real option"
  tr_target_order_id :: "string option"
  tr_target_price :: "real option"
  tr_exit_order_id :: "string option"
  tr_exit_limit_price :: "real option"
  tr_exit_submitted_at :: "pydt option"
  tr_exit_mode :: "exit_mode option"
  tr_exit_price :: "real option"
  tr_exit_filled_quantity :: "int option"
  tr_exit_filled_at :: "pydt option"
  tr_exit_order_status :: "string option"
  tr_exit_order_type :: "string option"
  tr_exit_rule :: "string option"
  tr_can_ladder :: "bool option"

record partial_fill =
  pf_id :: "int option"
  pf_trade_id :: string
  pf_closed_quantity :: int
  pf_order_id :: "string option"
  pf_exit_rule :: "string option"
  pf_fill_price :: "real option"
  pf_fill_quantity :: "int option"
  pf_filled_at :: "pydt option"
  pf_order_status :: "string option"
  pf_origin :: string
  pf_enrich_attempts :: int
  pf_abandoned_reason :: "string option"

record cash_budget_day =
  cd_trade_date :: int
  cd_account_type :: "string option"
  cd_broker_cash :: real
  cd_usable_budget :: real
  cd_buffer_pct :: pyfloat

record cash_reservation =
  cr_trade_id :: string
  cr_trade_date :: int
  cr_amount :: real
  cr_status :: string

record risk_reservation =
  rr_trade_id :: string
  rr_deployment_id :: string
  rr_symbol :: string
  rr_cluster :: "string option"
  rr_planned_stop_loss_usd :: real
  rr_expires_at :: int
  rr_status :: string

text \<open>A trade with every optional field empty, as \<open>TradeRecord(trade_id=..., ...)\<close> builds it.\<close>

definition new_trade :: "string \<Rightarrow> string \<Rightarrow> string \<Rightarrow> trade_record" where
  "new_trade tid dep symb = \<lparr>tr_trade_id = tid, tr_deployment_id = dep, tr_symbol = symb,
     tr_option_symbol = None, tr_quantity = 0, tr_entry_price = None,
     tr_underlying_entry_price = None, tr_entry_timestamp = None, tr_status = ''pending_entry'',
     tr_entry_order_id = None, tr_stop_order_id = None, tr_stop_price = None,
     tr_target_order_id = None, tr_target_price = None, tr_exit_order_id = None,
     tr_exit_limit_price = None, tr_exit_submitted_at = None, tr_exit_mode = None,
     tr_exit_price = None, tr_exit_filled_quantity = None, tr_exit_filled_at = None,
     tr_exit_order_status = None, tr_exit_order_type = None, tr_exit_rule = None,
     tr_can_ladder = None\<rparr>"

text \<open>
  \<open>str.upper\<close> and the empty-string test of an optional text: \<open>if order_id\<close> is false for
  \<open>None\<close> and for the empty text.
\<close>

definition text_or :: "string option \<Rightarrow> string" where
  "text_or s = (case s of None \<Rightarrow> [] | Some t \<Rightarrow> t)"

definition text_truthy :: "string option \<Rightarrow> bool" where
  "text_truthy s = (text_or s \<noteq> [])"

text \<open>
  The paper-order markers \<open>SHADOW_ENTRY\<close> and \<open>DRY_RUN...\<close>, which four modules test
  with the same expression.
\<close>

definition paper_marker :: "string \<Rightarrow> bool" where
  "paper_marker s \<longleftrightarrow> s = ''SHADOW_ENTRY'' \<or> py_startswith s ''DRY_RUN''"

lemma text_truthy_None [simp]: "\<not> text_truthy None"
  by (simp add: text_truthy_def text_or_def)

lemma text_or_Some [simp]: "text_or (Some s) = s"
  by (simp add: text_or_def)

lemma text_or_None [simp]: "text_or None = []"
  by (simp add: text_or_def)

lemma text_truthy_Some [simp]: "text_truthy (Some s) \<longleftrightarrow> s \<noteq> []"
  by (simp add: text_truthy_def)

lemma contract_spread_pct_nonneg_iff:
  "contract_spread_pct c = Some s \<Longrightarrow> 0 \<le> s \<longleftrightarrow> the (oc_bid c) \<le> the (oc_ask c)"
  by (auto simp: contract_spread_pct_def Let_def zero_le_divide_iff
      split: option.splits if_splits)

end
