(* ===== verification/Exit_Policy.thy ===== *)
theory Exit_Policy
  imports Prelude
begin

text \<open>
  The pure part of \<open>src/bhiksha/execution/exit_policy.py\<close>: the Dynamic Risk Envelope, which
  turns the peak of a trade (in units of its initial risk R) into a floor below which the
  trade is closed, the composition of the safety stack, and the selection of the semantic
  fields of a policy. The hash of a policy is \<open>hashlib\<close> over \<open>json.dumps\<close> and is not modelled.
\<close>

section \<open>Definitions\<close>

text \<open>
  The argument check at the head of \<open>evaluate_risk_envelope\<close>: a boolean or a value that is
  not a number is a \<open>TypeError\<close>, a number that is not finite a \<open>ValueError\<close>.
\<close>

fun finite_real :: "pyval \<Rightarrow> real result" where
  "finite_real (PInt n) = Inr (of_int n)"
| "finite_real (PFloat (Fin x)) = Inr x"
| "finite_real (PFloat _) = Inl ValueError"
| "finite_real _ = Inl TypeError"

definition risk_envelope_curve :: "real \<Rightarrow> real \<Rightarrow> real \<Rightarrow> real \<Rightarrow> real \<Rightarrow> real \<Rightarrow> real" where
  "risk_envelope_curve peak_r activation_r target_1_r initial_floor_r floor_at_t1_r curvature =
     (if peak_r \<le> activation_r then initial_floor_r
      else if target_1_r \<le> peak_r then floor_at_t1_r
      else let progress = (peak_r - activation_r) / (target_1_r - activation_r);
               candidate = initial_floor_r + (floor_at_t1_r - initial_floor_r) * (progress powr curvature)
           in min floor_at_t1_r (max initial_floor_r candidate))"

definition risk_envelope_checked :: "real \<Rightarrow> real \<Rightarrow> real \<Rightarrow> real \<Rightarrow> real \<Rightarrow> real \<Rightarrow> real result" where
  "risk_envelope_checked peak_r activation_r target_1_r initial_floor_r floor_at_t1_r curvature =
     (if target_1_r \<le> activation_r then Inl ValueError
      else if curvature \<le> 0 then Inl ValueError
      else if floor_at_t1_r < initial_floor_r then Inl ValueError
      else if floor_at_t1_r > target_1_r then Inl ValueError
      else Inr (risk_envelope_curve peak_r activation_r target_1_r initial_floor_r floor_at_t1_r curvature))"

definition evaluate_risk_envelope ::
  "pyval \<Rightarrow> pyval \<Rightarrow> pyval \<Rightarrow> pyval \<Rightarrow> pyval \<Rightarrow> pyval \<Rightarrow> real result" where
  "evaluate_risk_envelope peak_r activation_r target_1_r initial_floor_r floor_at_t1_r curvature =
     bind_result (finite_real peak_r) (\<lambda>p.
     bind_result (finite_real activation_r) (\<lambda>a.
     bind_result (finite_real target_1_r) (\<lambda>t.
     bind_result (finite_real initial_floor_r) (\<lambda>i.
     bind_result (finite_real floor_at_t1_r) (\<lambda>f.
     bind_result (finite_real curvature) (\<lambda>c.
       risk_envelope_checked p a t i f c))))))"

text \<open>The parts of the stack that \<open>compose_safety_stack_floor_r\<close> returns beside the floor.\<close>

record safety_stack =
  existing_floor :: real
  envelope_floor :: real
  giveback_floor :: "real option"

definition compose_safety_stack_floor_r ::
  "real \<Rightarrow> real \<Rightarrow> real \<Rightarrow> real \<Rightarrow> real \<Rightarrow> real \<Rightarrow> real \<Rightarrow> real \<Rightarrow> real \<Rightarrow> (real \<times> safety_stack) result" where
  "compose_safety_stack_floor_r confirmed_peak_r target_1_r existing_floor_r
       activation_r curvature initial_floor_r floor_at_t1_r giveback_arm_r giveback_retrace_fraction =
     bind_result
       (risk_envelope_checked confirmed_peak_r activation_r target_1_r initial_floor_r floor_at_t1_r curvature)
       (\<lambda>env.
         let gb = (if giveback_arm_r \<le> confirmed_peak_r
                   then Some (confirmed_peak_r * (1 - giveback_retrace_fraction)) else None);
             tightest = max existing_floor_r env
         in Inr (case gb of None \<Rightarrow> tightest | Some g \<Rightarrow> max tightest g,
                 \<lparr>existing_floor = existing_floor_r, envelope_floor = env, giveback_floor = gb\<rparr>))"

definition NON_SEMANTIC_POLICY_FIELDS :: "string list" where
  "NON_SEMANTIC_POLICY_FIELDS = [''high_water_giveback_policy'', ''source_config_id'']"

definition canonical_policy_payload :: "params \<Rightarrow> params" where
  "canonical_policy_payload payload =
     filter (\<lambda>kv. fst kv \<notin> set NON_SEMANTIC_POLICY_FIELDS) payload"

section \<open>The envelope\<close>

lemma powr_unit:
  fixes x c :: real
  assumes "0 < x" "x < 1" "0 < c"
  shows "0 \<le> x powr c" "x powr c \<le> 1"
proof -
  show "0 \<le> x powr c" by simp
  from assms have "x powr c \<le> 1 powr c" by (intro powr_mono2) auto
  then show "x powr c \<le> 1" by simp
qed

lemma curve_bounds:
  assumes "initial \<le> high"
  shows "initial \<le> risk_envelope_curve p a t initial high c"
    and "risk_envelope_curve p a t initial high c \<le> high"
  using assms by (auto simp: risk_envelope_curve_def Let_def)

lemma curve_mono:
  assumes "p \<le> q" "a < t" "initial \<le> high" "0 < c"
  shows "risk_envelope_curve p a t initial high c \<le> risk_envelope_curve q a t initial high c"
proof (cases "p \<le> a \<or> t \<le> q")
  case True
  then show ?thesis
  proof
    assume "p \<le> a"
    then have "risk_envelope_curve p a t initial high c = initial"
      by (simp add: risk_envelope_curve_def)
    then show ?thesis using curve_bounds(1) [OF assms(3)] by simp
  next
    assume "t \<le> q"
    then have "risk_envelope_curve q a t initial high c = high"
      using assms by (simp add: risk_envelope_curve_def)
    then show ?thesis using curve_bounds(2) [OF assms(3)] by simp
  qed
next
  case False
  let ?g = "\<lambda>x. (x - a) / (t - a)"
  from False assms have "0 \<le> ?g p" "?g p \<le> ?g q"
    by (auto intro!: divide_right_mono divide_nonneg_pos)
  then have "?g p powr c \<le> ?g q powr c"
    using assms(4) by (intro powr_mono2) auto
  then have "initial + (high - initial) * (?g p powr c) \<le> initial + (high - initial) * (?g q powr c)"
    using assms(3) by (intro add_left_mono mult_left_mono) auto
  with False assms(1) show ?thesis
    by (auto simp: risk_envelope_curve_def Let_def)
qed

lemma risk_envelope_checked_Inr:
  "risk_envelope_checked p a t i f c = Inr v \<longleftrightarrow>
     a < t \<and> 0 < c \<and> i \<le> f \<and> f \<le> t \<and> v = risk_envelope_curve p a t i f c"
  by (auto simp: risk_envelope_checked_def)

lemma risk_envelope_checked_Inl:
  "(\<exists>e. risk_envelope_checked p a t i f c = Inl e) \<longleftrightarrow> t \<le> a \<or> c \<le> 0 \<or> f < i \<or> t < f"
  by (auto simp: risk_envelope_checked_def)

lemma evaluate_risk_envelope_Inr:
  "evaluate_risk_envelope p a t i f c = Inr v \<longleftrightarrow>
     (\<exists>p' a' t' i' f' c'. finite_real p = Inr p' \<and> finite_real a = Inr a' \<and> finite_real t = Inr t'
        \<and> finite_real i = Inr i' \<and> finite_real f = Inr f' \<and> finite_real c = Inr c'
        \<and> risk_envelope_checked p' a' t' i' f' c' = Inr v)"
  by (simp add: evaluate_risk_envelope_def bind_result_Inr_iff)

text \<open>
  The envelope never leaves its band: whenever it returns at all, whatever the types
  of its arguments, the floor lies between the initial floor and the floor at target 1,
  it never exceeds target 1 itself, and a higher peak never lowers it.
\<close>

lemma risk_envelope_band_monotone:
  assumes "evaluate_risk_envelope (PFloat (Fin p)) (PFloat (Fin a)) (PFloat (Fin t))
             (PFloat (Fin i)) (PFloat (Fin f)) (PFloat (Fin c)) = Inr v"
    and "p \<le> q"
  shows "i \<le> v \<and> v \<le> f \<and> v \<le> t \<and>
    (\<exists>w. evaluate_risk_envelope (PFloat (Fin q)) (PFloat (Fin a)) (PFloat (Fin t))
             (PFloat (Fin i)) (PFloat (Fin f)) (PFloat (Fin c)) = Inr w \<and> v \<le> w)"
proof -
  from assms(1) have "risk_envelope_checked p a t i f c = Inr v"
    by (simp add: evaluate_risk_envelope_Inr)
  then have ok: "a < t" "0 < c" "i \<le> f" "f \<le> t"
    and v: "v = risk_envelope_curve p a t i f c"
    by (simp_all add: risk_envelope_checked_Inr)
  have "evaluate_risk_envelope (PFloat (Fin q)) (PFloat (Fin a)) (PFloat (Fin t))
          (PFloat (Fin i)) (PFloat (Fin f)) (PFloat (Fin c)) = Inr (risk_envelope_curve q a t i f c)"
    using ok by (simp add: evaluate_risk_envelope_Inr risk_envelope_checked_Inr)
  with v ok assms(2) show ?thesis
    using curve_bounds [OF ok(3)] curve_mono [OF assms(2) ok(1,3,2)] order_trans by metis
qed

section \<open>The safety stack\<close>

text \<open>
  The safety stack never loosens a stop: the composed floor is at least the floor the
  broker already holds, at least the envelope's and at least the giveback's, and it is one
  of the three.
\<close>

lemma safety_stack_never_loosens:
  assumes "compose_safety_stack_floor_r pk t ex a c i f arm rf = Inr (flr, parts)"
  shows "ex \<le> flr \<and> envelope_floor parts \<le> flr
    \<and> (\<forall>g. giveback_floor parts = Some g \<longrightarrow> g \<le> flr)
    \<and> (flr = existing_floor parts \<or> flr = envelope_floor parts \<or> Some flr = giveback_floor parts)
    \<and> (giveback_floor parts = None \<longleftrightarrow> pk < arm)"
  using assms
  by (auto simp: compose_safety_stack_floor_r_def bind_result_Inr_iff Let_def max_def
      split: option.splits if_splits)

lemma canonical_policy_payload_idem:
  "canonical_policy_payload (canonical_policy_payload d) = canonical_policy_payload d"
  by (simp add: canonical_policy_payload_def)

lemma canonical_policy_payload_lookup:
  "map_of (canonical_policy_payload d) k =
     (if k \<in> set NON_SEMANTIC_POLICY_FIELDS then None else map_of d k)"
  by (induction d) (auto simp: canonical_policy_payload_def)

end
