(* ===== verification/Profile_Exit.thy ===== *)
theory Profile_Exit
  imports Domain Exit_Policy
begin

text \<open>
  \<open>src/bhiksha/execution/profile_exit.py\<close>: the exit-profile ladder. One evaluation reads the
  profile's dials, the entry premium, the position's quantity, a market view and the ladder
  state of the trade, and returns a decision; the state object it mutates is returned here
  beside the decision. Each rung of the ladder is a definition of its own, in the order the
  code tries them, and \<open>evaluate_profile_exit\<close> composes them. The XNYS trading calendar of
  the \<open>exchange_calendars\<close> package is the parameter \<open>cal\<close>, the New York offset \<open>et\<close>.
\<close>

section \<open>Rules, actions, dials and state\<close>

datatype ladder_rule = R_HOLD | R_INITIAL_STOP | R_DISASTER_STOP | R_TARGET_1_PARTIAL
  | R_TARGET_2_RUNNER | R_HIGH_WATER_GIVEBACK | R_POLICY_FLOOR | R_NO_PROGRESS | R_MAX_HOLD
  | R_EOD_FLAT

fun rule_value :: "ladder_rule \<Rightarrow> string" where
  "rule_value R_HOLD = ''hold''"
| "rule_value R_INITIAL_STOP = ''initial_stop''"
| "rule_value R_DISASTER_STOP = ''disaster_stop''"
| "rule_value R_TARGET_1_PARTIAL = ''target_1_partial''"
| "rule_value R_TARGET_2_RUNNER = ''target_2_runner''"
| "rule_value R_HIGH_WATER_GIVEBACK = ''high_water_giveback''"
| "rule_value R_POLICY_FLOOR = ''policy_floor''"
| "rule_value R_NO_PROGRESS = ''no_progress''"
| "rule_value R_MAX_HOLD = ''max_hold''"
| "rule_value R_EOD_FLAT = ''eod_flat''"

datatype fsm_action = A_HOLD | A_SQUARE_OFF | A_PARTIAL_SCALE | A_STOP_TO_BREAKEVEN | A_HARD_FLAT

fun action_value :: "fsm_action \<Rightarrow> string" where
  "action_value A_HOLD = ''hold''"
| "action_value A_SQUARE_OFF = ''square_off''"
| "action_value A_PARTIAL_SCALE = ''partial_scale''"
| "action_value A_STOP_TO_BREAKEVEN = ''stop_to_breakeven''"
| "action_value A_HARD_FLAT = ''hard_flat''"

definition GIVEBACK_TIERS :: "(string \<times> (real \<times> real)) list" where
  "GIVEBACK_TIERS = [(''OFF'', (0, 0)), (''STRICT'', (1, 33/100)),
     (''MODERATE'', (5/4, 1/2)), (''LOOSE'', (3/2, 66/100))]"

record profile_exit_fields =
  profile_id :: string
  target_1_r :: "real option"
  target_2_r :: "real option"
  target_1_quantity :: real
  initial_stop_pct :: "real option"
  premium_disaster_stop_pct :: "real option"
  option_stop_fallback_pct :: real
  target_r :: real
  no_progress_seconds :: "int option"
  max_hold_seconds :: "int option"
  high_water_giveback_policy :: string
  breakeven_after_t1 :: bool
  eod_flat :: bool
  hard_flat_time_et :: string
  no_progress_favorable_floor_r :: real
  policy_floor :: params
  explicit_giveback_arm_r :: "real option"
  explicit_giveback_retrace_fraction :: "real option"

text \<open>\<open>__post_init__\<close> refuses a disaster stop tighter than the initial stop.\<close>

definition fields_post_init :: "profile_exit_fields \<Rightarrow> profile_exit_fields result" where
  "fields_post_init f =
     (case (initial_stop_pct f, premium_disaster_stop_pct f) of
        (Some i, Some d) \<Rightarrow> if i > 0 \<and> d > 0 \<and> d < i then Inl ValueError else Inr f
      | _ \<Rightarrow> Inr f)"

definition positive_opt :: "real option \<Rightarrow> real option" where
  "positive_opt v = (case v of Some x \<Rightarrow> if x > 0 then Some x else None | None \<Rightarrow> None)"

definition stop_pct :: "profile_exit_fields \<Rightarrow> real" where
  "stop_pct f =
     (case positive_opt (initial_stop_pct f) of
        Some x \<Rightarrow> x
      | None \<Rightarrow> (case positive_opt (premium_disaster_stop_pct f) of
          Some x \<Rightarrow> x
        | None \<Rightarrow> (case positive_opt (Some (option_stop_fallback_pct f)) of
            Some x \<Rightarrow> x
          | None \<Rightarrow> 45/100)))"

definition disaster_stop_pct :: "profile_exit_fields \<Rightarrow> real option" where
  "disaster_stop_pct f = positive_opt (premium_disaster_stop_pct f)"

definition giveback_tier :: "profile_exit_fields \<Rightarrow> (real \<times> real) \<Rightarrow> real \<times> real" where
  "giveback_tier f dflt =
     (case map_of GIVEBACK_TIERS (py_upper (high_water_giveback_policy f)) of
        Some p \<Rightarrow> p | None \<Rightarrow> dflt)"

definition giveback_arm_r :: "profile_exit_fields \<Rightarrow> real option" where
  "giveback_arm_r f =
     (case explicit_giveback_arm_r f of
        Some x \<Rightarrow> Some x
      | None \<Rightarrow> let arm = fst (giveback_tier f (0, 0)) in if arm > 0 then Some arm else None)"

definition giveback_retrace_frac :: "profile_exit_fields \<Rightarrow> real" where
  "giveback_retrace_frac f =
     (case explicit_giveback_retrace_fraction f of
        Some x \<Rightarrow> x
      | None \<Rightarrow> let frac = snd (giveback_tier f (0, 1/2)) in if frac > 0 then frac else 1/2)"

definition effective_target_1_r :: "profile_exit_fields \<Rightarrow> real option" where
  "effective_target_1_r f = positive_opt (target_1_r f)"

definition effective_target_2_r :: "profile_exit_fields \<Rightarrow> real option" where
  "effective_target_2_r f =
     (case positive_opt (target_2_r f) of
        Some x \<Rightarrow> Some x
      | None \<Rightarrow> positive_opt (Some (target_r f)))"

record profile_exit_state =
  peak_premium :: real
  target_1_banked :: bool
  target_1_premium :: "real option"
  stop_at_breakeven :: bool
  banked_quantity :: int
  breakeven_emitted :: bool
  shadow_advanced :: bool
  seed_entry_premium :: "real option"
  seed_quantity :: "int option"

definition new_profile_state :: "real \<Rightarrow> int option \<Rightarrow> profile_exit_state" where
  "new_profile_state entry_premium sq =
     \<lparr>peak_premium = entry_premium, target_1_banked = False, target_1_premium = None,
      stop_at_breakeven = False, banked_quantity = 0, breakeven_emitted = False,
      shadow_advanced = False, seed_entry_premium = Some entry_premium, seed_quantity = sq\<rparr>"

definition mark_breakeven_emitted :: "profile_exit_state \<Rightarrow> profile_exit_state" where
  "mark_breakeven_emitted st = st\<lparr>breakeven_emitted := True\<rparr>"

definition mark_shadow_advanced :: "profile_exit_state \<Rightarrow> profile_exit_state" where
  "mark_shadow_advanced st = st\<lparr>shadow_advanced := True\<rparr>"

definition reseed_for_live :: "real \<Rightarrow> int option \<Rightarrow> profile_exit_state \<Rightarrow> profile_exit_state" where
  "reseed_for_live entry_premium sq st =
     st\<lparr>peak_premium := entry_premium, target_1_banked := False, target_1_premium := None,
        stop_at_breakeven := False, banked_quantity := 0, breakeven_emitted := False,
        shadow_advanced := False, seed_entry_premium := Some entry_premium,
        seed_quantity := (case sq of Some q \<Rightarrow> Some q | None \<Rightarrow> seed_quantity st)\<rparr>"

record profile_exit_decision =
  pd_profile_id :: string
  pd_rule :: ladder_rule
  pd_action :: fsm_action
  pd_reason :: string
  pd_exit :: bool
  pd_exit_quantity :: int
  pd_target_stop_price :: "real option"
  pd_cancel_protection_orders :: bool
  pd_features :: params

definition is_partial :: "profile_exit_decision \<Rightarrow> bool" where
  "is_partial d \<longleftrightarrow> pd_action d = A_PARTIAL_SCALE"

record profile_market_view =
  current_premium :: "real option"
  bar_time_et :: "dt_time option"
  mv_bid :: "real option"
  mv_ask :: "real option"
  mv_last :: "real option"

section \<open>Helpers\<close>

definition hold_decision :: "string \<Rightarrow> string \<Rightarrow> params \<Rightarrow> profile_exit_decision" where
  "hold_decision pid reason features =
     \<lparr>pd_profile_id = pid, pd_rule = R_HOLD, pd_action = A_HOLD, pd_reason = reason,
      pd_exit = False, pd_exit_quantity = 0, pd_target_stop_price = None,
      pd_cancel_protection_orders = False, pd_features = features\<rparr>"

definition full_exit ::
  "string \<Rightarrow> ladder_rule \<Rightarrow> fsm_action \<Rightarrow> string \<Rightarrow> int \<Rightarrow> params \<Rightarrow> profile_exit_decision" where
  "full_exit pid rule action reason quantity features =
     \<lparr>pd_profile_id = pid, pd_rule = rule, pd_action = action, pd_reason = reason,
      pd_exit = True, pd_exit_quantity = quantity, pd_target_stop_price = None,
      pd_cancel_protection_orders = True, pd_features = features\<rparr>"

definition remaining_quantity :: "int \<Rightarrow> profile_exit_state \<Rightarrow> int" where
  "remaining_quantity quantity st =
     (let remaining = quantity - banked_quantity st in if remaining > 0 then remaining else quantity)"

definition partial_quantity :: "int \<Rightarrow> real \<Rightarrow> int" where
  "partial_quantity quantity fraction =
     (if fraction \<ge> 1 then quantity
      else let banked = round_half_even (of_int quantity * fraction)
           in if quantity > 1 then max 1 (min banked (quantity - 1)) else quantity)"

definition seconds_between :: "int \<Rightarrow> int \<Rightarrow> real" where
  "seconds_between a b = of_int (b - a) / 1000000"

definition elapsed_seconds :: "pydt option \<Rightarrow> pydt \<Rightarrow> real option" where
  "elapsed_seconds entry_time now =
     (case entry_time of
        None \<Rightarrow> None
      | Some e \<Rightarrow> let delta = seconds_between (instant e) (instant now)
                  in Some (if delta \<ge> 0 then delta else 0))"

record trading_calendar =
  is_session :: "int \<Rightarrow> bool"
  session_open :: "int \<Rightarrow> int"
  session_close :: "int \<Rightarrow> int"

definition session_overlap :: "trading_calendar \<Rightarrow> int \<Rightarrow> int \<Rightarrow> int \<Rightarrow> real" where
  "session_overlap cal entry reference day =
     (if is_session cal day
      then max 0 (seconds_between (max entry (session_open cal day)) (min reference (session_close cal day)))
      else 0)"

definition elapsed_regular_session_seconds ::
  "trading_calendar \<Rightarrow> (int \<Rightarrow> int) \<Rightarrow> pydt option \<Rightarrow> pydt \<Rightarrow> real option" where
  "elapsed_regular_session_seconds cal et entry_time now =
     (case entry_time of
        None \<Rightarrow> None
      | Some e \<Rightarrow>
          let entry = instant e; reference = instant now
          in if reference \<le> entry then Some 0
             else Some (sum_list (map (session_overlap cal entry reference)
                    [et_micros et entry div usec_per_day .. et_micros et reference div usec_per_day])))"

definition DEFAULT_EOD_TIME :: dt_time where
  "DEFAULT_EOD_TIME = DtTime 15 55 0"

definition parse_time :: "string \<Rightarrow> dt_time" where
  "parse_time value =
     (case py_split CHR '':'' value of
        h # m # _ \<Rightarrow>
          (case (parse_int h, parse_int m) of
             (Some h', Some m') \<Rightarrow>
               if 0 \<le> h' \<and> h' < 24 \<and> 0 \<le> m' \<and> m' < 60 then DtTime h' m' 0 else DEFAULT_EOD_TIME
           | _ \<Rightarrow> DEFAULT_EOD_TIME)
      | _ \<Rightarrow> DEFAULT_EOD_TIME)"

definition two_digits :: "int \<Rightarrow> string" where
  "two_digits n = (if n < 10 then ''0'' @ int_str n else int_str n)"

definition strftime_HHMM :: "dt_time \<Rightarrow> string" where
  "strftime_HHMM t = two_digits (hour t) @ two_digits (minute t)"

definition pfin :: "real \<Rightarrow> pyval" where
  "pfin x = PFloat (Fin x)"

definition opt_val :: "real option \<Rightarrow> pyval" where
  "opt_val v = (case v of None \<Rightarrow> PNone | Some x \<Rightarrow> pfin x)"

definition diag :: "real \<Rightarrow> real option \<Rightarrow> real \<Rightarrow> profile_exit_state \<Rightarrow> real option \<Rightarrow> params" where
  "diag entry_premium current risk st elapsed =
     (let current_r = (case current of
             Some c \<Rightarrow> if risk > 0 then Some ((c - entry_premium) / risk) else None
           | None \<Rightarrow> None)
      in [(''entry_premium'', pfin (py_round 4 entry_premium)),
          (''current_premium'', opt_val (map_option (py_round 4) current)),
          (''risk_per_contract'', pfin (py_round 4 risk)),
          (''current_r'', opt_val (map_option (py_round 4) current_r)),
          (''peak_premium'', pfin (py_round 4 (peak_premium st))),
          (''target_1_banked'', PBool (target_1_banked st)),
          (''elapsed_seconds'', opt_val (map_option (py_round 1) elapsed))])"

section \<open>The rungs\<close>

text \<open>Rung 0: the hard flat at the end of the day.\<close>

definition rung_eod ::
  "profile_exit_fields \<Rightarrow> real \<Rightarrow> int \<Rightarrow> profile_market_view \<Rightarrow> real \<Rightarrow> real option \<Rightarrow>
   profile_exit_state \<Rightarrow> bool \<Rightarrow> profile_exit_decision option result" where
  "rung_eod f entry_premium quantity market risk elapsed st require_bar_time =
     (if \<not> eod_flat f then Inr None
      else case bar_time_et market of
        None \<Rightarrow> if require_bar_time then Inl ValueError else Inr None
      | Some bar_time \<Rightarrow>
          let eod = parse_time (hard_flat_time_et f)
          in if bar_time \<ge> eod
             then Inr (Some (full_exit (profile_id f) R_EOD_FLAT A_HARD_FLAT
                    (''profile_eod_flat:'' @ strftime_HHMM eod)
                    (remaining_quantity quantity st)
                    (diag entry_premium (current_premium market) risk st elapsed)))
             else Inr None)"

definition peak_r_of :: "real \<Rightarrow> real \<Rightarrow> profile_exit_state \<Rightarrow> real" where
  "peak_r_of entry_premium risk st =
     (let peak_move = peak_premium st - entry_premium in if peak_move > 0 then peak_move / risk else 0)"

text \<open>Rungs 1a and 1b: the disaster stop, then breakeven or the initial stop.\<close>

definition rung_disaster ::
  "profile_exit_fields \<Rightarrow> real \<Rightarrow> int \<Rightarrow> real \<Rightarrow> real \<Rightarrow> real option \<Rightarrow> profile_exit_state \<Rightarrow>
   profile_exit_decision option" where
  "rung_disaster f entry_premium quantity current risk elapsed st =
     (case disaster_stop_pct f of
        None \<Rightarrow> None
      | Some pct \<Rightarrow>
          if current \<le> entry_premium * (1 - pct)
          then Some (full_exit (profile_id f) R_DISASTER_STOP A_SQUARE_OFF
                 ''profile_premium_disaster_stop'' (remaining_quantity quantity st)
                 (diag entry_premium (Some current) risk st elapsed))
          else None)"

definition rung_protective ::
  "profile_exit_fields \<Rightarrow> real \<Rightarrow> int \<Rightarrow> real \<Rightarrow> real \<Rightarrow> real option \<Rightarrow> profile_exit_state \<Rightarrow>
   profile_exit_decision option" where
  "rung_protective f entry_premium quantity current risk elapsed st =
     (if target_1_banked st \<and> breakeven_after_t1 f
      then if current \<le> entry_premium
           then Some (full_exit (profile_id f) R_INITIAL_STOP A_SQUARE_OFF
                  ''profile_breakeven_stop'' (remaining_quantity quantity st)
                  (diag entry_premium (Some current) risk st elapsed))
           else None
      else if current \<le> entry_premium - risk
           then Some (full_exit (profile_id f) R_INITIAL_STOP A_SQUARE_OFF
                  ''profile_initial_stop'' (remaining_quantity quantity st)
                  (diag entry_premium (Some current) risk st elapsed))
           else None)"

text \<open>
  The named family floors. The profit-preservation ratchet compares with the dials of the
  policy; the dynamic envelope evaluates the risk envelope and steps it down to the ratchet
  grid. An absent dial is a \<open>KeyError\<close>, a dial that is not a number a \<open>TypeError\<close>.
\<close>

definition ratchet_floor :: "params \<Rightarrow> real \<Rightarrow> pyfloat option result" where
  "ratchet_floor p peak_r =
     (if dict_get p ''exit_family'' \<noteq> PStr ''profit_preservation_ratchet'' then Inr None
      else bind_result (bind_result (dict_index p ''profit_lock_arm_r'') num_of) (\<lambda>arm.
        if f_le arm (Fin peak_r)
        then bind_result (bind_result (dict_index p ''profit_lock_floor_r'') num_of) (\<lambda>fl. Inr (Some fl))
        else Inr None))"

fun stepped_floor :: "real \<Rightarrow> real \<Rightarrow> pyfloat \<Rightarrow> pyfloat result" where
  "stepped_floor initial raw (Fin step) =
     (if step = 0 then Inl ZeroDivisionError
      else Inr (Fin (initial + of_int \<lfloor>(raw - initial) / step + 1 / 10 ^ 10\<rfloor> * step)))"
| "stepped_floor initial raw NaN = Inl ValueError"
| "stepped_floor initial raw _ = Inr NaN"

definition envelope_floor_step :: "profile_exit_fields \<Rightarrow> real \<Rightarrow> pyfloat option result" where
  "envelope_floor_step f peak_r =
     (let p = policy_floor f
      in if dict_get p ''exit_family'' \<noteq> PStr ''dynamic_envelope''
            \<or> \<not> py_truthy (dict_get p ''risk_envelope_enabled'') then Inr None
         else bind_result (dict_index p ''risk_envelope_activation_r'') (\<lambda>activation.
              bind_result (dict_index p ''risk_envelope_initial_floor_r'') (\<lambda>initial.
              bind_result (dict_index p ''risk_envelope_floor_at_t1_r'') (\<lambda>at_t1.
              bind_result (dict_index p ''risk_envelope_curvature'') (\<lambda>curvature.
              bind_result (evaluate_risk_envelope (pfin peak_r) activation
                    (opt_val (effective_target_1_r f)) initial at_t1 curvature) (\<lambda>raw.
              bind_result (finite_real initial) (\<lambda>init.
              bind_result (bind_result (dict_index p ''risk_envelope_ratchet_step_r'') num_of) (\<lambda>step.
              bind_result (stepped_floor init raw step) (\<lambda>fl. Inr (Some fl))))))))))"

definition policy_floor_r :: "profile_exit_fields \<Rightarrow> real \<Rightarrow> pyfloat option result" where
  "policy_floor_r f peak_r =
     bind_result (ratchet_floor (policy_floor f) peak_r) (\<lambda>a.
     bind_result (envelope_floor_step f peak_r) (\<lambda>b.
       Inr (case b of Some fl \<Rightarrow> Some fl | None \<Rightarrow> a)))"

definition rung_policy_floor ::
  "profile_exit_fields \<Rightarrow> real \<Rightarrow> int \<Rightarrow> real \<Rightarrow> real \<Rightarrow> real option \<Rightarrow> profile_exit_state \<Rightarrow>
   profile_exit_decision option result" where
  "rung_policy_floor f entry_premium quantity current risk elapsed st =
     bind_result (policy_floor_r f (peak_r_of entry_premium risk st)) (\<lambda>flr.
       Inr (case flr of
              None \<Rightarrow> None
            | Some fl \<Rightarrow>
                if f_le (Fin ((current - entry_premium) / risk)) fl
                then Some (full_exit (profile_id f) R_POLICY_FLOOR A_SQUARE_OFF
                       ''profile_policy_floor'' (remaining_quantity quantity st)
                       (diag entry_premium (Some current) risk st elapsed @ [(''floor_r'', PFloat fl)]))
                else None))"

text \<open>Rung 2: target 1 banks the partial (or everything) and arms breakeven.\<close>

definition rung_target_1 ::
  "profile_exit_fields \<Rightarrow> real \<Rightarrow> int \<Rightarrow> real \<Rightarrow> real \<Rightarrow> real option \<Rightarrow> profile_exit_state \<Rightarrow>
   (profile_exit_decision \<times> profile_exit_state) option" where
  "rung_target_1 f entry_premium quantity current risk elapsed st =
     (case effective_target_1_r f of
        None \<Rightarrow> None
      | Some t1_r \<Rightarrow>
          if target_1_banked st \<or> \<not> target_1_quantity f > 0 then None
          else if \<not> current \<ge> entry_premium + t1_r * risk then None
          else
            let bank_qty = partial_quantity quantity (target_1_quantity f);
                st1 = st\<lparr>target_1_banked := True, target_1_premium := Some current\<rparr>
            in if bank_qty \<ge> quantity \<or> target_1_quantity f \<ge> 1
               then let st2 = st1\<lparr>banked_quantity := quantity\<rparr>
                    in Some (full_exit (profile_id f) R_TARGET_1_PARTIAL A_SQUARE_OFF
                          ''profile_target_1_full'' quantity
                          (diag entry_premium (Some current) risk st2 elapsed), st2)
               else let st2 = st1\<lparr>banked_quantity := bank_qty,
                           stop_at_breakeven := (breakeven_after_t1 f \<or> stop_at_breakeven st)\<rparr>
                    in Some (\<lparr>pd_profile_id = profile_id f, pd_rule = R_TARGET_1_PARTIAL,
                          pd_action = A_PARTIAL_SCALE, pd_reason = ''profile_target_1_partial'',
                          pd_exit = True, pd_exit_quantity = bank_qty, pd_target_stop_price = None,
                          pd_cancel_protection_orders = True,
                          pd_features = diag entry_premium (Some current) risk st2 elapsed @
                            [(''bank_quantity'', PInt bank_qty),
                             (''remaining_quantity'', PInt (quantity - bank_qty)),
                             (''arms_breakeven'', PBool (breakeven_after_t1 f))]\<rparr>, st2))"

text \<open>Rung 3: target 2 closes the runner.\<close>

definition rung_target_2 ::
  "profile_exit_fields \<Rightarrow> real \<Rightarrow> int \<Rightarrow> real \<Rightarrow> real \<Rightarrow> real option \<Rightarrow> profile_exit_state \<Rightarrow>
   profile_exit_decision option" where
  "rung_target_2 f entry_premium quantity current risk elapsed st =
     (let runner_armed = (target_1_banked st \<or> effective_target_1_r f = None \<or> target_1_quantity f \<le> 0)
      in case effective_target_2_r f of
           None \<Rightarrow> None
         | Some t2_r \<Rightarrow>
             if runner_armed \<and> current \<ge> entry_premium + t2_r * risk
             then Some (full_exit (profile_id f) R_TARGET_2_RUNNER A_SQUARE_OFF
                    ''profile_target_2_runner'' (remaining_quantity quantity st)
                    (diag entry_premium (Some current) risk st elapsed))
             else None)"

text \<open>Rung 4: giveback from the high-water mark of the earlier ticks.\<close>

definition rung_giveback ::
  "profile_exit_fields \<Rightarrow> real \<Rightarrow> int \<Rightarrow> real \<Rightarrow> real \<Rightarrow> real option \<Rightarrow> profile_exit_state \<Rightarrow>
   profile_exit_decision option" where
  "rung_giveback f entry_premium quantity current risk elapsed st =
     (let peak_r = peak_r_of entry_premium risk st
      in case giveback_arm_r f of
           None \<Rightarrow> None
         | Some arm_r \<Rightarrow>
             let floor_r = peak_r * (1 - giveback_retrace_frac f)
             in if peak_r \<ge> arm_r \<and> (current - entry_premium) / risk \<le> floor_r
                then Some (full_exit (profile_id f) R_HIGH_WATER_GIVEBACK A_SQUARE_OFF
                       (''profile_high_water_giveback:'' @ py_upper (high_water_giveback_policy f))
                       (remaining_quantity quantity st)
                       (diag entry_premium (Some current) risk st elapsed @
                          [(''peak_r'', pfin (py_round 4 peak_r)), (''floor_r'', pfin (py_round 4 floor_r))]))
                else None)"

text \<open>Rung 5: the time stops, max hold before no progress.\<close>

definition rung_max_hold ::
  "profile_exit_fields \<Rightarrow> real \<Rightarrow> int \<Rightarrow> real \<Rightarrow> real \<Rightarrow> real \<Rightarrow> profile_exit_state \<Rightarrow>
   profile_exit_decision option" where
  "rung_max_hold f entry_premium quantity current risk secs st =
     (case max_hold_seconds f of
        None \<Rightarrow> None
      | Some mh \<Rightarrow>
          if secs \<ge> of_int mh
          then Some (full_exit (profile_id f) R_MAX_HOLD A_SQUARE_OFF
                 (''profile_max_hold:'' @ int_str mh @ ''s'') (remaining_quantity quantity st)
                 (diag entry_premium (Some current) risk st (Some secs)))
          else None)"

definition rung_no_progress ::
  "profile_exit_fields \<Rightarrow> real \<Rightarrow> int \<Rightarrow> real \<Rightarrow> real \<Rightarrow> real \<Rightarrow> profile_exit_state \<Rightarrow>
   profile_exit_decision option" where
  "rung_no_progress f entry_premium quantity current risk secs st =
     (let peak_r = peak_r_of entry_premium risk st
      in case no_progress_seconds f of
           None \<Rightarrow> None
         | Some np \<Rightarrow>
             if secs \<ge> of_int np \<and> peak_r < no_progress_favorable_floor_r f
             then Some (full_exit (profile_id f) R_NO_PROGRESS A_SQUARE_OFF
                    (''profile_no_progress:'' @ int_str np @ ''s'') (remaining_quantity quantity st)
                    (diag entry_premium (Some current) risk st (Some secs) @
                       [(''peak_r'', pfin (py_round 4 peak_r))]))
             else None)"

definition rung_time ::
  "profile_exit_fields \<Rightarrow> real \<Rightarrow> int \<Rightarrow> real \<Rightarrow> real \<Rightarrow> real option \<Rightarrow> profile_exit_state \<Rightarrow>
   profile_exit_decision option" where
  "rung_time f entry_premium quantity current risk elapsed st =
     (case elapsed of
        None \<Rightarrow> None
      | Some secs \<Rightarrow>
          (case rung_max_hold f entry_premium quantity current risk secs st of
             Some d \<Rightarrow> Some d
           | None \<Rightarrow> rung_no_progress f entry_premium quantity current risk secs st))"

text \<open>
  No rung fired: a breakeven armed earlier is surfaced once, otherwise the peak is updated,
  after all the checks.
\<close>

definition ladder_tail ::
  "profile_exit_fields \<Rightarrow> real \<Rightarrow> real \<Rightarrow> real \<Rightarrow> real option \<Rightarrow> profile_exit_state \<Rightarrow>
   profile_exit_decision \<times> profile_exit_state" where
  "ladder_tail f entry_premium current risk elapsed st =
     (if stop_at_breakeven st \<and> \<not> breakeven_emitted st
      then let st1 = mark_breakeven_emitted st
           in (\<lparr>pd_profile_id = profile_id f, pd_rule = R_TARGET_1_PARTIAL,
                pd_action = A_STOP_TO_BREAKEVEN, pd_reason = ''profile_stop_to_breakeven'',
                pd_exit = False, pd_exit_quantity = 0, pd_target_stop_price = Some entry_premium,
                pd_cancel_protection_orders = False,
                pd_features = diag entry_premium (Some current) risk st1 elapsed\<rparr>, st1)
      else let st1 = (if current > peak_premium st then st\<lparr>peak_premium := current\<rparr> else st)
           in (hold_decision (profile_id f) ''profile_hold''
                 (diag entry_premium (Some current) risk st1 elapsed), st1))"

section \<open>The evaluator\<close>

definition ladder_upper ::
  "profile_exit_fields \<Rightarrow> real \<Rightarrow> int \<Rightarrow> real \<Rightarrow> real \<Rightarrow> real option \<Rightarrow> profile_exit_state \<Rightarrow>
   profile_exit_decision \<times> profile_exit_state" where
  "ladder_upper f e q c risk elapsed st =
     (case rung_target_1 f e q c risk elapsed st of Some r \<Rightarrow> r | None \<Rightarrow>
     (case rung_target_2 f e q c risk elapsed st of Some d \<Rightarrow> (d, st) | None \<Rightarrow>
     (case rung_giveback f e q c risk elapsed st of Some d \<Rightarrow> (d, st) | None \<Rightarrow>
     (case rung_time f e q c risk elapsed st of Some d \<Rightarrow> (d, st) | None \<Rightarrow>
       ladder_tail f e c risk elapsed st))))"

definition ladder_priced ::
  "profile_exit_fields \<Rightarrow> real \<Rightarrow> int \<Rightarrow> real \<Rightarrow> real \<Rightarrow> real option \<Rightarrow> profile_exit_state \<Rightarrow>
   (profile_exit_decision \<times> profile_exit_state) result" where
  "ladder_priced f e q c risk elapsed st =
     (case rung_disaster f e q c risk elapsed st of Some d \<Rightarrow> Inr (d, st) | None \<Rightarrow>
     (case rung_protective f e q c risk elapsed st of Some d \<Rightarrow> Inr (d, st) | None \<Rightarrow>
       bind_result (rung_policy_floor f e q c risk elapsed st) (\<lambda>r.
         case r of Some d \<Rightarrow> Inr (d, st) | None \<Rightarrow> Inr (ladder_upper f e q c risk elapsed st))))"

definition evaluate_profile_exit ::
  "trading_calendar \<Rightarrow> (int \<Rightarrow> int) \<Rightarrow> profile_exit_fields \<Rightarrow> real \<Rightarrow> int \<Rightarrow> profile_market_view \<Rightarrow>
   pydt option \<Rightarrow> pydt \<Rightarrow> bool \<Rightarrow> profile_exit_state \<Rightarrow>
   (profile_exit_decision \<times> profile_exit_state) result" where
  "evaluate_profile_exit cal et f entry_premium quantity market entry_time now require_bar_time st =
     (if entry_premium \<le> 0 \<or> quantity \<le> 0
      then Inr (hold_decision (profile_id f) ''profile_no_position'' [], st)
      else let risk = stop_pct f * entry_premium
      in if risk \<le> 0 then Inr (hold_decision (profile_id f) ''profile_no_risk'' [], st)
      else let elapsed = (if eod_flat f then elapsed_seconds entry_time now
                          else elapsed_regular_session_seconds cal et entry_time now)
      in bind_result (rung_eod f entry_premium quantity market risk elapsed st require_bar_time) (\<lambda>r.
           case r of
             Some d \<Rightarrow> Inr (d, st)
           | None \<Rightarrow>
               (case current_premium market of
                  None \<Rightarrow> Inr (hold_decision (profile_id f) ''profile_premium_unavailable'' [], st)
                | Some c \<Rightarrow> ladder_priced f entry_premium quantity c risk elapsed st)))"

section \<open>Mapping to the domain decision, and the dispatch gate\<close>

definition profile_decision_to_exit_decision ::
  "profile_exit_decision \<Rightarrow> string \<Rightarrow> string \<Rightarrow> pydt \<Rightarrow> exit_decision" where
  "profile_decision_to_exit_decision d dep symb ts =
     (let action = (if pd_action d \<in> {A_SQUARE_OFF, A_HARD_FLAT, A_PARTIAL_SCALE}
                    then ''square_off'' else ''hold'');
          f1 = AList.update ''profile_id'' (PStr (pd_profile_id d)) (pd_features d);
          f2 = AList.update ''profile_rule'' (PStr (rule_value (pd_rule d))) f1;
          f3 = AList.update ''profile_fsm_action'' (PStr (action_value (pd_action d))) f2;
          f4 = (if pd_exit_quantity d \<noteq> 0
                then AList.update ''exit_quantity'' (PInt (pd_exit_quantity d)) f3 else f3);
          f5 = (if is_partial d then AList.update ''partial_scale'' (PBool True) f4 else f4)
      in \<lparr>xd_deployment_id = dep, xd_symbol = symb, xd_timestamp = Some ts, xd_exit = pd_exit d,
          xd_action = action, xd_reason = [pd_reason d],
          xd_cancel_protection_orders = pd_cancel_protection_orders d,
          xd_replacement_stop_price = pd_target_stop_price d, xd_target_price = None,
          xd_features = f5\<rparr>)"

text \<open>
  The runtime mode a caller passes: nothing, a text, an enumeration member (with its
  \<open>.value\<close>), or something else with its \<open>str()\<close>.
\<close>

datatype runtime_mode = ModeNone | ModeStr string | ModeEnum string | ModeOther string

fun normalized_mode :: "runtime_mode \<Rightarrow> string option" where
  "normalized_mode ModeNone = None"
| "normalized_mode (ModeStr s) = Some s"
| "normalized_mode (ModeEnum v) = Some v"
| "normalized_mode (ModeOther s) = Some s"

definition DISPATCH_ALLOWED_RUNTIME_MODES :: "string list" where
  "DISPATCH_ALLOWED_RUNTIME_MODES = [''live_approval_gated'']"

definition DISPATCH_ALLOWED_POSITION_SOURCES :: "string list" where
  "DISPATCH_ALLOWED_POSITION_SOURCES = [''live_open'', ''live_pending'']"

definition profile_exit_dispatch_allowed ::
  "bool \<Rightarrow> bool \<Rightarrow> string option \<Rightarrow> runtime_mode \<Rightarrow> bool" where
  "profile_exit_dispatch_allowed live deployment_shadow_only position_source mode =
     (if \<not> live then False
      else if normalized_mode mode \<notin> Some ` set DISPATCH_ALLOWED_RUNTIME_MODES then False
      else if deployment_shadow_only then False
      else if position_source \<notin> Some ` set DISPATCH_ALLOWED_POSITION_SOURCES then False
      else True)"

end
