(* ===== verification/Ladder.thy ===== *)
theory Ladder
  imports Profile_Exit
begin

text \<open>
  What the exit ladder of \<open>Profile_Exit\<close> guarantees. \<open>ladder_step\<close> is the abstract machine
  of a trade's ladder (hold, raise the peak, move the stop once, bank once, close); one
  evaluation refines one of its steps (\<open>evaluate_refines\<close>), and the properties of runs are
  proved over it.
\<close>

section \<open>The abstract machine\<close>

datatype ladder_outcome = Hold | MoveStop | Bank int | Close int

definition outcome_of :: "profile_exit_decision \<Rightarrow> ladder_outcome" where
  "outcome_of d =
     (if pd_exit d
      then if pd_action d = A_PARTIAL_SCALE then Bank (pd_exit_quantity d) else Close (pd_exit_quantity d)
      else if pd_action d = A_STOP_TO_BREAKEVEN then MoveStop else Hold)"

fun closed_by :: "ladder_outcome \<Rightarrow> int" where
  "closed_by (Bank n) = n"
| "closed_by (Close n) = n"
| "closed_by _ = 0"

inductive ladder_step :: "int \<Rightarrow> profile_exit_state \<Rightarrow> ladder_outcome \<Rightarrow> profile_exit_state \<Rightarrow> bool"
  for q :: int where
  ls_hold: "ladder_step q st Hold st"
| ls_peak: "peak_premium st < c \<Longrightarrow> ladder_step q st Hold (st\<lparr>peak_premium := c\<rparr>)"
| ls_move_stop: "stop_at_breakeven st \<Longrightarrow> \<not> breakeven_emitted st \<Longrightarrow>
     ladder_step q st MoveStop (st\<lparr>breakeven_emitted := True\<rparr>)"
| ls_bank: "\<not> target_1_banked st \<Longrightarrow> 0 < n \<Longrightarrow> n < q \<Longrightarrow>
     ladder_step q st (Bank n) (st\<lparr>target_1_banked := True, target_1_premium := Some c,
        banked_quantity := n, stop_at_breakeven := b\<rparr>)"
| ls_bank_all: "\<not> target_1_banked st \<Longrightarrow> 0 < q \<Longrightarrow>
     ladder_step q st (Close q) (st\<lparr>target_1_banked := True, target_1_premium := Some c,
        banked_quantity := q\<rparr>)"
| ls_close: "0 < q \<Longrightarrow> ladder_step q st (Close (remaining_quantity q st)) st"

inductive_cases ladder_step_BankE: "ladder_step q st (Bank n) st'"
inductive_cases ladder_step_CloseE: "ladder_step q st (Close n) st'"

section \<open>The evaluator refines it\<close>

lemmas rung_defs = rung_disaster_def rung_protective_def rung_target_2_def rung_giveback_def
  rung_max_hold_def rung_no_progress_def rung_time_def

lemma full_exit_simps [simp]:
  "pd_exit (full_exit p r a s n fs)" "pd_action (full_exit p r a s n fs) = a"
  "pd_exit_quantity (full_exit p r a s n fs) = n" "pd_rule (full_exit p r a s n fs) = r"
  by (simp_all add: full_exit_def)

lemma hold_decision_simps [simp]:
  "\<not> pd_exit (hold_decision p s fs)" "pd_action (hold_decision p s fs) = A_HOLD"
  "pd_rule (hold_decision p s fs) = R_HOLD" "pd_exit_quantity (hold_decision p s fs) = 0"
  by (simp_all add: hold_decision_def)

definition closes :: "int \<Rightarrow> profile_exit_decision \<Rightarrow> bool" where
  "closes n d \<longleftrightarrow> pd_exit d \<and> pd_exit_quantity d = n \<and> pd_action d \<in> {A_SQUARE_OFF, A_HARD_FLAT}"

lemma closes_outcome: "closes n d \<Longrightarrow> outcome_of d = Close n"
  by (auto simp: closes_def outcome_of_def)

lemma rung_closes:
  "rung_disaster f e q c risk el st = Some d \<Longrightarrow> closes (remaining_quantity q st) d"
  "rung_protective f e q c risk el st = Some d \<Longrightarrow> closes (remaining_quantity q st) d"
  "rung_target_2 f e q c risk el st = Some d \<Longrightarrow> closes (remaining_quantity q st) d"
  "rung_giveback f e q c risk el st = Some d \<Longrightarrow> closes (remaining_quantity q st) d"
  "rung_time f e q c risk el st = Some d \<Longrightarrow> closes (remaining_quantity q st) d"
  by (auto simp: rung_defs closes_def Let_def split: option.splits if_splits)

lemma rung_policy_floor_closes:
  "rung_policy_floor f e q c risk el st = Inr (Some d) \<Longrightarrow> closes (remaining_quantity q st) d"
  by (auto simp: rung_policy_floor_def closes_def bind_result_Inr_iff split: option.splits if_splits)

lemma rung_eod_closes:
  "rung_eod f e q m risk el st b = Inr (Some d) \<Longrightarrow> closes (remaining_quantity q st) d"
  by (auto simp: rung_eod_def closes_def Let_def split: option.splits if_splits)

lemma partial_quantity_bounds:
  "0 < q \<Longrightarrow> 0 < partial_quantity q x"
  "0 < q \<Longrightarrow> partial_quantity q x \<le> q"
  by (auto simp: partial_quantity_def Let_def)

lemma rung_target_1_step:
  assumes "rung_target_1 f e q c risk el st = Some (d, st')" "0 < q"
  shows "ladder_step q st (outcome_of d) st'"
proof -
  from assms(1) have nb: "\<not> target_1_banked st"
    by (auto simp: rung_target_1_def split: option.splits if_splits)
  show ?thesis
  proof (cases "partial_quantity q (target_1_quantity f) \<ge> q \<or> target_1_quantity f \<ge> 1")
    case True
    with assms(1) have "outcome_of d = Close q"
      and "st' = st\<lparr>target_1_banked := True, target_1_premium := Some c, banked_quantity := q\<rparr>"
      by (auto simp: rung_target_1_def Let_def outcome_of_def split: option.splits if_splits)
    then show ?thesis using nb assms(2) by (simp add: ls_bank_all)
  next
    case False
    with assms(1) have "outcome_of d = Bank (partial_quantity q (target_1_quantity f))"
      and "st' = st\<lparr>target_1_banked := True, target_1_premium := Some c,
             banked_quantity := partial_quantity q (target_1_quantity f),
             stop_at_breakeven := (breakeven_after_t1 f \<or> stop_at_breakeven st)\<rparr>"
      by (auto simp: rung_target_1_def Let_def outcome_of_def split: option.splits if_splits)
    then show ?thesis
      using nb False partial_quantity_bounds [OF assms(2)] by (simp add: ls_bank)
  qed
qed

lemma ladder_tail_step:
  "ladder_tail f e c risk el st = (d, st') \<Longrightarrow> ladder_step q st (outcome_of d) st'"
  by (auto simp: ladder_tail_def Let_def outcome_of_def mark_breakeven_emitted_def
      intro: ladder_step.intros split: if_splits)

lemma closes_step: "closes (remaining_quantity q st) d \<Longrightarrow> 0 < q \<Longrightarrow> ladder_step q st (outcome_of d) st"
  by (simp add: closes_outcome ls_close)

lemma ladder_upper_step:
  "ladder_upper f e q c risk el st = (d, st') \<Longrightarrow> 0 < q \<Longrightarrow> ladder_step q st (outcome_of d) st'"
  by (auto simp: ladder_upper_def split: option.splits
      intro: closes_step rung_closes rung_target_1_step ladder_tail_step)

lemma ladder_priced_step:
  "ladder_priced f e q c risk el st = Inr (d, st') \<Longrightarrow> 0 < q \<Longrightarrow> ladder_step q st (outcome_of d) st'"
  by (auto simp: ladder_priced_def bind_result_Inr_iff split: option.splits
      intro: closes_step rung_closes rung_policy_floor_closes ladder_upper_step)

lemma hold_step: "outcome_of (hold_decision p s fs) = Hold"
  by (simp add: outcome_of_def)

lemma evaluate_step:
  assumes "evaluate_profile_exit cal et f e q m en now rb st = Inr (d, st')"
  shows "ladder_step q st (outcome_of d) st'"
proof (cases "0 < q")
  case True
  with assms show ?thesis
    by (auto simp: evaluate_profile_exit_def Let_def bind_result_Inr_iff hold_step ls_hold
        split: if_splits option.splits
        intro: closes_step rung_eod_closes ladder_priced_step)
next
  case False
  with assms show ?thesis
    by (auto simp: evaluate_profile_exit_def hold_step ls_hold)
qed

definition demo_fields :: profile_exit_fields where
  "demo_fields = \<lparr>profile_id = ''demo'', target_1_r = Some 1, target_2_r = Some 2,
     target_1_quantity = 1/2, initial_stop_pct = Some (1/2), premium_disaster_stop_pct = Some (3/5),
     option_stop_fallback_pct = 45/100, target_r = 0, no_progress_seconds = None,
     max_hold_seconds = None, high_water_giveback_policy = ''OFF'', breakeven_after_t1 = True,
     eod_flat = False, hard_flat_time_et = ''15:55'', no_progress_favorable_floor_r = 1/4,
     policy_floor = [], explicit_giveback_arm_r = None, explicit_giveback_retrace_fraction = None\<rparr>"

definition demo_calendar :: trading_calendar where
  "demo_calendar = \<lparr>is_session = (\<lambda>d. d mod 7 < 5), session_open = (\<lambda>d. d * usec_per_day + 52200000000),
     session_close = (\<lambda>d. d * usec_per_day + 75600000000)\<rparr>"

abbreviation priced :: "real \<Rightarrow> profile_market_view" where
  "priced c \<equiv> \<lparr>current_premium = Some c, bar_time_et = None, mv_bid = Some c, mv_ask = None, mv_last = None\<rparr>"

lemmas ladder_eval = evaluate_profile_exit_def elapsed_regular_session_seconds_def rung_eod_def
  ladder_priced_def ladder_upper_def rung_target_1_def ladder_tail_def rung_policy_floor_def
  policy_floor_r_def ratchet_floor_def envelope_floor_step_def dict_get_def stop_pct_def
  disaster_stop_pct_def positive_opt_def effective_target_1_r_def effective_target_2_r_def
  giveback_arm_r_def giveback_tier_def GIVEBACK_TIERS_def partial_quantity_def
  round_half_even_def Let_def

lemma demo_giveback: "giveback_arm_r demo_fields = None"
  by (simp add: demo_fields_def giveback_arm_r_def giveback_tier_def GIVEBACK_TIERS_def
      py_upper_def char_upper_def Let_def)

lemma demo_bank:
  "\<exists>d st'. evaluate_profile_exit demo_calendar et demo_fields 2 4 (priced 3) None now rb
       (new_profile_state 2 (Some 4)) = Inr (d, st') \<and> outcome_of d = Bank 2
     \<and> st' = (new_profile_state 2 (Some 4))\<lparr>target_1_banked := True, target_1_premium := Some 3,
                banked_quantity := 2, stop_at_breakeven := True\<rparr>"
  using demo_giveback
  by (simp add: demo_fields_def new_profile_state_def ladder_eval rung_defs outcome_of_def)

text \<open>
  C18. One evaluation is one step of the abstract ladder: whatever the profile's dials, the
  quote, the clock and the calendar, the code holds, raises the peak, surfaces the
  breakeven stop once, banks strictly less than the position once, or closes.
\<close>

theorem evaluate_refines:
  assumes "evaluate_profile_exit cal et f e q m en now rb st = Inr (d, st')"
  shows "ladder_step q st (outcome_of d) st'"
  using assms by (rule evaluate_step)

theorem evaluate_refines_witness:
  "\<exists>st'. ladder_step 4 (new_profile_state 2 (Some 4)) (Bank 2) st' \<and> target_1_banked st'"
proof -
  obtain d st' where d: "evaluate_profile_exit demo_calendar (\<lambda>_. 0) demo_fields 2 4 (priced 3) None
      (Aware 0) False (new_profile_state 2 (Some 4)) = Inr (d, st')" "outcome_of d = Bank 2"
    "target_1_banked st'"
    using demo_bank [of "\<lambda>_. 0" "Aware 0" False] by auto
  from evaluate_refines [OF d(1)] d show ?thesis by auto
qed

lemma demo_stop:
  "stop_at_breakeven st \<Longrightarrow> target_1_banked st \<Longrightarrow> 0 < q \<Longrightarrow>
   \<exists>d. evaluate_profile_exit cal et demo_fields 2 q (priced 1) None now rb st = Inr (d, st)
     \<and> outcome_of d = Close (remaining_quantity q st) \<and> pd_action d = A_SQUARE_OFF"
  using demo_giveback
  by (simp add: demo_fields_def ladder_eval rung_defs outcome_of_def)

section \<open>Runs\<close>

text \<open>
  A live trade: the tracked quantity is the residual after a partial fill, a full exit
  closes all of it. A recorded (shadow) trade: the quantity stays the entry quantity, and
  the run ends at the first full exit.
\<close>

fun residual :: "int \<Rightarrow> ladder_outcome \<Rightarrow> int" where
  "residual q (Bank n) = q - n"
| "residual q (Close _) = 0"
| "residual q _ = q"

fun live_order :: "int \<Rightarrow> ladder_outcome \<Rightarrow> int list" where
  "live_order q (Bank n) = [n]"
| "live_order q (Close _) = [q]"
| "live_order q _ = []"

fun run_live ::
  "trading_calendar \<Rightarrow> (int \<Rightarrow> int) \<Rightarrow> profile_exit_fields \<Rightarrow> real \<Rightarrow> pydt option \<Rightarrow> bool \<Rightarrow>
   (profile_market_view \<times> pydt) list \<Rightarrow> int \<Rightarrow> profile_exit_state \<Rightarrow>
   (int list \<times> int \<times> profile_exit_state) result" where
  "run_live cal et f e en rb [] q st = Inr ([], q, st)"
| "run_live cal et f e en rb ((m, now) # ticks) q st =
     bind_result (evaluate_profile_exit cal et f e q m en now rb st) (\<lambda>(d, st1).
     bind_result (run_live cal et f e en rb ticks (residual q (outcome_of d)) st1) (\<lambda>(os, q', st').
       Inr (live_order q (outcome_of d) @ os, q', st')))"

fun run_shadow ::
  "trading_calendar \<Rightarrow> (int \<Rightarrow> int) \<Rightarrow> profile_exit_fields \<Rightarrow> real \<Rightarrow> pydt option \<Rightarrow> bool \<Rightarrow>
   (profile_market_view \<times> pydt) list \<Rightarrow> int \<Rightarrow> profile_exit_state \<Rightarrow>
   (ladder_outcome list \<times> profile_exit_state) result" where
  "run_shadow cal et f e en rb [] q st = Inr ([], st)"
| "run_shadow cal et f e en rb ((m, now) # ticks) q st =
     bind_result (evaluate_profile_exit cal et f e q m en now rb st) (\<lambda>(d, st1).
       case outcome_of d of
         Close n \<Rightarrow> Inr ([Close n], st1)
       | oc \<Rightarrow> bind_result (run_shadow cal et f e en rb ticks q st1) (\<lambda>(os, st'). Inr (oc # os, st')))"

definition order_budget :: "int \<Rightarrow> bool \<Rightarrow> nat" where
  "order_budget q banked = (if q = 0 then 0 else if banked then 1 else 2)"

lemma step_orders:
  assumes "ladder_step q st oc st'" "0 \<le> q"
  shows "0 \<le> residual q oc \<and> sum_list (live_order q oc) = q - residual q oc
    \<and> (\<forall>n \<in> set (live_order q oc). 0 < n)
    \<and> length (live_order q oc) + order_budget (residual q oc) (target_1_banked st')
        \<le> order_budget q (target_1_banked st)"
  using assms by cases (auto simp: order_budget_def)

lemma run_live_orders:
  assumes "run_live cal et f e en rb ticks q st = Inr (os, q', st')" "0 \<le> q"
  shows "sum_list os = q - q' \<and> 0 \<le> q' \<and> (\<forall>n \<in> set os. 0 < n) \<and>
    length os + order_budget q' (target_1_banked st') \<le> order_budget q (target_1_banked st)"
  using assms
proof (induction ticks arbitrary: q st os q' st')
  case (Cons tick ticks)
  obtain m now where tick: "tick = (m, now)" by (cases tick)
  from Cons.prems(1) obtain d st1 os' where
    ev: "evaluate_profile_exit cal et f e q m en now rb st = Inr (d, st1)" and
    rest: "run_live cal et f e en rb ticks (residual q (outcome_of d)) st1 = Inr (os', q', st')" and
    os: "os = live_order q (outcome_of d) @ os'"
    by (auto simp: tick bind_result_Inr_iff)
  note step = step_orders [OF evaluate_step [OF ev] Cons.prems(2)]
  have "0 \<le> residual q (outcome_of d)" using step by simp
  from Cons.IH [OF rest this] step show ?case
    unfolding os by (simp add: ball_Un)
qed simp


definition shadow_inv :: "int \<Rightarrow> profile_exit_state \<Rightarrow> bool" where
  "shadow_inv q st \<longleftrightarrow> 0 \<le> banked_quantity st \<and> banked_quantity st < q
     \<and> (\<not> target_1_banked st \<longrightarrow> banked_quantity st = 0)"

lemma shadow_inv_step:
  assumes "ladder_step q st oc st'" "shadow_inv q st"
  shows "(\<forall>n. oc \<noteq> Close n) \<Longrightarrow> shadow_inv q st' \<and> banked_quantity st' = banked_quantity st + closed_by oc"
    and "oc = Close n \<Longrightarrow> n = q - banked_quantity st"
  using assms by (cases; auto simp: shadow_inv_def remaining_quantity_def Let_def)+

lemma run_shadow_total:
  assumes "run_shadow cal et f e en rb ticks q st = Inr (os, st')" "shadow_inv q st"
  shows "sum_list (map closed_by os) + banked_quantity st =
    (if \<exists>n. Close n \<in> set os then q else banked_quantity st')"
  using assms
proof (induction ticks arbitrary: st os)
  case (Cons tick ticks)
  obtain m now where tick: "tick = (m, now)" by (cases tick)
  from Cons.prems(1) obtain d st1 where
    ev: "evaluate_profile_exit cal et f e q m en now rb st = Inr (d, st1)"
    by (auto simp: tick bind_result_Inr_iff)
  have step: "ladder_step q st (outcome_of d) st1" using ev by (rule evaluate_step)
  show ?case
  proof (cases "\<exists>n. outcome_of d = Close n")
    case True
    then obtain n where n: "outcome_of d = Close n" by auto
    with Cons.prems(1) ev have "os = [Close n]" by (simp add: tick)
    with shadow_inv_step(2) [OF step Cons.prems(2) n] show ?thesis by auto
  next
    case False
    with Cons.prems(1) ev obtain os' where
      "run_shadow cal et f e en rb ticks q st1 = Inr (os', st')" "os = outcome_of d # os'"
      by (auto simp: tick bind_result_Inr_iff split: ladder_outcome.splits)
    with Cons.IH [of st1 os'] shadow_inv_step(1) [OF step Cons.prems(2)] False
    have "(\<exists>n. Close n \<in> set os) \<longleftrightarrow> (\<exists>n. Close n \<in> set os')" by (metis set_ConsD list.set_intros(2))
    with \<open>os = outcome_of d # os'\<close> Cons.IH [of st1 os']
      \<open>run_shadow cal et f e en rb ticks q st1 = Inr (os', st')\<close>
      shadow_inv_step(1) [OF step Cons.prems(2)] False
    show ?thesis by (simp split: if_splits)
  qed
qed auto


lemma demo_live_run:
  "\<exists>st'. run_live demo_calendar (\<lambda>_. 0) demo_fields 2 None False
     [(priced 3, Aware 0), (priced 1, Aware 1)] 4 (new_profile_state 2 (Some 4)) = Inr ([2, 2], 0, st')"
proof -
  let ?st = "(new_profile_state 2 (Some 4))\<lparr>target_1_banked := True, target_1_premium := Some 3,
       banked_quantity := 2, stop_at_breakeven := True\<rparr>"
  obtain d1 where "evaluate_profile_exit demo_calendar (\<lambda>_. 0) demo_fields 2 4 (priced 3) None
      (Aware 0) False (new_profile_state 2 (Some 4)) = Inr (d1, ?st)" "outcome_of d1 = Bank 2"
    using demo_bank [of "\<lambda>_. 0" "Aware 0" False] by auto
  moreover obtain d2 n where "evaluate_profile_exit demo_calendar (\<lambda>_. 0) demo_fields 2 2 (priced 1) None
      (Aware 1) False ?st = Inr (d2, ?st)" "outcome_of d2 = Close n"
    using demo_stop [of ?st 2 demo_calendar "\<lambda>_. 0" "Aware 1" False] by auto
  ultimately show ?thesis by simp
qed


lemma demo_shadow_run:
  "\<exists>st'. run_shadow demo_calendar (\<lambda>_. 0) demo_fields 2 None False
     [(priced 3, Aware 0), (priced 1, Aware 1)] 4 (new_profile_state 2 (Some 4)) = Inr ([Bank 2, Close 2], st')"
proof -
  let ?st = "(new_profile_state 2 (Some 4))\<lparr>target_1_banked := True, target_1_premium := Some 3,
       banked_quantity := 2, stop_at_breakeven := True\<rparr>"
  obtain d1 where "evaluate_profile_exit demo_calendar (\<lambda>_. 0) demo_fields 2 4 (priced 3) None
      (Aware 0) False (new_profile_state 2 (Some 4)) = Inr (d1, ?st)" "outcome_of d1 = Bank 2"
    using demo_bank [of "\<lambda>_. 0" "Aware 0" False] by auto
  moreover obtain d2 where "evaluate_profile_exit demo_calendar (\<lambda>_. 0) demo_fields 2 4 (priced 1) None
      (Aware 1) False ?st = Inr (d2, ?st)" "outcome_of d2 = Close 2"
    using demo_stop [of ?st 4 demo_calendar "\<lambda>_. 0" "Aware 1" False]
    by (auto simp: remaining_quantity_def)
  ultimately show ?thesis by simp
qed


section \<open>Protection\<close>

definition active_stop :: "profile_exit_fields \<Rightarrow> real \<Rightarrow> profile_exit_state \<Rightarrow> real" where
  "active_stop f e st =
     (if target_1_banked st \<and> breakeven_after_t1 f then e else e - stop_pct f * e)"

lemma stop_pct_pos: "0 < stop_pct f"
  by (auto simp: stop_pct_def positive_opt_def split: option.splits if_splits)

lemma risk_pos: "0 < e \<Longrightarrow> 0 < stop_pct f * e"
  by (simp add: stop_pct_pos)

lemma protective_fires:
  "c \<le> active_stop f e st \<Longrightarrow> \<exists>d. rung_protective f e q c (stop_pct f * e) el st = Some d"
  by (auto simp: rung_protective_def active_stop_def split: if_splits)

lemma ladder_priced_stopped:
  assumes "c \<le> active_stop f e st"
  shows "\<exists>d. ladder_priced f e q c (stop_pct f * e) el st = Inr (d, st) \<and> closes (remaining_quantity q st) d"
proof -
  obtain d where p: "rung_protective f e q c (stop_pct f * e) el st = Some d"
    using protective_fires [OF assms] by auto
  show ?thesis
  proof (cases "rung_disaster f e q c (stop_pct f * e) el st")
    case None
    with p rung_closes(2) [OF p] show ?thesis by (auto simp: ladder_priced_def)
  next
    case (Some d')
    with rung_closes(1) [OF Some] show ?thesis by (auto simp: ladder_priced_def)
  qed
qed

text \<open>
  C17. The stop always fires. At any quote at or below the active stop (the entry premium
  once target 1 is banked with breakeven on, the initial stop before), whatever the dials,
  the policy floor's parameters, the clock and the history, the evaluation returns a full
  exit of the remaining contracts, and no later rung can fail before it.
\<close>

theorem stop_always_fires:
  assumes "0 < e" "0 < q" "current_premium m = Some c" "c \<le> active_stop f e st"
    and "\<not> rb \<or> bar_time_et m \<noteq> None"
  shows "\<exists>d. evaluate_profile_exit cal et f e q m en now rb st = Inr (d, st)
    \<and> pd_exit d \<and> pd_exit_quantity d = remaining_quantity q st
    \<and> pd_action d \<in> {A_SQUARE_OFF, A_HARD_FLAT}"
proof -
  let ?el = "if eod_flat f then elapsed_seconds en now else elapsed_regular_session_seconds cal et en now"
  have eod: "\<exists>r. rung_eod f e q m (stop_pct f * e) ?el st rb = Inr r"
    using assms(5) by (auto simp: rung_eod_def Let_def split: option.splits)
  then obtain r where r: "rung_eod f e q m (stop_pct f * e) ?el st rb = Inr r" by blast
  have pos: "\<not> e \<le> 0" "\<not> q \<le> 0" "\<not> stop_pct f * e \<le> 0"
    using assms(1,2) risk_pos [of e f] by auto
  show ?thesis
  proof (cases r)
    case None
    with r pos assms(3) ladder_priced_stopped [OF assms(4), of q ?el] show ?thesis
      by (auto simp: evaluate_profile_exit_def closes_def)
  next
    case (Some d)
    with r have "closes (remaining_quantity q st) d" by (simp add: rung_eod_closes)
    with r Some pos show ?thesis by (auto simp: evaluate_profile_exit_def closes_def)
  qed
qed

theorem stop_always_fires_witness:
  "\<exists>d. evaluate_profile_exit demo_calendar (\<lambda>_. 0) demo_fields 2 4 (priced 1) None (Aware 0) False
       (new_profile_state 2 (Some 4)) = Inr (d, new_profile_state 2 (Some 4)) \<and> pd_exit d"
proof -
  have "(1::real) \<le> active_stop demo_fields 2 (new_profile_state 2 (Some 4))"
    by (simp add: active_stop_def demo_fields_def new_profile_state_def stop_pct_def positive_opt_def)
  from stop_always_fires [of 2 4 "priced 1" 1, OF _ _ _ this, of False demo_calendar "\<lambda>_. 0" None "Aware 0"]
  show ?thesis by auto
qed



text \<open>
  The high-water mark lags. A tick that exits leaves the peak as it was, so no tick can
  both raise the peak and exit on it; a tick never lowers the peak, and a new peak is this
  tick's quote.
\<close>

lemma peak_lags_exits:
  assumes "evaluate_profile_exit cal et f e q m en now rb st = Inr (d, st')"
  shows "peak_premium st \<le> peak_premium st' \<and> (pd_exit d \<longrightarrow> peak_premium st' = peak_premium st)
    \<and> (peak_premium st' = peak_premium st \<or> current_premium m = Some (peak_premium st'))"
proof -
  have tail: "peak_premium st \<le> peak_premium st1 \<and> (pd_exit d1 \<longrightarrow> peak_premium st1 = peak_premium st)
      \<and> (peak_premium st1 = peak_premium st \<or> c = peak_premium st1)"
    if "ladder_priced f e q c risk el st = Inr (d1, st1)" for c risk el d1 st1
    using that
    by (auto simp: ladder_priced_def ladder_upper_def ladder_tail_def rung_target_1_def Let_def
        mark_breakeven_emitted_def bind_result_Inr_iff split: option.splits if_splits)
  from assms show ?thesis
    by (auto simp: evaluate_profile_exit_def Let_def bind_result_Inr_iff dest!: tail
        split: if_splits option.splits)
qed

text \<open>
  A close after a partial, at the residual quantity the tracker then holds, records
  \<open>q - 2 n\<close> contracts (\<open>q - n\<close> when that is not positive) for a trade of \<open>q\<close> that banked
  \<open>n\<close>: the banked quantity is subtracted a second time, so the recorded quantity of the
  full exit is short of the position whenever less than half was banked.
\<close>

lemma residual_close_understates:
  assumes "evaluate_profile_exit cal et f e (q - n) m en now rb st = Inr (d, st')"
    and "outcome_of d = Close k" "target_1_banked st" "banked_quantity st = n" "0 < n" "n < q"
  shows "k = (if 2 * n < q then q - 2 * n else q - n) \<and> (2 * n < q \<longrightarrow> k < q - n)"
  using evaluate_step [OF assms(1)] assms(2-)
  by (auto simp: remaining_quantity_def Let_def elim!: ladder_step_CloseE)

end
