(* ===== verification/Profile_Dispatch.thy ===== *)
theory Profile_Dispatch
  imports Ladder
begin

text \<open>
  From the ladder to the broker: \<open>src/bhiksha/execution/profile_exit_shadow.py\<close>, which evaluates,
  records and, when the gate is open, maps the decision for dispatch, and the parts of
  \<open>src/bhiksha/execution/supervisor.py\<close> that keep the ladder states of the open positions and turn a
  dispatched decision into an order quantity. The sink of the events is the list of events
  returned; the text of a time, \<open>isoformat\<close>, is the parameter \<open>isofmt\<close>.
\<close>

section \<open>Evaluate and record\<close>

type_synonym event = "string \<times> params"

record shadow_outcome =
  po_decision :: profile_exit_decision
  po_recorded :: bool
  po_dispatched :: bool
  po_exit_decision :: "exit_decision option"
  po_dispatch_allowed :: bool

record shadow_request =
  sr_deployment_id :: string
  sr_trade_id :: "string option"
  sr_symbol :: string
  sr_option_symbol :: "string option"
  sr_entry_premium :: real
  sr_quantity :: int
  sr_market :: profile_market_view
  sr_entry_time :: "pydt option"
  sr_live :: bool
  sr_deployment_shadow_only :: bool
  sr_position_source :: "string option"
  sr_runtime_mode :: runtime_mode
  sr_policy_schema_version :: "string option"
  sr_policy_id :: "string option"
  sr_policy_hash :: "string option"
  sr_state_version :: "int option"
  sr_quote_source :: string
  sr_quote_timestamp :: "string option"
  sr_quote_timestamp_field :: "string option"
  sr_now :: pydt
  sr_require_bar_time :: bool

definition opt_str :: "string option \<Rightarrow> pyval" where
  "opt_str s = (case s of None \<Rightarrow> PNone | Some t \<Rightarrow> PStr t)"

definition opt_int :: "int option \<Rightarrow> pyval" where
  "opt_int n = (case n of None \<Rightarrow> PNone | Some k \<Rightarrow> PInt k)"

definition shadow_event ::
  "(pydt \<Rightarrow> string) \<Rightarrow> shadow_request \<Rightarrow> profile_exit_decision \<Rightarrow> bool \<Rightarrow> bool \<Rightarrow> event" where
  "shadow_event isofmt r d dispatch_allowed dispatched =
     (''profile_exit_shadow'',
      [(''deployment_id'', PStr (sr_deployment_id r)),
       (''trade_id'', opt_str (sr_trade_id r)),
       (''symbol'', PStr (sr_symbol r)),
       (''option_symbol'', opt_str (sr_option_symbol r)),
       (''timestamp'', PStr (isofmt (sr_now r))),
       (''profile_id'', PStr (pd_profile_id d)),
       (''policy_schema_version'', opt_str (sr_policy_schema_version r)),
       (''policy_id'', opt_str (sr_policy_id r)),
       (''policy_hash'', opt_str (sr_policy_hash r)),
       (''state_version'', opt_int (sr_state_version r)),
       (''rule'', PStr (rule_value (pd_rule d))),
       (''fsm_action'', PStr (action_value (pd_action d))),
       (''reason'', PStr (pd_reason d)),
       (''exit'', PBool (pd_exit d)),
       (''exit_quantity'', PInt (pd_exit_quantity d)),
       (''target_stop_price'', opt_val (pd_target_stop_price d)),
       (''cancel_protection_orders'', PBool (pd_cancel_protection_orders d)),
       (''entry_premium'', pfin (sr_entry_premium r)),
       (''quantity'', PInt (sr_quantity r)),
       (''current_premium'', opt_val (current_premium (sr_market r))),
       (''quote_source'', PStr (sr_quote_source r)),
       (''quote_timestamp'', opt_str (sr_quote_timestamp r)),
       (''quote_timestamp_field'', opt_str (sr_quote_timestamp_field r)),
       (''evaluation_timestamp'', PStr (isofmt (sr_now r))),
       (''spread'', (case (mv_ask (sr_market r), mv_bid (sr_market r)) of
            (Some a, Some b) \<Rightarrow> pfin (a - b) | _ \<Rightarrow> PNone)),
       (''mode'', PStr (if dispatched then ''live_dispatch'' else ''shadow_record'')),
       (''dispatch_allowed'', PBool dispatch_allowed),
       (''gate_inputs'', PDict
          [(''live'', PBool (sr_live r)),
           (''deployment_shadow_only'', PBool (sr_deployment_shadow_only r)),
           (''position_source'', opt_str (sr_position_source r)),
           (''runtime_mode'', opt_str (normalized_mode (sr_runtime_mode r)))]),
       (''features'', PDict (pd_features d))])"

definition evaluate_and_record_profile_exit ::
  "trading_calendar \<Rightarrow> (int \<Rightarrow> int) \<Rightarrow> (pydt \<Rightarrow> string) \<Rightarrow> profile_exit_fields \<Rightarrow> shadow_request \<Rightarrow>
   profile_exit_state \<Rightarrow> (shadow_outcome \<times> event list \<times> profile_exit_state) result" where
  "evaluate_and_record_profile_exit cal et isofmt f r st =
     bind_result (evaluate_profile_exit cal et f (sr_entry_premium r) (sr_quantity r) (sr_market r)
         (sr_entry_time r) (sr_now r) (sr_require_bar_time r) st) (\<lambda>(d, st').
       let allowed = profile_exit_dispatch_allowed (sr_live r) (sr_deployment_shadow_only r)
             (sr_position_source r) (sr_runtime_mode r);
           would_act = (pd_exit d \<or> pd_action d = A_STOP_TO_BREAKEVEN);
           dispatched = (allowed \<and> would_act)
       in Inr (\<lparr>po_decision = d, po_recorded = True, po_dispatched = dispatched,
                po_exit_decision = (if dispatched
                   then Some (profile_decision_to_exit_decision d (sr_deployment_id r) (sr_symbol r) (sr_now r))
                   else None),
                po_dispatch_allowed = allowed\<rparr>,
               [shadow_event isofmt r d allowed dispatched], st'))"

section \<open>The quantity of a dispatched decision\<close>

definition decision_is_partial_scale :: "exit_decision \<Rightarrow> bool" where
  "decision_is_partial_scale x = py_truthy (dict_get (xd_features x) ''partial_scale'')"

definition resolve_exit_quantity :: "exit_decision \<Rightarrow> int \<Rightarrow> int result" where
  "resolve_exit_quantity x position_quantity =
     (let requested = dict_get (xd_features x) ''exit_quantity'';
          partial = decision_is_partial_scale x
      in if requested = PNone
         then (if partial then Inl ValueError else Inr position_quantity)
         else (case int_of requested of
             Inl e \<Rightarrow> if e \<in> {TypeError, ValueError} then Inl ValueError else Inl e
           | Inr qty \<Rightarrow>
               if qty \<le> 0 then Inl ValueError
               else if partial
                 then (if position_quantity \<le> 1 then Inl ValueError
                       else if qty \<ge> position_quantity then Inl ValueError
                       else Inr qty)
               else Inr (min qty position_quantity)))"

section \<open>The ladder states of the open positions\<close>

text \<open>
  \<open>TrackedPosition\<close>, as far as the key reads it, and the supervisor's dictionary
  \<open>_profile_exit_states\<close>.
\<close>

record ladder_position =
  lp_trade_id :: "string option"
  lp_order_id :: "string option"
  lp_deployment_id :: string
  lp_symbol :: string
  lp_option_symbol :: string
  lp_quantity :: int

type_synonym ladder_states = "(string \<times> profile_exit_state) list"

definition profile_state_key :: "ladder_position \<Rightarrow> string" where
  "profile_state_key p =
     (let identity = (if text_truthy (lp_trade_id p) then lp_trade_id p else lp_order_id p)
      in if text_truthy identity then ''trade:'' @ text_or identity
         else ''pos:'' @ lp_deployment_id p @ '':'' @ lp_symbol p @ '':'' @ lp_option_symbol p)"

definition profile_state_identity_mismatch :: "profile_exit_state \<Rightarrow> real \<Rightarrow> bool" where
  "profile_state_identity_mismatch st entry_premium =
     ((case seed_entry_premium st of
         Some seed \<Rightarrow> entry_premium > 0 \<and> seed > 0
           \<and> \<bar>seed - entry_premium\<bar> > 1/10 * max seed entry_premium
       | None \<Rightarrow> False)
      \<or> (case seed_quantity st of Some sq \<Rightarrow> banked_quantity st > sq | None \<Rightarrow> False))"

definition get_or_create_profile_exit_state ::
  "ladder_position \<Rightarrow> real \<Rightarrow> ladder_states \<Rightarrow> profile_exit_state \<times> ladder_states" where
  "get_or_create_profile_exit_state p entry_premium states =
     (let key = profile_state_key p;
          cached = (case map_of states key of
              Some st \<Rightarrow> if profile_state_identity_mismatch st entry_premium then None else Some st
            | None \<Rightarrow> None)
      in case cached of
           Some st \<Rightarrow> (st, states)
         | None \<Rightarrow> let st = new_profile_state entry_premium (Some (lp_quantity p))
                   in (st, AList.update key st states))"

definition clear_profile_exit_state :: "ladder_position \<Rightarrow> ladder_states \<Rightarrow> ladder_states" where
  "clear_profile_exit_state p states = AList.delete (profile_state_key p) states"

definition is_paper_order_id :: "string option \<Rightarrow> bool" where
  "is_paper_order_id order_id = (text_truthy order_id \<and> paper_marker (text_or order_id))"

definition is_paper_trade_record :: "trade_record \<Rightarrow> bool" where
  "is_paper_trade_record t = list_ex is_paper_order_id
     [tr_entry_order_id t, tr_stop_order_id t, tr_target_order_id t, tr_exit_order_id t]"

section \<open>Dispatched quantities are orderable\<close>

lemma dispatch_allowed_iff:
  "profile_exit_dispatch_allowed live so src mode \<longleftrightarrow>
     live \<and> \<not> so \<and> normalized_mode mode = Some ''live_approval_gated''
     \<and> src \<in> {Some ''live_open'', Some ''live_pending''}"
  by (auto simp: profile_exit_dispatch_allowed_def DISPATCH_ALLOWED_RUNTIME_MODES_def
      DISPATCH_ALLOWED_POSITION_SOURCES_def)

lemma full_exit_features [simp]: "pd_features (full_exit p r a s n fs) = fs"
  by (simp add: full_exit_def)

lemma hold_features [simp]: "pd_features (hold_decision p s fs) = fs"
  by (simp add: hold_decision_def)

lemma diag_no_partial [simp]:
  "map_of (diag e c r st el @ xs) ''partial_scale'' = map_of xs ''partial_scale''"
  "map_of (diag e c r st el) ''partial_scale'' = None"
  by (simp_all add: diag_def Let_def)

lemma rung_no_partial:
  "rung_disaster f e q c risk el st = Some d \<Longrightarrow> map_of (pd_features d) ''partial_scale'' = None"
  "rung_protective f e q c risk el st = Some d \<Longrightarrow> map_of (pd_features d) ''partial_scale'' = None"
  "rung_target_2 f e q c risk el st = Some d \<Longrightarrow> map_of (pd_features d) ''partial_scale'' = None"
  "rung_giveback f e q c risk el st = Some d \<Longrightarrow> map_of (pd_features d) ''partial_scale'' = None"
  "rung_time f e q c risk el st = Some d \<Longrightarrow> map_of (pd_features d) ''partial_scale'' = None"
  by (auto simp: rung_defs Let_def split: option.splits if_splits)

lemma rung_floor_no_partial:
  "rung_policy_floor f e q c risk el st = Inr (Some d) \<Longrightarrow> map_of (pd_features d) ''partial_scale'' = None"
  by (auto simp: rung_policy_floor_def bind_result_Inr_iff split: option.splits if_splits)

lemma rung_eod_no_partial:
  "rung_eod f e q m risk el st b = Inr (Some d) \<Longrightarrow> map_of (pd_features d) ''partial_scale'' = None"
  by (auto simp: rung_eod_def Let_def split: option.splits if_splits)

lemma rung_target_1_no_partial:
  "rung_target_1 f e q c risk el st = Some (d, st') \<Longrightarrow> map_of (pd_features d) ''partial_scale'' = None"
  by (auto simp: rung_target_1_def Let_def split: option.splits if_splits)

lemma ladder_tail_no_partial:
  "ladder_tail f e c risk el st = (d, st') \<Longrightarrow> map_of (pd_features d) ''partial_scale'' = None"
  by (auto simp: ladder_tail_def Let_def split: if_splits)

lemma evaluate_no_partial:
  assumes "evaluate_profile_exit cal et f e q m en now rb st = Inr (d, st')"
  shows "map_of (pd_features d) ''partial_scale'' = None"
proof -
  have upper: "map_of (pd_features d1) ''partial_scale'' = None"
    if "ladder_upper f e q c risk el st = (d1, st1)" for c risk el d1 st1
    using that by (auto simp: ladder_upper_def split: option.splits
        intro: rung_no_partial rung_target_1_no_partial ladder_tail_no_partial)
  have priced: "map_of (pd_features d1) ''partial_scale'' = None"
    if "ladder_priced f e q c risk el st = Inr (d1, st1)" for c risk el d1 st1
    using that by (auto simp: ladder_priced_def bind_result_Inr_iff split: option.splits
        intro: rung_no_partial rung_floor_no_partial upper)
  from assms show ?thesis
    by (auto simp: evaluate_profile_exit_def Let_def bind_result_Inr_iff split: if_splits option.splits
        intro: rung_eod_no_partial priced)
qed

lemma mapped_features:
  fixes d :: profile_exit_decision
  defines "x dep symb ts \<equiv> profile_decision_to_exit_decision d dep symb ts"
  assumes "map_of (pd_features d) ''partial_scale'' = None" "pd_exit_quantity d \<noteq> 0"
  shows "dict_get (xd_features (x dep symb ts)) ''exit_quantity'' = PInt (pd_exit_quantity d)"
    and "decision_is_partial_scale (x dep symb ts) \<longleftrightarrow> is_partial d"
  using assms(2,3)
  by (simp_all add: x_def profile_decision_to_exit_decision_def Let_def dict_get_def
      decision_is_partial_scale_def update_lookup)

lemma step_resolves:
  assumes "ladder_step q st (outcome_of d) st'" "pd_exit d" "map_of (pd_features d) ''partial_scale'' = None"
    and "0 \<le> banked_quantity st"
  shows "\<exists>n. resolve_exit_quantity (profile_decision_to_exit_decision d dep symb ts) q = Inr n
    \<and> 0 < n \<and> n \<le> q \<and> n = pd_exit_quantity d \<and> (is_partial d \<longrightarrow> n < q)"
proof (cases "pd_action d = A_PARTIAL_SCALE")
  case True
  with assms(1,2) have n: "0 < pd_exit_quantity d" "pd_exit_quantity d < q"
    by (auto simp: outcome_of_def elim: ladder_step_BankE)
  then show ?thesis
    using mapped_features [OF assms(3)] True
    by (simp add: resolve_exit_quantity_def is_partial_def Let_def)
next
  case False
  with assms(1,2,4) have n: "0 < pd_exit_quantity d" "pd_exit_quantity d \<le> q"
    by (auto simp: outcome_of_def remaining_quantity_def Let_def elim!: ladder_step_CloseE split: if_splits)
  then show ?thesis
    using mapped_features [OF assms(3)] False
    by (simp add: resolve_exit_quantity_def is_partial_def Let_def)
qed

lemma evaluate_move_stop:
  assumes "evaluate_profile_exit cal et f e q m en now rb st = Inr (d, st')"
    and "\<not> pd_exit d" "pd_action d = A_STOP_TO_BREAKEVEN"
  shows "pd_target_stop_price d = Some e"
proof -
  note shut = rung_closes [unfolded closes_def] rung_policy_floor_closes [unfolded closes_def]
    rung_eod_closes [unfolded closes_def]
  have t1: "pd_exit d1" if "rung_target_1 f e q c risk el st = Some (d1, st1)" for c risk el d1 st1
    using that by (auto simp: rung_target_1_def Let_def split: option.splits if_splits)
  have tail: "pd_target_stop_price d1 = Some e"
    if "ladder_tail f e c risk el st = (d1, st1)" "pd_action d1 = A_STOP_TO_BREAKEVEN" for c risk el d1 st1
    using that by (auto simp: ladder_tail_def Let_def split: if_splits)
  have priced: "pd_exit d1 \<or> pd_target_stop_price d1 = Some e"
    if "ladder_priced f e q c risk el st = Inr (d1, st1)" "pd_action d1 = A_STOP_TO_BREAKEVEN"
    for c risk el d1 st1
    using that
    by (auto simp: ladder_priced_def ladder_upper_def bind_result_Inr_iff
        dest: shut t1 tail split: option.splits)
  from assms show ?thesis
    by (auto simp: evaluate_profile_exit_def Let_def bind_result_Inr_iff
        dest: shut priced split: option.splits if_splits)
qed

lemma step_banked_nonneg:
  "ladder_step q st oc st' \<Longrightarrow> 0 \<le> banked_quantity st \<Longrightarrow> 0 \<le> banked_quantity st'"
  by (erule ladder_step.cases) auto

text \<open>
  C1. What reaches the broker. An evaluation maps a decision for dispatch only through the
  open gate (live runtime, the one approval-gated mode, a lane that is not shadow-only, a
  position this session opened), and only for an exit or a stop move; an exit that is
  mapped resolves, without an error, to between one contract and the position, and a
  partial to strictly less than the position. The banked quantity stays nonnegative, so this
  holds again at the next tick.
\<close>

theorem dispatched_exit_orderable:
  assumes "evaluate_and_record_profile_exit cal et isofmt f r st = Inr (po, evs, st')"
    and "0 \<le> banked_quantity st"
  shows "0 \<le> banked_quantity st' \<and> (\<forall>x. po_exit_decision po = Some x \<longrightarrow>
    sr_live r \<and> \<not> sr_deployment_shadow_only r
    \<and> normalized_mode (sr_runtime_mode r) = Some ''live_approval_gated''
    \<and> sr_position_source r \<in> {Some ''live_open'', Some ''live_pending''}
    \<and> (if xd_exit x
       then \<exists>n. resolve_exit_quantity x (sr_quantity r) = Inr n \<and> 0 < n \<and> n \<le> sr_quantity r
          \<and> (decision_is_partial_scale x \<longrightarrow> n < sr_quantity r)
       else xd_replacement_stop_price x = Some (sr_entry_premium r)))"
proof -
  from assms(1) obtain d where
    ev: "evaluate_profile_exit cal et f (sr_entry_premium r) (sr_quantity r) (sr_market r)
         (sr_entry_time r) (sr_now r) (sr_require_bar_time r) st = Inr (d, st')"
    and po: "po_exit_decision po = Some x \<Longrightarrow>
        profile_exit_dispatch_allowed (sr_live r) (sr_deployment_shadow_only r)
             (sr_position_source r) (sr_runtime_mode r)
        \<and> (pd_exit d \<or> pd_action d = A_STOP_TO_BREAKEVEN)
        \<and> x = profile_decision_to_exit_decision d (sr_deployment_id r) (sr_symbol r) (sr_now r)" for x
    by (auto simp: evaluate_and_record_profile_exit_def bind_result_Inr_iff Let_def split: if_splits)
  note step = evaluate_step [OF ev] and np = evaluate_no_partial [OF ev]
  have move: "pd_target_stop_price d = Some (sr_entry_premium r)"
    if "\<not> pd_exit d" "pd_action d = A_STOP_TO_BREAKEVEN"
    using evaluate_move_stop [OF ev that] .
  have ex: "\<exists>n. resolve_exit_quantity x (sr_quantity r) = Inr n \<and> 0 < n \<and> n \<le> sr_quantity r
          \<and> (decision_is_partial_scale x \<longrightarrow> n < sr_quantity r)"
    if e: "pd_exit d" and x: "x = profile_decision_to_exit_decision d (sr_deployment_id r) (sr_symbol r) (sr_now r)"
    for x
  proof -
    obtain n where n: "resolve_exit_quantity x (sr_quantity r) = Inr n" "0 < n" "n \<le> sr_quantity r"
      "n = pd_exit_quantity d" "is_partial d \<longrightarrow> n < sr_quantity r"
      using step_resolves [OF step e np assms(2)] x by blast
    with mapped_features(2) [OF np] x show ?thesis by auto
  qed
  have xd: "xd_exit x = pd_exit d" "xd_replacement_stop_price x = pd_target_stop_price d"
    if "x = profile_decision_to_exit_decision d (sr_deployment_id r) (sr_symbol r) (sr_now r)" for x
    using that by (simp_all add: profile_decision_to_exit_decision_def Let_def)
  show ?thesis
  proof (intro conjI allI impI)
    show "0 \<le> banked_quantity st'" by (rule step_banked_nonneg [OF step assms(2)])
  next
    fix x assume "po_exit_decision po = Some x"
    note px = po [OF this, unfolded dispatch_allowed_iff]
    then have x: "x = profile_decision_to_exit_decision d (sr_deployment_id r) (sr_symbol r) (sr_now r)"
      by blast
    from px show "sr_live r" "\<not> sr_deployment_shadow_only r"
      "normalized_mode (sr_runtime_mode r) = Some ''live_approval_gated''"
      "sr_position_source r \<in> {Some ''live_open'', Some ''live_pending''}" by blast+
    show "if xd_exit x
       then \<exists>n. resolve_exit_quantity x (sr_quantity r) = Inr n \<and> 0 < n \<and> n \<le> sr_quantity r
          \<and> (decision_is_partial_scale x \<longrightarrow> n < sr_quantity r)
       else xd_replacement_stop_price x = Some (sr_entry_premium r)"
      using px ex [OF _ x] move xd [OF x] by presburger
  qed
qed

definition demo_request :: shadow_request where
  "demo_request = \<lparr>sr_deployment_id = ''d1'', sr_trade_id = Some ''t1'', sr_symbol = ''SPY'',
     sr_option_symbol = None, sr_entry_premium = 2, sr_quantity = 4, sr_market = priced 3,
     sr_entry_time = None, sr_live = True, sr_deployment_shadow_only = False,
     sr_position_source = Some ''live_open'', sr_runtime_mode = ModeEnum ''live_approval_gated'',
     sr_policy_schema_version = None, sr_policy_id = None, sr_policy_hash = None,
     sr_state_version = None, sr_quote_source = ''existing_order_manager_quote'',
     sr_quote_timestamp = None, sr_quote_timestamp_field = None, sr_now = Aware 0,
     sr_require_bar_time = False\<rparr>"

theorem dispatched_exit_orderable_witness:
  "\<exists>x n. resolve_exit_quantity x 4 = Inr n \<and> 0 < n \<and> n \<le> 4 \<and> xd_deployment_id x = ''d1''"
proof -
  let ?st = "new_profile_state 2 (Some 4)"
  obtain d st' where d: "evaluate_profile_exit demo_calendar (\<lambda>_. 0) demo_fields 2 4 (priced 3) None
      (Aware 0) False ?st = Inr (d, st')" "outcome_of d = Bank 2"
    using demo_bank [of "\<lambda>_. 0" "Aware 0" False] by auto
  then have ex: "pd_exit d" by (auto simp: outcome_of_def split: if_splits)
  let ?x = "profile_decision_to_exit_decision d ''d1'' ''SPY'' (Aware 0)"
  obtain po evs where r: "evaluate_and_record_profile_exit demo_calendar (\<lambda>_. 0) (\<lambda>_. []) demo_fields
       demo_request ?st = Inr (po, evs, st')" "po_exit_decision po = Some ?x"
    using d ex by (simp add: evaluate_and_record_profile_exit_def demo_request_def dispatch_allowed_iff Let_def)
  have "xd_exit ?x" "xd_deployment_id ?x = ''d1''"
    using ex by (simp_all add: profile_decision_to_exit_decision_def Let_def)
  with dispatched_exit_orderable [OF r(1)] r(2) show ?thesis
    by (auto simp: demo_request_def new_profile_state_def split: if_splits)
qed

section \<open>The ladder of a trade is never reseeded\<close>

definition same_fill :: "real \<Rightarrow> int \<Rightarrow> profile_exit_state \<Rightarrow> bool" where
  "same_fill e sq st \<longleftrightarrow> seed_entry_premium st = Some e \<and> seed_quantity st = Some sq
     \<and> banked_quantity st \<le> sq"

lemma same_fill_step:
  "ladder_step q st oc st' \<Longrightarrow> same_fill e sq st \<Longrightarrow> q \<le> sq \<Longrightarrow> 0 \<le> q \<Longrightarrow>
   same_fill e sq st' \<and> residual q oc \<le> sq \<and> 0 \<le> residual q oc"
  by (erule ladder_step.cases) (auto simp: same_fill_def)

lemma same_fill_run:
  assumes "run_live cal et f e en rb ticks q st = Inr (os, q', st')" "same_fill e sq st" "q \<le> sq" "0 \<le> q"
  shows "same_fill e sq st'"
  using assms
proof (induction ticks arbitrary: q st os)
  case (Cons tick ticks)
  obtain m now where tick: "tick = (m, now)" by (cases tick)
  from Cons.prems(1) obtain d st1 os' where
    ev: "evaluate_profile_exit cal et f e q m en now rb st = Inr (d, st1)" and
    rest: "run_live cal et f e en rb ticks (residual q (outcome_of d)) st1 = Inr (os', q', st')"
    by (auto simp: tick bind_result_Inr_iff)
  from same_fill_step [OF evaluate_step [OF ev] Cons.prems(2-4)] Cons.IH [OF rest] show ?case by blast
qed simp

lemma same_fill_no_mismatch:
  "same_fill e sq st \<Longrightarrow> 0 < e \<Longrightarrow> \<not> profile_state_identity_mismatch st e'
     \<longleftrightarrow> e' \<le> 0 \<or> \<bar>e - e'\<bar> \<le> 1/10 * max e e'"
  by (auto simp: same_fill_def profile_state_identity_mismatch_def)

text \<open>
  A running ladder is kept. Whatever happened to a trade since its entry, partial banked
  or not and whatever quantity is left, the next tick at an entry premium within ten
  percent gets the very state the last tick left, and the store is not touched; at a premium
  further off it gets a fresh ladder seeded with that premium.
\<close>

lemma ladder_state_kept:
  assumes "run_live cal et f e en rb ticks q (new_profile_state e (Some q)) = Inr (os, q', st)"
    and "0 < q" "0 < e" "0 < e'" "map_of states (profile_state_key p) = Some st"
  shows "get_or_create_profile_exit_state p e' states =
    (if \<bar>e - e'\<bar> \<le> 1/10 * max e e' then (st, states)
     else (new_profile_state e' (Some (lp_quantity p)),
           AList.update (profile_state_key p) (new_profile_state e' (Some (lp_quantity p))) states))"
proof -
  have "same_fill e q (new_profile_state e (Some q))"
    using assms(2) by (simp add: same_fill_def new_profile_state_def)
  from same_fill_run [OF assms(1) this] assms(2) have "same_fill e q st" by simp
  then have "profile_state_identity_mismatch st e' \<longleftrightarrow> \<not> \<bar>e - e'\<bar> \<le> 1/10 * max e e'"
    using same_fill_no_mismatch [OF _ assms(3), of q st e'] assms(4) by linarith
  with assms(5) show ?thesis
    by (simp only: get_or_create_profile_exit_state_def Let_def option.case if_not_P if_P if_cancel
        split: if_split) simp
qed

end
