(* ===== verification/Risk_Settings.thy ===== *)
theory Risk_Settings
  imports Prelude
begin

text \<open>
  \<open>src/bhiksha/risk/risk_settings.py\<close> and the operator-sheet source of
  \<open>src/bhiksha/risk/plan_operator_defaults_source.py\<close>: every knob of the risk manager is
  read once, sheet before environment before default, then range-checked. The environment
  and the sheet are functions from keys to texts, \<open>datetime.fromisoformat\<close> is the parameter
  \<open>iso_parse\<close> (\<^const>\<open>None\<close> is its \<open>ValueError\<close>), and the list of warnings is threaded
  through, a warning being a constructor with the values its text interpolates.
\<close>

section \<open>Sources\<close>

type_synonym text_source = "string \<Rightarrow> string option"

text \<open>\<open>PlanOperatorDefaultsSource.get\<close>; \<open>str_of\<close> is Python's \<open>str\<close>.\<close>

definition plan_defaults_get :: "(pyval \<Rightarrow> string) \<Rightarrow> params \<Rightarrow> text_source" where
  "plan_defaults_get str_of defaults key =
     (case map_of defaults key of
        None \<Rightarrow> None
      | Some PNone \<Rightarrow> None
      | Some v \<Rightarrow> Some (str_of v))"

definition plan_defaults_of_active_plan :: "params option \<Rightarrow> params" where
  "plan_defaults_of_active_plan plan =
     (case plan of
        None \<Rightarrow> []
      | Some p \<Rightarrow> (case dict_get p ''operator_defaults'' of PDict d \<Rightarrow> d | _ \<Rightarrow> []))"

definition blank :: "string \<Rightarrow> bool" where
  "blank s = (py_strip s = [])"

definition env_prefix :: string where
  "env_prefix = ''BHIKSHA_RISK_''"

definition sheet_key :: "string \<Rightarrow> string" where
  "sheet_key key =
     py_lower (if py_startswith key env_prefix then drop (length env_prefix) key else key)"

definition raw_value :: "text_source option \<Rightarrow> text_source \<Rightarrow> string \<Rightarrow> string option" where
  "raw_value source env key =
     (let from_sheet = (case source of
            Some get \<Rightarrow> (case get (sheet_key key) of Some v \<Rightarrow> if blank v then None else Some v | None \<Rightarrow> None)
          | None \<Rightarrow> None)
      in case from_sheet of
           Some v \<Rightarrow> Some v
         | None \<Rightarrow> (case env key of Some v \<Rightarrow> if blank v then None else Some v | None \<Rightarrow> None))"

datatype settings_warning =
    InvalidBoolean string string bool
  | InvalidNumber string string "pyfloat option"
  | InvalidInteger string string int
  | MaxDrawdownNotPositive pyfloat
  | FlattenDrawdownNotPositive pyfloat
  | FlattenBelowMax pyfloat pyfloat
  | WindowBelowOne int
  | MinNBelowOne int
  | MinNAboveWindow int int
  | ClusterCapNegative int
  | WarnPctNotPositive pyfloat

definition resolve_bool ::
  "text_source option \<Rightarrow> text_source \<Rightarrow> string \<Rightarrow> bool \<Rightarrow> bool \<times> settings_warning list" where
  "resolve_bool source env key dflt =
     (case raw_value source env key of
        None \<Rightarrow> (dflt, [])
      | Some raw \<Rightarrow>
          let normalized = py_lower (py_strip raw)
          in if normalized \<in> {''1'', ''true'', ''yes'', ''on''} then (True, [])
             else if normalized \<in> {''0'', ''false'', ''no'', ''off''} then (False, [])
             else (dflt, [InvalidBoolean key raw dflt]))"

definition resolve_float ::
  "text_source option \<Rightarrow> text_source \<Rightarrow> string \<Rightarrow> pyfloat \<Rightarrow> pyfloat \<times> settings_warning list" where
  "resolve_float source env key dflt =
     (case raw_value source env key of
        None \<Rightarrow> (dflt, [])
      | Some raw \<Rightarrow> (case parse_float raw of
            Some x \<Rightarrow> (x, [])
          | None \<Rightarrow> (dflt, [InvalidNumber key raw (Some dflt)])))"

definition resolve_optional_float ::
  "text_source option \<Rightarrow> text_source \<Rightarrow> string \<Rightarrow> pyfloat option \<Rightarrow>
   pyfloat option \<times> settings_warning list" where
  "resolve_optional_float source env key dflt =
     (case raw_value source env key of
        None \<Rightarrow> (dflt, [])
      | Some raw \<Rightarrow> (case parse_float raw of
            Some x \<Rightarrow> (Some x, [])
          | None \<Rightarrow> (dflt, [InvalidNumber key raw dflt])))"

text \<open>\<open>int(float(raw))\<close> guarded by \<open>except ValueError\<close>: an infinity is an \<open>OverflowError\<close>.\<close>

definition resolve_int ::
  "text_source option \<Rightarrow> text_source \<Rightarrow> string \<Rightarrow> int \<Rightarrow> (int \<times> settings_warning list) result" where
  "resolve_int source env key dflt =
     (case raw_value source env key of
        None \<Rightarrow> Inr (dflt, [])
      | Some raw \<Rightarrow>
          (case bind_result (float_of (PStr raw)) int_of_float of
             Inr n \<Rightarrow> Inr (n, [])
           | Inl ValueError \<Rightarrow> Inr (dflt, [InvalidInteger key raw dflt])
           | Inl e \<Rightarrow> Inl e))"

definition resolve_optional_datetime ::
  "(string \<Rightarrow> pydt option) \<Rightarrow> text_source option \<Rightarrow> text_source \<Rightarrow> string \<Rightarrow> string list \<Rightarrow>
   pydt option result" where
  "resolve_optional_datetime iso_parse source env key alt_keys =
     (let sheet_values = (case source of
            None \<Rightarrow> []
          | Some get \<Rightarrow> remdups (concat (map (\<lambda>k. case get k of
                 Some v \<Rightarrow> if blank v then [] else [py_strip v] | None \<Rightarrow> [])
               (sheet_key key # alt_keys))));
          from_env = (case env key of
            Some v \<Rightarrow> Some v
          | None \<Rightarrow> (case concat (map (\<lambda>k. case env (env_prefix @ py_upper k) of
                 Some v \<Rightarrow> if blank v then [] else [v] | None \<Rightarrow> []) alt_keys) of
               v # _ \<Rightarrow> Some v | [] \<Rightarrow> None));
          raw = (case sheet_values of v # _ \<Rightarrow> Some v | [] \<Rightarrow> from_env)
      in if 1 < length sheet_values then Inl ValueError
         else (case raw of
             None \<Rightarrow> Inr None
           | Some v \<Rightarrow> (case iso_parse (py_strip v) of
                 Some (Aware t) \<Rightarrow> Inr (Some (Aware t))
               | _ \<Rightarrow> Inl ValueError)))"

section \<open>Settings\<close>

record risk_settings =
  rail_a_enabled :: bool
  rail_b_enabled :: bool
  max_daily_drawdown_pct :: pyfloat
  flatten_daily_drawdown_pct :: pyfloat
  demote_window :: int
  demote_min_n :: int
  demote_threshold_usd :: pyfloat
  prospective_loss_enabled :: bool
  max_open_positions_per_cluster :: int
  open_drawdown_warn_pct :: "pyfloat option"
  demote_reset_at :: "pydt option"
  validation_warnings :: "settings_warning list"

abbreviation DEFAULT_MAX_DD :: pyfloat where "DEFAULT_MAX_DD \<equiv> Fin 2"
abbreviation DEFAULT_FLATTEN_DD :: pyfloat where "DEFAULT_FLATTEN_DD \<equiv> Fin 3"

text \<open>The reads at the head of \<open>resolve_risk_settings\<close>, warnings in the order of the reads.\<close>

definition read_settings ::
  "(string \<Rightarrow> pydt option) \<Rightarrow> text_source option \<Rightarrow> text_source \<Rightarrow> risk_settings result" where
  "read_settings iso_parse source env =
     (let (ra, w1) = resolve_bool source env ''BHIKSHA_RISK_RAIL_A_ENABLED'' True;
          (rb, w2) = resolve_bool source env ''BHIKSHA_RISK_RAIL_B_ENABLED'' True;
          (mx, w3) = resolve_float source env ''BHIKSHA_RISK_MAX_DAILY_DRAWDOWN_PCT'' DEFAULT_MAX_DD;
          (fl, w4) = resolve_float source env ''BHIKSHA_RISK_FLATTEN_DAILY_DRAWDOWN_PCT'' DEFAULT_FLATTEN_DD
      in bind_result (resolve_int source env ''BHIKSHA_RISK_DEMOTE_WINDOW'' 10) (\<lambda>(win, w5).
         bind_result (resolve_int source env ''BHIKSHA_RISK_DEMOTE_MIN_N'' 10) (\<lambda>(mn, w6).
         let (th, w7) = resolve_float source env ''BHIKSHA_RISK_DEMOTE_THRESHOLD_USD'' (Fin 0);
             (pl, w8) = resolve_bool source env ''BHIKSHA_RISK_PROSPECTIVE_LOSS_ENABLED'' True
         in bind_result (resolve_int source env ''BHIKSHA_RISK_MAX_OPEN_POSITIONS_PER_CLUSTER'' 1) (\<lambda>(cl, w9).
         let (wp, w10) = resolve_optional_float source env ''BHIKSHA_RISK_OPEN_DRAWDOWN_WARN_PCT'' None
         in bind_result (resolve_optional_datetime iso_parse source env ''BHIKSHA_RISK_DEMOTE_RESET_AT''
                [''rail_b_reset_at'', ''demote_reset_at'']) (\<lambda>reset.
            Inr \<lparr>rail_a_enabled = ra, rail_b_enabled = rb, max_daily_drawdown_pct = mx,
                 flatten_daily_drawdown_pct = fl, demote_window = win, demote_min_n = mn,
                 demote_threshold_usd = th, prospective_loss_enabled = pl,
                 max_open_positions_per_cluster = cl, open_drawdown_warn_pct = wp,
                 demote_reset_at = reset,
                 validation_warnings = w1 @ w2 @ w3 @ w4 @ w5 @ w6 @ w7 @ w8 @ w9 @ w10\<rparr>)))))"

text \<open>The range and cross checks, each one warning and one replacement.\<close>

definition warn :: "bool \<Rightarrow> settings_warning \<Rightarrow> (risk_settings \<Rightarrow> risk_settings) \<Rightarrow> risk_settings \<Rightarrow> risk_settings" where
  "warn cond w fix_it s =
     (if cond then (fix_it s)\<lparr>validation_warnings := validation_warnings s @ [w]\<rparr> else s)"

definition check_drawdown :: "risk_settings \<Rightarrow> risk_settings" where
  "check_drawdown s0 =
     (let s1 = warn (f_le (max_daily_drawdown_pct s0) (Fin 0))
             (MaxDrawdownNotPositive (max_daily_drawdown_pct s0))
             (\<lambda>s. s\<lparr>max_daily_drawdown_pct := DEFAULT_MAX_DD\<rparr>) s0;
          s2 = warn (f_le (flatten_daily_drawdown_pct s1) (Fin 0))
             (FlattenDrawdownNotPositive (flatten_daily_drawdown_pct s1))
             (\<lambda>s. s\<lparr>flatten_daily_drawdown_pct := DEFAULT_FLATTEN_DD\<rparr>) s1
      in warn (f_lt (flatten_daily_drawdown_pct s2) (max_daily_drawdown_pct s2))
             (FlattenBelowMax (flatten_daily_drawdown_pct s2) (max_daily_drawdown_pct s2))
             (\<lambda>s. s\<lparr>flatten_daily_drawdown_pct := max_daily_drawdown_pct s\<rparr>) s2)"

definition check_counts :: "risk_settings \<Rightarrow> risk_settings" where
  "check_counts s0 =
     (let s1 = warn (demote_window s0 < 1) (WindowBelowOne (demote_window s0))
             (\<lambda>s. s\<lparr>demote_window := 10\<rparr>) s0;
          s2 = warn (demote_min_n s1 < 1) (MinNBelowOne (demote_min_n s1))
             (\<lambda>s. s\<lparr>demote_min_n := 10\<rparr>) s1;
          s3 = warn (demote_min_n s2 > demote_window s2)
             (MinNAboveWindow (demote_min_n s2) (demote_window s2))
             (\<lambda>s. s\<lparr>demote_min_n := demote_window s\<rparr>) s2
      in warn (max_open_positions_per_cluster s3 < 0)
             (ClusterCapNegative (max_open_positions_per_cluster s3))
             (\<lambda>s. s\<lparr>max_open_positions_per_cluster := 1\<rparr>) s3)"

definition check_warn_pct :: "risk_settings \<Rightarrow> risk_settings" where
  "check_warn_pct s =
     (case open_drawdown_warn_pct s of
        None \<Rightarrow> s
      | Some p \<Rightarrow> warn (f_le p (Fin 0)) (WarnPctNotPositive p) (\<lambda>s. s\<lparr>open_drawdown_warn_pct := None\<rparr>) s)"

definition resolve_risk_settings ::
  "(string \<Rightarrow> pydt option) \<Rightarrow> text_source option \<Rightarrow> text_source \<Rightarrow> risk_settings result" where
  "resolve_risk_settings iso_parse source env =
     bind_result (read_settings iso_parse source env)
       (\<lambda>s. Inr (check_warn_pct (check_counts (check_drawdown s))))"

section \<open>What a resolved setting satisfies\<close>

lemma warn_simps [simp]:
  "warn True w g s = (g s)\<lparr>validation_warnings := validation_warnings s @ [w]\<rparr>"
  "warn False w g s = s"
  by (simp_all add: warn_def)

definition drawdown_ok :: "risk_settings \<Rightarrow> bool" where
  "drawdown_ok s \<longleftrightarrow> \<not> f_le (max_daily_drawdown_pct s) (Fin 0)
     \<and> \<not> f_le (flatten_daily_drawdown_pct s) (Fin 0)
     \<and> \<not> f_lt (flatten_daily_drawdown_pct s) (max_daily_drawdown_pct s)"

definition counts_ok :: "risk_settings \<Rightarrow> bool" where
  "counts_ok s \<longleftrightarrow> 1 \<le> demote_min_n s \<and> demote_min_n s \<le> demote_window s
     \<and> 0 \<le> max_open_positions_per_cluster s"

lemma check_drawdown_ok: "drawdown_ok (check_drawdown s)"
proof -
  have irrefl: "\<not> f_lt x x" for x by (cases x) auto
  show ?thesis
    by (auto simp: drawdown_ok_def check_drawdown_def Let_def warn_def irrefl)
qed

lemma check_counts_ok: "counts_ok (check_counts s)"
  by (auto simp: counts_ok_def check_counts_def Let_def warn_def)

lemma check_counts_drawdown: "drawdown_ok (check_counts s) = drawdown_ok s"
  by (auto simp: drawdown_ok_def check_counts_def Let_def warn_def)

lemma check_warn_pct_keeps:
  "drawdown_ok (check_warn_pct s) = drawdown_ok s"
  "counts_ok (check_warn_pct s) = counts_ok s"
  by (auto simp: drawdown_ok_def counts_ok_def check_warn_pct_def warn_def split: option.splits)

lemma check_warn_pct_pos:
  "open_drawdown_warn_pct (check_warn_pct s) = Some p \<Longrightarrow> \<not> f_le p (Fin 0)"
  by (auto simp: check_warn_pct_def warn_def split: option.splits if_splits)

lemma checked_valid:
  assumes "drawdown_ok s"
  shows "max_daily_drawdown_pct s \<noteq> NaN \<and> flatten_daily_drawdown_pct s \<noteq> NaN \<Longrightarrow>
    f_lt (Fin 0) (max_daily_drawdown_pct s) \<and> f_le (max_daily_drawdown_pct s) (flatten_daily_drawdown_pct s)"
  using assms f_not_le by (auto simp: drawdown_ok_def)

text \<open>
  Resolved settings are in range. Whatever texts the sheet and the environment hold,
  when resolution returns, the demotion window holds at least the minimum sample and that
  is at least one, the cluster cap is not negative, an explicit warning percentage is not
  zero or negative, and, unless a drawdown percentage is NaN, the halt percentage is
  positive and the flatten percentage is at least the halt percentage.
\<close>

lemma settings_in_range:
  assumes "resolve_risk_settings iso_parse source env = Inr s"
  shows "1 \<le> demote_min_n s \<and> demote_min_n s \<le> demote_window s
    \<and> 0 \<le> max_open_positions_per_cluster s
    \<and> (case open_drawdown_warn_pct s of None \<Rightarrow> True | Some p \<Rightarrow> \<not> f_le p (Fin 0))
    \<and> (NaN \<in> {max_daily_drawdown_pct s, flatten_daily_drawdown_pct s}
       \<or> f_lt (Fin 0) (max_daily_drawdown_pct s)
         \<and> f_le (max_daily_drawdown_pct s) (flatten_daily_drawdown_pct s))"
proof -
  from assms obtain r where s: "s = check_warn_pct (check_counts (check_drawdown r))"
    by (auto simp: resolve_risk_settings_def bind_result_Inr_iff)
  have c: "counts_ok s" and d: "drawdown_ok s"
    by (simp_all add: s check_warn_pct_keeps check_counts_ok check_counts_drawdown check_drawdown_ok)
  from check_warn_pct_pos [of "check_counts (check_drawdown r)"] s
  have "case open_drawdown_warn_pct s of None \<Rightarrow> True | Some p \<Rightarrow> \<not> f_le p (Fin 0)"
    by (auto split: option.splits)
  with c checked_valid [OF d] show ?thesis by (auto simp: counts_ok_def)
qed

lemma demo_settings:
  "resolve_risk_settings (\<lambda>_. None) None
     [''BHIKSHA_RISK_MAX_DAILY_DRAWDOWN_PCT'' \<mapsto> ''-1'', ''BHIKSHA_RISK_DEMOTE_MIN_N'' \<mapsto> ''20'']
   = Inr \<lparr>rail_a_enabled = True, rail_b_enabled = True, max_daily_drawdown_pct = Fin 2,
       flatten_daily_drawdown_pct = Fin 3, demote_window = 10, demote_min_n = 10,
       demote_threshold_usd = Fin 0, prospective_loss_enabled = True,
       max_open_positions_per_cluster = 1, open_drawdown_warn_pct = None, demote_reset_at = None,
       validation_warnings = [MaxDrawdownNotPositive (Fin (- 1)), MinNAboveWindow 20 10]\<rparr>"
  by code_simp

text \<open>A percentage that is the text of a NaN passes every check.\<close>

lemma read_max:
  "read_settings iso_parse source env = Inr r \<Longrightarrow> max_daily_drawdown_pct r =
     fst (resolve_float source env ''BHIKSHA_RISK_MAX_DAILY_DRAWDOWN_PCT'' DEFAULT_MAX_DD)"
  by (auto simp: read_settings_def bind_result_Inr_iff split_def Let_def)

lemma checks_keep_max:
  "max_daily_drawdown_pct (check_warn_pct s) = max_daily_drawdown_pct s"
  "max_daily_drawdown_pct (check_counts s) = max_daily_drawdown_pct s"
  by (simp_all add: check_warn_pct_def check_counts_def Let_def warn_def split: option.split)

lemma nan_passes:
  assumes "raw_value source env ''BHIKSHA_RISK_MAX_DAILY_DRAWDOWN_PCT'' = Some v" "parse_float v = Some NaN"
    and "resolve_risk_settings iso_parse source env = Inr s"
  shows "max_daily_drawdown_pct s = NaN"
proof -
  from assms(3) obtain r where r: "read_settings iso_parse source env = Inr r"
    and s: "s = check_warn_pct (check_counts (check_drawdown r))"
    by (auto simp: resolve_risk_settings_def bind_result_Inr_iff)
  from read_max [OF r] assms(1,2) have "max_daily_drawdown_pct r = NaN"
    by (simp add: resolve_float_def)
  then have "max_daily_drawdown_pct (check_drawdown r) = NaN"
    by (simp add: check_drawdown_def Let_def warn_def)
  then show ?thesis by (simp add: s checks_keep_max)
qed

text \<open>
  An infinite count escapes the fallback. Every other unreadable value is reported and
  replaced by its default, but a demotion window whose text reads as an infinity makes the
  whole resolution raise \<open>OverflowError\<close>, since only \<open>ValueError\<close> is caught around
  \<open>int(float(raw))\<close>; a text that is no number or a NaN keeps the default with a warning.
\<close>

lemma infinite_count_escapes:
  assumes "raw_value source env ''BHIKSHA_RISK_DEMOTE_WINDOW'' = Some v"
  shows "(parse_float v \<in> {Some PosInf, Some NegInf} \<longrightarrow>
      resolve_risk_settings iso_parse source env = Inl OverflowError)
    \<and> (parse_float v \<in> {None, Some NaN} \<longrightarrow>
      resolve_int source env ''BHIKSHA_RISK_DEMOTE_WINDOW'' 10
        = Inr (10, [InvalidInteger ''BHIKSHA_RISK_DEMOTE_WINDOW'' v 10]))"
proof -
  have "parse_float v \<in> {Some PosInf, Some NegInf} \<Longrightarrow>
      resolve_int source env ''BHIKSHA_RISK_DEMOTE_WINDOW'' 10 = Inl OverflowError"
    using assms by (auto simp: resolve_int_def)
  moreover have "read_settings iso_parse source env = Inl e"
    if "resolve_int source env ''BHIKSHA_RISK_DEMOTE_WINDOW'' 10 = Inl e" for e
    by (simp add: read_settings_def that split_def Let_def)
  moreover have "parse_float v \<in> {None, Some NaN} \<Longrightarrow>
      resolve_int source env ''BHIKSHA_RISK_DEMOTE_WINDOW'' 10
        = Inr (10, [InvalidInteger ''BHIKSHA_RISK_DEMOTE_WINDOW'' v 10])"
    using assms by (auto simp: resolve_int_def)
  ultimately show ?thesis by (simp add: resolve_risk_settings_def)
qed

end
