(* ===== verification/Position_Tracker.thy ===== *)
theory Position_Tracker
  imports Domain
begin

text \<open>
  \<open>src/bhiksha/state/position_tracker.py\<close>: the positions the runtime believes open, with a
  counter per symbol and per deployment, and \<open>src/bhiksha/risk/governor.py\<close>, the entry
  limits that read those counts (called by \<open>src/bhiksha/execution/planner.py\<close>). A
  \<open>Counter\<close> is a function that is zero off its keys.
\<close>

section \<open>The tracker\<close>

record tracked_position =
  tp_symbol :: string
  tp_deployment_id :: string
  tp_trade_id :: "string option"
  tp_option_symbol :: "string option"
  tp_quantity :: int
  tp_entry_price :: "real option"
  tp_underlying_entry_price :: "real option"
  tp_entry_timestamp :: "pydt option"
  tp_source :: string
  tp_order_id :: "string option"
  tp_stop_order_id :: "string option"
  tp_stop_price :: "real option"
  tp_target_order_id :: "string option"
  tp_target_price :: "real option"
  tp_target_activation_price :: "real option"
  tp_target_activation_high_price :: "real option"
  tp_target_activated_at :: "pydt option"
  tp_exit_order_id :: "string option"
  tp_exit_limit_price :: "real option"
  tp_exit_submitted_at :: "pydt option"
  tp_exit_mode :: "exit_mode option"
  tp_exit_reprice_count :: int

record position_tracker =
  by_symbol :: "string \<Rightarrow> int"
  by_deployment :: "string \<Rightarrow> int"
  pt_positions :: "tracked_position list"

definition NON_LIVE_POSITION_SOURCES :: "string list" where
  "NON_LIVE_POSITION_SOURCES = [''shadow'', ''dry_run'']"

definition LIVE_ENTRY_RECONCILIATION_HOLD_SOURCE :: string where
  "LIVE_ENTRY_RECONCILIATION_HOLD_SOURCE = ''live_entry_reconcile_hold''"

definition is_live_position :: "tracked_position \<Rightarrow> bool" where
  "is_live_position p = (tp_source p \<notin> set NON_LIVE_POSITION_SOURCES)"

definition count_where :: "('a \<Rightarrow> bool) \<Rightarrow> 'a list \<Rightarrow> int" where
  "count_where P xs = int (length (filter P xs))"

definition empty_tracker :: position_tracker where
  "empty_tracker = \<lparr>by_symbol = (\<lambda>_. 0), by_deployment = (\<lambda>_. 0), pt_positions = []\<rparr>"

definition rebuild_counters :: "position_tracker \<Rightarrow> position_tracker" where
  "rebuild_counters t = t\<lparr>
     by_symbol := (\<lambda>s. count_where (\<lambda>p. tp_symbol p = s) (pt_positions t)),
     by_deployment := (\<lambda>d. count_where (\<lambda>p. tp_deployment_id p = d) (pt_positions t))\<rparr>"

definition total_open_positions :: "position_tracker \<Rightarrow> int" where
  "total_open_positions t = int (length (pt_positions t))"

definition total_live_open_positions :: "position_tracker \<Rightarrow> int" where
  "total_live_open_positions t = count_where is_live_position (pt_positions t)"

definition symbol_open_positions :: "position_tracker \<Rightarrow> string \<Rightarrow> int" where
  "symbol_open_positions t s = by_symbol t s"

definition live_symbol_open_positions :: "position_tracker \<Rightarrow> string \<Rightarrow> int" where
  "live_symbol_open_positions t s =
     count_where (\<lambda>p. tp_symbol p = s \<and> is_live_position p) (pt_positions t)"

definition deployment_open_positions :: "position_tracker \<Rightarrow> string \<Rightarrow> int" where
  "deployment_open_positions t d = by_deployment t d"

definition live_deployment_open_positions :: "position_tracker \<Rightarrow> string \<Rightarrow> int" where
  "live_deployment_open_positions t d =
     count_where (\<lambda>p. tp_deployment_id p = d \<and> is_live_position p) (pt_positions t)"

definition find_by_option_symbol :: "position_tracker \<Rightarrow> string option \<Rightarrow> tracked_position list" where
  "find_by_option_symbol t opt = filter (\<lambda>p. tp_option_symbol p = opt) (pt_positions t)"

definition replace_positions :: "tracked_position list \<Rightarrow> position_tracker \<Rightarrow> position_tracker" where
  "replace_positions ps t = rebuild_counters (t\<lparr>pt_positions := ps\<rparr>)"

text \<open>
  The call's arguments are the fields of a position: the first position with the same
  symbol, deployment, trade and option takes every other field from the call, else the
  position is appended.
\<close>

definition same_position :: "tracked_position \<Rightarrow> tracked_position \<Rightarrow> bool" where
  "same_position p q \<longleftrightarrow> tp_symbol p = tp_symbol q \<and> tp_deployment_id p = tp_deployment_id q
     \<and> tp_trade_id p = tp_trade_id q \<and> tp_option_symbol p = tp_option_symbol q"

fun put_position :: "tracked_position \<Rightarrow> tracked_position list \<Rightarrow> tracked_position list" where
  "put_position p [] = [p]"
| "put_position p (q # qs) = (if same_position p q then p # qs else q # put_position p qs)"

definition open_position :: "tracked_position \<Rightarrow> position_tracker \<Rightarrow> position_tracker" where
  "open_position p t = rebuild_counters (t\<lparr>pt_positions := put_position p (pt_positions t)\<rparr>)"

definition matches_close ::
  "string \<Rightarrow> string \<Rightarrow> string option \<Rightarrow> string option \<Rightarrow> tracked_position \<Rightarrow> bool" where
  "matches_close symb dep opt ord p \<longleftrightarrow> tp_symbol p = symb \<and> tp_deployment_id p = dep
     \<and> (opt = None \<or> tp_option_symbol p = opt) \<and> (ord = None \<or> tp_order_id p = ord)"

fun remove_first :: "('a \<Rightarrow> bool) \<Rightarrow> 'a list \<Rightarrow> 'a list" where
  "remove_first P [] = []"
| "remove_first P (x # xs) = (if P x then xs else x # remove_first P xs)"

definition close_position ::
  "string \<Rightarrow> string \<Rightarrow> string option \<Rightarrow> string option \<Rightarrow> position_tracker \<Rightarrow> position_tracker" where
  "close_position symb dep opt ord t = rebuild_counters
     (t\<lparr>pt_positions := remove_first (matches_close symb dep opt ord) (pt_positions t)\<rparr>)"

section \<open>The governor\<close>

record risk_profile =
  max_open_positions_total :: int
  max_open_positions_per_symbol :: int
  max_open_positions_per_deployment :: int
  max_trade_premium_usd :: real

record risk_decision =
  rd_approved :: bool
  rd_reasons :: "string list"

definition check_entry ::
  "risk_profile \<Rightarrow> int \<Rightarrow> int \<Rightarrow> int \<Rightarrow> real \<Rightarrow> bool \<Rightarrow> bool \<Rightarrow> bool \<Rightarrow> risk_decision" where
  "check_entry pr tot symb dep premium enforce_total enforce_symbol enforce_dep =
     (let reasons =
        (if enforce_total \<and> tot \<ge> max_open_positions_total pr
         then [''max_open_positions_total_reached''] else [])
        @ (if enforce_symbol \<and> symb \<ge> max_open_positions_per_symbol pr
           then [''max_open_positions_per_symbol_reached''] else [])
        @ (if enforce_dep \<and> dep \<ge> max_open_positions_per_deployment pr
           then [''max_open_positions_per_deployment_reached''] else [])
        @ (if premium > max_trade_premium_usd pr then [''max_trade_premium_exceeded''] else [])
      in \<lparr>rd_approved = (reasons = []), rd_reasons = (if reasons = [] then [''approved''] else reasons)\<rparr>)"

text \<open>The counts \<open>plan_entry\<close> passes: all positions on a dry run, the live ones otherwise.\<close>

definition planned_entry_check ::
  "risk_profile \<Rightarrow> position_tracker \<Rightarrow> string \<Rightarrow> string \<Rightarrow> real \<Rightarrow> bool \<Rightarrow> bool \<Rightarrow> risk_decision" where
  "planned_entry_check pr t symb dep premium dry_run simulate_only =
     (if dry_run
      then check_entry pr (total_open_positions t) (symbol_open_positions t symb)
             (deployment_open_positions t dep) premium (\<not> simulate_only) (\<not> simulate_only) True
      else check_entry pr (total_live_open_positions t) (live_symbol_open_positions t symb)
             (live_deployment_open_positions t dep) premium (\<not> simulate_only) (\<not> simulate_only) True)"

section \<open>Counts\<close>

definition counters_exact :: "position_tracker \<Rightarrow> bool" where
  "counters_exact t \<longleftrightarrow>
     by_symbol t = (\<lambda>s. count_where (\<lambda>p. tp_symbol p = s) (pt_positions t))
     \<and> by_deployment t = (\<lambda>d. count_where (\<lambda>p. tp_deployment_id p = d) (pt_positions t))"

definition distinct_positions :: "position_tracker \<Rightarrow> bool" where
  "distinct_positions t \<longleftrightarrow> distinct (map (\<lambda>p. (tp_symbol p, tp_deployment_id p, tp_trade_id p, tp_option_symbol p))
     (pt_positions t))"

lemma rebuild_exact [simp]: "counters_exact (rebuild_counters t)"
  by (simp add: counters_exact_def rebuild_counters_def)

lemma rebuild_positions [simp]: "pt_positions (rebuild_counters t) = pt_positions t"
  by (simp add: rebuild_counters_def)

lemma count_where_simps [simp]:
  "count_where P [] = 0"
  "count_where P (x # xs) = (if P x then 1 else 0) + count_where P xs"
  by (simp_all add: count_where_def)

lemma count_where_nonneg: "0 \<le> count_where P xs"
  by (simp add: count_where_def)

lemma count_put_position:
  assumes "\<And>q. same_position p q \<Longrightarrow> P q \<longleftrightarrow> P p"
  shows "count_where P (put_position p ps) \<le> count_where P ps + (if P p then 1 else 0)"
  using assms by (induction ps) (auto simp: count_where_nonneg)

lemma count_put_position_live:
  "count_where P (put_position p ps) \<le> count_where P ps + (if P p then 1 else 0)"
  by (induction ps) auto

lemma count_remove_first: "count_where P (remove_first Q ps) \<le> count_where P ps"
  by (induction ps) auto

lemma length_remove_first:
  "length (remove_first P xs) = length xs - (if \<exists>x \<in> set xs. P x then 1 else 0)"
  by (induction xs) (auto simp: Suc_diff_Suc dest: length_pos_if_in_set)

lemma put_position_keys:
  "(\<lambda>p. (tp_symbol p, tp_deployment_id p, tp_trade_id p, tp_option_symbol p)) ` set (put_position p ps)
   = insert (tp_symbol p, tp_deployment_id p, tp_trade_id p, tp_option_symbol p)
       ((\<lambda>p. (tp_symbol p, tp_deployment_id p, tp_trade_id p, tp_option_symbol p)) ` set ps)"
  by (induction ps) (auto simp: same_position_def)

lemma put_position_distinct:
  "distinct (map (\<lambda>p. (tp_symbol p, tp_deployment_id p, tp_trade_id p, tp_option_symbol p)) ps) \<Longrightarrow>
   distinct (map (\<lambda>p. (tp_symbol p, tp_deployment_id p, tp_trade_id p, tp_option_symbol p)) (put_position p ps))"
proof (induction ps)
  case (Cons q qs)
  then show ?case
    using put_position_keys [of p qs] by (auto simp: same_position_def image_iff)
qed simp

lemma remove_first_distinct:
  "distinct (map f ps) \<Longrightarrow> distinct (map f (remove_first P ps))"
  "set (remove_first P ps) \<subseteq> set ps"
  by (induction ps) auto

datatype tracker_op = Open tracked_position
  | CloseOp string string "string option" "string option"

fun tracker_step :: "tracker_op \<Rightarrow> position_tracker \<Rightarrow> position_tracker" where
  "tracker_step (Open p) t = open_position p t"
| "tracker_step (CloseOp symb dep opt ord) t = close_position symb dep opt ord t"

definition tracker_inv :: "position_tracker \<Rightarrow> bool" where
  "tracker_inv t \<longleftrightarrow> counters_exact t \<and> distinct_positions t"

lemma tracker_step_inv: "tracker_inv t \<Longrightarrow> tracker_inv (tracker_step oper t)"
  by (cases oper) (auto simp: tracker_inv_def distinct_positions_def open_position_def close_position_def
      put_position_distinct remove_first_distinct)

text \<open>
  C22. The counters are exact. After any sequence of opens and closes the per-symbol and
  per-deployment counters are the numbers of tracked positions with that symbol and that
  deployment, no position identity is tracked twice, opening adds at most one position and
  closing removes exactly one when some position matches and none otherwise.
\<close>

theorem tracker_counts_exact:
  shows "let t = fold tracker_step ops empty_tracker in
    symbol_open_positions t s = int (length (filter (\<lambda>p. tp_symbol p = s) (pt_positions t)))
    \<and> deployment_open_positions t d = int (length (filter (\<lambda>p. tp_deployment_id p = d) (pt_positions t)))
    \<and> distinct_positions t
    \<and> total_open_positions (open_position p t)
        = total_open_positions t + (if list_ex (same_position p) (pt_positions t) then 0 else 1)
    \<and> total_open_positions (close_position symb dep opt ord t)
        = total_open_positions t - (if list_ex (matches_close symb dep opt ord) (pt_positions t) then 1 else 0)"
proof -
  let ?t = "fold tracker_step ops empty_tracker"
  have inv: "tracker_inv t0 \<Longrightarrow> tracker_inv (fold tracker_step ops t0)" for t0
    by (induction ops arbitrary: t0) (auto intro: tracker_step_inv)
  have "tracker_inv ?t"
    by (rule inv) (simp add: tracker_inv_def counters_exact_def distinct_positions_def empty_tracker_def)
  moreover have "length (put_position p ps) = length ps + (if list_ex (same_position p) ps then 0 else 1)" for ps
    by (induction ps) auto
  ultimately show ?thesis
    unfolding Let_def
    by (auto simp: tracker_inv_def counters_exact_def symbol_open_positions_def deployment_open_positions_def
        count_where_def total_open_positions_def open_position_def close_position_def length_remove_first
        list_ex_iff Suc_le_eq of_nat_diff dest: length_pos_if_in_set)
qed

text \<open>The limits, as an invariant of the live positions.\<close>

definition within_limits :: "risk_profile \<Rightarrow> position_tracker \<Rightarrow> bool" where
  "within_limits pr t \<longleftrightarrow> total_live_open_positions t \<le> max_open_positions_total pr
     \<and> (\<forall>s. live_symbol_open_positions t s \<le> max_open_positions_per_symbol pr)
     \<and> (\<forall>d. live_deployment_open_positions t d \<le> max_open_positions_per_deployment pr)"

lemma check_entry_approved:
  "rd_approved (check_entry pr tot symb dep premium et es ed) \<longleftrightarrow>
     (et \<longrightarrow> tot < max_open_positions_total pr) \<and> (es \<longrightarrow> symb < max_open_positions_per_symbol pr)
     \<and> (ed \<longrightarrow> dep < max_open_positions_per_deployment pr) \<and> premium \<le> max_trade_premium_usd pr"
  by (auto simp: check_entry_def Let_def)

text \<open>
  C23. Approved entries respect the limits. If the live positions are within the profile's
  limits, then they still are after any close, and after opening a position the governor
  approved for its symbol and deployment with the counts the planner passes (a real entry,
  not a simulation).
\<close>

theorem approved_entries_within_limits:
  assumes "within_limits pr t"
  shows "within_limits pr (close_position symb dep opt ord t)
    \<and> (rd_approved (planned_entry_check pr t (tp_symbol p) (tp_deployment_id p) premium False False)
        \<longrightarrow> within_limits pr (open_position p t))"
proof
  have le: "count_where P (remove_first (matches_close symb dep opt ord) (pt_positions t))
      \<le> count_where P (pt_positions t)" for P
    by (rule count_remove_first)
  show "within_limits pr (close_position symb dep opt ord t)"
    using assms le [THEN order_trans]
    by (auto simp: within_limits_def close_position_def total_live_open_positions_def
        live_symbol_open_positions_def live_deployment_open_positions_def)
  have put: "count_where P (put_position p (pt_positions t))
      \<le> count_where P (pt_positions t) + (if P p then 1 else 0)" for P
    by (rule count_put_position_live)
  show "rd_approved (planned_entry_check pr t (tp_symbol p) (tp_deployment_id p) premium False False)
        \<longrightarrow> within_limits pr (open_position p t)"
  proof
    assume "rd_approved (planned_entry_check pr t (tp_symbol p) (tp_deployment_id p) premium False False)"
    then have ok: "total_live_open_positions t < max_open_positions_total pr"
      "live_symbol_open_positions t (tp_symbol p) < max_open_positions_per_symbol pr"
      "live_deployment_open_positions t (tp_deployment_id p) < max_open_positions_per_deployment pr"
      by (simp_all add: planned_entry_check_def check_entry_approved)
    have "live_symbol_open_positions (open_position p t) s \<le> max_open_positions_per_symbol pr" for s
      using put [of "\<lambda>q. tp_symbol q = s \<and> is_live_position q"] ok(2) assms
      by (cases "s = tp_symbol p")
        (auto simp: within_limits_def live_symbol_open_positions_def open_position_def
          intro: order_trans split: if_splits)
    moreover have "live_deployment_open_positions (open_position p t) d \<le> max_open_positions_per_deployment pr" for d
      using put [of "\<lambda>q. tp_deployment_id q = d \<and> is_live_position q"] ok(3) assms
      by (cases "d = tp_deployment_id p")
        (auto simp: within_limits_def live_deployment_open_positions_def open_position_def
          intro: order_trans split: if_splits)
    moreover have "total_live_open_positions (open_position p t) \<le> max_open_positions_total pr"
      using put [of is_live_position] ok(1)
      by (auto simp: total_live_open_positions_def open_position_def split: if_splits)
    ultimately show "within_limits pr (open_position p t)" by (simp add: within_limits_def)
  qed
qed

definition new_position :: "string \<Rightarrow> string \<Rightarrow> tracked_position" where
  "new_position symb dep = \<lparr>tp_symbol = symb, tp_deployment_id = dep, tp_trade_id = None,
     tp_option_symbol = None, tp_quantity = 0, tp_entry_price = None,
     tp_underlying_entry_price = None, tp_entry_timestamp = None, tp_source = ''runtime'',
     tp_order_id = None, tp_stop_order_id = None, tp_stop_price = None, tp_target_order_id = None,
     tp_target_price = None, tp_target_activation_price = None,
     tp_target_activation_high_price = None, tp_target_activated_at = None,
     tp_exit_order_id = None, tp_exit_limit_price = None, tp_exit_submitted_at = None,
     tp_exit_mode = None, tp_exit_reprice_count = 0\<rparr>"

definition demo_profile :: risk_profile where
  "demo_profile = \<lparr>max_open_positions_total = 2, max_open_positions_per_symbol = 1,
     max_open_positions_per_deployment = 1, max_trade_premium_usd = 300\<rparr>"

theorem approved_entries_within_limits_witness:
  "within_limits demo_profile (open_position (new_position ''SPY'' ''d1'') empty_tracker)
   \<and> \<not> rd_approved (planned_entry_check demo_profile
        (open_position (new_position ''SPY'' ''d1'') empty_tracker) ''SPY'' ''d2'' 100 False False)"
proof -
  have w: "within_limits demo_profile empty_tracker"
    by (simp add: within_limits_def demo_profile_def empty_tracker_def total_live_open_positions_def
        live_symbol_open_positions_def live_deployment_open_positions_def)
  have "rd_approved (planned_entry_check demo_profile empty_tracker ''SPY'' ''d1'' 100 False False)"
    by (simp add: planned_entry_check_def check_entry_approved demo_profile_def empty_tracker_def
        total_live_open_positions_def live_symbol_open_positions_def live_deployment_open_positions_def)
  with approved_entries_within_limits [OF w, of "[]" "[]" None None "new_position ''SPY'' ''d1''" 100]
  have "within_limits demo_profile (open_position (new_position ''SPY'' ''d1'') empty_tracker)"
    by (simp add: new_position_def)
  moreover have "\<not> rd_approved (planned_entry_check demo_profile
        (open_position (new_position ''SPY'' ''d1'') empty_tracker) ''SPY'' ''d2'' 100 False False)"
    by (simp add: planned_entry_check_def check_entry_approved demo_profile_def empty_tracker_def
        open_position_def new_position_def is_live_position_def NON_LIVE_POSITION_SOURCES_def
        total_live_open_positions_def live_symbol_open_positions_def live_deployment_open_positions_def)
  ultimately show ?thesis by simp
qed

end
