(* ===== verification/Lifecycle.thy ===== *)
theory Lifecycle
  imports Position_Tracker
begin

text \<open>
  \<open>src/bhiksha/state/lifecycle.py\<close>: one lifecycle record per (symbol, deployment) slot, the
  operations that move it, and the synchronisation from the tracked positions, each
  returning the transition to log. The Python dictionary is an association list in
  insertion order. What the log promises is stated by replaying it.
\<close>

section \<open>The store\<close>

datatype lifecycle_state = PENDING_ENTRY | OPEN_UNPROTECTED | OPEN_PROTECTED | TARGET_ACTIVE
  | EXIT_PENDING | CLOSED | RECONCILIATION_HOLD

record trade_lifecycle =
  tl_symbol :: string
  tl_deployment_id :: string
  tl_state :: lifecycle_state
  tl_option_symbol :: "string option"
  tl_order_id :: "string option"

record lifecycle_transition =
  lt_symbol :: string
  lt_deployment_id :: string
  lt_previous_state :: "lifecycle_state option"
  lt_new_state :: lifecycle_state
  lt_option_symbol :: "string option"
  lt_order_id :: "string option"

type_synonym slot = "string \<times> string"
type_synonym lifecycle_store = "(slot \<times> trade_lifecycle) list"

definition lifecycle_get :: "lifecycle_store \<Rightarrow> slot \<Rightarrow> trade_lifecycle option" where
  "lifecycle_get s k = map_of s k"

definition can_submit_entry :: "lifecycle_store \<Rightarrow> slot \<Rightarrow> bool" where
  "can_submit_entry s k =
     (case lifecycle_get s k of None \<Rightarrow> True | Some r \<Rightarrow> tl_state r = CLOSED)"

definition transition :: "trade_lifecycle option \<Rightarrow> trade_lifecycle \<Rightarrow> lifecycle_transition option" where
  "transition previous current =
     (let unchanged = (case previous of
            None \<Rightarrow> False
          | Some p \<Rightarrow> tl_state p = tl_state current \<and> tl_option_symbol p = tl_option_symbol current
              \<and> tl_order_id p = tl_order_id current)
      in if unchanged then None
         else Some \<lparr>lt_symbol = tl_symbol current, lt_deployment_id = tl_deployment_id current,
                lt_previous_state = map_option tl_state previous, lt_new_state = tl_state current,
                lt_option_symbol = tl_option_symbol current, lt_order_id = tl_order_id current\<rparr>)"

text \<open>The body the six marking methods share: store the next record, return the transition.\<close>

definition put_record ::
  "slot \<Rightarrow> lifecycle_state \<Rightarrow> string option \<Rightarrow> string option \<Rightarrow> lifecycle_store \<Rightarrow>
   lifecycle_transition option \<times> lifecycle_store" where
  "put_record k state opt ord s =
     (let previous = lifecycle_get s k;
          next_record = \<lparr>tl_symbol = fst k, tl_deployment_id = snd k, tl_state = state,
            tl_option_symbol = opt, tl_order_id = ord\<rparr>
      in (transition previous next_record, AList.update k next_record s))"

definition begin_entry where
  "begin_entry k opt ord s = put_record k PENDING_ENTRY opt ord s"

definition mark_open where
  "mark_open k opt ord protected s =
     put_record k (if protected then OPEN_PROTECTED else OPEN_UNPROTECTED) opt ord s"

definition mark_target_active where
  "mark_target_active k opt ord s = put_record k TARGET_ACTIVE opt ord s"

definition mark_exit_pending where
  "mark_exit_pending k opt ord s = put_record k EXIT_PENDING opt ord s"

definition mark_closed :: "slot \<Rightarrow> lifecycle_store \<Rightarrow> lifecycle_transition option \<times> lifecycle_store" where
  "mark_closed k s = put_record k CLOSED None None s"

definition mark_reconciliation_hold where
  "mark_reconciliation_hold k opt ord s = put_record k RECONCILIATION_HOLD opt ord s"

text \<open>\<open>a or b\<close> of two optional texts.\<close>

definition or_text :: "string option \<Rightarrow> string option \<Rightarrow> string option" where
  "or_text a b = (if text_truthy a then a else b)"

definition position_slot :: "tracked_position \<Rightarrow> slot" where
  "position_slot p = (tp_symbol p, tp_deployment_id p)"

definition sync_position ::
  "tracked_position \<Rightarrow> lifecycle_store \<Rightarrow> lifecycle_transition option \<times> lifecycle_store" where
  "sync_position p s =
     (if tp_exit_mode p \<noteq> None \<or> tp_exit_order_id p \<noteq> None
      then mark_exit_pending (position_slot p) (tp_option_symbol p)
             (or_text (tp_exit_order_id p) (tp_order_id p)) s
      else if text_truthy (tp_target_order_id p)
      then mark_target_active (position_slot p) (tp_option_symbol p)
             (or_text (tp_target_order_id p) (tp_order_id p)) s
      else mark_open (position_slot p) (tp_option_symbol p) (tp_order_id p)
             (text_truthy (tp_stop_order_id p)) s)"

fun sync_positions ::
  "tracked_position list \<Rightarrow> lifecycle_store \<Rightarrow> lifecycle_transition list \<times> lifecycle_store" where
  "sync_positions [] s = ([], s)"
| "sync_positions (p # ps) s =
     (let (t, s1) = sync_position p s; (ts, s2) = sync_positions ps s1
      in (case t of None \<Rightarrow> ts | Some t \<Rightarrow> t # ts, s2))"

definition ACTIVE_STATES :: "lifecycle_state list" where
  "ACTIVE_STATES = [OPEN_UNPROTECTED, OPEN_PROTECTED, TARGET_ACTIVE, EXIT_PENDING]"

fun close_stale ::
  "slot set \<Rightarrow> lifecycle_store \<Rightarrow> lifecycle_store \<Rightarrow> lifecycle_transition list \<times> lifecycle_store" where
  "close_stale active [] s = ([], s)"
| "close_stale active ((k, r) # snapshot) s =
     (if k \<notin> active \<and> tl_state r \<in> set ACTIVE_STATES
      then (let next_record = \<lparr>tl_symbol = tl_symbol r, tl_deployment_id = tl_deployment_id r,
                  tl_state = CLOSED, tl_option_symbol = None, tl_order_id = None\<rparr>;
                (ts, s2) = close_stale active snapshot (AList.update k next_record s)
            in (case transition (Some r) next_record of None \<Rightarrow> ts | Some t \<Rightarrow> t # ts, s2))
      else close_stale active snapshot s)"

definition sync_from_positions ::
  "tracked_position list \<Rightarrow> lifecycle_store \<Rightarrow> lifecycle_transition list \<times> lifecycle_store" where
  "sync_from_positions ps s =
     (let (ts1, s1) = sync_positions ps s;
          (ts2, s2) = close_stale (set (map position_slot ps)) s1 s1
      in (ts1 @ ts2, s2))"

section \<open>Replaying the log\<close>

type_synonym slot_view = "slot \<Rightarrow> (lifecycle_state \<times> string option \<times> string option) option"

definition view_record :: "trade_lifecycle \<Rightarrow> lifecycle_state \<times> string option \<times> string option" where
  "view_record r = (tl_state r, tl_option_symbol r, tl_order_id r)"

definition view :: "lifecycle_store \<Rightarrow> slot_view" where
  "view s = map_option view_record \<circ> map_of s"

definition replay1 :: "lifecycle_transition \<Rightarrow> slot_view \<Rightarrow> slot_view" where
  "replay1 t v = v((lt_symbol t, lt_deployment_id t) \<mapsto> (lt_new_state t, lt_option_symbol t, lt_order_id t))"

text \<open>The dictionary: one entry per key, each record filed under its own slot.\<close>

definition store_ok :: "lifecycle_store \<Rightarrow> bool" where
  "store_ok s \<longleftrightarrow> distinct (map fst s) \<and> (\<forall>(k, r) \<in> set s. k = (tl_symbol r, tl_deployment_id r))"

lemma view_update: "view (AList.update k r s) = (view s)(k \<mapsto> view_record r)"
  by (auto simp: view_def update_lookup)

lemma transition_NoneE:
  assumes "transition prev r = None"
  obtains p where "prev = Some p" "view_record p = view_record r"
  using assms by (auto simp: transition_def view_record_def Let_def split: option.splits if_splits)

lemma transition_SomeD:
  "transition prev r = Some t \<Longrightarrow> replay1 t v = v((tl_symbol r, tl_deployment_id r) \<mapsto> view_record r)"
  by (auto simp: transition_def view_record_def replay1_def Let_def split: option.splits if_splits)

lemma replay_opt:
  assumes "map_of s k = prev" "k = (tl_symbol r, tl_deployment_id r)"
  shows "fold replay1 (case transition prev r of None \<Rightarrow> ts | Some t \<Rightarrow> t # ts) (view s)
    = fold replay1 ts (view (AList.update k r s))"
proof (cases "transition prev r")
  case None
  then obtain p where "prev = Some p" "view_record p = view_record r"
    by (rule transition_NoneE)
  then have "view s k = Some (view_record r)" using assms(1) by (simp add: view_def)
  then have "view (AList.update k r s) = view s" by (simp add: view_update fun_upd_idem)
  with None show ?thesis by simp
next
  case (Some t)
  then show ?thesis using transition_SomeD [OF Some] assms(2) by (simp add: view_update)
qed

lemma replay_put:
  assumes "put_record k st opt ord s = (t, s')"
  shows "fold replay1 (case t of None \<Rightarrow> ts | Some t \<Rightarrow> t # ts) (view s) = fold replay1 ts (view s')"
  using assms replay_opt [of s k _ "\<lparr>tl_symbol = fst k, tl_deployment_id = snd k, tl_state = st,
     tl_option_symbol = opt, tl_order_id = ord\<rparr>" ts, OF refl]
  by (auto simp: put_record_def lifecycle_get_def Let_def)

lemma update_in_set: "x \<in> set (AList.update k v xs) \<Longrightarrow> x = (k, v) \<or> x \<in> set xs"
  by (induction xs) (auto split: if_splits)

lemma store_ok_update:
  "store_ok s \<Longrightarrow> k = (tl_symbol r, tl_deployment_id r) \<Longrightarrow> store_ok (AList.update k r s)"
  by (auto simp: store_ok_def distinct_update dest!: update_in_set)

lemma put_record_store:
  "put_record k st opt ord s = (t, s') \<Longrightarrow> s' = AList.update k \<lparr>tl_symbol = fst k, tl_deployment_id = snd k,
     tl_state = st, tl_option_symbol = opt, tl_order_id = ord\<rparr> s"
  by (simp add: put_record_def Let_def)

lemma put_record_ok: "put_record k st opt ord s = (t, s') \<Longrightarrow> store_ok s \<Longrightarrow> store_ok s'"
  using put_record_store [of k st opt ord s t s']
    store_ok_update [of s k "\<lparr>tl_symbol = fst k, tl_deployment_id = snd k,
       tl_state = st, tl_option_symbol = opt, tl_order_id = ord\<rparr>"] by simp

lemmas mark_defs = mark_exit_pending_def mark_target_active_def mark_open_def mark_closed_def
  begin_entry_def mark_reconciliation_hold_def

text \<open>The state a position calls for.\<close>

definition position_view :: "tracked_position \<Rightarrow> lifecycle_state \<times> string option \<times> string option" where
  "position_view p =
     (if tp_exit_mode p \<noteq> None \<or> tp_exit_order_id p \<noteq> None
      then (EXIT_PENDING, tp_option_symbol p, or_text (tp_exit_order_id p) (tp_order_id p))
      else if text_truthy (tp_target_order_id p)
      then (TARGET_ACTIVE, tp_option_symbol p, or_text (tp_target_order_id p) (tp_order_id p))
      else (if text_truthy (tp_stop_order_id p) then OPEN_PROTECTED else OPEN_UNPROTECTED,
            tp_option_symbol p, tp_order_id p))"

lemma sync_position_put:
  "\<exists>st opt ord. sync_position p s = put_record (position_slot p) st opt ord s
     \<and> position_view p = (st, opt, ord)"
  by (auto simp: sync_position_def mark_defs position_view_def)

lemma sync_positions_facts:
  assumes "sync_positions ps s = (ts, s')"
  shows "fold replay1 ts (view s) = view s' \<and> (store_ok s \<longrightarrow> store_ok s')
    \<and> view s' = fold (\<lambda>p v. v(position_slot p \<mapsto> position_view p)) ps (view s)"
  using assms
proof (induction ps arbitrary: s ts s')
  case (Cons p ps)
  obtain t s1 where one: "sync_position p s = (t, s1)" by fastforce
  obtain ts1 s2 where rest: "sync_positions ps s1 = (ts1, s2)" by fastforce
  obtain st opt ord where put: "put_record (position_slot p) st opt ord s = (t, s1)"
    "position_view p = (st, opt, ord)"
    using sync_position_put [of p s] one by auto
  have "view s1 = (view s)(position_slot p \<mapsto> position_view p)"
    using put by (simp add: put_record_store [OF put(1)] view_update view_record_def)
  moreover have "ts = (case t of None \<Rightarrow> ts1 | Some t \<Rightarrow> t # ts1)" "s' = s2"
    using Cons.prems one rest by simp_all
  ultimately show ?case
    using Cons.IH [OF rest] replay_put [OF put(1), of ts1] put_record_ok [OF put(1)]
    by (simp del: fun_upd_apply)
qed simp

definition stale :: "slot set \<Rightarrow> lifecycle_state \<times> string option \<times> string option \<Rightarrow> slot \<Rightarrow> bool" where
  "stale active v k \<longleftrightarrow> k \<notin> active \<and> fst v \<in> set ACTIVE_STATES"

definition closed_view :: "slot set \<Rightarrow> slot_view \<Rightarrow> slot_view" where
  "closed_view active v k = (case v k of None \<Rightarrow> None
     | Some w \<Rightarrow> if stale active w k then Some (CLOSED, None, None) else Some w)"

lemma close_stale_facts:
  assumes "close_stale active snap s = (ts, s')" "store_ok s" "distinct (map fst snap)"
    "\<And>k r. (k, r) \<in> set snap \<Longrightarrow> map_of s k = Some r \<and> k = (tl_symbol r, tl_deployment_id r)"
  shows "fold replay1 ts (view s) = view s' \<and> store_ok s'
    \<and> view s' = (\<lambda>k. if k \<in> fst ` set snap then closed_view active (view s) k else view s k)"
  using assms
proof (induction snap arbitrary: s ts s')
  case (Cons kr snap)
  obtain k r where kr: "kr = (k, r)" by (cases kr)
  have k: "map_of s k = Some r" "k = (tl_symbol r, tl_deployment_id r)"
    using Cons.prems(4) by (auto simp: kr)
  show ?case
  proof (cases "k \<notin> active \<and> tl_state r \<in> set ACTIVE_STATES")
    case True
    let ?n = "\<lparr>tl_symbol = tl_symbol r, tl_deployment_id = tl_deployment_id r,
                  tl_state = CLOSED, tl_option_symbol = None, tl_order_id = None\<rparr>"
    obtain ts1 where rest: "close_stale active snap (AList.update k ?n s) = (ts1, s')"
      and ts: "ts = (case transition (Some r) ?n of None \<Rightarrow> ts1 | Some t \<Rightarrow> t # ts1)"
      using Cons.prems(1) True by (auto simp: kr Let_def split: prod.splits)
    have ok: "store_ok (AList.update k ?n s)"
      using Cons.prems(2) k(2) by (intro store_ok_update) simp_all
    have "map_of (AList.update k ?n s) k' = Some r' \<and> k' = (tl_symbol r', tl_deployment_id r')"
      if m: "(k', r') \<in> set snap" for k' r'
    proof -
      have "k' \<noteq> k" using Cons.prems(3) m by (force simp: kr)
      with Cons.prems(4) [of k' r'] m show ?thesis by (auto simp: kr update_lookup)
    qed
    note IH = Cons.IH [OF rest ok _ this]
    have "fold replay1 ts (view s) = fold replay1 ts1 (view (AList.update k ?n s))"
      unfolding ts by (rule replay_opt) (use k in simp_all)
    moreover have "closed_view active (view s) k = Some (view_record ?n)"
      using k(1) True by (simp add: view_def closed_view_def stale_def view_record_def)
    moreover have "closed_view active ((view s)(k \<mapsto> view_record ?n)) k' = closed_view active (view s) k'"
      if "k' \<noteq> k" for k'
      using that by (simp add: closed_view_def)
    moreover have "k \<notin> fst ` set snap" "distinct (map fst snap)"
      using Cons.prems(3) by (simp_all add: kr)
    moreover have IH': "fold replay1 ts1 (view (AList.update k ?n s)) = view s'" "store_ok s'"
      "view s' = (\<lambda>k'. if k' \<in> fst ` set snap
         then closed_view active (view (AList.update k ?n s)) k' else view (AList.update k ?n s) k')"
      using IH \<open>distinct (map fst snap)\<close> by blast+
    moreover have "view s' k' = (if k' \<in> fst ` set ((k, r) # snap) then closed_view active (view s) k' else view s k')"
      for k'
    proof (cases "k' = k")
      case True
      with \<open>k \<notin> fst ` set snap\<close> \<open>closed_view active (view s) k = Some (view_record ?n)\<close>
      show ?thesis by (simp add: IH'(3) view_update)
    next
      case False
      then show ?thesis by (auto simp: IH'(3) view_update closed_view_def)
    qed
    ultimately show ?thesis by (auto simp: kr)
  next
    case False
    then have "close_stale active snap s = (ts, s')"
      using Cons.prems(1) by (auto simp: kr)
    from Cons.IH [OF this Cons.prems(2)] Cons.prems(3,4)
    have IH: "fold replay1 ts (view s) = view s' \<and> store_ok s'
       \<and> view s' = (\<lambda>k. if k \<in> fst ` set snap then closed_view active (view s) k else view s k)"
      by (auto simp: kr)
    moreover have "closed_view active (view s) k = view s k"
      using False k(1) by (auto simp: closed_view_def stale_def view_def view_record_def)
    ultimately show ?thesis by (auto simp: kr fun_eq_iff)
  qed
qed auto

lemma sync_facts:
  assumes "sync_from_positions ps s = (ts, s')" "store_ok s"
  shows "fold replay1 ts (view s) = view s' \<and> store_ok s'
    \<and> view s' = closed_view (set (map position_slot ps))
        (fold (\<lambda>p v. v(position_slot p \<mapsto> position_view p)) ps (view s))"
proof -
  obtain ts1 s1 where one: "sync_positions ps s = (ts1, s1)" by fastforce
  obtain ts2 s2 where two: "close_stale (set (map position_slot ps)) s1 s1 = (ts2, s2)" by fastforce
  note f = sync_positions_facts [OF one]
  have ok: "store_ok s1" using f assms(2) by blast
  have "distinct (map fst s1)" using ok by (simp add: store_ok_def)
  moreover have "\<And>k r. (k, r) \<in> set s1 \<Longrightarrow> map_of s1 k = Some r \<and> k = (tl_symbol r, tl_deployment_id r)"
    using ok by (auto simp: store_ok_def)
  ultimately have g: "fold replay1 ts2 (view s1) = view s2 \<and> store_ok s2
    \<and> view s2 = (\<lambda>k. if k \<in> fst ` set s1 then closed_view (set (map position_slot ps)) (view s1) k else view s1 k)"
    by (rule close_stale_facts [OF two ok])
  have "k \<notin> fst ` set s1 \<Longrightarrow> view s1 k = None" for k
    by (simp add: view_def map_of_eq_None_iff)
  then have "view s2 = closed_view (set (map position_slot ps)) (view s1)"
    using g by (auto simp: fun_eq_iff closed_view_def)
  with assms(1) one two f g show ?thesis
    by (auto simp: sync_from_positions_def)
qed

text \<open>
  The transition log is complete. Replaying the transitions a synchronisation returns
  over the slots' states before it gives exactly the slots' states after it, and the slots
  stay a dictionary filed by symbol and deployment.
\<close>

lemma sync_log_complete:
  assumes "store_ok s"
  shows "fold replay1 (fst (sync_from_positions ps s)) (view s) = view (snd (sync_from_positions ps s))
    \<and> store_ok (snd (sync_from_positions ps s))"
  using sync_facts [of ps s, OF _ assms] by (cases "sync_from_positions ps s") auto

definition demo_store :: lifecycle_store where
  "demo_store = [((''SPY'', ''d1''), \<lparr>tl_symbol = ''SPY'', tl_deployment_id = ''d1'', tl_state = OPEN_PROTECTED,
     tl_option_symbol = None, tl_order_id = Some ''o''\<rparr>)]"

lemma demo_store_ok: "store_ok demo_store"
  by (simp add: demo_store_def store_ok_def)

lemma fold_upd_notin:
  "k \<notin> f ` set ps \<Longrightarrow> fold (\<lambda>p v. v(f p \<mapsto> g p)) ps v k = v k"
  by (induction ps arbitrary: v) auto

lemma fold_upd_in:
  "p \<in> set ps \<Longrightarrow> distinct (map f ps) \<Longrightarrow> fold (\<lambda>p v. v(f p \<mapsto> g p)) ps v (f p) = Some (g p)"
proof (induction ps arbitrary: v)
  case (Cons q qs)
  then show ?case
    using fold_upd_notin [of "f q" f qs g "v(f q \<mapsto> g q)"]
    by (cases "p = q") (auto simp del: fun_upd_apply, simp)
qed simp

text \<open>
  C19. After a synchronisation every slot agrees with the positions. With at most one position
  per slot, a slot with a position is exit-pending, target-active or open according to that
  position's orders and no entry can be submitted for it; a slot without one can take an
  entry unless it was waiting on an entry or on reconciliation before.
\<close>

theorem sync_agrees_with_positions:
  assumes "store_ok s" "distinct (map position_slot ps)"
  shows "view (snd (sync_from_positions ps s)) k =
      (case List.find (\<lambda>p. position_slot p = k) ps of
         Some p \<Rightarrow> Some (position_view p)
       | None \<Rightarrow> closed_view {} (view s) k)
    \<and> (can_submit_entry (snd (sync_from_positions ps s)) k \<longleftrightarrow>
        (k \<notin> set (map position_slot ps)
         \<and> (case lifecycle_get s k of None \<Rightarrow> True
            | Some r \<Rightarrow> tl_state r \<notin> {PENDING_ENTRY, RECONCILIATION_HOLD})))"
proof -
  let ?s' = "snd (sync_from_positions ps s)"
  have v: "view ?s' = closed_view (set (map position_slot ps))
        (fold (\<lambda>p v. v(position_slot p \<mapsto> position_view p)) ps (view s))"
    using sync_facts [of ps s, OF _ assms(1)] by (cases "sync_from_positions ps s") auto
  have fst_pv: "fst (position_view p) \<noteq> CLOSED" for p by (simp add: position_view_def)
  have can: "can_submit_entry ?s' k \<longleftrightarrow> (case view ?s' k of None \<Rightarrow> True | Some w \<Rightarrow> fst w = CLOSED)"
    by (auto simp: can_submit_entry_def lifecycle_get_def view_def view_record_def split: option.splits)
  show ?thesis
  proof (cases "k \<in> set (map position_slot ps)")
    case True
    then obtain p where p: "p \<in> set ps" "position_slot p = k" by auto
    have f: "List.find (\<lambda>p. position_slot p = k) ps = Some p"
    proof -
      obtain q where q: "List.find (\<lambda>p. position_slot p = k) ps = Some q" "q \<in> set ps" "position_slot q = k"
        using p by (cases "List.find (\<lambda>p. position_slot p = k) ps") (auto simp: find_None_iff find_Some_iff)
      with p assms(2) have "q = p" by (auto simp: distinct_map inj_on_def)
      with q show ?thesis by simp
    qed
    have "view ?s' k = Some (position_view p)"
      using fold_upd_in [OF p(1) assms(2), of position_view "view s"] True p(2)
      by (simp add: v closed_view_def stale_def)
    with True f can fst_pv show ?thesis by simp
  next
    case False
    then have f: "List.find (\<lambda>p. position_slot p = k) ps = None"
      by (auto simp: find_None_iff)
    have vk: "view ?s' k = closed_view {} (view s) k"
      using False fold_upd_notin [of k position_slot ps position_view "view s"]
      by (simp add: v closed_view_def stale_def split: option.split)
    have "tl_state r \<in> {CLOSED} \<union> set ACTIVE_STATES \<longleftrightarrow> tl_state r \<notin> {PENDING_ENTRY, RECONCILIATION_HOLD}" for r
      by (cases "tl_state r") (auto simp: ACTIVE_STATES_def)
    with False f vk can show ?thesis
      by (auto simp: closed_view_def stale_def lifecycle_get_def view_def view_record_def split: option.splits)
  qed
qed

theorem sync_agrees_with_positions_witness:
  "\<not> can_submit_entry (snd (sync_from_positions [new_position ''QQQ'' ''d2''] demo_store)) (''QQQ'', ''d2'')
   \<and> can_submit_entry (snd (sync_from_positions [new_position ''QQQ'' ''d2''] demo_store)) (''SPY'', ''d1'')"
proof -
  have d: "distinct (map position_slot [new_position ''QQQ'' ''d2''])" by simp
  from sync_agrees_with_positions [OF demo_store_ok d]
  show ?thesis
    by (simp add: position_slot_def new_position_def lifecycle_get_def demo_store_def)
qed

lemma put_record_same:
  assumes "view s k = Some (st, opt, ord)"
  shows "\<exists>s'. put_record k st opt ord s = (None, s') \<and> view s' = view s"
proof -
  let ?n = "\<lparr>tl_symbol = fst k, tl_deployment_id = snd k, tl_state = st, tl_option_symbol = opt, tl_order_id = ord\<rparr>"
  have "transition (map_of s k) ?n = None"
    using assms by (auto simp: view_def view_record_def transition_def Let_def)
  moreover have "view (AList.update k ?n s) = view s"
    using assms by (simp add: view_update view_record_def fun_upd_idem)
  ultimately show ?thesis by (simp add: put_record_def lifecycle_get_def Let_def)
qed

lemma sync_positions_same:
  assumes "\<And>p. p \<in> set ps \<Longrightarrow> view s (position_slot p) = Some (position_view p)"
  shows "\<exists>s'. sync_positions ps s = ([], s') \<and> view s' = view s"
  using assms
proof (induction ps arbitrary: s)
  case (Cons p ps)
  obtain st opt ord where put: "sync_position p s = put_record (position_slot p) st opt ord s"
    "position_view p = (st, opt, ord)"
    using sync_position_put [of p s] by auto
  obtain s1 where s1: "sync_position p s = (None, s1)" "view s1 = view s"
    using put_record_same [of s "position_slot p" st opt ord] put Cons.prems by auto
  have "\<And>q. q \<in> set ps \<Longrightarrow> view s1 (position_slot q) = Some (position_view q)"
    using Cons.prems s1(2) by simp
  from Cons.IH [OF this] s1 show ?case by auto
qed simp

lemma close_stale_none:
  "(\<And>k r. (k, r) \<in> set snap \<Longrightarrow> \<not> stale active (view_record r) k) \<Longrightarrow> close_stale active snap s = ([], s)"
proof (induction snap)
  case (Cons kr snap)
  obtain k r where kr: "kr = (k, r)" by (cases kr)
  have "\<not> stale active (view_record r) k" by (rule Cons.prems) (simp add: kr)
  moreover have "close_stale active snap s = ([], s)" by (rule Cons.IH) (simp add: Cons.prems)
  ultimately show ?case
    by (subst kr, subst close_stale.simps) (simp only: stale_def view_record_def fst_conv if_False)
qed simp

lemma sync_same:
  assumes "store_ok s" "\<And>p. p \<in> set ps \<Longrightarrow> view s (position_slot p) = Some (position_view p)"
    and "\<And>k w. view s k = Some w \<Longrightarrow> \<not> stale (set (map position_slot ps)) w k"
  shows "\<exists>s'. sync_from_positions ps s = ([], s') \<and> view s' = view s"
proof -
  obtain s1 where s1: "sync_positions ps s = ([], s1)" "view s1 = view s"
    using sync_positions_same [OF assms(2)] by blast
  have ok: "store_ok s1" using sync_positions_facts [OF s1(1)] assms(1) by blast
  have "\<not> stale (set (map position_slot ps)) (view_record r) k" if "(k, r) \<in> set s1" for k r
  proof -
    have "view s1 k = Some (view_record r)" using ok that by (simp add: store_ok_def view_def)
    then show ?thesis using assms(3) [of k "view_record r"] s1(2) by simp
  qed
  then have "close_stale (set (map position_slot ps)) s1 s1 = ([], s1)" by (rule close_stale_none)
  with s1 show ?thesis by (simp add: sync_from_positions_def)
qed

text \<open>
  Synchronisation is idempotent. Synchronising again with the same positions, at most
  one per slot, returns no transition and changes no slot.
\<close>

lemma sync_idempotent:
  assumes "store_ok s" "distinct (map position_slot ps)"
  shows "fst (sync_from_positions ps (snd (sync_from_positions ps s))) = []
    \<and> view (snd (sync_from_positions ps (snd (sync_from_positions ps s)))) = view (snd (sync_from_positions ps s))"
proof -
  let ?s' = "snd (sync_from_positions ps s)"
  let ?act = "set (map position_slot ps)"
  let ?v = "fold (\<lambda>p v. v(position_slot p \<mapsto> position_view p)) ps (view s)"
  have f: "store_ok ?s'" "view ?s' = closed_view ?act ?v"
    using sync_facts [of ps s, OF _ assms(1)] by (cases "sync_from_positions ps s"; simp)+
  have "view ?s' (position_slot p) = Some (position_view p)" if "p \<in> set ps" for p
    using fold_upd_in [OF that assms(2), of position_view "view s"] that
    by (simp add: f(2) closed_view_def stale_def)
  moreover have "\<not> stale ?act w k" if "view ?s' k = Some w" for k w
    using that by (auto simp: f(2) closed_view_def stale_def ACTIVE_STATES_def split: option.splits if_splits)
  ultimately show ?thesis using sync_same [OF f(1), of ps] by auto
qed

end
