(* ===== verification/Cash_Repo.thy ===== *)
theory Cash_Repo
  imports Domain
begin

text \<open>
  The cash budget repository. \<open>cash_repo\<close> is the abstract class \<open>CashBudgetRepository\<close> of
  \<open>src/bhiksha/persistence/repository.py\<close>: its methods as the fields of a record over a
  repository state \<open>'r\<close>. \<open>null_cash_repo\<close> is its no-op class and \<open>sqlite_cash_repo\<close> the
  tables of \<open>src/bhiksha/persistence/sqlite.py\<close>. Each call is one step; opening connections,
  creating tables and the time stamps of the rows are not modelled. What the cash guard
  relies on is stated as a locale and discharged for both.
\<close>

section \<open>The interface\<close>

record 'r cash_repo =
  cb_get_day :: "'r \<Rightarrow> int \<Rightarrow> cash_budget_day option"
  cb_upsert_day :: "cash_budget_day \<Rightarrow> 'r \<Rightarrow> 'r"
  cb_get_reservation :: "'r \<Rightarrow> string \<Rightarrow> cash_reservation option"
  cb_upsert_reservation :: "cash_reservation \<Rightarrow> 'r \<Rightarrow> 'r"
  cb_mark_reservation_status :: "string \<Rightarrow> string \<Rightarrow> 'r \<Rightarrow> 'r"
  cb_reservation_totals :: "'r \<Rightarrow> int \<Rightarrow> (string \<times> real) list"
  cb_release_synthetic :: "int \<Rightarrow> 'r \<Rightarrow> int \<times> 'r"

definition null_cash_repo :: "unit cash_repo" where
  "null_cash_repo = \<lparr>cb_get_day = (\<lambda>_ _. None), cb_upsert_day = (\<lambda>_ r. r),
     cb_get_reservation = (\<lambda>_ _. None), cb_upsert_reservation = (\<lambda>_ r. r),
     cb_mark_reservation_status = (\<lambda>_ _ r. r),
     cb_reservation_totals = (\<lambda>_ _. [(''reserved'', 0), (''consumed'', 0)]),
     cb_release_synthetic = (\<lambda>_ r. (0, r))\<rparr>"

section \<open>The tables\<close>

text \<open>
  \<open>db_sessions\<close> holds trade id and entry order id of the rows of \<open>trade_sessions\<close>, or
  \<^const>\<open>None\<close> when that table does not exist.
\<close>

record cash_db =
  db_days :: "cash_budget_day list"
  db_reservations :: "cash_reservation list"
  db_sessions :: "(string \<times> string option) list option"

text \<open>\<open>INSERT ... ON CONFLICT(key) DO UPDATE\<close>.\<close>

fun upsert_row :: "('a \<Rightarrow> 'k) \<Rightarrow> 'a \<Rightarrow> 'a list \<Rightarrow> 'a list" where
  "upsert_row key x [] = [x]"
| "upsert_row key x (y # ys) = (if key y = key x then x # ys else y # upsert_row key x ys)"

definition sq_get_day :: "cash_db \<Rightarrow> int \<Rightarrow> cash_budget_day option" where
  "sq_get_day db d = List.find (\<lambda>day. cd_trade_date day = d) (db_days db)"

definition sq_upsert_day :: "cash_budget_day \<Rightarrow> cash_db \<Rightarrow> cash_db" where
  "sq_upsert_day day db = db\<lparr>db_days := upsert_row cd_trade_date day (db_days db)\<rparr>"

definition sq_get_reservation :: "cash_db \<Rightarrow> string \<Rightarrow> cash_reservation option" where
  "sq_get_reservation db tid = List.find (\<lambda>x. cr_trade_id x = tid) (db_reservations db)"

definition sq_upsert_reservation :: "cash_reservation \<Rightarrow> cash_db \<Rightarrow> cash_db" where
  "sq_upsert_reservation x db = db\<lparr>db_reservations := upsert_row cr_trade_id x (db_reservations db)\<rparr>"

definition sq_mark_reservation_status :: "string \<Rightarrow> string \<Rightarrow> cash_db \<Rightarrow> cash_db" where
  "sq_mark_reservation_status tid st db = db\<lparr>db_reservations :=
     map (\<lambda>x. if cr_trade_id x = tid then x\<lparr>cr_status := st\<rparr> else x) (db_reservations db)\<rparr>"

definition amount_with :: "int \<Rightarrow> string \<Rightarrow> cash_reservation \<Rightarrow> real" where
  "amount_with d st x = (if cr_trade_date x = d \<and> cr_status x = st then cr_amount x else 0)"

definition sq_reservation_totals :: "cash_db \<Rightarrow> int \<Rightarrow> (string \<times> real) list" where
  "sq_reservation_totals db d =
     [(''reserved'', sum_list (map (amount_with d ''reserved'') (db_reservations db))),
      (''consumed'', sum_list (map (amount_with d ''consumed'') (db_reservations db)))]"

definition synthetic_sessions :: "(string \<times> string option) list \<Rightarrow> string list" where
  "synthetic_sessions ss = map fst (filter (\<lambda>(_, ord). case ord of None \<Rightarrow> False
     | Some o_id \<Rightarrow> o_id = ''SHADOW_ENTRY'' \<or> take 7 o_id = ''DRY_RUN'') ss)"

definition releasable :: "int \<Rightarrow> string list \<Rightarrow> cash_reservation \<Rightarrow> bool" where
  "releasable d tids x \<longleftrightarrow> cr_trade_date x = d \<and> cr_status x \<in> {''reserved'', ''consumed''}
     \<and> cr_trade_id x \<in> set tids"

definition sq_release_synthetic :: "int \<Rightarrow> cash_db \<Rightarrow> int \<times> cash_db" where
  "sq_release_synthetic d db =
     (case db_sessions db of
        None \<Rightarrow> (0, db)
      | Some ss \<Rightarrow>
          let tids = synthetic_sessions ss
          in (int (length (filter (releasable d tids) (db_reservations db))),
              db\<lparr>db_reservations := map (\<lambda>x. if releasable d tids x then x\<lparr>cr_status := ''released''\<rparr> else x)
                   (db_reservations db)\<rparr>))"

definition sqlite_cash_repo :: "cash_db cash_repo" where
  "sqlite_cash_repo = \<lparr>cb_get_day = sq_get_day, cb_upsert_day = sq_upsert_day,
     cb_get_reservation = sq_get_reservation, cb_upsert_reservation = sq_upsert_reservation,
     cb_mark_reservation_status = sq_mark_reservation_status,
     cb_reservation_totals = sq_reservation_totals, cb_release_synthetic = sq_release_synthetic\<rparr>"

section \<open>What the guard relies on\<close>

definition ACTIVE_RESERVATION_STATUSES :: "string list" where
  "ACTIVE_RESERVATION_STATUSES = [''reserved'', ''consumed'']"

text \<open>\<open>sum(totals.get(status, 0.0) for status in ACTIVE_RESERVATION_STATUSES)\<close>.\<close>

definition active_sum :: "(string \<times> real) list \<Rightarrow> real" where
  "active_sum totals = sum_list (map (\<lambda>st. case map_of totals st of None \<Rightarrow> 0 | Some x \<Rightarrow> x)
     ACTIVE_RESERVATION_STATUSES)"

definition committed :: "'r cash_repo \<Rightarrow> 'r \<Rightarrow> int \<Rightarrow> real" where
  "committed R r d = active_sum (cb_reservation_totals R r d)"

definition cents :: "real \<Rightarrow> bool" where
  "cents x \<longleftrightarrow> round2 x = x"

definition day_ok :: "cash_budget_day \<Rightarrow> bool" where
  "day_ok day \<longleftrightarrow> 0 \<le> cd_usable_budget day \<and> cents (cd_usable_budget day)"

lemma cents_iff: "cents x \<longleftrightarrow> (\<exists>k::int. x = of_int k / 100)"
proof
  assume "cents x"
  then show "\<exists>k::int. x = of_int k / 100" by (auto simp: cents_def py_round_def intro: sym)
next
  assume "\<exists>k::int. x = of_int k / 100"
  then obtain k :: int where "x = of_int k / 10 ^ 2" by auto
  then show "cents x" unfolding cents_def by (simp only: py_round_grid)
qed

lemma cents_intros [simp, intro]: "cents 0" "cents (round2 x)"
  by (simp_all add: cents_def)

lemma cents_add: "cents x \<Longrightarrow> cents y \<Longrightarrow> cents (x + y)"
  by (auto simp: cents_iff) (metis add_divide_distrib of_int_add)

lemma cents_diff: "cents x \<Longrightarrow> cents y \<Longrightarrow> cents (x - y)"
  by (auto simp: cents_iff) (metis diff_divide_distrib of_int_diff)

lemma cents_max: "cents x \<Longrightarrow> cents y \<Longrightarrow> cents (max x y)"
  by (simp add: max_def)

lemma cents_sum_list: "(\<And>x. x \<in> set xs \<Longrightarrow> cents (f x)) \<Longrightarrow> cents (sum_list (map f xs))"
  by (induction xs) (auto intro: cents_add)

locale cash_ledger =
  fixes R :: "'r cash_repo" and ok :: "'r \<Rightarrow> bool"
  assumes ok_upsert_day: "ok r \<Longrightarrow> day_ok day \<Longrightarrow> ok (cb_upsert_day R day r)"
    and ok_upsert_reservation:
      "ok r \<Longrightarrow> 0 \<le> cr_amount x \<Longrightarrow> cents (cr_amount x) \<Longrightarrow> ok (cb_upsert_reservation R x r)"
    and ok_mark: "ok r \<Longrightarrow> ok (cb_mark_reservation_status R tid st r)"
    and ok_release: "ok r \<Longrightarrow> ok (snd (cb_release_synthetic R d r))"
    and ok_day: "ok r \<Longrightarrow> cb_get_day R r d = Some day \<Longrightarrow> day_ok day"
    and get_day_reservation: "cb_get_day R (cb_upsert_reservation R x r) d = cb_get_day R r d"
    and get_day_mark: "cb_get_day R (cb_mark_reservation_status R tid st r) d = cb_get_day R r d"
    and get_day_release: "cb_get_day R (snd (cb_release_synthetic R d' r)) d = cb_get_day R r d"
    and committed_nonneg: "ok r \<Longrightarrow> 0 \<le> committed R r d"
    and committed_cents: "ok r \<Longrightarrow> cents (committed R r d)"
    and committed_day: "committed R (cb_upsert_day R day r) d = committed R r d"
    and committed_reservation: "ok r \<Longrightarrow> 0 \<le> cr_amount x \<Longrightarrow>
      committed R (cb_upsert_reservation R x r) d \<le> committed R r d
        + (if cr_trade_date x = d \<and> cr_status x \<in> set ACTIVE_RESERVATION_STATUSES then cr_amount x else 0)"
    and committed_release: "ok r \<Longrightarrow> committed R (snd (cb_release_synthetic R d' r)) d \<le> committed R r d"
    and committed_mark: "ok r \<Longrightarrow> st = ''released'' \<or> st = ''consumed''
        \<and> (\<forall>x. cb_get_reservation R r tid = Some x \<longrightarrow> cr_status x \<in> set ACTIVE_RESERVATION_STATUSES) \<Longrightarrow>
      committed R (cb_mark_reservation_status R tid st r) d \<le> committed R r d"

text \<open>A ledger that also remembers the budget of a day.\<close>

locale cash_day_ledger = cash_ledger +
  assumes get_day_upsert: "cb_get_day R (cb_upsert_day R day r) d
    = (if d = cd_trade_date day then Some day else cb_get_day R r d)"

section \<open>Both repositories provide it\<close>

lemma active_sum_pair:
  "active_sum [(''reserved'', x), (''consumed'', y)] = x + y"
  by (simp add: active_sum_def ACTIVE_RESERVATION_STATUSES_def)

interpretation null_ledger: cash_ledger null_cash_repo "\<lambda>_. True"
  by unfold_locales (simp_all add: null_cash_repo_def committed_def active_sum_pair)

lemma upsert_row_find:
  "List.find (\<lambda>y. key y = k) (upsert_row key x ys) = (if k = key x then Some x else List.find (\<lambda>y. key y = k) ys)"
  by (induction ys) auto

lemma upsert_row_set: "set (upsert_row key x ys) \<subseteq> insert x (set ys)"
  by (induction ys) auto

lemma upsert_row_keys: "distinct (map key ys) \<Longrightarrow> distinct (map key (upsert_row key x ys))"
proof (induction ys)
  case (Cons y ys)
  have "key ` set (upsert_row key x ys) \<subseteq> insert (key x) (key ` set ys)"
    using upsert_row_set [of key x ys] by auto
  with Cons show ?case by auto
qed simp

lemma upsert_row_sum:
  "(\<And>y. y \<in> set ys \<Longrightarrow> 0 \<le> f y) \<Longrightarrow> sum_list (map f (upsert_row key x ys)) \<le> sum_list (map f ys) + (f x :: real)"
  by (induction ys) auto

definition active_amount :: "int \<Rightarrow> cash_reservation \<Rightarrow> real" where
  "active_amount d x = amount_with d ''reserved'' x + amount_with d ''consumed'' x"

lemma sq_committed: "committed sqlite_cash_repo db d = sum_list (map (active_amount d) (db_reservations db))"
  by (simp add: committed_def sqlite_cash_repo_def sq_reservation_totals_def active_sum_pair
      active_amount_def [abs_def] sum_list_addf)

definition sq_ok :: "cash_db \<Rightarrow> bool" where
  "sq_ok db \<longleftrightarrow> (\<forall>day \<in> set (db_days db). day_ok day)
     \<and> (\<forall>x \<in> set (db_reservations db). 0 \<le> cr_amount x \<and> cents (cr_amount x))
     \<and> distinct (map cr_trade_id (db_reservations db))"

lemma active_amount_nonneg: "0 \<le> cr_amount x \<Longrightarrow> 0 \<le> active_amount d x"
  by (simp add: active_amount_def amount_with_def)

lemma active_amount_cents: "cents (cr_amount x) \<Longrightarrow> cents (active_amount d x)"
  by (auto simp: active_amount_def amount_with_def)

lemma active_amount_released: "active_amount d (x\<lparr>cr_status := ''released''\<rparr>) = 0"
  by (simp add: active_amount_def amount_with_def)

lemma active_amount_consumed:
  "cr_status x \<in> set ACTIVE_RESERVATION_STATUSES \<Longrightarrow> active_amount d (x\<lparr>cr_status := ''consumed''\<rparr>) = active_amount d x"
  by (auto simp: active_amount_def amount_with_def ACTIVE_RESERVATION_STATUSES_def)

lemma sum_map_le:
  "(\<And>x. x \<in> set xs \<Longrightarrow> f (g x) \<le> (f x :: real)) \<Longrightarrow> sum_list (map f (map g xs)) \<le> sum_list (map f xs)"
  by (induction xs) (auto intro: add_mono)

lemma sq_ok_map:
  assumes "sq_ok db" "\<And>x. cr_amount (g x) = cr_amount x" "\<And>x. cr_trade_id (g x) = cr_trade_id x"
  shows "sq_ok (db\<lparr>db_reservations := map g (db_reservations db)\<rparr>)"
  using assms by (simp add: sq_ok_def comp_def)

lemma find_key_unique:
  "distinct (map key ys) \<Longrightarrow> y \<in> set ys \<Longrightarrow> List.find (\<lambda>z. key z = key y) ys = Some y"
  by (induction ys) auto

lemmas sq_defs = sqlite_cash_repo_def sq_get_day_def sq_upsert_day_def sq_get_reservation_def
  sq_upsert_reservation_def sq_mark_reservation_status_def

lemma sq_release_db:
  "\<exists>tids. snd (sq_release_synthetic d db) = db\<lparr>db_reservations :=
     map (\<lambda>x. if releasable d tids x then x\<lparr>cr_status := ''released''\<rparr> else x) (db_reservations db)\<rparr>"
proof (cases "db_sessions db")
  case None
  then have "snd (sq_release_synthetic d db) = db\<lparr>db_reservations :=
     map (\<lambda>x. if releasable d [] x then x\<lparr>cr_status := ''released''\<rparr> else x) (db_reservations db)\<rparr>"
    by (simp add: sq_release_synthetic_def releasable_def)
  then show ?thesis by blast
qed (auto simp: sq_release_synthetic_def Let_def)

lemma sq_release_ok: "sq_ok db \<Longrightarrow> sq_ok (snd (sq_release_synthetic d db))"
  using sq_release_db [of d db] by (auto intro!: sq_ok_map)

lemma sq_release_committed:
  assumes "sq_ok db"
  shows "committed sqlite_cash_repo (snd (sq_release_synthetic d' db)) d \<le> committed sqlite_cash_repo db d"
proof -
  obtain tids where e: "snd (sq_release_synthetic d' db) = db\<lparr>db_reservations :=
     map (\<lambda>x. if releasable d' tids x then x\<lparr>cr_status := ''released''\<rparr> else x) (db_reservations db)\<rparr>"
    using sq_release_db by blast
  have "active_amount d (if releasable d' tids x then x\<lparr>cr_status := ''released''\<rparr> else x) \<le> active_amount d x"
    if "x \<in> set (db_reservations db)" for x
    using that assms by (auto simp: sq_ok_def active_amount_released active_amount_nonneg)
  then show ?thesis
    using sum_map_le [of "db_reservations db" "active_amount d"
        "\<lambda>x. if releasable d' tids x then x\<lparr>cr_status := ''released''\<rparr> else x"]
    by (simp add: e sq_committed)
qed

lemma sq_mark_committed:
  assumes "sq_ok db" "st = ''released'' \<or> st = ''consumed''
    \<and> (\<forall>x. sq_get_reservation db tid = Some x \<longrightarrow> cr_status x \<in> set ACTIVE_RESERVATION_STATUSES)"
  shows "committed sqlite_cash_repo (sq_mark_reservation_status tid st db) d \<le> committed sqlite_cash_repo db d"
proof -
  have "active_amount d (if cr_trade_id x = tid then x\<lparr>cr_status := st\<rparr> else x) \<le> active_amount d x"
    if x: "x \<in> set (db_reservations db)" for x
  proof (cases "cr_trade_id x = tid \<and> st \<noteq> ''released''")
    case True
    then have "sq_get_reservation db tid = Some x"
      using x assms(1) find_key_unique [of cr_trade_id "db_reservations db" x]
      by (auto simp: sq_get_reservation_def sq_ok_def)
    with True assms(2) show ?thesis by (simp add: active_amount_consumed)
  next
    case False
    with x assms(1) show ?thesis
      by (auto simp: sq_ok_def active_amount_released active_amount_nonneg)
  qed
  then show ?thesis
    using sum_map_le [of "db_reservations db" "active_amount d"
        "\<lambda>x. if cr_trade_id x = tid then x\<lparr>cr_status := st\<rparr> else x"]
    by (simp add: sq_mark_reservation_status_def sq_committed)
qed

lemma sq_reservation_committed:
  assumes "sq_ok db" "0 \<le> cr_amount x"
  shows "committed sqlite_cash_repo (sq_upsert_reservation x db) d \<le> committed sqlite_cash_repo db d
    + (if cr_trade_date x = d \<and> cr_status x \<in> set ACTIVE_RESERVATION_STATUSES then cr_amount x else 0)"
proof -
  have "active_amount d x = (if cr_trade_date x = d \<and> cr_status x \<in> set ACTIVE_RESERVATION_STATUSES
      then cr_amount x else 0)"
    by (auto simp: active_amount_def amount_with_def ACTIVE_RESERVATION_STATUSES_def)
  with upsert_row_sum [of "db_reservations db" "active_amount d" cr_trade_id x] assms show ?thesis
    by (simp add: sq_committed sq_upsert_reservation_def sq_ok_def active_amount_nonneg)
qed

lemma find_in_set: "List.find P xs = Some x \<Longrightarrow> x \<in> set xs"
  by (auto simp: find_Some_iff)

interpretation sqlite_ledger: cash_day_ledger sqlite_cash_repo sq_ok
proof unfold_locales
  fix r and day :: cash_budget_day assume "sq_ok r" "day_ok day"
  then show "sq_ok (cb_upsert_day sqlite_cash_repo day r)"
    using upsert_row_set [of cd_trade_date day "db_days r"] by (auto simp: sq_defs sq_ok_def)
next
  fix r and x :: cash_reservation assume "sq_ok r" "0 \<le> cr_amount x" "cents (cr_amount x)"
  then show "sq_ok (cb_upsert_reservation sqlite_cash_repo x r)"
    using upsert_row_set [of cr_trade_id x "db_reservations r"]
    by (auto simp: sq_defs sq_ok_def upsert_row_keys)
next
  fix r tid st assume "sq_ok r"
  then show "sq_ok (cb_mark_reservation_status sqlite_cash_repo tid st r)"
    by (auto simp: sq_defs intro!: sq_ok_map)
next
  fix r d assume "sq_ok r"
  then show "sq_ok (snd (cb_release_synthetic sqlite_cash_repo d r))"
    by (simp add: sqlite_cash_repo_def sq_release_ok)
next
  fix r d day assume "sq_ok r" "cb_get_day sqlite_cash_repo r d = Some day"
  then show "day_ok day" by (auto simp: sq_defs sq_ok_def dest: find_in_set)
next
  fix x :: cash_reservation and r d show "cb_get_day sqlite_cash_repo (cb_upsert_reservation sqlite_cash_repo x r) d
    = cb_get_day sqlite_cash_repo r d" by (simp add: sq_defs)
next
  fix tid st r d show "cb_get_day sqlite_cash_repo (cb_mark_reservation_status sqlite_cash_repo tid st r) d
    = cb_get_day sqlite_cash_repo r d" by (simp add: sq_defs)
next
  fix d' r d show "cb_get_day sqlite_cash_repo (snd (cb_release_synthetic sqlite_cash_repo d' r)) d
    = cb_get_day sqlite_cash_repo r d"
    using sq_release_db [of d' r] by (auto simp: sq_defs)
next
  fix r d assume "sq_ok r"
  then show "0 \<le> committed sqlite_cash_repo r d"
    by (auto simp: sq_committed sq_ok_def intro!: sum_list_map_nonneg active_amount_nonneg)
next
  fix r d assume "sq_ok r"
  then show "cents (committed sqlite_cash_repo r d)"
    by (auto simp: sq_committed sq_ok_def intro!: cents_sum_list active_amount_cents)
next
  fix day :: cash_budget_day and r d show "committed sqlite_cash_repo (cb_upsert_day sqlite_cash_repo day r) d = committed sqlite_cash_repo r d"
    by (simp add: sq_committed) (simp add: sq_defs)
next
  fix r and x :: cash_reservation and d assume "sq_ok r" "0 \<le> cr_amount x"
  then show "committed sqlite_cash_repo (cb_upsert_reservation sqlite_cash_repo x r) d \<le> committed sqlite_cash_repo r d
        + (if cr_trade_date x = d \<and> cr_status x \<in> set ACTIVE_RESERVATION_STATUSES then cr_amount x else 0)"
    using sq_reservation_committed by (simp add: sqlite_cash_repo_def)
next
  fix r d' d assume "sq_ok r"
  then show "committed sqlite_cash_repo (snd (cb_release_synthetic sqlite_cash_repo d' r)) d \<le> committed sqlite_cash_repo r d"
    using sq_release_committed by (simp add: sqlite_cash_repo_def)
next
  fix r st tid d
  assume "sq_ok r" "st = ''released'' \<or> st = ''consumed''
        \<and> (\<forall>x. cb_get_reservation sqlite_cash_repo r tid = Some x \<longrightarrow> cr_status x \<in> set ACTIVE_RESERVATION_STATUSES)"
  then show "committed sqlite_cash_repo (cb_mark_reservation_status sqlite_cash_repo tid st r) d \<le> committed sqlite_cash_repo r d"
    using sq_mark_committed [of r st tid d] by (simp add: sqlite_cash_repo_def)
next
  fix day :: cash_budget_day and r d show "cb_get_day sqlite_cash_repo (cb_upsert_day sqlite_cash_repo day r) d
    = (if d = cd_trade_date day then Some day else cb_get_day sqlite_cash_repo r d)"
    by (simp add: sq_defs upsert_row_find)
qed

end
