(* ===== verification/Cash_Guard.thy ===== *)
theory Cash_Guard
  imports Cash_Repo Position_Tracker
begin

text \<open>
  \<open>src/bhiksha/risk/cash_guard.py\<close>: the daily buying budget of a cash account. Every
  operation takes the repository as a parameter. The environment is a function from names
  to texts; the broker calls of the order manager are parameters of each operation: the
  account type (\<^const>\<open>None\<close> when the call raises) and the portfolio (the error's text, or
  what is found under \<open>buyingPower.cashOnlyBuyingPower\<close>). A reservation runs under the
  guard's lock, so each operation is one step.
\<close>

section \<open>Configuration\<close>

type_synonym environment = "string \<Rightarrow> string option"

definition cash_guard_mode :: "environment \<Rightarrow> string" where
  "cash_guard_mode env =
     (let legacy = (case env ''BHIKSHA_ENFORCE_CASH_ONLY_BUYING_POWER'' of
            None \<Rightarrow> ''auto''
          | Some v \<Rightarrow> if py_lower (py_strip v) \<in> {''1'', ''true'', ''yes'', ''on''} then ''on'' else ''off'')
      in case env ''BHIKSHA_CASH_GUARD_MODE'' of
           None \<Rightarrow> legacy
         | Some raw \<Rightarrow>
             let normalized = py_lower (py_strip raw)
             in if raw \<noteq> [] \<and> normalized \<in> {''auto'', ''on'', ''off''} then normalized else legacy)"

definition cash_guard_buffer_pct :: "environment \<Rightarrow> pyfloat" where
  "cash_guard_buffer_pct env =
     (case env ''BHIKSHA_CASH_GUARD_BUFFER_PCT'' of
        None \<Rightarrow> Fin (5/100)
      | Some raw \<Rightarrow> (case parse_float raw of
            None \<Rightarrow> Fin (5/100)
          | Some parsed \<Rightarrow> py_min (py_max parsed (Fin 0)) (Fin (1/2))))"

definition trade_date_et :: "(int \<Rightarrow> int) \<Rightarrow> pydt \<Rightarrow> int" where
  "trade_date_et et timestamp = et_micros et (instant timestamp) div usec_per_day"

definition should_enforce :: "string \<Rightarrow> string option \<Rightarrow> bool" where
  "should_enforce mode account_type =
     (if mode = ''on'' then True
      else if mode = ''off'' then False
      else account_type \<noteq> Some ''MARGIN'')"

text \<open>\<open>account_type\<close>: the broker's text, upper-cased; absent, empty or failing is \<open>None\<close>.\<close>

definition account_type :: "string option \<Rightarrow> string option" where
  "account_type info = (if text_truthy info then map_option py_upper info else None)"

datatype cash_field = CashMissing | CashUnreadable | CashNumber real

fun portfolio_cash_only_buying_power :: "cash_field \<Rightarrow> real option" where
  "portfolio_cash_only_buying_power CashMissing = None"
| "portfolio_cash_only_buying_power CashUnreadable = None"
| "portfolio_cash_only_buying_power (CashNumber x) = Some x"

type_synonym portfolio_call = "string + cash_field"

text \<open>\<open>round(max(0.0, broker_cash * (1.0 - buffer_pct)), 2)\<close>: \<open>max(0.0, NaN)\<close> is zero.\<close>

fun usable_budget_of :: "real \<Rightarrow> pyfloat \<Rightarrow> real" where
  "usable_budget_of broker_cash (Fin b) = round2 (max 0 (broker_cash * (1 - b)))"
| "usable_budget_of broker_cash _ = 0"

definition new_day :: "environment \<Rightarrow> int \<Rightarrow> string option \<Rightarrow> real \<Rightarrow> cash_budget_day" where
  "new_day env d acct broker_cash =
     \<lparr>cd_trade_date = d, cd_account_type = acct, cd_broker_cash = broker_cash,
      cd_usable_budget = usable_budget_of broker_cash (cash_guard_buffer_pct env),
      cd_buffer_pct = cash_guard_buffer_pct env\<rparr>"

definition synthetic_order :: "string option \<Rightarrow> bool" where
  "synthetic_order order_id = (text_truthy order_id \<and> paper_marker (text_or order_id))"

definition cash_cost :: "real option \<Rightarrow> int \<Rightarrow> real option" where
  "cash_cost entry_price quantity =
     (case entry_price of
        None \<Rightarrow> None
      | Some p \<Rightarrow> if quantity \<le> 0 then None else Some (round2 (p * of_int quantity * 100)))"

definition position_cash_cost :: "tracked_position \<Rightarrow> real option" where
  "position_cash_cost p = cash_cost (tp_entry_price p) (tp_quantity p)"

definition trade_cash_cost :: "trade_record \<Rightarrow> real option" where
  "trade_cash_cost t = cash_cost (tr_entry_price t) (tr_quantity t)"

section \<open>Entries\<close>

record cash_guard_result =
  cg_enforced :: bool
  cg_blocked :: bool
  cg_reason :: "string option"
  cg_details :: params

definition guard_result :: "bool \<Rightarrow> bool \<Rightarrow> string option \<Rightarrow> params \<Rightarrow> cash_guard_result" where
  "guard_result e b r ds = \<lparr>cg_enforced = e, cg_blocked = b, cg_reason = r, cg_details = ds\<rparr>"

definition guard_context :: "string \<Rightarrow> string option \<Rightarrow> params" where
  "guard_context mode acct = [(''cash_guard_mode'', PStr mode),
     (''account_type'', (case acct of None \<Rightarrow> PNone | Some a \<Rightarrow> PStr a))]"

definition day_details :: "cash_budget_day \<Rightarrow> params" where
  "day_details day = [(''usable_budget'', PFloat (Fin (cd_usable_budget day))),
     (''broker_cash_only_buying_power'', PFloat (Fin (cd_broker_cash day))),
     (''buffer_pct'', PFloat (cd_buffer_pct day))]"

text \<open>The day row, created on first use; \<open>Inl\<close> is the reason the entry is refused.\<close>

definition day_for_entry ::
  "'r cash_repo \<Rightarrow> environment \<Rightarrow> string option \<Rightarrow> portfolio_call \<Rightarrow> int \<Rightarrow> 'r \<Rightarrow>
   (string + cash_budget_day) \<times> 'r" where
  "day_for_entry R env acct portfolio d r =
     (case cb_get_day R r d of
        Some day \<Rightarrow> (Inr day, r)
      | None \<Rightarrow> (case portfolio of
            Inl err \<Rightarrow> (Inl ''cash_guard_portfolio_unavailable'', r)
          | Inr field \<Rightarrow> (case portfolio_cash_only_buying_power field of
                None \<Rightarrow> (Inl ''cash_guard_cash_unavailable'', r)
              | Some cash \<Rightarrow> let day = new_day env d acct cash in (Inr day, cb_upsert_day R day r))))"

definition reserve_on_day ::
  "'r cash_repo \<Rightarrow> params \<Rightarrow> string \<Rightarrow> real \<Rightarrow> bool \<Rightarrow> int \<Rightarrow> cash_budget_day \<Rightarrow> 'r \<Rightarrow>
   cash_guard_result \<times> 'r" where
  "reserve_on_day R ctx trade_id required_cash reserve d day r =
     (let r1 = snd (cb_release_synthetic R d r);
          consumed_cash = active_sum (cb_reservation_totals R r1 d);
          remaining_budget = round2 (max 0 (cd_usable_budget day - consumed_cash))
      in if required_cash > remaining_budget
         then (guard_result True True (Some ''insufficient_internal_settled_cash_budget'')
                ([(''required_cash'', PFloat (Fin required_cash)),
                  (''remaining_budget'', PFloat (Fin remaining_budget))] @ day_details day @ ctx), r1)
         else if \<not> reserve
         then (guard_result True False None
                ([(''remaining_budget'', PFloat (Fin remaining_budget)),
                  (''usable_budget'', PFloat (Fin (cd_usable_budget day)))] @ ctx), r1)
         else (guard_result True False None
                ([(''reserved_cash'', PFloat (Fin required_cash)),
                  (''remaining_budget'', PFloat (Fin (round2 (max 0 (remaining_budget - required_cash)))))]
                 @ day_details day @ ctx),
               cb_upsert_reservation R \<lparr>cr_trade_id = trade_id, cr_trade_date = d,
                 cr_amount = required_cash, cr_status = ''reserved''\<rparr> r1))"

definition reserve_entry ::
  "'r cash_repo \<Rightarrow> environment \<Rightarrow> (int \<Rightarrow> int) \<Rightarrow> string option \<Rightarrow> portfolio_call \<Rightarrow>
   string \<Rightarrow> real \<Rightarrow> pydt \<Rightarrow> bool \<Rightarrow> 'r \<Rightarrow> cash_guard_result \<times> 'r" where
  "reserve_entry R env et info portfolio trade_id required_cash timestamp reserve r =
     (let mode = cash_guard_mode env
      in if mode = ''off'' then (guard_result False False None [], r)
         else let acct = account_type info
         in if \<not> should_enforce mode acct then (guard_result False False None (guard_context mode acct), r)
         else let required = round2 (max required_cash 0);
                  d = trade_date_et et timestamp
         in (case day_for_entry R env acct portfolio d r of
               (Inl reason, r1) \<Rightarrow>
                 (guard_result True True (Some reason)
                    ((case portfolio of Inl err \<Rightarrow> [(''error'', PStr err)] | Inr _ \<Rightarrow> []) @ guard_context mode acct), r1)
             | (Inr day, r1) \<Rightarrow> reserve_on_day R (guard_context mode acct) trade_id required reserve d day r1))"

definition preview_entry ::
  "'r cash_repo \<Rightarrow> environment \<Rightarrow> (int \<Rightarrow> int) \<Rightarrow> string option \<Rightarrow> portfolio_call \<Rightarrow>
   string \<Rightarrow> pydt \<Rightarrow> 'r \<Rightarrow> cash_guard_result \<times> 'r" where
  "preview_entry R env et info portfolio trade_id timestamp r =
     reserve_entry R env et info portfolio trade_id 0 timestamp False r"

definition finalize_entry :: "'r cash_repo \<Rightarrow> string \<Rightarrow> 'r \<Rightarrow> 'r" where
  "finalize_entry R trade_id r =
     (case cb_get_reservation R r trade_id of
        None \<Rightarrow> r
      | Some x \<Rightarrow> if cr_status x = ''consumed'' then r else cb_mark_reservation_status R trade_id ''consumed'' r)"

definition release_entry :: "'r cash_repo \<Rightarrow> string \<Rightarrow> 'r \<Rightarrow> 'r" where
  "release_entry R trade_id r =
     (case cb_get_reservation R r trade_id of
        None \<Rightarrow> r
      | Some x \<Rightarrow> if cr_status x = ''released'' then r else cb_mark_reservation_status R trade_id ''released'' r)"

section \<open>Synchronisation with the positions\<close>

definition ensure_day ::
  "'r cash_repo \<Rightarrow> environment \<Rightarrow> (int \<Rightarrow> int) \<Rightarrow> portfolio_call \<Rightarrow> pydt \<Rightarrow> string option \<Rightarrow> 'r \<Rightarrow>
   cash_budget_day option \<times> 'r" where
  "ensure_day R env et portfolio timestamp acct r =
     (let d = trade_date_et et timestamp
      in case cb_get_day R r d of
           Some day \<Rightarrow> (Some day, r)
         | None \<Rightarrow> (case portfolio of
               Inl err \<Rightarrow> (None, r)
             | Inr field \<Rightarrow> (case portfolio_cash_only_buying_power field of
                   None \<Rightarrow> (None, r)
                 | Some cash \<Rightarrow> let day = new_day env d acct cash in (Some day, cb_upsert_day R day r))))"

definition record_cost ::
  "'r cash_repo \<Rightarrow> environment \<Rightarrow> (int \<Rightarrow> int) \<Rightarrow> portfolio_call \<Rightarrow> string option \<Rightarrow>
   string \<Rightarrow> real option \<Rightarrow> pydt \<Rightarrow> string \<Rightarrow> 'r \<Rightarrow> 'r" where
  "record_cost R env et portfolio acct trade_id amount timestamp status r =
     (case amount of
        None \<Rightarrow> r
      | Some a \<Rightarrow> cb_upsert_reservation R
          \<lparr>cr_trade_id = trade_id, cr_trade_date = trade_date_et et timestamp, cr_amount = a, cr_status = status\<rparr>
          (snd (ensure_day R env et portfolio timestamp acct r)))"

definition sync_guard_position ::
  "'r cash_repo \<Rightarrow> environment \<Rightarrow> (int \<Rightarrow> int) \<Rightarrow> portfolio_call \<Rightarrow> string option \<Rightarrow> pydt \<Rightarrow>
   tracked_position \<Rightarrow> 'r \<Rightarrow> 'r" where
  "sync_guard_position R env et portfolio acct now p r =
     (case tp_trade_id p of
        None \<Rightarrow> r
      | Some tid \<Rightarrow>
          if synthetic_order (tp_order_id p) then r
          else if tp_source p \<in> set NON_LIVE_POSITION_SOURCES \<and> \<not> text_truthy (tp_order_id p) then r
          else (case cb_get_reservation R r tid of
              None \<Rightarrow> record_cost R env et portfolio acct tid (position_cash_cost p)
                 (case tp_entry_timestamp p of Some ts \<Rightarrow> ts | None \<Rightarrow> now) ''consumed'' r
            | Some x \<Rightarrow> if cr_status x = ''reserved''
                then cb_mark_reservation_status R tid ''consumed'' r else r))"

definition sync_guard_trade ::
  "'r cash_repo \<Rightarrow> environment \<Rightarrow> (int \<Rightarrow> int) \<Rightarrow> portfolio_call \<Rightarrow> string option \<Rightarrow>
   trade_record \<Rightarrow> 'r \<Rightarrow> 'r" where
  "sync_guard_trade R env et portfolio acct t r =
     (case tr_entry_timestamp t of
        None \<Rightarrow> r
      | Some ts \<Rightarrow>
          if synthetic_order (tr_entry_order_id t) then r
          else if tr_status t \<notin> {''pending_entry'', ''pending_entry_reconcile''} then r
          else (case cb_get_reservation R r (tr_trade_id t) of
              Some x \<Rightarrow> r
            | None \<Rightarrow> record_cost R env et portfolio acct (tr_trade_id t) (trade_cash_cost t) ts ''reserved'' r))"

definition guard_sync_positions ::
  "'r cash_repo \<Rightarrow> environment \<Rightarrow> (int \<Rightarrow> int) \<Rightarrow> string option \<Rightarrow> portfolio_call \<Rightarrow> pydt \<Rightarrow>
   tracked_position list \<Rightarrow> trade_record list \<Rightarrow> 'r \<Rightarrow> 'r" where
  "guard_sync_positions R env et info portfolio now positions trades r =
     (let mode = cash_guard_mode env; acct = account_type info
      in if mode = ''off'' \<or> \<not> should_enforce mode acct then r
         else fold (sync_guard_trade R env et portfolio acct) trades
                (fold (sync_guard_position R env et portfolio acct now) positions
                   (snd (cb_release_synthetic R (trade_date_et et now) r))))"

section \<open>The budget is not exceeded\<close>

lemma usable_budget_ok: "0 \<le> usable_budget_of b p \<and> cents (usable_budget_of b p)"
  by (cases p) (auto simp: py_round_nonneg)

lemma new_day_ok: "day_ok (new_day env d acct cash)"
  using usable_budget_ok by (simp add: day_ok_def new_day_def)

lemma new_day_date [simp]: "cd_trade_date (new_day env d acct cash) = d"
  by (simp add: new_day_def)

context cash_ledger
begin

lemma day_for_entry_ok:
  assumes "ok r" "day_for_entry R env acct portfolio d r = (Inr day, r1)"
  shows "ok r1 \<and> day_ok day \<and> (cb_get_day R r d = Some day \<and> r1 = r
    \<or> cb_get_day R r d = None \<and> r1 = cb_upsert_day R day r \<and> cd_trade_date day = d)"
  using assms
  by (auto simp: day_for_entry_def Let_def new_day_ok ok_upsert_day new_day_date
      dest: ok_day split: option.splits sum.splits)

lemma reserve_on_day_committed:
  assumes "ok r" "day_ok day" "0 \<le> req" "cents req"
    and "reserve_on_day R ctx tid req rsv d day r = (res, r')"
  shows "ok r' \<and> (\<forall>d'. d' \<noteq> d \<longrightarrow> committed R r' d' \<le> committed R r d')
    \<and> cb_get_day R r' = cb_get_day R r
    \<and> (\<not> cg_blocked res \<and> rsv \<and> 0 < req \<longrightarrow> committed R r' d \<le> cd_usable_budget day)
    \<and> (committed R r d \<le> cd_usable_budget day \<longrightarrow> committed R r' d \<le> cd_usable_budget day)"
proof -
  let ?r1 = "snd (cb_release_synthetic R d r)"
  have ok1: "ok ?r1" by (rule ok_release [OF assms(1)])
  have le1: "committed R ?r1 d' \<le> committed R r d'" for d' by (rule committed_release [OF assms(1)])
  have d1: "cb_get_day R ?r1 = cb_get_day R r" by (rule ext) (rule get_day_release)
  let ?rem = "round2 (max 0 (cd_usable_budget day - committed R ?r1 d))"
  have "cents (max 0 (cd_usable_budget day - committed R ?r1 d))"
    using assms(2) committed_cents [OF ok1, of d] by (intro cents_max cents_diff) (auto simp: day_ok_def)
  then have rem: "?rem = max 0 (cd_usable_budget day - committed R ?r1 d)" by (simp add: cents_def)
  consider (blocked) "r' = ?r1" "cg_blocked res \<or> \<not> rsv"
    | (reserved) "r' = cb_upsert_reservation R \<lparr>cr_trade_id = tid, cr_trade_date = d,
         cr_amount = req, cr_status = ''reserved''\<rparr> ?r1" "req \<le> ?rem"
    using assms(5) by (auto simp: reserve_on_day_def guard_result_def Let_def committed_def split: if_splits)
  then show ?thesis
  proof cases
    case blocked
    then show ?thesis using ok1 le1 d1 by (auto intro: order_trans)
  next
    case reserved
    let ?x = "\<lparr>cr_trade_id = tid, cr_trade_date = d, cr_amount = req, cr_status = ''reserved''\<rparr>"
    have c: "committed R r' d' \<le> committed R ?r1 d' + (if d' = d then req else 0)" for d'
      using committed_reservation [OF ok1, of ?x d'] assms(3)
      by (auto simp: reserved ACTIVE_RESERVATION_STATUSES_def split: if_splits)
    have "ok r'" using ok_upsert_reservation [OF ok1, of ?x] assms(3,4) by (simp add: reserved)
    moreover have "cb_get_day R r' = cb_get_day R r"
      using d1 by (auto simp: reserved get_day_reservation fun_eq_iff)
    moreover have "\<forall>d'. d' \<noteq> d \<longrightarrow> committed R r' d' \<le> committed R r d'"
    proof (intro allI impI)
      fix d' assume "d' \<noteq> d"
      with c [of d'] le1 [of d'] show "committed R r' d' \<le> committed R r d'" by simp
    qed
    moreover have "0 < req \<longrightarrow> committed R r' d \<le> cd_usable_budget day"
      using c [of d] reserved(2) rem by (auto simp: max_def split: if_splits)
    moreover have "committed R r d \<le> cd_usable_budget day \<longrightarrow> committed R r' d \<le> cd_usable_budget day"
      using c [of d] reserved(2) rem le1 [of d] by (auto simp: max_def split: if_splits)
    ultimately show ?thesis by blast
  qed
qed

lemma required_cents: "0 \<le> round2 (max x 0) \<and> cents (round2 (max x 0))"
  by (simp add: py_round_nonneg)

lemma reserve_approved:
  assumes "ok r" "reserve_entry R env et info portfolio tid required ts True r = (res, r')"
    and "cg_enforced res" "\<not> cg_blocked res" "0 < round2 (max required 0)"
  shows "\<exists>day. day_ok day \<and> committed R r' (trade_date_et et ts) \<le> cd_usable_budget day \<and> ok r'
    \<and> (cb_get_day R r (trade_date_et et ts) = Some day \<and> cb_get_day R r' = cb_get_day R r
       \<or> cb_get_day R r (trade_date_et et ts) = None \<and> cd_trade_date day = trade_date_et et ts
         \<and> cb_get_day R r' = cb_get_day R (cb_upsert_day R day r))"
proof -
  let ?d = "trade_date_et et ts"
  obtain day r1 where d: "day_for_entry R env (account_type info) portfolio ?d r = (Inr day, r1)"
    and rd: "reserve_on_day R (guard_context (cash_guard_mode env) (account_type info)) tid
        (round2 (max required 0)) True ?d day r1 = (res, r')"
    using assms(2-4) by (auto simp: reserve_entry_def guard_result_def Let_def split: if_splits prod.splits sum.splits)
  from day_for_entry_ok [OF assms(1) d] reserve_on_day_committed [OF _ _ _ _ rd] required_cents assms(4,5)
  show ?thesis by (intro exI [of _ day]) auto
qed

end

context cash_day_ledger
begin

definition within_budget :: "'a \<Rightarrow> bool" where
  "within_budget r \<longleftrightarrow> ok r \<and> (\<forall>d. case cb_get_day R r d of
      None \<Rightarrow> committed R r d = 0 | Some day \<Rightarrow> committed R r d \<le> cd_usable_budget day)"

lemma within_reserve:
  assumes "within_budget r" "reserve_entry R env et info portfolio tid required ts rsv r = (res, r')"
  shows "within_budget r'"
proof -
  let ?d = "trade_date_et et ts"
  have ok: "ok r" using assms(1) by (simp add: within_budget_def)
  consider (same) "r' = r"
    | (day) day r1 where "day_for_entry R env (account_type info) portfolio ?d r = (Inr day, r1)"
      "reserve_on_day R (guard_context (cash_guard_mode env) (account_type info)) tid
        (round2 (max required 0)) rsv ?d day r1 = (res, r')"
    using assms(2)
    by (auto simp: reserve_entry_def day_for_entry_def Let_def split: if_splits prod.splits sum.splits option.splits)
  then show ?thesis
  proof cases
    case same
    with assms(1) show ?thesis by simp
  next
    case day
    note d = day_for_entry_ok [OF ok day(1)]
    then have ok1: "ok r1" and dok: "day_ok day" by blast+
    note c = reserve_on_day_committed [OF ok1 dok _ _ day(2)]
    have c: "ok r'" "\<And>d'. d' \<noteq> ?d \<Longrightarrow> committed R r' d' \<le> committed R r1 d'"
      "cb_get_day R r' = cb_get_day R r1"
      "committed R r1 ?d \<le> cd_usable_budget day \<Longrightarrow> committed R r' ?d \<le> cd_usable_budget day"
      using c required_cents by blast+
    have same1: "committed R r1 d' = committed R r d'" for d'
      using d by (auto simp: committed_day)
    have g: "cb_get_day R r' d' = (if d' = ?d then Some day else cb_get_day R r d')" for d'
      using d c(3) by (auto simp: get_day_upsert)
    have "committed R r1 ?d \<le> cd_usable_budget day"
    proof (cases "cb_get_day R r ?d")
      case None
      moreover have "case cb_get_day R r ?d of None \<Rightarrow> committed R r ?d = 0
          | Some day \<Rightarrow> committed R r ?d \<le> cd_usable_budget day"
        using assms(1) unfolding within_budget_def by blast
      ultimately have "committed R r ?d = 0" by simp
      with same1 dok show ?thesis by (simp add: day_ok_def)
    next
      case (Some day')
      with d have "day' = day" by auto
      moreover have "committed R r ?d \<le> cd_usable_budget day'"
        using assms(1) Some by (auto simp: within_budget_def split: option.splits)
      ultimately show ?thesis by (simp add: same1)
    qed
    note top1 = c(4) [OF this]
    have "case cb_get_day R r' d' of None \<Rightarrow> committed R r' d' = 0
        | Some day \<Rightarrow> committed R r' d' \<le> cd_usable_budget day" for d'
    proof (cases "d' = ?d")
      case True
      with top1 g show ?thesis by simp
    next
      case False
      with g have gd: "cb_get_day R r' d' = cb_get_day R r d'" by simp
      have old: "case cb_get_day R r d' of None \<Rightarrow> committed R r d' = 0
        | Some day \<Rightarrow> committed R r d' \<le> cd_usable_budget day"
        using assms(1) by (simp add: within_budget_def)
      from c(2) [OF False] same1 have "committed R r' d' \<le> committed R r d'" by simp
      with old gd committed_nonneg [OF c(1), of d'] show ?thesis by (auto split: option.splits)
    qed
    with c(1) show ?thesis by (simp add: within_budget_def)
  qed
qed

lemma within_mark:
  assumes "within_budget r" "\<And>d. committed R (cb_mark_reservation_status R tid st r) d \<le> committed R r d"
  shows "within_budget (cb_mark_reservation_status R tid st r)"
proof -
  have ok: "ok (cb_mark_reservation_status R tid st r)"
    using assms(1) by (simp add: within_budget_def ok_mark)
  have "case cb_get_day R r d of None \<Rightarrow> committed R (cb_mark_reservation_status R tid st r) d = 0
      | Some day \<Rightarrow> committed R (cb_mark_reservation_status R tid st r) d \<le> cd_usable_budget day" for d
  proof -
    have "case cb_get_day R r d of None \<Rightarrow> committed R r d = 0
      | Some day \<Rightarrow> committed R r d \<le> cd_usable_budget day"
      using assms(1) by (simp add: within_budget_def)
    with assms(2) [of d] committed_nonneg [OF ok, of d] show ?thesis by (auto split: option.splits)
  qed
  with ok show ?thesis by (simp add: within_budget_def get_day_mark)
qed

lemma within_finalize:
  assumes "within_budget r"
    "\<And>x. cb_get_reservation R r tid = Some x \<Longrightarrow> cr_status x \<in> set ACTIVE_RESERVATION_STATUSES"
  shows "within_budget (finalize_entry R tid r)"
proof -
  have "committed R (cb_mark_reservation_status R tid ''consumed'' r) d \<le> committed R r d" for d
    using assms by (intro committed_mark) (auto simp: within_budget_def)
  with assms(1) within_mark show ?thesis by (auto simp: finalize_entry_def split: option.splits)
qed

lemma within_release:
  assumes "within_budget r"
  shows "within_budget (release_entry R tid r)"
proof -
  have "committed R (cb_mark_reservation_status R tid ''released'' r) d \<le> committed R r d" for d
    using assms by (intro committed_mark) (auto simp: within_budget_def)
  with assms(1) within_mark show ?thesis by (auto simp: release_entry_def split: option.splits)
qed

end

text \<open>
  The life of the entries over the SQLite repository: reservations and previews under any
  environment and any broker answers, releases, and finalizations of reservations that
  were not released.
\<close>

inductive cash_step :: "(int \<Rightarrow> int) \<Rightarrow> cash_db \<Rightarrow> cash_db \<Rightarrow> bool" for et where
  cs_reserve: "reserve_entry sqlite_cash_repo env et info portfolio tid required ts rsv db = (res, db')
     \<Longrightarrow> cash_step et db db'"
| cs_release: "cash_step et db (release_entry sqlite_cash_repo tid db)"
| cs_finalize: "(\<And>x. sq_get_reservation db tid = Some x \<Longrightarrow> cr_status x \<in> set ACTIVE_RESERVATION_STATUSES) \<Longrightarrow>
     cash_step et db (finalize_entry sqlite_cash_repo tid db)"

definition empty_cash_db :: "(string \<times> string option) list option \<Rightarrow> cash_db" where
  "empty_cash_db sessions = \<lparr>db_days = [], db_reservations = [], db_sessions = sessions\<rparr>"

lemma empty_within: "sqlite_ledger.within_budget (empty_cash_db ss)"
proof -
  have "cb_get_day sqlite_cash_repo (empty_cash_db ss) d = None" for d
    by (simp add: sqlite_cash_repo_def sq_get_day_def empty_cash_db_def)
  then show ?thesis
    by (simp add: sqlite_ledger.within_budget_def sq_committed) (simp add: sq_ok_def empty_cash_db_def)
qed

lemma step_within: "cash_step et db db' \<Longrightarrow> sqlite_ledger.within_budget db \<Longrightarrow> sqlite_ledger.within_budget db'"
proof (induction rule: cash_step.induct)
  case (cs_reserve env info portfolio tid required ts rsv db res db')
  then show ?case by (blast intro: sqlite_ledger.within_reserve)
next
  case (cs_release db tid)
  then show ?case by (rule sqlite_ledger.within_release)
next
  case (cs_finalize db tid)
  then show ?case
    by (intro sqlite_ledger.within_finalize) (simp_all add: sqlite_cash_repo_def)
qed


definition demo_reserved :: "cash_guard_result \<times> cash_db" where
  "demo_reserved = reserve_entry sqlite_cash_repo [''BHIKSHA_CASH_GUARD_MODE'' \<mapsto> ''on''] (\<lambda>_. 0) None
     (Inr (CashNumber 1000)) ''t1'' 300 (Aware 0) True (empty_cash_db None)"

lemma demo_reserved_eq:
  "cg_enforced (fst demo_reserved)" "\<not> cg_blocked (fst demo_reserved)"
  "committed sqlite_cash_repo (snd demo_reserved) 0 = 300"
  "map_option cd_usable_budget (sq_get_day (snd demo_reserved) 0) = Some 950"
  by code_simp+


text \<open>
  An approval is backed by the budget. In any well-formed database, also one that
  synchronisation has written positions and pending entries into, an enforced reservation
  of a positive amount that is not blocked leaves what is committed on that day, the new
  amount included, within the usable budget of the day's row.
\<close>

lemma approved_reservation_fits:
  assumes "sq_ok db"
    and "reserve_entry sqlite_cash_repo env et info portfolio tid required ts True db = (res, db')"
    and "cg_enforced res" "\<not> cg_blocked res" "0 < round2 (max required 0)"
  shows "\<exists>day. sq_get_day db' (trade_date_et et ts) = Some day \<and> sq_ok db'
    \<and> committed sqlite_cash_repo db' (trade_date_et et ts) \<le> cd_usable_budget day"
proof -
  obtain day where d: "committed sqlite_cash_repo db' (trade_date_et et ts) \<le> cd_usable_budget day" "sq_ok db'"
    "cb_get_day sqlite_cash_repo db (trade_date_et et ts) = Some day
       \<and> cb_get_day sqlite_cash_repo db' = cb_get_day sqlite_cash_repo db
     \<or> cb_get_day sqlite_cash_repo db (trade_date_et et ts) = None \<and> cd_trade_date day = trade_date_et et ts
       \<and> cb_get_day sqlite_cash_repo db' = cb_get_day sqlite_cash_repo (cb_upsert_day sqlite_cash_repo day db)"
    using sqlite_ledger.reserve_approved [OF assms] by blast
  from d(3) have "cb_get_day sqlite_cash_repo db' (trade_date_et et ts) = Some day"
    using sqlite_ledger.get_day_upsert by auto
  with d(1,2) show ?thesis by (auto simp: sqlite_cash_repo_def)
qed

end
