(* ===== verification/Risk_Core.thy ===== *)
theory Risk_Core
  imports Domain Risk_Settings
begin

text \<open>
  The arithmetic under the risk manager: planned stop losses
  (\<open>src/bhiksha/risk/planned_loss.py\<close>), correlation clusters
  (\<open>src/bhiksha/risk/clusters.py\<close>), realized and unrealized profit and the confirmed legs of
  partial exits (the helpers at the head of \<open>src/bhiksha/risk/risk_manager.py\<close>).
\<close>

section \<open>Planned losses\<close>

text \<open>The parts of a deployment the stop resolution reads.\<close>

record stop_config =
  sc_exit_stop_loss_pct :: "real option"
  sc_risk_stop_loss_pct :: "real option"
  sc_profile_exit_id :: "string option"
  sc_initial_stop_pct :: "real option"
  sc_premium_disaster_stop_pct :: "real option"

fun positive_pct :: "real option \<Rightarrow> bool" where
  "positive_pct None = False"
| "positive_pct (Some x) = (x > 0)"

definition resolve_planned_stop_loss_pct :: "stop_config \<Rightarrow> real option \<times> string" where
  "resolve_planned_stop_loss_pct c =
     (if positive_pct (sc_exit_stop_loss_pct c) then (sc_exit_stop_loss_pct c, ''deployment_native'')
      else if positive_pct (sc_risk_stop_loss_pct c) then (sc_risk_stop_loss_pct c, ''global_fallback'')
      else if text_truthy (sc_profile_exit_id c) \<and> positive_pct (sc_initial_stop_pct c)
      then (sc_initial_stop_pct c, ''profile_initial_stop'')
      else if text_truthy (sc_profile_exit_id c) \<and> positive_pct (sc_premium_disaster_stop_pct c)
      then (sc_premium_disaster_stop_pct c, ''profile_disaster_stop'')
      else (None, ''unavailable''))"

definition planned_stop_loss_usd ::
  "real option \<Rightarrow> int \<Rightarrow> real option \<Rightarrow> real option \<Rightarrow> real option" where
  "planned_stop_loss_usd entry_price quantity stop_price stop_loss_pct =
     (case entry_price of
        None \<Rightarrow> None
      | Some e \<Rightarrow>
          if e \<le> 0 \<or> quantity \<le> 0 then None
          else if positive_pct stop_price
          then Some (round2 (max (e - the stop_price) 0 * of_int quantity * 100))
          else if positive_pct stop_loss_pct
          then Some (round2 (e * the stop_loss_pct * of_int quantity * 100))
          else None)"

section \<open>Clusters\<close>

definition CLUSTER_BY_UNDERLYING :: "(string \<times> string) list" where
  "CLUSTER_BY_UNDERLYING =
     [(''SPY'', ''broad_market''), (''QQQ'', ''broad_market''), (''IWM'', ''broad_market''),
      (''DIA'', ''broad_market''), (''VOO'', ''broad_market''), (''VTI'', ''broad_market''),
      (''NVDA'', ''semiconductors''), (''AMD'', ''semiconductors''), (''SMH'', ''semiconductors''),
      (''MU'', ''semiconductors''), (''INTC'', ''semiconductors''), (''TSM'', ''semiconductors''),
      (''AVGO'', ''semiconductors''), (''SOXL'', ''semiconductors''), (''SOXX'', ''semiconductors''),
      (''VIX'', ''volatility''), (''VXX'', ''volatility''), (''UVXY'', ''volatility''),
      (''SVXY'', ''volatility''), (''VIXY'', ''volatility'')]"

definition correlation_cluster :: "string option \<Rightarrow> string option" where
  "correlation_cluster symb =
     (if \<not> text_truthy symb then None
      else map_of CLUSTER_BY_UNDERLYING (py_upper (py_strip (text_or symb))))"

section \<open>Trades\<close>

definition is_live_trade :: "trade_record \<Rightarrow> bool" where
  "is_live_trade t \<longleftrightarrow> text_or (tr_entry_order_id t) \<noteq> ''SHADOW_ENTRY''
     \<and> \<not> py_startswith (text_or (tr_entry_order_id t)) ''DRY_RUN''"

definition is_closed_trade :: "trade_record \<Rightarrow> bool" where
  "is_closed_trade t \<longleftrightarrow> tr_status t = ''closed''"

definition is_open_live_trade :: "trade_record \<Rightarrow> bool" where
  "is_open_live_trade t \<longleftrightarrow> is_live_trade t \<and> \<not> is_closed_trade t"

definition is_rail_b_eligible_trade :: "trade_record \<Rightarrow> bool" where
  "is_rail_b_eligible_trade t = is_live_trade t"

definition risk_trade_date_et :: "(int \<Rightarrow> int) \<Rightarrow> pydt \<Rightarrow> int" where
  "risk_trade_date_et et timestamp = et_micros et (instant timestamp) div usec_per_day"

definition unrealized_pnl_usd :: "real option \<Rightarrow> real option \<Rightarrow> int \<Rightarrow> real option" where
  "unrealized_pnl_usd entry_price current_mark quantity =
     (case (entry_price, current_mark) of
        (Some e, Some m) \<Rightarrow> if quantity = 0 then None else Some (round2 ((m - e) * of_int quantity * 100))
      | _ \<Rightarrow> None)"

definition realized_pnl_usd :: "trade_record \<Rightarrow> real option" where
  "realized_pnl_usd t =
     (case (tr_entry_price t, tr_exit_price t) of
        (Some e, Some x) \<Rightarrow>
          let quantity = (case tr_exit_filled_quantity t of Some q \<Rightarrow> q | None \<Rightarrow> tr_quantity t)
          in if quantity = 0 then None else Some (round2 ((x - e) * of_int quantity * 100))
      | _ \<Rightarrow> None)"

text \<open>The dictionary key of a partial leg: the broker order, or the row when there is none.\<close>

datatype leg_identity = OrderLeg string | RowLeg int

definition leg_identity_of :: "int \<Rightarrow> partial_fill \<Rightarrow> leg_identity" where
  "leg_identity_of index p =
     (if text_truthy (pf_order_id p) then OrderLeg (text_or (pf_order_id p))
      else RowLeg (case pf_id p of Some i \<Rightarrow> i | None \<Rightarrow> index))"

definition leg_quantity :: "partial_fill \<Rightarrow> int" where
  "leg_quantity p = min (pf_closed_quantity p)
     (case pf_fill_quantity p of None \<Rightarrow> pf_closed_quantity p | Some q \<Rightarrow> q)"

definition leg_pnl :: "real \<Rightarrow> partial_fill \<Rightarrow> real" where
  "leg_pnl entry_price p = (the (pf_fill_price p) - entry_price) * of_int (leg_quantity p) * 100"

definition confirmed_leg :: "partial_fill \<Rightarrow> bool" where
  "confirmed_leg p \<longleftrightarrow> \<not> text_truthy (pf_abandoned_reason p) \<and> pf_fill_price p \<noteq> None \<and> 0 < leg_quantity p"

type_synonym selected_legs = "(leg_identity \<times> (partial_fill \<times> int \<times> real)) list"

definition select_leg :: "real \<Rightarrow> int \<Rightarrow> partial_fill \<Rightarrow> selected_legs \<Rightarrow> selected_legs" where
  "select_leg entry_price index p selected =
     (if \<not> confirmed_leg p then selected
      else let k = leg_identity_of index p; pnl = leg_pnl entry_price p
           in case map_of selected k of
                None \<Rightarrow> AList.update k (p, leg_quantity p, pnl) selected
              | Some (_, _, old) \<Rightarrow>
                  if pnl < old then AList.update k (p, leg_quantity p, pnl) selected else selected)"

fun select_legs :: "real \<Rightarrow> int \<Rightarrow> partial_fill list \<Rightarrow> selected_legs \<Rightarrow> selected_legs" where
  "select_legs e index [] selected = selected"
| "select_legs e index (p # ps) selected = select_legs e (index + 1) ps (select_leg e index p selected)"

definition confirmed_partial_legs :: "trade_record \<Rightarrow> partial_fill list \<Rightarrow> (partial_fill \<times> int) list" where
  "confirmed_partial_legs t partials =
     (case tr_entry_price t of
        None \<Rightarrow> []
      | Some e \<Rightarrow> map (\<lambda>(_, p, q, _). (p, q)) (select_legs e 0 partials []))"

definition partial_realized_pnl_usd :: "trade_record \<Rightarrow> partial_fill \<Rightarrow> int \<Rightarrow> real option" where
  "partial_realized_pnl_usd t p quantity =
     (case (tr_entry_price t, pf_fill_price p) of
        (Some e, Some x) \<Rightarrow>
          if text_truthy (pf_abandoned_reason p) \<or> quantity \<le> 0 then None
          else Some (round2 ((x - e) * of_int quantity * 100))
      | _ \<Rightarrow> None)"

definition complete_realized_pnl_usd :: "trade_record \<Rightarrow> partial_fill list \<Rightarrow> real option" where
  "complete_realized_pnl_usd t partials =
     (case tr_entry_price t of
        None \<Rightarrow> None
      | Some e \<Rightarrow>
          let legs = confirmed_partial_legs t partials;
              partial_pnl = sum_list (map (\<lambda>(p, q). (the (pf_fill_price p) - e) * of_int q * 100) legs);
              banked_quantity = sum_list (map snd legs);
              final_pnl = realized_pnl_usd t
          in if final_pnl = None \<and> banked_quantity = 0 then None
             else Some (round2 ((case final_pnl of Some x \<Rightarrow> x | None \<Rightarrow> 0) + partial_pnl)))"

section \<open>Properties\<close>

lemma planned_nonneg: "planned_stop_loss_usd e q sp pct = Some x \<Longrightarrow> 0 \<le> x"
  by (cases sp; cases pct)
    (auto simp: planned_stop_loss_usd_def intro!: py_round_nonneg split: option.splits if_splits)

lemma planned_round: "planned_stop_loss_usd e q sp pct = Some x \<Longrightarrow> round2 x = x"
  by (auto simp: planned_stop_loss_usd_def split: option.splits if_splits)

text \<open>A leg chosen so far stands for every confirmed leg seen with its identity.\<close>

definition legs_cover :: "real \<Rightarrow> (leg_identity \<times> partial_fill) list \<Rightarrow> selected_legs \<Rightarrow> bool" where
  "legs_cover e seen selected \<longleftrightarrow> distinct (map fst selected)
     \<and> (\<forall>(k, p) \<in> set seen. confirmed_leg p \<longrightarrow>
          (\<exists>q n x. map_of selected k = Some (q, n, x) \<and> x \<le> leg_pnl e p))
     \<and> (\<forall>(k, q, n, x) \<in> set selected. (k, q) \<in> set seen \<and> confirmed_leg q \<and> n = leg_quantity q \<and> x = leg_pnl e q)"

lemma legs_cover_put:
  assumes "legs_cover e seen sel" "confirmed_leg p"
    and "\<And>q n x. map_of sel k = Some (q, n, x) \<Longrightarrow> leg_pnl e p \<le> x"
  shows "legs_cover e ((k, p) # seen) (AList.update k (p, leg_quantity p, leg_pnl e p) sel)"
proof -
  let ?sel = "AList.update k (p, leg_quantity p, leg_pnl e p) sel"
  have d: "distinct (map fst ?sel)" using assms(1) by (simp add: legs_cover_def distinct_update)
  have up: "x = (k, p, leg_quantity p, leg_pnl e p) \<or> x \<in> set sel" if "x \<in> set ?sel" for x
    using that by (induction sel) (auto split: if_splits)
  have "\<exists>q' n' x'. map_of ?sel k' = Some (q', n', x') \<and> x' \<le> leg_pnl e p'"
    if s: "(k', p') \<in> set ((k, p) # seen)" "confirmed_leg p'" for k' p'
  proof (cases "k' = k")
    case True
    show ?thesis
    proof (cases "p' = p")
      case True
      with \<open>k' = k\<close> show ?thesis by (simp add: update_lookup)
    next
      case False
      with s True have "(k, p') \<in> set seen" by auto
      with assms(1) s(2) obtain q n x where "map_of sel k = Some (q, n, x)" "x \<le> leg_pnl e p'"
        by (auto simp: legs_cover_def)
      with assms(3) True show ?thesis by (force simp: update_lookup)
    qed
  next
    case False
    with s assms(1) show ?thesis by (auto simp: update_lookup legs_cover_def)
  qed
  with d up assms show ?thesis unfolding legs_cover_def by fastforce
qed

lemma select_leg_cover:
  assumes "legs_cover e seen sel"
  shows "legs_cover e ((leg_identity_of i p, p) # seen) (select_leg e i p sel)"
proof (cases "confirmed_leg p")
  case False
  with assms show ?thesis by (auto simp: select_leg_def legs_cover_def)
next
  case True
  note put = legs_cover_put [OF assms True, of "leg_identity_of i p"]
  show ?thesis
  proof (cases "map_of sel (leg_identity_of i p)")
    case None
    with True put show ?thesis by (simp add: select_leg_def Let_def)
  next
    case (Some v)
    obtain q n x where v: "v = (q, n, x)" by (cases v)
    show ?thesis
    proof (cases "leg_pnl e p < x")
      case True
      with Some v \<open>confirmed_leg p\<close> put show ?thesis by (simp add: select_leg_def Let_def)
    next
      case False
      then have "select_leg e i p sel = sel" using Some v by (simp add: select_leg_def Let_def)
      moreover have "x \<le> leg_pnl e p" using False by simp
      ultimately show ?thesis using assms Some v unfolding legs_cover_def by auto
    qed
  qed
qed

lemma legs_cover_in:
  "legs_cover e seen sel \<Longrightarrow> (k, p, q, x) \<in> set sel \<Longrightarrow>
   (k, p) \<in> set seen \<and> confirmed_leg p \<and> q = leg_quantity p \<and> x = leg_pnl e p"
  unfolding legs_cover_def by fastforce

lemma legs_cover_least:
  assumes "legs_cover e seen sel" "(k, p) \<in> set seen" "confirmed_leg p"
  shows "\<exists>p' q x. map_of sel k = Some (p', q, x) \<and> leg_pnl e p' \<le> leg_pnl e p"
proof -
  from assms obtain p' q x where m: "map_of sel k = Some (p', q, x)" "x \<le> leg_pnl e p"
    unfolding legs_cover_def by fastforce
  then have "x = leg_pnl e p'" using legs_cover_in [OF assms(1) map_of_SomeD] by blast
  with m show ?thesis by blast
qed

fun identified :: "int \<Rightarrow> partial_fill list \<Rightarrow> (leg_identity \<times> partial_fill) list" where
  "identified i [] = []"
| "identified i (p # ps) = (leg_identity_of i p, p) # identified (i + 1) ps"

lemma legs_cover_set: "set seen = set seen' \<Longrightarrow> legs_cover e seen sel \<longleftrightarrow> legs_cover e seen' sel"
  by (simp add: legs_cover_def)

lemma select_legs_cover:
  "legs_cover e seen sel \<Longrightarrow> legs_cover e (identified i ps @ seen) (select_legs e i ps sel)"
proof (induction ps arbitrary: i seen sel)
  case (Cons p ps)
  have "legs_cover e (identified (i + 1) ps @ (leg_identity_of i p, p) # seen)
      (select_legs e (i + 1) ps (select_leg e i p sel))"
    by (rule Cons.IH) (rule select_leg_cover [OF Cons.prems])
  moreover have "set (identified (i + 1) ps @ (leg_identity_of i p, p) # seen) = set (identified i (p # ps) @ seen)"
    by auto
  ultimately show ?case
    using legs_cover_set [of "identified (i + 1) ps @ (leg_identity_of i p, p) # seen"
        "identified i (p # ps) @ seen" e] by simp
qed simp

text \<open>
  Partial legs are counted once and conservatively. Whatever rows the database holds for
  a trade, duplicates included, every broker order (or row without one) contributes at most
  one leg, each leg is one of the confirmed rows with a positive quantity, and the leg kept
  for an order has the lowest profit of all confirmed rows of that order.
\<close>

lemma partial_legs_conservative:
  assumes "tr_entry_price t = Some e"
  shows "confirmed_partial_legs t ps = map (\<lambda>(k, p, q, x). (p, q)) (select_legs e 0 ps [])
    \<and> distinct (map fst (select_legs e 0 ps []))
    \<and> (\<forall>(k, p, q, x) \<in> set (select_legs e 0 ps []).
         (k, p) \<in> set (identified 0 ps) \<and> confirmed_leg p \<and> q = leg_quantity p)
    \<and> (\<forall>(k, p) \<in> set (identified 0 ps). confirmed_leg p \<longrightarrow>
         (\<exists>p' q x. map_of (select_legs e 0 ps []) k = Some (p', q, x) \<and> leg_pnl e p' \<le> leg_pnl e p))"
proof -
  have "legs_cover e (identified 0 ps @ []) (select_legs e 0 ps [])"
    by (rule select_legs_cover) (simp add: legs_cover_def)
  then have c: "legs_cover e (identified 0 ps) (select_legs e 0 ps [])" by simp
  show ?thesis
  proof (intro conjI)
    show "confirmed_partial_legs t ps = map (\<lambda>(k, p, q, x). (p, q)) (select_legs e 0 ps [])"
      using assms by (simp add: confirmed_partial_legs_def)
    show "distinct (map fst (select_legs e 0 ps []))" using c by (simp add: legs_cover_def)
    show "\<forall>(k, p, q, x) \<in> set (select_legs e 0 ps []).
         (k, p) \<in> set (identified 0 ps) \<and> confirmed_leg p \<and> q = leg_quantity p"
      using legs_cover_in [OF c] by fast
    show "\<forall>(k, p) \<in> set (identified 0 ps). confirmed_leg p \<longrightarrow>
         (\<exists>p' q x. map_of (select_legs e 0 ps []) k = Some (p', q, x) \<and> leg_pnl e p' \<le> leg_pnl e p)"
      using legs_cover_least [OF c] by fast
  qed
qed

definition demo_partial :: "string \<Rightarrow> real \<Rightarrow> int \<Rightarrow> partial_fill" where
  "demo_partial ord price qty = \<lparr>pf_id = None, pf_trade_id = ''t1'', pf_closed_quantity = qty,
     pf_order_id = Some ord, pf_exit_rule = None, pf_fill_price = Some price,
     pf_fill_quantity = None, pf_filled_at = None, pf_order_status = None, pf_origin = ''live'',
     pf_enrich_attempts = 0, pf_abandoned_reason = None\<rparr>"

end
