(* ===== verification/Risk_Manager.thy ===== *)
theory Risk_Manager
  imports Risk_Core Cash_Guard
begin

text \<open>
  \<open>src/bhiksha/risk/risk_manager.py\<close> over the reservation table of
  \<open>src/bhiksha/persistence/sqlite.py\<close>. The manager's attributes are the record
  \<open>risk_state\<close>; what the repositories and the mark provider answer during one call is the
  record \<open>risk_world\<close>, a read being a text (the exception's) or a value. Each operation
  returns its result and the new state; the events it appends and the alerts it asks for
  are lists in the state (the alerts' prose is left out). \<open>RailAStatus\<close> holds thresholds as
  extended floats, because the percentages come from text.
\<close>

section \<open>Reasons\<close>

abbreviation TIER1_HALT_REASON :: string where "TIER1_HALT_REASON \<equiv> ''risk_rail_a_tier1_halt''"
abbreviation TIER2_FLATTEN_REASON :: string where "TIER2_FLATTEN_REASON \<equiv> ''risk_rail_a_tier2_flatten''"
abbreviation RAIL_B_SESSION_BLOCK_REASON :: string where
  "RAIL_B_SESSION_BLOCK_REASON \<equiv> ''risk_rail_b_session_block''"
abbreviation BUDGET_UNAVAILABLE_REASON :: string where
  "BUDGET_UNAVAILABLE_REASON \<equiv> ''risk_rail_a_budget_unavailable''"
abbreviation OPEN_DRAWDOWN_WARNING_REASON :: string where
  "OPEN_DRAWDOWN_WARNING_REASON \<equiv> ''risk_open_drawdown_warning''"

definition BUDGET_UNAVAILABLE_REASONS :: "string list" where
  "BUDGET_UNAVAILABLE_REASONS = [''no_cash_budget_day'', ''cash_budget_query_failed'']"

definition SIZED_ENTRY_RESERVATION_TTL :: int where
  "SIZED_ENTRY_RESERVATION_TTL = 30 * 60 * usec_per_sec"

abbreviation EVALUATE_THROTTLE_SECONDS :: int where "EVALUATE_THROTTLE_SECONDS \<equiv> 60"
abbreviation OK_HEARTBEAT_SECONDS :: int where "OK_HEARTBEAT_SECONDS \<equiv> 600"

section \<open>Statuses and state\<close>

record rail_a_status =
  ra_active :: bool
  ra_halted :: bool
  ra_flatten :: bool
  ra_reason :: "string option"
  ra_realized_live_pnl_usd :: "real option"
  ra_usable_budget :: "real option"
  ra_max_daily_drawdown_pct :: "pyfloat option"
  ra_flatten_daily_drawdown_pct :: "pyfloat option"
  ra_halt_threshold_usd :: "pyfloat option"
  ra_flatten_threshold_usd :: "pyfloat option"
  ra_trade_date :: "int option"

record open_drawdown_status =
  dd_active :: bool
  dd_breached :: bool
  dd_reason :: "string option"
  dd_realized_usd :: "real option"
  dd_unrealized_open_usd :: "real option"
  dd_day_mtm_usd :: "real option"
  dd_warn_threshold_usd :: "pyfloat option"
  dd_warn_pct :: "pyfloat option"
  dd_usable_budget :: "real option"
  dd_open_position_count :: "int option"

record rail_b_status =
  rb_blocked :: bool
  rb_reason :: "string option"
  rb_window_n :: int
  rb_mean_pnl_usd :: "real option"
  rb_threshold_usd :: "pyfloat option"
  rb_newly_blocked :: bool

record entry_decision =
  ed_allowed :: bool
  ed_reason :: "string option"
  ed_rail :: "string option"
  ed_details :: params

record book_actions_result =
  ba_rail_a :: rail_a_status
  ba_should_flatten :: bool
  ba_flatten_reason :: "string option"
  ba_open_drawdown :: "open_drawdown_status option"

type_synonym risk_event = "string \<times> params"

record risk_state =
  rs_session_halted :: bool
  rs_session_flattened :: bool
  rs_session_blocked :: "(string \<times> rail_b_status) list"
  rs_notified_tier1 :: bool
  rs_notified_tier2 :: bool
  rs_notified_open_drawdown :: bool
  rs_cache :: "(int \<times> book_actions_result) option"
  rs_last_emitted_decision :: "string option"
  rs_last_ok_heartbeat_at :: "int option"
  rs_events :: "risk_event list"
  rs_alerts :: "(string \<times> string) list"
  rs_reservations :: "risk_reservation list"

definition new_risk_state :: risk_state where
  "new_risk_state = \<lparr>rs_session_halted = False, rs_session_flattened = False, rs_session_blocked = [],
     rs_notified_tier1 = False, rs_notified_tier2 = False, rs_notified_open_drawdown = False,
     rs_cache = None, rs_last_emitted_decision = None, rs_last_ok_heartbeat_at = None,
     rs_events = [], rs_alerts = [], rs_reservations = []\<rparr>"

record risk_world =
  w_now :: int
  w_budget :: "string + cash_budget_day option"
  w_recent :: "string + trade_record list"
  w_partials :: "string + (string \<Rightarrow> partial_fill list)"
  w_closed :: "string \<Rightarrow> string + trade_record list"
  w_open :: "string + trade_record list"
  w_reservations_error :: "string option"
  w_closed_sessions :: "string list"
  w_mark :: "(string \<Rightarrow> real option) option"
  w_upsert_error :: "string option"

definition emit :: "string \<Rightarrow> params \<Rightarrow> risk_state \<Rightarrow> risk_state" where
  "emit name payload st = st\<lparr>rs_events := rs_events st @ [(name, payload)]\<rparr>"

definition notify :: "string \<Rightarrow> string \<Rightarrow> risk_state \<Rightarrow> risk_state" where
  "notify title level st = st\<lparr>rs_alerts := rs_alerts st @ [(title, level)]\<rparr>"

section \<open>The reservation table\<close>

definition rq_upsert :: "risk_reservation \<Rightarrow> risk_reservation list \<Rightarrow> risk_reservation list" where
  "rq_upsert x rows = upsert_row rr_trade_id x rows"

definition rq_active :: "string list \<Rightarrow> risk_reservation list \<Rightarrow> risk_reservation list" where
  "rq_active closed_ids rows =
     filter (\<lambda>x. rr_status x = ''reserved'' \<and> rr_trade_id x \<notin> set closed_ids) rows"

definition rq_mark :: "string \<Rightarrow> string \<Rightarrow> risk_reservation list \<Rightarrow> risk_reservation list" where
  "rq_mark tid status rows = map (\<lambda>x. if rr_trade_id x = tid then x\<lparr>rr_status := status\<rparr> else x) rows"

section \<open>Rail A\<close>

definition filled_on :: "(int \<Rightarrow> int) \<Rightarrow> int \<Rightarrow> pydt option \<Rightarrow> bool" where
  "filled_on et d filled_at = (case filled_at of None \<Rightarrow> False | Some t \<Rightarrow> risk_trade_date_et et t = d)"

definition relevant_today :: "(int \<Rightarrow> int) \<Rightarrow> int \<Rightarrow> trade_record \<Rightarrow> bool" where
  "relevant_today et d t \<longleftrightarrow> is_live_trade t \<and> \<not> (is_closed_trade t \<and> \<not> filled_on et d (tr_exit_filled_at t))"

definition or_zero :: "real option \<Rightarrow> real" where
  "or_zero x = (case x of None \<Rightarrow> 0 | Some r \<Rightarrow> r)"

definition trade_pnl_on :: "(int \<Rightarrow> int) \<Rightarrow> int \<Rightarrow> (string \<Rightarrow> partial_fill list) \<Rightarrow> trade_record \<Rightarrow> real" where
  "trade_pnl_on et d partials t =
     (if is_closed_trade t \<and> filled_on et d (tr_exit_filled_at t) then or_zero (realized_pnl_usd t) else 0)
     + sum_list (map (\<lambda>(p, q). or_zero (partial_realized_pnl_usd t p q))
         (filter (\<lambda>(p, q). filled_on et d (pf_filled_at p))
            (confirmed_partial_legs t (partials (tr_trade_id t)))))"

definition realized_live_pnl_today ::
  "(int \<Rightarrow> int) \<Rightarrow> risk_world \<Rightarrow> int \<Rightarrow> string + real" where
  "realized_live_pnl_today et w d =
     (case w_recent w of
        Inl e \<Rightarrow> Inl e
      | Inr trades \<Rightarrow> (case w_partials w of
            Inl e \<Rightarrow> Inl e
          | Inr partials \<Rightarrow> Inr (round2 (sum_list
               (map (trade_pnl_on et d partials) (filter (relevant_today et d) trades))))))"

definition rail_a_inactive :: "string \<Rightarrow> int option \<Rightarrow> rail_a_status" where
  "rail_a_inactive reason d = \<lparr>ra_active = False, ra_halted = False, ra_flatten = False,
     ra_reason = Some reason, ra_realized_live_pnl_usd = None, ra_usable_budget = None,
     ra_max_daily_drawdown_pct = None, ra_flatten_daily_drawdown_pct = None,
     ra_halt_threshold_usd = None, ra_flatten_threshold_usd = None, ra_trade_date = d\<rparr>"

definition inactive_event :: "string \<Rightarrow> string option \<Rightarrow> int \<Rightarrow> params" where
  "inactive_event reason error d =
     [(''rail'', PStr ''A''), (''decision'', PStr ''inactive''), (''severity'', PStr ''warning''),
      (''reason'', PStr reason)]
     @ (case error of None \<Rightarrow> [] | Some e \<Rightarrow> [(''error'', PStr e)])
     @ [(''trade_date'', PInt d)]"

fun round_pf :: "pyfloat \<Rightarrow> pyfloat" where
  "round_pf (Fin x) = Fin (round2 x)"
| "round_pf x = x"

text \<open>\<open>-(pct / 100.0) * usable_budget\<close>.\<close>

definition drawdown_threshold :: "pyfloat \<Rightarrow> real \<Rightarrow> pyfloat" where
  "drawdown_threshold pct usable = f_scale (f_neg (f_scale pct (1 / 100))) usable"

definition rail_a_active :: "risk_settings \<Rightarrow> real \<Rightarrow> real \<Rightarrow> int \<Rightarrow> rail_a_status" where
  "rail_a_active s usable realized d =
     (let halt_threshold = drawdown_threshold (max_daily_drawdown_pct s) usable;
          flatten_threshold = drawdown_threshold (flatten_daily_drawdown_pct s) usable;
          halted = f_le (Fin realized) halt_threshold;
          flatten = f_le (Fin realized) flatten_threshold
      in \<lparr>ra_active = True, ra_halted = halted, ra_flatten = flatten,
          ra_reason = (if flatten then Some TIER2_FLATTEN_REASON
                       else if halted then Some TIER1_HALT_REASON else None),
          ra_realized_live_pnl_usd = Some realized, ra_usable_budget = Some usable,
          ra_max_daily_drawdown_pct = Some (max_daily_drawdown_pct s),
          ra_flatten_daily_drawdown_pct = Some (flatten_daily_drawdown_pct s),
          ra_halt_threshold_usd = Some (round_pf halt_threshold),
          ra_flatten_threshold_usd = Some (round_pf flatten_threshold),
          ra_trade_date = Some d\<rparr>)"

definition compute_rail_a_status ::
  "risk_settings \<Rightarrow> (int \<Rightarrow> int) \<Rightarrow> risk_world \<Rightarrow> risk_state \<Rightarrow> rail_a_status \<times> risk_state" where
  "compute_rail_a_status s et w st =
     (if \<not> rail_a_enabled s then (rail_a_inactive ''rail_a_disabled'' None, st)
      else let d = risk_trade_date_et et (Aware (w_now w)) in
        (case w_budget w of
           Inl e \<Rightarrow> (rail_a_inactive ''cash_budget_query_failed'' (Some d),
                    emit ''risk_manager_decision'' (inactive_event ''cash_budget_query_failed'' (Some e) d) st)
         | Inr None \<Rightarrow> (rail_a_inactive ''no_cash_budget_day'' (Some d),
                    emit ''risk_manager_decision'' (inactive_event ''no_cash_budget_day'' None d) st)
         | Inr (Some day) \<Rightarrow> (case realized_live_pnl_today et w d of
               Inl e \<Rightarrow> (rail_a_inactive ''pnl_query_failed'' (Some d),
                    emit ''risk_manager_decision'' (inactive_event ''pnl_query_failed'' (Some e) d) st)
             | Inr realized \<Rightarrow> (rail_a_active s (cd_usable_budget day) realized d, st))))"

section \<open>The open book\<close>

definition effective_open_drawdown_warn_pct :: "risk_settings \<Rightarrow> pyfloat" where
  "effective_open_drawdown_warn_pct s =
     (case open_drawdown_warn_pct s of Some p \<Rightarrow> p | None \<Rightarrow> max_daily_drawdown_pct s)"

definition open_drawdown_inactive :: "string \<Rightarrow> open_drawdown_status" where
  "open_drawdown_inactive reason = \<lparr>dd_active = False, dd_breached = False, dd_reason = Some reason,
     dd_realized_usd = None, dd_unrealized_open_usd = None, dd_day_mtm_usd = None,
     dd_warn_threshold_usd = None, dd_warn_pct = None, dd_usable_budget = None,
     dd_open_position_count = None\<rparr>"

definition open_drawdown_active ::
  "risk_settings \<Rightarrow> real \<Rightarrow> real \<Rightarrow> real \<Rightarrow> real \<Rightarrow> int \<Rightarrow> bool \<Rightarrow> open_drawdown_status" where
  "open_drawdown_active s realized unrealized day_mtm usable n already =
     (let pct = effective_open_drawdown_warn_pct s;
          threshold = drawdown_threshold pct usable;
          breached = (f_le (Fin day_mtm) threshold \<and> \<not> already)
      in \<lparr>dd_active = True, dd_breached = breached,
          dd_reason = (if breached then Some OPEN_DRAWDOWN_WARNING_REASON else None),
          dd_realized_usd = Some realized, dd_unrealized_open_usd = Some unrealized,
          dd_day_mtm_usd = Some day_mtm, dd_warn_threshold_usd = Some (round_pf threshold),
          dd_warn_pct = Some pct, dd_usable_budget = Some usable, dd_open_position_count = Some n\<rparr>)"

definition priced_open :: "(string \<Rightarrow> real option) \<Rightarrow> trade_record \<Rightarrow> real option" where
  "priced_open mark t =
     (case tr_option_symbol t of
        None \<Rightarrow> None
      | Some opt \<Rightarrow> unrealized_pnl_usd (tr_entry_price t) (mark opt) (tr_quantity t))"

definition compute_open_drawdown_status ::
  "risk_settings \<Rightarrow> risk_world \<Rightarrow> real \<Rightarrow> real \<Rightarrow> bool \<Rightarrow> open_drawdown_status" where
  "compute_open_drawdown_status s w realized usable already =
     (if \<not> rail_a_enabled s then open_drawdown_inactive ''rail_a_disabled''
      else case w_mark w of
        None \<Rightarrow> open_drawdown_inactive ''mark_price_provider_unavailable''
      | Some mark \<Rightarrow> (case w_recent w of
            Inl e \<Rightarrow> open_drawdown_inactive ''pnl_query_failed''
          | Inr trades \<Rightarrow>
              let open_live = filter is_open_live_trade trades
              in if open_live = []
                 then open_drawdown_active s realized 0 realized usable 0 already
                 else let pnls = List.map_filter (priced_open mark) open_live
                 in if pnls = [] then open_drawdown_inactive ''no_priced_open_positions''
                    else let unrealized = round2 (sum_list pnls)
                         in open_drawdown_active s realized unrealized (round2 (realized + unrealized))
                              usable (int (length pnls)) already))"

section \<open>Book actions\<close>

definition latch_book :: "rail_a_status \<Rightarrow> risk_state \<Rightarrow> risk_state" where
  "latch_book status st = st\<lparr>
     rs_session_halted := (rs_session_halted st \<or> ra_active status \<and> ra_halted status),
     rs_session_flattened := (rs_session_flattened st \<or> ra_active status \<and> ra_flatten status)\<rparr>"

definition emit_book_decision :: "rail_a_status \<Rightarrow> int \<Rightarrow> risk_state \<Rightarrow> risk_state" where
  "emit_book_decision status now st =
     (if \<not> ra_active status then st
      else let decision = (if ra_flatten status then ''flatten'' else if ra_halted status then ''halt'' else ''ok'');
               changed = (Some decision \<noteq> rs_last_emitted_decision st);
               heartbeat_due = (case rs_last_ok_heartbeat_at st of
                   None \<Rightarrow> True | Some since \<Rightarrow> now - since \<ge> OK_HEARTBEAT_SECONDS * usec_per_sec)
      in if decision \<noteq> ''ok'' \<or> changed \<or> heartbeat_due
         then (emit ''risk_manager_decision''
                 [(''rail'', PStr ''A''), (''decision'', PStr decision), (''active'', PBool True),
                  (''realized_live_pnl_usd'', v_real (ra_realized_live_pnl_usd status)),
                  (''usable_budget'', v_real (ra_usable_budget status)),
                  (''halt_threshold_usd'', v_float (ra_halt_threshold_usd status)),
                  (''flatten_threshold_usd'', v_float (ra_flatten_threshold_usd status)),
                  (''trade_date'', v_int (ra_trade_date status))] st)
              \<lparr>rs_last_emitted_decision := Some decision,
               rs_last_ok_heartbeat_at := (if decision = ''ok'' then Some now else rs_last_ok_heartbeat_at st)\<rparr>
         else st)"

definition notify_tiers :: "rail_a_status \<Rightarrow> risk_state \<Rightarrow> risk_state" where
  "notify_tiers status st0 =
     (let st1 = (if ra_active status \<and> ra_halted status \<and> \<not> rs_notified_tier1 st0
                 then notify ''Rail A tier-1 daily drawdown halt'' ''error'' (st0\<lparr>rs_notified_tier1 := True\<rparr>)
                 else st0)
      in if ra_active status \<and> ra_flatten status \<and> \<not> rs_notified_tier2 st1
         then notify ''Rail A tier-2 daily drawdown FLATTEN'' ''error'' (st1\<lparr>rs_notified_tier2 := True\<rparr>)
         else st1)"

definition warn_open_drawdown ::
  "rail_a_status \<Rightarrow> open_drawdown_status \<Rightarrow> risk_state \<Rightarrow> risk_state" where
  "warn_open_drawdown status dd st =
     (if dd_active dd \<and> dd_breached dd \<and> \<not> rs_notified_open_drawdown st
      then notify ''Rail A open-book mark-to-market WARNING'' ''warning''
             (emit OPEN_DRAWDOWN_WARNING_REASON
               [(''realized_usd'', v_real (dd_realized_usd dd)),
                (''unrealized_open_usd'', v_real (dd_unrealized_open_usd dd)),
                (''day_mtm_usd'', v_real (dd_day_mtm_usd dd)),
                (''warn_threshold_usd'', v_float (dd_warn_threshold_usd dd)),
                (''warn_pct'', v_float (dd_warn_pct dd)),
                (''usable_budget'', v_real (dd_usable_budget dd)),
                (''open_position_count'', v_int (dd_open_position_count dd)),
                (''trade_date'', v_int (ra_trade_date status))]
               (st\<lparr>rs_notified_open_drawdown := True\<rparr>))
      else st)"

definition book_actions_uncached ::
  "risk_settings \<Rightarrow> (int \<Rightarrow> int) \<Rightarrow> risk_world \<Rightarrow> risk_state \<Rightarrow> book_actions_result \<times> risk_state" where
  "book_actions_uncached s et w st =
     (let (status, st1) = compute_rail_a_status s et w st;
          st2 = latch_book status st1;
          st3 = emit_book_decision status (w_now w) st2;
          st4 = notify_tiers status st3;
          dd = (if ra_active status
                then Some (compute_open_drawdown_status s w (or_zero (ra_realized_live_pnl_usd status))
                       (or_zero (ra_usable_budget status)) (ra_halted status))
                else None);
          st5 = (case dd of None \<Rightarrow> st4 | Some x \<Rightarrow> warn_open_drawdown status x st4)
      in (\<lparr>ba_rail_a = status, ba_should_flatten = rs_session_flattened st5,
           ba_flatten_reason = (if rs_session_flattened st5 then Some TIER2_FLATTEN_REASON else None),
           ba_open_drawdown = dd\<rparr>, st5))"

definition minute_key :: "int \<Rightarrow> int" where
  "minute_key now = now div (EVALUATE_THROTTLE_SECONDS * usec_per_sec)"

definition book_actions ::
  "risk_settings \<Rightarrow> (int \<Rightarrow> int) \<Rightarrow> risk_world \<Rightarrow> risk_state \<Rightarrow> book_actions_result \<times> risk_state" where
  "book_actions s et w st =
     (let fresh = (let (res, st1) = book_actions_uncached s et w st
                   in (res, st1\<lparr>rs_cache := Some (minute_key (w_now w), res)\<rparr>))
      in case rs_cache st of
           Some (k, res) \<Rightarrow> if k = minute_key (w_now w) then (res, st) else fresh
         | None \<Rightarrow> fresh)"

section \<open>Rail B\<close>

definition rail_b_plain :: "bool \<Rightarrow> string option \<Rightarrow> rail_b_status" where
  "rail_b_plain blocked reason = \<lparr>rb_blocked = blocked, rb_reason = reason, rb_window_n = 0,
     rb_mean_pnl_usd = None, rb_threshold_usd = None, rb_newly_blocked = False\<rparr>"

definition rail_b_eligible :: "risk_settings \<Rightarrow> string \<Rightarrow> trade_record list \<Rightarrow> trade_record list" where
  "rail_b_eligible s dep trades =
     (let closed_trades = filter (\<lambda>t. tr_deployment_id t = dep \<and> is_rail_b_eligible_trade t \<and> is_closed_trade t) trades
      in case demote_reset_at s of
           None \<Rightarrow> closed_trades
         | Some reset_at \<Rightarrow> filter (\<lambda>t. case tr_entry_timestamp t of
               None \<Rightarrow> False | Some since \<Rightarrow> instant since \<ge> instant reset_at) closed_trades)"

fun priced_window ::
  "int \<Rightarrow> (trade_record \<Rightarrow> real option) \<Rightarrow> trade_record list \<Rightarrow> (real \<times> string) list \<Rightarrow> (real \<times> string) list" where
  "priced_window window pnl [] acc = acc"
| "priced_window window pnl (t # ts) acc =
     (case pnl t of
        None \<Rightarrow> priced_window window pnl ts acc
      | Some x \<Rightarrow> let acc' = acc @ [(x, tr_trade_id t)]
                 in if int (length acc') = window then acc' else priced_window window pnl ts acc')"

definition rail_b_verdict ::
  "risk_settings \<Rightarrow> string \<Rightarrow> int \<Rightarrow> trade_record list \<Rightarrow> (real \<times> string) list \<Rightarrow> risk_state \<Rightarrow>
   (rail_b_status \<times> risk_state) result" where
  "rail_b_verdict s dep now eligible window st =
     (let pnls = map fst window; n = int (length pnls)
      in if n < demote_min_n s
         then Inr (\<lparr>rb_blocked = False,
                rb_reason = Some (if length pnls = length eligible then ''insufficient_trade_count''
                                  else ''insufficient_priced_trade_count''),
                rb_window_n = n, rb_mean_pnl_usd = None, rb_threshold_usd = None, rb_newly_blocked = False\<rparr>, st)
         else if pnls = [] then Inl ZeroDivisionError
         else let mean_pnl = round2 (sum_list pnls / of_nat (length pnls));
                  th = demote_threshold_usd s;
                  status = \<lparr>rb_blocked = True, rb_reason = Some RAIL_B_SESSION_BLOCK_REASON,
                    rb_window_n = n, rb_mean_pnl_usd = Some mean_pnl, rb_threshold_usd = Some th,
                    rb_newly_blocked = False\<rparr>
         in if f_le th (Fin mean_pnl)
            then Inr (status\<lparr>rb_blocked := False, rb_reason := None\<rparr>, st)
            else Inr (status\<lparr>rb_newly_blocked := True\<rparr>,
              notify (''Rail B session block: '' @ dep) ''warning''
                (emit ''risk_manager_session_block''
                  [(''deployment_id'', PStr dep), (''window_n'', PInt n),
                   (''mean_pnl_usd'', PFloat (Fin mean_pnl)), (''threshold_usd'', PFloat th),
                   (''trade_ids'', PList (map (PStr \<circ> snd) window)), (''blocked_at'', PInt now),
                   (''scope'', PStr ''current_session''), (''sheet_authorization_changed'', PBool False)]
                  (st\<lparr>rs_session_blocked := AList.update dep status (rs_session_blocked st)\<rparr>))))"

definition evaluate_rail_b ::
  "risk_settings \<Rightarrow> risk_world \<Rightarrow> string \<Rightarrow> risk_state \<Rightarrow> (rail_b_status \<times> risk_state) result" where
  "evaluate_rail_b s w dep st =
     (if \<not> rail_b_enabled s then Inr (rail_b_plain False (Some ''rail_b_disabled''), st)
      else case map_of (rs_session_blocked st) dep of
        Some status \<Rightarrow> Inr (status, st)
      | None \<Rightarrow> (case w_closed w dep of
            Inl e \<Rightarrow> Inl (BrokerError e)
          | Inr trades \<Rightarrow> (case w_partials w of
                Inl e \<Rightarrow> Inl (BrokerError e)
              | Inr partials \<Rightarrow>
                  let eligible = rail_b_eligible s dep trades
                  in rail_b_verdict s dep (w_now w) eligible
                       (priced_window (demote_window s)
                          (\<lambda>t. complete_realized_pnl_usd t (partials (tr_trade_id t))) eligible []) st)))"

section \<open>Entries\<close>

definition entry_decision_of :: "bool \<Rightarrow> string \<Rightarrow> string option \<Rightarrow> params \<Rightarrow> entry_decision" where
  "entry_decision_of allowed reason rail details =
     \<lparr>ed_allowed = allowed, ed_reason = Some reason, ed_rail = rail, ed_details = details\<rparr>"

definition decision_payload :: "entry_decision \<Rightarrow> params" where
  "decision_payload d = [(''decision'', PStr (if ed_allowed d then ''allowed'' else ''blocked'')),
     (''reason'', v_text (ed_reason d)), (''rail'', v_text (ed_rail d)), (''details'', PDict (ed_details d))]"

definition emit_entry_decision :: "string \<Rightarrow> entry_decision \<Rightarrow> risk_state \<Rightarrow> risk_state" where
  "emit_entry_decision dep d st =
     emit ''risk_manager_decision'' ((''deployment_id'', PStr dep) # decision_payload d) st"

definition emit_sized_entry_decision :: "string \<Rightarrow> string \<Rightarrow> entry_decision \<Rightarrow> risk_state \<Rightarrow> risk_state" where
  "emit_sized_entry_decision dep tid d st =
     emit ''risk_manager_sized_entry_decision''
       ([(''deployment_id'', PStr dep), (''trade_id'', PStr tid)] @ decision_payload d) st"

definition rail_b_details :: "risk_settings \<Rightarrow> rail_b_status \<Rightarrow> params" where
  "rail_b_details s b = [(''window_n'', PInt (rb_window_n b)),
     (''minimum_priced_live_trades'', PInt (demote_min_n s)),
     (''evidence_start_at'', v_int (map_option instant (demote_reset_at s))),
     (''mean_pnl_usd'', v_real (rb_mean_pnl_usd b))]"

definition latch_entry :: "rail_a_status \<Rightarrow> risk_state \<Rightarrow> risk_state" where
  "latch_entry status st = st\<lparr>rs_session_halted :=
     (rs_session_halted st \<or> ra_active status \<and> (ra_halted status \<or> ra_flatten status))\<rparr>"

definition allow_entry ::
  "risk_settings \<Rightarrow> (int \<Rightarrow> int) \<Rightarrow> risk_world \<Rightarrow> string \<Rightarrow> risk_state \<Rightarrow> (entry_decision \<times> risk_state) result" where
  "allow_entry s et w dep st =
     (let (rail_a, st1) = compute_rail_a_status s et w st;
          st2 = latch_entry rail_a st1
      in if rs_session_halted st2
         then let d = entry_decision_of False TIER1_HALT_REASON (Some ''A'')
                 [(''realized_live_pnl_usd'', v_real (ra_realized_live_pnl_usd rail_a)),
                  (''halt_threshold_usd'', v_float (ra_halt_threshold_usd rail_a))]
              in Inr (d, emit_entry_decision dep d st2)
         else if rail_a_enabled s \<and> \<not> ra_active rail_a
                 \<and> ra_reason rail_a \<in> Some ` set BUDGET_UNAVAILABLE_REASONS
         then let d = entry_decision_of False BUDGET_UNAVAILABLE_REASON (Some ''A'')
                 [(''rail_a_inactive_reason'', v_text (ra_reason rail_a)),
                  (''trade_date'', v_int (ra_trade_date rail_a))]
              in Inr (d, emit_entry_decision dep d st2)
         else bind_result (evaluate_rail_b s w dep st2) (\<lambda>(rail_b, st3).
           let d = (if rb_blocked rail_b
                    then entry_decision_of False RAIL_B_SESSION_BLOCK_REASON (Some ''B'') (rail_b_details s rail_b)
                    else entry_decision_of True ''approved'' None
                           [(''rail_b'', PDict ((''reason'', v_text (rb_reason rail_b)) # rail_b_details s rail_b))])
           in Inr (d, emit_entry_decision dep d st3)))"

end
