(* ===== verification/Sized_Entry.thy ===== *)
theory Sized_Entry
  imports Risk_Manager
begin

text \<open>
  \<open>RiskManager.reserve_sized_entry\<close> of \<open>src/bhiksha/risk/risk_manager.py\<close>, the final consult
  before an order: the proposed loss, the expiry of old reservations, the cluster cap, the
  prospective-loss rail and the reservation, each stage a definition, and the release and
  commit of a reservation. The operation runs under a lock, so it is one step.
\<close>

definition sized_decision ::
  "bool \<Rightarrow> string \<Rightarrow> string \<Rightarrow> string \<Rightarrow> bool \<Rightarrow> string \<Rightarrow> params \<Rightarrow> risk_state \<Rightarrow> entry_decision \<times> risk_state" where
  "sized_decision allowed dep tid rail reserve reason details st =
     (let d = entry_decision_of allowed reason (Some rail) details
      in (d, if reserve then emit_sized_entry_decision dep tid d st else st))"

text \<open>Reservations of the book: expired ones are marked, this trade's own is set aside.\<close>

definition expire_reservations :: "int \<Rightarrow> risk_reservation list \<Rightarrow> risk_state \<Rightarrow> risk_state" where
  "expire_reservations now active st =
     st\<lparr>rs_reservations := fold (\<lambda>x rows. if rr_expires_at x \<le> now then rq_mark (rr_trade_id x) ''expired'' rows else rows)
        active (rs_reservations st)\<rparr>"

definition other_reservations :: "int \<Rightarrow> string \<Rightarrow> risk_reservation list \<Rightarrow> risk_reservation list" where
  "other_reservations now tid active =
     filter (\<lambda>x. \<not> rr_expires_at x \<le> now \<and> rr_trade_id x \<noteq> tid) active"

definition sized_open_trades ::
  "string \<Rightarrow> risk_reservation list \<Rightarrow> trade_record list \<Rightarrow> trade_record list" where
  "sized_open_trades tid others trades =
     filter (\<lambda>t. is_open_live_trade t \<and> tr_trade_id t \<noteq> tid \<and> tr_trade_id t \<notin> rr_trade_id ` set others) trades"

definition cluster_count ::
  "string option \<Rightarrow> risk_reservation list \<Rightarrow> trade_record list \<Rightarrow> int" where
  "cluster_count cluster others live_open =
     count_where (\<lambda>t. correlation_cluster (Some (tr_symbol t)) = cluster) live_open
     + count_where (\<lambda>x. rr_cluster x = cluster) others"

definition cluster_details_of :: "risk_settings \<Rightarrow> string option \<Rightarrow> int \<Rightarrow> params" where
  "cluster_details_of s cluster n =
     [(''correlation_cluster'', v_text cluster), (''cluster_open_or_reserved_count'', PInt n),
      (''max_open_positions_per_cluster'', PInt (max_open_positions_per_cluster s)),
      (''cluster_mapped'', PBool (cluster \<noteq> None))]"

text \<open>The planned loss of an open trade: to its stop, else its whole premium, else unknown.\<close>

datatype open_loss = Protected real | FullPremium real | Unquantifiable

definition open_trade_loss :: "trade_record \<Rightarrow> open_loss" where
  "open_trade_loss t =
     (case planned_stop_loss_usd (tr_entry_price t) (tr_quantity t) (tr_stop_price t) None of
        Some x \<Rightarrow> Protected x
      | None \<Rightarrow> (case tr_entry_price t of
            Some e \<Rightarrow> if e > 0 \<and> tr_quantity t > 0
                      then FullPremium (round2 (e * of_int (tr_quantity t) * 100)) else Unquantifiable
          | None \<Rightarrow> Unquantifiable))"

fun loss_amount :: "open_loss \<Rightarrow> real" where
  "loss_amount (Protected x) = x"
| "loss_amount (FullPremium x) = x"
| "loss_amount Unquantifiable = 0"

definition open_planned_loss :: "trade_record list \<Rightarrow> real" where
  "open_planned_loss ts = sum_list (map (loss_amount \<circ> open_trade_loss) ts)"

definition unprotected_ids :: "trade_record list \<Rightarrow> string list" where
  "unprotected_ids ts = map tr_trade_id (filter (\<lambda>t. case open_trade_loss t of FullPremium _ \<Rightarrow> True | _ \<Rightarrow> False) ts)"

definition unquantifiable_ids :: "trade_record list \<Rightarrow> string list" where
  "unquantifiable_ids ts = map tr_trade_id (filter (\<lambda>t. open_trade_loss t = Unquantifiable) ts)"

fun abs_pf :: "pyfloat \<Rightarrow> pyfloat" where
  "abs_pf (Fin x) = Fin \<bar>x\<bar>"
| "abs_pf NegInf = PosInf"
| "abs_pf x = x"

text \<open>\<open>abs(rail_a.halt_threshold_usd or 0.0)\<close>.\<close>

definition loss_budget_of :: "rail_a_status \<Rightarrow> pyfloat" where
  "loss_budget_of a = abs_pf (case ra_halt_threshold_usd a of Some x \<Rightarrow> x | None \<Rightarrow> Fin 0)"

definition realized_loss_of :: "rail_a_status \<Rightarrow> real" where
  "realized_loss_of a = max (- or_zero (ra_realized_live_pnl_usd a)) 0"

definition reserved_planned_loss :: "risk_reservation list \<Rightarrow> real" where
  "reserved_planned_loss others = round2 (sum_list (map rr_planned_stop_loss_usd others))"

definition prospective_total_of ::
  "rail_a_status \<Rightarrow> real \<Rightarrow> risk_reservation list \<Rightarrow> trade_record list \<Rightarrow> real" where
  "prospective_total_of a proposed others live_open =
     round2 (realized_loss_of a + open_planned_loss live_open + reserved_planned_loss others + proposed)"

definition minus_pf :: "pyfloat \<Rightarrow> real \<Rightarrow> pyfloat" where
  "minus_pf x r = (case x of Fin y \<Rightarrow> Fin (y - r) | _ \<Rightarrow> x)"

definition headroom_details ::
  "rail_a_status \<Rightarrow> real \<Rightarrow> risk_reservation list \<Rightarrow> trade_record list \<Rightarrow> params" where
  "headroom_details a proposed others live_open =
     [(''realized_loss_usd'', PFloat (Fin (round2 (realized_loss_of a)))),
      (''open_planned_stop_loss_usd'', PFloat (Fin (round2 (open_planned_loss live_open)))),
      (''pending_reserved_stop_loss_usd'', PFloat (Fin (reserved_planned_loss others))),
      (''prospective_total_loss_usd'', PFloat (Fin (prospective_total_of a proposed others live_open))),
      (''daily_loss_budget_usd'', PFloat (round_pf (loss_budget_of a))),
      (''remaining_loss_headroom_usd'', PFloat (round_pf (minus_pf (loss_budget_of a)
          (realized_loss_of a + open_planned_loss live_open + reserved_planned_loss others)))),
      (''unprotected_full_premium_trade_ids'', PList (map PStr (unprotected_ids live_open))),
      (''unquantifiable_open_trade_ids'', PList (map PStr (unquantifiable_ids live_open))),
      (''trade_date'', v_int (ra_trade_date a))]"

text \<open>The prospective-loss rail: \<open>Inl\<close> a refusal (reason, rail, details), \<open>Inr\<close> the details.\<close>

definition prospective_stage ::
  "risk_settings \<Rightarrow> (int \<Rightarrow> int) \<Rightarrow> risk_world \<Rightarrow> real \<Rightarrow> risk_reservation list \<Rightarrow> trade_record list \<Rightarrow>
   params \<Rightarrow> risk_state \<Rightarrow> ((string \<times> string \<times> params) + params) \<times> risk_state" where
  "prospective_stage s et w proposed others live_open details st =
     (if \<not> prospective_loss_enabled s then (Inr details, st)
      else let (a, st1) = compute_rail_a_status s et w st
      in if rail_a_enabled s \<and> \<not> ra_active a
         then (Inl (BUDGET_UNAVAILABLE_REASON, ''A-prospective'',
                details @ [(''rail_a_inactive_reason'', v_text (ra_reason a)), (''trade_date'', v_int (ra_trade_date a))]), st1)
         else let st2 = latch_entry a st1
         in if rs_session_halted st2 then (Inl (TIER1_HALT_REASON, ''A'', details), st2)
            else if \<not> ra_active a then (Inr details, st2)
            else let details' = details @ headroom_details a proposed others live_open
            in if unquantifiable_ids live_open \<noteq> []
               then (Inl (''risk_open_position_risk_unavailable'', ''A-prospective'', details'), st2)
               else if f_lt (loss_budget_of a) (Fin (prospective_total_of a proposed others live_open))
               then (Inl (''risk_prospective_loss_headroom_exceeded'', ''A-prospective'', details'), st2)
               else (Inr details', st2))"

record sized_request =
  sz_trade_id :: string
  sz_deployment_id :: string
  sz_symbol :: string
  sz_entry_price :: real
  sz_quantity :: int
  sz_stop_loss_pct :: "real option"

definition sized_reservation :: "sized_request \<Rightarrow> string option \<Rightarrow> real \<Rightarrow> int \<Rightarrow> risk_reservation" where
  "sized_reservation q cluster proposed now =
     \<lparr>rr_trade_id = sz_trade_id q, rr_deployment_id = sz_deployment_id q, rr_symbol = sz_symbol q,
      rr_cluster = cluster, rr_planned_stop_loss_usd = proposed,
      rr_expires_at = now + SIZED_ENTRY_RESERVATION_TTL, rr_status = ''reserved''\<rparr>"

text \<open>The end of the operation, after every rail has passed.\<close>

definition sized_commit_stage ::
  "risk_world \<Rightarrow> sized_request \<Rightarrow> bool \<Rightarrow> string option \<Rightarrow> real \<Rightarrow> params \<Rightarrow> risk_state \<Rightarrow>
   entry_decision \<times> risk_state" where
  "sized_commit_stage w q reserve cluster proposed details st =
     (if \<not> reserve then (entry_decision_of True ''approved'' (Some ''sized-entry'') details, st)
      else (case w_upsert_error w of
          Some e \<Rightarrow> sized_decision False (sz_deployment_id q) (sz_trade_id q) ''entry-risk'' True
             ''risk_sized_entry_reservation_failed'' (details @ [(''error'', PStr e)]) st
        | None \<Rightarrow> sized_decision True (sz_deployment_id q) (sz_trade_id q) ''sized-entry'' True ''approved'' details
             (st\<lparr>rs_reservations := rq_upsert (sized_reservation q cluster proposed (w_now w)) (rs_reservations st)\<rparr>)))"

text \<open>The rails over the book that was read.\<close>

definition sized_book_stage ::
  "risk_settings \<Rightarrow> (int \<Rightarrow> int) \<Rightarrow> risk_world \<Rightarrow> sized_request \<Rightarrow> bool \<Rightarrow> real \<Rightarrow>
   trade_record list \<Rightarrow> risk_state \<Rightarrow> entry_decision \<times> risk_state" where
  "sized_book_stage s et w q reserve proposed open_trades st =
     (let active = rq_active (w_closed_sessions w) (rs_reservations st);
          st1 = expire_reservations (w_now w) active st;
          others = other_reservations (w_now w) (sz_trade_id q) active;
          live_open = sized_open_trades (sz_trade_id q) others open_trades;
          cluster = correlation_cluster (Some (sz_symbol q));
          n = cluster_count cluster others live_open;
          limit = max_open_positions_per_cluster s
      in if cluster \<noteq> None \<and> limit > 0 \<and> n \<ge> limit
         then sized_decision False (sz_deployment_id q) (sz_trade_id q) ''correlation-cluster'' reserve
                ''risk_correlation_cluster_at_cap'' (cluster_details_of s cluster n) st1
         else (case prospective_stage s et w proposed others live_open
                  ([(''prospective_loss_enabled'', PBool (prospective_loss_enabled s)),
                    (''proposed_planned_stop_loss_usd'', PFloat (Fin proposed))] @ cluster_details_of s cluster n) st1 of
                (Inl (reason, rail, details), st2) \<Rightarrow>
                  sized_decision False (sz_deployment_id q) (sz_trade_id q) rail reserve reason details st2
              | (Inr details, st2) \<Rightarrow> sized_commit_stage w q reserve cluster proposed details st2))"

definition reserve_sized_entry ::
  "risk_settings \<Rightarrow> (int \<Rightarrow> int) \<Rightarrow> risk_world \<Rightarrow> sized_request \<Rightarrow> bool \<Rightarrow> risk_state \<Rightarrow>
   entry_decision \<times> risk_state" where
  "reserve_sized_entry s et w q reserve st =
     (let proposed_loss = planned_stop_loss_usd (Some (sz_entry_price q)) (sz_quantity q) None (sz_stop_loss_pct q)
      in if proposed_loss = None \<and> prospective_loss_enabled s
         then sized_decision False (sz_deployment_id q) (sz_trade_id q) ''A-prospective'' reserve
                ''risk_proposed_stop_unavailable''
                [(''entry_price'', PFloat (Fin (sz_entry_price q))), (''quantity'', PInt (sz_quantity q)),
                 (''stop_loss_pct'', v_real (sz_stop_loss_pct q))] st
         else (case (w_open w, w_reservations_error w) of
             (Inl e, _) \<Rightarrow> sized_decision False (sz_deployment_id q) (sz_trade_id q) ''entry-risk'' reserve
                ''risk_sized_entry_book_unavailable'' [(''error'', PStr e)] st
           | (_, Some e) \<Rightarrow> sized_decision False (sz_deployment_id q) (sz_trade_id q) ''entry-risk'' reserve
                ''risk_sized_entry_book_unavailable'' [(''error'', PStr e)] st
           | (Inr open_trades, None) \<Rightarrow>
                sized_book_stage s et w q reserve (or_zero proposed_loss) open_trades st))"

definition preview_sized_entry where
  "preview_sized_entry s et w q st = reserve_sized_entry s et w q False st"

definition release_sized_entry :: "string \<Rightarrow> risk_state \<Rightarrow> risk_state" where
  "release_sized_entry tid st = st\<lparr>rs_reservations := rq_mark tid ''released'' (rs_reservations st)\<rparr>"

definition commit_sized_entry :: "string \<Rightarrow> risk_state \<Rightarrow> risk_state" where
  "commit_sized_entry tid st = st\<lparr>rs_reservations := rq_mark tid ''committed'' (rs_reservations st)\<rparr>"

end
