(* ===== verification/Risk_Proofs.thy ===== *)
theory Risk_Proofs
  imports Sized_Entry "HOL-Library.Multiset"
begin

text \<open>What the risk manager guarantees: its latches, its refusals, its budget.\<close>

section \<open>Latches\<close>

text \<open>What no operation takes back: the halt, the flatten and the blocks of the session.\<close>

definition latched :: "risk_state \<Rightarrow> risk_state \<Rightarrow> bool" where
  "latched st st' \<longleftrightarrow> (rs_session_halted st \<longrightarrow> rs_session_halted st')
     \<and> (rs_session_flattened st \<longrightarrow> rs_session_flattened st')
     \<and> (\<forall>d b. map_of (rs_session_blocked st) d = Some b \<longrightarrow> map_of (rs_session_blocked st') d = Some b)"

lemma latched_refl [simp, intro]: "latched st st"
  by (simp add: latched_def)

lemma latched_trans: "latched a b \<Longrightarrow> latched b c \<Longrightarrow> latched a c"
  unfolding latched_def by blast

lemma latched_same:
  "rs_session_halted st' = rs_session_halted st \<Longrightarrow> rs_session_flattened st' = rs_session_flattened st \<Longrightarrow>
   rs_session_blocked st' = rs_session_blocked st \<Longrightarrow> latched st st'"
  by (simp add: latched_def)

lemma emit_fields [simp]:
  "rs_session_halted (emit n p st) = rs_session_halted st"
  "rs_session_flattened (emit n p st) = rs_session_flattened st"
  "rs_session_blocked (emit n p st) = rs_session_blocked st"
  "rs_reservations (emit n p st) = rs_reservations st"
  "rs_cache (emit n p st) = rs_cache st"
  "rs_session_halted (notify t l st) = rs_session_halted st"
  "rs_session_flattened (notify t l st) = rs_session_flattened st"
  "rs_session_blocked (notify t l st) = rs_session_blocked st"
  "rs_reservations (notify t l st) = rs_reservations st"
  "rs_cache (notify t l st) = rs_cache st"
  by (simp_all add: emit_def notify_def)

lemma rail_a_same:
  assumes "compute_rail_a_status s et w st = (a, st')"
  shows "rs_session_halted st' = rs_session_halted st \<and> rs_session_flattened st' = rs_session_flattened st
    \<and> rs_session_blocked st' = rs_session_blocked st \<and> rs_reservations st' = rs_reservations st
    \<and> rs_cache st' = rs_cache st"
  using assms by (auto simp: compute_rail_a_status_def Let_def split: if_splits sum.splits option.splits)

lemma latch_fields [simp]:
  "rs_session_flattened (latch_entry a st) = rs_session_flattened st"
  "rs_session_blocked (latch_entry a st) = rs_session_blocked st"
  "rs_reservations (latch_entry a st) = rs_reservations st"
  "rs_session_halted (latch_entry a st) \<longleftrightarrow>
     rs_session_halted st \<or> ra_active a \<and> (ra_halted a \<or> ra_flatten a)"
  by (simp_all add: latch_entry_def)

lemma book_stage_fields [simp]:
  "rs_session_halted (emit_book_decision a n st) = rs_session_halted st"
  "rs_session_flattened (emit_book_decision a n st) = rs_session_flattened st"
  "rs_session_blocked (emit_book_decision a n st) = rs_session_blocked st"
  "rs_session_halted (notify_tiers a st) = rs_session_halted st"
  "rs_session_flattened (notify_tiers a st) = rs_session_flattened st"
  "rs_session_blocked (notify_tiers a st) = rs_session_blocked st"
  "rs_session_halted (warn_open_drawdown a d st) = rs_session_halted st"
  "rs_session_flattened (warn_open_drawdown a d st) = rs_session_flattened st"
  "rs_session_blocked (warn_open_drawdown a d st) = rs_session_blocked st"
  by (simp_all add: emit_book_decision_def notify_tiers_def warn_open_drawdown_def Let_def)

lemma book_uncached_fields:
  assumes "compute_rail_a_status s et w st = (a, st1)"
  shows "rs_session_halted (snd (book_actions_uncached s et w st))
      \<longleftrightarrow> rs_session_halted st \<or> ra_active a \<and> ra_halted a"
    and "rs_session_flattened (snd (book_actions_uncached s et w st))
      \<longleftrightarrow> rs_session_flattened st \<or> ra_active a \<and> ra_flatten a"
    and "rs_session_blocked (snd (book_actions_uncached s et w st)) = rs_session_blocked st"
    and "ba_should_flatten (fst (book_actions_uncached s et w st))
      \<longleftrightarrow> rs_session_flattened (snd (book_actions_uncached s et w st))"
  using rail_a_same [OF assms] assms
  by (simp_all add: book_actions_uncached_def Let_def latch_book_def split: option.split)

lemma book_uncached_latched: "latched st (snd (book_actions_uncached s et w st))"
proof -
  obtain a st1 where "compute_rail_a_status s et w st = (a, st1)" by fastforce
  from book_uncached_fields [OF this] show ?thesis by (simp add: latched_def)
qed

lemma book_actions_latched: "latched st (snd (book_actions s et w st))"
proof -
  have "latched st (snd (book_actions_uncached s et w st)\<lparr>rs_cache := c\<rparr>)" for c
    by (rule latched_trans [OF book_uncached_latched], rule latched_same) simp_all
  then show ?thesis
    by (simp add: book_actions_def Let_def split_def split: option.split)
qed

lemma rail_b_verdict_state:
  assumes "rail_b_verdict s dep n el win st = Inr (b, st')"
  shows "st' = st \<or> (\<exists>r. rs_session_blocked st' = AList.update dep r (rs_session_blocked st)
    \<and> rb_blocked r \<and> rb_blocked b \<and> rs_session_halted st' = rs_session_halted st
    \<and> rs_session_flattened st' = rs_session_flattened st \<and> rs_reservations st' = rs_reservations st)"
proof (cases "int (length (map fst win)) < demote_min_n s \<or> win = []
    \<or> f_le (demote_threshold_usd s) (Fin (round2 (sum_list (map fst win) / of_nat (length (map fst win)))))")
  case True
  with assms show ?thesis
    by (auto simp only: rail_b_verdict_def Let_def if_True if_False split: if_splits)
next
  case False
  with assms show ?thesis
    unfolding rail_b_verdict_def Let_def by (auto intro!: exI)
qed

lemma evaluate_rail_b_cases:
  assumes "evaluate_rail_b s w dep st = Inr (b, st')"
  shows "st' = st \<or> map_of (rs_session_blocked st) dep = None
    \<and> (\<exists>n el win. rail_b_verdict s dep n el win st = Inr (b, st'))"
  using assms by (auto simp: evaluate_rail_b_def Let_def split: if_splits option.splits sum.splits)

lemma rail_b_latched:
  assumes "evaluate_rail_b s w dep st = Inr (b, st')"
  shows "latched st st'"
  using evaluate_rail_b_cases [OF assms]
proof (elim disjE conjE exE)
  fix n el win
  assume n: "map_of (rs_session_blocked st) dep = None"
    and v: "rail_b_verdict s dep n el win st = Inr (b, st')"
  from rail_b_verdict_state [OF v] n show ?thesis
    by (auto simp: latched_def update_lookup)
qed simp

lemma latch_entry_latched: "latched st (latch_entry a st)"
  by (simp add: latched_def)

lemma emit_entry_latched: "latched st (emit_entry_decision dep d st)"
  by (rule latched_same) (simp_all add: emit_entry_decision_def)

lemma allow_entry_latched:
  assumes "allow_entry s et w dep st = Inr (d, st')"
  shows "latched st st'"
proof -
  obtain a st1 where a: "compute_rail_a_status s et w st = (a, st1)" by fastforce
  have one: "latched st st1" using rail_a_same [OF a] by (intro latched_same) simp_all
  have two: "latched st (latch_entry a st1)" by (rule latched_trans [OF one latch_entry_latched])
  from assms show ?thesis
    unfolding allow_entry_def a Let_def prod.case
    by (auto simp: bind_result_Inr_iff split: if_splits
        intro: latched_trans [OF two] latched_trans [OF _ emit_entry_latched] rail_b_latched)
qed

lemma sized_decision_fields [simp]:
  "rs_session_halted (snd (sized_decision al dep tid rail rsv reason ds st)) = rs_session_halted st"
  "rs_session_flattened (snd (sized_decision al dep tid rail rsv reason ds st)) = rs_session_flattened st"
  "rs_session_blocked (snd (sized_decision al dep tid rail rsv reason ds st)) = rs_session_blocked st"
  "rs_reservations (snd (sized_decision al dep tid rail rsv reason ds st)) = rs_reservations st"
  "ed_allowed (fst (sized_decision al dep tid rail rsv reason ds st)) = al"
  "ed_reason (fst (sized_decision al dep tid rail rsv reason ds st)) = Some reason"
  by (simp_all add: sized_decision_def emit_sized_entry_decision_def entry_decision_of_def Let_def)

lemma expire_fields [simp]:
  "rs_session_halted (expire_reservations n act st) = rs_session_halted st"
  "rs_session_flattened (expire_reservations n act st) = rs_session_flattened st"
  "rs_session_blocked (expire_reservations n act st) = rs_session_blocked st"
  by (simp_all add: expire_reservations_def)

lemma prospective_state:
  assumes "prospective_stage s et w p others opens ds st = (r, st')"
  shows "latched st st' \<and> rs_reservations st' = rs_reservations st"
proof -
  obtain a st1 where a: "compute_rail_a_status s et w st = (a, st1)" by fastforce
  note f = rail_a_same [OF a]
  have one: "latched st st1" using f by (intro latched_same) simp_all
  have two: "latched st (latch_entry a st1)" by (rule latched_trans [OF one latch_entry_latched])
  from assms one two f show ?thesis
    unfolding prospective_stage_def a Let_def prod.case by (auto split: if_splits)
qed

lemma commit_stage_latched: "latched st (snd (sized_commit_stage w q rsv cl p ds st))"
  by (simp add: sized_commit_stage_def latched_def split: option.split)

lemma sized_book_latched: "latched st (snd (sized_book_stage s et w q rsv p trades st))"
proof -
  let ?st1 = "expire_reservations (w_now w) (rq_active (w_closed_sessions w) (rs_reservations st)) st"
  have one: "latched st ?st1" by (rule latched_same) simp_all
  have pr: "latched st st2" if "prospective_stage s et w p ot op ds ?st1 = (r, st2)" for ot op ds r st2
    using latched_trans [OF one] prospective_state [OF that] by blast
  have dec: "latched st (snd (sized_decision al dep tid rail rs reason ds st2))" if "latched st st2"
    for al dep tid rail rs reason ds st2
    using that by (simp add: latched_def)
  have com: "latched st (snd (sized_commit_stage w q rsv cl p ds st2))" if "latched st st2" for cl ds st2
    by (rule latched_trans [OF that commit_stage_latched])
  show ?thesis
    unfolding sized_book_stage_def Let_def
    by (auto simp: one dest!: pr intro!: dec com split: prod.split sum.split)
qed

lemma sized_latched: "latched st (snd (reserve_sized_entry s et w q rsv st))"
proof -
  have dec: "latched st (snd (sized_decision al dep tid rail rs reason ds st))" for al dep tid rail rs reason ds
    by (simp add: latched_def)
  show ?thesis
    unfolding reserve_sized_entry_def Let_def
    by (auto intro: dec sized_book_latched split: sum.split option.split)
qed

datatype risk_op = Book risk_world | Allow risk_world string | Sized risk_world sized_request bool
  | ReleaseSized string | CommitSized string

text \<open>
  One call of the manager. A read of rail B that raises leaves the state as the drawdown
  check left it.
\<close>

fun risk_step :: "risk_settings \<Rightarrow> (int \<Rightarrow> int) \<Rightarrow> risk_op \<Rightarrow> risk_state \<Rightarrow> risk_state" where
  "risk_step s et (Book w) st = snd (book_actions s et w st)"
| "risk_step s et (Allow w dep) st =
     (case allow_entry s et w dep st of
        Inr (d, st') \<Rightarrow> st'
      | Inl e \<Rightarrow> (let (a, st1) = compute_rail_a_status s et w st in latch_entry a st1))"
| "risk_step s et (Sized w q rsv) st = snd (reserve_sized_entry s et w q rsv st)"
| "risk_step s et (ReleaseSized tid) st = release_sized_entry tid st"
| "risk_step s et (CommitSized tid) st = commit_sized_entry tid st"

lemma risk_step_latched: "latched st (risk_step s et oper st)"
proof (cases oper)
  case (Allow w dep)
  show ?thesis
  proof (cases "allow_entry s et w dep st")
    case (Inl e)
    obtain a st1 where a: "compute_rail_a_status s et w st = (a, st1)" by fastforce
    have "latched st st1" using rail_a_same [OF a] by (intro latched_same) simp_all
    with Inl Allow a show ?thesis by (auto intro: latched_trans [OF _ latch_entry_latched])
  next
    case (Inr r)
    with Allow show ?thesis by (cases r) (auto intro: allow_entry_latched)
  qed
qed (auto simp: book_actions_latched sized_latched release_sized_entry_def commit_sized_entry_def
    intro: latched_same)

lemma risk_run_latched: "latched st (fold (risk_step s et) ops st)"
  by (induction ops arbitrary: st) (auto intro: latched_trans [OF risk_step_latched])

lemma allow_halted:
  assumes "rs_session_halted st"
  shows "\<exists>d st'. allow_entry s et w dep st = Inr (d, st') \<and> \<not> ed_allowed d \<and> ed_reason d = Some TIER1_HALT_REASON"
proof -
  obtain a st1 where a: "compute_rail_a_status s et w st = (a, st1)" by fastforce
  with rail_a_same [OF a] assms show ?thesis
    by (simp add: allow_entry_def a Let_def entry_decision_of_def)
qed

lemma prospective_halted:
  assumes "rs_session_halted st" "prospective_loss_enabled s"
  shows "\<exists>x st'. prospective_stage s et w p others opens ds st = (Inl x, st')"
proof -
  obtain a st1 where a: "compute_rail_a_status s et w st = (a, st1)" by fastforce
  with rail_a_same [OF a] assms show ?thesis
    by (auto simp: prospective_stage_def a Let_def)
qed

lemma sized_halted:
  assumes "rs_session_halted st" "prospective_loss_enabled s"
  shows "\<not> ed_allowed (fst (reserve_sized_entry s et w q rsv st))"
proof -
  have "\<not> ed_allowed (fst (sized_book_stage s et w q rsv p trades st))" for p trades
  proof -
    let ?st1 = "expire_reservations (w_now w) (rq_active (w_closed_sessions w) (rs_reservations st)) st"
    have no: False if "prospective_stage s et w p ot op ds ?st1 = (Inr x, st')" for ot op ds x st'
      using prospective_halted [of ?st1 s et w p ot op ds] assms that by auto
    show ?thesis
      unfolding sized_book_stage_def Let_def
      by (auto split: prod.split sum.split dest: no)
  qed
  then show ?thesis
    by (auto simp: reserve_sized_entry_def Let_def split: sum.split option.split)
qed

text \<open>
  C16. A halt lasts the session. Once the drawdown rail has halted the session, or flattened
  it, no sequence of later calls, whatever profit, budgets and errors they read, takes the
  latch back: every entry consult is refused with the halt's reason, and no sized entry is
  approved while the prospective-loss rail is on. Rail B's blocks last in the same way.
\<close>

theorem halt_lasts_the_session:
  assumes "rs_session_halted st"
  shows "let st1 = fold (risk_step s et) ops st in
    rs_session_halted st1
    \<and> (\<exists>d st'. allow_entry s et w dep st1 = Inr (d, st') \<and> \<not> ed_allowed d \<and> ed_reason d = Some TIER1_HALT_REASON)
    \<and> (prospective_loss_enabled s \<longrightarrow> \<not> ed_allowed (fst (reserve_sized_entry s et w q rsv st1)))
    \<and> (rs_session_flattened st \<longrightarrow> rs_session_flattened st1)
    \<and> (\<forall>d b. map_of (rs_session_blocked st) d = Some b \<longrightarrow> map_of (rs_session_blocked st1) d = Some b)"
proof -
  have l: "latched st (fold (risk_step s et) ops st)" by (rule risk_run_latched)
  with assms have h: "rs_session_halted (fold (risk_step s et) ops st)" by (simp add: latched_def)
  show ?thesis
    unfolding Let_def
    using h l allow_halted [OF h, of s et w dep] sized_halted [OF h, of s et w q rsv]
    unfolding latched_def by blast
qed

definition quiet_world :: risk_world where
  "quiet_world = \<lparr>w_now = 0, w_budget = Inr None, w_recent = Inr [], w_partials = Inr (\<lambda>_. []),
     w_closed = (\<lambda>_. Inr []), w_open = Inr [], w_reservations_error = None, w_closed_sessions = [],
     w_mark = None, w_upsert_error = None\<rparr>"

definition demo_risk_settings :: risk_settings where
  "demo_risk_settings = \<lparr>rail_a_enabled = True, rail_b_enabled = True, max_daily_drawdown_pct = Fin 2,
     flatten_daily_drawdown_pct = Fin 3, demote_window = 10, demote_min_n = 10,
     demote_threshold_usd = Fin 0, prospective_loss_enabled = True,
     max_open_positions_per_cluster = 1, open_drawdown_warn_pct = None, demote_reset_at = None,
     validation_warnings = []\<rparr>"

theorem halt_lasts_the_session_witness:
  "rs_session_halted (fold (risk_step demo_risk_settings (\<lambda>_. 0)) [Book quiet_world, Allow quiet_world ''d1'']
     (new_risk_state\<lparr>rs_session_halted := True\<rparr>))"
proof -
  have "rs_session_halted (new_risk_state\<lparr>rs_session_halted := True\<rparr>)" by simp
  from halt_lasts_the_session [OF this] show ?thesis unfolding Let_def by blast
qed

end
