(* ===== verification/Risk_Budget.thy ===== *)
theory Risk_Budget
  imports Risk_Proofs
begin

text \<open>
  The loss budget of an approved entry, what happens when the budget is unknown, the
  evidence window of rail B, and the throttle of the book check.
\<close>

section \<open>The reservation table\<close>

definition in_force :: "int \<Rightarrow> string list \<Rightarrow> risk_reservation list \<Rightarrow> risk_reservation list" where
  "in_force now closed_ids rows = filter (\<lambda>x. \<not> rr_expires_at x \<le> now) (rq_active closed_ids rows)"

definition force_pred :: "int \<Rightarrow> string list \<Rightarrow> risk_reservation \<Rightarrow> bool" where
  "force_pred now closed_ids x \<longleftrightarrow> rr_status x = ''reserved'' \<and> rr_trade_id x \<notin> set closed_ids
     \<and> \<not> rr_expires_at x \<le> now"

definition table_ok :: "risk_reservation list \<Rightarrow> bool" where
  "table_ok rows \<longleftrightarrow> distinct (map rr_trade_id rows)
     \<and> (\<forall>x \<in> set rows. cents (rr_planned_stop_loss_usd x))"

lemma in_force_filter: "in_force now ids rows = filter (force_pred now ids) rows"
  unfolding in_force_def rq_active_def filter_filter force_pred_def by (rule filter_cong) auto

lemma others_filter:
  "other_reservations now tid (rq_active ids rows) = filter (\<lambda>x. force_pred now ids x \<and> rr_trade_id x \<noteq> tid) rows"
  unfolding other_reservations_def rq_active_def filter_filter force_pred_def by (rule filter_cong) auto

lemma filter_mark:
  assumes "\<And>y. y \<in> set rows \<Longrightarrow> rr_trade_id y = tid \<Longrightarrow> \<not> P y" "\<And>y. \<not> P (y\<lparr>rr_status := st\<rparr>)"
  shows "filter P (rq_mark tid st rows) = filter P rows"
  using assms by (induction rows) (auto simp: rq_mark_def)

lemma mark_ids: "map rr_trade_id (rq_mark tid st rows) = map rr_trade_id rows"
  by (induction rows) (auto simp: rq_mark_def)

lemma mark_table_ok: "table_ok rows \<Longrightarrow> table_ok (rq_mark tid st rows)"
  unfolding table_ok_def mark_ids by (auto simp: rq_mark_def)

lemma set_mark: "y \<in> set (rq_mark tid st rows) \<Longrightarrow> y \<in> set rows \<or> rr_status y = st"
  by (auto simp: rq_mark_def)

lemma filter_expire:
  assumes "\<And>x y. x \<in> set xs \<Longrightarrow> rr_expires_at x \<le> now \<Longrightarrow> y \<in> set rows \<Longrightarrow> rr_trade_id y = rr_trade_id x \<Longrightarrow> \<not> P y"
    and "\<And>y. P y \<Longrightarrow> rr_status y \<noteq> ''expired''"
  shows "filter P (fold (\<lambda>x rows. if rr_expires_at x \<le> now then rq_mark (rr_trade_id x) ''expired'' rows else rows) xs rows)
    = filter P rows"
  using assms(1)
proof (induction xs arbitrary: rows)
  case (Cons x xs)
  show ?case
  proof (cases "rr_expires_at x \<le> now")
    case True
    have "\<not> P y" if "z \<in> set xs" "rr_expires_at z \<le> now"
      "y \<in> set (rq_mark (rr_trade_id x) ''expired'' rows)" "rr_trade_id y = rr_trade_id z" for z y
      using that Cons.prems assms(2) set_mark [OF that(3)] by (meson list.set_intros(2))
    note IH = Cons.IH [OF this]
    have "filter P (rq_mark (rr_trade_id x) ''expired'' rows) = filter P rows"
      by (rule filter_mark) (use Cons.prems True assms(2) in \<open>force+\<close>)
    with IH True show ?thesis by simp
  next
    case False
    have "\<not> P y" if "z \<in> set xs" "rr_expires_at z \<le> now" "y \<in> set rows" "rr_trade_id y = rr_trade_id z" for z y
      using that Cons.prems by (meson list.set_intros(2))
    from Cons.IH [OF this] False show ?thesis by simp
  qed
qed simp

lemma unique_row:
  "distinct (map rr_trade_id rows) \<Longrightarrow> x \<in> set rows \<Longrightarrow> y \<in> set rows \<Longrightarrow> rr_trade_id x = rr_trade_id y \<Longrightarrow> x = y"
  by (auto simp: distinct_map inj_on_def)

lemma expire_force:
  assumes "table_ok (rs_reservations st)"
  shows "filter (\<lambda>x. force_pred now ids x \<and> Q x)
      (rs_reservations (expire_reservations now (rq_active ids (rs_reservations st)) st))
    = filter (\<lambda>x. force_pred now ids x \<and> Q x) (rs_reservations st)"
  unfolding expire_reservations_def
  by (simp, rule filter_expire)
    (use assms in \<open>auto simp: force_pred_def rq_active_def table_ok_def dest: unique_row\<close>)

lemma expire_table_ok:
  assumes "table_ok (rs_reservations st)"
  shows "table_ok (rs_reservations (expire_reservations now act st))"
proof -
  have "table_ok rows \<Longrightarrow> table_ok (fold (\<lambda>x rows. if rr_expires_at x \<le> now
      then rq_mark (rr_trade_id x) ''expired'' rows else rows) xs rows)" for xs rows
    by (induction xs arbitrary: rows) (auto intro: mark_table_ok)
  with assms show ?thesis by (simp add: expire_reservations_def)
qed

lemma upsert_force:
  "distinct (map rr_trade_id rows) \<Longrightarrow> P x \<Longrightarrow>
   mset (filter P (rq_upsert x rows)) = add_mset x (mset (filter (\<lambda>y. P y \<and> rr_trade_id y \<noteq> rr_trade_id x) rows))"
proof (induction rows)
  case (Cons y rows)
  have "filter (\<lambda>z. P z \<and> rr_trade_id z \<noteq> rr_trade_id y) rows = filter P rows"
    using Cons.prems(1) by (intro filter_cong) (auto simp: rev_image_eqI)
  with Cons show ?case by (auto simp: rq_upsert_def simp del: mset_filter)
qed (simp add: rq_upsert_def)

section \<open>The budget\<close>

definition open_outside :: "risk_reservation list \<Rightarrow> trade_record list \<Rightarrow> trade_record list" where
  "open_outside book trades =
     filter (\<lambda>t. is_open_live_trade t \<and> tr_trade_id t \<notin> rr_trade_id ` set book) trades"

definition exposure :: "real \<Rightarrow> risk_reservation list \<Rightarrow> trade_record list \<Rightarrow> real" where
  "exposure realized book trades = max (- realized) 0 + open_planned_loss (open_outside book trades)
     + sum_list (map rr_planned_stop_loss_usd book)"

lemma loss_cents: "cents (loss_amount (open_trade_loss t))"
  by (auto simp: open_trade_loss_def cents_def dest: planned_round split: option.splits)

lemma open_planned_cents: "cents (open_planned_loss ts)"
  unfolding open_planned_loss_def by (rule cents_sum_list) (simp add: loss_cents)

lemma realized_cents: "realized_live_pnl_today et w d = Inr x \<Longrightarrow> cents x"
  by (auto simp: realized_live_pnl_today_def split: sum.splits)

lemma cents_neg: "cents x \<Longrightarrow> cents (- x)"
  using cents_diff [of 0 x] by simp

lemma proposed_cents: "cents (or_zero (planned_stop_loss_usd e q sp pct))"
  by (auto simp: or_zero_def cents_def dest: planned_round split: option.split)

text \<open>What a passed rail says, when both rails are on.\<close>

lemma prospective_passed:
  assumes "prospective_stage s et w p others opens ds st = (Inr ds', st')"
    and "prospective_loss_enabled s" "rail_a_enabled s"
  obtains day realized where "w_budget w = Inr (Some day)"
    "realized_live_pnl_today et w (risk_trade_date_et et (Aware (w_now w))) = Inr realized"
    "unquantifiable_ids opens = []"
    "\<not> f_lt (abs_pf (round_pf (drawdown_threshold (max_daily_drawdown_pct s) (cd_usable_budget day))))
        (Fin (round2 (max (- realized) 0 + open_planned_loss opens + reserved_planned_loss others + p)))"
    "\<not> f_le (Fin realized) (drawdown_threshold (max_daily_drawdown_pct s) (cd_usable_budget day))"
proof -
  obtain a st1 where a: "compute_rail_a_status s et w st = (a, st1)" by fastforce
  have act: "ra_active a" "\<not> ra_halted a"
    using assms unfolding prospective_stage_def a Let_def prod.case by (auto split: if_splits)
  have rest: "unquantifiable_ids opens = []"
    "\<not> f_lt (loss_budget_of a) (Fin (prospective_total_of a p others opens))"
    using assms act unfolding prospective_stage_def a Let_def prod.case by (auto split: if_splits)
  from a act(1) assms(3) obtain day realized where d: "w_budget w = Inr (Some day)"
    "realized_live_pnl_today et w (risk_trade_date_et et (Aware (w_now w))) = Inr realized"
    and ae: "a = rail_a_active s (cd_usable_budget day) realized (risk_trade_date_et et (Aware (w_now w)))"
    by (auto simp: compute_rail_a_status_def Let_def rail_a_inactive_def split: sum.splits option.splits)
  show thesis
    using that [OF d rest(1)] rest(2) act(2)
    by (simp add: ae rail_a_active_def Let_def loss_budget_of_def prospective_total_of_def realized_loss_of_def
        or_zero_def)
qed

lemma sized_decision_refused: "ed_allowed d \<Longrightarrow> sized_decision False dep tid rail rs reason ds st0 \<noteq> (d, st')"
  using sized_decision_fields(5) [of False dep tid rail rs reason ds st0]
  by (auto simp del: sized_decision_fields)

lemma commit_stage_passed:
  assumes "sized_commit_stage w q True cl p ds st = (d, st')" "ed_allowed d"
  shows "rs_reservations st' = rq_upsert (sized_reservation q cl p (w_now w)) (rs_reservations st)"
proof (cases "w_upsert_error w")
  case None
  with assms(1) have "st' = snd (sized_decision True (sz_deployment_id q) (sz_trade_id q) ''sized-entry'' True
      ''approved'' ds (st\<lparr>rs_reservations := rq_upsert (sized_reservation q cl p (w_now w)) (rs_reservations st)\<rparr>))"
    by (simp add: sized_commit_stage_def)
  then show ?thesis by simp
next
  case (Some e)
  with assms show ?thesis by (simp add: sized_commit_stage_def sized_decision_refused)
qed

lemma book_stage_passed:
  assumes "sized_book_stage s et w q True p trades st = (d, st')" "ed_allowed d"
  obtains ds0 ds st2 where
    "prospective_stage s et w p
       (other_reservations (w_now w) (sz_trade_id q) (rq_active (w_closed_sessions w) (rs_reservations st)))
       (sized_open_trades (sz_trade_id q)
         (other_reservations (w_now w) (sz_trade_id q) (rq_active (w_closed_sessions w) (rs_reservations st))) trades)
       ds0 (expire_reservations (w_now w) (rq_active (w_closed_sessions w) (rs_reservations st)) st) = (Inr ds, st2)"
    "correlation_cluster (Some (sz_symbol q)) = None \<or> max_open_positions_per_cluster s \<le> 0
      \<or> cluster_count (correlation_cluster (Some (sz_symbol q)))
          (other_reservations (w_now w) (sz_trade_id q) (rq_active (w_closed_sessions w) (rs_reservations st)))
          (sized_open_trades (sz_trade_id q)
             (other_reservations (w_now w) (sz_trade_id q) (rq_active (w_closed_sessions w) (rs_reservations st))) trades)
        < max_open_positions_per_cluster s"
    "rs_reservations st' = rq_upsert (sized_reservation q (correlation_cluster (Some (sz_symbol q))) p (w_now w))
       (rs_reservations st2)"
proof -
  let ?act = "rq_active (w_closed_sessions w) (rs_reservations st)"
  let ?oth = "other_reservations (w_now w) (sz_trade_id q) ?act"
  let ?op = "sized_open_trades (sz_trade_id q) ?oth trades"
  let ?cl = "correlation_cluster (Some (sz_symbol q))"
  let ?ds0 = "[(''prospective_loss_enabled'', PBool (prospective_loss_enabled s)),
                    (''proposed_planned_stop_loss_usd'', PFloat (Fin p))]
               @ cluster_details_of s ?cl (cluster_count ?cl ?oth ?op)"
  have cap: "\<not> (?cl \<noteq> None \<and> max_open_positions_per_cluster s > 0
      \<and> cluster_count ?cl ?oth ?op \<ge> max_open_positions_per_cluster s)"
    using assms by (auto simp: sized_book_stage_def Let_def sized_decision_refused)
  obtain r st2 where r: "prospective_stage s et w p ?oth ?op ?ds0 (expire_reservations (w_now w) ?act st) = (r, st2)"
    by fastforce
  have eq: "(case r of Inl (reason, rail, details) \<Rightarrow>
      sized_decision False (sz_deployment_id q) (sz_trade_id q) rail True reason details st2
    | Inr details \<Rightarrow> sized_commit_stage w q True ?cl p details st2) = (d, st')"
    using assms(1) unfolding sized_book_stage_def Let_def if_not_P [OF cap] r
    by (auto split: sum.splits prod.splits)
  then obtain ds where ds: "r = Inr ds" "sized_commit_stage w q True ?cl p ds st2 = (d, st')"
    using assms(2) by (auto simp: sized_decision_refused split: sum.splits)
  from that [OF r [unfolded ds(1)] _ commit_stage_passed [OF ds(2) assms(2)]] cap show thesis by linarith
qed

lemma sized_passed:
  assumes "reserve_sized_entry s et w q True st = (d, st')" "ed_allowed d"
  obtains trades where "w_open w = Inr trades"
    "sized_book_stage s et w q True
       (or_zero (planned_stop_loss_usd (Some (sz_entry_price q)) (sz_quantity q) None (sz_stop_loss_pct q)))
       trades st = (d, st')"
proof -
  let ?pl = "planned_stop_loss_usd (Some (sz_entry_price q)) (sz_quantity q) None (sz_stop_loss_pct q)"
  have "\<not> (?pl = None \<and> prospective_loss_enabled s)"
    using assms unfolding reserve_sized_entry_def Let_def by (auto simp: sized_decision_refused)
  then have "(case (w_open w, w_reservations_error w) of
             (Inl e, _) \<Rightarrow> sized_decision False (sz_deployment_id q) (sz_trade_id q) ''entry-risk'' True
                ''risk_sized_entry_book_unavailable'' [(''error'', PStr e)] st
           | (_, Some e) \<Rightarrow> sized_decision False (sz_deployment_id q) (sz_trade_id q) ''entry-risk'' True
                ''risk_sized_entry_book_unavailable'' [(''error'', PStr e)] st
           | (Inr open_trades, None) \<Rightarrow> sized_book_stage s et w q True (or_zero ?pl) open_trades st) = (d, st')"
    using assms(1) unfolding reserve_sized_entry_def Let_def by (simp only: if_False)
  with assms(2) show thesis
    by (cases "w_open w"; cases "w_reservations_error w") (simp_all add: sized_decision_refused that)
qed

lemma mset_book:
  assumes "mset book = add_mset x (mset xs)"
  shows "set book = insert x (set xs)"
    and "sum_list (map f book) = f x + (sum_list (map f xs) :: real)"
proof -
  show "set book = insert x (set xs)" using arg_cong [OF assms, of set_mset] by simp
  have "sum_list (map f ys) = sum_mset (image_mset f (mset ys))" for ys
    by (induction ys) auto
  then show "sum_list (map f book) = f x + sum_list (map f xs)" using assms by simp
qed

lemma own_in_force:
  "sz_trade_id q \<notin> set ids \<Longrightarrow> force_pred now ids (sized_reservation q cl p now)"
  "rr_trade_id (sized_reservation q cl p now) = sz_trade_id q"
  by (simp_all add: force_pred_def sized_reservation_def SIZED_ENTRY_RESERVATION_TTL_def)

lemma upsert_table_ok:
  assumes "table_ok rows" "cents (rr_planned_stop_loss_usd x)"
  shows "table_ok (rq_upsert x rows)"
  using assms upsert_row_set [of rr_trade_id x rows]
  by (auto simp: table_ok_def rq_upsert_def upsert_row_keys)

text \<open>
  C5. An approved entry fits the loss budget. With both rails on and a finite halt
  percentage \<open>p\<close>, when a sized entry is approved for a trade that is not already closed:
  the budget row and today's profit were read, the halt was not breached, every open live
  trade outside the reservations has a known worst loss, and the loss realized today, plus
  the planned losses of those trades, plus every reservation now in force (this entry's
  included) is at most \<open>p\<close> percent of the usable budget, to the cent.
\<close>

theorem approved_entry_within_loss_budget:
  assumes "reserve_sized_entry s et w q True st = (d, st')" "ed_allowed d"
    and "prospective_loss_enabled s" "rail_a_enabled s" "max_daily_drawdown_pct s = Fin p"
    and "table_ok (rs_reservations st)" "sz_trade_id q \<notin> set (w_closed_sessions w)"
  shows "table_ok (rs_reservations st') \<and> (\<exists>day realized trades.
    w_budget w = Inr (Some day) \<and> w_open w = Inr trades
    \<and> realized_live_pnl_today et w (risk_trade_date_et et (Aware (w_now w))) = Inr realized
    \<and> - (p / 100) * cd_usable_budget day < realized
    \<and> (let book = in_force (w_now w) (w_closed_sessions w) (rs_reservations st') in
        unquantifiable_ids (open_outside book trades) = []
        \<and> exposure realized book trades \<le> \<bar>round2 (- (p / 100) * cd_usable_budget day)\<bar>))"
proof -
  let ?now = "w_now w" and ?ids = "w_closed_sessions w" and ?tid = "sz_trade_id q"
  let ?rows = "rs_reservations st"
  let ?oth = "other_reservations ?now ?tid (rq_active ?ids ?rows)"
  let ?p0 = "or_zero (planned_stop_loss_usd (Some (sz_entry_price q)) (sz_quantity q) None (sz_stop_loss_pct q))"
  let ?own = "sized_reservation q (correlation_cluster (Some (sz_symbol q))) ?p0 ?now"
  obtain trades where t: "w_open w = Inr trades" "sized_book_stage s et w q True ?p0 trades st = (d, st')"
    using sized_passed [OF assms(1,2)] by blast
  let ?op = "sized_open_trades ?tid ?oth trades"
  obtain ds0 ds st2 where pr: "prospective_stage s et w ?p0 ?oth ?op ds0
       (expire_reservations ?now (rq_active ?ids ?rows) st) = (Inr ds, st2)"
    and rows': "rs_reservations st' = rq_upsert ?own (rs_reservations st2)"
    using book_stage_passed [OF t(2) assms(2)] by blast
  let ?rows1 = "rs_reservations (expire_reservations ?now (rq_active ?ids ?rows) st)"
  have ok1: "table_ok ?rows1" by (rule expire_table_ok [OF assms(6)])
  have rows1: "rs_reservations st' = rq_upsert ?own ?rows1"
    using prospective_state [OF pr] rows' by simp
  have book: "mset (in_force ?now ?ids (rs_reservations st')) = add_mset ?own (mset ?oth)"
    using upsert_force [of ?rows1 "force_pred ?now ?ids" ?own]
      expire_force [OF assms(6), of ?now ?ids "\<lambda>x. rr_trade_id x \<noteq> ?tid"] ok1 assms(7)
    by (simp add: rows1 in_force_filter others_filter table_ok_def own_in_force del: mset_filter)
  note b = mset_book [OF book]
  have own_cents: "cents ?p0" by (rule proposed_cents)
  have oth_cents: "cents (sum_list (map rr_planned_stop_loss_usd ?oth))"
    using assms(6) by (intro cents_sum_list) (auto simp: others_filter table_ok_def)
  obtain day realized where w: "w_budget w = Inr (Some day)"
    "realized_live_pnl_today et w (risk_trade_date_et et (Aware (w_now w))) = Inr realized"
    "unquantifiable_ids ?op = []"
    "\<not> f_lt (abs_pf (round_pf (drawdown_threshold (max_daily_drawdown_pct s) (cd_usable_budget day))))
        (Fin (round2 (max (- realized) 0 + open_planned_loss ?op + reserved_planned_loss ?oth + ?p0)))"
    "\<not> f_le (Fin realized) (drawdown_threshold (max_daily_drawdown_pct s) (cd_usable_budget day))"
    using prospective_passed [OF pr assms(3,4)] by blast
  have op: "open_outside (in_force ?now ?ids (rs_reservations st')) trades = ?op"
    unfolding open_outside_def sized_open_trades_def b(1)
    by (rule filter_cong) (auto simp: sized_reservation_def)
  have "cents (max (- realized) 0 + open_planned_loss ?op + reserved_planned_loss ?oth + ?p0)"
    using realized_cents [OF w(2)] open_planned_cents own_cents
    by (intro cents_add cents_max cents_neg) (auto simp: reserved_planned_loss_def)
  moreover have "reserved_planned_loss ?oth = sum_list (map rr_planned_stop_loss_usd ?oth)"
    using oth_cents by (simp add: reserved_planned_loss_def cents_def)
  ultimately have total: "round2 (max (- realized) 0 + open_planned_loss ?op + reserved_planned_loss ?oth + ?p0)
      = exposure realized (in_force ?now ?ids (rs_reservations st')) trades"
    by (simp add: exposure_def op b(2) cents_def) (simp add: sized_reservation_def)
  have thr: "drawdown_threshold (max_daily_drawdown_pct s) (cd_usable_budget day)
      = Fin (- (p / 100) * cd_usable_budget day)"
    by (simp add: assms(5) drawdown_threshold_def)
  have ok': "table_ok (rs_reservations st')"
    unfolding rows1 by (rule upsert_table_ok [OF ok1]) (simp add: sized_reservation_def own_cents)
  show ?thesis
    using ok' w(1-3) t(1) w(4,5) by (auto simp: op total thr Let_def)
qed

definition funded_world :: risk_world where
  "funded_world = quiet_world\<lparr>w_budget := Inr (Some \<lparr>cd_trade_date = 0, cd_account_type = None,
     cd_broker_cash = 10000, cd_usable_budget = 10000, cd_buffer_pct = Fin 0\<rparr>)\<rparr>"

definition demo_sized :: sized_request where
  "demo_sized = \<lparr>sz_trade_id = ''t1'', sz_deployment_id = ''d1'', sz_symbol = ''SPY'', sz_entry_price = 1,
     sz_quantity = 1, sz_stop_loss_pct = Some (1/2)\<rparr>"

definition demo_sized_result :: "entry_decision \<times> risk_state" where
  "demo_sized_result = reserve_sized_entry demo_risk_settings (\<lambda>_. 0) funded_world demo_sized True new_risk_state"

lemma demo_sized_allowed: "ed_allowed (fst demo_sized_result)"
  by code_simp

theorem approved_entry_within_loss_budget_witness:
  "\<exists>realized. exposure realized (in_force 0 [] (rs_reservations (snd demo_sized_result))) [] \<le> 200"
proof -
  have e: "reserve_sized_entry demo_risk_settings (\<lambda>_. 0) funded_world demo_sized True new_risk_state
      = (fst demo_sized_result, snd demo_sized_result)" by (simp add: demo_sized_result_def)
  have t: "table_ok (rs_reservations new_risk_state)" by (simp add: table_ok_def new_risk_state_def)
  have s: "prospective_loss_enabled demo_risk_settings" "rail_a_enabled demo_risk_settings"
    "max_daily_drawdown_pct demo_risk_settings = Fin 2" "sz_trade_id demo_sized \<notin> set (w_closed_sessions funded_world)"
    by (simp_all add: demo_risk_settings_def funded_world_def quiet_world_def)
  have r: "\<bar>round2 (- (2 / 100) * 10000)\<bar> = 200" by code_simp
  from approved_entry_within_loss_budget [OF e demo_sized_allowed s(1-3) t s(4)] r show ?thesis
    by (auto simp: funded_world_def quiet_world_def Let_def)
qed

text \<open>
  Clusters are capped. When a sized entry in a mapped cluster is approved and the cap is
  positive, the open live trades of that cluster that hold no reservation, together with
  the reservations of the cluster now in force, this entry's included, number at most the
  cap.
\<close>

lemma approved_entry_within_cluster_cap:
  assumes "reserve_sized_entry s et w q True st = (d, st')" "ed_allowed d"
    and "0 < max_open_positions_per_cluster s" "correlation_cluster (Some (sz_symbol q)) = Some c"
    and "table_ok (rs_reservations st)" "sz_trade_id q \<notin> set (w_closed_sessions w)"
  shows "\<exists>trades. w_open w = Inr trades
    \<and> (let book = in_force (w_now w) (w_closed_sessions w) (rs_reservations st') in
        cluster_count (Some c) book (open_outside book trades) \<le> max_open_positions_per_cluster s)"
proof -
  let ?now = "w_now w" and ?ids = "w_closed_sessions w" and ?tid = "sz_trade_id q"
  let ?rows = "rs_reservations st"
  let ?oth = "other_reservations ?now ?tid (rq_active ?ids ?rows)"
  obtain p trades where t: "w_open w = Inr trades" "sized_book_stage s et w q True p trades st = (d, st')"
    using sized_passed [OF assms(1,2)] by blast
  let ?op = "sized_open_trades ?tid ?oth trades"
  let ?own = "sized_reservation q (Some c) p ?now"
  let ?rows1 = "rs_reservations (expire_reservations ?now (rq_active ?ids ?rows) st)"
  obtain ds0 ds st2 where pr: "prospective_stage s et w p ?oth ?op ds0
       (expire_reservations ?now (rq_active ?ids ?rows) st) = (Inr ds, st2)"
    and n: "cluster_count (Some c) ?oth ?op < max_open_positions_per_cluster s"
    and rows': "rs_reservations st' = rq_upsert ?own (rs_reservations st2)"
    using book_stage_passed [OF t(2) assms(2)] assms(3,4) by auto
  have rows1: "rs_reservations st' = rq_upsert ?own ?rows1"
    using prospective_state [OF pr] rows' by simp
  have book: "mset (in_force ?now ?ids (rs_reservations st')) = add_mset ?own (mset ?oth)"
    using upsert_force [of ?rows1 "force_pred ?now ?ids" ?own]
      expire_force [OF assms(5), of ?now ?ids "\<lambda>x. rr_trade_id x \<noteq> ?tid"] expire_table_ok [OF assms(5)] assms(6)
    by (simp add: rows1 in_force_filter others_filter table_ok_def own_in_force del: mset_filter)
  have op: "open_outside (in_force ?now ?ids (rs_reservations st')) trades = ?op"
    unfolding open_outside_def sized_open_trades_def mset_book(1) [OF book]
    by (rule filter_cong) (auto simp: sized_reservation_def)
  have count: "count_where P xs = int (size (filter_mset P (mset xs)))" for P and xs :: "risk_reservation list"
    by (simp add: count_where_def flip: mset_filter)
  have "cluster_count (Some c) (in_force ?now ?ids (rs_reservations st')) ?op = cluster_count (Some c) ?oth ?op + 1"
    by (simp add: cluster_count_def count book sized_reservation_def)
  with n t(1) show ?thesis by (simp add: op Let_def)
qed

section \<open>Unknown budgets and unreadable percentages\<close>

lemma rail_a_unknown:
  assumes "rail_a_enabled s" "w_budget w = Inr None \<or> w_budget w = Inl e"
  shows "\<exists>st1 r. compute_rail_a_status s et w st
      = (rail_a_inactive r (Some (risk_trade_date_et et (Aware (w_now w)))), st1)
    \<and> r \<in> set BUDGET_UNAVAILABLE_REASONS"
  using assms by (auto simp: compute_rail_a_status_def Let_def BUDGET_UNAVAILABLE_REASONS_def)



text \<open>
  A failing read of the day's profit lets entries through. With a budget row but a
  failing read of the trades, the drawdown rail is inactive for a reason that is not among
  those that block, so with rail B off and no halt the entry is approved.
\<close>

lemma failed_profit_read_admits_entry:
  assumes "rail_a_enabled s" "\<not> rail_b_enabled s" "w_budget w = Inr (Some day)" "w_recent w = Inl e"
    and "\<not> rs_session_halted st"
  shows "\<exists>d st'. allow_entry s et w dep st = Inr (d, st') \<and> ed_allowed d \<and> \<not> rs_session_halted st'
    \<and> length (filter (\<lambda>x. fst x = ''risk_manager_decision'') (rs_events st'))
        = length (filter (\<lambda>x. fst x = ''risk_manager_decision'') (rs_events st)) + 2"
  using assms
  by (simp add: allow_entry_def compute_rail_a_status_def realized_live_pnl_today_def Let_def rail_a_inactive_def
      BUDGET_UNAVAILABLE_REASONS_def evaluate_rail_b_def rail_b_plain_def entry_decision_of_def
      emit_entry_decision_def emit_def latch_entry_def)

lemma nan_threshold: "drawdown_threshold NaN u = NaN"
  by (simp add: drawdown_threshold_def)

text \<open>
  A percentage that reads as NaN turns the drawdown rail off. When the text of the halt
  percentage parses to NaN the settings resolve with NaN, and under them no loss, however
  large, ever makes the rail halt, while it reports itself active and the entry
  consult does not see an unknown budget.
\<close>

lemma nan_percentage_disables_halt:
  assumes "raw_value source env ''BHIKSHA_RISK_MAX_DAILY_DRAWDOWN_PCT'' = Some v" "parse_float v = Some NaN"
    and "resolve_risk_settings iso_parse source env = Inr s" "rail_a_enabled s"
    and "w_budget w = Inr (Some day)"
    and "realized_live_pnl_today et w (risk_trade_date_et et (Aware (w_now w))) = Inr realized"
  shows "ra_active (fst (compute_rail_a_status s et w st)) \<and> \<not> ra_halted (fst (compute_rail_a_status s et w st))"
  using nan_passes [OF assms(1-3)] assms(4-)
  by (simp add: compute_rail_a_status_def Let_def rail_a_active_def nan_threshold)

lemma demo_nan_settings:
  "\<exists>s. resolve_risk_settings (\<lambda>_. None) None [''BHIKSHA_RISK_MAX_DAILY_DRAWDOWN_PCT'' \<mapsto> ''nan''] = Inr s \<and> rail_a_enabled s
     \<and> validation_warnings s = []"
proof -
  have "(case resolve_risk_settings (\<lambda>_. None) None [''BHIKSHA_RISK_MAX_DAILY_DRAWDOWN_PCT'' \<mapsto> ''nan''] of
      Inr s \<Rightarrow> rail_a_enabled s \<and> validation_warnings s = [] | Inl _ \<Rightarrow> False)"
    by code_simp
  then show ?thesis by (auto split: sum.splits)
qed

end
