(* ===== verification/Thesis_Exit.thy ===== *)
theory Thesis_Exit
  imports Profile_Exit Position_Tracker
begin

text \<open>
  \<open>src/bhiksha/execution/thesis_exit.py\<close>: the exits anchored to the underlying, evaluated on
  the latest bar of a price frame. A frame is the list of its rows; the two polars operations
  the module calls (\<open>DataFrame.filter\<close> by time, \<open>Series.min\<close>/\<open>max\<close>) are the record
  \<open>frame_ops\<close>, a parameter, with their documented behaviour as the predicate \<open>frame_ops_ok\<close>.
  A bar's timestamp is a \<open>datetime\<close> or missing. \<open>tx\<close> is \<open>str()\<close> on a float, a list or a
  dictionary, whose digits play no part.
\<close>

section \<open>Rows, frames and the deployment's exit section\<close>

record bar_row =
  br_symbol :: string
  br_timestamp :: "pydt option"
  br_cells :: params

text \<open>\<open>latest.get(column)\<close>; a \<open>datetime\<close> is no number, as \<open>None\<close> is none.\<close>

definition bar_cell :: "bar_row \<Rightarrow> string \<Rightarrow> pyval" where
  "bar_cell r c = (if c = ''symbol'' then PStr (br_symbol r)
     else if c = ''timestamp'' then PNone else dict_get (br_cells r) c)"

text \<open>\<open>filter\<close> is \<open>None\<close> where polars raises.\<close>

record frame_ops =
  fo_since :: "bar_row list \<Rightarrow> pydt \<Rightarrow> bar_row list option"
  fo_min :: "string \<Rightarrow> bar_row list \<Rightarrow> pyval"
  fo_max :: "string \<Rightarrow> bar_row list \<Rightarrow> pyval"

record thesis_spec =
  th_deployment_id :: string
  th_policy :: "string option"
  th_params :: params
  th_hard_flat_time_et :: string
  th_strategy_params :: params

text \<open>\<open>str(params.get(key) or default)\<close>.\<close>

definition text_param :: "(pyval \<Rightarrow> string) \<Rightarrow> params \<Rightarrow> string \<Rightarrow> string \<Rightarrow> string" where
  "text_param tx ps key d = (let v = dict_get ps key in if py_truthy v then py_str tx v else d)"

definition is_long :: "(pyval \<Rightarrow> string) \<Rightarrow> thesis_spec \<Rightarrow> bool" where
  "is_long tx sp = (py_lower (py_str tx (dict_get_default (th_strategy_params sp) ''direction'' (PStr []))) = ''long'')"

definition bar_time_et :: "(int \<Rightarrow> int) \<Rightarrow> pydt \<Rightarrow> dt_time" where
  "bar_time_et et ts = time_of_micros (et_micros et (instant ts))"

section \<open>Decisions\<close>

definition thesis_hold :: "thesis_spec \<Rightarrow> bar_row \<Rightarrow> string \<Rightarrow> exit_decision" where
  "thesis_hold sp r reason =
     \<lparr>xd_deployment_id = th_deployment_id sp, xd_symbol = br_symbol r, xd_timestamp = br_timestamp r,
      xd_exit = False, xd_action = ''hold'', xd_reason = [reason], xd_cancel_protection_orders = False,
      xd_replacement_stop_price = None, xd_target_price = None, xd_features = []\<rparr>"

definition square_off :: "thesis_spec \<Rightarrow> bar_row \<Rightarrow> string \<Rightarrow> exit_decision" where
  "square_off sp r reason =
     \<lparr>xd_deployment_id = th_deployment_id sp, xd_symbol = br_symbol r, xd_timestamp = br_timestamp r,
      xd_exit = True, xd_action = ''square_off'', xd_reason = [reason], xd_cancel_protection_orders = True,
      xd_replacement_stop_price = None, xd_target_price = None, xd_features = []\<rparr>"

section \<open>The policies\<close>

definition evaluate_fixed_rr_underlying ::
  "(pyval \<Rightarrow> string) \<Rightarrow> thesis_spec \<Rightarrow> bar_row \<Rightarrow> tracked_position \<Rightarrow> exit_decision" where
  "evaluate_fixed_rr_underlying tx sp r p =
     (case tp_underlying_entry_price p of
        None \<Rightarrow> thesis_hold sp r ''underlying_entry_price_unavailable''
      | Some entry_price \<Rightarrow>
     (case (as_float (dict_get (th_params sp) ''stop_loss_underlying_pct''),
            as_float (dict_get (th_params sp) ''take_profit_underlying_r_multiple'')) of
        (Some stop_loss_pct, Some reward_multiple) \<Rightarrow>
          (let risk_distance = f_mul (Fin entry_price) stop_loss_pct
           in case (as_float (bar_cell r ''high''), as_float (bar_cell r ''low'')) of
                (Some high, Some low) \<Rightarrow>
                  if f_le risk_distance (Fin 0) then thesis_hold sp r ''underlying_bar_unavailable''
                  else if is_long tx sp
                  then (let stop_price = f_sub (Fin entry_price) risk_distance;
                            target_price = f_add (Fin entry_price) (f_mul risk_distance reward_multiple)
                        in if f_le low stop_price then square_off sp r ''thesis_stop_loss_underlying''
                           else if f_le target_price high then square_off sp r ''thesis_take_profit_underlying''
                           else thesis_hold sp r ''thesis_exit_hold'')
                  else (let stop_price = f_add (Fin entry_price) risk_distance;
                            target_price = f_sub (Fin entry_price) (f_mul risk_distance reward_multiple)
                        in if f_le stop_price high then square_off sp r ''thesis_stop_loss_underlying''
                           else if f_le low target_price then square_off sp r ''thesis_take_profit_underlying''
                           else thesis_hold sp r ''thesis_exit_hold'')
              | _ \<Rightarrow> thesis_hold sp r ''underlying_bar_unavailable'')
      | _ \<Rightarrow> thesis_hold sp r ''fixed_rr_underlying_params_missing''))"

definition evaluate_trailing_vma_underlying ::
  "(pyval \<Rightarrow> string) \<Rightarrow> thesis_spec \<Rightarrow> bar_row \<Rightarrow> exit_decision" where
  "evaluate_trailing_vma_underlying tx sp r =
     (let vma_col = text_param tx (th_params sp) ''vma_col'' []
      in case (as_float (bar_cell r ''close''), as_float (bar_cell r vma_col)) of
           (Some close, Some vma_value) \<Rightarrow>
             if vma_col = [] then thesis_hold sp r ''trailing_vma_underlying_params_missing''
             else if is_long tx sp \<and> f_lt close vma_value then square_off sp r ''thesis_vma_loss_underlying''
             else if \<not> is_long tx sp \<and> f_lt vma_value close
             then square_off sp r ''thesis_vma_reclaim_underlying''
             else thesis_hold sp r ''thesis_exit_hold''
         | _ \<Rightarrow> thesis_hold sp r ''trailing_vma_underlying_params_missing'')"

definition evaluate_time_stop_underlying ::
  "(pyval \<Rightarrow> string) \<Rightarrow> (int \<Rightarrow> int) \<Rightarrow> thesis_spec \<Rightarrow> bar_row \<Rightarrow> exit_decision" where
  "evaluate_time_stop_underlying tx et sp r =
     (let exit_time_str = text_param tx (th_params sp) ''exit_time_et'' [];
          exit_time = (if exit_time_str = [] then DEFAULT_EOD_TIME else parse_time exit_time_str)
      in case br_timestamp r of
           None \<Rightarrow> thesis_hold sp r ''time_stop_underlying_no_timestamp''
         | Some ts \<Rightarrow>
             if bar_time_et et ts \<ge> exit_time
             then square_off sp r (''time_stop_underlying:'' @ strftime_HHMM exit_time)
             else thesis_hold sp r ''thesis_exit_hold'')"

definition evaluate_hold_to_eod_underlying ::
  "(int \<Rightarrow> int) \<Rightarrow> thesis_spec \<Rightarrow> bar_row \<Rightarrow> exit_decision" where
  "evaluate_hold_to_eod_underlying et sp r =
     (let eod_time = parse_time (if th_hard_flat_time_et sp = [] then ''15:55'' else th_hard_flat_time_et sp)
      in case br_timestamp r of
           None \<Rightarrow> thesis_hold sp r ''hold_to_eod_underlying_no_timestamp''
         | Some ts \<Rightarrow>
             if bar_time_et et ts \<ge> eod_time then square_off sp r ''hold_to_eod_underlying''
             else thesis_hold sp r ''thesis_exit_hold'')"

definition evaluate_ma_trailing_underlying ::
  "(pyval \<Rightarrow> string) \<Rightarrow> thesis_spec \<Rightarrow> bar_row \<Rightarrow> exit_decision" where
  "evaluate_ma_trailing_underlying tx sp r =
     (let ma_col = text_param tx (th_params sp) ''ma_col'' []
      in case (as_float (bar_cell r ''close''), as_float (bar_cell r ma_col)) of
           (Some close, Some ma_value) \<Rightarrow>
             if ma_col = [] then thesis_hold sp r ''ma_trailing_underlying_params_missing''
             else if is_long tx sp \<and> f_lt close ma_value
             then square_off sp r (''ma_trailing_underlying_loss:'' @ ma_col)
             else if \<not> is_long tx sp \<and> f_lt ma_value close
             then square_off sp r (''ma_trailing_underlying_reclaim:'' @ ma_col)
             else thesis_hold sp r ''thesis_exit_hold''
         | _ \<Rightarrow> thesis_hold sp r ''ma_trailing_underlying_params_missing'')"

definition evaluate_ma_crossover_underlying ::
  "(pyval \<Rightarrow> string) \<Rightarrow> thesis_spec \<Rightarrow> bar_row \<Rightarrow> exit_decision" where
  "evaluate_ma_crossover_underlying tx sp r =
     (let fast_col = text_param tx (th_params sp) ''fast_ma_col'' [];
          slow_col = text_param tx (th_params sp) ''slow_ma_col'' []
      in case (as_float (bar_cell r fast_col), as_float (bar_cell r slow_col)) of
           (Some fast_val, Some slow_val) \<Rightarrow>
             if fast_col = [] \<or> slow_col = [] then thesis_hold sp r ''ma_crossover_underlying_params_missing''
             else if is_long tx sp \<and> f_lt fast_val slow_val
             then square_off sp r (''ma_crossover_underlying_bearish:'' @ fast_col @ ''>'' @ slow_col)
             else if \<not> is_long tx sp \<and> f_lt slow_val fast_val
             then square_off sp r (''ma_crossover_underlying_bullish:'' @ fast_col @ ''>'' @ slow_col)
             else thesis_hold sp r ''thesis_exit_hold''
         | _ \<Rightarrow> thesis_hold sp r ''ma_crossover_underlying_params_missing'')"

text \<open>\<open>_as_float(params.get("atr_multiple")) or 2.0\<close>.\<close>

definition atr_multiple :: "thesis_spec \<Rightarrow> pyfloat" where
  "atr_multiple sp = (case as_float (dict_get (th_params sp) ''atr_multiple'') of
      None \<Rightarrow> Fin 2 | Some x \<Rightarrow> if x = Fin 0 then Fin 2 else x)"

definition since_entry :: "frame_ops \<Rightarrow> bar_row list \<Rightarrow> tracked_position \<Rightarrow> bar_row list" where
  "since_entry ops frame p =
     (case tp_entry_timestamp p of
        None \<Rightarrow> frame
      | Some ts \<Rightarrow> (case fo_since ops frame ts of None \<Rightarrow> frame | Some rows \<Rightarrow> rows))"

definition extreme_since ::
  "(string \<Rightarrow> bar_row list \<Rightarrow> pyval) \<Rightarrow> string \<Rightarrow> bar_row list \<Rightarrow> pyfloat \<Rightarrow> pyfloat" where
  "extreme_since op col rows latest_value =
     (if rows = [] then latest_value
      else (case as_float (op col rows) of None \<Rightarrow> latest_value | Some x \<Rightarrow> x))"

definition evaluate_atr_trailing_underlying ::
  "frame_ops \<Rightarrow> (pyval \<Rightarrow> string) \<Rightarrow> thesis_spec \<Rightarrow> bar_row list \<Rightarrow> bar_row \<Rightarrow> tracked_position \<Rightarrow>
   exit_decision" where
  "evaluate_atr_trailing_underlying ops tx sp frame r p =
     (let atr_col = text_param tx (th_params sp) ''atr_col'' ''atr_14_exit'';
          mult = atr_multiple sp;
          stop_reason = ''atr_trailing_underlying_stop:'' @ atr_col @ ''x'' @ tx (PFloat mult)
      in case (as_float (bar_cell r atr_col), as_float (bar_cell r ''high''), as_float (bar_cell r ''low'')) of
           (Some atr_value, Some high, Some low) \<Rightarrow>
             if f_le atr_value (Fin 0) then thesis_hold sp r ''atr_trailing_underlying_data_missing''
             else let rows = since_entry ops frame p
             in if is_long tx sp
                then (let trail_stop = f_sub (extreme_since (fo_min ops) ''low'' rows low) (f_mul mult atr_value)
                      in if f_le low trail_stop then square_off sp r stop_reason
                         else thesis_hold sp r ''thesis_exit_hold'')
                else (let trail_stop = f_add (extreme_since (fo_max ops) ''high'' rows high) (f_mul mult atr_value)
                      in if f_le trail_stop high then square_off sp r stop_reason
                         else thesis_hold sp r ''thesis_exit_hold'')
         | _ \<Rightarrow> thesis_hold sp r ''atr_trailing_underlying_data_missing'')"

definition evaluate_underlying_thesis_exit ::
  "frame_ops \<Rightarrow> (pyval \<Rightarrow> string) \<Rightarrow> (int \<Rightarrow> int) \<Rightarrow> thesis_spec \<Rightarrow> bar_row list \<Rightarrow> tracked_position \<Rightarrow>
   exit_decision option" where
  "evaluate_underlying_thesis_exit ops tx et sp frame p =
     (if \<not> text_truthy (th_policy sp) then None
      else if frame = [] then None
      else let policy = text_or (th_policy sp); latest = last frame
      in Some (if policy = ''fixed_rr_underlying'' then evaluate_fixed_rr_underlying tx sp latest p
               else if policy = ''trailing_vma_underlying'' then evaluate_trailing_vma_underlying tx sp latest
               else if policy = ''time_stop_underlying'' then evaluate_time_stop_underlying tx et sp latest
               else if policy = ''hold_to_eod_underlying'' then evaluate_hold_to_eod_underlying et sp latest
               else if policy = ''ma_trailing_underlying'' then evaluate_ma_trailing_underlying tx sp latest
               else if policy = ''ma_crossover_underlying'' then evaluate_ma_crossover_underlying tx sp latest
               else if policy = ''atr_trailing_underlying''
               then evaluate_atr_trailing_underlying ops tx sp frame latest p
               else thesis_hold sp latest (''unsupported_thesis_exit_policy:'' @ policy)))"

section \<open>The trailing stop\<close>

text \<open>
  What polars documents: \<open>filter\<close> keeps exactly the rows at or after the given time, and the
  minimum (maximum) of a numeric column is at most (at least) every number in it, nulls and
  NaNs aside.
\<close>

fun price_cell :: "pyval \<Rightarrow> bool" where
  "price_cell PNone = True"
| "price_cell (PInt n) = True"
| "price_cell (PFloat x) = (x \<noteq> PosInf \<and> x \<noteq> NegInf)"
| "price_cell _ = False"

definition at_or_after :: "pydt \<Rightarrow> bar_row \<Rightarrow> bool" where
  "at_or_after ts r = (case br_timestamp r of None \<Rightarrow> False | Some t \<Rightarrow> instant ts \<le> instant t)"

definition frame_ops_ok :: "frame_ops \<Rightarrow> bool" where
  "frame_ops_ok ops \<longleftrightarrow>
     (\<forall>rows ts out. fo_since ops rows ts = Some out \<longrightarrow> out = filter (at_or_after ts) rows)
   \<and> (\<forall>col rows r x. (\<forall>q\<in>set rows. price_cell (bar_cell q col)) \<longrightarrow> r \<in> set rows \<longrightarrow>
        float_of (bar_cell r col) = Inr (Fin x) \<longrightarrow>
        (\<exists>y. float_of (fo_min ops col rows) = Inr y \<and> f_le y (Fin x)))
   \<and> (\<forall>col rows r x. (\<forall>q\<in>set rows. price_cell (bar_cell q col)) \<longrightarrow> r \<in> set rows \<longrightarrow>
        float_of (bar_cell r col) = Inr (Fin x) \<longrightarrow>
        (\<exists>y. float_of (fo_max ops col rows) = Inr y \<and> f_le (Fin x) y))"

definition in_order :: "bar_row \<Rightarrow> bar_row \<Rightarrow> bool" where
  "in_order a b = (case (br_timestamp a, br_timestamp b) of
      (Some s, Some t) \<Rightarrow> instant s \<le> instant t | _ \<Rightarrow> False)"

text \<open>A frame as the market-data layer builds it: bars in time order, prices or nulls.\<close>

definition bar_frame :: "bar_row list \<Rightarrow> bool" where
  "bar_frame rows \<longleftrightarrow> sorted_wrt in_order rows
     \<and> (\<forall>r\<in>set rows. price_cell (bar_cell r ''high'') \<and> price_cell (bar_cell r ''low''))"

lemma last_at_or_after:
  "sorted_wrt in_order rows \<Longrightarrow> filter (at_or_after ts) rows \<noteq> [] \<Longrightarrow>
   last rows \<in> set (filter (at_or_after ts) rows)"
proof (induction rows rule: rev_induct)
  case (snoc r rows)
  show ?case
  proof (cases "at_or_after ts r")
    case False
    then obtain q where q: "q \<in> set rows" "at_or_after ts q"
      using snoc.prems by (auto simp: filter_empty_conv split: if_splits)
    then have "in_order q r" using snoc.prems by (auto simp: sorted_wrt_append)
    with q have "at_or_after ts r" by (auto simp: in_order_def at_or_after_def split: option.splits)
    with False show ?thesis by simp
  qed simp
qed simp

lemma since_entry_last:
  assumes "frame_ops_ok ops" "bar_frame frame" "since_entry ops frame p \<noteq> []"
  shows "last frame \<in> set (since_entry ops frame p)" "set (since_entry ops frame p) \<subseteq> set frame"
proof -
  have "since_entry ops frame p = frame \<or> (\<exists>ts. since_entry ops frame p = filter (at_or_after ts) frame)"
    using assms(1) by (auto simp: since_entry_def frame_ops_ok_def split: option.splits)
  then show "last frame \<in> set (since_entry ops frame p)" "set (since_entry ops frame p) \<subseteq> set frame"
    using assms(2,3) last_at_or_after by (auto simp: bar_frame_def)
qed

lemma price_cell_number:
  assumes "price_cell v" "as_float v = Some x"
  shows "x = NaN \<or> (\<exists>y. x = Fin y \<and> float_of v = Inr (Fin y))"
  using assms by (cases v rule: price_cell.cases; cases x) (auto simp: as_float_def)

lemma positive_product:
  assumes "f_lt (Fin 0) m" "\<not> f_le a (Fin 0)"
  shows "f_mul m a = NaN \<or> f_lt (Fin 0) (f_mul m a)"
  using assms by (cases m; cases a) auto

lemma below_trail: "f_le x y \<Longrightarrow> d = NaN \<or> f_lt (Fin 0) d \<Longrightarrow> y = Fin v \<Longrightarrow> \<not> f_le y (f_sub x d)"
  by (cases x; cases d) (auto simp: f_sub_def)

lemma above_trail: "f_le y x \<Longrightarrow> d = NaN \<or> f_lt (Fin 0) d \<Longrightarrow> y = Fin v \<Longrightarrow> \<not> f_le (f_add x d) y"
  by (cases x; cases d) (auto simp: f_sub_def)

lemma extreme_low:
  assumes "frame_ops_ok ops" "bar_frame frame" "float_of (bar_cell (last frame) ''low'') = Inr (Fin v)"
  shows "f_le (extreme_since (fo_min ops) ''low'' (since_entry ops frame p) (Fin v)) (Fin v)"
proof (cases "since_entry ops frame p = []")
  case False
  note s = since_entry_last [OF assms(1,2) False]
  have "\<forall>q\<in>set (since_entry ops frame p). price_cell (bar_cell q ''low'')"
    using s(2) assms(2) by (auto simp: bar_frame_def)
  then obtain y where "float_of (fo_min ops ''low'' (since_entry ops frame p)) = Inr y" "f_le y (Fin v)"
    using assms(1,3) s(1) unfolding frame_ops_ok_def by blast
  then show ?thesis using False by (simp add: extreme_since_def as_float_def)
qed (simp add: extreme_since_def)

lemma extreme_high:
  assumes "frame_ops_ok ops" "bar_frame frame" "float_of (bar_cell (last frame) ''high'') = Inr (Fin v)"
  shows "f_le (Fin v) (extreme_since (fo_max ops) ''high'' (since_entry ops frame p) (Fin v))"
proof (cases "since_entry ops frame p = []")
  case False
  note s = since_entry_last [OF assms(1,2) False]
  have "\<forall>q\<in>set (since_entry ops frame p). price_cell (bar_cell q ''high'')"
    using s(2) assms(2) by (auto simp: bar_frame_def)
  then obtain y where "float_of (fo_max ops ''high'' (since_entry ops frame p)) = Inr y" "f_le (Fin v) y"
    using assms(1,3) s(1) unfolding frame_ops_ok_def by blast
  then show ?thesis using False by (simp add: extreme_since_def as_float_def)
qed (simp add: extreme_since_def)

lemma thesis_hold_fields [simp]:
  "xd_exit (thesis_hold sp r reason) = False" "xd_action (thesis_hold sp r reason) = ''hold''"
  "xd_exit (square_off sp r reason) = True" "xd_action (square_off sp r reason) = ''square_off''"
  "xd_cancel_protection_orders (thesis_hold sp r reason) = False"
  "xd_cancel_protection_orders (square_off sp r reason) = True"
  "xd_reason (thesis_hold sp r reason) = [reason]" "xd_reason (square_off sp r reason) = [reason]"
  by (simp_all add: thesis_hold_def square_off_def)

lemma atr_holds:
  assumes ok: "frame_ops_ok ops" and fr: "bar_frame frame" "frame \<noteq> []"
    and m: "f_lt (Fin 0) (atr_multiple sp)"
  shows "\<not> xd_exit (evaluate_atr_trailing_underlying ops tx sp frame (last frame) p)"
proof -
  have pc: "price_cell (bar_cell (last frame) ''high'')" "price_cell (bar_cell (last frame) ''low'')"
    using fr by (auto simp: bar_frame_def)
  have low: "\<not> f_le low (f_sub (extreme_since (fo_min ops) ''low'' (since_entry ops frame p) low) d)"
    if "as_float (bar_cell (last frame) ''low'') = Some low" "d = NaN \<or> f_lt (Fin 0) d" for low d
    using price_cell_number [OF pc(2) that(1)] below_trail extreme_low [OF ok fr(1)] that(2) by auto
  have high: "\<not> f_le (f_add (extreme_since (fo_max ops) ''high'' (since_entry ops frame p) high) d) high"
    if h: "as_float (bar_cell (last frame) ''high'') = Some high" and d: "d = NaN \<or> f_lt (Fin 0) d" for high d
  proof -
    consider "high = NaN" | v where "high = Fin v" "float_of (bar_cell (last frame) ''high'') = Inr (Fin v)"
      using price_cell_number [OF pc(1) h] by blast
    then show ?thesis
    proof cases
      case 1
      have "\<not> f_le x NaN" for x by (cases x) auto
      then show ?thesis using 1 by simp
    next
      case 2
      then show ?thesis using above_trail [OF extreme_high [OF ok fr(1) 2(2)] d] by simp
    qed
  qed
  show ?thesis
    using low high positive_product [OF m]
    by (auto simp: evaluate_atr_trailing_underlying_def Let_def split: option.splits)
qed

text \<open>
  C26. The ATR trailing stop never fires. For bars in time order with finite prices (or nulls)
  and any positive multiple, the default included, the \<open>atr_trailing_underlying\<close> policy
  answers hold on every frame, whatever the prices did since entry: the extreme since entry
  includes the latest bar, and for both directions the stop is put beyond the extreme on the
  side the latest bar cannot reach.
\<close>

theorem atr_trailing_never_fires:
  assumes "frame_ops_ok ops" "bar_frame frame" "frame \<noteq> []"
    and "th_policy sp = Some ''atr_trailing_underlying''" "f_lt (Fin 0) (atr_multiple sp)"
  shows "\<exists>d. evaluate_underlying_thesis_exit ops tx et sp frame p = Some d \<and> \<not> xd_exit d"
  using atr_holds [OF assms(1,2,3,5), of tx p] assms(3,4)
  by (simp add: evaluate_underlying_thesis_exit_def Let_def)

fun list_extreme :: "(real \<Rightarrow> real \<Rightarrow> real) \<Rightarrow> string \<Rightarrow> bar_row list \<Rightarrow> pyval" where
  "list_extreme f col [] = PNone"
| "list_extreme f col (r # rows) =
     (case (float_of (bar_cell r col), list_extreme f col rows) of
        (Inr (Fin x), PFloat (Fin y)) \<Rightarrow> PFloat (Fin (f x y))
      | (Inr (Fin x), _) \<Rightarrow> PFloat (Fin x)
      | (_, v) \<Rightarrow> v)"

definition list_frame_ops :: frame_ops where
  "list_frame_ops = \<lparr>fo_since = (\<lambda>rows ts. Some (filter (at_or_after ts) rows)),
     fo_min = list_extreme min, fo_max = list_extreme max\<rparr>"

lemma list_extreme_number:
  "list_extreme f col rows = PNone \<or> (\<exists>y. list_extreme f col rows = PFloat (Fin y))"
  by (induction rows) (auto split: sum.splits pyfloat.splits pyval.splits)

lemma list_extreme_bound:
  assumes "r \<in> set rows" "float_of (bar_cell r col) = Inr (Fin x)"
  shows "\<exists>y. list_extreme min col rows = PFloat (Fin y) \<and> y \<le> x"
    "\<exists>y. list_extreme max col rows = PFloat (Fin y) \<and> x \<le> y"
  using assms
proof (induction rows)
  case (Cons q rows)
  {
    case 1
    show ?case using Cons 1 list_extreme_number [of min col rows]
      by (auto split: sum.splits pyfloat.splits)
  next
    case 2
    show ?case using Cons 2 list_extreme_number [of max col rows]
      by (auto split: sum.splits pyfloat.splits)
  }
qed simp_all

lemma list_frame_ops_ok: "frame_ops_ok list_frame_ops"
  unfolding frame_ops_ok_def list_frame_ops_def
  using list_extreme_bound by fastforce

definition crash_frame :: "bar_row list" where
  "crash_frame = [\<lparr>br_symbol = ''SPY'', br_timestamp = Some (Aware 0),
       br_cells = [(''high'', PFloat (Fin 500)), (''low'', PFloat (Fin 499)), (''atr_14_exit'', PFloat (Fin 1))]\<rparr>,
     \<lparr>br_symbol = ''SPY'', br_timestamp = Some (Aware 60),
       br_cells = [(''high'', PFloat (Fin 410)), (''low'', PFloat (Fin 400)), (''atr_14_exit'', PFloat (Fin 1))]\<rparr>]"

definition long_atr :: thesis_spec where
  "long_atr = \<lparr>th_deployment_id = ''d1'', th_policy = Some ''atr_trailing_underlying'', th_params = [],
     th_hard_flat_time_et = ''15:55'', th_strategy_params = [(''direction'', PStr ''long'')]\<rparr>"

text \<open>A long position that falls from 500 to 400 with an ATR of 1 is held.\<close>

theorem atr_trailing_never_fires_witness:
  "\<exists>d. evaluate_underlying_thesis_exit list_frame_ops (\<lambda>_. []) (\<lambda>_. 0) long_atr crash_frame
     (new_position ''SPY'' ''d1'') = Some d \<and> \<not> xd_exit d"
proof (rule atr_trailing_never_fires [OF list_frame_ops_ok])
  show "bar_frame crash_frame"
    by (simp add: bar_frame_def crash_frame_def in_order_def bar_cell_def dict_get_def)
  show "f_lt (Fin 0) (atr_multiple long_atr)"
    by (simp add: atr_multiple_def long_atr_def dict_get_def as_float_def)
qed (simp_all add: crash_frame_def long_atr_def)

section \<open>Long and short are mirror images\<close>

text \<open>The bar reflected at the entry price: its high is the reflected low.\<close>

definition mirror_row :: "real \<Rightarrow> real \<Rightarrow> real \<Rightarrow> bar_row \<Rightarrow> bar_row" where
  "mirror_row e h l r = r\<lparr>br_cells :=
     [(''high'', PFloat (Fin (2 * e - l))), (''low'', PFloat (Fin (2 * e - h)))]\<rparr>"

lemma mirror_row_cells [simp]:
  "as_float (bar_cell (mirror_row e h l r) ''high'') = Some (Fin (2 * e - l))"
  "as_float (bar_cell (mirror_row e h l r) ''low'') = Some (Fin (2 * e - h))"
  by (simp_all add: mirror_row_def bar_cell_def dict_get_def as_float_def)

lemma mirror_stop:
  "f_le (f_add (Fin e) d) (Fin h) \<longleftrightarrow> f_le (Fin (2 * e - h)) (f_sub (Fin e) d)"
  by (cases d) (auto simp: f_sub_def)

lemma mirror_target:
  "f_le (Fin l) (f_sub (Fin e) d) \<longleftrightarrow> f_le (f_add (Fin e) d) (Fin (2 * e - l))"
  by (cases d) (auto simp: f_sub_def)

text \<open>What a fixed risk-reward exit answers on a bar: exit or not, and why.\<close>

definition answer :: "exit_decision \<Rightarrow> bool \<times> string list" where
  "answer d = (xd_exit d, xd_reason d)"

lemma answer_simps [simp]:
  "answer (thesis_hold sp r reason) = (False, [reason])"
  "answer (square_off sp r reason) = (True, [reason])"
  by (simp_all add: answer_def)

definition rr_answer :: "bool \<Rightarrow> bool \<Rightarrow> bool \<times> string list" where
  "rr_answer stopped reached =
     (if stopped then (True, [''thesis_stop_loss_underlying''])
      else if reached then (True, [''thesis_take_profit_underlying'']) else (False, [''thesis_exit_hold'']))"

text \<open>The answer in terms of the bar's high and low.\<close>

definition rr_spec :: "bool \<Rightarrow> real \<Rightarrow> params \<Rightarrow> real \<Rightarrow> real \<Rightarrow> bool \<times> string list" where
  "rr_spec lng e ps h l =
     (case (as_float (dict_get ps ''stop_loss_underlying_pct''),
            as_float (dict_get ps ''take_profit_underlying_r_multiple'')) of
        (Some pct, Some m) \<Rightarrow>
          (let d = f_mul (Fin e) pct
           in if f_le d (Fin 0) then (False, [''underlying_bar_unavailable''])
              else if lng then rr_answer (f_le (Fin l) (f_sub (Fin e) d)) (f_le (f_add (Fin e) (f_mul d m)) (Fin h))
              else rr_answer (f_le (f_add (Fin e) d) (Fin h)) (f_le (Fin l) (f_sub (Fin e) (f_mul d m))))
      | _ \<Rightarrow> (False, [''fixed_rr_underlying_params_missing'']))"

lemma fixed_rr_answer:
  assumes "tp_underlying_entry_price p = Some e"
    and "as_float (bar_cell r ''high'') = Some (Fin h)" "as_float (bar_cell r ''low'') = Some (Fin l)"
  shows "answer (evaluate_fixed_rr_underlying tx sp r p) = rr_spec (is_long tx sp) e (th_params sp) h l"
proof (cases "as_float (dict_get (th_params sp) ''stop_loss_underlying_pct'')")
  case None
  then show ?thesis using assms by (simp add: evaluate_fixed_rr_underlying_def rr_spec_def)
next
  case (Some pct)
  then show ?thesis
    using assms by (cases "as_float (dict_get (th_params sp) ''take_profit_underlying_r_multiple'')")
      (simp_all add: evaluate_fixed_rr_underlying_def rr_spec_def rr_answer_def Let_def del: f_le.simps)
qed

lemma rr_spec_mirror: "rr_spec False e ps h l = rr_spec True e ps (2 * e - l) (2 * e - h)"
  unfolding rr_spec_def Let_def mirror_stop [where e = e and h = h] mirror_target [where e = e and l = l]
  by (simp only: simp_thms if_True if_False)

text \<open>
  C25. The fixed risk-reward exit treats long and short alike: a short position is exited on a
  bar exactly when, and for the same reason as, a long position with the same parameters is
  exited on the bar reflected at the entry price. In particular the stop is tested before the
  target on both sides.
\<close>

theorem fixed_rr_mirrored:
  assumes "tp_underlying_entry_price p = Some e" "th_params short = th_params long"
    and "is_long tx long" "\<not> is_long tx short"
    and "as_float (bar_cell r ''high'') = Some (Fin h)" "as_float (bar_cell r ''low'') = Some (Fin l)"
  shows "answer (evaluate_fixed_rr_underlying tx short r p)
      = answer (evaluate_fixed_rr_underlying tx long (mirror_row e h l r) p)"
  unfolding fixed_rr_answer [OF assms(1,5,6)] fixed_rr_answer [OF assms(1) mirror_row_cells]
  using assms(2-4) rr_spec_mirror by simp

definition rr_spec_of :: "string \<Rightarrow> thesis_spec" where
  "rr_spec_of dir = \<lparr>th_deployment_id = ''d1'', th_policy = Some ''fixed_rr_underlying'',
     th_params = [(''stop_loss_underlying_pct'', PFloat (Fin (1 / 100))),
                  (''take_profit_underlying_r_multiple'', PInt 2)],
     th_hard_flat_time_et = ''15:55'', th_strategy_params = [(''direction'', PStr dir)]\<rparr>"

definition demo_underlying :: tracked_position where
  "demo_underlying = (new_position ''SPY'' ''d1'')\<lparr>tp_underlying_entry_price := Some 100\<rparr>"

definition demo_bar :: bar_row where
  "demo_bar = \<lparr>br_symbol = ''SPY'', br_timestamp = None,
     br_cells = [(''high'', PFloat (Fin 102)), (''low'', PFloat (Fin 97))]\<rparr>"

theorem fixed_rr_mirrored_witness:
  "answer (evaluate_fixed_rr_underlying (\<lambda>_. []) (rr_spec_of ''short'') demo_bar demo_underlying)
   = answer (evaluate_fixed_rr_underlying (\<lambda>_. []) (rr_spec_of ''long'')
       (mirror_row 100 102 97 demo_bar) demo_underlying)"
proof (rule fixed_rr_mirrored)
  show "is_long (\<lambda>_. []) (rr_spec_of ''long'')" "\<not> is_long (\<lambda>_. []) (rr_spec_of ''short'')"
    by (code_simp, code_simp)
qed (simp_all add: rr_spec_of_def demo_underlying_def demo_bar_def bar_cell_def dict_get_def as_float_def)

end
