(* ===== verification/Selectors.thy ===== *)
theory Selectors
  imports Domain "HOL-Library.Multiset" "HOL-Library.List_Lexorder" "HOL-Library.Product_Lexorder"
begin

text \<open>
  \<open>src/bhiksha/options/selectors.py\<close>: \<open>SingleLegOptionSelector.select\<close>, which picks the option
  contract of an entry from a chain: the filters with their elimination counts, the walk to
  later expirations, the ranking, and the percentile of open interest. A bound of the
  execution parameters is a raw value read by \<open>float()\<close> where the code reads it, so a bad text
  raises only when a contract is compared with it. \<open>tx\<close> is \<open>str()\<close> on floats and collections.
\<close>

section \<open>Filters\<close>

definition hard_quote_reason :: "option_contract \<Rightarrow> string option" where
  "hard_quote_reason c = (case oc_open_interest c of
      None \<Rightarrow> Some ''open_interest_unavailable''
    | Some n \<Rightarrow> if n \<le> 0 then Some ''open_interest_unavailable'' else None)"

definition delta_below :: "pyval \<Rightarrow> option_contract \<Rightarrow> bool result" where
  "delta_below delta_min c =
     (if delta_min = PNone then Inr False
      else case abs_delta c of
        None \<Rightarrow> Inr True
      | Some x \<Rightarrow> bind_result (float_of delta_min) (\<lambda>m. Inr (f_lt (Fin x) m)))"

definition delta_above :: "pyval \<Rightarrow> option_contract \<Rightarrow> bool result" where
  "delta_above delta_max c =
     (if delta_max = PNone then Inr False
      else case abs_delta c of
        None \<Rightarrow> Inr True
      | Some x \<Rightarrow> bind_result (float_of delta_max) (\<lambda>m. Inr (f_lt m (Fin x))))"

text \<open>The three filters after the expiration window: the name of the first that drops the contract.\<close>

definition non_dte_reason :: "pyval \<Rightarrow> pyval \<Rightarrow> option_contract \<Rightarrow> string option result" where
  "non_dte_reason delta_min delta_max c =
     (case hard_quote_reason c of
        Some reason \<Rightarrow> Inr (Some reason)
      | None \<Rightarrow>
          bind_result (delta_below delta_min c) (\<lambda>below.
            if below then Inr (Some ''delta_below_min'')
            else bind_result (delta_above delta_max c) (\<lambda>above.
              Inr (if above then Some ''delta_above_max'' else None))))"

definition passes_non_dte_filters :: "pyval \<Rightarrow> pyval \<Rightarrow> option_contract \<Rightarrow> bool result" where
  "passes_non_dte_filters delta_min delta_max c =
     bind_result (non_dte_reason delta_min delta_max c) (\<lambda>r. Inr (r = None))"

text \<open>What \<open>select\<close> reads from its request.\<close>

record selector_args =
  sa_symbol :: string
  sa_allowed_type :: string
  sa_dte_min :: int
  sa_dte_max :: int
  sa_delta_min :: pyval
  sa_delta_max :: pyval
  sa_fallback_policy :: string
  sa_fallback_dte_max :: pyval

definition required_contract_type :: "(pyval \<Rightarrow> string) \<Rightarrow> option_selection_request \<Rightarrow> string" where
  "required_contract_type tx q = py_upper (py_str tx
     (if direction_value (rq_direction q) = ''long''
      then dict_get_default (rq_execution_params q) ''long_signal_contract_type'' (PStr ''CALL'')
      else dict_get_default (rq_execution_params q) ''short_signal_contract_type'' (PStr ''PUT'')))"

definition selector_args_of :: "(pyval \<Rightarrow> string) \<Rightarrow> option_selection_request \<Rightarrow> selector_args result" where
  "selector_args_of tx q =
     (let ps = rq_execution_params q; policy = dict_get ps ''dte_fallback_policy'' in
      bind_result (int_of (dict_get_default ps ''dte_min'' (PInt 0))) (\<lambda>lo.
      bind_result (int_of (dict_get_default ps ''dte_max'' (PInt 7))) (\<lambda>hi.
      Inr \<lparr>sa_symbol = rq_symbol q, sa_allowed_type = required_contract_type tx q,
        sa_dte_min = lo, sa_dte_max = hi,
        sa_delta_min = dict_get ps ''target_abs_delta_min'', sa_delta_max = dict_get ps ''target_abs_delta_max'',
        sa_fallback_policy = py_lower (py_strip (if py_truthy policy then py_str tx policy else ''strict'')),
        sa_fallback_dte_max = dict_get ps ''dte_fallback_max''\<rparr>)))"

section \<open>The scan of the chain\<close>

record chain_scan =
  cs_eliminated :: "(string \<times> int) list"
  cs_filtered :: "option_contract list"
  cs_desired :: "option_contract list"
  cs_window :: int

definition no_eliminations :: "int \<Rightarrow> (string \<times> int) list" where
  "no_eliminations n = [(''total_candidates'', n), (''wrong_underlying'', 0), (''wrong_contract_type'', 0),
     (''dte_out_of_range'', 0), (''open_interest_below_min'', 0), (''delta_below_min'', 0),
     (''delta_above_max'', 0), (''spread_above_max'', 0), (''open_interest_unavailable'', 0)]"

definition eliminate :: "string \<Rightarrow> chain_scan \<Rightarrow> chain_scan" where
  "eliminate k sc = sc\<lparr>cs_eliminated := AList.map_entry k (\<lambda>n. n + 1) (cs_eliminated sc)\<rparr>"

definition desired :: "selector_args \<Rightarrow> option_contract \<Rightarrow> bool" where
  "desired a c \<longleftrightarrow> oc_underlying_symbol c = sa_symbol a \<and> py_upper (oc_contract_type c) = sa_allowed_type a"

definition in_window :: "selector_args \<Rightarrow> option_contract \<Rightarrow> bool" where
  "in_window a c \<longleftrightarrow> sa_dte_min a \<le> oc_dte c \<and> oc_dte c \<le> sa_dte_max a"

definition scan_contract :: "selector_args \<Rightarrow> option_contract \<Rightarrow> chain_scan \<Rightarrow> chain_scan result" where
  "scan_contract a c sc =
     (if oc_underlying_symbol c \<noteq> sa_symbol a then Inr (eliminate ''wrong_underlying'' sc)
      else if py_upper (oc_contract_type c) \<noteq> sa_allowed_type a then Inr (eliminate ''wrong_contract_type'' sc)
      else let sc1 = sc\<lparr>cs_desired := cs_desired sc @ [c]\<rparr>
      in if \<not> in_window a c then Inr (eliminate ''dte_out_of_range'' sc1)
      else let sc2 = sc1\<lparr>cs_window := cs_window sc1 + 1\<rparr>
      in bind_result (non_dte_reason (sa_delta_min a) (sa_delta_max a) c) (\<lambda>reason.
           Inr (case reason of
                  Some k \<Rightarrow> eliminate k sc2
                | None \<Rightarrow> sc2\<lparr>cs_filtered := cs_filtered sc2 @ [c]\<rparr>)))"

fun scan_chain :: "selector_args \<Rightarrow> option_contract list \<Rightarrow> chain_scan \<Rightarrow> chain_scan result" where
  "scan_chain a [] sc = Inr sc"
| "scan_chain a (c # cs) sc = bind_result (scan_contract a c sc) (scan_chain a cs)"

section \<open>Later expirations\<close>

text \<open>\<open>contract.dte > dte_max and (fallback_dte_max is None or contract.dte <= fallback_dte_max)\<close>.\<close>

definition later_dte :: "int \<Rightarrow> pyval \<Rightarrow> int \<Rightarrow> bool result" where
  "later_dte dte_max fallback_max d =
     (if \<not> d > dte_max then Inr False
      else if fallback_max = PNone then Inr True
      else bind_result (num_of fallback_max) (\<lambda>m. Inr (f_le (Fin (of_int d)) m)))"

fun filter_result :: "('a \<Rightarrow> bool result) \<Rightarrow> 'a list \<Rightarrow> 'a list result" where
  "filter_result P [] = Inr []"
| "filter_result P (x # xs) =
     bind_result (P x) (\<lambda>b. bind_result (filter_result P xs) (\<lambda>ys. Inr (if b then x # ys else ys)))"

definition later_dtes :: "int \<Rightarrow> pyval \<Rightarrow> option_contract list \<Rightarrow> int list result" where
  "later_dtes dte_max fallback_max cs =
     bind_result (filter_result (later_dte dte_max fallback_max) (map oc_dte cs)) (\<lambda>ds. Inr (sort (remdups ds)))"

definition candidates_at :: "pyval \<Rightarrow> pyval \<Rightarrow> option_contract list \<Rightarrow> int \<Rightarrow> option_contract list result" where
  "candidates_at delta_min delta_max cs d =
     filter_result (passes_non_dte_filters delta_min delta_max) (filter (\<lambda>c. oc_dte c = d) cs)"

fun walk_dtes ::
  "pyval \<Rightarrow> pyval \<Rightarrow> option_contract list \<Rightarrow> nat \<Rightarrow> int list \<Rightarrow> (option_contract list \<times> nat) result" where
  "walk_dtes delta_min delta_max cs n [] = Inr ([], n)"
| "walk_dtes delta_min delta_max cs n (d # ds) =
     bind_result (candidates_at delta_min delta_max cs d) (\<lambda>found.
       if found \<noteq> [] then Inr (found, Suc n) else walk_dtes delta_min delta_max cs (Suc n) ds)"

definition nearest_after_candidates ::
  "option_contract list \<Rightarrow> int \<Rightarrow> pyval \<Rightarrow> pyval \<Rightarrow> pyval \<Rightarrow> (option_contract list \<times> nat) result" where
  "nearest_after_candidates cs dte_max fallback_max delta_min delta_max =
     bind_result (later_dtes dte_max fallback_max cs) (\<lambda>later.
       walk_dtes delta_min delta_max cs 0 (if fallback_max \<noteq> PNone then later else take 1 later))"

definition nearest_after_dte :: "option_contract list \<Rightarrow> int \<Rightarrow> int option" where
  "nearest_after_dte cs dte_max =
     (case sort (remdups (filter (\<lambda>d. d > dte_max) (map oc_dte cs))) of [] \<Rightarrow> None | d # _ \<Rightarrow> Some d)"

section \<open>Ranking\<close>

definition target_delta :: "pyval \<Rightarrow> pyval \<Rightarrow> pyfloat result" where
  "target_delta delta_min delta_max =
     (if delta_min = PNone \<and> delta_max = PNone then Inr (Fin (30 / 100))
      else if delta_min = PNone then float_of delta_max
      else if delta_max = PNone then float_of delta_min
      else bind_result (float_of delta_min) (\<lambda>x. bind_result (float_of delta_max) (\<lambda>y.
             Inr (f_scale (f_add x y) (1 / 2)))))"

text \<open>\<open>contract.abs_delta or 99.0\<close>: a delta of zero is replaced too.\<close>

definition ranked_delta :: "option_contract \<Rightarrow> real" where
  "ranked_delta c = (case abs_delta c of None \<Rightarrow> 99 | Some x \<Rightarrow> if x = 0 then 99 else x)"

definition rank_tail :: "option_contract \<Rightarrow> int \<times> real \<times> string" where
  "rank_tail c = (oc_dte c, (case contract_spread_pct c of None \<Rightarrow> 99 | Some s \<Rightarrow> s),
     py_upper (filter (\<lambda>ch. ch \<noteq> CHR '' '') (oc_option_symbol c)))"

text \<open>
  \<open>sorted\<close> by the tuple (distance to the target, expiration, spread, symbol). Every distance to
  an infinite target is the same infinity; every distance to a NaN is a NaN, which is less than
  nothing and equal to nothing, so the sort leaves the list as it is.
\<close>

fun rank_contracts :: "pyfloat \<Rightarrow> option_contract list \<Rightarrow> option_contract list" where
  "rank_contracts (Fin t) cs = sort_key (\<lambda>c. (\<bar>ranked_delta c - t\<bar>, rank_tail c)) cs"
| "rank_contracts NaN cs = cs"
| "rank_contracts _ cs = sort_key rank_tail cs"

section \<open>The selection\<close>

definition open_interest_percentile :: "option_contract \<Rightarrow> option_contract list \<Rightarrow> real option" where
  "open_interest_percentile chosen cohort =
     (case oc_open_interest chosen of
        None \<Rightarrow> None
      | Some n \<Rightarrow> if cohort = [] then None
          else Some (of_nat (length (filter (\<lambda>c. case oc_open_interest c of None \<Rightarrow> False | Some m \<Rightarrow> m \<le> n) cohort))
                 / of_nat (length cohort)))"

datatype selector_error = Selector_Raise py_error
  | Selector_Empty string "(string \<times> int) list" params

type_synonym selection_result = "selector_error + option_selection"

fun lift_result :: "'a result \<Rightarrow> ('a \<Rightarrow> selection_result) \<Rightarrow> selection_result" where
  "lift_result (Inl e) f = Inl (Selector_Raise e)"
| "lift_result (Inr x) f = f x"

text \<open>\<open>ranked[i]\<close>, where a negative index counts from the end.\<close>

definition py_index :: "'a list \<Rightarrow> int \<Rightarrow> 'a result" where
  "py_index xs i =
     (if 0 \<le> i \<and> i < int (length xs) then Inr (xs ! nat i)
      else if i < 0 \<and> - i \<le> int (length xs) then Inr (xs ! nat (int (length xs) + i))
      else Inl IndexError)"

definition empty_error :: "string \<Rightarrow> selector_args \<Rightarrow> chain_scan \<Rightarrow> selector_error" where
  "empty_error dep a sc = Selector_Empty dep (cs_eliminated sc)
     [(''liquidity_retry_candidates'', PInt 0), (''requested_dte_min'', PInt (sa_dte_min a)),
      (''requested_dte_max'', PInt (sa_dte_max a)),
      (''available_dtes'', PList (map PInt (sort (remdups (map oc_dte (cs_desired sc)))))),
      (''dte_window_candidates'', PInt (cs_window sc)),
      (''dte_fallback_policy'', PStr (sa_fallback_policy a)),
      (''nearest_after_dte'', (case nearest_after_dte (cs_desired sc) (sa_dte_max a) of
          None \<Rightarrow> PNone | Some d \<Rightarrow> PInt d))]"

text \<open>The candidates: those of the window, else those of the walk, with the policy applied.\<close>

definition candidates_of ::
  "selector_args \<Rightarrow> chain_scan \<Rightarrow> (option_contract list \<times> string option \<times> nat) result" where
  "candidates_of a sc =
     (if cs_filtered sc \<noteq> [] \<or> sa_fallback_policy a \<noteq> ''allow_nearest_after''
      then Inr (cs_filtered sc, None, 0)
      else bind_result (nearest_after_candidates (cs_desired sc) (sa_dte_max a) (sa_fallback_dte_max a)
             (sa_delta_min a) (sa_delta_max a)) (\<lambda>(found, n).
           Inr (found, if found \<noteq> [] then Some (sa_fallback_policy a) else None, n)))"

definition selection_of ::
  "selector_args \<Rightarrow> chain_scan \<Rightarrow> string option \<Rightarrow> nat \<Rightarrow> option_contract \<Rightarrow> option_selection" where
  "selection_of a sc applied n chosen =
     (let cohort = filter (\<lambda>c. oc_open_interest c \<noteq> None
            \<and> (if applied \<noteq> None then oc_dte c = oc_dte chosen else in_window a c)) (cs_desired sc)
      in \<lparr>os_option_symbol = oc_option_symbol chosen, os_contract_type = oc_contract_type chosen,
          os_dte = oc_dte chosen, os_abs_delta = abs_delta chosen, os_bid = oc_bid chosen,
          os_ask = oc_ask chosen, os_strike = Some (oc_strike chosen),
          os_open_interest = oc_open_interest chosen,
          os_open_interest_percentile = open_interest_percentile chosen cohort,
          os_dte_fallback_policy = applied,
          os_requested_dte_min = (if applied \<noteq> None then Some (sa_dte_min a) else None),
          os_requested_dte_max = (if applied \<noteq> None then Some (sa_dte_max a) else None),
          os_attempted_fallback_dtes_count = int n\<rparr>)"

definition select_contract ::
  "(pyval \<Rightarrow> string) \<Rightarrow> option_selection_request \<Rightarrow> option_contract list \<Rightarrow> selection_result" where
  "select_contract tx q contracts =
     lift_result (selector_args_of tx q) (\<lambda>a.
     lift_result (scan_chain a contracts \<lparr>cs_eliminated = no_eliminations (int (length contracts)),
        cs_filtered = [], cs_desired = [], cs_window = 0\<rparr>) (\<lambda>sc.
     lift_result (candidates_of a sc) (\<lambda>(found, applied, n).
       if found = [] then Inl (empty_error (rq_deployment_id q) a sc)
       else lift_result (target_delta (sa_delta_min a) (sa_delta_max a)) (\<lambda>target.
         let ranked = rank_contracts target found in
         lift_result (int_of (dict_get_default (rq_execution_params q) ''_entry_candidate_rank'' (PInt 0))) (\<lambda>rank.
           if rank \<ge> int (length ranked)
           then Inl (Selector_Empty (rq_deployment_id q) (cs_eliminated sc)
                  [(''ranked_candidates_exhausted'', PBool True), (''eligible_candidates'', PInt (int (length ranked)))])
           else lift_result (py_index ranked rank) (\<lambda>chosen. Inr (selection_of a sc applied n chosen)))))))"

section \<open>What the scan and the walk keep\<close>

definition tradable :: "selector_args \<Rightarrow> option_contract \<Rightarrow> bool" where
  "tradable a c \<longleftrightarrow> non_dte_reason (sa_delta_min a) (sa_delta_max a) c = Inr None"

definition eligible :: "selector_args \<Rightarrow> option_contract \<Rightarrow> bool" where
  "eligible a c \<longleftrightarrow> desired a c \<and> in_window a c \<and> tradable a c"

lemma eliminate_simps [simp]:
  "cs_filtered (eliminate k sc) = cs_filtered sc" "cs_desired (eliminate k sc) = cs_desired sc"
  "cs_eliminated (eliminate k sc) = AList.map_entry k (\<lambda>n. n + 1) (cs_eliminated sc)"
  by (simp_all add: eliminate_def)

lemma scan_contract_kept:
  assumes "scan_contract a c sc = Inr sc'"
  shows "cs_filtered sc' = cs_filtered sc @ (if eligible a c then [c] else [])"
    and "cs_desired sc' = cs_desired sc @ (if desired a c then [c] else [])"
proof -
  have "cs_filtered sc' = cs_filtered sc @ (if eligible a c then [c] else [])
    \<and> cs_desired sc' = cs_desired sc @ (if desired a c then [c] else [])"
  proof (cases "desired a c \<and> in_window a c")
    case True
    then obtain reason where "non_dte_reason (sa_delta_min a) (sa_delta_max a) c = Inr reason"
      using assms by (auto simp: scan_contract_def desired_def Let_def bind_result_Inr_iff)
    then show ?thesis
      using assms True by (cases reason) (auto simp: scan_contract_def eligible_def desired_def tradable_def Let_def)
  next
    case False
    then show ?thesis
      using assms by (auto simp: scan_contract_def eligible_def desired_def Let_def split: if_splits)
  qed
  then show "cs_filtered sc' = cs_filtered sc @ (if eligible a c then [c] else [])"
    "cs_desired sc' = cs_desired sc @ (if desired a c then [c] else [])" by blast+
qed

lemma scan_chain_kept:
  assumes "scan_chain a cs sc = Inr sc'"
  shows "cs_filtered sc' = cs_filtered sc @ filter (eligible a) cs
    \<and> cs_desired sc' = cs_desired sc @ filter (desired a) cs"
  using assms
proof (induction cs arbitrary: sc)
  case (Cons c cs)
  from Cons.prems obtain sc1 where s: "scan_contract a c sc = Inr sc1" "scan_chain a cs sc1 = Inr sc'"
    by (auto simp: bind_result_Inr_iff)
  from Cons.IH [OF s(2)] scan_contract_kept [OF s(1)] show ?case by simp
qed simp

lemma filter_result_filter:
  "filter_result P xs = Inr ys \<Longrightarrow> ys = filter (\<lambda>x. P x = Inr True) xs"
proof (induction xs arbitrary: ys)
  case (Cons x xs)
  then obtain b zs where "P x = Inr b" "filter_result P xs = Inr zs" "ys = (if b then x # zs else zs)"
    by (auto simp: bind_result_Inr_iff)
  with Cons.IH show ?case by simp
qed simp

lemma passes_iff: "passes_non_dte_filters (sa_delta_min a) (sa_delta_max a) c = Inr True \<longleftrightarrow> tradable a c"
  by (auto simp: passes_non_dte_filters_def tradable_def bind_result_Inr_iff)

lemma candidates_at_filter:
  "candidates_at (sa_delta_min a) (sa_delta_max a) cs d = Inr found \<Longrightarrow>
   found = filter (\<lambda>c. oc_dte c = d \<and> tradable a c) cs"
  unfolding candidates_at_def by (drule filter_result_filter) (auto simp: passes_iff intro: filter_cong)

lemma walk_dtes_found:
  assumes "walk_dtes (sa_delta_min a) (sa_delta_max a) cs n ds = Inr (found, m)" "found \<noteq> []"
  obtains ds1 d ds2 where "ds = ds1 @ d # ds2" "found = filter (\<lambda>c. oc_dte c = d \<and> tradable a c) cs"
    "\<And>c. c \<in> set cs \<Longrightarrow> oc_dte c \<in> set ds1 \<Longrightarrow> \<not> tradable a c"
proof -
  have "\<exists>ds1 d ds2. ds = ds1 @ d # ds2 \<and> found = filter (\<lambda>c. oc_dte c = d \<and> tradable a c) cs
      \<and> (\<forall>c\<in>set cs. oc_dte c \<in> set ds1 \<longrightarrow> \<not> tradable a c)"
    using assms
  proof (induction ds arbitrary: n)
    case (Cons d ds)
    then obtain here where h: "candidates_at (sa_delta_min a) (sa_delta_max a) cs d = Inr here"
      by (auto simp: bind_result_Inr_iff)
    note here = candidates_at_filter [OF h]
    show ?case
    proof (cases "here = []")
      case False
      then have "found = here" using Cons.prems(1) h by simp
      then show ?thesis using here by (intro exI [of _ "[]"] exI [of _ d] exI [of _ ds]) auto
    next
      case True
      then have "walk_dtes (sa_delta_min a) (sa_delta_max a) cs (Suc n) ds = Inr (found, m)"
        using Cons.prems(1) h by simp
      from Cons.IH [OF this Cons.prems(2)] obtain ds1 e ds2 where
        "ds = ds1 @ e # ds2" "found = filter (\<lambda>c. oc_dte c = e \<and> tradable a c) cs"
        "\<forall>c\<in>set cs. oc_dte c \<in> set ds1 \<longrightarrow> \<not> tradable a c" by blast
      moreover have "\<forall>c\<in>set cs. oc_dte c = d \<longrightarrow> \<not> tradable a c"
        using here True by (metis (mono_tags, lifting) filter_empty_conv)
      ultimately show ?thesis by (intro exI [of _ "d # ds1"] exI [of _ e] exI [of _ ds2]) auto
    qed
  qed simp
  then show thesis using that by blast
qed

lemma later_dtes_set:
  assumes "later_dtes hi fm cs = Inr ds"
  shows "sorted_wrt (<) ds" "set ds = {d \<in> oc_dte ` set cs. later_dte hi fm d = Inr True}"
  using assms filter_result_filter
  by (auto simp: later_dtes_def bind_result_Inr_iff strict_sorted_iff dest!: filter_result_filter)

lemma later_dte_bounds: "later_dte hi fm d = Inr True \<Longrightarrow> hi < d"
  by (auto simp: later_dte_def split: if_splits)

text \<open>
  The candidates of the walk: those of one expiration beyond the window, and before it, among
  the expirations the policy admits, none has a tradable contract.
\<close>

definition first_later :: "selector_args \<Rightarrow> option_contract list \<Rightarrow> int \<Rightarrow> bool" where
  "first_later a cs d \<longleftrightarrow> later_dte (sa_dte_max a) (sa_fallback_dte_max a) d = Inr True
     \<and> (\<forall>c\<in>set cs. desired a c \<and> later_dte (sa_dte_max a) (sa_fallback_dte_max a) (oc_dte c) = Inr True
          \<and> oc_dte c < d \<longrightarrow> \<not> tradable a c)"

lemma candidates_later:
  assumes "nearest_after_candidates (filter (desired a) cs) (sa_dte_max a) (sa_fallback_dte_max a)
      (sa_delta_min a) (sa_delta_max a) = Inr (found, n)" "found \<noteq> []"
  obtains d where "first_later a cs d" "found = filter (\<lambda>c. desired a c \<and> oc_dte c = d \<and> tradable a c) cs"
proof -
  let ?des = "filter (desired a) cs"
  obtain later where l: "later_dtes (sa_dte_max a) (sa_fallback_dte_max a) ?des = Inr later"
    and w: "walk_dtes (sa_delta_min a) (sa_delta_max a) ?des 0
       (if sa_fallback_dte_max a \<noteq> PNone then later else take 1 later) = Inr (found, n)"
    using assms(1) by (auto simp: nearest_after_candidates_def bind_result_Inr_iff)
  from walk_dtes_found [OF w assms(2)] obtain ds1 d ds2 where ds:
    "(if sa_fallback_dte_max a \<noteq> PNone then later else take 1 later) = ds1 @ d # ds2"
    and f: "found = filter (\<lambda>c. oc_dte c = d \<and> tradable a c) ?des"
    and none: "\<And>c. c \<in> set ?des \<Longrightarrow> oc_dte c \<in> set ds1 \<Longrightarrow> \<not> tradable a c" by metis
  obtain rest where later: "later = ds1 @ d # rest"
    using ds by (metis append_Cons append_assoc append_take_drop_id)
  note ls = later_dtes_set [OF l]
  have "later_dte (sa_dte_max a) (sa_fallback_dte_max a) d = Inr True"
    using ls(2) later by auto
  moreover have "oc_dte c \<in> set ds1" if "c \<in> set cs" "desired a c" "oc_dte c < d"
    "later_dte (sa_dte_max a) (sa_fallback_dte_max a) (oc_dte c) = Inr True" for c
  proof -
    have "oc_dte c \<in> set later" using that ls(2) by auto
    then show ?thesis using that(3) ls(1) by (auto simp: later sorted_wrt_append)
  qed
  ultimately have "first_later a cs d"
    using none unfolding first_later_def by auto
  moreover have "found = filter (\<lambda>c. desired a c \<and> oc_dte c = d \<and> tradable a c) cs"
    unfolding f by (simp add: conj_commute)
  ultimately show thesis using that by blast
qed

section \<open>The pool and its ranking\<close>

definition is_pool :: "selector_args \<Rightarrow> option_contract list \<Rightarrow> option_contract list \<Rightarrow> string option \<Rightarrow> bool" where
  "is_pool a cs found applied \<longleftrightarrow>
     (applied = None \<and> found = filter (eligible a) cs
      \<or> applied = Some (sa_fallback_policy a) \<and> sa_fallback_policy a = ''allow_nearest_after''
        \<and> filter (eligible a) cs = []
        \<and> (\<exists>d. first_later a cs d \<and> found = filter (\<lambda>c. desired a c \<and> oc_dte c = d \<and> tradable a c) cs))"

definition empty_scan :: "option_contract list \<Rightarrow> chain_scan" where
  "empty_scan cs = \<lparr>cs_eliminated = no_eliminations (int (length cs)), cs_filtered = [],
     cs_desired = [], cs_window = 0\<rparr>"

lemma candidates_of_pool:
  assumes "scan_chain a cs (empty_scan cs) = Inr sc" "candidates_of a sc = Inr (found, applied, n)" "found \<noteq> []"
  shows "is_pool a cs found applied"
proof -
  have sc: "cs_filtered sc = filter (eligible a) cs" "cs_desired sc = filter (desired a) cs"
    using scan_chain_kept [OF assms(1)] by (simp_all add: empty_scan_def)
  show ?thesis
  proof (cases "cs_filtered sc \<noteq> [] \<or> sa_fallback_policy a \<noteq> ''allow_nearest_after''")
    case True
    then show ?thesis using assms(2) sc by (simp add: candidates_of_def is_pool_def)
  next
    case False
    then have "nearest_after_candidates (filter (desired a) cs) (sa_dte_max a) (sa_fallback_dte_max a)
        (sa_delta_min a) (sa_delta_max a) = Inr (found, n)" "applied = Some (sa_fallback_policy a)"
      using assms(2,3) sc by (auto simp: candidates_of_def bind_result_Inr_iff)
    with candidates_later [OF this(1) assms(3)] False sc(1) show ?thesis
      unfolding is_pool_def by metis
  qed
qed

lemma pool_sub: "is_pool a cs found applied \<Longrightarrow> mset found \<subseteq># mset cs"
  by (auto simp: is_pool_def)

lemma pool_member:
  assumes "is_pool a cs found applied" "c \<in> set found"
  shows "c \<in> set cs \<and> desired a c \<and> tradable a c
    \<and> (in_window a c \<and> applied = None
       \<or> filter (eligible a) cs = [] \<and> sa_fallback_policy a = ''allow_nearest_after''
         \<and> first_later a cs (oc_dte c) \<and> applied = Some ''allow_nearest_after'')"
  using assms by (auto simp: is_pool_def eligible_def)

lemma pool_contender:
  assumes "is_pool a cs found applied" "c \<in> set found"
    and "c' \<in> set cs" "desired a c'" "tradable a c'" "in_window a c' \<or> oc_dte c' = oc_dte c"
  shows "c' \<in> set found"
  using assms by (auto simp: is_pool_def eligible_def in_window_def filter_empty_conv)

lemma mset_rank_contracts [simp]: "mset (rank_contracts t cs) = mset cs"
  by (cases t) auto

lemma set_rank_contracts [simp]: "set (rank_contracts t cs) = set cs"
  by (metis mset_rank_contracts set_mset_mset)

lemma length_rank_contracts [simp]: "length (rank_contracts t cs) = length cs"
  by (metis mset_rank_contracts size_mset)

lemma rank_first_nearest:
  assumes "c' \<in> set found"
  shows "\<bar>ranked_delta (rank_contracts (Fin t) found ! 0) - t\<bar> \<le> \<bar>ranked_delta c' - t\<bar>"
proof -
  let ?key = "\<lambda>c. (\<bar>ranked_delta c - t\<bar>, rank_tail c)" and ?r = "rank_contracts (Fin t) found"
  obtain i where i: "i < length ?r" "c' = ?r ! i"
    using assms by (metis in_set_conv_nth set_rank_contracts)
  have "sorted (map ?key ?r)" by simp
  then have "?key (?r ! 0) \<le> ?key (?r ! i)"
    using i sorted_nth_mono [of "map ?key ?r" 0 i] by (cases "length ?r") auto
  then show ?thesis using i by (auto simp: less_eq_prod_def)
qed

lemma tradable_facts:
  assumes "tradable a c"
  shows "\<exists>n. oc_open_interest c = Some n \<and> 0 < n"
    and "float_of (sa_delta_min a) = Inr (Fin lo) \<Longrightarrow> \<exists>x. abs_delta c = Some x \<and> lo \<le> x"
    and "float_of (sa_delta_max a) = Inr (Fin hi) \<Longrightarrow> \<exists>x. abs_delta c = Some x \<and> x \<le> hi"
proof -
  have hq: "hard_quote_reason c = None" and
    d: "delta_below (sa_delta_min a) c = Inr False" "delta_above (sa_delta_max a) c = Inr False"
    using assms by (auto simp: tradable_def non_dte_reason_def bind_result_Inr_iff split: option.splits if_splits)
  show "\<exists>n. oc_open_interest c = Some n \<and> 0 < n"
    using hq by (auto simp: hard_quote_reason_def split: option.splits if_splits)
  show "float_of (sa_delta_min a) = Inr (Fin lo) \<Longrightarrow> \<exists>x. abs_delta c = Some x \<and> lo \<le> x"
    using d(1) by (auto simp: delta_below_def split: option.splits if_splits)
  show "float_of (sa_delta_max a) = Inr (Fin hi) \<Longrightarrow> \<exists>x. abs_delta c = Some x \<and> x \<le> hi"
    using d(2) by (auto simp: delta_above_def split: option.splits if_splits)
qed

lemma lift_result_Inr_iff: "lift_result m f = Inr y \<longleftrightarrow> (\<exists>x. m = Inr x \<and> f x = Inr y)"
  by (cases m) auto

lemma select_passed:
  assumes "select_contract tx q cs = Inr sel"
  obtains a sc found applied n target rank chosen where "selector_args_of tx q = Inr a"
    "scan_chain a cs (empty_scan cs) = Inr sc" "candidates_of a sc = Inr (found, applied, n)" "found \<noteq> []"
    "target_delta (sa_delta_min a) (sa_delta_max a) = Inr target"
    "int_of (dict_get_default (rq_execution_params q) ''_entry_candidate_rank'' (PInt 0)) = Inr rank"
    "py_index (rank_contracts target found) rank = Inr chosen" "sel = selection_of a sc applied n chosen"
  using assms
  by (auto simp: select_contract_def empty_scan_def lift_result_Inr_iff Let_def split: if_splits)

lemma py_index_member: "py_index xs i = Inr x \<Longrightarrow> x \<in> set xs"
  by (auto simp: py_index_def split: if_splits)

lemma selection_of_fields [simp]:
  "os_option_symbol (selection_of a sc ap n c) = oc_option_symbol c" "os_dte (selection_of a sc ap n c) = oc_dte c"
  "os_abs_delta (selection_of a sc ap n c) = abs_delta c" "os_bid (selection_of a sc ap n c) = oc_bid c"
  "os_ask (selection_of a sc ap n c) = oc_ask c" "os_dte_fallback_policy (selection_of a sc ap n c) = ap"
  by (simp_all add: selection_of_def Let_def)

text \<open>
  C14. A selection is sound and nearest. What \<open>select\<close> returns is a contract of the chain with
  the requested underlying and type, with open interest and with a delta inside the given
  bounds; it expires inside the window, unless nothing in the window was eligible and the
  policy allows later expirations, and then no earlier admitted expiration has a tradable
  contract. With the default rank its delta is at least as close to the target as that of any
  contract it competes with.
\<close>

theorem selection_sound:
  assumes "select_contract tx q cs = Inr sel" "selector_args_of tx q = Inr a"
  shows "\<exists>c\<in>set cs. os_option_symbol sel = oc_option_symbol c \<and> os_dte sel = oc_dte c
      \<and> os_bid sel = oc_bid c \<and> os_ask sel = oc_ask c \<and> os_abs_delta sel = abs_delta c
    \<and> desired a c \<and> (\<exists>n. oc_open_interest c = Some n \<and> 0 < n)
    \<and> (\<forall>lo. float_of (sa_delta_min a) = Inr (Fin lo) \<longrightarrow> (\<exists>x. abs_delta c = Some x \<and> lo \<le> x))
    \<and> (\<forall>hi. float_of (sa_delta_max a) = Inr (Fin hi) \<longrightarrow> (\<exists>x. abs_delta c = Some x \<and> x \<le> hi))
    \<and> (in_window a c \<and> os_dte_fallback_policy sel = None
       \<or> filter (eligible a) cs = [] \<and> sa_fallback_policy a = ''allow_nearest_after''
         \<and> first_later a cs (oc_dte c) \<and> os_dte_fallback_policy sel = Some ''allow_nearest_after'')
    \<and> (dict_get_default (rq_execution_params q) ''_entry_candidate_rank'' (PInt 0) = PInt 0 \<longrightarrow>
       (\<forall>t. target_delta (sa_delta_min a) (sa_delta_max a) = Inr (Fin t) \<longrightarrow>
        (\<forall>c'\<in>set cs. desired a c' \<and> tradable a c' \<and> (in_window a c' \<or> oc_dte c' = oc_dte c) \<longrightarrow>
           \<bar>ranked_delta c - t\<bar> \<le> \<bar>ranked_delta c' - t\<bar>)))"
proof -
  obtain a' sc found applied n target rank c where a': "selector_args_of tx q = Inr a'" and s':
    "scan_chain a' cs (empty_scan cs) = Inr sc" "candidates_of a' sc = Inr (found, applied, n)" "found \<noteq> []"
    "target_delta (sa_delta_min a') (sa_delta_max a') = Inr target"
    "int_of (dict_get_default (rq_execution_params q) ''_entry_candidate_rank'' (PInt 0)) = Inr rank"
    "py_index (rank_contracts target found) rank = Inr c" "sel = selection_of a' sc applied n c"
    by (rule select_passed [OF assms(1)])
  have "a' = a" using a' assms(2) by simp
  note s = s' [unfolded this]
  note pool = candidates_of_pool [OF s(1-3)]
  have c: "c \<in> set found" using py_index_member [OF s(6)] by simp
  have near: "\<bar>ranked_delta c - t\<bar> \<le> \<bar>ranked_delta c' - t\<bar>"
    if "dict_get_default (rq_execution_params q) ''_entry_candidate_rank'' (PInt 0) = PInt 0"
      "target_delta (sa_delta_min a) (sa_delta_max a) = Inr (Fin t)" "c' \<in> set found" for t c'
  proof -
    have "c = rank_contracts (Fin t) found ! 0"
      using s(3-6) that by (auto simp: py_index_def split: if_splits)
    then show ?thesis using rank_first_nearest [OF that(3)] by simp
  qed
  from pool_member [OF pool c] have m: "c \<in> set cs" "desired a c" "tradable a c"
    "in_window a c \<and> applied = None \<or> filter (eligible a) cs = []
       \<and> sa_fallback_policy a = ''allow_nearest_after'' \<and> first_later a cs (oc_dte c)
       \<and> applied = Some ''allow_nearest_after''" by blast+
  show ?thesis
    unfolding s(7) selection_of_fields
    by (rule bexI [OF _ m(1)], intro conjI refl allI impI ballI)
      (use m tradable_facts [OF m(3)] near pool_contender [OF pool c] in blast)+
qed

definition demo_contract :: "string \<Rightarrow> int \<Rightarrow> real \<Rightarrow> option_contract" where
  "demo_contract name dte delta = \<lparr>oc_option_symbol = name, oc_underlying_symbol = ''SPY'',
     oc_contract_type = ''call'', oc_expiration_date = [], oc_dte = dte, oc_strike = 500,
     oc_delta = Some delta, oc_bid = Some 1, oc_ask = Some 2, oc_open_interest = Some 100\<rparr>"

definition demo_chain :: "option_contract list" where
  "demo_chain = [demo_contract ''A'' 1 (1/2), demo_contract ''B'' 3 (1/4), demo_contract ''C'' 9 (1/4)]"

definition demo_request :: option_selection_request where
  "demo_request = \<lparr>rq_deployment_id = ''d1'', rq_symbol = ''SPY'', rq_direction = LONG,
     rq_execution_params = []\<rparr>"

definition demo_pick :: "selection_result" where
  "demo_pick = select_contract (\<lambda>_. []) demo_request demo_chain"

lemma demo_args: "selector_args_of (\<lambda>_. []) demo_request = Inr \<lparr>sa_symbol = ''SPY'',
    sa_allowed_type = ''CALL'', sa_dte_min = 0, sa_dte_max = 7, sa_delta_min = PNone,
    sa_delta_max = PNone, sa_fallback_policy = ''strict'', sa_fallback_dte_max = PNone\<rparr>"
  by code_simp

lemma demo_picked: "(case demo_pick of Inl _ \<Rightarrow> None | Inr sel \<Rightarrow> Some (os_option_symbol sel)) = Some ''B''"
  by code_simp

theorem selection_sound_witness:
  "\<exists>c\<in>set demo_chain. oc_option_symbol c = ''B'' \<and> (\<exists>n. oc_open_interest c = Some n \<and> 0 < n)"
proof -
  obtain sel where sel: "demo_pick = Inr sel" "os_option_symbol sel = ''B''"
    using demo_picked by (auto split: sum.splits)
  from selection_sound [OF sel(1) [unfolded demo_pick_def] demo_args]
  obtain c where "c \<in> set demo_chain" "os_option_symbol sel = oc_option_symbol c"
    "\<exists>n. oc_open_interest c = Some n \<and> 0 < n" by blast
  then show ?thesis using sel(2) by auto
qed

text \<open>The request of the \<open>i\<close>-th retry.\<close>

definition rank_request :: "option_selection_request \<Rightarrow> int \<Rightarrow> option_selection_request" where
  "rank_request q i = q\<lparr>rq_execution_params :=
     AList.update ''_entry_candidate_rank'' (PInt i) (rq_execution_params q)\<rparr>"

lemma rank_request_args [simp]: "selector_args_of tx (rank_request q i) = selector_args_of tx q"
  by (simp add: selector_args_of_def rank_request_def required_contract_type_def dict_get_def
      dict_get_default_def update_lookup Let_def)

lemma rank_request_rank [simp]:
  "int_of (dict_get_default (rq_execution_params (rank_request q i)) ''_entry_candidate_rank'' (PInt 0)) = Inr i"
  "rq_deployment_id (rank_request q i) = rq_deployment_id q"
  by (simp_all add: rank_request_def dict_get_default_def update_lookup)

text \<open>
  Retries visit every candidate once. When the first selection succeeds there is a
  ranking of contracts of the chain, none more often than the chain holds it, such that the
  retry with rank \<open>i\<close> selects the \<open>i\<close>-th of them, and every rank beyond is refused as
  exhausted: a loop that counts the rank up offers each candidate once and ends.
\<close>

lemma retries_visit_each_once:
  assumes "select_contract tx (rank_request q 0) cs = Inr sel"
  shows "\<exists>ranked. ranked \<noteq> [] \<and> mset ranked \<subseteq># mset cs
    \<and> (\<forall>i<length ranked. \<exists>sel. select_contract tx (rank_request q (int i)) cs = Inr sel
         \<and> os_option_symbol sel = oc_option_symbol (ranked ! i))
    \<and> (\<forall>i\<ge>int (length ranked). \<exists>counts. select_contract tx (rank_request q i) cs
         = Inl (Selector_Empty (rq_deployment_id q) counts [(''ranked_candidates_exhausted'', PBool True),
             (''eligible_candidates'', PInt (int (length ranked)))]))"
proof -
  obtain a sc found applied n target where s:
    "selector_args_of tx q = Inr a" "scan_chain a cs (empty_scan cs) = Inr sc"
    "candidates_of a sc = Inr (found, applied, n)" "found \<noteq> []"
    "target_delta (sa_delta_min a) (sa_delta_max a) = Inr target"
    by (rule select_passed [OF assms]) simp
  let ?ranked = "rank_contracts target found"
  have "mset ?ranked \<subseteq># mset cs" using pool_sub [OF candidates_of_pool [OF s(2-4)]] by simp
  moreover have "select_contract tx (rank_request q (int i)) cs = Inr (selection_of a sc applied n (?ranked ! i))"
    if "i < length ?ranked" for i
    using s that by (simp add: select_contract_def empty_scan_def [symmetric] py_index_def Let_def)
  moreover have "select_contract tx (rank_request q i) cs = Inl (Selector_Empty (rq_deployment_id q)
      (cs_eliminated sc) [(''ranked_candidates_exhausted'', PBool True),
        (''eligible_candidates'', PInt (int (length ?ranked)))])" if "int (length ?ranked) \<le> i" for i
    using s that by (simp add: select_contract_def empty_scan_def [symmetric] Let_def)
  moreover have "?ranked \<noteq> []"
    using s(4) length_rank_contracts [of target found] by (metis length_0_conv)
  ultimately show ?thesis
    by (intro exI [of _ ?ranked] conjI allI impI) (blast intro: selection_of_fields(1))+
qed

end
