(* ===== verification/Quote_Lineage.thy ===== *)
theory Quote_Lineage
  imports Domain
begin

text \<open>
  \<open>src/bhiksha/execution/quote_lineage.py\<close> and the quote record of
  \<open>src/bhiksha/execution/order_manager.py\<close>: which provider timestamps prove that a bid and an
  ask belong to one snapshot, and how fresh the snapshot is. Instants are microseconds in UTC;
  \<open>datetime.fromisoformat\<close> and \<open>isoformat\<close> are the parameters \<open>iso_parse\<close> (\<^const>\<open>None\<close> is
  \<open>ValueError\<close>) and \<open>isofmt\<close>.
\<close>

section \<open>The quote\<close>

record public_quote =
  pq_symbol :: string
  pq_bid :: "pyfloat option"
  pq_ask :: "pyfloat option"
  pq_last :: "pyfloat option"
  pq_open_interest :: "int option"
  pq_quote_timestamp :: "string option"
  pq_quote_timestamp_field :: "string option"
  pq_bid_timestamp :: "string option"
  pq_ask_timestamp :: "string option"
  pq_outcome :: "string option"

definition quote_mid_raw :: "public_quote \<Rightarrow> pyfloat option" where
  "quote_mid_raw q = (case (pq_bid q, pq_ask q) of
      (Some bid, Some ask) \<Rightarrow> Some (f_scale (f_add bid ask) (1 / 2)) | _ \<Rightarrow> None)"

definition quote_spread_pct :: "public_quote \<Rightarrow> pyfloat option" where
  "quote_spread_pct q = (case (pq_bid q, pq_ask q) of
      (Some bid, Some ask) \<Rightarrow>
        (let mid = f_scale (f_add bid ask) (1 / 2)
         in if f_le mid (Fin 0) then None else Some (f_div (f_sub ask bid) mid))
    | _ \<Rightarrow> None)"

section \<open>Provider timestamps\<close>

abbreviation PUBLIC_QUOTE_TIMESTAMP_FIELD :: string where
  "PUBLIC_QUOTE_TIMESTAMP_FIELD \<equiv> ''quoteTimestamp''"

abbreviation PUBLIC_BID_ASK_TIMESTAMP_FIELD :: string where
  "PUBLIC_BID_ASK_TIMESTAMP_FIELD \<equiv> ''bidTimestamp+askTimestamp''"

definition PROVED_TWO_SIDED_QUOTE_TIMESTAMP_FIELDS :: "string list" where
  "PROVED_TWO_SIDED_QUOTE_TIMESTAMP_FIELDS = [PUBLIC_QUOTE_TIMESTAMP_FIELD, PUBLIC_BID_ASK_TIMESTAMP_FIELD]"

definition MAX_ENTRY_QUOTE_AGE_SECONDS :: int where
  "MAX_ENTRY_QUOTE_AGE_SECONDS = 8"

text \<open>\<open>datetime.fromtimestamp(numeric, tz=UTC)\<close>: the years 1 to 9999, rounded to the microsecond.\<close>

fun from_timestamp :: "pyfloat \<Rightarrow> int option" where
  "from_timestamp (Fin x) =
     (let t = round_half_even (x * 1000000)
      in if - 62135596800000000 \<le> t \<and> t < 253402300800000000 then Some t else None)"
| "from_timestamp _ = None"

definition epoch_instant :: "pyfloat \<Rightarrow> int option" where
  "epoch_instant x = from_timestamp (if f_lt (Fin 10000000000) x then f_scale x (1 / 1000) else x)"

definition parse_provider_text :: "(string \<Rightarrow> pydt option) \<Rightarrow> string \<Rightarrow> int option" where
  "parse_provider_text iso_parse value =
     (let raw = py_strip value
      in if raw = [] then None
         else case parse_float raw of
           Some x \<Rightarrow> epoch_instant x
         | None \<Rightarrow> map_option instant (iso_parse (concat (map (\<lambda>c. if c = CHR ''Z'' then ''+00:00'' else [c]) raw))))"

text \<open>A raw field of the broker's JSON; the text of a list or object is no timestamp.\<close>

fun parse_provider_timestamp :: "(string \<Rightarrow> pydt option) \<Rightarrow> pyval \<Rightarrow> int option" where
  "parse_provider_timestamp iso_parse PNone = None"
| "parse_provider_timestamp iso_parse (PBool b) = None"
| "parse_provider_timestamp iso_parse (PInt n) = epoch_instant (Fin (of_int n))"
| "parse_provider_timestamp iso_parse (PFloat x) = epoch_instant x"
| "parse_provider_timestamp iso_parse (PStr s) = parse_provider_text iso_parse s"
| "parse_provider_timestamp iso_parse (PDict d) = None"
| "parse_provider_timestamp iso_parse (PList xs) = None"

definition string_or_none :: "(pyval \<Rightarrow> string) \<Rightarrow> pyval \<Rightarrow> string option" where
  "string_or_none tx v = (if v = PNone then None else Some (py_str tx v))"

definition opt_instant :: "(string \<Rightarrow> pydt option) \<Rightarrow> string option \<Rightarrow> int option" where
  "opt_instant iso_parse s = (case s of None \<Rightarrow> None | Some t \<Rightarrow> parse_provider_text iso_parse t)"

definition extract_public_quote_timestamp ::
  "(string \<Rightarrow> pydt option) \<Rightarrow> (int \<Rightarrow> string) \<Rightarrow> (pyval \<Rightarrow> string) \<Rightarrow> params \<Rightarrow>
   string option \<times> string option \<times> string option \<times> string option" where
  "extract_public_quote_timestamp iso_parse isofmt tx payload =
     (let bid_timestamp = string_or_none tx (dict_get payload ''bidTimestamp'');
          ask_timestamp = string_or_none tx (dict_get payload ''askTimestamp'');
          quote_timestamp = dict_get payload PUBLIC_QUOTE_TIMESTAMP_FIELD
      in if parse_provider_timestamp iso_parse quote_timestamp \<noteq> None
         then (Some (py_str tx quote_timestamp), Some PUBLIC_QUOTE_TIMESTAMP_FIELD, bid_timestamp, ask_timestamp)
         else case (opt_instant iso_parse bid_timestamp, opt_instant iso_parse ask_timestamp) of
           (Some bid_at, Some ask_at) \<Rightarrow>
             (Some (isofmt (min bid_at ask_at)), Some PUBLIC_BID_ASK_TIMESTAMP_FIELD, bid_timestamp, ask_timestamp)
         | _ \<Rightarrow> (None, None, bid_timestamp, ask_timestamp))"

section \<open>Lineage and freshness\<close>

record quote_lineage =
  ql_quote_at :: int
  ql_field :: string
  ql_bid_at :: int
  ql_ask_at :: int

text \<open>The lineage before the test against the observation time, with the raw quote instant.\<close>

definition candidate_lineage ::
  "(string \<Rightarrow> pydt option) \<Rightarrow> public_quote \<Rightarrow> (quote_lineage \<times> int) option" where
  "candidate_lineage iso_parse q =
     (if pq_quote_timestamp_field q \<notin> Some ` set PROVED_TWO_SIDED_QUOTE_TIMESTAMP_FIELDS then None
      else if pq_quote_timestamp_field q = Some PUBLIC_QUOTE_TIMESTAMP_FIELD
      then case opt_instant iso_parse (pq_quote_timestamp q) of
          None \<Rightarrow> None
        | Some quote_at \<Rightarrow>
            (case (if pq_bid_timestamp q \<noteq> None then opt_instant iso_parse (pq_bid_timestamp q) else Some quote_at,
                   if pq_ask_timestamp q \<noteq> None then opt_instant iso_parse (pq_ask_timestamp q) else Some quote_at) of
               (Some bid_at, Some ask_at) \<Rightarrow>
                 if bid_at > quote_at \<or> ask_at > quote_at then None
                 else Some (\<lparr>ql_quote_at = min quote_at (min bid_at ask_at),
                        ql_field = PUBLIC_QUOTE_TIMESTAMP_FIELD, ql_bid_at = bid_at, ql_ask_at = ask_at\<rparr>, quote_at)
             | _ \<Rightarrow> None)
      else case (opt_instant iso_parse (pq_bid_timestamp q), opt_instant iso_parse (pq_ask_timestamp q),
                 opt_instant iso_parse (pq_quote_timestamp q)) of
          (Some bid_at, Some ask_at, Some quote_at) \<Rightarrow>
            if quote_at \<noteq> min bid_at ask_at then None
            else Some (\<lparr>ql_quote_at = min bid_at ask_at, ql_field = PUBLIC_BID_ASK_TIMESTAMP_FIELD,
                   ql_bid_at = bid_at, ql_ask_at = ask_at\<rparr>, quote_at)
        | _ \<Rightarrow> None)"

definition proved_quote_timestamp_lineage ::
  "(string \<Rightarrow> pydt option) \<Rightarrow> public_quote \<Rightarrow> pydt option \<Rightarrow> quote_lineage option" where
  "proved_quote_timestamp_lineage iso_parse q observed_at =
     (case candidate_lineage iso_parse q of
        None \<Rightarrow> None
      | Some (lin, quote_at) \<Rightarrow>
          (case observed_at of
             None \<Rightarrow> Some lin
           | Some t \<Rightarrow> if instant t < ql_bid_at lin \<or> instant t < ql_ask_at lin \<or> instant t < quote_at
                      then None else Some lin))"

definition fresh :: "int \<Rightarrow> int \<Rightarrow> bool" where
  "fresh observed t \<longleftrightarrow> 0 \<le> observed - t \<and> observed - t \<le> MAX_ENTRY_QUOTE_AGE_SECONDS * usec_per_sec"

definition quote_timestamp_status ::
  "(string \<Rightarrow> pydt option) \<Rightarrow> public_quote \<Rightarrow> pydt \<Rightarrow> string" where
  "quote_timestamp_status iso_parse q observed_at =
     (case proved_quote_timestamp_lineage iso_parse q (Some observed_at) of
        None \<Rightarrow> if pq_quote_timestamp q = None then ''missing'' else ''unproven''
      | Some lin \<Rightarrow>
          if fresh (instant observed_at) (ql_quote_at lin) \<and> fresh (instant observed_at) (ql_bid_at lin)
             \<and> fresh (instant observed_at) (ql_ask_at lin)
          then ''current'' else ''stale'')"

definition age_value :: "int option \<Rightarrow> real \<Rightarrow> pyval" where
  "age_value age unit = (case age of None \<Rightarrow> PNone | Some a \<Rightarrow> PFloat (Fin (of_int a / unit)))"

definition opt_text :: "string option \<Rightarrow> pyval" where
  "opt_text s = (case s of None \<Rightarrow> PNone | Some t \<Rightarrow> PStr t)"

definition quote_timestamp_evidence ::
  "(string \<Rightarrow> pydt option) \<Rightarrow> (int \<Rightarrow> string) \<Rightarrow> public_quote \<Rightarrow> pydt \<Rightarrow> params" where
  "quote_timestamp_evidence iso_parse isofmt q observed_at =
     (let lin = proved_quote_timestamp_lineage iso_parse q (Some observed_at); now = instant observed_at
      in [(''quote_timestamp'', opt_text (pq_quote_timestamp q)),
          (''quote_timestamp_field'', opt_text (pq_quote_timestamp_field q)),
          (''bid_timestamp'', opt_text (pq_bid_timestamp q)), (''ask_timestamp'', opt_text (pq_ask_timestamp q)),
          (''quote_observed_at'', PStr (isofmt now)),
          (''effective_quote_at'', opt_text (map_option (\<lambda>l. isofmt (ql_quote_at l)) lin)),
          (''quote_age_seconds'', age_value (map_option (\<lambda>l. now - ql_quote_at l) lin) 1000000),
          (''bid_age_ms'', age_value (map_option (\<lambda>l. now - ql_bid_at l) lin) 1000),
          (''ask_age_ms'', age_value (map_option (\<lambda>l. now - ql_ask_at l) lin) 1000),
          (''quote_timestamp_status'', PStr (quote_timestamp_status iso_parse q observed_at)),
          (''quote_max_age_seconds'', PInt MAX_ENTRY_QUOTE_AGE_SECONDS)])"

section \<open>What a current quote proves\<close>

text \<open>
  A quote that is current has a bid and an ask instant of its own, both at most eight seconds
  old and neither in the future, and the effective instant is the older of the two.
\<close>

lemma current_lineage:
  assumes "quote_timestamp_status iso_parse q t = ''current''"
  obtains lin where "proved_quote_timestamp_lineage iso_parse q (Some t) = Some lin"
    "fresh (instant t) (ql_bid_at lin)" "fresh (instant t) (ql_ask_at lin)"
    "ql_quote_at lin = min (ql_bid_at lin) (ql_ask_at lin)"
proof -
  obtain lin where l: "proved_quote_timestamp_lineage iso_parse q (Some t) = Some lin"
    "fresh (instant t) (ql_bid_at lin)" "fresh (instant t) (ql_ask_at lin)"
    using assms by (auto simp: quote_timestamp_status_def split: option.splits if_splits)
  moreover have "ql_quote_at lin = min (ql_bid_at lin) (ql_ask_at lin)"
    using l(1) by (auto simp: proved_quote_timestamp_lineage_def candidate_lineage_def
        split: option.splits prod.splits if_splits)
  ultimately show thesis using that by blast
qed

definition quote_of_timestamps ::
  "string option \<times> string option \<times> string option \<times> string option \<Rightarrow> public_quote" where
  "quote_of_timestamps ts = (case ts of (t, f, b, a) \<Rightarrow>
     \<lparr>pq_symbol = [], pq_bid = None, pq_ask = None, pq_last = None, pq_open_interest = None,
      pq_quote_timestamp = t, pq_quote_timestamp_field = f, pq_bid_timestamp = b, pq_ask_timestamp = a,
      pq_outcome = None\<rparr>)"

text \<open>
  Extracted timestamps are accepted back. When the module extracts the timestamps of a
  broker payload from its two side-specific fields, its own validation proves the lineage of
  the quote that carries them, with the same bid and ask instants, provided
  \<open>fromisoformat\<close> reads back the \<open>isoformat\<close> text of the older instant.
\<close>

lemma extracted_timestamps_proved:
  assumes "extract_public_quote_timestamp iso_parse isofmt tx payload = (t, Some PUBLIC_BID_ASK_TIMESTAMP_FIELD, b, a)"
    and "\<And>x y. opt_instant iso_parse b = Some x \<Longrightarrow> opt_instant iso_parse a = Some y \<Longrightarrow>
      parse_provider_text iso_parse (isofmt (min x y)) = Some (min x y)"
  shows "\<exists>lin. proved_quote_timestamp_lineage iso_parse
      (quote_of_timestamps (extract_public_quote_timestamp iso_parse isofmt tx payload)) None = Some lin
    \<and> Some (ql_bid_at lin) = opt_instant iso_parse b \<and> Some (ql_ask_at lin) = opt_instant iso_parse a"
proof -
  have e: "extract_public_quote_timestamp iso_parse isofmt tx payload =
      (case (opt_instant iso_parse b, opt_instant iso_parse a) of
         (Some bid_at, Some ask_at) \<Rightarrow> (Some (isofmt (min bid_at ask_at)), Some PUBLIC_BID_ASK_TIMESTAMP_FIELD, b, a)
       | _ \<Rightarrow> (None, None, b, a))"
    using assms(1) by (auto simp: extract_public_quote_timestamp_def Let_def split: option.splits if_splits)
  with assms(1) obtain bid_at ask_at where at: "opt_instant iso_parse b = Some bid_at" "opt_instant iso_parse a = Some ask_at"
    by (auto split: option.splits)
  then have "opt_instant iso_parse (Some (isofmt (min bid_at ask_at))) = Some (min bid_at ask_at)"
    using assms(2) by (simp add: opt_instant_def)
  with at e show ?thesis
    by (simp add: quote_of_timestamps_def proved_quote_timestamp_lineage_def candidate_lineage_def
        PROVED_TWO_SIDED_QUOTE_TIMESTAMP_FIELDS_def)
qed

definition demo_iso_parse :: "string \<Rightarrow> pydt option" where
  "demo_iso_parse s = (if s = ''t1'' then Some (Aware 1) else if s = ''t2'' then Some (Aware 2) else None)"

end
