(* ===== verification/Order_Prices.thy ===== *)
theory Order_Prices
  imports Quote_Lineage
begin

text \<open>
  The price and symbol arithmetic of \<open>src/bhiksha/execution/order_manager.py\<close>: rounding to the
  cent, snapping to the broker's price increment, the increment a rejection message discloses,
  and the normal form of an option symbol. A price is exact here: \<open>Decimal(str(value))\<close> is the
  value itself.
\<close>

section \<open>Rounding and snapping\<close>

definition round_price :: "real \<Rightarrow> real" where
  "round_price value = round2 (value + 1 / 1000000000)"

definition snap_price :: "pyfloat \<Rightarrow> pyfloat \<Rightarrow> real result" where
  "snap_price value increment =
     (case (value, increment) of
        (Fin v, Fin inc) \<Rightarrow>
          if inc \<le> 0 then Inl ValueError
          else let price = of_int \<lfloor>v / inc\<rfloor> * inc
               in if price \<le> 0 then Inl ValueError else Inr (round_price price)
      | _ \<Rightarrow> Inl ValueError)"

definition floor_entry_price :: "pyfloat \<Rightarrow> real result" where
  "floor_entry_price value = snap_price value (Fin (1 / 100))"

lemma round_price_of_cents: "round_price (of_int k / 100) = of_int k / 100"
proof -
  have "round_half_even (of_int k + 1 / 10000000) = k"
    by (simp add: round_half_even_def Let_def floor_unique [of k])
  moreover have "(of_int k / 100 + 1 / 1000000000) * 10 ^ 2 = of_int k + (1 / 10000000 :: real)"
    by (simp add: field_simps)
  ultimately show ?thesis by (simp add: round_price_def py_round_def)
qed

text \<open>
  With an increment of whole cents the snapped price is on the increment's grid, not above the
  value, and less than one increment below it.
\<close>

lemma snap_price_grid:
  assumes "snap_price (Fin v) (Fin (of_int c / 100)) = Inr p"
  shows "0 < p \<and> p \<le> v \<and> v < p + of_int c / 100 \<and> (\<exists>k::int. p = of_int k * (of_int c / 100))"
proof -
  let ?inc = "of_int c / 100 :: real" and ?k = "\<lfloor>v / (of_int c / 100)\<rfloor>"
  have inc: "0 < ?inc" and pos: "0 < of_int ?k * ?inc" and p: "p = round_price (of_int ?k * ?inc)"
    using assms by (auto simp: snap_price_def Let_def split: if_splits)
  have "of_int ?k * ?inc = of_int (?k * c) / (100 :: real)" by simp
  then have p': "p = of_int ?k * ?inc"
    unfolding p using round_price_of_cents [of "?k * c"] by simp
  have "of_int ?k \<le> v / ?inc" "v / ?inc < of_int ?k + 1" by linarith+
  then have "of_int ?k * ?inc \<le> v" "v < (of_int ?k + 1) * ?inc"
    using inc by (simp_all only: pos_le_divide_eq pos_divide_less_eq)
  then show ?thesis using pos p' by (auto simp: algebra_simps)
qed

lemma snap_price_below_increment:
  "v < inc \<Longrightarrow> snap_price (Fin v) (Fin inc) = Inl ValueError"
proof (cases "inc \<le> 0")
  case False
  assume "v < inc"
  then have "\<lfloor>v / inc\<rfloor> \<le> 0" using False by (simp add: floor_le_iff pos_divide_less_eq)
  then have "of_int \<lfloor>v / inc\<rfloor> * inc \<le> 0" using False by (simp add: mult_le_0_iff)
  then show ?thesis by (simp add: snap_price_def Let_def)
qed (simp add: snap_price_def)

section \<open>Symbols\<close>

definition normalize_option_symbol :: "string \<Rightarrow> string" where
  "normalize_option_symbol s =
     (let t = filter (\<lambda>c. c \<noteq> CHR '' '') (py_upper (py_strip s)); n = length t
      in if n \<ge> 7 \<and> drop (n - 7) t = ''-OPTION'' then take (n - 7) t else t)"

definition is_upper :: "char \<Rightarrow> bool" where
  "is_upper c = (let n = (of_char c :: nat) in 65 \<le> n \<and> n \<le> 90)"

text \<open>The underlying of an OCC symbol: letters, six digits, \<open>C\<close> or \<open>P\<close>, eight digits.\<close>

definition underlying_symbol_from_option :: "string \<Rightarrow> string option" where
  "underlying_symbol_from_option option_symbol =
     (let s = normalize_option_symbol option_symbol; n = length s;
          u = take (n - 15) s; r = drop (n - 15) s
      in if n \<ge> 16 \<and> list_all is_upper u \<and> list_all is_digit (take 6 r)
            \<and> r ! 6 \<in> {CHR ''C'', CHR ''P''} \<and> list_all is_digit (drop 7 r)
         then Some u else None)"

section \<open>The increment of a rejection message\<close>

definition DEFAULT_OPTION_TICK_INCREMENT :: real where
  "DEFAULT_OPTION_TICK_INCREMENT = 5 / 100"

text \<open>\<open>\d+(?:\.\d+)?\<close> at the start of a text.\<close>

definition leading_decimal :: "string \<Rightarrow> string" where
  "leading_decimal s =
     (let whole = takeWhile is_digit s; rest = dropWhile is_digit s
      in case rest of
           c # ds \<Rightarrow> if c = CHR ''.'' \<and> takeWhile is_digit ds \<noteq> []
                      then whole @ c # takeWhile is_digit ds else whole
         | [] \<Rightarrow> whole)"

text \<open>
  The regular expression: an occurrence of \<open>increment\<close> in any case whose next dollar sign is
  followed by a number.
\<close>

fun search_increment :: "string \<Rightarrow> string option" where
  "search_increment [] = None"
| "search_increment (c # cs) =
     (let after = dropWhile (\<lambda>d. d \<noteq> CHR ''$'') (drop 8 cs)
      in if py_startswith (py_lower (c # cs)) ''increment'' \<and> after \<noteq> [] \<and> leading_decimal (tl after) \<noteq> []
         then Some (leading_decimal (tl after))
         else search_increment cs)"

fun contains_text :: "string \<Rightarrow> string \<Rightarrow> bool" where
  "contains_text [] p = (p = [])"
| "contains_text (c # cs) p = (py_startswith (c # cs) p \<or> contains_text cs p)"

definition extract_price_increment :: "string option \<Rightarrow> pyfloat option" where
  "extract_price_increment message =
     (if \<not> text_truthy message then None
      else let m = text_or message;
               parsed = (case search_increment m of
                   None \<Rightarrow> None
                 | Some t \<Rightarrow> (case parse_float t of
                       Some x \<Rightarrow> if x \<noteq> Fin 0 then Some x else None | None \<Rightarrow> None))
           in case parsed of
                Some x \<Rightarrow> Some x
              | None \<Rightarrow> if contains_text (py_lower m) ''$'' \<and> contains_text (py_lower m) ''increment''
                       then Some (Fin DEFAULT_OPTION_TICK_INCREMENT) else None)"

lemma demo_increment:
  "extract_price_increment (Some ''Limit price must be in increments of $0.10'') = Some (Fin (1 / 10))"
  by code_simp

end
