(* ===== verification/Pricing.thy ===== *)
theory Pricing
  imports Order_Prices
begin

text \<open>
  \<open>src/bhiksha/execution/pricing.py\<close>: the limit price of an entry. The policy and the profiles,
  the reasons that block a quote, the selection of the limit with its ceilings, and the
  comparison of the named profiles. Prices and parameters are \<open>pyfloat\<close>s, because the module
  tests for infinities and NaNs; \<open>None\<close> of the clock is the caller's, so the observation time
  is an argument.
\<close>

section \<open>Profiles and policy\<close>

record execution_profile =
  ep_name :: string
  ep_initial_spread_fraction :: real
  ep_checkpoints :: "int list"
  ep_spread_fractions :: "real list"
  ep_cancel_after_seconds :: int
  ep_max_chase_pct :: real

definition ENTRY_EXECUTION_PROFILES :: "(string \<times> execution_profile) list" where
  "ENTRY_EXECUTION_PROFILES =
     [(''patient'', \<lparr>ep_name = ''patient'', ep_initial_spread_fraction = 1/2, ep_checkpoints = [60],
        ep_spread_fractions = [1], ep_cancel_after_seconds = 300, ep_max_chase_pct = 10/100\<rparr>),
      (''balanced'', \<lparr>ep_name = ''balanced'', ep_initial_spread_fraction = 1/2, ep_checkpoints = [30],
        ep_spread_fractions = [1], ep_cancel_after_seconds = 150, ep_max_chase_pct = 15/100\<rparr>),
      (''urgent'', \<lparr>ep_name = ''urgent'', ep_initial_spread_fraction = 1/2, ep_checkpoints = [15],
        ep_spread_fractions = [1], ep_cancel_after_seconds = 60, ep_max_chase_pct = 25/100\<rparr>)]"

abbreviation MAX_ABSURD_ENTRY_SPREAD_PCT :: pyfloat where
  "MAX_ABSURD_ENTRY_SPREAD_PCT \<equiv> Fin (150 / 100)"

abbreviation PRICE_THROUGH_CONCESSION_USD :: pyfloat where
  "PRICE_THROUGH_CONCESSION_USD \<equiv> Fin (10 / 100)"

abbreviation ENTRY_POLICY_VERSION :: string where
  "ENTRY_POLICY_VERSION \<equiv> ''midpoint_entry_v2''"

record pricing_policy =
  pp_mode :: string
  pp_require_two_sided_quote :: bool
  pp_require_open_interest :: bool
  pp_preferred_min_open_interest :: "int option"
  pp_preferred_max_spread_pct :: "pyfloat option"

fun first_present :: "params \<Rightarrow> string list \<Rightarrow> pyval" where
  "first_present raw [] = PNone"
| "first_present raw (k # ks) = (case map_of raw k of Some v \<Rightarrow> v | None \<Rightarrow> first_present raw ks)"

text \<open>\<open>int(float(value))\<close>: an infinity raises \<open>OverflowError\<close>, which nothing catches.\<close>

definition optional_int :: "pyval \<Rightarrow> int option result" where
  "optional_int v = (case float_of v of
      Inl _ \<Rightarrow> Inr None
    | Inr x \<Rightarrow> (case int_of_float x of
          Inr n \<Rightarrow> Inr (Some n) | Inl OverflowError \<Rightarrow> Inl OverflowError | Inl _ \<Rightarrow> Inr None))"

definition optional_fraction :: "pyval \<Rightarrow> pyfloat option" where
  "optional_fraction v = (case as_float v of
      None \<Rightarrow> None | Some x \<Rightarrow> if f_lt x (Fin 0) \<or> f_lt (Fin 1) x then None else Some x)"

definition as_bool :: "pyval \<Rightarrow> bool \<Rightarrow> bool" where
  "as_bool v d = (case v of
      PNone \<Rightarrow> d
    | PBool b \<Rightarrow> b
    | _ \<Rightarrow> if v = PStr [] then d
          else (case word_of v of
              None \<Rightarrow> False | Some w \<Rightarrow> py_lower (py_strip w) \<in> {''1'', ''true'', ''yes'', ''on''}))"

text \<open>\<open>{**raw, **nested}\<close>.\<close>

definition dict_merge :: "params \<Rightarrow> params \<Rightarrow> params" where
  "dict_merge raw nested = fold (\<lambda>(k, v). AList.update k v) nested raw"

definition pricing_params :: "params \<Rightarrow> params" where
  "pricing_params raw = (case dict_get raw ''entry_pricing'' of PDict nested \<Rightarrow> dict_merge raw nested | _ \<Rightarrow> raw)"

definition pricing_mode :: "params \<Rightarrow> string" where
  "pricing_mode raw =
     (let m = dict_get raw ''entry_pricing_mode''; n = dict_get raw ''mode'';
          v = (if py_truthy m then m else if py_truthy n then n else PStr ''urgent'')
      in case word_of v of
           Some w \<Rightarrow> if py_lower (py_strip w) \<in> {''passive'', ''balanced'', ''urgent'', ''cross'', ''price_seeking''}
                    then py_lower (py_strip w) else ''urgent''
         | None \<Rightarrow> ''urgent'')"

definition from_execution_params :: "params \<Rightarrow> pricing_policy result" where
  "from_execution_params params0 =
     (let raw = pricing_params params0 in
      bind_result (optional_int (first_present raw
        [''preferred_min_open_interest'', ''entry_pricing_preferred_min_open_interest''])) (\<lambda>oi.
      bind_result (if oi = None then optional_int (dict_get raw ''min_open_interest'') else Inr oi) (\<lambda>preferred_oi.
      let spread = as_float (first_present raw
            [''preferred_max_bid_ask_spread_pct'', ''entry_pricing_preferred_max_bid_ask_spread_pct'']);
          preferred_spread = (if spread = None then as_float (dict_get raw ''max_bid_ask_spread_pct'') else spread)
      in Inr \<lparr>pp_mode = pricing_mode raw,
           pp_require_two_sided_quote = as_bool (first_present raw
             [''entry_pricing_require_two_sided_quote'', ''require_two_sided_quote'']) True,
           pp_require_open_interest = as_bool (first_present raw
             [''entry_pricing_require_open_interest'', ''require_open_interest'']) True,
           pp_preferred_min_open_interest = preferred_oi,
           pp_preferred_max_spread_pct = preferred_spread\<rparr>)))"

definition get_entry_execution_profile :: "pyval \<Rightarrow> execution_profile option" where
  "get_entry_execution_profile v =
     (case word_of (if py_truthy v then v else PStr []) of
        None \<Rightarrow> None | Some w \<Rightarrow> map_of ENTRY_EXECUTION_PROFILES (py_lower (py_strip w)))"

definition resolve_initial_spread_fraction :: "params \<Rightarrow> real \<times> execution_profile option" where
  "resolve_initial_spread_fraction ps = (1 / 2, get_entry_execution_profile (dict_get ps ''entry_execution_profile''))"

definition resolve_entry_reprice_max_chase_pct :: "params \<Rightarrow> pyfloat option" where
  "resolve_entry_reprice_max_chase_pct ps =
     (case optional_fraction (dict_get ps ''entry_reprice_max_chase_pct'') of
        Some x \<Rightarrow> Some x
      | None \<Rightarrow> map_option (\<lambda>p. Fin (ep_max_chase_pct p))
          (get_entry_execution_profile (dict_get ps ''entry_execution_profile'')))"

section \<open>The quote\<close>

definition is_wide_market :: "public_quote \<Rightarrow> pricing_policy \<Rightarrow> bool" where
  "is_wide_market q pol =
     (let threshold = (case pp_preferred_max_spread_pct pol of
            None \<Rightarrow> Fin (20 / 100) | Some x \<Rightarrow> if x = Fin 0 then Fin (20 / 100) else x)
      in case quote_spread_pct q of None \<Rightarrow> False | Some s \<Rightarrow> f_lt threshold s)"

definition nonfinite :: "pyfloat option \<Rightarrow> bool" where
  "nonfinite x = (case x of None \<Rightarrow> False | Some v \<Rightarrow> \<not> f_isfinite v)"

definition quote_blocks ::
  "(string \<Rightarrow> pydt option) \<Rightarrow> public_quote \<Rightarrow> pricing_policy \<Rightarrow> pydt \<Rightarrow> string list" where
  "quote_blocks iso_parse q pol observed_at =
     (if nonfinite (pq_bid q) \<or> nonfinite (pq_ask q) then [''public_quote_nonfinite'']
      else
        (let status = quote_timestamp_status iso_parse q observed_at
         in if status \<noteq> ''current''
            then [if status = ''missing'' then ''public_quote_timestamp_missing'' else ''public_quote_stale_or_unproven'']
            else [])
        @ (case (pq_bid q, pq_ask q) of
             (Some bid, Some ask) \<Rightarrow>
               if f_le bid (Fin 0) \<or> f_le ask (Fin 0) then [''public_quote_missing_bid_ask'']
               else if f_lt ask bid then [''public_quote_crossed_bid_ask''] else []
           | _ \<Rightarrow> [''public_quote_missing_bid_ask''])
        @ (case pq_open_interest q of
             None \<Rightarrow> if pp_require_open_interest pol then [''public_open_interest_missing''] else []
           | Some n \<Rightarrow> if n \<le> 0 then [''public_open_interest_missing''] else [])
        @ (case quote_spread_pct q of
             None \<Rightarrow> if pq_bid q \<noteq> None \<and> pq_ask q \<noteq> None then [''public_spread_unavailable''] else []
           | Some s \<Rightarrow> if f_lt MAX_ABSURD_ENTRY_SPREAD_PCT s then [''public_spread_absurd''] else []))"

definition liquidity_warnings :: "public_quote \<Rightarrow> pricing_policy \<Rightarrow> string list" where
  "liquidity_warnings q pol =
     (case (pp_preferred_min_open_interest pol, pq_open_interest q) of
        (Some least, Some n) \<Rightarrow> if n < least then [''open_interest_below_preferred''] else [] | _ \<Rightarrow> [])
   @ (case (pp_preferred_max_spread_pct pol, quote_spread_pct q) of
        (Some most, Some s) \<Rightarrow> if f_lt most s then [''spread_above_preferred''] else [] | _ \<Rightarrow> [])"

section \<open>The limit\<close>

record pricing_result =
  pr_policy :: pricing_policy
  pr_quote :: public_quote
  pr_limit_price :: "real option"
  pr_block_reasons :: "string list"
  pr_price_improvement_applied :: bool
  pr_observed_at :: pydt
  pr_max_entry_price :: "pyfloat option"
  pr_original_mid :: "pyfloat option"
  pr_wide_market :: bool

definition pricing_approved :: "pricing_result \<Rightarrow> bool" where
  "pricing_approved r \<longleftrightarrow> pr_limit_price r \<noteq> None \<and> pr_block_reasons r = []"

definition pricing_blocked :: "pricing_policy \<Rightarrow> public_quote \<Rightarrow> string list \<Rightarrow> pydt \<Rightarrow> pricing_result" where
  "pricing_blocked pol q reasons observed_at =
     \<lparr>pr_policy = pol, pr_quote = q, pr_limit_price = None, pr_block_reasons = reasons,
      pr_price_improvement_applied = False, pr_observed_at = observed_at, pr_max_entry_price = None,
      pr_original_mid = None, pr_wide_market = False\<rparr>"

text \<open>\<open>_optional_float(v) or mid\<close>.\<close>

definition original_mid_of :: "params \<Rightarrow> real \<Rightarrow> pyfloat" where
  "original_mid_of ps mid = (case as_float (dict_get ps ''entry_original_mid'') of
      None \<Rightarrow> Fin mid | Some x \<Rightarrow> if x = Fin 0 then Fin mid else x)"

definition entry_ceiling :: "params \<Rightarrow> pyfloat \<Rightarrow> bool \<Rightarrow> pyfloat" where
  "entry_ceiling ps original_mid wide =
     (let base = (case as_float (dict_get ps ''entry_price_ceiling'') of
            Some x \<Rightarrow> x
          | None \<Rightarrow>
              (let chase = (case resolve_entry_reprice_max_chase_pct ps of None \<Rightarrow> Fin (15 / 100) | Some x \<Rightarrow> x);
                   c = f_mul original_mid (f_add (Fin 1) chase)
               in if wide then py_min c (f_add original_mid PRICE_THROUGH_CONCESSION_USD) else c))
      in case as_float (dict_get ps ''entry_price_through_target'') of
           None \<Rightarrow> base | Some explicit \<Rightarrow> py_min base explicit)"

definition proposed_price :: "params \<Rightarrow> bool \<Rightarrow> real \<Rightarrow> real \<Rightarrow> real" where
  "proposed_price ps wide bid ask =
     (let mid = (bid + ask) / 2
      in if py_truthy (dict_get ps ''entry_reprice_step'') then (if wide then mid else ask)
         else if wide then bid + 25 / 100 * (ask - bid) else mid)"

text \<open>The selection for a finite bid and ask that no reason blocks.\<close>

definition price_entry ::
  "params \<Rightarrow> pricing_policy \<Rightarrow> public_quote \<Rightarrow> pydt \<Rightarrow> real \<Rightarrow> real \<Rightarrow> pricing_result result" where
  "price_entry ps pol q observed_at bid ask =
     (let original_mid = original_mid_of ps ((bid + ask) / 2);
          wide = py_truthy (dict_get_default ps ''entry_wide_market'' (PBool (is_wide_market q pol)));
          ceiling = entry_ceiling ps original_mid wide
      in if \<not> f_isfinite ceiling \<or> f_le ceiling (Fin 0)
         then Inr (pricing_blocked pol q [''entry_price_ceiling_unusable''] observed_at)
         else bind_result (floor_entry_price (py_min (py_min (Fin (proposed_price ps wide bid ask)) (Fin ask)) ceiling)) (\<lambda>limit.
           Inr (if limit \<le> 0 then pricing_blocked pol q [''entry_price_ceiling_unusable''] observed_at
                else \<lparr>pr_policy = pol, pr_quote = q, pr_limit_price = Some limit, pr_block_reasons = [],
                  pr_price_improvement_applied = wide, pr_observed_at = observed_at,
                  pr_max_entry_price = Some ceiling, pr_original_mid = Some original_mid,
                  pr_wide_market = wide\<rparr>)))"

definition select_entry_limit ::
  "(string \<Rightarrow> pydt option) \<Rightarrow> public_quote \<Rightarrow> params \<Rightarrow> pricing_policy option \<Rightarrow> pydt \<Rightarrow>
   pricing_result result" where
  "select_entry_limit iso_parse q ps policy observed_at =
     bind_result (case policy of Some pol \<Rightarrow> Inr pol | None \<Rightarrow> from_execution_params ps) (\<lambda>pol.
       let blocks = quote_blocks iso_parse q pol observed_at
       in if blocks \<noteq> [] then Inr (pricing_blocked pol q blocks observed_at)
          else case (pq_bid q, pq_ask q) of
            (Some (Fin bid), Some (Fin ask)) \<Rightarrow> price_entry ps pol q observed_at bid ask
          | _ \<Rightarrow> Inl TypeError)"

section \<open>Evidence and the comparison of the profiles\<close>

fun round_price_pf :: "pyfloat \<Rightarrow> pyfloat" where
  "round_price_pf (Fin x) = Fin (round_price x)"
| "round_price_pf x = x"

definition quote_mid :: "public_quote \<Rightarrow> pyfloat option" where
  "quote_mid q = map_option round_price_pf (quote_mid_raw q)"

definition quote_spread_abs :: "public_quote \<Rightarrow> pyfloat option" where
  "quote_spread_abs q = (case (pq_bid q, pq_ask q) of
      (Some bid, Some ask) \<Rightarrow> Some (round_price_pf (f_sub ask bid)) | _ \<Rightarrow> None)"

definition opt_float :: "pyfloat option \<Rightarrow> pyval" where
  "opt_float x = (case x of None \<Rightarrow> PNone | Some v \<Rightarrow> PFloat v)"

definition opt_int :: "int option \<Rightarrow> pyval" where
  "opt_int x = (case x of None \<Rightarrow> PNone | Some n \<Rightarrow> PInt n)"

definition policy_dict :: "pricing_policy \<Rightarrow> params" where
  "policy_dict pol = [(''mode'', PStr (pp_mode pol)),
     (''require_two_sided_quote'', PBool (pp_require_two_sided_quote pol)),
     (''require_open_interest'', PBool (pp_require_open_interest pol)),
     (''preferred_min_open_interest'', opt_int (pp_preferred_min_open_interest pol)),
     (''preferred_max_bid_ask_spread_pct'', opt_float (pp_preferred_max_spread_pct pol))]"

definition pricing_evidence ::
  "(string \<Rightarrow> pydt option) \<Rightarrow> (int \<Rightarrow> string) \<Rightarrow> pricing_result \<Rightarrow> params" where
  "pricing_evidence iso_parse isofmt r =
     (let q = pr_quote r in
      dict_merge
        [(''option_symbol'', PStr (pq_symbol q)), (''pricing_mode'', PStr (pp_mode (pr_policy r))),
         (''selected_limit_price'', opt_float (map_option Fin (pr_limit_price r))),
         (''price_improvement_applied'', PBool (pr_price_improvement_applied r)),
         (''bid'', opt_float (pq_bid q)), (''ask'', opt_float (pq_ask q)), (''mid'', opt_float (quote_mid q)),
         (''last'', opt_float (pq_last q)), (''open_interest'', opt_int (pq_open_interest q)),
         (''spread_abs'', opt_float (quote_spread_abs q)), (''spread_pct'', opt_float (quote_spread_pct q)),
         (''quote_timestamp'', opt_text (pq_quote_timestamp q)), (''quote_outcome'', opt_text (pq_outcome q)),
         (''block_reasons'', PList (map PStr (pr_block_reasons r))),
         (''liquidity_warnings'', PList (map PStr (liquidity_warnings q (pr_policy r)))),
         (''liquidity_policy'', PStr ENTRY_POLICY_VERSION), (''entry_policy_version'', PStr ENTRY_POLICY_VERSION),
         (''max_entry_price'', opt_float (pr_max_entry_price r)),
         (''original_mid'', opt_float (pr_original_mid r)), (''wide_market'', PBool (pr_wide_market r)),
         (''chase_reference'', PStr ''original_midpoint''), (''policy'', PDict (policy_dict (pr_policy r)))]
        (quote_timestamp_evidence iso_parse isofmt q (pr_observed_at r)))"

definition profile_comparison_row :: "public_quote \<Rightarrow> execution_profile \<Rightarrow> pricing_result \<Rightarrow> params" where
  "profile_comparison_row q profile r =
     [(''base_spread_fraction'', PFloat (Fin (1 / 2))),
      (''effective_spread_fraction'', PFloat (Fin (if pr_wide_market r then 25 / 100 else 1 / 2))),
      (''quote_limit_price'', opt_float (map_option Fin (pr_limit_price r))),
      (''max_entry_price'', opt_float (pr_max_entry_price r)),
      (''savings_vs_ask'', (case (pr_limit_price r, pq_ask q) of
          (Some l, Some ask) \<Rightarrow> PFloat (round_price_pf (f_sub ask (Fin l))) | _ \<Rightarrow> PNone)),
      (''block_reasons'', PList (map PStr (pr_block_reasons r))),
      (''reprice_checkpoints_seconds'', PList (map PInt (ep_checkpoints profile))),
      (''reprice_spread_fractions'', PList (map (PFloat \<circ> Fin) (ep_spread_fractions profile))),
      (''cancel_after_seconds'', PInt (ep_cancel_after_seconds profile)),
      (''max_chase_pct'', PFloat (Fin (ep_max_chase_pct profile)))]"

fun compare_profiles ::
  "(string \<Rightarrow> pydt option) \<Rightarrow> public_quote \<Rightarrow> params \<Rightarrow> pydt \<Rightarrow> (string \<times> execution_profile) list \<Rightarrow>
   (string \<times> params) list result" where
  "compare_profiles iso_parse q ps now [] = Inr []"
| "compare_profiles iso_parse q ps now ((name, profile) # rest) =
     bind_result (select_entry_limit iso_parse q (dict_merge ps [(''entry_execution_profile'', PStr name),
         (''entry_reprice_max_chase_pct'', PFloat (Fin (ep_max_chase_pct profile)))]) None now) (\<lambda>r.
     bind_result (compare_profiles iso_parse q ps now rest) (\<lambda>rows.
       Inr ((name, profile_comparison_row q profile r) # rows)))"

definition build_entry_profile_comparison ::
  "(string \<Rightarrow> pydt option) \<Rightarrow> public_quote \<Rightarrow> params \<Rightarrow> pydt \<Rightarrow> (string \<times> params) list result" where
  "build_entry_profile_comparison iso_parse q ps now =
     compare_profiles iso_parse q ps now ENTRY_EXECUTION_PROFILES"

section \<open>The bounds of a limit\<close>

lemma py_min_le_Fin:
  "f_le (Fin y) (py_min a b) \<Longrightarrow> b \<noteq> NaN \<Longrightarrow> f_le (Fin y) a \<and> f_le (Fin y) b"
  by (cases a; cases b) (auto simp: py_min_def split: if_splits)

lemma py_min_Fin [simp]: "py_min (Fin a) (Fin b) = Fin (min a b)"
  by (simp add: py_min_def)

lemma price_entry_approved:
  assumes "price_entry ps pol q t bid ask = Inr r" "pr_limit_price r = Some L"
  obtains c wide where "entry_ceiling ps (original_mid_of ps ((bid + ask) / 2)) wide = Fin c"
    "pr_max_entry_price r = Some (Fin c)" "pr_wide_market r = wide"
    "floor_entry_price (Fin (min (min (proposed_price ps wide bid ask) ask) c)) = Inr L"
proof -
  let ?wide = "py_truthy (dict_get_default ps ''entry_wide_market'' (PBool (is_wide_market q pol)))"
  let ?c = "entry_ceiling ps (original_mid_of ps ((bid + ask) / 2)) ?wide"
  have ok: "\<not> (\<not> f_isfinite ?c \<or> f_le ?c (Fin 0))"
    using assms by (auto simp: price_entry_def Let_def pricing_blocked_def split: if_splits)
  then obtain c where c: "?c = Fin c" by (auto simp: f_isfinite_iff)
  have "bind_result (floor_entry_price (Fin (min (min (proposed_price ps ?wide bid ask) ask) c))) (\<lambda>limit.
      Inr (if limit \<le> 0 then pricing_blocked pol q [''entry_price_ceiling_unusable''] t
        else \<lparr>pr_policy = pol, pr_quote = q, pr_limit_price = Some limit, pr_block_reasons = [],
          pr_price_improvement_applied = ?wide, pr_observed_at = t, pr_max_entry_price = Some (Fin c),
          pr_original_mid = Some (original_mid_of ps ((bid + ask) / 2)), pr_wide_market = ?wide\<rparr>)) = Inr r"
    using assms(1) unfolding price_entry_def Let_def c if_not_P [OF ok [unfolded c]] py_min_Fin .
  then show thesis
    using that [OF c] assms(2) by (auto simp: bind_result_Inr_iff pricing_blocked_def split: if_splits)
qed

lemma quote_blocks_empty:
  assumes "quote_blocks iso_parse q pol t = []"
  obtains bid ask where "pq_bid q = Some (Fin bid)" "pq_ask q = Some (Fin ask)" "0 < bid" "bid \<le> ask"
    "quote_timestamp_status iso_parse q t = ''current''"
proof -
  have n: "\<not> nonfinite (pq_bid q)" "\<not> nonfinite (pq_ask q)"
    and s: "quote_timestamp_status iso_parse q t = ''current''"
    using assms by (auto simp: quote_blocks_def Let_def split: if_splits)
  have "(case (pq_bid q, pq_ask q) of
             (Some bid, Some ask) \<Rightarrow>
               if f_le bid (Fin 0) \<or> f_le ask (Fin 0) then [''public_quote_missing_bid_ask'']
               else if f_lt ask bid then [''public_quote_crossed_bid_ask''] else []
           | _ \<Rightarrow> [''public_quote_missing_bid_ask'']) = []"
    using assms n by (simp add: quote_blocks_def Let_def)
  then obtain b a where "pq_bid q = Some b" "pq_ask q = Some a" "\<not> f_le b (Fin 0)" "\<not> f_lt a b"
    by (auto split: option.splits if_splits)
  moreover from this n obtain bid ask where "b = Fin bid" "a = Fin ask"
    by (auto simp: nonfinite_def f_isfinite_iff)
  ultimately show thesis using that s by auto
qed

lemma ceiling_bounds:
  assumes "entry_ceiling ps m wide = Fin c"
  shows "as_float (dict_get ps ''entry_price_through_target'') = Some (Fin x) \<Longrightarrow> c \<le> x"
    and "as_float (dict_get ps ''entry_price_ceiling'') = Some (Fin y) \<Longrightarrow> c \<le> y"
    and "as_float (dict_get ps ''entry_price_ceiling'') = None \<Longrightarrow> m = Fin mid \<Longrightarrow>
      resolve_entry_reprice_max_chase_pct ps = None \<Longrightarrow> c \<le> mid * (115 / 100)"
    and "as_float (dict_get ps ''entry_price_ceiling'') = None \<Longrightarrow> m = Fin mid \<Longrightarrow>
      resolve_entry_reprice_max_chase_pct ps = Some (Fin k) \<Longrightarrow> c \<le> mid * (1 + k)"
  using assms
  by (auto simp: entry_ceiling_def Let_def py_min_def split: option.splits if_splits pyfloat.splits)

lemma floor_entry_price_bounds:
  "floor_entry_price (Fin v) = Inr L \<Longrightarrow> 0 < L \<and> L \<le> v \<and> v < L + 1 / 100 \<and> (\<exists>k::int. L = of_int k / 100)"
  using snap_price_grid [of v 1 L] by (auto simp: floor_entry_price_def)

lemma select_approved:
  assumes "select_entry_limit iso_parse q ps policy t = Inr r" "pricing_approved r"
  obtains pol bid ask L where "quote_blocks iso_parse q pol t = []" "pq_bid q = Some (Fin bid)"
    "pq_ask q = Some (Fin ask)" "price_entry ps pol q t bid ask = Inr r" "pr_limit_price r = Some L"
proof -
  obtain L where L: "pr_limit_price r = Some L" using assms(2) by (auto simp: pricing_approved_def)
  from assms(1) obtain pol where p: "(let blocks = quote_blocks iso_parse q pol t
       in if blocks \<noteq> [] then Inr (pricing_blocked pol q blocks t)
          else case (pq_bid q, pq_ask q) of
            (Some (Fin bid), Some (Fin ask)) \<Rightarrow> price_entry ps pol q t bid ask
          | _ \<Rightarrow> Inl TypeError) = Inr r"
    unfolding select_entry_limit_def bind_result_Inr_iff by blast
  have b: "quote_blocks iso_parse q pol t = []"
    using p assms(2) by (auto simp: Let_def pricing_blocked_def pricing_approved_def split: if_splits)
  from quote_blocks_empty [OF this] obtain bid ask where q: "pq_bid q = Some (Fin bid)" "pq_ask q = Some (Fin ask)"
    by metis
  have "price_entry ps pol q t bid ask = Inr r" using p b q by (simp add: Let_def)
  then show thesis using that b q L by blast
qed

text \<open>
  C13. An approved entry limit is bounded. The quote was current, with positive and uncrossed
  finite prices; the limit is a positive whole number of cents, at most the ask, at most the
  configured ceiling and the explicit target; without a configured ceiling it is at most the
  original midpoint raised by the resolved chase fraction; and a first, not replacing, order
  pays at most the midpoint.
\<close>

theorem entry_limit_bounded:
  assumes "select_entry_limit iso_parse q ps policy t = Inr r" "pricing_approved r"
  shows "\<exists>bid ask L. pq_bid q = Some (Fin bid) \<and> pq_ask q = Some (Fin ask) \<and> 0 < bid \<and> bid \<le> ask
    \<and> quote_timestamp_status iso_parse q t = ''current''
    \<and> pr_limit_price r = Some L \<and> 0 < L \<and> L \<le> ask \<and> (\<exists>k::int. L = of_int k / 100)
    \<and> (\<forall>x. as_float (dict_get ps ''entry_price_through_target'') = Some (Fin x) \<longrightarrow> L \<le> x)
    \<and> (\<forall>x. as_float (dict_get ps ''entry_price_ceiling'') = Some (Fin x) \<longrightarrow> L \<le> x)
    \<and> (\<forall>mid k. as_float (dict_get ps ''entry_price_ceiling'') = None
         \<and> original_mid_of ps ((bid + ask) / 2) = Fin mid
         \<and> (case resolve_entry_reprice_max_chase_pct ps of None \<Rightarrow> Fin (15 / 100) | Some x \<Rightarrow> x) = Fin k
         \<longrightarrow> L \<le> mid * (1 + k))
    \<and> (\<not> py_truthy (dict_get ps ''entry_reprice_step'') \<longrightarrow> L \<le> (bid + ask) / 2)"
proof -
  from select_approved [OF assms] obtain pol bid ask L where s: "quote_blocks iso_parse q pol t = []"
    "pq_bid q = Some (Fin bid)" "pq_ask q = Some (Fin ask)" "price_entry ps pol q t bid ask = Inr r"
    "pr_limit_price r = Some L" .
  from quote_blocks_empty [OF s(1)] s(2,3) have q: "0 < bid" "bid \<le> ask"
    "quote_timestamp_status iso_parse q t = ''current''" by auto
  from price_entry_approved [OF s(4,5)] obtain c wide where
    c: "entry_ceiling ps (original_mid_of ps ((bid + ask) / 2)) wide = Fin c"
    and L: "floor_entry_price (Fin (min (min (proposed_price ps wide bid ask) ask) c)) = Inr L" .
  note fb = floor_entry_price_bounds [OF L] and cb = ceiling_bounds [OF c]
  have chase: "L \<le> mid * (1 + k)" if "as_float (dict_get ps ''entry_price_ceiling'') = None"
    "original_mid_of ps ((bid + ask) / 2) = Fin mid"
    "(case resolve_entry_reprice_max_chase_pct ps of None \<Rightarrow> Fin (15 / 100) | Some x \<Rightarrow> x) = Fin k" for mid k
  proof -
    have "c \<le> mid * (1 + k)"
    proof (cases "resolve_entry_reprice_max_chase_pct ps")
      case None
      then have "1 + k = 115 / 100" using that(3) by simp
      then show ?thesis using cb(3) [OF that(1,2) None] by (simp only:)
    next
      case (Some x)
      then show ?thesis using cb(4) [OF that(1,2)] that(3) by simp
    qed
    then show ?thesis using fb by linarith
  qed
  have first: "L \<le> (bid + ask) / 2" if "\<not> py_truthy (dict_get ps ''entry_reprice_step'')"
  proof -
    have "proposed_price ps wide bid ask \<le> (bid + ask) / 2"
      using that q(2) by (auto simp: proposed_price_def Let_def field_simps)
    then show ?thesis using fb by linarith
  qed
  have "L \<le> x" if "as_float (dict_get ps ''entry_price_through_target'') = Some (Fin x)" for x
    using cb(1) [OF that] fb by linarith
  moreover have "L \<le> x" if "as_float (dict_get ps ''entry_price_ceiling'') = Some (Fin x)" for x
    using cb(2) [OF that] fb by linarith
  ultimately show ?thesis using s(2,3,5) q fb chase first by auto
qed

definition demo_quote :: "pyfloat \<Rightarrow> pyfloat \<Rightarrow> public_quote" where
  "demo_quote bid ask = \<lparr>pq_symbol = ''SPY'', pq_bid = Some bid, pq_ask = Some ask, pq_last = None,
     pq_open_interest = Some 100, pq_quote_timestamp = Some ''1000'',
     pq_quote_timestamp_field = Some PUBLIC_QUOTE_TIMESTAMP_FIELD, pq_bid_timestamp = None,
     pq_ask_timestamp = None, pq_outcome = None\<rparr>"

definition demo_priced :: "pricing_result result" where
  "demo_priced = select_entry_limit (\<lambda>_. None) (demo_quote (Fin 2) (Fin (21 / 10))) [] None (Aware 1003000000)"

lemma demo_priced_ok: "(case demo_priced of Inl _ \<Rightarrow> False | Inr r \<Rightarrow> pricing_approved r \<and> pr_limit_price r = Some (205 / 100))"
  by code_simp

theorem entry_limit_bounded_witness:
  "\<exists>r. demo_priced = Inr r \<and> pr_limit_price r = Some (205 / 100) \<and> 205 / 100 \<le> (21 / 10 :: real)"
proof -
  obtain r where r: "demo_priced = Inr r" "pricing_approved r" "pr_limit_price r = Some (205 / 100)"
    using demo_priced_ok by (auto split: sum.splits)
  from entry_limit_bounded [OF r(1) [unfolded demo_priced_def] r(2)] r show ?thesis
    by (auto simp: demo_quote_def)
qed

text \<open>
  A positive ceiling below one cent is not reported as unusable: the snap raises first, and
  the test of the limit that follows it is never reached.
\<close>

lemma sub_cent_ceiling_raises:
  assumes "quote_blocks iso_parse q pol t = []" "pq_bid q = Some (Fin bid)" "pq_ask q = Some (Fin ask)"
    and "as_float (dict_get ps ''entry_price_through_target'') = Some (Fin x)" "x < 1 / 100"
    and "entry_ceiling ps (original_mid_of ps ((bid + ask) / 2))
          (py_truthy (dict_get_default ps ''entry_wide_market'' (PBool (is_wide_market q pol)))) = Fin c" "0 < c"
  shows "select_entry_limit iso_parse q ps (Some pol) t = Inl ValueError"
proof -
  have "c < 1 / 100" using ceiling_bounds(1) [OF assms(6,4)] assms(5) by linarith
  then have "floor_entry_price (Fin (min p c)) = Inl ValueError" for p
    unfolding floor_entry_price_def by (rule snap_price_below_increment [OF min.strict_coboundedI2])
  then show ?thesis
    using assms by (simp add: select_entry_limit_def price_entry_def Let_def)
qed

end
