(* ===== verification/Order_Manager.thy ===== *)
theory Order_Manager
  imports Order_Prices
begin

text \<open>
  \<open>OrderManager\<close> of \<open>src/bhiksha/execution/order_manager.py\<close> and the order statuses of
  \<open>src/bhiksha/execution/brokers/public/order_status.py\<close>. The broker is a parameter: a function
  from the calls made so far and the present call to its reply, so it may answer anything and
  differently each time. The state is the two increment caches and the log of calls. An
  operation is a function from the state to an exception or a value, with the new state.
  Prices of a payload are texts with two decimals of rounded prices, which read back exactly,
  so they are numbers here. Fresh order ids (\<open>uuid4\<close>) are arguments.
\<close>

section \<open>The broker\<close>

record order_payload =
  op_order_id :: string
  op_symbol :: string
  op_side :: string
  op_type :: string
  op_quantity :: int
  op_open_close :: string
  op_limit_price :: "real option"
  op_stop_price :: "real option"

datatype broker_call = Place order_payload | Preflight order_payload | Cancel string | Get_Order string
  | Get_Quotes string | Get_Portfolio

text \<open>
  What a call can raise: an HTTP status error with the decoded body, when it decodes, and its
  own text; a transport error, a timeout or another exception with its class name and text.
  \<open>Py_Error\<close> is raised by the module's own code.
\<close>

datatype broker_exc = Http_Error int "pyval option" string | Request_Error string string
  | Timeout_Error string string | Other_Error string string | Py_Error py_error

datatype broker_reply = Reply params | Failure broker_exc

type_synonym broker = "broker_call list \<Rightarrow> broker_call \<Rightarrow> broker_reply"

record order_state =
  om_increments :: "(string \<times> pyfloat) list"
  om_underlying_increments :: "(string \<times> pyfloat) list"
  om_log :: "broker_call list"

section \<open>Operations with state and exceptions\<close>

type_synonym ('s, 'a) sx = "'s \<Rightarrow> (broker_exc + 'a) \<times> 's"

type_synonym 'a om = "(order_state, 'a) sx"

definition sx_return :: "'a \<Rightarrow> ('s, 'a) sx" where
  "sx_return x = (\<lambda>s. (Inr x, s))"

definition sx_raise :: "broker_exc \<Rightarrow> ('s, 'a) sx" where
  "sx_raise e = (\<lambda>s. (Inl e, s))"

definition sx_bind :: "('s, 'a) sx \<Rightarrow> ('a \<Rightarrow> ('s, 'b) sx) \<Rightarrow> ('s, 'b) sx" where
  "sx_bind m f = (\<lambda>s. case m s of (Inl e, s') \<Rightarrow> (Inl e, s') | (Inr x, s') \<Rightarrow> f x s')"

text \<open>\<open>try: m except Exception as e: h(e)\<close>.\<close>

definition sx_catch :: "('s, 'a) sx \<Rightarrow> (broker_exc \<Rightarrow> ('s, 'a) sx) \<Rightarrow> ('s, 'a) sx" where
  "sx_catch m h = (\<lambda>s. case m s of (Inl e, s') \<Rightarrow> h e s' | (Inr x, s') \<Rightarrow> (Inr x, s'))"

definition sx_lift :: "'a result \<Rightarrow> ('s, 'a) sx" where
  "sx_lift r = (case r of Inl e \<Rightarrow> sx_raise (Py_Error e) | Inr x \<Rightarrow> sx_return x)"

definition om_call :: "broker \<Rightarrow> broker_call \<Rightarrow> params om" where
  "om_call br c = (\<lambda>s.
     let s' = s\<lparr>om_log := om_log s @ [c]\<rparr>
     in case br (om_log s) c of Reply d \<Rightarrow> (Inr d, s') | Failure e \<Rightarrow> (Inl e, s'))"

section \<open>Results and messages\<close>

record order_result =
  or_order_id :: "string option"
  or_error :: "string option"
  or_actual_limit_price :: "real option"
  or_increment_rejected :: bool
  or_submission_uncertain :: bool
  or_submission_attempted :: bool
  or_pre_submission_retryable :: bool

definition order_refused :: "string \<Rightarrow> bool \<Rightarrow> order_result" where
  "order_refused reason retryable =
     \<lparr>or_order_id = None, or_error = Some reason, or_actual_limit_price = None, or_increment_rejected = False,
      or_submission_uncertain = False, or_submission_attempted = False, or_pre_submission_retryable = retryable\<rparr>"

fun exc_text :: "broker_exc \<Rightarrow> string" where
  "exc_text (Http_Error n body msg) = msg"
| "exc_text (Request_Error cls msg) = msg"
| "exc_text (Timeout_Error cls msg) = msg"
| "exc_text (Other_Error cls msg) = msg"
| "exc_text (Py_Error e) = []"

fun first_truthy :: "(pyval \<Rightarrow> string) \<Rightarrow> params \<Rightarrow> string list \<Rightarrow> string option" where
  "first_truthy tx d [] = None"
| "first_truthy tx d (k # ks) =
     (if py_truthy (dict_get d k) then Some (py_str tx (dict_get d k)) else first_truthy tx d ks)"

fun exception_message :: "(pyval \<Rightarrow> string) \<Rightarrow> broker_exc \<Rightarrow> string" where
  "exception_message tx (Http_Error n (Some (PDict d)) msg) =
     (case first_truthy tx d [''message'', ''error'', ''detail''] of Some t \<Rightarrow> t | None \<Rightarrow> msg)"
| "exception_message tx e = exc_text e"

definition preflight_failure_is_transient :: "broker_exc \<Rightarrow> bool" where
  "preflight_failure_is_transient e = (case e of
      Request_Error _ _ \<Rightarrow> True | Timeout_Error _ _ \<Rightarrow> True
    | Http_Error n _ _ \<Rightarrow> n \<in> {408, 429} \<or> n \<ge> 500 | _ \<Rightarrow> False)"

definition definite_rejection :: "broker_exc \<Rightarrow> bool" where
  "definite_rejection e = (case e of
      Http_Error n _ _ \<Rightarrow> 400 \<le> n \<and> n < 500 \<and> n \<notin> {408, 409, 429} | _ \<Rightarrow> False)"

definition validation_status :: "broker_exc \<Rightarrow> bool" where
  "validation_status e = (case e of Http_Error n _ _ \<Rightarrow> n \<in> {400, 422} | _ \<Rightarrow> False)"

definition exc_class :: "broker_exc \<Rightarrow> string" where
  "exc_class e = (case e of
      Http_Error _ _ _ \<Rightarrow> ''HTTPStatusError'' | Request_Error cls _ \<Rightarrow> cls
    | Timeout_Error cls _ \<Rightarrow> cls | Other_Error cls _ \<Rightarrow> cls
    | Py_Error err \<Rightarrow> (case err of ValueError \<Rightarrow> ''ValueError'' | TypeError \<Rightarrow> ''TypeError''
        | OverflowError \<Rightarrow> ''OverflowError'' | KeyError \<Rightarrow> ''KeyError'' | IndexError \<Rightarrow> ''IndexError''
        | AttributeError \<Rightarrow> ''AttributeError'' | ZeroDivisionError \<Rightarrow> ''ZeroDivisionError''
        | BrokerError _ \<Rightarrow> ''Exception''))"

section \<open>Price increments\<close>

definition lookup_price_increment :: "string \<Rightarrow> order_state \<Rightarrow> pyfloat option" where
  "lookup_price_increment option_symbol s =
     (let symbl = normalize_option_symbol option_symbol
      in case map_of (om_increments s) symbl of
           Some x \<Rightarrow> Some x
         | None \<Rightarrow> (case underlying_symbol_from_option symbl of
               None \<Rightarrow> None | Some u \<Rightarrow> map_of (om_underlying_increments s) u))"

definition cache_price_increment :: "string \<Rightarrow> pyfloat \<Rightarrow> order_state \<Rightarrow> order_state" where
  "cache_price_increment option_symbol x s =
     (let symbl = normalize_option_symbol option_symbol;
          s1 = s\<lparr>om_increments := AList.update symbl x (om_increments s)\<rparr>
      in case underlying_symbol_from_option symbl of
           None \<Rightarrow> s1
         | Some u \<Rightarrow> s1\<lparr>om_underlying_increments := AList.update u x (om_underlying_increments s1)\<rparr>)"

definition om_cache :: "string \<Rightarrow> pyfloat \<Rightarrow> unit om" where
  "om_cache option_symbol x = (\<lambda>s. (Inr (), cache_price_increment option_symbol x s))"

text \<open>\<open>_maybe_float((response.get("priceIncrement") or {}).get("currentIncrement"))\<close>.\<close>

definition current_increment :: "params \<Rightarrow> pyfloat option result" where
  "current_increment response =
     (let v = dict_get response ''priceIncrement''
      in if \<not> py_truthy v then Inr None
         else case v of PDict d \<Rightarrow> Inr (as_float (dict_get d ''currentIncrement'')) | _ \<Rightarrow> Inl AttributeError)"

definition truthy_increment :: "pyfloat option \<Rightarrow> pyfloat option" where
  "truthy_increment x = (case x of None \<Rightarrow> None | Some v \<Rightarrow> if v = Fin 0 then None else Some v)"

section \<open>Preflight\<close>

record preflight_check =
  pf_payload :: order_payload
  pf_current_increment :: "pyfloat option"
  pf_buying_power :: "pyfloat option"
  pf_estimated_cost :: "pyfloat option"

definition entry_payload :: "string \<Rightarrow> string \<Rightarrow> real \<Rightarrow> int \<Rightarrow> order_payload" where
  "entry_payload oid option_symbol limit_price quantity =
     \<lparr>op_order_id = oid, op_symbol = normalize_option_symbol option_symbol, op_side = ''BUY'', op_type = ''LIMIT'',
      op_quantity = quantity, op_open_close = ''OPEN'', op_limit_price = Some (round_price limit_price),
      op_stop_price = None\<rparr>"

text \<open>The payload at the known increment.\<close>

definition snap_payload :: "real \<Rightarrow> pyfloat option \<Rightarrow> order_payload \<Rightarrow> order_payload om" where
  "snap_payload limit_price inc payload =
     (case truthy_increment inc of
        None \<Rightarrow> sx_return payload
      | Some x \<Rightarrow> sx_bind (sx_lift (snap_price (Fin limit_price) x)) (\<lambda>p.
            sx_return (payload\<lparr>op_limit_price := Some p\<rparr>)))"

text \<open>The broker's answer, or the increment that a validation error discloses.\<close>

definition preflight_reply :: "broker \<Rightarrow> (pyval \<Rightarrow> string) \<Rightarrow> order_payload \<Rightarrow> (pyfloat + params) om" where
  "preflight_reply br tx payload = (\<lambda>s. case om_call br (Preflight payload) s of
       (Inl e, s') \<Rightarrow>
         (case (if validation_status e then extract_price_increment (Some (exception_message tx e)) else None) of
            None \<Rightarrow> (Inl e, s') | Some x \<Rightarrow> (Inr (Inl x), s'))
     | (Inr d, s') \<Rightarrow> (Inr (Inr d), s'))"

definition preflight_checked :: "order_payload \<Rightarrow> pyfloat option \<Rightarrow> params \<Rightarrow> preflight_check" where
  "preflight_checked payload inc response =
     \<lparr>pf_payload = payload, pf_current_increment = inc,
      pf_buying_power = as_float (dict_get response ''buyingPowerRequirement''),
      pf_estimated_cost = as_float (dict_get response ''estimatedCost'')\<rparr>"

text \<open>The three attempts; \<open>inc\<close> is the increment known so far.\<close>

fun preflight_attempts ::
  "broker \<Rightarrow> (pyval \<Rightarrow> string) \<Rightarrow> string \<Rightarrow> real \<Rightarrow> nat \<Rightarrow> pyfloat option \<Rightarrow> order_payload \<Rightarrow> preflight_check om" where
  "preflight_attempts br tx option_symbol limit_price 0 inc payload = sx_raise (Py_Error ValueError)"
| "preflight_attempts br tx option_symbol limit_price (Suc n) inc payload =
     sx_bind (snap_payload limit_price inc payload) (\<lambda>payload1.
     sx_bind (preflight_reply br tx payload1) (\<lambda>outcome.
     case outcome of
       Inl x \<Rightarrow> sx_bind (om_cache option_symbol x) (\<lambda>_.
           preflight_attempts br tx option_symbol limit_price n (Some x) payload1)
     | Inr response \<Rightarrow>
         sx_bind (sx_lift (current_increment response)) (\<lambda>found.
         case truthy_increment found of
           None \<Rightarrow> sx_return (preflight_checked payload1 inc response)
         | Some x \<Rightarrow>
             if \<not> f_isfinite x \<or> f_le x (Fin 0) then sx_raise (Py_Error ValueError)
             else sx_bind (om_cache option_symbol x) (\<lambda>_.
                  sx_bind (sx_lift (snap_price (Fin limit_price) x)) (\<lambda>corrected.
                  if Some corrected \<noteq> op_limit_price payload1
                  then preflight_attempts br tx option_symbol limit_price n (Some x)
                         (payload1\<lparr>op_limit_price := Some corrected\<rparr>)
                  else sx_return (preflight_checked payload1 (Some x) response))))))"

definition preflight_entry ::
  "broker \<Rightarrow> (pyval \<Rightarrow> string) \<Rightarrow> string \<Rightarrow> string \<Rightarrow> real \<Rightarrow> int \<Rightarrow> preflight_check om" where
  "preflight_entry br tx new_id option_symbol limit_price quantity =
     (\<lambda>s. preflight_attempts br tx option_symbol limit_price 3 (lookup_price_increment option_symbol s)
            (entry_payload new_id option_symbol limit_price quantity) s)"

section \<open>Submission\<close>

definition submitted_price :: "order_payload \<Rightarrow> real option" where
  "submitted_price p = op_limit_price p"

definition submit_failed :: "order_payload \<Rightarrow> string \<Rightarrow> bool \<Rightarrow> bool \<Rightarrow> order_result" where
  "submit_failed p error uncertain increment_rejected =
     (let hold = uncertain \<and> op_side p = ''BUY''
      in \<lparr>or_order_id = (if hold then Some (op_order_id p) else None), or_error = Some error,
          or_actual_limit_price = submitted_price p, or_increment_rejected = increment_rejected,
          or_submission_uncertain = (hold \<and> op_order_id p \<noteq> []), or_submission_attempted = True,
          or_pre_submission_retryable = False\<rparr>)"

definition submit :: "broker \<Rightarrow> (pyval \<Rightarrow> string) \<Rightarrow> order_payload \<Rightarrow> order_result om" where
  "submit br tx p = (\<lambda>s. case om_call br (Place p) s of
      (Inr response, s') \<Rightarrow>
        (let v = dict_get response ''orderId''; w = dict_get response ''id'';
             oid = (if py_truthy v then v else w)
         in (Inr (if py_truthy oid
               then \<lparr>or_order_id = Some (py_str tx oid), or_error = None, or_actual_limit_price = submitted_price p,
                  or_increment_rejected = False, or_submission_uncertain = False, or_submission_attempted = True,
                  or_pre_submission_retryable = False\<rparr>
               else submit_failed p ''missing_order_id'' True False), s'))
    | (Inl e, s') \<Rightarrow>
        (let error = exception_message tx e
         in (Inr (submit_failed p error (\<not> definite_rejection e)
               (validation_status e \<and> extract_price_increment (Some error) \<noteq> None)), s')))"

datatype price_key = LimitPrice | StopPrice

fun get_price :: "price_key \<Rightarrow> order_payload \<Rightarrow> real option" where
  "get_price LimitPrice p = op_limit_price p"
| "get_price StopPrice p = op_stop_price p"

fun set_price :: "price_key \<Rightarrow> real \<Rightarrow> order_payload \<Rightarrow> order_payload" where
  "set_price LimitPrice x p = p\<lparr>op_limit_price := Some x\<rparr>"
| "set_price StopPrice x p = p\<lparr>op_stop_price := Some x\<rparr>"

definition apply_increment_correction :: "broker \<Rightarrow> price_key \<Rightarrow> order_payload \<Rightarrow> order_payload om" where
  "apply_increment_correction br key p =
     (case get_price key p of
        None \<Rightarrow> sx_return p
      | Some original \<Rightarrow>
          let symbl = normalize_option_symbol (op_symbol p) in
          sx_bind (\<lambda>s. case lookup_price_increment symbl s of
              Some x \<Rightarrow> (Inr (Some x), s)
            | None \<Rightarrow>
                sx_bind (sx_catch (om_call br (Preflight p)) (\<lambda>_. sx_return [])) (\<lambda>response.
                sx_bind (sx_lift (current_increment response)) (\<lambda>found.
                case truthy_increment found of
                  None \<Rightarrow> sx_return None
                | Some x \<Rightarrow> sx_bind (om_cache symbl x) (\<lambda>_. sx_return (Some x)))) s) (\<lambda>inc.
          case truthy_increment inc of
            None \<Rightarrow> sx_return p
          | Some x \<Rightarrow> sx_bind (sx_lift (snap_price (Fin original) x)) (\<lambda>c. sx_return (set_price key c p))))"

text \<open>The guard is consulted on what has happened so far: the log of calls.\<close>

type_synonym submission_guard = "broker_call list \<Rightarrow> string option"

definition om_guard :: "submission_guard \<Rightarrow> string option om" where
  "om_guard g = (\<lambda>s. (Inr (g (om_log s)), s))"

text \<open>The payload of the retry: for an entry it is the one a new preflight approves, or why it failed.\<close>

definition retry_payload ::
  "broker \<Rightarrow> (pyval \<Rightarrow> string) \<Rightarrow> string \<Rightarrow> price_key \<Rightarrow> real \<Rightarrow> order_payload \<Rightarrow> (broker_exc + order_payload) om" where
  "retry_payload br tx new_id key corrected p =
     (let p1 = set_price key corrected p
      in if op_side p = ''BUY''
         then (\<lambda>s. case preflight_entry br tx new_id (normalize_option_symbol (op_symbol p)) corrected (op_quantity p) s of
             (Inl e, s') \<Rightarrow> (Inr (Inl e), s')
           | (Inr checked, s') \<Rightarrow> (Inr (Inr (case get_price key (pf_payload checked) of
                 Some price \<Rightarrow> set_price key price p1 | None \<Rightarrow> p1)), s'))
         else sx_return (Inr p1))"

definition retry_submission ::
  "broker \<Rightarrow> (pyval \<Rightarrow> string) \<Rightarrow> string \<Rightarrow> price_key \<Rightarrow> submission_guard \<Rightarrow> real \<Rightarrow> pyfloat \<Rightarrow> order_payload \<Rightarrow>
   order_result om" where
  "retry_submission br tx new_id key g original x p =
     sx_bind (om_cache (normalize_option_symbol (op_symbol p)) x) (\<lambda>_.
     sx_bind (sx_lift (snap_price (Fin original) x)) (\<lambda>corrected.
     sx_bind (retry_payload br tx new_id key corrected p) (\<lambda>outcome.
     case outcome of
       Inl e \<Rightarrow> sx_return (order_refused (''public_preflight_failed:'' @ exc_class e) (preflight_failure_is_transient e))
     | Inr p2 \<Rightarrow>
         sx_bind (om_guard g) (\<lambda>reason.
         if text_truthy reason then sx_return (order_refused (text_or reason) False)
         else submit br tx p2))))"

definition submit_with_increment_retry ::
  "broker \<Rightarrow> (pyval \<Rightarrow> string) \<Rightarrow> string \<Rightarrow> price_key \<Rightarrow> submission_guard \<Rightarrow> order_payload \<Rightarrow> order_result om" where
  "submit_with_increment_retry br tx new_id key g p =
     sx_bind (om_guard g) (\<lambda>reason.
     if text_truthy reason then sx_return (order_refused (text_or reason) False)
     else sx_bind (submit br tx p) (\<lambda>r.
       if text_truthy (or_order_id r) \<or> \<not> text_truthy (or_error r) then sx_return r
       else case (if or_increment_rejected r then extract_price_increment (or_error r) else None) of
         None \<Rightarrow> sx_return r
       | Some x \<Rightarrow>
           if normalize_option_symbol (op_symbol p) = [] then sx_return r
           else (case get_price key p of
               None \<Rightarrow> sx_raise (Py_Error KeyError)
             | Some original \<Rightarrow> retry_submission br tx new_id key g original x p)))"

section \<open>The orders\<close>

definition place_entry_order ::
  "broker \<Rightarrow> (pyval \<Rightarrow> string) \<Rightarrow> string \<Rightarrow> string \<Rightarrow> real \<Rightarrow> int \<Rightarrow> string \<Rightarrow> submission_guard \<Rightarrow> order_result om" where
  "place_entry_order br tx new_id option_symbol limit_price quantity oid g =
     sx_bind (apply_increment_correction br LimitPrice (entry_payload oid option_symbol limit_price quantity))
       (submit_with_increment_retry br tx new_id LimitPrice g)"

definition no_guard :: submission_guard where
  "no_guard _ = None"

definition close_payload ::
  "string \<Rightarrow> string \<Rightarrow> int \<Rightarrow> string \<Rightarrow> real option \<Rightarrow> real option \<Rightarrow> order_payload" where
  "close_payload oid option_symbol quantity type limit stop =
     \<lparr>op_order_id = oid, op_symbol = normalize_option_symbol option_symbol, op_side = ''SELL'', op_type = type,
      op_quantity = quantity, op_open_close = ''CLOSE'', op_limit_price = limit, op_stop_price = stop\<rparr>"

definition place_stop_loss_order ::
  "broker \<Rightarrow> (pyval \<Rightarrow> string) \<Rightarrow> string \<Rightarrow> string \<Rightarrow> real \<Rightarrow> int \<Rightarrow> string \<Rightarrow> order_result om" where
  "place_stop_loss_order br tx new_id option_symbol stop_price quantity oid =
     sx_bind (apply_increment_correction br StopPrice
         (close_payload oid option_symbol quantity ''STOP'' None (Some (round_price stop_price))))
       (submit_with_increment_retry br tx new_id StopPrice no_guard)"

definition place_target_order ::
  "broker \<Rightarrow> (pyval \<Rightarrow> string) \<Rightarrow> string \<Rightarrow> string \<Rightarrow> real \<Rightarrow> int \<Rightarrow> string \<Rightarrow> order_result om" where
  "place_target_order br tx new_id option_symbol limit_price quantity oid =
     sx_bind (apply_increment_correction br LimitPrice
         (close_payload oid option_symbol quantity ''LIMIT'' (Some (round_price limit_price)) None))
       (submit_with_increment_retry br tx new_id LimitPrice no_guard)"

definition place_close_order ::
  "broker \<Rightarrow> (pyval \<Rightarrow> string) \<Rightarrow> string \<Rightarrow> string \<Rightarrow> int \<Rightarrow> exit_mode \<Rightarrow> real option \<Rightarrow> string \<Rightarrow> order_result om" where
  "place_close_order br tx new_id option_symbol quantity mode limit_price oid =
     (case (if mode \<noteq> EMERGENCY then limit_price else None) of
        Some limit \<Rightarrow> place_target_order br tx new_id option_symbol limit quantity oid
      | None \<Rightarrow> submit br tx (close_payload oid option_symbol quantity ''MARKET'' None None))"

definition place_square_off_order ::
  "broker \<Rightarrow> (pyval \<Rightarrow> string) \<Rightarrow> string \<Rightarrow> string \<Rightarrow> int \<Rightarrow> string \<Rightarrow> order_result om" where
  "place_square_off_order br tx new_id option_symbol quantity oid =
     place_close_order br tx new_id option_symbol quantity EMERGENCY None oid"

definition canonicalize_stop_price ::
  "broker \<Rightarrow> string \<Rightarrow> real \<Rightarrow> int \<Rightarrow> (real \<times> pyfloat) om" where
  "canonicalize_stop_price br option_symbol stop_price quantity =
     sx_bind (apply_increment_correction br StopPrice
         (close_payload [] option_symbol quantity ''STOP'' None (Some (round_price stop_price)))) (\<lambda>p s.
       case lookup_price_increment option_symbol s of
         None \<Rightarrow> (Inl (Py_Error ValueError), s)
       | Some x \<Rightarrow> if f_le x (Fin 0) then (Inl (Py_Error ValueError), s)
           else (case op_stop_price p of Some price \<Rightarrow> (Inr (price, x), s) | None \<Rightarrow> (Inl (Py_Error KeyError), s)))"

section \<open>Order status, cancellation and fills\<close>

definition PUBLIC_DEAD_ORDER_STATUSES :: "string list" where
  "PUBLIC_DEAD_ORDER_STATUSES = [''CANCELED'', ''CANCELLED'', ''REJECTED'', ''EXPIRED'']"

definition PUBLIC_WORKING_ORDER_STATUSES :: "string list" where
  "PUBLIC_WORKING_ORDER_STATUSES = [''NEW'', ''SUBMITTED'', ''ACKNOWLEDGED'', ''PARTIALLY_FILLED'',
     ''PENDING_CANCEL'', ''PENDING_REPLACE'', ''QUEUED_CANCELLED'']"

text \<open>The status of an order is a text or absent.\<close>

definition payload_status :: "params \<Rightarrow> string option" where
  "payload_status d = (case dict_get d ''status'' of PStr t \<Rightarrow> Some t | _ \<Rightarrow> None)"

definition normalize_public_order_status :: "string option \<Rightarrow> string" where
  "normalize_public_order_status s = py_upper (py_strip (text_or s))"

text \<open>\<open>status or (payload or {}).get("status")\<close>.\<close>

definition status_or_payload :: "string option \<Rightarrow> params option \<Rightarrow> string option" where
  "status_or_payload s d = (if text_truthy s then s else case d of None \<Rightarrow> None | Some e \<Rightarrow> payload_status e)"

definition public_order_confirmed_dead_unfilled :: "string option \<Rightarrow> params option \<Rightarrow> bool" where
  "public_order_confirmed_dead_unfilled s d =
     (if normalize_public_order_status (status_or_payload s d) \<notin> set PUBLIC_DEAD_ORDER_STATUSES then False
      else let raw_filled = (case d of None \<Rightarrow> PNone | Some e \<Rightarrow> dict_get e ''filledQuantity'')
      in if raw_filled = PNone then True else as_float raw_filled = Some (Fin 0))"

type_synonym order_status = "string option \<times> params option \<times> string option"

definition get_order_status :: "broker \<Rightarrow> string \<Rightarrow> order_state \<Rightarrow> order_status \<times> order_state" where
  "get_order_status br oid s =
     (case om_call br (Get_Order oid) s of
        (Inr d, s') \<Rightarrow> ((payload_status d, Some d, None), s')
      | (Inl e, s') \<Rightarrow> (case e of
            Http_Error n _ _ \<Rightarrow>
              if n = 404 then ((None, None, Some ''order_not_indexed_yet''), s') else ((None, None, Some (exc_text e)), s')
          | _ \<Rightarrow> ((None, None, Some (exc_text e)), s')))"

text \<open>\<open>late\<close>: whether the read-back of the status misses its one second.\<close>

definition cancel_order ::
  "broker \<Rightarrow> (broker_call list \<Rightarrow> bool) \<Rightarrow> string \<Rightarrow> order_state \<Rightarrow> (bool \<times> string option) \<times> order_state" where
  "cancel_order br late oid s =
     (let (request, s1) = om_call br (Cancel oid) s;
          request_error = (case request of Inl e \<Rightarrow> Some (exc_text e) | Inr _ \<Rightarrow> None);
          (st, s2) = (if late (om_log s1) then ((None, None, Some ''cancel_status_readback_timeout''),
                        s1\<lparr>om_log := om_log s1 @ [Get_Order oid]\<rparr>)
                      else get_order_status br oid s1)
      in case st of (status, payload, status_error) \<Rightarrow>
        if public_order_confirmed_dead_unfilled status payload then ((True, None), s2)
        else let normalized = py_upper (text_or (status_or_payload status payload));
                 reason = (if normalized \<in> set PUBLIC_DEAD_ORDER_STATUSES
                           then ''cancel_terminal_with_fill_or_ambiguous_quantity:'' @ normalized
                           else if normalized \<noteq> [] then ''cancel_pending:'' @ normalized
                           else if text_truthy status_error then text_or status_error
                           else ''cancel_status_unavailable'')
        in ((False, Some (if text_truthy request_error
               then ''cancel_request_error:'' @ text_or request_error @ '';'' @ reason else reason)), s2))"

text \<open>
  The polling loop. \<open>clock k\<close> is the \<open>k\<close>-th reading of the clock, the first of which sets the
  deadline; \<^const>\<open>None\<close> is a loop that has used up its fuel.
\<close>

type_synonym fill_result = "bool \<times> params option \<times> string option"

fun wait_polls ::
  "broker \<Rightarrow> (nat \<Rightarrow> int) \<Rightarrow> int \<Rightarrow> string \<Rightarrow> nat \<Rightarrow> nat \<Rightarrow> params option \<Rightarrow> order_state \<Rightarrow>
   (fill_result \<times> order_state) option" where
  "wait_polls br clock deadline oid 0 k last_payload s = None"
| "wait_polls br clock deadline oid (Suc fuel) k last_payload s =
     (if \<not> clock k < deadline then Some ((False, last_payload, Some ''fill_timeout''), s)
      else case get_order_status br oid s of
        ((status, payload, error), s') \<Rightarrow>
          if text_truthy error then Some ((False, payload, error), s')
          else let normalized = py_upper (text_or status)
          in if normalized = ''FILLED'' then Some ((True, payload, None), s')
             else if normalized \<in> {''REJECTED'', ''CANCELED'', ''CANCELLED'', ''EXPIRED''}
             then Some ((False, payload, Some normalized), s')
             else wait_polls br clock deadline oid fuel (Suc k) payload s')"

definition wait_for_fill ::
  "broker \<Rightarrow> (nat \<Rightarrow> int) \<Rightarrow> string \<Rightarrow> int \<Rightarrow> nat \<Rightarrow> order_state \<Rightarrow> (fill_result \<times> order_state) option" where
  "wait_for_fill br clock oid timeout_seconds fuel s =
     wait_polls br clock (clock 0 + timeout_seconds * usec_per_sec) oid fuel 1 None s"

section \<open>Quotes\<close>

definition dict_val :: "pyval \<Rightarrow> params result" where
  "dict_val v = (case v of PDict d \<Rightarrow> Inr d | _ \<Rightarrow> Inl AttributeError)"

definition maybe_int :: "pyval \<Rightarrow> int option result" where
  "maybe_int v = (case int_of v of
      Inr n \<Rightarrow> Inr (Some n) | Inl OverflowError \<Rightarrow> Inl OverflowError | Inl _ \<Rightarrow> Inr None)"

definition text_val :: "pyval \<Rightarrow> string result" where
  "text_val v = (case v of PStr t \<Rightarrow> Inr t | _ \<Rightarrow> Inl AttributeError)"

definition quote_of_payload ::
  "(string \<Rightarrow> pydt option) \<Rightarrow> (int \<Rightarrow> string) \<Rightarrow> (pyval \<Rightarrow> string) \<Rightarrow> string \<Rightarrow> params \<Rightarrow> public_quote result" where
  "quote_of_payload iso_parse isofmt tx option_symbol quote =
     (let (t, f, b, a) = extract_public_quote_timestamp iso_parse isofmt tx quote in
      bind_result (dict_val (dict_get_default quote ''instrument'' (PDict []))) (\<lambda>instrument.
      bind_result (text_val (dict_get_default instrument ''symbol'' (PStr option_symbol))) (\<lambda>symbl.
      bind_result (maybe_int (dict_get quote ''openInterest'')) (\<lambda>oi.
      Inr \<lparr>pq_symbol = normalize_option_symbol symbl, pq_bid = as_float (dict_get quote ''bid''),
        pq_ask = as_float (dict_get quote ''ask''), pq_last = as_float (dict_get quote ''last''),
        pq_open_interest = oi, pq_quote_timestamp = t, pq_quote_timestamp_field = f,
        pq_bid_timestamp = b, pq_ask_timestamp = a,
        pq_outcome = (case dict_get quote ''outcome'' of PStr o' \<Rightarrow> Some o' | _ \<Rightarrow> None)\<rparr>))))"

definition get_option_quote ::
  "broker \<Rightarrow> (string \<Rightarrow> pydt option) \<Rightarrow> (int \<Rightarrow> string) \<Rightarrow> (pyval \<Rightarrow> string) \<Rightarrow> string \<Rightarrow> public_quote om" where
  "get_option_quote br iso_parse isofmt tx option_symbol =
     sx_bind (om_call br (Get_Quotes (normalize_option_symbol option_symbol))) (\<lambda>payload.
       case dict_get payload ''quotes'' of
         PList (q # _) \<Rightarrow> sx_bind (sx_lift (dict_val q)) (\<lambda>d.
             sx_lift (quote_of_payload iso_parse isofmt tx option_symbol d))
       | v \<Rightarrow> sx_raise (Py_Error (if py_truthy v then KeyError else ValueError)))"

end
