(* ===== verification/Order_Safety.thy ===== *)
theory Order_Safety
  imports Order_Manager
begin

text \<open>
  What an entry submission can do to the account: which orders one call of
  \<open>place_entry_order\<close> sends, at which price, and when it may send a second one. Also the
  end of the fill-polling loop.
\<close>

section \<open>The orders in a log of calls\<close>

fun placed :: "broker_call list \<Rightarrow> order_payload list" where
  "placed [] = []"
| "placed (Place p # cs) = p # placed cs"
| "placed (_ # cs) = placed cs"

lemma placed_append [simp]: "placed (xs @ ys) = placed xs @ placed ys"
  by (induction xs rule: placed.induct) auto

text \<open>
  An operation that sends no order: it only adds other calls to the log, which \<open>L\<close> finds in the
  state.
\<close>

definition quiet_on :: "('s \<Rightarrow> broker_call list) \<Rightarrow> ('s, 'a) sx \<Rightarrow> bool" where
  "quiet_on L m \<longleftrightarrow> (\<forall>s. \<exists>calls. L (snd (m s)) = L s @ calls \<and> placed calls = [])"

abbreviation sends_nothing :: "'a om \<Rightarrow> bool" where
  "sends_nothing \<equiv> quiet_on om_log"

lemma quiet_on_log:
  assumes "quiet_on L m" "m s = (r, s')"
  obtains calls where "L s' = L s @ calls" "placed calls = []"
  using assms unfolding quiet_on_def by (metis snd_conv)

lemma quiet_return [intro, simp]: "quiet_on L (sx_return x)"
  by (simp add: quiet_on_def sx_return_def)

lemma quiet_raise [intro, simp]: "quiet_on L (sx_raise e)"
  by (simp add: quiet_on_def sx_raise_def)

lemma quiet_lift [intro, simp]: "quiet_on L (sx_lift r)"
  by (cases r) (simp_all add: sx_lift_def)

lemma cache_log [simp]: "om_log (cache_price_increment c x s) = om_log s"
  by (simp add: cache_price_increment_def Let_def split: option.split)

lemma sends_nothing_cache [intro, simp]: "sends_nothing (om_cache c x)"
  by (simp add: quiet_on_def om_cache_def)

lemma sends_nothing_guard [intro, simp]: "sends_nothing (om_guard g)"
  by (simp add: quiet_on_def om_guard_def)

lemma sends_nothing_call: "(\<And>p. c \<noteq> Place p) \<Longrightarrow> sends_nothing (om_call br c)"
  by (cases c) (auto simp: quiet_on_def om_call_def Let_def split: broker_reply.split)

lemma quiet_bind [intro]:
  assumes "quiet_on L m" "\<And>x. quiet_on L (f x)"
  shows "quiet_on L (sx_bind m f)"
  unfolding quiet_on_def
proof
  fix s
  obtain r s1 where m: "m s = (r, s1)" by fastforce
  obtain c1 where c1: "L s1 = L s @ c1" "placed c1 = []"
    using quiet_on_log [OF assms(1) m] .
  show "\<exists>calls. L (snd (sx_bind m f s)) = L s @ calls \<and> placed calls = []"
  proof (cases r)
    case (Inl e)
    then show ?thesis using m c1 by (simp add: sx_bind_def)
  next
    case (Inr x)
    obtain r2 s2 where f: "f x s1 = (r2, s2)" by fastforce
    obtain c2 where "L s2 = L s1 @ c2" "placed c2 = []"
      using quiet_on_log [OF assms(2) f] .
    then show ?thesis using m f c1 Inr by (simp add: sx_bind_def)
  qed
qed

lemma quiet_catch [intro]:
  "quiet_on L m \<Longrightarrow> quiet_on L (sx_catch m (\<lambda>_. sx_return d))"
  unfolding quiet_on_def sx_catch_def sx_return_def
  by (metis (mono_tags, lifting) case_prod_conv old.prod.exhaust old.sum.exhaust snd_conv sum.case(1) sum.case(2))

lemma quiet_map:
  assumes "quiet_on L m" "\<And>s. snd (k s) = snd (m s)"
  shows "quiet_on L k"
  using assms by (simp add: quiet_on_def)

lemma sx_bind_Inr:
  "sx_bind m f s = (Inr y, s') \<longleftrightarrow> (\<exists>x s1. m s = (Inr x, s1) \<and> f x s1 = (Inr y, s'))"
  by (auto simp: sx_bind_def split: prod.splits sum.splits)

lemma sx_bind_return [simp]: "sx_bind (sx_return x) f = f x"
  by (simp add: sx_bind_def sx_return_def fun_eq_iff)

lemma sx_lift_Inr: "sx_lift r s = (Inr y, s') \<longleftrightarrow> r = Inr y \<and> s' = s"
  by (cases r) (auto simp: sx_lift_def sx_raise_def sx_return_def)

section \<open>Prices only go down\<close>

lemma round_price_mono: "x \<le> y \<Longrightarrow> round_price x \<le> round_price y"
  by (simp add: round_price_def py_round_mono)

lemma round_price_idem [simp]: "round_price (round_price x) = round_price x"
proof -
  have "round_price x = of_int (round_half_even ((x + 1 / 1000000000) * 10 ^ 2)) / 100"
    by (simp add: round_price_def py_round_def)
  then show ?thesis using round_price_of_cents by metis
qed

lemma snap_price_le:
  assumes "snap_price (Fin v) x = Inr p" "round_price v = v"
  shows "p \<le> v \<and> round_price p = p"
proof -
  obtain inc where inc: "x = Fin inc" "\<not> inc \<le> 0" and p: "p = round_price (of_int \<lfloor>v / inc\<rfloor> * inc)"
    using assms(1) by (auto simp: snap_price_def Let_def split: pyfloat.splits if_splits)
  have "of_int \<lfloor>v / inc\<rfloor> \<le> v / inc" by (rule of_int_floor_le)
  then have "of_int \<lfloor>v / inc\<rfloor> * inc \<le> v" using inc(2) by (simp only: pos_le_divide_eq not_le)
  then have "p \<le> round_price v" unfolding p by (rule round_price_mono)
  then show ?thesis using assms(2) p by simp
qed

text \<open>A payload that is this entry, at no more than the price \<open>v\<close>.\<close>

definition entry_at :: "string \<Rightarrow> string \<Rightarrow> int \<Rightarrow> real \<Rightarrow> order_payload \<Rightarrow> bool" where
  "entry_at oid symbl quantity v p \<longleftrightarrow> op_order_id p = oid \<and> op_symbol p = symbl \<and> op_side p = ''BUY''
     \<and> op_type p = ''LIMIT'' \<and> op_quantity p = quantity \<and> op_open_close p = ''OPEN''
     \<and> (\<exists>x. op_limit_price p = Some x \<and> x \<le> v \<and> round_price x = x)"

lemma entry_payload_at: "entry_at oid (normalize_option_symbol symbl) q (round_price v) (entry_payload oid symbl v q)"
  by (simp add: entry_at_def entry_payload_def)

lemma entry_at_set:
  "entry_at oid symbl q v p \<Longrightarrow> x \<le> v \<Longrightarrow> round_price x = x \<Longrightarrow> entry_at oid symbl q v (p\<lparr>op_limit_price := Some x\<rparr>)"
  by (simp add: entry_at_def)

text \<open>Preflight sends no order, and the payload it approves is within the limit.\<close>

definition limit_within :: "real \<Rightarrow> order_payload \<Rightarrow> bool" where
  "limit_within v p \<longleftrightarrow> (\<exists>x. op_limit_price p = Some x \<and> x \<le> v \<and> round_price x = x)"

lemma preflight_reply_quiet: "sends_nothing (preflight_reply br tx p)"
  unfolding preflight_reply_def
  by (rule quiet_map [OF sends_nothing_call [of "Preflight p" br]])
    (auto split: prod.split sum.split option.split)

lemma snap_payload_quiet: "sends_nothing (snap_payload v inc p)"
  by (auto simp: snap_payload_def split: option.split)

lemma preflight_attempts_quiet: "sends_nothing (preflight_attempts br tx sy v n inc p)"
proof (induction n arbitrary: inc p)
  case (Suc n)
  show ?case
    unfolding preflight_attempts.simps
    by (intro quiet_bind preflight_reply_quiet snap_payload_quiet)
      (auto intro!: quiet_bind Suc.IH split: option.split sum.split)
qed simp

lemma snapped_within:
  "snap_price (Fin v) i = Inr x \<Longrightarrow> round_price v = v \<Longrightarrow> limit_within v (q\<lparr>op_limit_price := Some x\<rparr>)"
  using snap_price_le by (simp add: limit_within_def)

lemma snap_payload_within:
  "snap_payload v inc p s = (Inr p1, s1) \<Longrightarrow> limit_within v p \<Longrightarrow> round_price v = v \<Longrightarrow> limit_within v p1"
  using snapped_within
  by (auto simp: snap_payload_def sx_return_def sx_bind_Inr sx_lift_Inr split: option.splits)

lemma preflight_attempts_within:
  assumes "preflight_attempts br tx sy v n inc p s = (Inr c, s')" "limit_within v p" "round_price v = v"
  shows "limit_within v (pf_payload c)"
  using assms(1,2)
proof (induction n arbitrary: inc p s)
  case 0
  then show ?case by (simp add: sx_raise_def)
next
  case (Suc n)
  from Suc.prems(1) obtain p1 s1 outcome s2 where p1: "snap_payload v inc p s = (Inr p1, s1)"
    and o: "preflight_reply br tx p1 s1 = (Inr outcome, s2)"
    and rest: "(case outcome of
       Inl x \<Rightarrow> sx_bind (om_cache sy x) (\<lambda>_. preflight_attempts br tx sy v n (Some x) p1)
     | Inr response \<Rightarrow>
         sx_bind (sx_lift (current_increment response)) (\<lambda>found.
         case truthy_increment found of
           None \<Rightarrow> sx_return (preflight_checked p1 inc response)
         | Some x \<Rightarrow>
             if \<not> f_isfinite x \<or> f_le x (Fin 0) then sx_raise (Py_Error ValueError)
             else sx_bind (om_cache sy x) (\<lambda>_.
                  sx_bind (sx_lift (snap_price (Fin v) x)) (\<lambda>corrected.
                  if Some corrected \<noteq> op_limit_price p1
                  then preflight_attempts br tx sy v n (Some x) (p1\<lparr>op_limit_price := Some corrected\<rparr>)
                  else sx_return (preflight_checked p1 (Some x) response))))) s2 = (Inr c, s')"
    unfolding preflight_attempts.simps sx_bind_Inr by blast
  have w1: "limit_within v p1" by (rule snap_payload_within [OF p1 Suc.prems(2) assms(3)])
  show ?case
  proof (cases outcome)
    case (Inl x)
    then show ?thesis using rest w1 Suc.IH by (auto simp: sx_bind_Inr om_cache_def)
  next
    case (Inr response)
    then show ?thesis
      using rest w1 Suc.IH snapped_within [OF _ assms(3)]
      by (auto simp: sx_bind_Inr sx_lift_Inr sx_return_def sx_raise_def om_cache_def preflight_checked_def
          split: option.splits if_splits)
  qed
qed

section \<open>Submission\<close>

lemma correction_quiet: "sends_nothing (apply_increment_correction br key p)"
proof -
  have find: "sends_nothing (\<lambda>s. case lookup_price_increment symbl s of
      Some x \<Rightarrow> (Inr (Some x), s)
    | None \<Rightarrow> m s)" if "sends_nothing m" for symbl and m :: "pyfloat option om"
    using that by (auto simp: quiet_on_def split: option.split)
  show ?thesis
    unfolding apply_increment_correction_def Let_def
    by (auto intro!: quiet_bind find quiet_catch sends_nothing_call split: option.split)
qed

lemma correction_at:
  assumes "apply_increment_correction br LimitPrice p s = (Inr p', s')" "entry_at oid symbl q v p"
  shows "entry_at oid symbl q v p'"
proof -
  obtain x where x: "op_limit_price p = Some x" "x \<le> v" "round_price x = x"
    using assms(2) by (auto simp: entry_at_def)
  have "\<exists>inc s1. (case truthy_increment inc of None \<Rightarrow> sx_return p
      | Some i \<Rightarrow> sx_bind (sx_lift (snap_price (Fin x) i)) (\<lambda>c. sx_return (set_price LimitPrice c p))) s1 = (Inr p', s')"
    using assms(1) x(1) unfolding apply_increment_correction_def Let_def get_price.simps
    by (simp only: option.case sx_bind_Inr) blast
  then have "p' = p \<or> (\<exists>i c. snap_price (Fin x) i = Inr c \<and> p' = p\<lparr>op_limit_price := Some c\<rparr>)"
    by (auto simp: sx_bind_Inr sx_lift_Inr sx_return_def split: option.splits)
  then show ?thesis
    using assms(2) snap_price_le [OF _ x(3)] x(2) entry_at_set by (metis order_trans)
qed

text \<open>
  What the broker's reply to an order says: accepted with an id, definitely rejected, or
  unknown, when the order may be live all the same.
\<close>

definition reply_accepted :: "broker_reply \<Rightarrow> bool" where
  "reply_accepted r = (case r of Reply d \<Rightarrow> py_truthy (dict_get d ''orderId'') \<or> py_truthy (dict_get d ''id'')
     | Failure _ \<Rightarrow> False)"

definition reply_rejected :: "broker_reply \<Rightarrow> bool" where
  "reply_rejected r = (case r of Reply _ \<Rightarrow> False | Failure e \<Rightarrow> definite_rejection e)"

definition reply_unknown :: "broker_reply \<Rightarrow> bool" where
  "reply_unknown r \<longleftrightarrow> \<not> reply_accepted r \<and> \<not> reply_rejected r"

lemma submit_effect:
  assumes "submit br tx p s = (res, s')"
  shows "om_log s' = om_log s @ [Place p]"
    and "\<exists>r. res = Inr r \<and> (reply_unknown (br (om_log s) (Place p)) \<and> op_side p = ''BUY'' \<and> op_order_id p \<noteq> [] \<longrightarrow>
           or_submission_uncertain r \<and> or_order_id r = Some (op_order_id p))
         \<and> (or_increment_rejected r \<longrightarrow> reply_rejected (br (om_log s) (Place p)))"
proof -
  have val: "validation_status e \<Longrightarrow> definite_rejection e" for e
    by (auto simp: validation_status_def definite_rejection_def split: broker_exc.splits)
  show "om_log s' = om_log s @ [Place p]"
    using assms by (auto simp: submit_def om_call_def Let_def split: broker_reply.splits)
  show "\<exists>r. res = Inr r \<and> (reply_unknown (br (om_log s) (Place p)) \<and> op_side p = ''BUY'' \<and> op_order_id p \<noteq> [] \<longrightarrow>
           or_submission_uncertain r \<and> or_order_id r = Some (op_order_id p))
         \<and> (or_increment_rejected r \<longrightarrow> reply_rejected (br (om_log s) (Place p)))"
    using assms val
    by (cases "br (om_log s) (Place p)")
      (auto simp: submit_def om_call_def Let_def reply_unknown_def reply_accepted_def reply_rejected_def submit_failed_def)
qed

text \<open>An unknown reply to an entry is held under the client's own order id.\<close>

definition held :: "string \<Rightarrow> broker_exc + order_result \<Rightarrow> bool" where
  "held oid res \<longleftrightarrow> (\<exists>r. res = Inr r \<and> or_submission_uncertain r \<and> or_order_id r = Some oid)"

text \<open>
  The calls of one submission: none is an order; or one order; or, after a definite rejection
  of the first, a second one. The last order's reply, when unknown, is held.
\<close>

inductive submission_calls ::
  "broker \<Rightarrow> broker_call list \<Rightarrow> (order_payload \<Rightarrow> bool) \<Rightarrow> bool \<Rightarrow> broker_call list \<Rightarrow> bool"
  for br log0 ok is_held where
  none: "placed calls = [] \<Longrightarrow> submission_calls br log0 ok is_held calls"
| one: "placed before = [] \<Longrightarrow> placed after = [] \<Longrightarrow> ok p \<Longrightarrow>
    (reply_unknown (br (log0 @ before) (Place p)) \<Longrightarrow> is_held) \<Longrightarrow>
    submission_calls br log0 ok is_held (before @ Place p # after)"
| two: "placed before = [] \<Longrightarrow> placed mid = [] \<Longrightarrow> ok p \<Longrightarrow> ok p2 \<Longrightarrow>
    reply_rejected (br (log0 @ before) (Place p)) \<Longrightarrow>
    (reply_unknown (br (log0 @ before @ Place p # mid) (Place p2)) \<Longrightarrow> is_held) \<Longrightarrow>
    submission_calls br log0 ok is_held (before @ Place p # mid @ [Place p2])"

lemma submission_calls_prefix:
  assumes "submission_calls br (log0 @ before0) ok h calls" "placed before0 = []"
  shows "submission_calls br log0 ok h (before0 @ calls)"
  using assms(1)
proof cases
  case none
  then show ?thesis using assms(2) by (auto intro: submission_calls.none)
next
  case (one before after p)
  then show ?thesis
    using submission_calls.one [of "before0 @ before" after ok p br log0 h] assms(2) by simp
next
  case (two before mid p p2)
  then show ?thesis
    using submission_calls.two [of "before0 @ before" mid ok p p2 br log0 h] assms(2) by simp
qed

text \<open>Following an operation step by step: what each call adds to the log.\<close>

lemma bind_quiet_cases:
  assumes "sx_bind m f s = (res, s')" "quiet_on L m"
  obtains (failed) e calls where "res = Inl e" "L s' = L s @ calls" "placed calls = []"
  | (passed) x s1 calls where "m s = (Inr x, s1)" "L s1 = L s @ calls" "placed calls = []" "f x s1 = (res, s')"
proof -
  obtain r s1 where m: "m s = (r, s1)" by fastforce
  obtain calls where c: "L s1 = L s @ calls" "placed calls = []"
    using quiet_on_log [OF assms(2) m] .
  show thesis
  proof (cases r)
    case (Inl e)
    then show thesis using failed [of e calls] assms(1) m c by (simp add: sx_bind_def)
  next
    case (Inr x)
    then show thesis using passed [of x s1 calls] assms(1) m c by (simp add: sx_bind_def)
  qed
qed

lemma retry_payload_quiet: "sends_nothing (retry_payload br tx nid key c p)"
proof -
  have "sends_nothing (preflight_entry br tx nid symbl c q)" for symbl q
    unfolding preflight_entry_def quiet_on_def
    by (metis preflight_attempts_quiet quiet_on_def)
  note pre = this
  show ?thesis
  proof (cases "op_side p = ''BUY''")
    case True
    have eq: "retry_payload br tx nid key c p = (\<lambda>s. case preflight_entry br tx nid (normalize_option_symbol (op_symbol p)) c (op_quantity p) s of
        (Inl e, s') \<Rightarrow> (Inr (Inl e), s')
      | (Inr checked, s') \<Rightarrow> (Inr (Inr (case get_price key (pf_payload checked) of
            Some price \<Rightarrow> set_price key price (set_price key c p) | None \<Rightarrow> set_price key c p)), s'))"
      using True by (simp add: retry_payload_def Let_def)
    show ?thesis
      unfolding eq
      by (rule quiet_map [OF pre [of "normalize_option_symbol (op_symbol p)" "op_quantity p"]])
        (simp split: prod.split sum.split)
  next
    case False
    then show ?thesis by (simp add: retry_payload_def)
  qed
qed

lemma retry_payload_at:
  assumes "retry_payload br tx nid LimitPrice c p s = (Inr (Inr p2), s')" "entry_at oid symbl q v p"
    and "c \<le> v" "round_price c = c"
  shows "entry_at oid symbl q v p2"
proof -
  have buy: "op_side p = ''BUY''" using assms(2) by (simp add: entry_at_def)
  obtain chk s1 where chk: "preflight_entry br tx nid (normalize_option_symbol (op_symbol p)) c (op_quantity p) s = (Inr chk, s1)"
    and p2: "p2 = (case op_limit_price (pf_payload chk) of
      Some price \<Rightarrow> p\<lparr>op_limit_price := Some c, op_limit_price := Some price\<rparr> | None \<Rightarrow> p\<lparr>op_limit_price := Some c\<rparr>)"
    using assms(1) buy by (auto simp: retry_payload_def Let_def split: prod.splits sum.splits option.splits)
  have "limit_within c (entry_payload nid (normalize_option_symbol (op_symbol p)) c (op_quantity p))"
    by (simp add: limit_within_def entry_payload_def assms(4))
  then have "limit_within c (pf_payload chk)"
    using preflight_attempts_within [OF chk [unfolded preflight_entry_def]] assms(4) by blast
  then obtain x where "op_limit_price (pf_payload chk) = Some x" "x \<le> c" "round_price x = x"
    by (auto simp: limit_within_def)
  then show ?thesis using p2 assms(2,3) entry_at_set by simp
qed

lemma guarded_submit_calls:
  assumes "sx_bind (om_guard g) (\<lambda>reason. if text_truthy reason then sx_return (order_refused (text_or reason) False)
      else submit br tx p2) s = (res, s')" "entry_at oid symbl q v p2" "oid \<noteq> []"
  shows "(om_log s' = om_log s) \<or> (om_log s' = om_log s @ [Place p2]
    \<and> (reply_unknown (br (om_log s) (Place p2)) \<longrightarrow> held oid res))"
proof (cases "text_truthy (g (om_log s))")
  case True
  then show ?thesis using assms(1) by (auto simp: sx_bind_def om_guard_def sx_return_def)
next
  case False
  then have "submit br tx p2 s = (res, s')" using assms(1) by (simp add: sx_bind_def om_guard_def)
  from submit_effect [OF this] show ?thesis
    using assms(2,3) by (auto simp: entry_at_def held_def)
qed

lemma retry_calls:
  assumes "retry_submission br tx nid LimitPrice g original x p s = (res, s')" "entry_at oid symbl q v p"
    and "op_limit_price p = Some original" "oid \<noteq> []"
  shows "\<exists>calls. om_log s' = om_log s @ calls \<and> (placed calls = [] \<or> (\<exists>mid p2. calls = mid @ [Place p2] \<and> placed mid = []
    \<and> entry_at oid symbl q v p2 \<and> (reply_unknown (br (om_log s @ mid) (Place p2)) \<longrightarrow> held oid res)))"
proof -
  have orig: "original \<le> v" "round_price original = original"
    using assms(2,3) by (auto simp: entry_at_def)
  from assms(1) [unfolded retry_submission_def] sends_nothing_cache show ?thesis
  proof (cases rule: bind_quiet_cases)
    case (passed u s1 c1)
    from passed(4) quiet_lift [of om_log] show ?thesis
    proof (cases rule: bind_quiet_cases)
      case (passed corrected s2 c2)
      have ox: "snap_price (Fin original) x = Inr corrected" using passed(1) by (simp add: sx_lift_Inr)
      have cor: "corrected \<le> v" "round_price corrected = corrected"
        using snap_price_le [OF ox orig(2)] orig(1) by simp_all
      from passed(4) retry_payload_quiet show ?thesis
      proof (cases rule: bind_quiet_cases)
        case (passed outcome s3 c3)
        have log3: "om_log s3 = om_log s @ (c1 @ c2 @ c3)"
          and quiet: "placed (c1 @ c2 @ c3) = []"
          using passed(2,3) \<open>om_log s2 = om_log s1 @ c2\<close> \<open>om_log s1 = om_log s @ c1\<close>
            \<open>placed c2 = []\<close> \<open>placed c1 = []\<close> by simp_all
        show ?thesis
        proof (cases outcome)
          case (Inl e)
          then show ?thesis using passed(4) log3 quiet by (auto simp: sx_return_def)
        next
          case (Inr p2)
          have at2: "entry_at oid symbl q v p2"
            using retry_payload_at [OF passed(1) [unfolded Inr] assms(2) cor] .
          from guarded_submit_calls [OF passed(4) [unfolded Inr sum.case] at2 assms(4)]
          show ?thesis using log3 quiet at2
            by (auto intro: exI [of _ "c1 @ c2 @ c3"] exI [of _ "(c1 @ c2 @ c3) @ [Place p2]"])
        qed
      qed (use passed \<open>om_log s1 = om_log s @ c1\<close> \<open>placed c1 = []\<close> in auto)
    qed (use passed in auto)
  qed auto
qed

lemma placed_split:
  assumes "b1 @ Place p1 # a1 = b2 @ Place p2 # a2" "placed b1 = []" "placed b2 = []"
  shows "b1 = b2 \<and> p1 = p2 \<and> a1 = a2"
  using assms
proof (induction b1 arbitrary: b2)
  case Nil
  then show ?case by (cases b2) auto
next
  case (Cons c b1)
  then obtain b2' where "b2 = c # b2'" by (cases b2) auto
  with Cons show ?case by (cases c) auto
qed

lemma placed_last_split:
  assumes "b1 @ Place p1 # a1 = b2 @ Place p2 # a2" "placed a1 = []" "placed a2 = []"
  shows "b1 = b2 \<and> p1 = p2 \<and> a1 = a2"
proof -
  have rev: "placed xs = [] \<Longrightarrow> placed (rev xs) = []" for xs
    by (induction xs rule: placed.induct) auto
  have "rev a1 @ Place p1 # rev b1 = rev a2 @ Place p2 # rev b2"
    using arg_cong [OF assms(1), of rev] by simp
  from placed_split [OF this] rev assms(2,3) show ?thesis by auto
qed

lemma submission_calls_first:
  assumes "submission_calls br log0 ok h calls" "calls = before @ Place p # after" "placed after \<noteq> []"
  shows "reply_rejected (br (log0 @ before) (Place p))"
  using assms(1)
proof cases
  case none
  then show ?thesis using assms(2) by simp
next
  case (one b a p1)
  have "length (placed calls) = 1" using one by simp
  moreover have "length (placed calls) \<ge> 2" using assms(2,3) by (cases "placed after") auto
  ultimately show ?thesis by simp
next
  case (two b mid p1 p2)
  have "placed before = []"
  proof (rule ccontr)
    assume "placed before \<noteq> []"
    then have "length (placed calls) \<ge> 3" using assms(2,3) by (cases "placed after"; cases "placed before") auto
    then show False using two by simp
  qed
  then have "b = before \<and> p1 = p" using placed_split [of b p1 "mid @ [Place p2]" before p after] two assms(2) by simp
  then show ?thesis using two by simp
qed

lemma submission_calls_last:
  assumes "submission_calls br log0 ok h calls" "calls = before @ Place p # after" "placed after = []"
    "reply_unknown (br (log0 @ before) (Place p))"
  shows h
  using assms(1)
proof cases
  case none
  then show ?thesis using assms(2) by simp
next
  case (one b a p1)
  have "b = before \<and> p1 = p \<and> a = after"
    by (rule placed_last_split [OF trans [OF one(1) [symmetric] assms(2)] one(3) assms(3)])
  then show ?thesis using one(5) assms(4) by blast
next
  case (two b mid p1 p2)
  have "(b @ Place p1 # mid) @ Place p2 # [] = before @ Place p # after" using two(1) assms(2) by simp
  from placed_last_split [OF this placed.simps(1) assms(3)]
  have "b @ Place p1 # mid = before \<and> p2 = p" by blast
  then show ?thesis using two(7) assms(4) by blast
qed

lemma om_guard_Inr [simp]: "om_guard g s = (r, s') \<longleftrightarrow> r = Inr (g (om_log s)) \<and> s' = s"
  by (auto simp: om_guard_def)

lemma submit_retry_calls:
  assumes "submit_with_increment_retry br tx nid LimitPrice g p s = (res, s')" "entry_at oid symbl q v p" "oid \<noteq> []"
  shows "\<exists>calls. om_log s' = om_log s @ calls
    \<and> submission_calls br (om_log s) (entry_at oid symbl q v) (held oid res) calls"
proof (cases "text_truthy (g (om_log s))")
  case True
  then show ?thesis
    using assms(1) by (auto simp: submit_with_increment_retry_def sx_bind_def om_guard_def sx_return_def
        intro!: submission_calls.none)
next
  case False
  obtain res1 s1 where sub: "submit br tx p s = (res1, s1)" by fastforce
  note eff = submit_effect [OF sub]
  from eff(2) obtain r where r: "res1 = Inr r"
    "reply_unknown (br (om_log s) (Place p)) \<Longrightarrow> or_submission_uncertain r \<and> or_order_id r = Some oid"
    "or_increment_rejected r \<Longrightarrow> reply_rejected (br (om_log s) (Place p))"
    using assms(2,3) by (auto simp: entry_at_def)
  have one: "submission_calls br (om_log s) (entry_at oid symbl q v) (held oid res) [Place p]" if "res = Inr r"
    using submission_calls.one [of "[]" "[]" "entry_at oid symbl q v" p br "om_log s" "held oid res"] assms(2) r(2) that
    by (auto simp: held_def)
  have run: "(if text_truthy (or_order_id r) \<or> \<not> text_truthy (or_error r) then sx_return r
       else case (if or_increment_rejected r then extract_price_increment (or_error r) else None) of
         None \<Rightarrow> sx_return r
       | Some x \<Rightarrow>
           if normalize_option_symbol (op_symbol p) = [] then sx_return r
           else (case get_price LimitPrice p of
               None \<Rightarrow> sx_raise (Py_Error KeyError)
             | Some original \<Rightarrow> retry_submission br tx nid LimitPrice g original x p)) s1 = (res, s')"
    using assms(1) False sub r(1) by (simp add: submit_with_increment_retry_def sx_bind_def om_guard_def)
  consider (stop) "sx_return r s1 = (res, s')"
    | (again) x original where "or_increment_rejected r" "op_limit_price p = Some original"
        "retry_submission br tx nid LimitPrice g original x p s1 = (res, s')"
    using run assms(2) by (auto simp: entry_at_def split: if_splits option.splits)
  then show ?thesis
  proof cases
    case stop
    then show ?thesis using one eff(1) by (auto simp: sx_return_def)
  next
    case again
    from retry_calls [OF again(3) assms(2) again(2) assms(3)] obtain c2 where c2: "om_log s' = om_log s1 @ c2"
      and split: "placed c2 = [] \<or> (\<exists>mid p2. c2 = mid @ [Place p2] \<and> placed mid = []
        \<and> entry_at oid symbl q v p2 \<and> (reply_unknown (br (om_log s1 @ mid) (Place p2)) \<longrightarrow> held oid res))" by blast
    have rej: "reply_rejected (br (om_log s) (Place p))" by (rule r(3) [OF again(1)])
    then have known: "\<not> reply_unknown (br (om_log s) (Place p))" by (simp add: reply_unknown_def)
    have "submission_calls br (om_log s) (entry_at oid symbl q v) (held oid res) (Place p # c2)"
      using split
    proof
      assume "placed c2 = []"
      then show ?thesis
        using submission_calls.one [of "[]" c2 "entry_at oid symbl q v" p br "om_log s" "held oid res"] assms(2) known by simp
    next
      assume "\<exists>mid p2. c2 = mid @ [Place p2] \<and> placed mid = []
        \<and> entry_at oid symbl q v p2 \<and> (reply_unknown (br (om_log s1 @ mid) (Place p2)) \<longrightarrow> held oid res)"
      then show ?thesis
        using submission_calls.two [of "[]" _ "entry_at oid symbl q v" p _ br "om_log s" "held oid res"] assms(2) rej eff(1)
        by auto
    qed
    then show ?thesis using c2 eff(1) by auto
  qed
qed

lemma place_entry_calls:
  assumes "place_entry_order br tx nid sy limit q oid g s = (res, s')" "oid \<noteq> []"
  shows "\<exists>calls. om_log s' = om_log s @ calls
    \<and> submission_calls br (om_log s) (entry_at oid (normalize_option_symbol sy) q (round_price limit)) (held oid res) calls"
proof -
  from assms(1) [unfolded place_entry_order_def] correction_quiet show ?thesis
  proof (cases rule: bind_quiet_cases)
    case (failed e calls)
    then show ?thesis by (auto intro: submission_calls.none)
  next
    case (passed p s1 calls)
    from submit_retry_calls [OF passed(4) correction_at [OF passed(1) entry_payload_at] assms(2)]
    obtain c2 where c2: "om_log s' = om_log s1 @ c2"
      "submission_calls br (om_log s1) (entry_at oid (normalize_option_symbol sy) q (round_price limit)) (held oid res) c2"
      by blast
    have "submission_calls br (om_log s) (entry_at oid (normalize_option_symbol sy) q (round_price limit)) (held oid res) (calls @ c2)"
      using submission_calls_prefix [OF c2(2) [unfolded passed(2)] passed(3)] .
    then show ?thesis using c2(1) passed(2) by auto
  qed
qed

text \<open>
  C7. An entry is submitted safely. Against any broker, one call of \<open>place_entry_order\<close> makes
  at most two order requests; each is a buy of the requested quantity and contract under the
  client's order id, at a limit of at most the requested one; a second is made only after the
  first was definitely rejected; and when the reply to the last is unknown (a timeout, a
  server error, a reply without an id) the call reports it uncertain under the client's id, so
  the position slot stays held.
\<close>

theorem entry_submission_safe:
  assumes "place_entry_order br tx nid sy limit q oid g s = (res, s')" "oid \<noteq> []"
  shows "\<exists>calls. om_log s' = om_log s @ calls \<and> length (placed calls) \<le> 2
    \<and> (\<forall>p\<in>set (placed calls). op_order_id p = oid \<and> op_symbol p = normalize_option_symbol sy
         \<and> op_side p = ''BUY'' \<and> op_quantity p = q \<and> (\<exists>x. op_limit_price p = Some x \<and> x \<le> round_price limit))
    \<and> (\<forall>before p after. calls = before @ Place p # after \<and> placed after \<noteq> [] \<longrightarrow>
         (\<exists>e. br (om_log s @ before) (Place p) = Failure e \<and> definite_rejection e))
    \<and> (\<forall>before p after. calls = before @ Place p # after \<and> placed after = []
         \<and> reply_unknown (br (om_log s @ before) (Place p)) \<longrightarrow>
         (\<exists>r. res = Inr r \<and> or_submission_uncertain r \<and> or_order_id r = Some oid))"
proof -
  let ?ok = "entry_at oid (normalize_option_symbol sy) q (round_price limit)"
  obtain calls where log: "om_log s' = om_log s @ calls" and c: "submission_calls br (om_log s) ?ok (held oid res) calls"
    using place_entry_calls [OF assms] by blast
  have ok: "\<forall>p\<in>set (placed calls). ?ok p" using c by cases auto
  have two: "length (placed calls) \<le> 2" using c by cases simp_all
  have first: "\<exists>e. br (om_log s @ before) (Place p) = Failure e \<and> definite_rejection e"
    if "calls = before @ Place p # after" "placed after \<noteq> []" for before p after
    using submission_calls_first [OF c that] by (auto simp: reply_rejected_def split: broker_reply.splits)
  have last: "held oid res" if "calls = before @ Place p # after" "placed after = []"
    "reply_unknown (br (om_log s @ before) (Place p))" for before p after
    by (rule submission_calls_last [OF c that])
  show ?thesis
    using log two
  proof (intro exI [of _ calls] conjI)
    show "\<forall>p\<in>set (placed calls). op_order_id p = oid \<and> op_symbol p = normalize_option_symbol sy
         \<and> op_side p = ''BUY'' \<and> op_quantity p = q \<and> (\<exists>x. op_limit_price p = Some x \<and> x \<le> round_price limit)"
      using ok by (auto simp: entry_at_def)
  qed (use first last in \<open>auto simp: held_def\<close>)
qed

text \<open>A broker that times out, and then would accept.\<close>

definition timeout_broker :: broker where
  "timeout_broker calls c = (case c of
      Place _ \<Rightarrow> if placed calls = [] then Failure (Timeout_Error ''ReadTimeout'' ''timed out'')
                 else Reply [(''orderId'', PStr ''x'')]
    | _ \<Rightarrow> Reply [])"

definition fresh_orders :: order_state where
  "fresh_orders = \<lparr>om_increments = [], om_underlying_increments = [], om_log = []\<rparr>"

definition demo_timeout :: "(broker_exc + order_result) \<times> order_state" where
  "demo_timeout = place_entry_order timeout_broker (\<lambda>_. []) ''n'' ''SPY260101C00500000'' 2 1 ''id1'' no_guard fresh_orders"

lemma demo_timeout_log: "length (placed (om_log (snd demo_timeout))) = 1"
  by code_simp

theorem entry_submission_safe_witness:
  "length (placed (om_log (snd demo_timeout))) \<le> 2
   \<and> list_all (\<lambda>p. op_side p = ''BUY'') (placed (om_log (snd demo_timeout)))"
proof -
  have "place_entry_order timeout_broker (\<lambda>_. []) ''n'' ''SPY260101C00500000'' 2 1 ''id1'' no_guard fresh_orders
      = (fst demo_timeout, snd demo_timeout)"
    by (simp add: demo_timeout_def)
  from entry_submission_safe [OF this] obtain calls where
    "om_log (snd demo_timeout) = om_log fresh_orders @ calls" "length (placed calls) \<le> 2"
    "\<forall>p\<in>set (placed calls). op_side p = ''BUY''" by auto
  then show ?thesis by (simp add: fresh_orders_def list_all_iff)
qed

section \<open>Waiting for a fill ends\<close>

lemma wait_polls_ends:
  "deadline \<le> clock (k + fuel) \<Longrightarrow> wait_polls br clock deadline oid (Suc fuel) k last_payload s \<noteq> None"
proof (induction fuel arbitrary: k last_payload s)
  case (Suc fuel)
  obtain status payload error s' where st: "get_order_status br oid s = ((status, payload, error), s')"
    by (metis prod.exhaust)
  have "wait_polls br clock deadline oid (Suc fuel) (Suc k) payload s' \<noteq> None"
    using Suc.prems by (intro Suc.IH) simp
  then show ?case
    by (simp add: wait_polls.simps(2) [of _ _ _ _ "Suc fuel"] st Let_def del: wait_polls.simps not_None_eq)
qed (auto split: prod.split)

lemma wait_polls_filled:
  "wait_polls br clock deadline oid fuel k last_payload s = Some ((True, payload, reason), s') \<Longrightarrow>
   \<exists>d. payload = Some d \<and> py_upper (text_or (payload_status d)) = ''FILLED''"
proof (induction fuel arbitrary: k last_payload s)
  case (Suc fuel)
  obtain status p error s1 where st: "get_order_status br oid s = ((status, p, error), s1)"
    by (metis prod.exhaust)
  have "\<not> text_truthy error \<Longrightarrow> status \<noteq> None \<Longrightarrow> \<exists>d. p = Some d \<and> payload_status d = status"
    using st by (auto simp: get_order_status_def split: prod.splits sum.splits broker_exc.splits if_splits)
  then show ?case
    using Suc st by (cases status) (auto simp: Let_def py_upper_def split: if_splits)
qed simp

lemma clock_advances: "(\<And>k. clock k + step \<le> clock (Suc k)) \<Longrightarrow> clock 0 + int n * step \<le> (clock n :: int)"
proof (induction n)
  case (Suc n)
  have "clock 0 + int n * step + step \<le> clock n + step" using Suc by simp
  also have "\<dots> \<le> clock (Suc n)" by (rule Suc.prems)
  finally show ?case by (simp add: algebra_simps)
qed simp

text \<open>
  C27. Waiting for a fill ends. If every poll takes at least \<open>step > 0\<close> microseconds of the
  clock, as its sleep makes it, the loop returns after at most \<open>timeout div step + 2\<close> rounds
  whatever the broker answers; and it reports a fill only when the broker's last status said
  so.
\<close>

theorem fill_wait_ends:
  assumes "0 < step" "\<And>k. clock k + step \<le> clock (Suc k)"
  shows "\<exists>filled payload reason s'. wait_for_fill br clock oid timeout
      (nat (timeout * usec_per_sec div step) + 2) s = Some ((filled, payload, reason), s')
    \<and> (filled \<longrightarrow> (\<exists>d. payload = Some d \<and> py_upper (text_or (payload_status d)) = ''FILLED''))"
proof -
  let ?T = "timeout * usec_per_sec" and ?n = "nat (timeout * usec_per_sec div step) + 1"
  have "?T = (?T div step) * step + ?T mod step" by simp
  moreover have "?T mod step < step" using assms(1) by simp
  moreover have "(?T div step) * step \<le> int (nat (?T div step)) * step"
    using assms(1) by (intro mult_right_mono) auto
  ultimately have "?T \<le> int (nat (?T div step)) * step + step" by linarith
  also have "\<dots> = int ?n * step" by (simp add: algebra_simps)
  finally have T: "?T \<le> int ?n * step" .
  have "int ?n * step \<le> int (1 + ?n) * step" using assms(1) by (intro mult_right_mono) auto
  then have "clock 0 + ?T \<le> clock (1 + ?n)"
    using T clock_advances [of clock step "1 + ?n", OF assms(2)] by linarith
  from wait_polls_ends [where clock = clock and k = 1 and fuel = ?n, OF this, of br oid None s]
  obtain filled payload reason s' where
    "wait_polls br clock (clock 0 + ?T) oid (Suc ?n) 1 None s = Some ((filled, payload, reason), s')"
    by (auto simp del: wait_polls.simps)
  then show ?thesis
    unfolding wait_for_fill_def using wait_polls_filled by (cases filled) (auto simp del: wait_polls.simps)
qed

theorem fill_wait_ends_witness:
  "\<exists>filled payload reason s'. wait_for_fill timeout_broker (\<lambda>k. 2000000 * int k) ''id1'' 20
      (nat (20 * usec_per_sec div 2000000) + 2) fresh_orders = Some ((filled, payload, reason), s')"
  using fill_wait_ends [of 2000000 "\<lambda>k. 2000000 * int k" timeout_broker "''id1''" 20 fresh_orders] by auto

end
