(* ===== verification/Trade_Store.thy ===== *)
theory Trade_Store
  imports Cash_Repo "HOL-Library.List_Lexorder"
begin

text \<open>
  \<open>SQLiteTradeStateRepository\<close> of \<open>src/bhiksha/persistence/sqlite.py\<close>: the tables of trade
  sessions and banked partial legs (that of entry-risk reservations is in \<open>Risk_Manager\<close>). A row holds what the columns
  hold: times as ISO texts, the exit mode as its word, flags as integers, a broker payload as
  JSON text. The codec (\<open>isoformat\<close>, \<open>fromisoformat\<close>, \<open>json\<close>) is a parameter. Every write is one
  statement of SQL and one step here; \<open>now\<close> is the text of the time it happens. The order of
  rows with equal keys, which SQL leaves open, is the order of insertion.
\<close>

section \<open>Records and rows\<close>

text \<open>The research-lineage columns, which only reports read.\<close>

datatype lineage_column = ActivePlanId | ResearchRunId | EvidencePacketId | EvidenceArtifactSha256
  | EvidenceArtifactUri | ExperimentId | CohortId | CohortContractSha256 | DeploymentContractSha256
  | DeclaredOptionSelectionContractId | DeclaredOptionSelectionContractSha256
  | AuthorizationIdentityStatus | ExitPolicyId | ExitPolicySha256 | OptionSelectionSnapshotId
  | OptionSelectionSnapshotPersisted | OptionCandidateSetSha256 | ActualOptionSelectionSha256
  | CanaryId | CanaryAuthorizationSha256 | CanaryStartAt | CanaryExpiresAt | PlanRevisionId
  | SessionId | FactReceiptId | FrozenEntryRiskUsd | FrozenRoundTripCostUsd

type_synonym lineage = "lineage_column \<Rightarrow> pyval"

text \<open>\<open>TradeRecord\<close> with its payload and lineage.\<close>

record trade_session = trade_record +
  ts_exit_broker_payload :: "pyval option"
  ts_lineage :: lineage

record session_row =
  ss_trade_id :: string
  ss_deployment_id :: string
  ss_symbol :: string
  ss_option_symbol :: "string option"
  ss_quantity :: int
  ss_entry_price :: "real option"
  ss_underlying_entry_price :: "real option"
  ss_entry_timestamp :: "string option"
  ss_status :: string
  ss_entry_order_id :: "string option"
  ss_stop_order_id :: "string option"
  ss_stop_price :: "real option"
  ss_target_order_id :: "string option"
  ss_target_price :: "real option"
  ss_exit_order_id :: "string option"
  ss_exit_limit_price :: "real option"
  ss_exit_submitted_at :: "string option"
  ss_exit_mode :: "string option"
  ss_exit_price :: "real option"
  ss_exit_filled_quantity :: "int option"
  ss_exit_filled_at :: "string option"
  ss_exit_order_status :: "string option"
  ss_exit_order_type :: "string option"
  ss_exit_broker_payload :: "string option"
  ss_exit_rule :: "string option"
  ss_can_ladder :: "int option"
  ss_lineage :: lineage
  ss_updated_at :: string

record partial_leg = partial_fill +
  pl_deployment_id :: string
  pl_symbol :: string
  pl_option_symbol :: "string option"
  pl_submitted_at :: "pydt option"
  pl_order_type :: "string option"
  pl_broker_payload :: "pyval option"

record partial_row =
  lr_id :: int
  lr_trade_id :: string
  lr_deployment_id :: string
  lr_symbol :: string
  lr_option_symbol :: "string option"
  lr_closed_quantity :: int
  lr_order_id :: "string option"
  lr_exit_rule :: "string option"
  lr_submitted_at :: "string option"
  lr_fill_price :: "real option"
  lr_fill_quantity :: "int option"
  lr_filled_at :: "string option"
  lr_order_status :: "string option"
  lr_order_type :: "string option"
  lr_broker_payload :: "string option"
  lr_origin :: string
  lr_enrich_attempts :: int
  lr_abandoned_reason :: "string option"

text \<open>\<open>db_next_leg\<close> is the \<open>AUTOINCREMENT\<close> counter.\<close>

record trade_db =
  db_trades :: "session_row list"
  db_legs :: "partial_row list"
  db_next_leg :: int

section \<open>The codec\<close>

record codec =
  iso_text :: "pydt \<Rightarrow> string"
  iso_read :: "string \<Rightarrow> pydt option"
  json_text :: "pyval \<Rightarrow> string"
  json_read :: "string \<Rightarrow> pyval option"

fun exit_mode_value :: "exit_mode \<Rightarrow> string" where
  "exit_mode_value STRATEGY = ''strategy''"
| "exit_mode_value HARD_FLAT_MODE = ''hard_flat''"
| "exit_mode_value EMERGENCY = ''emergency''"

text \<open>\<open>ExitMode(text)\<close>.\<close>

definition exit_mode_of :: "string \<Rightarrow> exit_mode result" where
  "exit_mode_of s = (if s = ''strategy'' then Inr STRATEGY
     else if s = ''hard_flat'' then Inr HARD_FLAT_MODE
     else if s = ''emergency'' then Inr EMERGENCY else Inl ValueError)"

definition flag_column :: "bool option \<Rightarrow> int option" where
  "flag_column = map_option (\<lambda>b. if b then 1 else 0)"

definition encode_lineage :: "lineage \<Rightarrow> lineage" where
  "encode_lineage l = (\<lambda>c. if c = OptionSelectionSnapshotPersisted
     then (case l c of PNone \<Rightarrow> PNone | v \<Rightarrow> PInt (if py_truthy v then 1 else 0)) else l c)"

definition decode_lineage :: "lineage \<Rightarrow> lineage" where
  "decode_lineage l = (\<lambda>c. if c = OptionSelectionSnapshotPersisted
     then (case l c of PNone \<Rightarrow> PNone | v \<Rightarrow> PBool (py_truthy v)) else l c)"

text \<open>The values bound to the columns by \<open>_upsert_trade_sync\<close>.\<close>

definition row_of_session :: "codec \<Rightarrow> string \<Rightarrow> trade_session \<Rightarrow> session_row" where
  "row_of_session c now r = \<lparr>ss_trade_id = tr_trade_id r, ss_deployment_id = tr_deployment_id r,
     ss_symbol = tr_symbol r, ss_option_symbol = tr_option_symbol r, ss_quantity = tr_quantity r,
     ss_entry_price = tr_entry_price r, ss_underlying_entry_price = tr_underlying_entry_price r,
     ss_entry_timestamp = map_option (iso_text c) (tr_entry_timestamp r), ss_status = tr_status r,
     ss_entry_order_id = tr_entry_order_id r, ss_stop_order_id = tr_stop_order_id r,
     ss_stop_price = tr_stop_price r, ss_target_order_id = tr_target_order_id r,
     ss_target_price = tr_target_price r, ss_exit_order_id = tr_exit_order_id r,
     ss_exit_limit_price = tr_exit_limit_price r,
     ss_exit_submitted_at = map_option (iso_text c) (tr_exit_submitted_at r),
     ss_exit_mode = map_option exit_mode_value (tr_exit_mode r), ss_exit_price = tr_exit_price r,
     ss_exit_filled_quantity = tr_exit_filled_quantity r,
     ss_exit_filled_at = map_option (iso_text c) (tr_exit_filled_at r),
     ss_exit_order_status = tr_exit_order_status r, ss_exit_order_type = tr_exit_order_type r,
     ss_exit_broker_payload = map_option (json_text c) (ts_exit_broker_payload r),
     ss_exit_rule = tr_exit_rule r, ss_can_ladder = flag_column (tr_can_ladder r),
     ss_lineage = encode_lineage (ts_lineage r), ss_updated_at = now\<rparr>"

text \<open>\<open>datetime.fromisoformat(column) if column else None\<close>, and the same for JSON and words.\<close>

definition read_column :: "(string \<Rightarrow> 'a result) \<Rightarrow> string option \<Rightarrow> 'a option result" where
  "read_column f v = (if text_truthy v then bind_result (f (text_or v)) (\<lambda>x. Inr (Some x)) else Inr None)"

definition read_or_value_error :: "(string \<Rightarrow> 'a option) \<Rightarrow> string \<Rightarrow> 'a result" where
  "read_or_value_error f s = (case f s of None \<Rightarrow> Inl ValueError | Some x \<Rightarrow> Inr x)"

definition trade_record_from_row :: "codec \<Rightarrow> session_row \<Rightarrow> trade_session result" where
  "trade_record_from_row c w =
     bind_result (read_column (read_or_value_error (iso_read c)) (ss_entry_timestamp w)) (\<lambda>entered.
     bind_result (read_column (read_or_value_error (iso_read c)) (ss_exit_submitted_at w)) (\<lambda>submitted.
     bind_result (read_column exit_mode_of (ss_exit_mode w)) (\<lambda>mode.
     bind_result (read_column (read_or_value_error (iso_read c)) (ss_exit_filled_at w)) (\<lambda>filled.
     bind_result (read_column (read_or_value_error (json_read c)) (ss_exit_broker_payload w)) (\<lambda>payload.
     Inr \<lparr>tr_trade_id = ss_trade_id w, tr_deployment_id = ss_deployment_id w, tr_symbol = ss_symbol w,
       tr_option_symbol = ss_option_symbol w, tr_quantity = ss_quantity w, tr_entry_price = ss_entry_price w,
       tr_underlying_entry_price = ss_underlying_entry_price w, tr_entry_timestamp = entered,
       tr_status = ss_status w, tr_entry_order_id = ss_entry_order_id w, tr_stop_order_id = ss_stop_order_id w,
       tr_stop_price = ss_stop_price w, tr_target_order_id = ss_target_order_id w,
       tr_target_price = ss_target_price w, tr_exit_order_id = ss_exit_order_id w,
       tr_exit_limit_price = ss_exit_limit_price w, tr_exit_submitted_at = submitted, tr_exit_mode = mode,
       tr_exit_price = ss_exit_price w, tr_exit_filled_quantity = ss_exit_filled_quantity w,
       tr_exit_filled_at = filled, tr_exit_order_status = ss_exit_order_status w,
       tr_exit_order_type = ss_exit_order_type w, tr_exit_rule = ss_exit_rule w,
       tr_can_ladder = map_option (\<lambda>n. n \<noteq> 0) (ss_can_ladder w),
       ts_exit_broker_payload = payload, ts_lineage = decode_lineage (ss_lineage w)\<rparr>)))))"

section \<open>Trade sessions\<close>

text \<open>\<open>COALESCE(new, old)\<close> and the same with the stored value first.\<close>

definition coalesce :: "'a option \<Rightarrow> 'a option \<Rightarrow> 'a option" where
  "coalesce x y = (case x of None \<Rightarrow> y | Some _ \<Rightarrow> x)"

definition merge_lineage :: "lineage \<Rightarrow> lineage \<Rightarrow> lineage" where
  "merge_lineage stored fresh = (\<lambda>c. if stored c = PNone then fresh c else stored c)"

text \<open>The condition of the five \<open>CASE\<close> expressions: a write that knows of no exit.\<close>

definition exit_unaware :: "session_row \<Rightarrow> session_row \<Rightarrow> bool" where
  "exit_unaware old new \<longleftrightarrow> ss_status old = ''exit_pending''
     \<and> ss_status new \<in> {''open_protected'', ''open_unprotected''}
     \<and> ss_exit_order_id new = None \<and> ss_exit_submitted_at new = None \<and> ss_exit_mode new = None"

definition merge_session :: "session_row \<Rightarrow> session_row \<Rightarrow> session_row" where
  "merge_session old new = (let keep = exit_unaware old new in new\<lparr>
     ss_status := (if keep then ss_status old else ss_status new),
     ss_exit_order_id := (if keep then ss_exit_order_id old else ss_exit_order_id new),
     ss_exit_limit_price := (if keep then ss_exit_limit_price old else ss_exit_limit_price new),
     ss_exit_submitted_at := (if keep then ss_exit_submitted_at old else ss_exit_submitted_at new),
     ss_exit_mode := (if keep then ss_exit_mode old else ss_exit_mode new),
     ss_exit_price := coalesce (ss_exit_price new) (ss_exit_price old),
     ss_exit_filled_quantity := coalesce (ss_exit_filled_quantity new) (ss_exit_filled_quantity old),
     ss_exit_filled_at := coalesce (ss_exit_filled_at new) (ss_exit_filled_at old),
     ss_exit_order_status := coalesce (ss_exit_order_status new) (ss_exit_order_status old),
     ss_exit_order_type := coalesce (ss_exit_order_type new) (ss_exit_order_type old),
     ss_exit_broker_payload := coalesce (ss_exit_broker_payload new) (ss_exit_broker_payload old),
     ss_exit_rule := coalesce (ss_exit_rule new) (ss_exit_rule old),
     ss_can_ladder := coalesce (ss_can_ladder new) (ss_can_ladder old),
     ss_lineage := merge_lineage (ss_lineage old) (ss_lineage new)\<rparr>)"

text \<open>\<open>INSERT ... ON CONFLICT(key) DO UPDATE\<close> with a merge of the two rows.\<close>

fun merge_row :: "('a \<Rightarrow> 'k) \<Rightarrow> ('a \<Rightarrow> 'a \<Rightarrow> 'a) \<Rightarrow> 'a \<Rightarrow> 'a list \<Rightarrow> 'a list" where
  "merge_row key f x [] = [x]"
| "merge_row key f x (y # ys) = (if key y = key x then f y x # ys else y # merge_row key f x ys)"

definition sq_upsert_trade :: "codec \<Rightarrow> string \<Rightarrow> trade_session \<Rightarrow> trade_db \<Rightarrow> trade_db" where
  "sq_upsert_trade c now r db = db\<lparr>db_trades :=
     merge_row ss_trade_id merge_session (row_of_session c now r) (db_trades db)\<rparr>"

text \<open>The facts of an exit that a close passes on.\<close>

record exit_facts =
  ef_exit_order_id :: "string option"
  ef_exit_price :: "real option"
  ef_exit_filled_quantity :: "int option"
  ef_exit_filled_at :: "pydt option"
  ef_exit_order_status :: "string option"
  ef_exit_order_type :: "string option"
  ef_exit_broker_payload :: "pyval option"

definition close_row :: "codec \<Rightarrow> string \<Rightarrow> exit_facts \<Rightarrow> string option \<Rightarrow> session_row \<Rightarrow> session_row" where
  "close_row c now f rule w = w\<lparr>
     ss_status := ''closed'',
     ss_exit_order_id := coalesce (ef_exit_order_id f) (ss_exit_order_id w),
     ss_exit_price := coalesce (ef_exit_price f) (ss_exit_price w),
     ss_exit_filled_quantity := coalesce (ef_exit_filled_quantity f) (ss_exit_filled_quantity w),
     ss_exit_filled_at := coalesce (map_option (iso_text c) (ef_exit_filled_at f)) (ss_exit_filled_at w),
     ss_exit_order_status := coalesce (ef_exit_order_status f) (ss_exit_order_status w),
     ss_exit_order_type := coalesce (ef_exit_order_type f) (ss_exit_order_type w),
     ss_exit_broker_payload := coalesce (map_option (json_text c) (ef_exit_broker_payload f)) (ss_exit_broker_payload w),
     ss_exit_rule := coalesce rule (ss_exit_rule w),
     ss_updated_at := now\<rparr>"

definition update_where :: "('a \<Rightarrow> bool) \<Rightarrow> ('a \<Rightarrow> 'a) \<Rightarrow> 'a list \<Rightarrow> 'a list" where
  "update_where P f xs = map (\<lambda>x. if P x then f x else x) xs"

definition sq_mark_closed ::
  "codec \<Rightarrow> string \<Rightarrow> string \<Rightarrow> exit_facts \<Rightarrow> string option \<Rightarrow> trade_db \<Rightarrow> trade_db" where
  "sq_mark_closed c now tid f rule db = db\<lparr>db_trades :=
     update_where (\<lambda>w. ss_trade_id w = tid) (close_row c now f rule) (db_trades db)\<rparr>"

definition open_row :: "string \<Rightarrow> session_row \<Rightarrow> bool" where
  "open_row tid w \<longleftrightarrow> ss_trade_id w = tid \<and> py_lower (ss_status w) \<noteq> ''closed''"

text \<open>Whether this caller closed the trade: \<open>cursor.rowcount == 1\<close>.\<close>

definition sq_mark_closed_if_open ::
  "codec \<Rightarrow> string \<Rightarrow> string \<Rightarrow> exit_facts \<Rightarrow> string option \<Rightarrow> trade_db \<Rightarrow> bool \<times> trade_db" where
  "sq_mark_closed_if_open c now tid f rule db =
     (length (filter (open_row tid) (db_trades db)) = 1,
      db\<lparr>db_trades := update_where (open_row tid) (close_row c now f rule) (db_trades db)\<rparr>)"

section \<open>Reading sessions\<close>

definition order_desc :: "('a \<Rightarrow> string) \<Rightarrow> 'a list \<Rightarrow> 'a list" where
  "order_desc key xs = rev (sort_key key (rev xs))"

fun read_rows :: "('w \<Rightarrow> 'a result) \<Rightarrow> 'w list \<Rightarrow> 'a list result" where
  "read_rows f [] = Inr []"
| "read_rows f (w # ws) = bind_result (f w) (\<lambda>r. bind_result (read_rows f ws) (\<lambda>rs. Inr (r # rs)))"

definition sq_get_open_trades :: "codec \<Rightarrow> trade_db \<Rightarrow> trade_session list result" where
  "sq_get_open_trades c db = read_rows (trade_record_from_row c)
     (order_desc ss_updated_at (filter (\<lambda>w. ss_status w \<noteq> ''closed'') (db_trades db)))"

definition sq_get_recent_trades :: "codec \<Rightarrow> int \<Rightarrow> trade_db \<Rightarrow> trade_session list result" where
  "sq_get_recent_trades c limit db = read_rows (trade_record_from_row c)
     (take (nat (max limit 1)) (order_desc ss_updated_at (db_trades db)))"

definition sq_get_closed_deployment_trades :: "codec \<Rightarrow> string \<Rightarrow> trade_db \<Rightarrow> trade_session list result" where
  "sq_get_closed_deployment_trades c dep db = read_rows (trade_record_from_row c)
     (order_desc (\<lambda>w. case ss_exit_filled_at w of None \<Rightarrow> ss_updated_at w | Some t \<Rightarrow> t)
       (order_desc ss_trade_id
         (filter (\<lambda>w. ss_deployment_id w = dep \<and> ss_status w = ''closed'') (db_trades db))))"

section \<open>Banked partial legs\<close>

definition row_of_leg :: "codec \<Rightarrow> int \<Rightarrow> partial_leg \<Rightarrow> partial_row" where
  "row_of_leg c i r = \<lparr>lr_id = i, lr_trade_id = pf_trade_id r, lr_deployment_id = pl_deployment_id r,
     lr_symbol = pl_symbol r, lr_option_symbol = pl_option_symbol r, lr_closed_quantity = pf_closed_quantity r,
     lr_order_id = pf_order_id r, lr_exit_rule = pf_exit_rule r,
     lr_submitted_at = map_option (iso_text c) (pl_submitted_at r), lr_fill_price = pf_fill_price r,
     lr_fill_quantity = pf_fill_quantity r, lr_filled_at = map_option (iso_text c) (pf_filled_at r),
     lr_order_status = pf_order_status r, lr_order_type = pl_order_type r,
     lr_broker_payload = map_option (json_text c) (pl_broker_payload r), lr_origin = pf_origin r,
     lr_enrich_attempts = 0, lr_abandoned_reason = None\<rparr>"

definition partial_fill_record_from_row :: "codec \<Rightarrow> partial_row \<Rightarrow> partial_leg result" where
  "partial_fill_record_from_row c w =
     bind_result (read_column (read_or_value_error (iso_read c)) (lr_submitted_at w)) (\<lambda>submitted.
     bind_result (read_column (read_or_value_error (iso_read c)) (lr_filled_at w)) (\<lambda>filled.
     bind_result (read_column (read_or_value_error (json_read c)) (lr_broker_payload w)) (\<lambda>payload.
     Inr \<lparr>pf_id = Some (lr_id w), pf_trade_id = lr_trade_id w, pf_closed_quantity = lr_closed_quantity w,
       pf_order_id = lr_order_id w, pf_exit_rule = lr_exit_rule w, pf_fill_price = lr_fill_price w,
       pf_fill_quantity = lr_fill_quantity w, pf_filled_at = filled, pf_order_status = lr_order_status w,
       pf_origin = (if lr_origin w = [] then ''partial_scale'' else lr_origin w),
       pf_enrich_attempts = lr_enrich_attempts w, pf_abandoned_reason = lr_abandoned_reason w,
       pl_deployment_id = lr_deployment_id w, pl_symbol = lr_symbol w, pl_option_symbol = lr_option_symbol w,
       pl_submitted_at = submitted, pl_order_type = lr_order_type w, pl_broker_payload = payload\<rparr>)))"

definition same_leg :: "string \<Rightarrow> string \<Rightarrow> partial_row \<Rightarrow> bool" where
  "same_leg tid oid w \<longleftrightarrow> lr_trade_id w = tid \<and> lr_order_id w = Some oid"

definition sq_record_partial_fill :: "codec \<Rightarrow> partial_leg \<Rightarrow> trade_db \<Rightarrow> int \<times> trade_db" where
  "sq_record_partial_fill c r db =
     (case (case pf_order_id r of None \<Rightarrow> None
            | Some oid \<Rightarrow> List.find (same_leg (pf_trade_id r) oid) (db_legs db)) of
        Some w \<Rightarrow> (lr_id w, db)
      | None \<Rightarrow> (db_next_leg db,
          db\<lparr>db_legs := db_legs db @ [row_of_leg c (db_next_leg db) r], db_next_leg := db_next_leg db + 1\<rparr>))"

definition enrich_row ::
  "codec \<Rightarrow> real option \<Rightarrow> int option \<Rightarrow> pydt option \<Rightarrow> string option \<Rightarrow> string option \<Rightarrow> pyval option \<Rightarrow>
   partial_row \<Rightarrow> partial_row" where
  "enrich_row c price quantity filled_at status type payload w = w\<lparr>
     lr_fill_price := coalesce price (lr_fill_price w),
     lr_fill_quantity := coalesce quantity (lr_fill_quantity w),
     lr_filled_at := coalesce (map_option (iso_text c) filled_at) (lr_filled_at w),
     lr_order_status := coalesce status (lr_order_status w),
     lr_order_type := coalesce type (lr_order_type w),
     lr_broker_payload := coalesce (map_option (json_text c) payload) (lr_broker_payload w)\<rparr>"

definition sq_enrich_partial_fill ::
  "codec \<Rightarrow> int \<Rightarrow> real option \<Rightarrow> int option \<Rightarrow> pydt option \<Rightarrow> string option \<Rightarrow> string option \<Rightarrow> pyval option \<Rightarrow>
   trade_db \<Rightarrow> trade_db" where
  "sq_enrich_partial_fill c i price quantity filled_at status type payload db = db\<lparr>db_legs :=
     update_where (\<lambda>w. lr_id w = i) (enrich_row c price quantity filled_at status type payload) (db_legs db)\<rparr>"

definition sq_get_unconfirmed_partial_fills :: "codec \<Rightarrow> int \<Rightarrow> trade_db \<Rightarrow> partial_leg list result" where
  "sq_get_unconfirmed_partial_fills c limit db = read_rows (partial_fill_record_from_row c)
     (take (nat (max limit 1))
       (sort_key lr_id (filter (\<lambda>w. lr_fill_price w = None \<and> lr_abandoned_reason w = None) (db_legs db))))"

definition sq_get_partial_fills :: "codec \<Rightarrow> string \<Rightarrow> trade_db \<Rightarrow> partial_leg list result" where
  "sq_get_partial_fills c tid db = read_rows (partial_fill_record_from_row c)
     (sort_key lr_id (filter (\<lambda>w. lr_trade_id w = tid) (db_legs db)))"

definition sq_increment_partial_fill_enrich_attempts :: "int \<Rightarrow> trade_db \<Rightarrow> trade_db" where
  "sq_increment_partial_fill_enrich_attempts i db = db\<lparr>db_legs :=
     update_where (\<lambda>w. lr_id w = i) (\<lambda>w. w\<lparr>lr_enrich_attempts := lr_enrich_attempts w + 1\<rparr>) (db_legs db)\<rparr>"

definition sq_mark_partial_fill_abandoned :: "int \<Rightarrow> string \<Rightarrow> trade_db \<Rightarrow> trade_db" where
  "sq_mark_partial_fill_abandoned i reason db = db\<lparr>db_legs :=
     update_where (\<lambda>w. lr_id w = i) (\<lambda>w. w\<lparr>lr_abandoned_reason := Some reason\<rparr>) (db_legs db)\<rparr>"

text \<open>
  Grouping: the legs of each chunk of 500 trades, in one dictionary that has every trade. The
  ids are distinct, as the caller makes them with \<open>dict.fromkeys\<close>.
\<close>

fun chunks_of :: "nat \<Rightarrow> nat \<Rightarrow> 'a list \<Rightarrow> 'a list list" where
  "chunks_of n 0 xs = []"
| "chunks_of n (Suc fuel) xs = (if xs = [] then [] else take n xs # chunks_of n fuel (drop n xs))"

definition add_to_group :: "partial_leg \<Rightarrow> (string \<times> partial_leg list) list \<Rightarrow> (string \<times> partial_leg list) list" where
  "add_to_group r groups =
     map (\<lambda>(tid, rs). (tid, if tid = pf_trade_id r then rs @ [r] else rs)) groups"

fun group_chunks ::
  "codec \<Rightarrow> partial_row list \<Rightarrow> string list list \<Rightarrow> (string \<times> partial_leg list) list \<Rightarrow>
   (string \<times> partial_leg list) list result" where
  "group_chunks c legs [] groups = Inr groups"
| "group_chunks c legs (chunk # rest) groups =
     bind_result (read_rows (partial_fill_record_from_row c)
         (sort_key lr_id (filter (\<lambda>w. lr_trade_id w \<in> set chunk) legs)))
       (\<lambda>rs. group_chunks c legs rest (fold add_to_group rs groups))"

definition sq_get_partial_fills_for_trades ::
  "codec \<Rightarrow> string list \<Rightarrow> trade_db \<Rightarrow> (string \<times> partial_leg list) list result" where
  "sq_get_partial_fills_for_trades c tids db =
     (let ids = rev (remdups (rev (filter (\<lambda>t. t \<noteq> []) tids)))
      in group_chunks c (db_legs db) (chunks_of 500 (length ids) ids) (map (\<lambda>t. (t, [])) ids))"

section \<open>Rows by key\<close>

definition find_session :: "trade_db \<Rightarrow> string \<Rightarrow> session_row option" where
  "find_session db tid = List.find (\<lambda>w. ss_trade_id w = tid) (db_trades db)"

definition keys_distinct :: "trade_db \<Rightarrow> bool" where
  "keys_distinct db \<longleftrightarrow> distinct (map ss_trade_id (db_trades db))"

lemma find_merge_row:
  assumes "\<And>y. key y = key x \<Longrightarrow> key (f y x) = key x"
  shows "List.find (\<lambda>w. key w = k) (merge_row key f x ys) =
    (if k = key x then (case List.find (\<lambda>w. key w = k) ys of None \<Rightarrow> Some x | Some y \<Rightarrow> Some (f y x))
     else List.find (\<lambda>w. key w = k) ys)"
  using assms by (induction ys) auto

lemma set_merge_row:
  "set (merge_row key f x ys) \<subseteq> insert x (set ys) \<union> (\<lambda>y. f y x) ` {y \<in> set ys. key y = key x}"
  by (induction ys) auto

lemma map_key_merge_row:
  assumes "\<And>y. key y = key x \<Longrightarrow> key (f y x) = key x"
  shows "map key (merge_row key f x ys) = (if key x \<in> key ` set ys then map key ys else map key ys @ [key x])"
  using assms by (induction ys) auto

lemma find_update_where:
  assumes "\<And>w. P w \<Longrightarrow> key (f w) = key w"
  shows "List.find (\<lambda>w. key w = k) (update_where P f ws) =
    map_option (\<lambda>w. if P w then f w else w) (List.find (\<lambda>w. key w = k) ws)"
  using assms by (induction ws) (auto simp: update_where_def)

lemma map_key_update_where:
  assumes "\<And>w. P w \<Longrightarrow> key (f w) = key w"
  shows "map key (update_where P f ws) = map key ws"
  using assms by (induction ws) (auto simp: update_where_def)

lemma merge_session_id [simp]: "ss_trade_id (merge_session old new) = ss_trade_id new"
  by (simp add: merge_session_def Let_def)

lemma close_row_id [simp]: "ss_trade_id (close_row c now f rule w) = ss_trade_id w"
  by (simp add: close_row_def)

lemma row_of_session_id [simp]: "ss_trade_id (row_of_session c now r) = tr_trade_id r"
  by (simp add: row_of_session_def)

lemma find_upsert:
  "find_session (sq_upsert_trade c now r db) tid =
     (if tid = tr_trade_id r
      then (case find_session db tid of None \<Rightarrow> Some (row_of_session c now r)
            | Some w \<Rightarrow> Some (merge_session w (row_of_session c now r)))
      else find_session db tid)"
  by (simp add: find_session_def sq_upsert_trade_def find_merge_row)

lemma find_mark_closed:
  "find_session (sq_mark_closed c now tid' f rule db) tid =
     map_option (\<lambda>w. if ss_trade_id w = tid' then close_row c now f rule w else w) (find_session db tid)"
  by (simp add: find_session_def sq_mark_closed_def find_update_where)

lemma find_mark_closed_if_open:
  "find_session (snd (sq_mark_closed_if_open c now tid' f rule db)) tid =
     map_option (\<lambda>w. if open_row tid' w then close_row c now f rule w else w) (find_session db tid)"
  by (simp add: find_session_def sq_mark_closed_if_open_def find_update_where)

lemma keys_distinct_steps [simp]:
  "keys_distinct db \<Longrightarrow> keys_distinct (sq_upsert_trade c now r db)"
  "keys_distinct db \<Longrightarrow> keys_distinct (sq_mark_closed c now tid f rule db)"
  "keys_distinct db \<Longrightarrow> keys_distinct (snd (sq_mark_closed_if_open c now tid f rule db))"
  by (auto simp: keys_distinct_def sq_upsert_trade_def sq_mark_closed_def sq_mark_closed_if_open_def
      map_key_merge_row map_key_update_where)

lemma find_session_id: "find_session db tid = Some w \<Longrightarrow> ss_trade_id w = tid"
  by (auto simp: find_session_def find_Some_iff)

section \<open>Sequences of writes\<close>

datatype store_op = Upsert string trade_session
  | Close string string exit_facts "string option"
  | Close_If_Open string string exit_facts "string option"

text \<open>A write, with the answers that conditional closes gave so far.\<close>

definition store_step ::
  "codec \<Rightarrow> store_op \<Rightarrow> (string \<times> bool) list \<times> trade_db \<Rightarrow> (string \<times> bool) list \<times> trade_db" where
  "store_step c x s = (case s of (wins, db) \<Rightarrow> (case x of
      Upsert now r \<Rightarrow> (wins, sq_upsert_trade c now r db)
    | Close now tid f rule \<Rightarrow> (wins, sq_mark_closed c now tid f rule db)
    | Close_If_Open now tid f rule \<Rightarrow>
        (let (won, db') = sq_mark_closed_if_open c now tid f rule db in (wins @ [(tid, won)], db'))))"

definition store_run :: "codec \<Rightarrow> store_op list \<Rightarrow> trade_db \<Rightarrow> (string \<times> bool) list \<times> trade_db" where
  "store_run c xs db = fold (store_step c) xs ([], db)"

lemma store_step_simps:
  "store_step c (Upsert now r) s = (fst s, sq_upsert_trade c now r (snd s))"
  "store_step c (Close now tid f rule) s = (fst s, sq_mark_closed c now tid f rule (snd s))"
  "store_step c (Close_If_Open now tid f rule) s =
     (fst s @ [(tid, fst (sq_mark_closed_if_open c now tid f rule (snd s)))],
      snd (sq_mark_closed_if_open c now tid f rule (snd s)))"
  by (simp_all add: store_step_def Let_def split: prod.splits)

section \<open>Recorded facts stay\<close>

definition facts_kept :: "session_row \<Rightarrow> session_row \<Rightarrow> bool" where
  "facts_kept old new \<longleftrightarrow>
     (ss_exit_price new = None \<longrightarrow> ss_exit_price old = None)
   \<and> (ss_exit_filled_quantity new = None \<longrightarrow> ss_exit_filled_quantity old = None)
   \<and> (ss_exit_filled_at new = None \<longrightarrow> ss_exit_filled_at old = None)
   \<and> (ss_exit_order_status new = None \<longrightarrow> ss_exit_order_status old = None)
   \<and> (ss_exit_order_type new = None \<longrightarrow> ss_exit_order_type old = None)
   \<and> (ss_exit_broker_payload new = None \<longrightarrow> ss_exit_broker_payload old = None)
   \<and> (ss_exit_rule new = None \<longrightarrow> ss_exit_rule old = None)
   \<and> (ss_can_ladder new = None \<longrightarrow> ss_can_ladder old = None)
   \<and> (\<forall>col. ss_lineage old col \<noteq> PNone \<longrightarrow> ss_lineage new col = ss_lineage old col)"

lemma coalesce_None [simp]: "coalesce x y = None \<longleftrightarrow> x = None \<and> y = None"
  by (auto simp: coalesce_def split: option.splits)

lemma facts_kept_refl [simp]: "facts_kept w w"
  by (simp add: facts_kept_def)

lemma facts_kept_trans: "facts_kept u v \<Longrightarrow> facts_kept v w \<Longrightarrow> facts_kept u w"
  by (auto simp: facts_kept_def)

lemma facts_kept_merge [simp]: "facts_kept w (merge_session w new)"
  by (simp add: facts_kept_def merge_session_def merge_lineage_def Let_def)

lemma facts_kept_close [simp]: "facts_kept w (close_row c now f rule w)"
  by (simp add: facts_kept_def close_row_def)

lemma store_step_keeps:
  assumes "find_session (snd s) tid = Some w"
  shows "\<exists>w'. find_session (snd (store_step c x s)) tid = Some w' \<and> facts_kept w w'"
  using assms
  by (cases x) (auto simp: store_step_simps find_upsert find_mark_closed find_mark_closed_if_open)

lemma fold_store_keeps:
  assumes "find_session (snd s) tid = Some w"
  shows "\<exists>w'. find_session (snd (fold (store_step c) xs s)) tid = Some w' \<and> facts_kept w w'"
  using assms
proof (induction xs arbitrary: s w)
  case (Cons x xs)
  obtain w1 where w1: "find_session (snd (store_step c x s)) tid = Some w1" "facts_kept w w1"
    using store_step_keeps [OF Cons.prems] by blast
  obtain w2 where "find_session (snd (fold (store_step c) xs (store_step c x s))) tid = Some w2" "facts_kept w1 w2"
    using Cons.IH [OF w1(1)] by blast
  with w1(2) show ?case by (auto intro: facts_kept_trans)
qed simp

text \<open>
  C15. Facts recorded once stay recorded. Whatever writes of the store follow (upserts by stale
  writers, closes, conditional closes, in any order and for any trades), a session that is in
  the table stays in it, each recorded fact of its exit (price, quantity, time, status, type
  and payload of the fill, the rule, the ladder flag) remains present, and each column of its
  research lineage keeps the very value it was first given.
\<close>

theorem session_facts_kept:
  assumes "find_session db tid = Some w"
  shows "\<exists>w'. find_session (snd (store_run c xs db)) tid = Some w' \<and> facts_kept w w'"
  using fold_store_keeps [of "([], db)" tid w c xs] assms by (simp add: store_run_def)

definition text_codec :: codec where
  "text_codec = \<lparr>iso_text = (\<lambda>t. ''t''), iso_read = (\<lambda>_. Some (Aware 0)), json_text = (\<lambda>_. ''{}''),
     json_read = (\<lambda>_. Some (PDict []))\<rparr>"

definition no_facts :: exit_facts where
  "no_facts = \<lparr>ef_exit_order_id = None, ef_exit_price = None, ef_exit_filled_quantity = None,
     ef_exit_filled_at = None, ef_exit_order_status = None, ef_exit_order_type = None,
     ef_exit_broker_payload = None\<rparr>"

definition demo_session :: trade_session where
  "demo_session = trade_record.extend (new_trade ''t1'' ''d1'' ''SPY'')
     (trade_session.fields None (\<lambda>_. PNone))"

definition empty_trade_db :: trade_db where
  "empty_trade_db = \<lparr>db_trades = [], db_legs = [], db_next_leg = 1\<rparr>"

definition demo_sold_db :: trade_db where
  "demo_sold_db = sq_mark_closed text_codec ''b'' ''t1'' (no_facts\<lparr>ef_exit_price := Some 3\<rparr>) None
     (sq_upsert_trade text_codec ''a'' demo_session empty_trade_db)"

theorem session_facts_kept_witness:
  "\<exists>w'. find_session (snd (store_run text_codec [Upsert ''c'' demo_session] demo_sold_db)) ''t1'' = Some w'
     \<and> ss_exit_price w' \<noteq> None"
proof -
  have "find_session empty_trade_db ''t1'' = None" by (simp add: find_session_def empty_trade_db_def)
  then have "\<exists>w. find_session demo_sold_db ''t1'' = Some w \<and> ss_exit_price w = Some 3"
    by (simp add: demo_sold_db_def find_mark_closed find_upsert
        demo_session_def trade_record.defs trade_session.defs new_trade_def row_of_session_def close_row_def no_facts_def coalesce_def)
  then obtain w where w: "find_session demo_sold_db ''t1'' = Some w" "ss_exit_price w = Some 3"
    by blast
  from session_facts_kept [OF w(1), of text_codec "[Upsert ''c'' demo_session]"] w(2)
  show ?thesis by (auto simp: facts_kept_def)
qed

section \<open>One closer wins\<close>

definition session_open :: "trade_db \<Rightarrow> string \<Rightarrow> bool" where
  "session_open db tid \<longleftrightarrow> (case find_session db tid of None \<Rightarrow> False
     | Some w \<Rightarrow> py_lower (ss_status w) \<noteq> ''closed'')"

definition wins_of :: "string \<Rightarrow> (string \<times> bool) list \<Rightarrow> nat" where
  "wins_of tid ws = length (filter (\<lambda>w. w = (tid, True)) ws)"

definition upserts :: "string \<Rightarrow> store_op \<Rightarrow> bool" where
  "upserts tid x \<longleftrightarrow> (\<exists>now r. x = Upsert now r \<and> tr_trade_id r = tid)"

lemma open_rows_find:
  assumes "distinct (map ss_trade_id ws)"
  shows "length (filter (open_row tid) ws) =
    (case List.find (\<lambda>w. ss_trade_id w = tid) ws of None \<Rightarrow> 0
     | Some w \<Rightarrow> if py_lower (ss_status w) = ''closed'' then 0 else 1)"
  using assms
proof (induction ws)
  case (Cons w ws)
  show ?case
  proof (cases "ss_trade_id w = tid")
    case True
    then have "filter (open_row tid) ws = []"
      using Cons.prems by (simp add: open_row_def filter_empty_conv) (metis imageI)
    with True show ?thesis by (simp add: open_row_def [of tid w])
  next
    case False
    with Cons show ?thesis by (simp add: open_row_def [of tid w])
  qed
qed simp

lemma close_if_open_answer:
  assumes "keys_distinct db"
  shows "fst (sq_mark_closed_if_open c now tid f rule db) = session_open db tid"
  using assms open_rows_find [of "db_trades db" tid]
  by (simp add: keys_distinct_def sq_mark_closed_if_open_def session_open_def find_session_def
      split: option.splits)

lemma closed_word [simp]: "py_lower ''closed'' = ''closed''"
  by code_simp

lemma session_open_step:
  assumes "\<not> upserts tid x"
  shows "session_open (snd (store_step c x s)) tid \<longleftrightarrow> session_open (snd s) tid
    \<and> \<not> (\<exists>now f rule. x = Close now tid f rule \<or> x = Close_If_Open now tid f rule)"
  using assms
  by (cases x)
    (auto simp: store_step_simps session_open_def upserts_def find_upsert find_mark_closed find_mark_closed_if_open
      open_row_def close_row_def split: option.splits dest: find_session_id)

lemma store_step_keys: "keys_distinct (snd s) \<Longrightarrow> keys_distinct (snd (store_step c x s))"
  by (cases x) (simp_all add: store_step_simps)

lemma wins_of_append [simp]: "wins_of tid (ws @ vs) = wins_of tid ws + wins_of tid vs"
  by (simp add: wins_of_def)

lemma wins_step:
  assumes "keys_distinct (snd s)" "\<not> upserts tid x"
  shows "wins_of tid (fst (store_step c x s)) + of_bool (session_open (snd (store_step c x s)) tid)
    = wins_of tid (fst s) + of_bool (session_open (snd s) tid)
      - of_bool (session_open (snd s) tid \<and> (\<exists>now f rule. x = Close now tid f rule))"
  using session_open_step [OF assms(2), of c s] close_if_open_answer [OF assms(1), of c _ tid]
  by (cases x)
    (auto simp: store_step_simps close_if_open_answer [OF assms(1)] wins_of_def)

lemma wins_run:
  assumes "keys_distinct (snd s)" "\<And>x. x \<in> set xs \<Longrightarrow> \<not> upserts tid x"
  shows "wins_of tid (fst (fold (store_step c) xs s)) + of_bool (session_open (snd (fold (store_step c) xs s)) tid)
    \<le> wins_of tid (fst s) + of_bool (session_open (snd s) tid)"
  using assms
proof (induction xs arbitrary: s)
  case (Cons x xs)
  have "wins_of tid (fst (store_step c x s)) + of_bool (session_open (snd (store_step c x s)) tid)
    \<le> wins_of tid (fst s) + of_bool (session_open (snd s) tid)"
    using wins_step [of s tid x c] Cons.prems by simp
  with Cons.IH [of "store_step c x s"] Cons.prems store_step_keys [of s c x] show ?case by force
qed simp

text \<open>
  C28. One closer wins. However many callers race to close a trade, in any interleaving with
  the other writes of the store and as long as none re-writes that trade's row, at most one
  conditional close answers that it won, none does unless the trade was open, and after a win
  the trade is not open.
\<close>

theorem one_closer_wins:
  assumes "keys_distinct db" "\<And>x. x \<in> set xs \<Longrightarrow> \<not> upserts tid x"
    and "store_run c xs db = (answers, db')"
  shows "wins_of tid answers + of_bool (session_open db' tid) \<le> of_bool (session_open db tid)"
  using wins_run [of "([], db)" xs tid c] assms by (simp add: store_run_def wins_of_def)

theorem one_closer_wins_witness:
  "\<exists>answers db'. store_run text_codec
       [Close_If_Open ''b'' ''t1'' no_facts None, Close_If_Open ''c'' ''t1'' no_facts None]
       (sq_upsert_trade text_codec ''a'' demo_session empty_trade_db) = (answers, db')
     \<and> wins_of ''t1'' answers \<le> 1"
proof -
  let ?xs = "[Close_If_Open ''b'' ''t1'' no_facts None, Close_If_Open ''c'' ''t1'' no_facts None]"
  let ?db = "sq_upsert_trade text_codec ''a'' demo_session empty_trade_db"
  obtain answers db' where r: "store_run text_codec ?xs ?db = (answers, db')"
    by (cases "store_run text_codec ?xs ?db")
  have "wins_of ''t1'' answers + of_bool (session_open db' ''t1'') \<le> of_bool (session_open ?db ''t1'')"
    by (rule one_closer_wins [OF _ _ r]) (auto simp: upserts_def keys_distinct_def empty_trade_db_def sq_upsert_trade_def)
  also have "\<dots> \<le> (1 :: nat)" by simp
  finally have "wins_of ''t1'' answers \<le> 1" by simp
  with r show ?thesis by blast
qed

section \<open>Reading back what was written\<close>

definition iso_reads :: "codec \<Rightarrow> pydt option \<Rightarrow> bool" where
  "iso_reads c t \<longleftrightarrow> (case t of None \<Rightarrow> True | Some x \<Rightarrow> iso_text c x \<noteq> [] \<and> iso_read c (iso_text c x) = Some x)"

definition json_reads :: "codec \<Rightarrow> pyval option \<Rightarrow> bool" where
  "json_reads c v \<longleftrightarrow> (case v of None \<Rightarrow> True
     | Some x \<Rightarrow> json_text c x \<noteq> [] \<and> json_read c (json_text c x) = Some x)"

text \<open>The standard library reads back the values of this record: times and payload.\<close>

definition reads_back :: "codec \<Rightarrow> trade_session \<Rightarrow> bool" where
  "reads_back c r \<longleftrightarrow> iso_reads c (tr_entry_timestamp r) \<and> iso_reads c (tr_exit_submitted_at r)
     \<and> iso_reads c (tr_exit_filled_at r) \<and> json_reads c (ts_exit_broker_payload r)"

definition lineage_typed :: "lineage \<Rightarrow> bool" where
  "lineage_typed l \<longleftrightarrow> l OptionSelectionSnapshotPersisted \<in> {PNone, PBool True, PBool False}"

lemma read_column_iso:
  "iso_reads c t \<Longrightarrow> read_column (read_or_value_error (iso_read c)) (map_option (iso_text c) t) = Inr t"
  by (cases t) (auto simp: iso_reads_def read_column_def read_or_value_error_def text_truthy_def text_or_def)

lemma read_column_json:
  "json_reads c v \<Longrightarrow> read_column (read_or_value_error (json_read c)) (map_option (json_text c) v) = Inr v"
  by (cases v) (auto simp: json_reads_def read_column_def read_or_value_error_def text_truthy_def text_or_def)

lemma read_column_mode: "read_column exit_mode_of (map_option exit_mode_value m) = Inr m"
  by (cases m; cases "the m")
    (auto simp: read_column_def exit_mode_of_def text_truthy_def text_or_def)

lemma flag_column_reads: "map_option (\<lambda>n. n \<noteq> 0) (flag_column b) = b"
  by (cases b) (auto simp: flag_column_def)

lemma lineage_reads: "lineage_typed l \<Longrightarrow> decode_lineage (encode_lineage l) = l"
  by (rule ext) (auto simp: lineage_typed_def decode_lineage_def encode_lineage_def)



section \<open>Lemmas on legs and reservations\<close>

definition legs_wf :: "trade_db \<Rightarrow> bool" where
  "legs_wf db \<longleftrightarrow> distinct (map lr_id (db_legs db)) \<and> (\<forall>w\<in>set (db_legs db). lr_id w < db_next_leg db)"

definition banked :: "trade_db \<Rightarrow> string \<Rightarrow> int" where
  "banked db tid = sum_list (map lr_closed_quantity (filter (\<lambda>w. lr_trade_id w = tid) (db_legs db)))"

lemma legs_wf_record [simp]: "legs_wf db \<Longrightarrow> legs_wf (snd (sq_record_partial_fill c r db))"
  by (auto simp: legs_wf_def sq_record_partial_fill_def row_of_leg_def split: option.splits)

lemma find_leg_append:
  "List.find P xs = None \<Longrightarrow> List.find P (xs @ [w]) = (if P w then Some w else None)"
  by (induction xs) (auto split: if_splits)

text \<open>A leg with an order id is recorded once: a second record answers its id and changes nothing.\<close>

lemma record_leg_twice:
  assumes "pf_order_id r = Some oid" "sq_record_partial_fill c r db = (i, db')"
  shows "sq_record_partial_fill c r db' = (i, db')"
proof (cases "List.find (same_leg (pf_trade_id r) oid) (db_legs db)")
  case None
  then have "i = db_next_leg db" "db_legs db' = db_legs db @ [row_of_leg c (db_next_leg db) r]"
    using assms by (auto simp: sq_record_partial_fill_def)
  then have "List.find (same_leg (pf_trade_id r) oid) (db_legs db') = Some (row_of_leg c i r)"
    using None assms(1) by (simp add: find_leg_append) (simp add: same_leg_def row_of_leg_def)
  with assms(1) show ?thesis by (simp add: sq_record_partial_fill_def) (simp add: row_of_leg_def)
next
  case (Some w)
  with assms show ?thesis by (simp add: sq_record_partial_fill_def)
qed

lemma banked_record:
  "banked (snd (sq_record_partial_fill c r db)) tid = banked db tid
     + (if tid = pf_trade_id r \<and> \<not> (\<exists>oid. pf_order_id r = Some oid \<and> (\<exists>w\<in>set (db_legs db). same_leg tid oid w))
        then pf_closed_quantity r else 0)"
  by (auto simp: banked_def sq_record_partial_fill_def row_of_leg_def find_None_iff find_Some_iff
      split: option.splits)

lemma banked_enrich [simp]: "banked (sq_enrich_partial_fill c i p q t st ty pl db) tid = banked db tid"
proof -
  have "map lr_closed_quantity (filter (\<lambda>w. lr_trade_id w = tid) (update_where (\<lambda>w. lr_id w = i) (enrich_row c p q t st ty pl) ws))
    = map lr_closed_quantity (filter (\<lambda>w. lr_trade_id w = tid) ws)" for ws
    by (induction ws) (auto simp: update_where_def enrich_row_def)
  then show ?thesis by (simp add: banked_def sq_enrich_partial_fill_def)
qed

lemma read_rows_length: "read_rows f ws = Inr rs \<Longrightarrow> length rs = length ws"
  by (induction ws arbitrary: rs) (auto simp: bind_result_Inr_iff)

lemma order_desc_set [simp]: "set (order_desc key xs) = set xs"
  by (simp add: order_desc_def)

lemma order_desc_sorted: "sorted_wrt (\<lambda>x y. key y \<le> key x) (order_desc key xs)"
proof -
  have "sorted (map key (sort_key key (rev xs)))" by simp
  then show ?thesis by (simp add: order_desc_def sorted_wrt_rev sorted_map)
qed

lemma read_rows_in:
  "read_rows f ws = Inr rs \<Longrightarrow> r \<in> set rs \<Longrightarrow> \<exists>w\<in>set ws. f w = Inr r"
  by (induction ws arbitrary: rs) (auto simp: bind_result_Inr_iff)

lemma from_row_status: "trade_record_from_row c w = Inr r \<Longrightarrow> tr_status r = ss_status w \<and> tr_trade_id r = ss_trade_id w"
  by (auto simp: trade_record_from_row_def bind_result_Inr_iff)

lemma open_trades_open:
  "sq_get_open_trades c db = Inr rs \<Longrightarrow> r \<in> set rs \<Longrightarrow> tr_status r \<noteq> ''closed''"
  unfolding sq_get_open_trades_def by (auto dest!: read_rows_in from_row_status)

end
