(* ===== verification/Sup_Helpers.thy ===== *)
theory Sup_Helpers
  imports Trade_Store Order_Safety Pricing Profile_Dispatch Lifecycle Risk_Core
begin

text \<open>
  The functions of \<open>src/bhiksha/execution/supervisor.py\<close> that need no state: what an order's
  payload says of its fill, the rules of targets, stops and repricing, and the identity of
  trades; with the parts of the configuration (\<open>src/bhiksha/config/models.py\<close>), of the trade plan
  and of the times of day (\<open>src/bhiksha/time_utils.py\<close>) they read. The numbers of the
  configuration are finite; so are the prices a broker's payload reports (SQLite keeps a NaN as
  NULL, an infinite price is read as absent here).
\<close>

section \<open>Configuration and plans\<close>

record exit_spec =
  xs_use_profit_target :: bool
  xs_profit_target_multiple :: "real option"
  xs_option_profit_target_pct :: "real option"
  xs_target_approach_offset_pct :: "real option"
  xs_target_pullback_restore_progress_pct :: "real option"
  xs_stop_loss_pct :: real
  xs_stop_to_breakeven_after_r_multiple :: "real option"
  xs_hard_flat_time_et :: string
  xs_profile_exit_id :: "string option"
  xs_profile_exit_drives_live :: bool
  xs_initial_stop_pct :: "real option"
  xs_premium_disaster_stop_pct :: "real option"
  xs_eod_flat :: bool
  xs_policy_schema_version :: "string option"
  xs_policy_id :: "string option"
  xs_policy_hash :: "string option"
  xs_management_exit :: "string option"

record execution_spec =
  ex_shadow_only :: bool
  ex_runtime_mode :: runtime_mode
  ex_entry_execution_profile :: "string option"
  ex_entry_reprice_enabled :: "bool option"
  ex_entry_reprice_checkpoints :: "int list option"
  ex_entry_reprice_cancel_after :: "int option"
  ex_entry_liquidity_retry_seconds :: int
  ex_entry_liquidity_retry_interval_seconds :: int
  ex_entry_window_start_et :: "string option"
  ex_entry_window_end_et :: "string option"
  ex_params :: params

record deployment =
  dep_id :: string
  dep_symbol :: string
  dep_exit :: exit_spec
  dep_execution :: execution_spec
  dep_risk_stop_loss_pct :: real
  dep_risk_hard_flat_time_et :: "string option"
  dep_strategy_key :: string
  dep_strategy_params :: params
  dep_origin :: "string option"
  dep_metadata :: params

record app_config =
  ac_entry_reprice_enabled :: bool
  ac_entry_reprice_checkpoints :: "int list"
  ac_entry_reprice_cancel_after :: int
  ac_order_fill_timeout_seconds :: int

record trade_plan =
  pn_trade_id :: string
  pn_deployment_id :: string
  pn_symbol :: string
  pn_direction :: signal_direction
  pn_option_symbol :: string
  pn_quantity :: int
  pn_estimated_entry_price :: real
  pn_risk_reasons :: "string list"
  pn_dry_run :: bool
  pn_order_id :: "string option"
  pn_stop_order_id :: "string option"
  pn_target_order_id :: "string option"
  pn_underlying_entry_price :: "real option"
  pn_entry_timestamp :: "pydt option"
  pn_risk_details :: params

record exit_plan =
  xp_trade_id :: string
  xp_deployment_id :: string
  xp_symbol :: string
  xp_option_symbol :: "string option"
  xp_quantity :: int
  xp_action :: string
  xp_reasons :: "string list"
  xp_dry_run :: bool
  xp_order_id :: "string option"
  xp_canceled_stop_order_id :: "string option"
  xp_canceled_target_order_id :: "string option"
  xp_error :: "string option"

section \<open>What a payload says of a fill\<close>

text \<open>\<open>(payload or {}).get(key)\<close>.\<close>

definition payload_get :: "params option \<Rightarrow> string \<Rightarrow> pyval" where
  "payload_get d k = (case d of None \<Rightarrow> PNone | Some e \<Rightarrow> dict_get e k)"

definition sv_maybe_float :: "pyval \<Rightarrow> real option" where
  "sv_maybe_float v = (case as_float v of Some (Fin x) \<Rightarrow> Some x | _ \<Rightarrow> None)"

text \<open>\<open>int(float(value))\<close>: an infinity raises \<open>OverflowError\<close>, which nothing catches.\<close>

definition sv_maybe_int :: "pyval \<Rightarrow> int option result" where
  "sv_maybe_int v = optional_int v"

definition sv_optional_text :: "(pyval \<Rightarrow> string) \<Rightarrow> pyval \<Rightarrow> string option" where
  "sv_optional_text tx v = (if v = PNone then None
     else let t = py_strip (py_str tx v) in if t = [] then None else Some t)"

definition sv_maybe_datetime :: "(string \<Rightarrow> pydt option) \<Rightarrow> pyval \<Rightarrow> pydt option" where
  "sv_maybe_datetime iso_parse v = (case v of
      PStr t \<Rightarrow>
        (let n = concat (map (\<lambda>c. if c = CHR ''Z'' then ''+00:00'' else [c]) (py_strip t))
         in if n = [] then None
            else (case iso_parse n of None \<Rightarrow> None | Some (Naive t') \<Rightarrow> Some (Aware t') | Some x \<Rightarrow> Some x))
    | _ \<Rightarrow> None)"

definition sv_remaining_order_quantity :: "params \<Rightarrow> int option result" where
  "sv_remaining_order_quantity d =
     bind_result (sv_maybe_int (dict_get d ''quantity'')) (\<lambda>quantity.
     bind_result (if dict_get d ''filledQuantity'' = PNone then Inr (Some 0)
                  else sv_maybe_int (dict_get d ''filledQuantity'')) (\<lambda>filled.
     Inr (case (quantity, filled) of
        (Some q, Some f) \<Rightarrow> if q < 0 \<or> f < 0 \<or> f > q then None else Some (q - f)
      | _ \<Rightarrow> None)))"

text \<open>\<open>str(status or payload.get("status") or "").upper()\<close>: a status is a text or absent.\<close>

definition order_status_word :: "string option \<Rightarrow> params option \<Rightarrow> string" where
  "order_status_word s d = py_upper (text_or (status_or_payload s d))"

record exit_fill_details =
  fd_price :: "real option"
  fd_quantity :: "int option"
  fd_filled_at :: "pydt option"
  fd_status :: "string option"
  fd_type :: "string option"
  fd_payload :: "pyval option"

definition text_field :: "params \<Rightarrow> string \<Rightarrow> string option" where
  "text_field d k = (case dict_get d k of PStr t \<Rightarrow> Some t | _ \<Rightarrow> None)"

definition exit_fill_details ::
  "(string \<Rightarrow> pydt option) \<Rightarrow> params option \<Rightarrow> string option \<Rightarrow> exit_fill_details result" where
  "exit_fill_details iso_parse payload status = (case payload of
      None \<Rightarrow> Inr \<lparr>fd_price = None, fd_quantity = None, fd_filled_at = None, fd_status = status,
        fd_type = None, fd_payload = None\<rparr>
    | Some d \<Rightarrow> bind_result (sv_maybe_int (dict_get d ''filledQuantity'')) (\<lambda>quantity.
        Inr \<lparr>fd_price = sv_maybe_float (dict_get d ''averagePrice''), fd_quantity = quantity,
          fd_filled_at = sv_maybe_datetime iso_parse (dict_get d ''closedAt''),
          fd_status = status_or_payload status payload, fd_type = text_field d ''type'',
          fd_payload = Some (PDict d)\<rparr>))"

text \<open>\<open>str(payload.get(a) or payload.get(b) or "").upper()\<close>.\<close>

definition upper_of :: "(pyval \<Rightarrow> string) \<Rightarrow> pyval list \<Rightarrow> string" where
  "upper_of tx vs = (case filter py_truthy vs of [] \<Rightarrow> [] | v # _ \<Rightarrow> py_upper (py_str tx v))"

definition matches_exit_order_identity :: "(pyval \<Rightarrow> string) \<Rightarrow> params \<Rightarrow> string option \<Rightarrow> bool result" where
  "matches_exit_order_identity tx d option_symbol =
     bind_result (let v = dict_get d ''instrument''
                  in if py_truthy v then dict_val v else Inr []) (\<lambda>instrument.
     let side = upper_of tx [dict_get d ''side'', dict_get d ''orderSide''];
         open_close = upper_of tx [dict_get d ''openCloseIndicator''];
         instrument_symbol = normalize_option_symbol (py_str tx (dict_get_default instrument ''symbol'' (PStr [])))
     in Inr (if (case option_symbol of None \<Rightarrow> False
               | Some o' \<Rightarrow> instrument_symbol \<noteq> [] \<and> instrument_symbol \<noteq> normalize_option_symbol o')
             then False else side = ''SELL'' \<and> open_close = ''CLOSE''))"

definition is_filled_exit_order ::
  "(pyval \<Rightarrow> string) \<Rightarrow> params \<Rightarrow> string option \<Rightarrow> string option \<Rightarrow> bool result" where
  "is_filled_exit_order tx d status option_symbol =
     (if order_status_word status (Some d) \<noteq> ''FILLED'' then Inr False
      else matches_exit_order_identity tx d option_symbol)"

definition is_dead_exit_order_with_fill ::
  "(pyval \<Rightarrow> string) \<Rightarrow> (string \<Rightarrow> pydt option) \<Rightarrow> params \<Rightarrow> string option \<Rightarrow> string option \<Rightarrow> bool result" where
  "is_dead_exit_order_with_fill tx iso_parse d status option_symbol =
     (if order_status_word status (Some d) \<notin> set PUBLIC_DEAD_ORDER_STATUSES then Inr False
      else bind_result (exit_fill_details iso_parse (Some d) status) (\<lambda>details.
        if fd_price details = None \<or> fd_quantity details \<in> {None, Some 0} then Inr False
        else matches_exit_order_identity tx d option_symbol))"

fun first_float :: "params \<Rightarrow> string list \<Rightarrow> real option" where
  "first_float d [] = None"
| "first_float d (k # ks) = (case sv_maybe_float (dict_get d k) of Some x \<Rightarrow> Some x | None \<Rightarrow> first_float d ks)"

definition filled_entry_price :: "params option \<Rightarrow> real \<Rightarrow> real" where
  "filled_entry_price payload fallback = (case payload of
      None \<Rightarrow> fallback
    | Some d \<Rightarrow> (case first_float d [''averageFillPrice'', ''averagePrice'', ''filledPrice'', ''price''] of
        None \<Rightarrow> fallback | Some x \<Rightarrow> x))"

definition confirmed_entry_fill_facts ::
  "(string \<Rightarrow> pydt option) \<Rightarrow> params option \<Rightarrow> (real option \<times> int option \<times> pydt option) result" where
  "confirmed_entry_fill_facts iso_parse payload =
     (if payload = None \<or> payload = Some [] \<or> order_status_word None payload \<noteq> ''FILLED'' then Inr (None, None, None)
      else bind_result (sv_maybe_int (payload_get payload ''filledQuantity'')) (\<lambda>quantity.
        let a = payload_get payload ''filledAt''; b = payload_get payload ''closedAt''
        in Inr (first_float (the payload) [''averageFillPrice'', ''averagePrice''], quantity,
             sv_maybe_datetime iso_parse (if py_truthy a then a else b))))"

section \<open>The outcome of cancelling an entry order\<close>

record entry_cancel_result =
  cx_cancel_ok :: bool
  cx_cancel_error :: "string option"
  cx_order_quantity :: int
  cx_status :: "string option"
  cx_payload :: "params option"
  cx_status_error :: "string option"

definition cx_normalized_status :: "entry_cancel_result \<Rightarrow> string" where
  "cx_normalized_status r = order_status_word (cx_status r) (cx_payload r)"

definition cx_reported_filled_quantity :: "entry_cancel_result \<Rightarrow> int option result" where
  "cx_reported_filled_quantity r = sv_maybe_int (payload_get (cx_payload r) ''filledQuantity'')"

definition cx_fill_quantity_ambiguous :: "entry_cancel_result \<Rightarrow> bool result" where
  "cx_fill_quantity_ambiguous r =
     (if payload_get (cx_payload r) ''filledQuantity'' \<in> {PNone, PStr []} then Inr False
      else bind_result (cx_reported_filled_quantity r) (\<lambda>reported. Inr (case reported of
          None \<Rightarrow> True
        | Some n \<Rightarrow> n < 0 \<or> n > cx_order_quantity r
            \<or> (cx_normalized_status r = ''FILLED'' \<and> n \<noteq> cx_order_quantity r))))"

definition cx_confirmed_filled_quantity :: "entry_cancel_result \<Rightarrow> int option result" where
  "cx_confirmed_filled_quantity r =
     bind_result (cx_reported_filled_quantity r) (\<lambda>reported.
     bind_result (cx_fill_quantity_ambiguous r) (\<lambda>ambiguous. Inr (
       if ambiguous then None
       else if cx_normalized_status r = ''FILLED'' then Some (cx_order_quantity r)
       else if cx_normalized_status r \<in> set PUBLIC_DEAD_ORDER_STATUSES \<and> (case reported of None \<Rightarrow> False | Some n \<Rightarrow> n > 0)
       then reported else None)))"

definition cx_filled :: "entry_cancel_result \<Rightarrow> bool result" where
  "cx_filled r = bind_result (cx_confirmed_filled_quantity r) (\<lambda>q. Inr (q \<noteq> None))"

definition cx_safe_to_replace_or_close :: "entry_cancel_result \<Rightarrow> bool result" where
  "cx_safe_to_replace_or_close r =
     (if cx_normalized_status r \<notin> set PUBLIC_DEAD_ORDER_STATUSES then Inr False
      else bind_result (cx_fill_quantity_ambiguous r) (\<lambda>ambiguous.
        if ambiguous then Inr False
        else bind_result (cx_reported_filled_quantity r) (\<lambda>reported.
          Inr (case reported of None \<Rightarrow> True | Some n \<Rightarrow> n \<le> 0))))"

section \<open>Targets, stops and prices\<close>

text \<open>\<open>env\<close> is the value of \<open>BHIKSHA_PROFILE_EXIT_LIVE\<close>.\<close>

definition deployment_carries_exit_profile :: "deployment \<Rightarrow> bool" where
  "deployment_carries_exit_profile d = text_truthy (xs_profile_exit_id (dep_exit d))"

definition profile_exit_drives_live :: "string option \<Rightarrow> deployment \<Rightarrow> bool" where
  "profile_exit_drives_live env d \<longleftrightarrow> xs_profile_exit_drives_live (dep_exit d)
     \<or> (case env of None \<Rightarrow> False | Some t \<Rightarrow> py_lower (py_strip t) \<in> {''1'', ''true'', ''yes'', ''on''})"

definition resolved_runtime_mode :: "deployment \<Rightarrow> runtime_mode" where
  "resolved_runtime_mode d = (case normalized_mode (ex_runtime_mode (dep_execution d)) of
      None \<Rightarrow> ModeNone | Some s \<Rightarrow> ModeStr s)"

definition profile_owns_profit_taking :: "string option \<Rightarrow> deployment \<Rightarrow> bool" where
  "profile_owns_profit_taking env d =
     (if \<not> deployment_carries_exit_profile d then False
      else if ex_shadow_only (dep_execution d) then False
      else let live = profile_exit_drives_live env d
           in profile_exit_dispatch_allowed live (\<not> live) (Some ''live_open'') (resolved_runtime_mode d))"

text \<open>\<open>degraded\<close>: the trades whose exit state is degraded.\<close>

definition profile_exit_is_authoritative ::
  "string option \<Rightarrow> string list \<Rightarrow> deployment \<Rightarrow> tracked_position \<Rightarrow> bool" where
  "profile_exit_is_authoritative env degraded d p =
     (if \<not> deployment_carries_exit_profile d then False
      else if tp_trade_id p \<in> Some ` set degraded then False
      else if text_truthy (xs_management_exit (dep_exit d)) \<and> tp_source p = ''shadow'' then True
      else let live = profile_exit_drives_live env d
           in profile_exit_dispatch_allowed live (\<not> live) (Some (tp_source p)) (resolved_runtime_mode d))"

definition profit_target_would_be_configured_absent_profile_rule :: "deployment \<Rightarrow> bool" where
  "profit_target_would_be_configured_absent_profile_rule d \<longleftrightarrow> xs_use_profit_target (dep_exit d)
     \<and> (xs_option_profit_target_pct (dep_exit d) \<noteq> None \<or> xs_profit_target_multiple (dep_exit d) \<noteq> None)"

definition profit_target_configured :: "string option \<Rightarrow> deployment \<Rightarrow> bool" where
  "profit_target_configured env d =
     (if profile_owns_profit_taking env d then False
      else profit_target_would_be_configured_absent_profile_rule d)"

definition target_price :: "real \<Rightarrow> real \<Rightarrow> real option \<Rightarrow> real option \<Rightarrow> real" where
  "target_price entry_price stop_loss_pct r_multiple pct = (case pct of
      Some x \<Rightarrow> entry_price * (1 + x)
    | None \<Rightarrow> entry_price * (1 + stop_loss_pct * (case r_multiple of None \<Rightarrow> 0 | Some r \<Rightarrow> r)))"

definition deployment_target_price :: "deployment \<Rightarrow> real \<Rightarrow> real" where
  "deployment_target_price d entry_price = target_price entry_price (xs_stop_loss_pct (dep_exit d))
     (xs_profit_target_multiple (dep_exit d)) (xs_option_profit_target_pct (dep_exit d))"

definition max_valid_sell_stop_price :: "real \<Rightarrow> real option" where
  "max_valid_sell_stop_price bid =
     (if bid \<le> 1/100 then None
      else let candidate = of_int \<lfloor>(bid - 1/100 + 1/1000000000) * 100\<rfloor> / 100
           in if candidate \<le> 0 then None else Some (round_price candidate))"

definition premium_pnl :: "real option \<Rightarrow> real option \<Rightarrow> int option \<Rightarrow> real option" where
  "premium_pnl entry_price exit_price quantity = (case (entry_price, exit_price, quantity) of
      (Some e, Some x, Some q) \<Rightarrow> if q = 0 then None else Some (round2 ((x - e) * of_int q * 100))
    | _ \<Rightarrow> None)"

definition realized_stop_r :: "real option \<Rightarrow> real option \<Rightarrow> real option \<Rightarrow> real option" where
  "realized_stop_r entry_price exit_price pct = (case (entry_price, exit_price, pct) of
      (Some e, Some x, Some s) \<Rightarrow>
        if s \<le> 0 then None
        else let risk = e * s in if risk \<le> 0 then None else Some (py_round 4 ((x - e) / risk))
    | _ \<Rightarrow> None)"

definition target_handoff_activation_floor :: "tracked_position \<Rightarrow> real option \<Rightarrow> real option" where
  "target_handoff_activation_floor p offset_pct = (case (tp_target_price p, offset_pct) of
      (Some t, Some o') \<Rightarrow> Some (t * (1 - o')) | _ \<Rightarrow> None)"

definition target_handoff_high_price :: "tracked_position \<Rightarrow> real \<Rightarrow> real option \<Rightarrow> real" where
  "target_handoff_high_price p reference_price offset_pct =
     fold max (List.map_filter id [tp_target_activation_price p, tp_target_activation_high_price p,
       target_handoff_activation_floor p offset_pct]) reference_price"

definition target_handoff_restore_threshold_price :: "real \<Rightarrow> real \<Rightarrow> real \<Rightarrow> real" where
  "target_handoff_restore_threshold_price entry_price high_price progress_pct =
     (let progress = max 0 (min 1 progress_pct); high = max entry_price high_price
      in entry_price + (high - entry_price) * progress)"

definition tracked_trade_status :: "tracked_position \<Rightarrow> string" where
  "tracked_trade_status p =
     (if tp_exit_mode p \<noteq> None \<or> tp_exit_order_id p \<noteq> None \<or> tp_exit_submitted_at p \<noteq> None then ''exit_pending''
      else if text_truthy (tp_target_order_id p) then ''target_active''
      else if text_truthy (tp_stop_order_id p) then ''open_protected'' else ''open_unprotected'')"

definition entry_premiums_are_same_fill :: "real \<Rightarrow> real \<Rightarrow> bool" where
  "entry_premiums_are_same_fill seed tracked =
     (if seed \<le> 0 \<or> tracked \<le> 0 then False
      else \<bar>seed - tracked\<bar> \<le> 5/1000 + 1/1000000000000)"

definition paper_trade_source :: "trade_record \<Rightarrow> string" where
  "paper_trade_source t = (if tr_entry_order_id t = Some ''SHADOW_ENTRY'' then ''shadow'' else ''dry_run'')"

definition material_exit_price_change :: "real option \<Rightarrow> real option \<Rightarrow> bool" where
  "material_exit_price_change previous_price next_price = (case next_price of
      None \<Rightarrow> False
    | Some n \<Rightarrow> (case previous_price of None \<Rightarrow> True | Some p \<Rightarrow> round2 p \<noteq> round2 n))"

text \<open>The first stop that can be derived for the residual of a partial.\<close>

definition residual_protective_stop_price ::
  "tracked_position \<Rightarrow> exit_decision \<Rightarrow> deployment \<Rightarrow> real option \<Rightarrow> real option" where
  "residual_protective_stop_price p x d prior_stop_price =
     (let positive = (\<lambda>v. case v of None \<Rightarrow> False | Some y \<Rightarrow> (0::real) < y);
          resting = (if prior_stop_price \<noteq> None then prior_stop_price else tp_stop_price p);
          premium = dict_get (xd_features x) ''entry_premium'';
          risk = dict_get (xd_features x) ''risk_per_contract'';
          from_profile = (if premium = PNone \<or> risk = PNone then None
            else case (sv_maybe_float premium, sv_maybe_float risk) of
              (Some e, Some r) \<Rightarrow> if 0 < e - r then Some (py_round 4 (e - r)) else None | _ \<Rightarrow> None);
          pct = (if positive (xs_initial_stop_pct (dep_exit d)) then xs_initial_stop_pct (dep_exit d)
                 else Some (xs_stop_loss_pct (dep_exit d)));
          from_entry = (case (tp_entry_price p, pct) of
              (Some e, Some s) \<Rightarrow>
                if 0 < e \<and> 0 < s \<and> 0 < e * (1 - s) then Some (py_round 4 (e * (1 - s))) else None
            | _ \<Rightarrow> None)
      in if positive resting then resting
         else if from_profile \<noteq> None then from_profile else from_entry)"

section \<open>Repricing of entries\<close>

definition execution_profile_of :: "deployment \<Rightarrow> execution_profile option" where
  "execution_profile_of d = get_entry_execution_profile (v_text (ex_entry_execution_profile (dep_execution d)))"

definition entry_reprice_enabled :: "app_config \<Rightarrow> deployment \<Rightarrow> trade_plan option \<Rightarrow> bool" where
  "entry_reprice_enabled ac d plan = (case ex_entry_reprice_enabled (dep_execution d) of
      Some b \<Rightarrow> b
    | None \<Rightarrow>
        (case plan of None \<Rightarrow> False
         | Some pl \<Rightarrow> (case dict_get (pn_risk_details pl) ''entry_pricing'' of
             PDict e \<Rightarrow> py_truthy (dict_get e ''price_improvement_applied'') | _ \<Rightarrow> False))
        \<or> execution_profile_of d \<noteq> None \<or> ac_entry_reprice_enabled ac)"

definition entry_reprice_cancel_after_seconds :: "app_config \<Rightarrow> deployment \<Rightarrow> int" where
  "entry_reprice_cancel_after_seconds ac d = max 0 (case ex_entry_reprice_cancel_after (dep_execution d) of
      Some n \<Rightarrow> n
    | None \<Rightarrow> (case execution_profile_of d of
        Some pr \<Rightarrow> ep_cancel_after_seconds pr | None \<Rightarrow> ac_entry_reprice_cancel_after ac))"

definition entry_reprice_checkpoints :: "app_config \<Rightarrow> deployment \<Rightarrow> int list" where
  "entry_reprice_checkpoints ac d =
     (let cancel_after = entry_reprice_cancel_after_seconds ac d;
          source = (case ex_entry_reprice_checkpoints (dep_execution d) of
              Some xs \<Rightarrow> xs
            | None \<Rightarrow> (case execution_profile_of d of
                Some pr \<Rightarrow> ep_checkpoints pr | None \<Rightarrow> ac_entry_reprice_checkpoints ac))
      in take 1 (filter (\<lambda>v. v < cancel_after) (sort (remdups (map (max 0) source)))))"

definition terminal_entry_error :: "string option \<Rightarrow> bool" where
  "terminal_entry_error e = (py_upper (text_or e) \<in> set PUBLIC_DEAD_ORDER_STATUSES)"

text \<open>\<open>int()\<close> of the seconds left; both times in microseconds.\<close>

definition remaining_seconds :: "int \<Rightarrow> int \<Rightarrow> int \<Rightarrow> int" where
  "remaining_seconds now started_at target_elapsed_seconds =
     max 0 (py_trunc (of_int target_elapsed_seconds - of_int (now - started_at) / 1000000))"

definition entry_reprice_recovery_enabled :: "deployment \<Rightarrow> bool result" where
  "entry_reprice_recovery_enabled d =
     (if dep_strategy_key d = ''weekly_chart''
      then bind_result (dict_val (dict_get_default (dep_strategy_params d) ''controls'' (PDict []))) (\<lambda>controls.
        let v = dict_get_default controls ''retry_seconds'' (PInt 0)
        in bind_result (if py_truthy v then float_of v else Inr (Fin 0)) (\<lambda>x. Inr (f_lt (Fin 0) x)))
      else Inr (0 < ex_entry_liquidity_retry_seconds (dep_execution d)))"

text \<open>\<open>dict.update\<close> with several keys, in order.\<close>

definition dict_updates :: "params \<Rightarrow> params \<Rightarrow> params" where
  "dict_updates kvs d = fold (\<lambda>(k, v). AList.update k v) kvs d"

definition entry_plan_from_cancel_fill :: "trade_plan \<Rightarrow> entry_cancel_result \<Rightarrow> trade_plan result" where
  "entry_plan_from_cancel_fill pl r =
     bind_result (cx_confirmed_filled_quantity r) (\<lambda>confirmed.
     let price = filled_entry_price (cx_payload r) (pn_estimated_entry_price pl);
         quantity = (case confirmed of None \<Rightarrow> pn_quantity pl | Some q \<Rightarrow> if q = 0 then pn_quantity pl else q)
     in Inr (pl\<lparr>pn_quantity := quantity, pn_estimated_entry_price := price,
          pn_risk_details := dict_updates
            [(''entry_reprice_cancel_race_filled'', PBool True),
             (''entry_reprice_original_quantity'', PInt (pn_quantity pl)),
             (''entry_reprice_filled_quantity'', PInt quantity),
             (''entry_reprice_partial_fill'', PBool (quantity \<noteq> pn_quantity pl)),
             (''broker_average_fill_price'', PFloat (Fin price))] (pn_risk_details pl)\<rparr>))"

definition entry_plan_approved :: "trade_plan \<Rightarrow> bool" where
  "entry_plan_approved pl \<longleftrightarrow> pn_risk_reasons pl = [''approved'']"

text \<open>\<open>p in s\<close> of two texts, and \<open>" ".join\<close>.\<close>

fun py_contains :: "string \<Rightarrow> string \<Rightarrow> bool" where
  "py_contains p [] = (p = [])"
| "py_contains p (c # cs) = (py_startswith (c # cs) p \<or> py_contains p cs)"

fun join_words :: "string list \<Rightarrow> string" where
  "join_words [] = []"
| "join_words [w] = w"
| "join_words (w # ws) = w @ '' '' @ join_words ws"

definition classify_plan_block :: "trade_plan \<Rightarrow> string \<times> string list" where
  "classify_plan_block pl =
     (let reasons = (if pn_risk_reasons pl = [] then [''unapproved_plan''] else pn_risk_reasons pl);
          words = py_lower (join_words reasons);
          mentions = list_ex (\<lambda>k. py_contains k words)
      in (if mentions [''budget'', ''insufficient''] then ''budget_block''
          else if mentions [''owned'', ''position_limit'', ''max_open'', ''already''] then ''existing_position_block''
          else if mentions [''window'', ''time'', ''expired'', ''after''] then ''expired_invalidated''
          else if mentions [''quote'', ''spread'', ''open_interest'', ''contract'', ''missing_price''] then ''selection_failure''
          else ''risk_block'', reasons))"

definition is_self_disarming_manual_deployment :: "deployment \<Rightarrow> bool" where
  "is_self_disarming_manual_deployment d \<longleftrightarrow> dep_origin d = Some ''active_sheet_manual''
     \<and> dict_get (dep_metadata d) ''row_index'' \<noteq> PNone \<and> dict_get (dep_metadata d) ''sheet_name'' \<noteq> PNone"

section \<open>Times of day\<close>

text \<open>
  \<open>parse_time_text\<close>: texts of the form \<open>H:MM\<close> or \<open>H:MM:SS\<close> are read here, any other goes to
  \<open>time.fromisoformat\<close>, the parameter \<open>time_iso\<close>.
\<close>

definition digits_between :: "nat \<Rightarrow> nat \<Rightarrow> string \<Rightarrow> int option" where
  "digits_between lo hi s = (if lo \<le> length s \<and> length s \<le> hi \<and> list_all is_digit s then parse_int s else None)"

definition clock_text :: "string \<Rightarrow> dt_time option" where
  "clock_text s =
     (let part = (\<lambda>h m sec. case (digits_between 1 2 h, digits_between 2 2 m, digits_between 2 2 sec) of
            (Some h', Some m', Some s') \<Rightarrow>
              if h' > 23 \<or> m' > 59 \<or> s' > 59 then None else Some (DtTime h' m' (s' * 1000000))
          | _ \<Rightarrow> None)
      in case py_split CHR '':'' s of [h, m] \<Rightarrow> part h m ''00'' | [h, m, sec] \<Rightarrow> part h m sec | _ \<Rightarrow> None)"

definition parse_time_text :: "(string \<Rightarrow> dt_time option) \<Rightarrow> string \<Rightarrow> dt_time result" where
  "parse_time_text time_iso value =
     (let s = py_strip value
      in if s = [] then Inl ValueError
         else case clock_text s of Some t \<Rightarrow> Inr t
            | None \<Rightarrow> (case time_iso s of None \<Rightarrow> Inl ValueError | Some t \<Rightarrow> Inr t))"

text \<open>\<open>a >= b\<close> of two datetimes: a naive and an aware one do not compare.\<close>

fun dt_ge :: "pydt \<Rightarrow> pydt \<Rightarrow> bool result" where
  "dt_ge (Naive x) (Naive y) = Inr (x \<ge> y)"
| "dt_ge (Aware x) (Aware y) = Inr (x \<ge> y)"
| "dt_ge _ _ = Inl TypeError"

fun dt_plus :: "pydt \<Rightarrow> int \<Rightarrow> pydt" where
  "dt_plus (Naive x) d = Naive (x + d)"
| "dt_plus (Aware x) d = Aware (x + d)"

definition seconds_of_day :: "dt_time \<Rightarrow> int" where
  "seconds_of_day t = hour t * 3600 + minute t * 60 + micros t div usec_per_sec"

definition hard_flat_market_fallback_due ::
  "(int \<Rightarrow> int) \<Rightarrow> (string \<Rightarrow> dt_time option) \<Rightarrow> pydt option \<Rightarrow> pydt \<Rightarrow> deployment \<Rightarrow> bool result" where
  "hard_flat_market_fallback_due et time_iso submitted now d = (case submitted of
      None \<Rightarrow> Inr False
    | Some t \<Rightarrow>
        bind_result (dt_ge now (dt_plus t (10 * usec_per_sec))) (\<lambda>waited.
        if waited then Inr True
        else let word = (if xs_hard_flat_time_et (dep_exit d) \<noteq> [] then xs_hard_flat_time_et (dep_exit d)
                         else if text_truthy (dep_risk_hard_flat_time_et d) then text_or (dep_risk_hard_flat_time_et d)
                         else ''15:55'')
             in bind_result (parse_time_text time_iso word) (\<lambda>flat.
                Inr (seconds_of_day (time_of_micros (et_micros et (instant now)))
                       \<ge> hour flat * 3600 + minute flat * 60 + 30))))"

end
