(* ===== verification/Exit_State.thy ===== *)
theory Exit_State
  imports Trade_Store
begin

text \<open>
  The durable state of exits: \<open>src/bhiksha/persistence/exit_state.py\<close> with the records of
  \<open>src/bhiksha/domain/exit_state.py\<close>. Four tables, each a list of rows: frozen policies, runtime
  states, action intents and rollback latches. A write that raises rolls back, so an operation
  answers with the new tables or an error. Floats are finite; the JSON encoders, the hash of a
  policy and ISO times are parameters. Connections and the schema migration are not modelled.
\<close>

section \<open>Records and rows\<close>

record policy_snapshot =
  sp_trade_id :: string
  sp_deployment_id :: string
  sp_option_symbol :: "string option"
  sp_active_plan_id :: "string option"
  sp_startup_config_id :: "string option"
  sp_schema_version :: string
  sp_policy_id :: string
  sp_policy_hash :: string
  sp_canonical_policy :: pyval
  sp_provenance :: pyval
  sp_frozen_at :: "pydt option"

record exit_runtime_state =
  er_trade_id :: string
  er_deployment_id :: string
  er_option_symbol :: "string option"
  er_policy_hash :: string
  er_seed_entry_premium :: real
  er_seed_quantity :: int
  er_initial_risk :: real
  er_raw_peak :: real
  er_confirmed_peak_r :: real
  er_peak_timestamp :: "pydt option"
  er_locked_floor_r :: "real option"
  er_committed_stop :: "real option"
  er_target_1_banked :: bool
  er_banked_quantity :: int
  er_breakeven_emitted :: bool
  er_runner_state :: string
  er_recovery_status :: string
  er_degraded_reason :: "string option"
  er_last_evaluated :: "pydt option"
  er_version :: int

record action_intent =
  ai_key :: string
  ai_trade_id :: string
  ai_policy_hash :: string
  ai_kind :: string
  ai_slot :: string
  ai_expected_version :: int
  ai_quantity :: "int option"
  ai_stop_price :: "real option"
  ai_floor_r :: "real option"
  ai_prior_stop_id :: "string option"
  ai_prior_stop_price :: "real option"
  ai_stage :: string
  ai_status :: string
  ai_order_id :: "string option"
  ai_restore_id :: "string option"
  ai_payload :: "pyval option"
  ai_created_at :: "pydt option"
  ai_updated_at :: "pydt option"

record policy_row =
  pr_trade_id :: string
  pr_deployment_id :: string
  pr_option_symbol :: "string option"
  pr_active_plan_id :: "string option"
  pr_startup_config_id :: "string option"
  pr_schema_version :: string
  pr_policy_id :: string
  pr_policy_hash :: string
  pr_policy_json :: string
  pr_provenance_json :: string
  pr_frozen_at :: string

record state_row =
  rr_trade_id :: string
  rr_deployment_id :: string
  rr_option_symbol :: "string option"
  rr_policy_hash :: string
  rr_seed_entry_premium :: real
  rr_seed_quantity :: int
  rr_initial_risk :: real
  rr_raw_peak :: real
  rr_confirmed_peak_r :: real
  rr_peak_timestamp :: "string option"
  rr_locked_floor_r :: "real option"
  rr_committed_stop :: "real option"
  rr_target_1_banked :: int
  rr_banked_quantity :: int
  rr_breakeven_emitted :: int
  rr_runner_state :: string
  rr_recovery_status :: string
  rr_degraded_reason :: "string option"
  rr_last_evaluated :: "string option"
  rr_version :: int
  rr_updated_at :: string

record intent_row =
  ir_key :: string
  ir_trade_id :: string
  ir_policy_hash :: string
  ir_kind :: string
  ir_slot :: string
  ir_expected_version :: int
  ir_quantity :: "int option"
  ir_stop_price :: "real option"
  ir_floor_r :: "real option"
  ir_prior_stop_id :: "string option"
  ir_prior_stop_price :: "real option"
  ir_stage :: string
  ir_status :: string
  ir_order_id :: "string option"
  ir_restore_id :: "string option"
  ir_payload_json :: "string option"
  ir_created_at :: string
  ir_updated_at :: string

record exit_db =
  xd_policies :: "policy_row list"
  xd_states :: "state_row list"
  xd_intents :: "intent_row list"
  xd_latches :: "(string \<times> string \<times> string) list"

record exit_codec =
  xk_iso_text :: "pydt \<Rightarrow> string"
  xk_iso_read :: "string \<Rightarrow> pydt option"
  xk_policy_json :: "pyval \<Rightarrow> string option"
  xk_payload_json :: "pyval \<Rightarrow> string"
  xk_json_read :: "string \<Rightarrow> pyval option"
  xk_policy_hash :: "pyval \<Rightarrow> string result"

section \<open>Lookups\<close>

definition find_policy :: "exit_db \<Rightarrow> string \<Rightarrow> policy_row option" where
  "find_policy db tid = find (\<lambda>w. pr_trade_id w = tid) (xd_policies db)"

definition find_state :: "exit_db \<Rightarrow> string \<Rightarrow> state_row option" where
  "find_state db tid = find (\<lambda>w. rr_trade_id w = tid) (xd_states db)"

definition find_intent :: "exit_db \<Rightarrow> string \<Rightarrow> intent_row option" where
  "find_intent db key = find (\<lambda>w. ir_key w = key) (xd_intents db)"

definition find_slot :: "exit_db \<Rightarrow> string \<Rightarrow> string \<Rightarrow> intent_row option" where
  "find_slot db tid slot = find (\<lambda>w. ir_trade_id w = tid \<and> ir_slot w = slot) (xd_intents db)"

section \<open>Freezing a policy\<close>

definition snapshot_matches_state :: "policy_snapshot \<Rightarrow> exit_runtime_state \<Rightarrow> bool" where
  "snapshot_matches_state p s \<longleftrightarrow> sp_trade_id p = er_trade_id s \<and> sp_deployment_id p = er_deployment_id s
     \<and> sp_option_symbol p = er_option_symbol s \<and> sp_policy_hash p = er_policy_hash s"

definition valid_runtime_state :: "exit_runtime_state \<Rightarrow> bool" where
  "valid_runtime_state s \<longleftrightarrow> \<not> er_version s < 1
     \<and> \<not> (er_seed_entry_premium s \<le> 0 \<or> er_seed_quantity s \<le> 0)
     \<and> \<not> er_initial_risk s \<le> 0
     \<and> \<not> er_raw_peak s < er_seed_entry_premium s
     \<and> \<not> er_confirmed_peak_r s < 0
     \<and> \<not> (er_banked_quantity s < 0 \<or> er_banked_quantity s > er_seed_quantity s)"

definition bool_column :: "bool \<Rightarrow> int" where
  "bool_column b = (if b then 1 else 0)"

definition state_row_of :: "exit_codec \<Rightarrow> string \<Rightarrow> exit_runtime_state \<Rightarrow> state_row" where
  "state_row_of c now s = \<lparr>rr_trade_id = er_trade_id s, rr_deployment_id = er_deployment_id s,
     rr_option_symbol = er_option_symbol s, rr_policy_hash = er_policy_hash s,
     rr_seed_entry_premium = er_seed_entry_premium s, rr_seed_quantity = er_seed_quantity s,
     rr_initial_risk = er_initial_risk s, rr_raw_peak = er_raw_peak s, rr_confirmed_peak_r = er_confirmed_peak_r s,
     rr_peak_timestamp = map_option (xk_iso_text c) (er_peak_timestamp s), rr_locked_floor_r = er_locked_floor_r s,
     rr_committed_stop = er_committed_stop s, rr_target_1_banked = bool_column (er_target_1_banked s),
     rr_banked_quantity = er_banked_quantity s, rr_breakeven_emitted = bool_column (er_breakeven_emitted s),
     rr_runner_state = er_runner_state s, rr_recovery_status = er_recovery_status s,
     rr_degraded_reason = er_degraded_reason s,
     rr_last_evaluated = map_option (xk_iso_text c) (er_last_evaluated s), rr_version = er_version s,
     rr_updated_at = now\<rparr>"

definition policy_row_of :: "exit_codec \<Rightarrow> string \<Rightarrow> policy_snapshot \<Rightarrow> policy_row result" where
  "policy_row_of c now p = (case (xk_policy_json c (sp_canonical_policy p), xk_policy_json c (sp_provenance p)) of
      (Some policy, Some provenance) \<Rightarrow> Inr \<lparr>pr_trade_id = sp_trade_id p, pr_deployment_id = sp_deployment_id p,
        pr_option_symbol = sp_option_symbol p, pr_active_plan_id = sp_active_plan_id p,
        pr_startup_config_id = sp_startup_config_id p, pr_schema_version = sp_schema_version p,
        pr_policy_id = sp_policy_id p, pr_policy_hash = sp_policy_hash p, pr_policy_json = policy,
        pr_provenance_json = provenance,
        pr_frozen_at = (case sp_frozen_at p of None \<Rightarrow> now | Some t \<Rightarrow> xk_iso_text c t)\<rparr>
    | _ \<Rightarrow> Inl ValueError)"

text \<open>The same frozen policy, whenever it was frozen.\<close>

definition same_policy :: "policy_row \<Rightarrow> policy_row \<Rightarrow> bool" where
  "same_policy v w \<longleftrightarrow> v = w\<lparr>pr_frozen_at := pr_frozen_at v\<rparr>"

definition freeze_policy :: "policy_row \<Rightarrow> exit_db \<Rightarrow> exit_db result" where
  "freeze_policy w db = (case find_policy db (pr_trade_id w) of
      None \<Rightarrow> Inr (db\<lparr>xd_policies := xd_policies db @ [w]\<rparr>)
    | Some v \<Rightarrow> if same_policy v w then Inr db else Inl ValueError)"

definition initialize_state :: "exit_codec \<Rightarrow> string \<Rightarrow> exit_runtime_state \<Rightarrow> exit_db \<Rightarrow> exit_db result" where
  "initialize_state c now s db = (case find_state db (er_trade_id s) of
      Some v \<Rightarrow> if rr_policy_hash v \<noteq> er_policy_hash s then Inl ValueError else Inr db
    | None \<Rightarrow> if valid_runtime_state s then Inr (db\<lparr>xd_states := xd_states db @ [state_row_of c now s]\<rparr>)
              else Inl ValueError)"

definition freeze_policy_and_initialize_state ::
  "exit_codec \<Rightarrow> string \<Rightarrow> policy_snapshot \<Rightarrow> exit_runtime_state \<Rightarrow> exit_db \<Rightarrow> exit_db result" where
  "freeze_policy_and_initialize_state c now p s db =
     (if \<not> snapshot_matches_state p s then Inl ValueError
      else bind_result (xk_policy_hash c (sp_canonical_policy p)) (\<lambda>h.
        if h \<noteq> sp_policy_hash p then Inl ValueError
        else bind_result (policy_row_of c now p) (\<lambda>w.
             bind_result (freeze_policy w db) (initialize_state c now s))))"

section \<open>A transition of the runtime state\<close>

definition le_column :: "real option \<Rightarrow> real option \<Rightarrow> bool" where
  "le_column old new = (case old of None \<Rightarrow> True | Some x \<Rightarrow> (case new of None \<Rightarrow> False | Some y \<Rightarrow> \<not> y < x))"

definition non_regression :: "state_row \<Rightarrow> exit_runtime_state \<Rightarrow> bool" where
  "non_regression w s \<longleftrightarrow> \<not> er_raw_peak s < rr_raw_peak w \<and> \<not> er_confirmed_peak_r s < rr_confirmed_peak_r w
     \<and> le_column (rr_locked_floor_r w) (er_locked_floor_r s)
     \<and> le_column (rr_committed_stop w) (er_committed_stop s)
     \<and> \<not> (rr_target_1_banked w \<noteq> 0 \<and> \<not> er_target_1_banked s)
     \<and> \<not> er_banked_quantity s < rr_banked_quantity w
     \<and> \<not> (rr_breakeven_emitted w \<noteq> 0 \<and> \<not> er_breakeven_emitted s)"

definition same_state_identity :: "state_row \<Rightarrow> exit_runtime_state \<Rightarrow> bool" where
  "same_state_identity w s \<longleftrightarrow> rr_deployment_id w = er_deployment_id s \<and> rr_option_symbol w = er_option_symbol s
     \<and> rr_policy_hash w = er_policy_hash s \<and> rr_seed_entry_premium w = er_seed_entry_premium s
     \<and> rr_seed_quantity w = er_seed_quantity s"

definition transition_row :: "exit_codec \<Rightarrow> string \<Rightarrow> exit_runtime_state \<Rightarrow> state_row \<Rightarrow> state_row" where
  "transition_row c now s w = w\<lparr>
     rr_raw_peak := er_raw_peak s, rr_confirmed_peak_r := er_confirmed_peak_r s,
     rr_peak_timestamp := map_option (xk_iso_text c) (er_peak_timestamp s), rr_locked_floor_r := er_locked_floor_r s,
     rr_committed_stop := er_committed_stop s, rr_target_1_banked := bool_column (er_target_1_banked s),
     rr_banked_quantity := er_banked_quantity s, rr_breakeven_emitted := bool_column (er_breakeven_emitted s),
     rr_runner_state := er_runner_state s, rr_recovery_status := er_recovery_status s,
     rr_degraded_reason := er_degraded_reason s,
     rr_last_evaluated := map_option (xk_iso_text c) (er_last_evaluated s), rr_version := er_version s,
     rr_updated_at := now\<rparr>"

definition transition_runtime_state ::
  "exit_codec \<Rightarrow> string \<Rightarrow> exit_runtime_state \<Rightarrow> int \<Rightarrow> exit_db \<Rightarrow> exit_db result" where
  "transition_runtime_state c now s expected db =
     (if \<not> valid_runtime_state s \<or> er_version s \<noteq> expected + 1 then Inl ValueError
      else case find_state db (er_trade_id s) of
        None \<Rightarrow> Inl ValueError
      | Some w \<Rightarrow>
          if rr_version w \<noteq> expected \<or> \<not> same_state_identity w s \<or> \<not> non_regression w s then Inl ValueError
          else Inr (db\<lparr>xd_states := update_where (\<lambda>v. rr_trade_id v = er_trade_id s \<and> rr_version v = expected)
                 (transition_row c now s) (xd_states db)\<rparr>))"

section \<open>Action intents\<close>

definition intent_row_of :: "exit_codec \<Rightarrow> string \<Rightarrow> action_intent \<Rightarrow> intent_row" where
  "intent_row_of c now i = \<lparr>ir_key = ai_key i, ir_trade_id = ai_trade_id i, ir_policy_hash = ai_policy_hash i,
     ir_kind = ai_kind i, ir_slot = ai_slot i, ir_expected_version = ai_expected_version i, ir_quantity = ai_quantity i,
     ir_stop_price = ai_stop_price i, ir_floor_r = ai_floor_r i, ir_prior_stop_id = ai_prior_stop_id i,
     ir_prior_stop_price = ai_prior_stop_price i, ir_stage = ai_stage i, ir_status = ''prepared'', ir_order_id = None,
     ir_restore_id = None, ir_payload_json = None,
     ir_created_at = (case ai_created_at i of None \<Rightarrow> now | Some t \<Rightarrow> xk_iso_text c t), ir_updated_at = now\<rparr>"

definition same_intent :: "intent_row \<Rightarrow> action_intent \<Rightarrow> bool" where
  "same_intent w i \<longleftrightarrow> ir_key w = ai_key i \<and> ir_policy_hash w = ai_policy_hash i \<and> ir_kind w = ai_kind i
     \<and> ir_expected_version w = ai_expected_version i \<and> ir_quantity w = ai_quantity i
     \<and> ir_stop_price w = ai_stop_price i \<and> ir_floor_r w = ai_floor_r i \<and> ir_prior_stop_id w = ai_prior_stop_id i
     \<and> ir_prior_stop_price w = ai_prior_stop_price i \<and> ir_stage w = ai_stage i"

text \<open>The insertion fails when the key or the slot of the trade is taken.\<close>

definition prepare_action_intent :: "exit_codec \<Rightarrow> string \<Rightarrow> action_intent \<Rightarrow> exit_db \<Rightarrow> exit_db result" where
  "prepare_action_intent c now i db =
     (if ai_status i \<noteq> ''prepared'' then Inl ValueError
      else case find_state db (ai_trade_id i) of
        None \<Rightarrow> Inl ValueError
      | Some w \<Rightarrow>
          if rr_policy_hash w \<noteq> ai_policy_hash i \<or> rr_version w \<noteq> ai_expected_version i then Inl ValueError
          else if find_intent db (ai_key i) = None \<and> find_slot db (ai_trade_id i) (ai_slot i) = None
          then Inr (db\<lparr>xd_intents := xd_intents db @ [intent_row_of c now i]\<rparr>)
          else (case find_slot db (ai_trade_id i) (ai_slot i) of
              None \<Rightarrow> Inl ValueError
            | Some v \<Rightarrow> if same_intent v i then Inr db else Inl ValueError))"

definition OPEN_INTENT_STATUSES :: "string list" where
  "OPEN_INTENT_STATUSES = [''prepared'', ''submitted'']"

definition update_intent :: "string \<Rightarrow> (intent_row \<Rightarrow> intent_row) \<Rightarrow> exit_db \<Rightarrow> exit_db" where
  "update_intent key f db = db\<lparr>xd_intents := update_where (\<lambda>w. ir_key w = key) f (xd_intents db)\<rparr>"

definition bind_action_order ::
  "exit_codec \<Rightarrow> string \<Rightarrow> string \<Rightarrow> string \<Rightarrow> pyval option \<Rightarrow> exit_db \<Rightarrow> exit_db result" where
  "bind_action_order c now key oid payload db = (case find_intent db key of
      None \<Rightarrow> Inl ValueError
    | Some w \<Rightarrow>
        if (ir_order_id w \<noteq> None \<and> ir_order_id w \<noteq> Some oid) \<or> ir_status w \<notin> set OPEN_INTENT_STATUSES then Inl ValueError
        else Inr (update_intent key (\<lambda>w. w\<lparr>ir_status := ''submitted'', ir_order_id := Some oid,
               ir_payload_json := coalesce (map_option (xk_payload_json c) payload) (ir_payload_json w),
               ir_updated_at := now\<rparr>) db))"

definition update_action_handoff ::
  "exit_codec \<Rightarrow> string \<Rightarrow> string \<Rightarrow> string \<Rightarrow> string option \<Rightarrow> pyval option \<Rightarrow> exit_db \<Rightarrow> exit_db result" where
  "update_action_handoff c now key stage restore payload db =
     (if py_strip stage = [] then Inl ValueError
      else case find_intent db key of
        None \<Rightarrow> Inl ValueError
      | Some w \<Rightarrow>
          if ir_status w \<notin> set OPEN_INTENT_STATUSES
             \<or> (ir_restore_id w \<noteq> None \<and> restore \<noteq> None \<and> ir_restore_id w \<noteq> restore
                \<and> ir_stage w \<noteq> ''restore_submit_pending'') then Inl ValueError
          else Inr (update_intent key (\<lambda>w. w\<lparr>ir_stage := stage, ir_restore_id := coalesce restore (ir_restore_id w),
                 ir_payload_json := coalesce (map_option (xk_payload_json c) payload) (ir_payload_json w),
                 ir_updated_at := now\<rparr>) db))"

definition resolve_action_intent ::
  "exit_codec \<Rightarrow> string \<Rightarrow> string \<Rightarrow> string \<Rightarrow> pyval option \<Rightarrow> exit_db \<Rightarrow> exit_db result" where
  "resolve_action_intent c now key status payload db =
     (if status \<notin> {''confirmed'', ''failed'', ''abandoned''} \<or> find_intent db key = None then Inl ValueError
      else Inr (update_intent key (\<lambda>w. w\<lparr>ir_status := status,
             ir_payload_json := coalesce (map_option (xk_payload_json c) payload) (ir_payload_json w),
             ir_updated_at := now\<rparr>) db))"

section \<open>The rollback latch\<close>

definition latch_risk_envelope_rollback :: "string \<Rightarrow> string \<Rightarrow> string \<Rightarrow> exit_db \<Rightarrow> exit_db result" where
  "latch_risk_envelope_rollback now dep reason db =
     (if py_strip dep = [] \<or> py_strip reason = [] then Inl ValueError
      else Inr (if map_of (xd_latches db) dep \<noteq> None then db
                else db\<lparr>xd_latches := xd_latches db @ [(dep, reason, now)]\<rparr>))"

definition get_risk_envelope_rollback :: "string \<Rightarrow> exit_db \<Rightarrow> (string \<times> string) option" where
  "get_risk_envelope_rollback dep db = map_of (xd_latches db) dep"

definition inspect_rollback_latches :: "string list option \<Rightarrow> exit_db \<Rightarrow> (string \<times> string \<times> string) list" where
  "inspect_rollback_latches wanted db =
     filter (\<lambda>x. case wanted of None \<Rightarrow> True | Some ids \<Rightarrow> fst x \<in> set ids) (sort_key fst (xd_latches db))"

section \<open>Reading\<close>

definition runtime_state_of_row :: "exit_codec \<Rightarrow> state_row \<Rightarrow> exit_runtime_state result" where
  "runtime_state_of_row c w =
     bind_result (read_column (read_or_value_error (xk_iso_read c)) (rr_peak_timestamp w)) (\<lambda>peak_at.
     bind_result (read_column (read_or_value_error (xk_iso_read c)) (rr_last_evaluated w)) (\<lambda>evaluated.
     Inr \<lparr>er_trade_id = rr_trade_id w, er_deployment_id = rr_deployment_id w, er_option_symbol = rr_option_symbol w,
       er_policy_hash = rr_policy_hash w, er_seed_entry_premium = rr_seed_entry_premium w,
       er_seed_quantity = rr_seed_quantity w, er_initial_risk = rr_initial_risk w, er_raw_peak = rr_raw_peak w,
       er_confirmed_peak_r = rr_confirmed_peak_r w, er_peak_timestamp = peak_at, er_locked_floor_r = rr_locked_floor_r w,
       er_committed_stop = rr_committed_stop w, er_target_1_banked = (rr_target_1_banked w \<noteq> 0),
       er_banked_quantity = rr_banked_quantity w, er_breakeven_emitted = (rr_breakeven_emitted w \<noteq> 0),
       er_runner_state = rr_runner_state w, er_recovery_status = rr_recovery_status w,
       er_degraded_reason = rr_degraded_reason w, er_last_evaluated = evaluated, er_version = rr_version w\<rparr>))"

definition get_runtime_state :: "exit_codec \<Rightarrow> string \<Rightarrow> exit_db \<Rightarrow> exit_runtime_state option result" where
  "get_runtime_state c tid db = (case find_state db tid of
      None \<Rightarrow> Inr None | Some w \<Rightarrow> bind_result (runtime_state_of_row c w) (\<lambda>s. Inr (Some s)))"

definition intent_of_row :: "exit_codec \<Rightarrow> intent_row \<Rightarrow> action_intent result" where
  "intent_of_row c w =
     bind_result (read_column (read_or_value_error (xk_json_read c)) (ir_payload_json w)) (\<lambda>payload.
     bind_result (read_or_value_error (xk_iso_read c) (ir_created_at w)) (\<lambda>created.
     bind_result (read_or_value_error (xk_iso_read c) (ir_updated_at w)) (\<lambda>updated.
     Inr \<lparr>ai_key = ir_key w, ai_trade_id = ir_trade_id w, ai_policy_hash = ir_policy_hash w, ai_kind = ir_kind w,
       ai_slot = ir_slot w, ai_expected_version = ir_expected_version w, ai_quantity = ir_quantity w,
       ai_stop_price = ir_stop_price w, ai_floor_r = ir_floor_r w, ai_prior_stop_id = ir_prior_stop_id w,
       ai_prior_stop_price = ir_prior_stop_price w, ai_stage = ir_stage w, ai_status = ir_status w,
       ai_order_id = ir_order_id w, ai_restore_id = ir_restore_id w, ai_payload = payload,
       ai_created_at = Some created, ai_updated_at = Some updated\<rparr>)))"

definition get_open_action_intents :: "exit_codec \<Rightarrow> string \<Rightarrow> exit_db \<Rightarrow> action_intent list result" where
  "get_open_action_intents c tid db = read_rows (intent_of_row c)
     (sort_key ir_created_at (sort_key ir_key
        (filter (\<lambda>w. ir_trade_id w = tid \<and> ir_status w \<in> set OPEN_INTENT_STATUSES) (xd_intents db))))"

definition get_policy_snapshot :: "exit_codec \<Rightarrow> string \<Rightarrow> exit_db \<Rightarrow> policy_snapshot option result" where
  "get_policy_snapshot c tid db = (case find_policy db tid of
      None \<Rightarrow> Inr None
    | Some w \<Rightarrow>
        bind_result (read_or_value_error (xk_json_read c) (pr_policy_json w)) (\<lambda>policy.
        bind_result (read_or_value_error (xk_json_read c) (pr_provenance_json w)) (\<lambda>provenance.
        bind_result (read_or_value_error (xk_iso_read c) (pr_frozen_at w)) (\<lambda>frozen.
        Inr (Some \<lparr>sp_trade_id = pr_trade_id w, sp_deployment_id = pr_deployment_id w,
          sp_option_symbol = pr_option_symbol w, sp_active_plan_id = pr_active_plan_id w,
          sp_startup_config_id = pr_startup_config_id w, sp_schema_version = pr_schema_version w,
          sp_policy_id = pr_policy_id w, sp_policy_hash = pr_policy_hash w, sp_canonical_policy = policy,
          sp_provenance = provenance, sp_frozen_at = Some frozen\<rparr>)))))"

section \<open>Runs of writes\<close>

datatype exit_op =
    Freeze string policy_snapshot exit_runtime_state
  | Transition string exit_runtime_state int
  | Prepare string action_intent
  | Bind_Order string string string "pyval option"
  | Handoff string string string "string option" "pyval option"
  | Resolve string string string "pyval option"
  | Latch string string string

fun exit_step :: "exit_codec \<Rightarrow> exit_op \<Rightarrow> exit_db \<Rightarrow> exit_db result" where
  "exit_step c (Freeze now p s) db = freeze_policy_and_initialize_state c now p s db"
| "exit_step c (Transition now s expected) db = transition_runtime_state c now s expected db"
| "exit_step c (Prepare now i) db = prepare_action_intent c now i db"
| "exit_step c (Bind_Order now key oid payload) db = bind_action_order c now key oid payload db"
| "exit_step c (Handoff now key stage restore payload) db = update_action_handoff c now key stage restore payload db"
| "exit_step c (Resolve now key status payload) db = resolve_action_intent c now key status payload db"
| "exit_step c (Latch now dep reason) db = latch_risk_envelope_rollback now dep reason db"

definition exit_apply :: "exit_codec \<Rightarrow> exit_op \<Rightarrow> exit_db \<Rightarrow> exit_db" where
  "exit_apply c x db = (case exit_step c x db of Inl _ \<Rightarrow> db | Inr db' \<Rightarrow> db')"

definition exit_run :: "exit_codec \<Rightarrow> exit_op list \<Rightarrow> exit_db \<Rightarrow> exit_db" where
  "exit_run c xs db = fold (exit_apply c) xs db"

text \<open>A property that every accepted write keeps holds after any run.\<close>

lemma exit_run_keeps:
  assumes "P db" "\<And>x db db'. P db \<Longrightarrow> exit_step c x db = Inr db' \<Longrightarrow> P db'"
  shows "P (exit_run c xs db)"
proof -
  have "P db \<Longrightarrow> P (fold (exit_apply c) xs db)" for db
    using assms(2) by (induction xs arbitrary: db) (auto simp: exit_apply_def split: sum.split)
  then show ?thesis using assms(1) by (simp add: exit_run_def)
qed

text \<open>What each accepted write leaves of the four tables.\<close>

lemma freeze_effect:
  "freeze_policy_and_initialize_state c now p s db = Inr db' \<Longrightarrow>
   xd_intents db' = xd_intents db \<and> xd_latches db' = xd_latches db
   \<and> (xd_policies db' = xd_policies db \<or> find_policy db (sp_trade_id p) = None
        \<and> (\<exists>w. pr_trade_id w = sp_trade_id p \<and> xd_policies db' = xd_policies db @ [w]))
   \<and> (xd_states db' = xd_states db \<or> find_state db (er_trade_id s) = None \<and> valid_runtime_state s
        \<and> xd_states db' = xd_states db @ [state_row_of c now s])"
  by (auto simp: freeze_policy_and_initialize_state_def bind_result_Inr_iff freeze_policy_def initialize_state_def
      policy_row_of_def find_state_def find_policy_def split: if_splits option.splits)

lemma transition_effect:
  "transition_runtime_state c now s expected db = Inr db' \<Longrightarrow>
   \<exists>w. find_state db (er_trade_id s) = Some w \<and> rr_version w = expected \<and> er_version s = expected + 1
     \<and> same_state_identity w s \<and> non_regression w s \<and> valid_runtime_state s
     \<and> db' = db\<lparr>xd_states := update_where (\<lambda>v. rr_trade_id v = er_trade_id s \<and> rr_version v = expected)
         (transition_row c now s) (xd_states db)\<rparr>"
  by (auto simp: transition_runtime_state_def split: if_splits option.splits)

lemma prepare_effect:
  "prepare_action_intent c now i db = Inr db' \<Longrightarrow> db' = db \<or>
   find_intent db (ai_key i) = None \<and> find_slot db (ai_trade_id i) (ai_slot i) = None
   \<and> db' = db\<lparr>xd_intents := xd_intents db @ [intent_row_of c now i]\<rparr>"
  by (auto simp: prepare_action_intent_def split: if_splits option.splits)

lemma find_append: "find P (xs @ ys) = (case find P xs of None \<Rightarrow> find P ys | Some x \<Rightarrow> Some x)"
  by (induction xs) auto

section \<open>The runtime state only advances\<close>

definition same_seed :: "state_row \<Rightarrow> state_row \<Rightarrow> bool" where
  "same_seed v w \<longleftrightarrow> rr_trade_id w = rr_trade_id v \<and> rr_deployment_id w = rr_deployment_id v
     \<and> rr_option_symbol w = rr_option_symbol v \<and> rr_policy_hash w = rr_policy_hash v
     \<and> rr_seed_entry_premium w = rr_seed_entry_premium v \<and> rr_seed_quantity w = rr_seed_quantity v
     \<and> rr_initial_risk w = rr_initial_risk v"

definition not_below :: "state_row \<Rightarrow> state_row \<Rightarrow> bool" where
  "not_below v w \<longleftrightarrow> rr_raw_peak v \<le> rr_raw_peak w \<and> rr_confirmed_peak_r v \<le> rr_confirmed_peak_r w
     \<and> le_column (rr_locked_floor_r v) (rr_locked_floor_r w) \<and> le_column (rr_committed_stop v) (rr_committed_stop w)
     \<and> (rr_target_1_banked v \<noteq> 0 \<longrightarrow> rr_target_1_banked w \<noteq> 0) \<and> rr_banked_quantity v \<le> rr_banked_quantity w
     \<and> (rr_breakeven_emitted v \<noteq> 0 \<longrightarrow> rr_breakeven_emitted w \<noteq> 0)"

definition state_advances :: "state_row \<Rightarrow> state_row \<Rightarrow> bool" where
  "state_advances v w \<longleftrightarrow> w = v \<or> rr_version v < rr_version w \<and> same_seed v w \<and> not_below v w"

lemma le_column_trans: "le_column x y \<Longrightarrow> le_column y z \<Longrightarrow> le_column x z"
  by (auto simp: le_column_def split: option.splits)

lemma le_column_refl [simp]: "le_column x x"
  by (simp add: le_column_def split: option.split)

lemma same_seed_trans: "same_seed u v \<Longrightarrow> same_seed v w \<Longrightarrow> same_seed u w"
  by (simp add: same_seed_def)

lemma not_below_trans: "not_below u v \<Longrightarrow> not_below v w \<Longrightarrow> not_below u w"
  unfolding not_below_def by (meson le_column_trans order_trans)

lemma state_advances_trans:
  assumes "state_advances u v" "state_advances v w"
  shows "state_advances u w"
proof (cases "v = u \<or> w = v")
  case False
  then show ?thesis
    using assms same_seed_trans [of u v w] not_below_trans [of u v w] unfolding state_advances_def by simp
qed (use assms in auto)

lemma state_advances_facts:
  assumes "state_advances v w"
  shows "rr_version v \<le> rr_version w \<and> (rr_version w = rr_version v \<longrightarrow> w = v) \<and> same_seed v w \<and> not_below v w"
  using assms unfolding state_advances_def
  by (elim disjE) (simp_all add: same_seed_def not_below_def)

lemma transition_advances:
  "same_state_identity w s \<Longrightarrow> non_regression w s \<Longrightarrow> rr_trade_id w = er_trade_id s \<Longrightarrow>
   er_version s = rr_version w + 1 \<Longrightarrow> state_advances w (transition_row c now s w)"
  by (auto simp: state_advances_def same_seed_def not_below_def same_state_identity_def non_regression_def
      transition_row_def bool_column_def)

lemma find_state_id: "find_state db tid = Some w \<Longrightarrow> rr_trade_id w = tid"
  by (auto simp: find_state_def find_Some_iff)

lemma find_transition:
  "find_state (db\<lparr>xd_states := update_where (\<lambda>v. rr_trade_id v = t \<and> rr_version v = n) (transition_row c now s) (xd_states db)\<rparr>) tid
   = map_option (\<lambda>w. if rr_trade_id w = t \<and> rr_version w = n then transition_row c now s w else w) (find_state db tid)"
  by (simp add: find_state_def find_update_where transition_row_def)

lemma state_step:
  assumes "exit_step c x db = Inr db'" "find_state db tid = Some w"
  shows "\<exists>w'. find_state db' tid = Some w' \<and> state_advances w w'"
proof -
  have same: ?thesis if "xd_states db' = xd_states db"
    using that assms(2) by (auto simp: find_state_def state_advances_def)
  show ?thesis
  proof (cases x)
    case (Freeze now p s)
    then show ?thesis
      using freeze_effect [of c now p s db db'] assms same
      by (auto simp: find_state_def find_append state_advances_def)
  next
    case (Transition now s n)
    then obtain v where v: "find_state db (er_trade_id s) = Some v" "rr_version v = n" "er_version s = n + 1"
      "same_state_identity v s" "non_regression v s" and db': "db' = db\<lparr>xd_states :=
        update_where (\<lambda>v. rr_trade_id v = er_trade_id s \<and> rr_version v = n) (transition_row c now s) (xd_states db)\<rparr>"
      using transition_effect [of c now s n db db'] assms(1) by auto
    show ?thesis
    proof (cases "tid = er_trade_id s")
      case True
      then have "w = v" using v(1) assms(2) by simp
      then show ?thesis
        using v True find_state_id [OF v(1)] assms(2) transition_advances [of v s c now]
        by (auto simp: db' find_transition)
    next
      case False
      then show ?thesis using find_state_id [OF assms(2)] assms(2) by (auto simp: db' find_transition state_advances_def)
    qed
  next
    case (Prepare now i)
    then show ?thesis using prepare_effect [of c now i db db'] assms(1) same by auto
  qed (use assms(1) same in \<open>auto simp: bind_action_order_def update_action_handoff_def resolve_action_intent_def
      latch_risk_envelope_rollback_def update_intent_def split: if_splits option.splits\<close>)
qed

lemma policy_step:
  assumes "exit_step c x db = Inr db'" "find_policy db tid = Some w"
  shows "find_policy db' tid = Some w"
proof -
  have same: ?thesis if "xd_policies db' = xd_policies db" using that assms(2) by (simp add: find_policy_def)
  show ?thesis
  proof (cases x)
    case (Freeze now p s)
    then show ?thesis
      using freeze_effect [of c now p s db db'] assms same by (auto simp: find_policy_def find_append)
  next
    case (Transition now s n)
    then show ?thesis using transition_effect [of c now s n db db'] assms(1) same by auto
  next
    case (Prepare now i)
    then show ?thesis using prepare_effect [of c now i db db'] assms(1) same by auto
  qed (use assms(1) same in \<open>auto simp: bind_action_order_def update_action_handoff_def resolve_action_intent_def
      latch_risk_envelope_rollback_def update_intent_def split: if_splits option.splits\<close>)
qed


section \<open>An intent is submitted once\<close>

definition same_request :: "intent_row \<Rightarrow> intent_row \<Rightarrow> bool" where
  "same_request v w \<longleftrightarrow> ir_key w = ir_key v \<and> ir_trade_id w = ir_trade_id v \<and> ir_slot w = ir_slot v
     \<and> ir_kind w = ir_kind v \<and> ir_policy_hash w = ir_policy_hash v \<and> ir_expected_version w = ir_expected_version v
     \<and> ir_quantity w = ir_quantity v \<and> ir_stop_price w = ir_stop_price v \<and> ir_floor_r w = ir_floor_r v
     \<and> ir_prior_stop_id w = ir_prior_stop_id v \<and> ir_prior_stop_price w = ir_prior_stop_price v
     \<and> ir_created_at w = ir_created_at v"

definition intent_kept :: "intent_row \<Rightarrow> intent_row \<Rightarrow> bool" where
  "intent_kept v w \<longleftrightarrow> same_request v w \<and> (ir_order_id v \<noteq> None \<longrightarrow> ir_order_id w = ir_order_id v)
     \<and> (ir_status v \<notin> set OPEN_INTENT_STATUSES \<longrightarrow>
          ir_status w \<notin> set OPEN_INTENT_STATUSES \<and> ir_order_id w = ir_order_id v)"

lemma intent_kept_refl [simp]: "intent_kept w w"
  by (simp add: intent_kept_def same_request_def)

lemma intent_kept_trans: "intent_kept u v \<Longrightarrow> intent_kept v w \<Longrightarrow> intent_kept u w"
  unfolding intent_kept_def same_request_def by simp

lemma find_update_intent:
  assumes "\<And>w. ir_key (f w) = ir_key w"
  shows "find_intent (update_intent key f db) k = map_option (\<lambda>w. if ir_key w = key then f w else w) (find_intent db k)"
  using assms by (simp add: find_intent_def update_intent_def find_update_where)

lemma update_intent_keeps:
  assumes "find_intent db k = Some w" "\<And>w. ir_key (f w) = ir_key w"
    and "\<And>v. find_intent db key = Some v \<Longrightarrow> intent_kept v (f v)"
  shows "\<exists>w'. find_intent (update_intent key f db) k = Some w' \<and> intent_kept w w'"
proof -
  have "ir_key w = k" using assms(1) by (auto simp: find_intent_def find_Some_iff)
  then show ?thesis using assms by (auto simp: find_update_intent)
qed

lemma intent_step:
  assumes "exit_step c x db = Inr db'" "find_intent db k = Some w"
  shows "\<exists>w'. find_intent db' k = Some w' \<and> intent_kept w w'"
proof -
  have same: ?thesis if "xd_intents db' = xd_intents db"
    using that assms(2) by (auto simp: find_intent_def)
  have update: ?thesis if "db' = update_intent key f db" "\<And>w. ir_key (f w) = ir_key w"
    "\<And>v. find_intent db key = Some v \<Longrightarrow> intent_kept v (f v)" for key f
    unfolding that(1) using assms(2) that(2,3) by (rule update_intent_keeps)
  show ?thesis
  proof (cases x)
    case (Freeze now p s)
    then show ?thesis using freeze_effect [of c now p s db db'] assms same by auto
  next
    case (Transition now s n)
    then show ?thesis using transition_effect [of c now s n db db'] assms(1) same by auto
  next
    case (Prepare now i)
    then show ?thesis
      using prepare_effect [of c now i db db'] assms by (auto simp: find_intent_def find_append)
  next
    case (Bind_Order now key oid payload)
    then obtain v where v: "find_intent db key = Some v" "ir_order_id v = None \<or> ir_order_id v = Some oid"
      "ir_status v \<in> set OPEN_INTENT_STATUSES" and db': "db' = update_intent key (\<lambda>w. w\<lparr>ir_status := ''submitted'',
        ir_order_id := Some oid, ir_payload_json := coalesce (map_option (xk_payload_json c) payload) (ir_payload_json w),
        ir_updated_at := now\<rparr>) db"
      using assms(1) by (auto simp: bind_action_order_def split: if_splits option.splits)
    from db' show ?thesis
      by (rule update) (use v in \<open>auto simp: intent_kept_def same_request_def OPEN_INTENT_STATUSES_def\<close>)
  next
    case (Handoff now key stage restore payload)
    then obtain v where "db' = update_intent key (\<lambda>w. w\<lparr>ir_stage := stage, ir_restore_id := coalesce restore (ir_restore_id w),
        ir_payload_json := coalesce (map_option (xk_payload_json c) payload) (ir_payload_json w),
        ir_updated_at := now\<rparr>) db"
      using assms(1) by (auto simp: update_action_handoff_def split: if_splits option.splits)
    then show ?thesis by (rule update) (auto simp: intent_kept_def same_request_def)
  next
    case (Resolve now key status payload)
    then have db': "db' = update_intent key (\<lambda>w. w\<lparr>ir_status := status,
        ir_payload_json := coalesce (map_option (xk_payload_json c) payload) (ir_payload_json w),
        ir_updated_at := now\<rparr>) db" and status: "status \<in> {''confirmed'', ''failed'', ''abandoned''}"
      using assms(1) by (auto simp: resolve_action_intent_def split: if_splits)
    from db' show ?thesis
      by (rule update) (use status in \<open>auto simp: intent_kept_def same_request_def OPEN_INTENT_STATUSES_def\<close>)
  qed (use assms(1) same in \<open>auto simp: latch_risk_envelope_rollback_def split: if_splits\<close>)
qed

text \<open>No two intents share a key or a slot of a trade.\<close>

definition intents_unique :: "exit_db \<Rightarrow> bool" where
  "intents_unique db \<longleftrightarrow> distinct (map ir_key (xd_intents db))
     \<and> distinct (map (\<lambda>w. (ir_trade_id w, ir_slot w)) (xd_intents db))"

lemma map_update_intent:
  "(\<And>w. g (f w) = g w) \<Longrightarrow> map g (xd_intents (update_intent key f db)) = map g (xd_intents db)"
  by (auto simp: update_intent_def update_where_def)

lemma intents_unique_step:
  assumes "exit_step c x db = Inr db'" "intents_unique db"
  shows "intents_unique db'"
proof (cases x)
  case (Freeze now p s)
  then show ?thesis using freeze_effect [of c now p s db db'] assms by (simp add: intents_unique_def)
next
  case (Transition now s n)
  then show ?thesis using transition_effect [of c now s n db db'] assms by (auto simp: intents_unique_def)
next
  case (Prepare now i)
  then have "db' = db \<or> find_intent db (ai_key i) = None \<and> find_slot db (ai_trade_id i) (ai_slot i) = None
      \<and> db' = db\<lparr>xd_intents := xd_intents db @ [intent_row_of c now i]\<rparr>"
    using prepare_effect [of c now i db db'] assms(1) by simp
  moreover have "ir_key (intent_row_of c now i) = ai_key i" "ir_trade_id (intent_row_of c now i) = ai_trade_id i"
    "ir_slot (intent_row_of c now i) = ai_slot i" by (simp_all add: intent_row_of_def)
  ultimately show ?thesis
    using assms(2) by (fastforce simp: intents_unique_def find_intent_def find_slot_def find_None_iff)
qed (use assms in \<open>auto simp: bind_action_order_def update_action_handoff_def resolve_action_intent_def
    latch_risk_envelope_rollback_def intents_unique_def map_update_intent split: if_splits option.splits\<close>)

lemma distinct_filter_one: "distinct (map g xs) \<Longrightarrow> x \<in> set xs \<Longrightarrow> filter (\<lambda>y. g y = g x) xs = [x]"
proof (induction xs)
  case (Cons y ys)
  show ?case
  proof (cases "x = y")
    case True
    then have "filter (\<lambda>z. g z = g x) ys = []"
      using Cons.prems(1) by (auto simp: filter_empty_conv) (metis image_eqI)
    then show ?thesis using True by simp
  next
    case False
    then have "g y \<noteq> g x" using Cons.prems by auto
    then show ?thesis using False Cons by simp
  qed
qed simp

text \<open>
  C33. An action intent is submitted once. In tables grown from empty ones by any writes, a trade
  has at most one intent per slot, whatever its key. And through any further writes an intent
  keeps its request; a broker order bound to it is never replaced by another; and once it is
  resolved it is not open again and no order is bound to it.
\<close>

theorem action_intent_submitted_once:
  assumes "db = exit_run c before \<lparr>xd_policies = [], xd_states = [], xd_intents = [], xd_latches = []\<rparr>"
    and "find_intent db key = Some i"
  shows "filter (\<lambda>w. ir_trade_id w = ir_trade_id i \<and> ir_slot w = ir_slot i) (xd_intents db) = [i]
    \<and> (\<exists>i'. find_intent (exit_run c later db) key = Some i' \<and> same_request i i'
        \<and> (ir_order_id i \<noteq> None \<longrightarrow> ir_order_id i' = ir_order_id i)
        \<and> (ir_status i \<notin> set OPEN_INTENT_STATUSES \<longrightarrow>
             ir_status i' \<notin> set OPEN_INTENT_STATUSES \<and> ir_order_id i' = ir_order_id i))"
proof -
  have "intents_unique db"
    unfolding assms(1) by (rule exit_run_keeps [OF _ intents_unique_step]) (simp add: intents_unique_def)
  moreover have "i \<in> set (xd_intents db)" using assms(2) by (auto simp: find_intent_def find_Some_iff)
  ultimately have "filter (\<lambda>w. (ir_trade_id w, ir_slot w) = (ir_trade_id i, ir_slot i)) (xd_intents db) = [i]"
    using distinct_filter_one [of "\<lambda>w. (ir_trade_id w, ir_slot w)" "xd_intents db" i] by (simp add: intents_unique_def)
  moreover have "\<exists>i'. find_intent (exit_run c later db) key = Some i' \<and> intent_kept i i'"
  proof (rule exit_run_keeps [where P = "\<lambda>db'. \<exists>i'. find_intent db' key = Some i' \<and> intent_kept i i'"])
    show "\<exists>i'. find_intent db key = Some i' \<and> intent_kept i i'" using assms(2) by simp
  qed (use intent_step intent_kept_trans in blast)
  ultimately show ?thesis unfolding intent_kept_def by auto
qed

section \<open>Concrete writes\<close>

definition demo_exit_codec :: exit_codec where
  "demo_exit_codec = \<lparr>xk_iso_text = (\<lambda>_. ''t''), xk_iso_read = (\<lambda>_. Some (Aware 0)), xk_policy_json = (\<lambda>_. Some ''{}''),
     xk_payload_json = (\<lambda>_. ''{}''), xk_json_read = (\<lambda>_. Some (PDict [])), xk_policy_hash = (\<lambda>_. Inr ''h'')\<rparr>"

definition demo_snapshot :: policy_snapshot where
  "demo_snapshot = \<lparr>sp_trade_id = ''t1'', sp_deployment_id = ''d1'', sp_option_symbol = None, sp_active_plan_id = None,
     sp_startup_config_id = None, sp_schema_version = ''v2'', sp_policy_id = ''p'', sp_policy_hash = ''h'',
     sp_canonical_policy = PDict [], sp_provenance = PDict [], sp_frozen_at = None\<rparr>"

definition demo_runtime :: exit_runtime_state where
  "demo_runtime = \<lparr>er_trade_id = ''t1'', er_deployment_id = ''d1'', er_option_symbol = None, er_policy_hash = ''h'',
     er_seed_entry_premium = 2, er_seed_quantity = 3, er_initial_risk = 1, er_raw_peak = 2, er_confirmed_peak_r = 0,
     er_peak_timestamp = None, er_locked_floor_r = None, er_committed_stop = None, er_target_1_banked = False,
     er_banked_quantity = 0, er_breakeven_emitted = False, er_runner_state = ''pre_t1'', er_recovery_status = ''active'',
     er_degraded_reason = None, er_last_evaluated = None, er_version = 1\<rparr>"

definition demo_intent :: action_intent where
  "demo_intent = \<lparr>ai_key = ''k1'', ai_trade_id = ''t1'', ai_policy_hash = ''h'', ai_kind = ''partial_scale'', ai_slot = ''t1'',
     ai_expected_version = 1, ai_quantity = Some 1, ai_stop_price = None, ai_floor_r = None, ai_prior_stop_id = None,
     ai_prior_stop_price = None, ai_stage = ''prepared'', ai_status = ''prepared'', ai_order_id = None, ai_restore_id = None,
     ai_payload = None, ai_created_at = None, ai_updated_at = None\<rparr>"

definition empty_exit_db :: exit_db where
  "empty_exit_db = \<lparr>xd_policies = [], xd_states = [], xd_intents = [], xd_latches = []\<rparr>"

definition demo_frozen_db :: exit_db where
  "demo_frozen_db = exit_run demo_exit_codec [Freeze ''a'' demo_snapshot demo_runtime] empty_exit_db"

lemma demo_frozen: "find_state demo_frozen_db ''t1'' = Some (state_row_of demo_exit_codec ''a'' demo_runtime)"
  by (simp add: demo_frozen_db_def exit_run_def exit_apply_def freeze_policy_and_initialize_state_def demo_exit_codec_def
      demo_snapshot_def demo_runtime_def snapshot_matches_state_def policy_row_of_def freeze_policy_def initialize_state_def
      empty_exit_db_def find_policy_def find_state_def valid_runtime_state_def state_row_of_def)


definition demo_bound_db :: exit_db where
  "demo_bound_db = exit_run demo_exit_codec [Freeze ''a'' demo_snapshot demo_runtime, Prepare ''b'' demo_intent,
     Bind_Order ''c'' ''k1'' ''o1'' None] empty_exit_db"

lemma demo_bound: "map_option (\<lambda>i. (ir_order_id i, ir_status i)) (find_intent demo_bound_db ''k1'') = Some (Some ''o1'', ''submitted'')"
  by code_simp

theorem action_intent_submitted_once_witness:
  "\<exists>i'. find_intent (exit_run demo_exit_codec [Bind_Order ''d'' ''k1'' ''o2'' None] demo_bound_db) ''k1'' = Some i'
     \<and> ir_order_id i' = Some ''o1''"
proof -
  obtain i where i: "find_intent demo_bound_db ''k1'' = Some i" "ir_order_id i = Some ''o1''"
    using demo_bound by (cases "find_intent demo_bound_db ''k1''") auto
  from action_intent_submitted_once [OF demo_bound_db_def [unfolded empty_exit_db_def] i(1)] i(2)
  show ?thesis by auto
qed

end
