(* ===== verification/Supervisor.thy ===== *)
theory Supervisor
  imports Sup_Helpers Exit_State
begin

text \<open>
  The state of \<open>ExecutionSupervisor\<close> (\<open>src/bhiksha/execution/supervisor.py\<close>) and the steps its
  handlers share: events, lifecycle transitions, the decoration of trade records with their
  evidence identity, the terminal close. A handler is an operation with state and exceptions.
  The durable exit state is absent where no repository is configured; what the cash guard and
  the risk manager are told of an entry's reservations is kept as a sequence of calls. The
  environment holds the broker, the clock (the \<open>n\<close>-th reading), fresh order ids (and those derived
  from a text, \<open>uuid5(NAMESPACE_URL, .)\<close>), the codec
  of the store, the evidence identities and the switches of the order manager. The writers of
  the operator's sheet, the in-memory event bus and the Cartographer's terminal facts are not
  modelled: they read the state and change none of it.
\<close>

section \<open>State and environment\<close>

record frozen_policy =
  fp_schema_version :: "string option"
  fp_id :: "string option"
  fp_hash :: "string option"

text \<open>The calls on the cash guard and the risk manager for the reservations of an entry, in order.\<close>

datatype reservation_call =
    Finalize_Cash string
  | Release_Cash string
  | Release_Risk string
  | Commit_Risk string
  | Sync_Cash "tracked_position list" "trade_session list"

record sup_env =
  se_broker :: broker
  se_late :: "broker_call list \<Rightarrow> bool"
  se_readback_late :: "broker_call list \<Rightarrow> bool"
  se_tx :: "pyval \<Rightarrow> string"
  se_repr :: "pyval \<Rightarrow> string"
  se_iso_parse :: "string \<Rightarrow> pydt option"
  se_isofmt :: "int \<Rightarrow> string"
  se_time_iso :: "string \<Rightarrow> dt_time option"
  se_et :: "int \<Rightarrow> int"
  se_codec :: codec
  se_exit_codec :: exit_codec
  se_clock :: "nat \<Rightarrow> int"
  se_uuid :: "nat \<Rightarrow> string"
  se_uuid5 :: "string \<Rightarrow> string"
  se_sha256 :: "string \<Rightarrow> string"
  se_identity :: "(string \<times> params) list"
  se_active_plan_id :: "string option"
  se_live_env :: "string option"
  se_concurrent_exits :: bool
  se_submit_before_cancel :: bool
  se_app :: app_config

record sup_state =
  sv_orders :: order_state
  sv_tracker :: position_tracker
  sv_lifecycle :: lifecycle_store
  sv_trades :: trade_db
  sv_events :: "(string \<times> params) list"
  sv_ladder :: ladder_states
  sv_frozen :: "(string \<times> frozen_policy) list"
  sv_durable :: "(string \<times> exit_runtime_state) list"
  sv_exits :: "exit_db option"
  sv_reservations :: "reservation_call list"
  sv_degraded :: "string list"
  sv_recovery_events :: "string list"
  sv_refresh_wanted :: bool
  sv_reads :: nat

type_synonym 'a sup = "(sup_state, 'a) sx"

definition sv_zoom :: "'a om \<Rightarrow> 'a sup" where
  "sv_zoom m = (\<lambda>s. let (r, o') = m (sv_orders s) in (r, s\<lparr>sv_orders := o'\<rparr>))"

text \<open>An operation on the orders that does not raise.\<close>

definition sv_total :: "(order_state \<Rightarrow> 'a \<times> order_state) \<Rightarrow> 'a sup" where
  "sv_total m = (\<lambda>s. let (x, o') = m (sv_orders s) in (Inr x, s\<lparr>sv_orders := o'\<rparr>))"

definition sv_do :: "(sup_state \<Rightarrow> sup_state) \<Rightarrow> unit sup" where
  "sv_do f = (\<lambda>s. (Inr (), f s))"

definition sv_get :: "(sup_state \<Rightarrow> 'a) \<Rightarrow> 'a sup" where
  "sv_get f = (\<lambda>s. (Inr (f s), s))"

text \<open>\<open>datetime.now(UTC)\<close> and \<open>str(uuid4())\<close>.\<close>

definition sv_now :: "sup_env \<Rightarrow> pydt sup" where
  "sv_now e = (\<lambda>s. (Inr (Aware (se_clock e (sv_reads s))), s\<lparr>sv_reads := Suc (sv_reads s)\<rparr>))"

definition sv_uuid :: "sup_env \<Rightarrow> string sup" where
  "sv_uuid e = (\<lambda>s. (Inr (se_uuid e (sv_reads s)), s\<lparr>sv_reads := Suc (sv_reads s)\<rparr>))"

definition sv_emit :: "string \<Rightarrow> params \<Rightarrow> unit sup" where
  "sv_emit name payload = sv_do (\<lambda>s. s\<lparr>sv_events := sv_events s @ [(name, payload)]\<rparr>)"

section \<open>Identity of an event\<close>

definition opt_bind :: "'a option \<Rightarrow> ('a \<Rightarrow> 'b option) \<Rightarrow> 'b option" where
  "opt_bind x f = (case x of None \<Rightarrow> None | Some y \<Rightarrow> f y)"

definition exit_event_identity ::
  "deployment \<Rightarrow> tracked_position \<Rightarrow> string option \<Rightarrow> sup_state \<Rightarrow> params" where
  "exit_event_identity d p key s =
     (let snapshot = opt_bind (tp_trade_id p) (map_of (sv_frozen s));
          version = map_option er_version (opt_bind (tp_trade_id p) (map_of (sv_durable s)))
      in [(''trade_id'', v_text (tp_trade_id p)),
          (''policy_schema_version'', v_text (case snapshot of
              Some f \<Rightarrow> fp_schema_version f | None \<Rightarrow> xs_policy_schema_version (dep_exit d))),
          (''policy_id'', v_text (case snapshot of Some f \<Rightarrow> fp_id f | None \<Rightarrow> xs_policy_id (dep_exit d))),
          (''policy_hash'', v_text (case snapshot of Some f \<Rightarrow> fp_hash f | None \<Rightarrow> xs_policy_hash (dep_exit d))),
          (''state_version'', v_int version),
          (''idempotency_key'', v_text key)])"

fun lifecycle_value :: "lifecycle_state \<Rightarrow> string" where
  "lifecycle_value PENDING_ENTRY = ''pending_entry''"
| "lifecycle_value OPEN_UNPROTECTED = ''open_unprotected''"
| "lifecycle_value OPEN_PROTECTED = ''open_protected''"
| "lifecycle_value TARGET_ACTIVE = ''target_active''"
| "lifecycle_value EXIT_PENDING = ''exit_pending''"
| "lifecycle_value CLOSED = ''closed''"
| "lifecycle_value RECONCILIATION_HOLD = ''reconciliation_hold''"

definition emit_lifecycle_transition :: "sup_env \<Rightarrow> lifecycle_transition option \<Rightarrow> string \<Rightarrow> unit sup" where
  "emit_lifecycle_transition e t reason = (case t of
      None \<Rightarrow> sx_return ()
    | Some x \<Rightarrow> sx_bind (sv_now e) (\<lambda>now. sv_emit ''lifecycle_transition''
        [(''symbol'', PStr (lt_symbol x)), (''deployment_id'', PStr (lt_deployment_id x)),
         (''timestamp'', PStr (iso_text (se_codec e) now)),
         (''previous_state'', v_text (map_option lifecycle_value (lt_previous_state x))),
         (''new_state'', PStr (lifecycle_value (lt_new_state x))),
         (''option_symbol'', v_text (lt_option_symbol x)), (''order_id'', v_text (lt_order_id x)),
         (''reason'', PStr reason)]))"

text \<open>A change of the lifecycle store that answers with the transition.\<close>

definition sv_lifecycle_step ::
  "(lifecycle_store \<Rightarrow> lifecycle_transition option \<times> lifecycle_store) \<Rightarrow> lifecycle_transition option sup" where
  "sv_lifecycle_step f = (\<lambda>s. let (t, l) = f (sv_lifecycle s) in (Inr t, s\<lparr>sv_lifecycle := l\<rparr>))"

section \<open>Trade records with their evidence identity\<close>

text \<open>\<open>record.field or identity.get(key)\<close>.\<close>

definition py_or :: "pyval \<Rightarrow> pyval \<Rightarrow> pyval" where
  "py_or a b = (if py_truthy a then a else b)"

definition frozen_entry_risk :: "params \<Rightarrow> trade_session \<Rightarrow> pyval" where
  "frozen_entry_risk identity r =
     (case (tr_entry_price r, sv_maybe_float (dict_get identity ''stop_loss_pct'')) of
        (Some price, Some pct) \<Rightarrow>
          if 0 < pct \<and> pct \<le> 1 then PFloat (Fin (round2 (price * of_int (tr_quantity r) * 100 * pct))) else PNone
      | _ \<Rightarrow> PNone)"

definition frozen_round_trip_cost :: "params \<Rightarrow> trade_session \<Rightarrow> pyval" where
  "frozen_round_trip_cost identity r =
     (case sv_maybe_float (dict_get identity ''round_trip_cost_per_contract_usd'') of
        Some cost \<Rightarrow> if 0 \<le> cost then PFloat (Fin (round2 (of_int (tr_quantity r) * cost)))
                     else ts_lineage r FrozenRoundTripCostUsd
      | None \<Rightarrow> ts_lineage r FrozenRoundTripCostUsd)"

definition freezes_risk :: "trade_session \<Rightarrow> bool" where
  "freezes_risk r \<longleftrightarrow> ts_lineage r FrozenEntryRiskUsd = PNone
     \<and> (case tr_entry_price r of None \<Rightarrow> False | Some price \<Rightarrow> 0 < price) \<and> 0 < tr_quantity r"

definition identity_text :: "sup_env \<Rightarrow> params \<Rightarrow> trade_session \<Rightarrow> lineage_column \<Rightarrow> string \<Rightarrow> pyval" where
  "identity_text e identity r col key =
     py_or (ts_lineage r col) (v_text (sv_optional_text (se_tx e) (dict_get identity key)))"

text \<open>\<open>value or ""\<close> of a column that holds a text.\<close>

definition column_text :: "pyval \<Rightarrow> string" where
  "column_text v = (case v of PStr t \<Rightarrow> t | _ \<Rightarrow> [])"

definition fact_receipt :: "sup_env \<Rightarrow> params \<Rightarrow> trade_session \<Rightarrow> pyval" where
  "fact_receipt e identity r =
     (let revision = identity_text e identity r PlanRevisionId ''plan_revision_id'';
          session = identity_text e identity r SessionId ''session_id'';
          packet = identity_text e identity r EvidencePacketId ''evidence_packet_id'';
          canary = identity_text e identity r CanaryAuthorizationSha256 ''canary_authorization_sha256''
      in if ts_lineage r FactReceiptId = PNone \<and> py_truthy revision \<and> py_truthy session
         then PStr (''sha256:'' @ se_sha256 e (column_text revision @ ''|'' @ column_text session @ ''|''
                @ tr_trade_id r @ ''|'' @ column_text packet @ ''|'' @ column_text canary))
         else ts_lineage r FactReceiptId)"

text \<open>The columns that default to the deployment's identity, with their keys.\<close>

fun identity_key :: "lineage_column \<Rightarrow> string option" where
  "identity_key ResearchRunId = Some ''research_run_id''"
| "identity_key EvidenceArtifactSha256 = Some ''evidence_artifact_sha256''"
| "identity_key EvidenceArtifactUri = Some ''evidence_artifact_uri''"
| "identity_key ExperimentId = Some ''experiment_id''"
| "identity_key CohortId = Some ''cohort_id''"
| "identity_key CohortContractSha256 = Some ''cohort_contract_sha256''"
| "identity_key DeploymentContractSha256 = Some ''deployment_contract_sha256''"
| "identity_key DeclaredOptionSelectionContractId = Some ''declared_option_selection_contract_id''"
| "identity_key DeclaredOptionSelectionContractSha256 = Some ''declared_option_selection_contract_sha256''"
| "identity_key AuthorizationIdentityStatus = Some ''authorization_identity_status''"
| "identity_key ExitPolicyId = Some ''exit_policy_id''"
| "identity_key ExitPolicySha256 = Some ''exit_policy_sha256''"
| "identity_key CanaryId = Some ''canary_id''"
| "identity_key CanaryStartAt = Some ''canary_start_at''"
| "identity_key CanaryExpiresAt = Some ''canary_expires_at''"
| "identity_key _ = None"

definition decorated_lineage :: "sup_env \<Rightarrow> params \<Rightarrow> trade_session \<Rightarrow> lineage" where
  "decorated_lineage e identity r = (\<lambda>col. case col of
      ActivePlanId \<Rightarrow> py_or (ts_lineage r col) (v_text (se_active_plan_id e))
    | PlanRevisionId \<Rightarrow> identity_text e identity r col ''plan_revision_id''
    | SessionId \<Rightarrow> identity_text e identity r col ''session_id''
    | EvidencePacketId \<Rightarrow> identity_text e identity r col ''evidence_packet_id''
    | CanaryAuthorizationSha256 \<Rightarrow> identity_text e identity r col ''canary_authorization_sha256''
    | FactReceiptId \<Rightarrow> fact_receipt e identity r
    | FrozenEntryRiskUsd \<Rightarrow> if freezes_risk r then frozen_entry_risk identity r else ts_lineage r col
    | FrozenRoundTripCostUsd \<Rightarrow> if freezes_risk r then frozen_round_trip_cost identity r else ts_lineage r col
    | _ \<Rightarrow> (case identity_key col of
        Some key \<Rightarrow> py_or (ts_lineage r col) (dict_get identity key) | None \<Rightarrow> ts_lineage r col))"

definition decorate_record :: "sup_env \<Rightarrow> trade_session \<Rightarrow> trade_session" where
  "decorate_record e r = (case map_of (se_identity e) (tr_deployment_id r) of
      None \<Rightarrow> r | Some identity \<Rightarrow> r\<lparr>ts_lineage := decorated_lineage e identity r\<rparr>)"

definition upsert_trade_record :: "sup_env \<Rightarrow> trade_session \<Rightarrow> unit sup" where
  "upsert_trade_record e r =
     sx_bind (sv_now e) (\<lambda>now. sv_do (\<lambda>s. s\<lparr>sv_trades :=
       sq_upsert_trade (se_codec e) (iso_text (se_codec e) now) (decorate_record e r) (sv_trades s)\<rparr>))"

text \<open>The record of a tracked position, as every handler builds it.\<close>

definition position_session :: "tracked_position \<Rightarrow> string \<Rightarrow> string \<Rightarrow> string option \<Rightarrow> trade_session" where
  "position_session p tid status rule = \<lparr>tr_trade_id = tid, tr_deployment_id = tp_deployment_id p,
     tr_symbol = tp_symbol p, tr_option_symbol = tp_option_symbol p, tr_quantity = tp_quantity p,
     tr_entry_price = tp_entry_price p, tr_underlying_entry_price = tp_underlying_entry_price p,
     tr_entry_timestamp = tp_entry_timestamp p, tr_status = status, tr_entry_order_id = tp_order_id p,
     tr_stop_order_id = tp_stop_order_id p, tr_stop_price = tp_stop_price p,
     tr_target_order_id = tp_target_order_id p, tr_target_price = tp_target_price p,
     tr_exit_order_id = tp_exit_order_id p, tr_exit_limit_price = tp_exit_limit_price p,
     tr_exit_submitted_at = tp_exit_submitted_at p, tr_exit_mode = tp_exit_mode p, tr_exit_price = None,
     tr_exit_filled_quantity = None, tr_exit_filled_at = None, tr_exit_order_status = None,
     tr_exit_order_type = None, tr_exit_rule = rule, tr_can_ladder = None,
     ts_exit_broker_payload = None, ts_lineage = (\<lambda>_. PNone)\<rparr>"

section \<open>Terminal closes\<close>

definition ladder_key_position :: "tracked_position \<Rightarrow> ladder_position" where
  "ladder_key_position p = \<lparr>lp_trade_id = tp_trade_id p, lp_order_id = tp_order_id p,
     lp_deployment_id = tp_deployment_id p, lp_symbol = tp_symbol p,
     lp_option_symbol = (case tp_option_symbol p of None \<Rightarrow> ''None'' | Some t \<Rightarrow> t), lp_quantity = tp_quantity p\<rparr>"

definition sv_clear_ladder :: "tracked_position \<Rightarrow> unit sup" where
  "sv_clear_ladder p = sv_do (\<lambda>s. s\<lparr>sv_ladder := clear_profile_exit_state (ladder_key_position p) (sv_ladder s)\<rparr>)"

definition facts_of_details :: "string option \<Rightarrow> exit_fill_details \<Rightarrow> exit_facts" where
  "facts_of_details oid d = \<lparr>ef_exit_order_id = oid, ef_exit_price = fd_price d,
     ef_exit_filled_quantity = fd_quantity d, ef_exit_filled_at = fd_filled_at d,
     ef_exit_order_status = fd_status d, ef_exit_order_type = fd_type d, ef_exit_broker_payload = fd_payload d\<rparr>"

definition mark_trade_closed_with_exit_truth ::
  "sup_env \<Rightarrow> string \<Rightarrow> string option \<Rightarrow> string option \<Rightarrow> params option \<Rightarrow> unit sup" where
  "mark_trade_closed_with_exit_truth e tid oid status payload =
     sx_bind (sx_lift (exit_fill_details (se_iso_parse e) payload status)) (\<lambda>details.
     sx_bind (sv_now e) (\<lambda>now. sv_do (\<lambda>s. s\<lparr>
       sv_trades := sq_mark_closed (se_codec e) (iso_text (se_codec e) now) tid (facts_of_details oid details) None (sv_trades s),
       sv_ladder := (if tid = [] then sv_ladder s else AList.delete (''trade:'' @ tid) (sv_ladder s))\<rparr>)))"

definition plan_event :: "exit_plan \<Rightarrow> params" where
  "plan_event x = [(''trade_id'', PStr (xp_trade_id x)), (''deployment_id'', PStr (xp_deployment_id x)),
     (''symbol'', PStr (xp_symbol x)), (''option_symbol'', v_text (xp_option_symbol x)),
     (''quantity'', PInt (xp_quantity x)), (''action'', PStr (xp_action x)),
     (''reasons'', PList (map PStr (xp_reasons x))), (''dry_run'', PBool (xp_dry_run x)),
     (''order_id'', v_text (xp_order_id x)), (''canceled_stop_order_id'', v_text (xp_canceled_stop_order_id x)),
     (''canceled_target_order_id'', v_text (xp_canceled_target_order_id x)), (''error'', v_text (xp_error x))]"

text \<open>\<open>trade_id or order_id or "UNKNOWN_TRADE"\<close>.\<close>

definition plan_trade_id :: "tracked_position \<Rightarrow> string" where
  "plan_trade_id p = (if text_truthy (tp_trade_id p) then text_or (tp_trade_id p)
     else if text_truthy (tp_order_id p) then text_or (tp_order_id p) else ''UNKNOWN_TRADE'')"

definition square_off_plan ::
  "deployment \<Rightarrow> tracked_position \<Rightarrow> string \<Rightarrow> string option \<Rightarrow> exit_plan" where
  "square_off_plan d p reason oid = \<lparr>xp_trade_id = plan_trade_id p, xp_deployment_id = dep_id d,
     xp_symbol = tp_symbol p, xp_option_symbol = tp_option_symbol p, xp_quantity = tp_quantity p,
     xp_action = ''square_off'', xp_reasons = [reason], xp_dry_run = False, xp_order_id = oid,
     xp_canceled_stop_order_id = None, xp_canceled_target_order_id = None, xp_error = None\<rparr>"

definition finalize_pending_exit_fill ::
  "sup_env \<Rightarrow> deployment \<Rightarrow> tracked_position \<Rightarrow> string option \<Rightarrow> string option \<Rightarrow> params option \<Rightarrow> string \<Rightarrow>
   exit_plan sup" where
  "finalize_pending_exit_fill e d p oid status payload reason =
     sx_bind (sv_do (\<lambda>s. s\<lparr>sv_tracker :=
       close_position (tp_symbol p) (tp_deployment_id p) (tp_option_symbol p) None (sv_tracker s)\<rparr>)) (\<lambda>_.
     sx_bind (sv_clear_ladder p) (\<lambda>_.
     sx_bind (case tp_trade_id p of
         None \<Rightarrow> sx_return () | Some tid \<Rightarrow> mark_trade_closed_with_exit_truth e tid oid status payload) (\<lambda>_.
     sx_bind (sv_lifecycle_step (mark_closed (tp_symbol p, tp_deployment_id p))) (\<lambda>t.
     sx_bind (emit_lifecycle_transition e t ''exit_closed'') (\<lambda>_.
     let plan = square_off_plan d p reason oid
     in sx_bind (sv_emit ''exit_plan'' (plan_event plan)) (\<lambda>_. sx_return plan))))))"

end
