(* ===== verification/Pending_Exit.thy ===== *)
theory Pending_Exit
  imports Supervisor
begin

text \<open>
  Pending exits (\<open>src/bhiksha/execution/supervisor.py\<close>): the submission of a close order, the
  cancellation of the resting protection, the two decision ladders that say what may be sent
  after an exit order was cancelled or found dead, and the poll of a pending exit.
\<close>

section \<open>Submitting a close order\<close>

definition state_version_of :: "tracked_position \<Rightarrow> sup_state \<Rightarrow> pyval" where
  "state_version_of p s = v_int (map_option er_version (opt_bind (tp_trade_id p) (map_of (sv_durable s))))"

definition policy_event :: "deployment \<Rightarrow> params" where
  "policy_event d = [(''policy_schema_version'', v_text (xs_policy_schema_version (dep_exit d))),
     (''policy_id'', v_text (xs_policy_id (dep_exit d))), (''policy_hash'', v_text (xs_policy_hash (dep_exit d)))]"

text \<open>\<open>self.bid or self.last or self.ask\<close>; the price of an order has to be a number.\<close>

definition exit_reference_price :: "public_quote \<Rightarrow> real option result" where
  "exit_reference_price q =
     (let truthy = (\<lambda>x. x \<noteq> None \<and> x \<noteq> Some (Fin 0));
          v = (if truthy (pq_bid q) then pq_bid q else if truthy (pq_last q) then pq_last q else pq_ask q)
      in case v of None \<Rightarrow> Inr None | Some (Fin x) \<Rightarrow> Inr (Some x) | Some _ \<Rightarrow> Inl ValueError)"

definition sv_quote :: "sup_env \<Rightarrow> string \<Rightarrow> public_quote sup" where
  "sv_quote e o' = sv_zoom (get_option_quote (se_broker e) (se_iso_parse e) (se_isofmt e) (se_tx e) o')"

text \<open>The reference price, or why there is none.\<close>

definition sv_exit_price :: "sup_env \<Rightarrow> string \<Rightarrow> (real option \<times> string option) sup" where
  "sv_exit_price e o' =
     sx_bind (sx_catch (sx_bind (sv_quote e o') (\<lambda>q. sx_return (Inr q))) (\<lambda>x. sx_return (Inl (exc_text x)))) (\<lambda>r.
     case r of Inl msg \<Rightarrow> sx_return (None, Some msg)
     | Inr q \<Rightarrow> sx_bind (sx_lift (exit_reference_price q)) (\<lambda>v. sx_return (v, None)))"

definition sv_place_close ::
  "sup_env \<Rightarrow> string \<Rightarrow> int \<Rightarrow> exit_mode \<Rightarrow> real option \<Rightarrow> order_result sup" where
  "sv_place_close e o' quantity mode limit =
     sx_bind (sv_uuid e) (\<lambda>new_id. sx_bind (sv_uuid e) (\<lambda>oid.
     sv_zoom (place_close_order (se_broker e) (se_tx e) new_id o' quantity mode limit oid)))"

datatype close_type = CT_Market | CT_Limit | CT_Wait

fun close_type_text :: "close_type \<Rightarrow> string" where
  "close_type_text CT_Market = ''MARKET''"
| "close_type_text CT_Limit = ''LIMIT''"
| "close_type_text CT_Wait = ''WAIT''"

text \<open>The type of order: the price decides between a limit, waiting, and a market order.\<close>

definition close_type_of :: "exit_mode \<Rightarrow> bool \<Rightarrow> real option \<Rightarrow> close_type" where
  "close_type_of mode force_market price =
     (if mode = EMERGENCY \<or> force_market then CT_Market
      else if price \<noteq> None then CT_Limit
      else if mode = STRATEGY then CT_Wait else CT_Market)"

definition or_error_text :: "order_result \<Rightarrow> string option \<Rightarrow> string option" where
  "or_error_text r error = (if text_truthy (or_error r) then or_error r else error)"

text \<open>The order that the type asks for: its id, the limit price kept with the position, the error.\<close>

definition submit_close ::
  "sup_env \<Rightarrow> deployment \<Rightarrow> tracked_position \<Rightarrow> string \<Rightarrow> exit_mode \<Rightarrow> string \<Rightarrow> bool \<Rightarrow> close_type \<Rightarrow> real option \<Rightarrow>
   string option \<Rightarrow> (string option \<times> real option \<times> string option) sup" where
  "submit_close e d p o' mode reason force_market ctype price error = (case ctype of
      CT_Market \<Rightarrow>
        sx_bind (if force_market \<and> mode \<noteq> EMERGENCY
          then sx_bind (sv_get (exit_event_identity d p None)) (\<lambda>ident. sv_emit ''exit_market_fallback''
            ([(''deployment_id'', PStr (dep_id d))] @ ident @ [(''symbol'', PStr (tp_symbol p)), (''option_symbol'', PStr o'),
              (''exit_mode'', PStr (exit_mode_value mode)), (''reason'', PStr reason)]))
          else sx_return ()) (\<lambda>_.
        sx_bind (sv_place_close e o' (tp_quantity p) mode None) (\<lambda>r.
        sx_return (or_order_id r, None, or_error_text r error)))
    | CT_Limit \<Rightarrow>
        sx_bind (sv_place_close e o' (tp_quantity p) mode price) (\<lambda>r.
        sx_return (or_order_id r, price, or_error_text r error))
    | CT_Wait \<Rightarrow> sx_return (None, price, error))"

definition tracked_after_submit ::
  "tracked_position \<Rightarrow> exit_mode \<Rightarrow> string option \<Rightarrow> real option \<Rightarrow> pydt \<Rightarrow> bool \<Rightarrow> tracked_position" where
  "tracked_after_submit p mode oid price submitted_at increment = p\<lparr>
     tp_exit_order_id := oid, tp_exit_limit_price := price, tp_exit_submitted_at := Some submitted_at,
     tp_exit_mode := Some mode,
     tp_exit_reprice_count := tp_exit_reprice_count p + (if increment then 1 else 0)\<rparr>"

text \<open>\<open>position_tracker.open_position(...)\<close> with the fields the call passes: the activation of the target is reset.\<close>

definition sv_open_position :: "tracked_position \<Rightarrow> unit sup" where
  "sv_open_position p = sv_do (\<lambda>s. s\<lparr>sv_tracker := open_position (p\<lparr>tp_target_activation_price := None,
     tp_target_activation_high_price := None, tp_target_activated_at := None\<rparr>) (sv_tracker s)\<rparr>)"

record submit_args =
  sa_mode :: exit_mode
  sa_reason :: string
  sa_event_type :: string
  sa_canceled_stop :: "string option"
  sa_canceled_target :: "string option"
  sa_inherited_error :: "string option"
  sa_force_market :: bool
  sa_submitted_at :: "pydt option"
  sa_increment_reprice :: bool
  sa_exit_rule :: "string option"

definition record_submission ::
  "sup_env \<Rightarrow> deployment \<Rightarrow> submit_args \<Rightarrow> tracked_position \<Rightarrow> close_type \<Rightarrow> string option \<Rightarrow> exit_plan sup" where
  "record_submission e d a u ctype error =
     sx_bind (sv_open_position u) (\<lambda>_.
     sx_bind (sv_lifecycle_step (mark_exit_pending (tp_symbol u, tp_deployment_id u) (tp_option_symbol u)
         (or_text (tp_exit_order_id u) (tp_order_id u)))) (\<lambda>t.
     sx_bind (emit_lifecycle_transition e t (sa_reason a)) (\<lambda>_.
     sx_bind (case (tp_trade_id u, tp_option_symbol u) of
         (Some tid, Some _) \<Rightarrow> upsert_trade_record e (position_session u tid ''exit_pending'' (sa_exit_rule a))
       | _ \<Rightarrow> sx_return ()) (\<lambda>_.
     sx_bind (sv_get (state_version_of u)) (\<lambda>version.
     sx_bind (sv_emit (sa_event_type a)
         ([(''deployment_id'', PStr (dep_id d)), (''trade_id'', v_text (tp_trade_id u)), (''symbol'', PStr (tp_symbol u)),
           (''option_symbol'', v_text (tp_option_symbol u))] @ policy_event d @
          [(''state_version'', version), (''quantity'', PInt (tp_quantity u)),
           (''exit_mode'', PStr (exit_mode_value (sa_mode a))), (''order_id'', v_text (tp_exit_order_id u)),
           (''order_type'', PStr (close_type_text ctype)), (''limit_price'', v_real (tp_exit_limit_price u)),
           (''error'', v_text error),
           (''exit_submitted_at'', v_text (map_option (iso_text (se_codec e)) (tp_exit_submitted_at u)))])) (\<lambda>_.
     sx_return ((square_off_plan d u (sa_reason a) (tp_exit_order_id u))\<lparr>xp_deployment_id := tp_deployment_id u,
       xp_canceled_stop_order_id := sa_canceled_stop a, xp_canceled_target_order_id := sa_canceled_target a,
       xp_error := error\<rparr>)))))))"

text \<open>\<open>_submit_exit_request\<close>: the position as tracked afterwards, and the plan.\<close>

definition submit_exit_request ::
  "sup_env \<Rightarrow> deployment \<Rightarrow> submit_args \<Rightarrow> tracked_position \<Rightarrow> (tracked_position \<times> exit_plan) sup" where
  "submit_exit_request e d a p = (case tp_option_symbol p of
      None \<Rightarrow> sx_raise (Py_Error ValueError)
    | Some o' \<Rightarrow>
        sx_bind (case sa_submitted_at a of None \<Rightarrow> sv_now e | Some t \<Rightarrow> sx_return t) (\<lambda>submitted_at.
        sx_bind (if sa_mode a \<noteq> EMERGENCY \<and> \<not> sa_force_market a then sv_exit_price e o' else sx_return (None, None)) (\<lambda>(price, failure).
        let error = or_text (sa_inherited_error a) failure;
            ctype = close_type_of (sa_mode a) (sa_force_market a) price in
        sx_bind (submit_close e d p o' (sa_mode a) (sa_reason a) (sa_force_market a) ctype price error) (\<lambda>(oid, limit, error1).
        sx_bind (if ctype \<noteq> CT_Wait \<and> oid = None
          then sx_bind (sv_get (state_version_of p)) (\<lambda>version. sv_emit ''exit_submission_failure''
            ([(''deployment_id'', PStr (dep_id d)), (''trade_id'', v_text (tp_trade_id p)), (''symbol'', PStr (tp_symbol p)),
              (''option_symbol'', PStr o')] @ policy_event d @
             [(''state_version'', version), (''quantity'', PInt (tp_quantity p)),
              (''exit_mode'', PStr (exit_mode_value (sa_mode a))), (''order_type'', PStr (close_type_text ctype)),
              (''error'', v_text error1)]))
          else sx_return ()) (\<lambda>_.
        let u = tracked_after_submit p (sa_mode a) oid limit submitted_at (sa_increment_reprice a)
        in sx_bind (record_submission e d a u ctype error1) (\<lambda>plan. sx_return (u, plan)))))))"

section \<open>Cancelling the resting protection\<close>

definition sv_cancel :: "sup_env \<Rightarrow> string \<Rightarrow> (bool \<times> string option) sup" where
  "sv_cancel e oid = sv_total (cancel_order (se_broker e) (se_late e) oid)"

definition ambiguous_cancel_event ::
  "deployment \<Rightarrow> tracked_position \<Rightarrow> string \<Rightarrow> string \<Rightarrow> string \<Rightarrow> string option \<Rightarrow> unit sup" where
  "ambiguous_cancel_event d p oid kind reason error =
     sx_bind (sv_get (exit_event_identity d p None)) (\<lambda>ident. sv_emit ''ambiguous_cancel''
       ([(''deployment_id'', PStr (dep_id d))] @ ident @ [(''symbol'', PStr (tp_symbol p)),
         (''option_symbol'', v_text (tp_option_symbol p)), (''order_id'', PStr oid), (''kind'', PStr kind),
         (''reason'', PStr reason), (''error'', v_text error)]))"

text \<open>One of the two cancellations: what was cancelled, and the error.\<close>

definition cancel_one_protection ::
  "sup_env \<Rightarrow> deployment \<Rightarrow> tracked_position \<Rightarrow> bool \<Rightarrow> string \<Rightarrow> string \<Rightarrow> string \<Rightarrow> string \<Rightarrow> string \<Rightarrow>
   (bool \<times> string option) sup" where
  "cancel_one_protection e d p dry_run reason oid kind event_name field =
     sx_bind (if dry_run then sx_return (True, None) else sv_cancel e oid) (\<lambda>(canceled, error).
     sx_bind (if \<not> canceled \<and> se_submit_before_cancel e
       then ambiguous_cancel_event d p oid kind reason error else sx_return ()) (\<lambda>_.
     sx_bind (sv_get (exit_event_identity d p None)) (\<lambda>ident.
     sx_bind (sv_emit event_name
       ([(''deployment_id'', PStr (dep_id d))] @ ident @ [(''symbol'', PStr (tp_symbol p)),
         (''option_symbol'', v_text (tp_option_symbol p)), (field, PStr oid), (''canceled'', PBool canceled),
         (''error'', v_text error), (''reason'', PStr reason)])) (\<lambda>_.
     sx_return (canceled, error)))))"

record protection_cancel =
  pc_position :: tracked_position
  pc_stop :: "string option"
  pc_target :: "string option"
  pc_error :: "string option"

definition cancel_exit_protection ::
  "sup_env \<Rightarrow> deployment \<Rightarrow> tracked_position \<Rightarrow> bool \<Rightarrow> string \<Rightarrow> protection_cancel sup" where
  "cancel_exit_protection e d p dry_run reason =
     sx_bind (if text_truthy (tp_stop_order_id p)
       then sx_bind (cancel_one_protection e d p dry_run reason (text_or (tp_stop_order_id p)) ''stop''
              ''protection_cancel_attempt'' ''stop_order_id'') (\<lambda>(canceled, error).
            sx_return (if canceled
              then \<lparr>pc_position = p\<lparr>tp_stop_order_id := None, tp_stop_price := None\<rparr>, pc_stop = tp_stop_order_id p,
                    pc_target = None, pc_error = error\<rparr>
              else \<lparr>pc_position = p, pc_stop = None, pc_target = None, pc_error = error\<rparr>))
       else sx_return \<lparr>pc_position = p, pc_stop = None, pc_target = None, pc_error = None\<rparr>) (\<lambda>c.
     if text_truthy (tp_target_order_id p)
     then sx_bind (cancel_one_protection e d p dry_run reason (text_or (tp_target_order_id p)) ''target''
            ''target_cancel_attempt'' ''target_order_id'') (\<lambda>(canceled, error).
          sx_return (c\<lparr>
            pc_position := (if canceled then (pc_position c)\<lparr>tp_target_order_id := None\<rparr> else pc_position c),
            pc_target := (if canceled then tp_target_order_id p else None),
            pc_error := (if pc_error c = None then error else pc_error c)\<rparr>))
     else sx_return c)"

definition defer_reconcile_hold_flatten :: "sup_env \<Rightarrow> tracked_position \<Rightarrow> string \<Rightarrow> bool \<Rightarrow> unit sup" where
  "defer_reconcile_hold_flatten e p reason dry_run =
     sx_bind (if dry_run then sx_return (False, Some ''dry_run_cancel_not_requested'')
        else case tp_order_id p of Some oid \<Rightarrow> sv_cancel e oid | None \<Rightarrow> sx_return (False, None)) (\<lambda>(canceled, error).
     let payload = [(''category'', PStr ''entry_reconcile_flatten_deferred''), (''deployment_id'', PStr (tp_deployment_id p)),
           (''symbol'', PStr (tp_symbol p)), (''trade_id'', v_text (tp_trade_id p)),
           (''option_symbol'', v_text (tp_option_symbol p)), (''entry_order_id'', v_text (tp_order_id p)),
           (''position_quantity'', PInt (tp_quantity p)), (''cancel_confirmed_zero_fill'', PBool canceled),
           (''error'', v_text (or_text error (Some ''entry_order_terminal_resolution_pending''))), (''stage'', PStr reason)]
     in sx_bind (sv_emit ''entry_reconcile_flatten_deferred'' payload) (\<lambda>_.
        if dry_run then sx_return () else sv_emit ''runtime_issue'' payload))"

section \<open>After a cancelled or dead exit order\<close>

datatype race_outcome = Finalized exit_plan | Blocked "string option"
  | Resubmit tracked_position "string option"

text \<open>\<open>wait_for(get_order_status(...), timeout=1)\<close> after the cancellation.\<close>

definition cancel_exit_order_and_check_fill ::
  "sup_env \<Rightarrow> string \<Rightarrow> (bool \<times> string option \<times> order_status) sup" where
  "cancel_exit_order_and_check_fill e oid =
     sx_bind (sv_cancel e oid) (\<lambda>(canceled, error).
     sx_bind (sv_get (\<lambda>s. se_readback_late e (om_log (sv_orders s)))) (\<lambda>late.
     sx_bind (if late
       then sv_total (\<lambda>o'. ((None, None, Some ''cancel_status_readback_timeout''), o'\<lparr>om_log := om_log o' @ [Get_Order oid]\<rparr>))
       else sv_total (get_order_status (se_broker e) oid)) (\<lambda>st.
     sx_return (canceled, error, st))))"

text \<open>\<open>_maybe_int(payload.get("quantity")) or position.quantity\<close>.\<close>

definition placed_quantity :: "params option \<Rightarrow> tracked_position \<Rightarrow> int result" where
  "placed_quantity payload p = bind_result (sv_maybe_int (payload_get payload ''quantity'')) (\<lambda>q.
     Inr (case q of None \<Rightarrow> tp_quantity p | Some n \<Rightarrow> if n = 0 then tp_quantity p else n))"

definition covers :: "int option \<Rightarrow> int \<Rightarrow> bool" where
  "covers filled whole = (case filled of None \<Rightarrow> False | Some f \<Rightarrow> f \<ge> whole)"

definition partial_of :: "int option \<Rightarrow> int \<Rightarrow> int option" where
  "partial_of filled whole = (case filled of
      None \<Rightarrow> None | Some f \<Rightarrow> if 0 < f \<and> f < whole then Some f else None)"

text \<open>The durable record of a leg that filled before its order died.\<close>

definition dead_leg ::
  "deployment \<Rightarrow> tracked_position \<Rightarrow> string \<Rightarrow> string \<Rightarrow> int \<Rightarrow> string \<Rightarrow> exit_fill_details \<Rightarrow> partial_leg" where
  "dead_leg d p tid oid filled origin details = \<lparr>pf_id = None, pf_trade_id = tid, pf_closed_quantity = filled,
     pf_order_id = Some oid, pf_exit_rule = None, pf_fill_price = fd_price details,
     pf_fill_quantity = (case fd_quantity details of None \<Rightarrow> Some filled | Some n \<Rightarrow> Some (if n = 0 then filled else n)),
     pf_filled_at = fd_filled_at details, pf_order_status = fd_status details, pf_origin = origin,
     pf_enrich_attempts = 0, pf_abandoned_reason = None, pl_deployment_id = dep_id d, pl_symbol = tp_symbol p,
     pl_option_symbol = tp_option_symbol p, pl_submitted_at = tp_exit_submitted_at p,
     pl_order_type = fd_type details, pl_broker_payload = fd_payload details\<rparr>"

definition sv_record_leg :: "sup_env \<Rightarrow> partial_leg \<Rightarrow> unit sup" where
  "sv_record_leg e r = sv_do (\<lambda>s. s\<lparr>sv_trades := snd (sq_record_partial_fill (se_codec e) r (sv_trades s))\<rparr>)"

definition record_dead_leg ::
  "sup_env \<Rightarrow> deployment \<Rightarrow> tracked_position \<Rightarrow> string \<Rightarrow> int \<Rightarrow> string \<Rightarrow> exit_fill_details \<Rightarrow> unit sup" where
  "record_dead_leg e d p oid filled origin details = (case (tp_trade_id p, tp_option_symbol p) of
      (Some tid, Some _) \<Rightarrow> sv_record_leg e (dead_leg d p tid oid filled origin details)
    | _ \<Rightarrow> sx_return ())"

definition race_event_base :: "deployment \<Rightarrow> tracked_position \<Rightarrow> string \<Rightarrow> params" where
  "race_event_base d p oid = [(''deployment_id'', PStr (dep_id d)), (''symbol'', PStr (tp_symbol p)),
     (''option_symbol'', v_text (tp_option_symbol p)), (''order_id'', PStr oid)]"

text \<open>The decision ladder, after the cancellation and the read-back.\<close>

definition after_exit_cancel ::
  "sup_env \<Rightarrow> deployment \<Rightarrow> tracked_position \<Rightarrow> string \<Rightarrow> string \<Rightarrow> bool \<Rightarrow> string option \<Rightarrow> string option \<Rightarrow>
   params option \<Rightarrow> string option \<Rightarrow> race_outcome sup" where
  "after_exit_cancel e d p oid reason canceled cancel_error status payload status_error =
     (let normalized = py_upper (text_or status) in
     sx_bind (sx_lift (sv_maybe_int (payload_get payload ''filledQuantity''))) (\<lambda>filled.
     sx_bind (sx_lift (placed_quantity payload p)) (\<lambda>whole.
     if normalized = ''FILLED'' \<or> covers filled whole
     then sx_bind (sv_emit ''exit_reprice_cancel_race_filled'' (race_event_base d p oid @
            [(''reason'', PStr reason), (''cancel_ok'', PBool canceled), (''cancel_error'', v_text cancel_error)])) (\<lambda>_.
          sx_bind (finalize_pending_exit_fill e d p (Some oid) status payload ''exit_reprice_cancel_race_filled'') (\<lambda>plan.
          sx_return (Finalized plan)))
     else if normalized \<notin> set PUBLIC_DEAD_ORDER_STATUSES
     then sx_bind (sv_emit ''exit_reprice_blocked'' (race_event_base d p oid @
            [(''reason'', PStr reason), (''cancel_error'', v_text cancel_error), (''status'', v_text status),
             (''status_error'', v_text status_error)])) (\<lambda>_. sx_return (Blocked cancel_error))
     else case partial_of filled whole of
       Some f \<Rightarrow>
         sx_bind (sx_lift (exit_fill_details (se_iso_parse e) payload status)) (\<lambda>details.
         sx_bind (record_dead_leg e d p oid f ''exit_cancel_race'' details) (\<lambda>_.
         sx_bind (sv_emit ''exit_cancel_race_partial_fill'' (race_event_base d p oid @
            [(''reason'', PStr reason), (''filled_quantity'', PInt f), (''residual_quantity'', PInt (whole - f)),
             (''fill_price'', v_real (fd_price details)), (''status'', v_text status), (''cancel_ok'', PBool canceled),
             (''cancel_error'', v_text cancel_error)])) (\<lambda>_.
         sx_return (Resubmit (p\<lparr>tp_quantity := whole - f\<rparr>) cancel_error))))
     | None \<Rightarrow> sx_return (Resubmit p cancel_error))))"

definition resolve_exit_cancel_for_reprice ::
  "sup_env \<Rightarrow> deployment \<Rightarrow> tracked_position \<Rightarrow> string \<Rightarrow> string \<Rightarrow> race_outcome sup" where
  "resolve_exit_cancel_for_reprice e d p oid reason =
     sx_bind (cancel_exit_order_and_check_fill e oid) (\<lambda>(canceled, cancel_error, status, payload, status_error).
     after_exit_cancel e d p oid reason canceled cancel_error status payload status_error)"

definition resolve_dead_status_exit_for_resubmit ::
  "sup_env \<Rightarrow> deployment \<Rightarrow> tracked_position \<Rightarrow> string \<Rightarrow> string option \<Rightarrow> params option \<Rightarrow> race_outcome sup" where
  "resolve_dead_status_exit_for_resubmit e d p oid status payload =
     (let raw = payload_get payload ''filledQuantity'' in
     sx_bind (sx_lift (sv_maybe_int raw)) (\<lambda>filled.
     sx_bind (sx_lift (placed_quantity payload p)) (\<lambda>whole.
     if raw \<noteq> PNone \<and> filled = None
     then sx_bind (sv_emit ''runtime_issue'' [(''category'', PStr ''exit_fill_unparseable''), (''symbol'', PStr (tp_symbol p)),
            (''deployment_id'', PStr (dep_id d)), (''trade_id'', v_text (tp_trade_id p)),
            (''option_symbol'', v_text (tp_option_symbol p)), (''order_id'', PStr oid), (''status'', v_text status),
            (''error'', PStr (''unparseable_filled_quantity:'' @ se_repr e raw)),
            (''stage'', PStr ''exit_dead_status_resubmit'')]) (\<lambda>_. sx_return (Blocked None))
     else if covers filled whole
     then sx_bind (sv_emit ''exit_dead_status_filled'' (race_event_base d p oid @
            [(''status'', v_text status), (''filled_quantity'', v_int filled), (''order_quantity'', PInt whole)])) (\<lambda>_.
          sx_bind (finalize_pending_exit_fill e d p (Some oid) status payload ''exit_dead_status_filled'') (\<lambda>plan.
          sx_return (Finalized plan)))
     else case partial_of filled whole of
       Some f \<Rightarrow>
         sx_bind (sx_lift (exit_fill_details (se_iso_parse e) payload status)) (\<lambda>details.
         sx_bind (record_dead_leg e d p oid f ''exit_dead_status'' details) (\<lambda>_.
         sx_bind (sv_emit ''exit_dead_status_partial_fill'' (race_event_base d p oid @
            [(''status'', v_text status), (''filled_quantity'', PInt f), (''order_quantity'', PInt whole),
             (''residual_quantity'', PInt (whole - f)), (''fill_price'', v_real (fd_price details))])) (\<lambda>_.
         sx_return (Resubmit (p\<lparr>tp_quantity := whole - f\<rparr>) None))))
     | None \<Rightarrow> sx_return (Resubmit p None))))"

section \<open>The poll of a pending exit\<close>

definition resubmit_args :: "exit_mode \<Rightarrow> string \<Rightarrow> string \<Rightarrow> string option \<Rightarrow> pydt option \<Rightarrow> submit_args" where
  "resubmit_args mode reason event_type error submitted_at = \<lparr>sa_mode = mode, sa_reason = reason,
     sa_event_type = event_type, sa_canceled_stop = None, sa_canceled_target = None, sa_inherited_error = error,
     sa_force_market = False, sa_submitted_at = submitted_at, sa_increment_reprice = False, sa_exit_rule = None\<rparr>"

definition resubmitted :: "sup_env \<Rightarrow> deployment \<Rightarrow> submit_args \<Rightarrow> tracked_position \<Rightarrow> exit_plan option sup" where
  "resubmitted e d a p = sx_bind (submit_exit_request e d a p) (\<lambda>(_, plan). sx_return (Some plan))"

text \<open>The order is dead, or was never accepted.\<close>

definition resubmit_dead_exit ::
  "sup_env \<Rightarrow> deployment \<Rightarrow> tracked_position \<Rightarrow> exit_mode \<Rightarrow> string option \<Rightarrow> params option \<Rightarrow> string option \<Rightarrow>
   exit_plan option sup" where
  "resubmit_dead_exit e d p mode status payload error =
     (let a = (resubmit_args mode ''exit_resubmitted'' ''exit_resubmitted'' error (tp_exit_submitted_at p))
            \<lparr>sa_force_market := (mode = EMERGENCY)\<rparr>
      in case tp_exit_order_id p of
           None \<Rightarrow> resubmitted e d a p
         | Some oid \<Rightarrow>
             sx_bind (resolve_dead_status_exit_for_resubmit e d p oid status payload) (\<lambda>r. case r of
                 Finalized plan \<Rightarrow> sx_return (Some plan)
               | Blocked _ \<Rightarrow> sx_return None
               | Resubmit q _ \<Rightarrow> resubmitted e d a q))"

text \<open>A strategy exit follows the reference price.\<close>

definition reprice_strategy_exit :: "sup_env \<Rightarrow> deployment \<Rightarrow> tracked_position \<Rightarrow> string \<Rightarrow> exit_plan option sup" where
  "reprice_strategy_exit e d p o' =
     sx_bind (sx_catch (sx_bind (sv_quote e o') (\<lambda>q. sx_return (Some q))) (\<lambda>_. sx_return None)) (\<lambda>quote.
     sx_bind (case quote of None \<Rightarrow> sx_return None | Some q \<Rightarrow> sx_lift (exit_reference_price q)) (\<lambda>next_price.
     if \<not> material_exit_price_change (tp_exit_limit_price p) next_price then sx_return None
     else sx_bind (cancel_exit_protection e d p False ''exit_reprice'') (\<lambda>c.
       if pc_error c \<noteq> None
       then sx_bind (sv_emit ''exit_reprice_blocked'' [(''deployment_id'', PStr (dep_id d)), (''symbol'', PStr (tp_symbol p)),
              (''option_symbol'', v_text (tp_option_symbol p)), (''order_id'', v_text (tp_exit_order_id p)),
              (''reason'', PStr ''protection_cancel_confirmation_pending''), (''cancel_error'', v_text (pc_error c))]) (\<lambda>_.
            sx_return None)
       else sx_bind (if text_truthy (tp_exit_order_id p)
           then resolve_exit_cancel_for_reprice e d (pc_position c) (text_or (tp_exit_order_id p)) ''exit_reprice''
           else sx_return (Resubmit (pc_position c) None)) (\<lambda>r. case r of
               Finalized plan \<Rightarrow> sx_return (Some plan)
             | Blocked _ \<Rightarrow> sx_return None
             | Resubmit q error \<Rightarrow>
                 resubmitted e d (resubmit_args STRATEGY ''exit_reprice'' ''exit_reprice'' error (tp_exit_submitted_at p)) q))))"

text \<open>A hard flat is repriced once; when its time is up it becomes a market order.\<close>

definition reprice_hard_flat_exit ::
  "sup_env \<Rightarrow> deployment \<Rightarrow> tracked_position \<Rightarrow> pydt \<Rightarrow> exit_plan option sup" where
  "reprice_hard_flat_exit e d p now =
     (if tp_exit_reprice_count p = 0
      then sx_bind (if text_truthy (tp_exit_order_id p)
          then resolve_exit_cancel_for_reprice e d p (text_or (tp_exit_order_id p)) ''hard_flat_reprice''
          else sx_return (Resubmit p None)) (\<lambda>r. case r of
              Finalized plan \<Rightarrow> sx_return (Some plan)
            | Blocked _ \<Rightarrow> sx_return None
            | Resubmit q error \<Rightarrow>
                resubmitted e d ((resubmit_args HARD_FLAT_MODE ''hard_flat_reprice'' ''exit_reprice'' error
                  (tp_exit_submitted_at p))\<lparr>sa_increment_reprice := True\<rparr>) q)
      else sx_bind (sx_lift (hard_flat_market_fallback_due (se_et e) (se_time_iso e) (tp_exit_submitted_at p) now d)) (\<lambda>due.
        if due then resubmitted e d ((resubmit_args HARD_FLAT_MODE ''hard_flat_market_fallback'' ''exit_resubmitted'' None
                 (tp_exit_submitted_at p))\<lparr>sa_force_market := True\<rparr>) p
        else sx_return None))"

definition on_exit_status ::
  "sup_env \<Rightarrow> deployment \<Rightarrow> tracked_position \<Rightarrow> pydt \<Rightarrow> exit_mode \<Rightarrow> string
     \<Rightarrow> string option \<Rightarrow> params option \<Rightarrow> string option \<Rightarrow> exit_plan option sup" where
  "on_exit_status e d p now mode o' status payload error =
     (let normalized = py_upper (text_or status) in
      if normalized = ''FILLED''
      then sx_bind (finalize_pending_exit_fill e d p (tp_exit_order_id p) status payload ''exit_filled'') (\<lambda>plan.
           sx_return (Some plan))
      else if text_truthy error \<and> tp_exit_order_id p \<noteq> None
      then sx_bind (ambiguous_cancel_event d p (text_or (tp_exit_order_id p)) ''exit_status'' ''status_unavailable'' error)
             (\<lambda>_. sx_return None)
      else if normalized \<in> set PUBLIC_DEAD_ORDER_STATUSES \<or> tp_exit_order_id p = None
      then resubmit_dead_exit e d p mode status payload error
      else if normalized \<in> set PUBLIC_WORKING_ORDER_STATUSES
      then (case mode of
          STRATEGY \<Rightarrow> reprice_strategy_exit e d p o'
        | HARD_FLAT_MODE \<Rightarrow> reprice_hard_flat_exit e d p now
        | EMERGENCY \<Rightarrow> sx_return None)
      else sx_return None)"

definition exit_status_event ::
  "deployment \<Rightarrow> tracked_position \<Rightarrow> exit_mode \<Rightarrow> string \<Rightarrow> string option \<Rightarrow> string option \<Rightarrow> unit sup" where
  "exit_status_event d p mode o' status error =
     sv_emit ''exit_pending_status'' [(''deployment_id'', PStr (dep_id d)), (''symbol'', PStr (tp_symbol p)),
       (''option_symbol'', PStr o'), (''exit_order_id'', v_text (tp_exit_order_id p)), (''status'', v_text status),
       (''error'', v_text error), (''exit_mode'', PStr (exit_mode_value mode))]"

definition manage_pending_exit_locked ::
  "sup_env \<Rightarrow> deployment \<Rightarrow> tracked_position \<Rightarrow> pydt \<Rightarrow> exit_plan option sup" where
  "manage_pending_exit_locked e d p now =
     (case (tp_option_symbol p, tp_exit_mode p) of
        (Some o', Some mode) \<Rightarrow>
          if tp_quantity p \<le> 0 then sx_return None
          else sx_bind (if text_truthy (tp_exit_order_id p)
              then sv_total (get_order_status (se_broker e) (text_or (tp_exit_order_id p)))
              else sx_return (None, None, None)) (\<lambda>(status, payload, error).
            sx_bind (exit_status_event d p mode o' status error) (\<lambda>_.
            on_exit_status e d p now mode o' status payload error))
      | _ \<Rightarrow> sx_return None)"

text \<open>The positions of \<open>manage_pending_exits\<close>, in the order of the tracker's snapshot.\<close>

definition exit_is_pending :: "tracked_position \<Rightarrow> bool" where
  "exit_is_pending p \<longleftrightarrow> \<not> (tp_exit_mode p = None \<and> tp_exit_order_id p = None \<and> tp_exit_submitted_at p = None)"

fun manage_each ::
  "sup_env \<Rightarrow> (string \<times> deployment) list \<Rightarrow> pydt \<Rightarrow> tracked_position list \<Rightarrow> exit_plan list sup" where
  "manage_each e ds now [] = sx_return []"
| "manage_each e ds now (p # ps) =
     (case (if exit_is_pending p then map_of ds (tp_deployment_id p) else None) of
        None \<Rightarrow> manage_each e ds now ps
      | Some d \<Rightarrow>
          sx_bind (manage_pending_exit_locked e d p now) (\<lambda>plan.
          sx_bind (manage_each e ds now ps) (\<lambda>plans.
          sx_return (case plan of None \<Rightarrow> plans | Some x \<Rightarrow> x # plans))))"

definition manage_pending_positions ::
  "sup_env \<Rightarrow> (string \<times> deployment) list \<Rightarrow> pydt \<Rightarrow> exit_plan list sup" where
  "manage_pending_positions e ds now = (\<lambda>s. manage_each e ds now (pt_positions (sv_tracker s)) s)"

end
