(* ===== verification/Demo_Account.thy ===== *)
theory Demo_Account
  imports Supervisor
begin

text \<open>
  A concrete deployment, environment, state and position, at which the witnesses of the
  supervisor's properties evaluate the definitions.
\<close>

definition demo_exit_deployment :: deployment where
  "demo_exit_deployment = \<lparr>dep_id = ''d1'', dep_symbol = ''SPY'',
     dep_exit = \<lparr>xs_use_profit_target = False, xs_profit_target_multiple = None, xs_option_profit_target_pct = None,
       xs_target_approach_offset_pct = None, xs_target_pullback_restore_progress_pct = None, xs_stop_loss_pct = 0.5,
       xs_stop_to_breakeven_after_r_multiple = None, xs_hard_flat_time_et = ''15:55'', xs_profile_exit_id = None,
       xs_profile_exit_drives_live = False, xs_initial_stop_pct = None, xs_premium_disaster_stop_pct = None,
       xs_eod_flat = True, xs_policy_schema_version = None, xs_policy_id = None, xs_policy_hash = None,
       xs_management_exit = None\<rparr>,
     dep_execution = \<lparr>ex_shadow_only = False, ex_runtime_mode = ModeNone, ex_entry_execution_profile = None,
       ex_entry_reprice_enabled = None, ex_entry_reprice_checkpoints = None, ex_entry_reprice_cancel_after = None,
       ex_entry_liquidity_retry_seconds = 0, ex_entry_liquidity_retry_interval_seconds = 0,
       ex_entry_window_start_et = None, ex_entry_window_end_et = None, ex_params = []\<rparr>,
     dep_risk_stop_loss_pct = 0.5, dep_risk_hard_flat_time_et = None, dep_strategy_key = ''s'', dep_strategy_params = [],
     dep_origin = None, dep_metadata = []\<rparr>"

definition demo_sup_env :: "broker \<Rightarrow> sup_env" where
  "demo_sup_env br = \<lparr>se_broker = br, se_late = (\<lambda>_. False), se_readback_late = (\<lambda>_. False), se_tx = (\<lambda>_. []),
     se_repr = (\<lambda>_. []), se_iso_parse = (\<lambda>_. None), se_isofmt = (\<lambda>_. []), se_time_iso = (\<lambda>_. None), se_et = (\<lambda>_. 0),
     se_codec = \<lparr>iso_text = (\<lambda>_. []), iso_read = (\<lambda>_. None), json_text = (\<lambda>_. []), json_read = (\<lambda>_. None)\<rparr>, se_exit_codec = demo_exit_codec,
     se_clock = (\<lambda>n. int n), se_uuid = (\<lambda>n. replicate (Suc n) CHR ''u''), se_uuid5 = (\<lambda>t. t), se_sha256 = (\<lambda>s. s), se_identity = [], se_active_plan_id = None,
     se_live_env = None, se_concurrent_exits = False, se_submit_before_cancel = False,
     se_app = \<lparr>ac_entry_reprice_enabled = False, ac_entry_reprice_checkpoints = [], ac_entry_reprice_cancel_after = 0,
       ac_order_fill_timeout_seconds = 0\<rparr>\<rparr>"

definition fresh_sup :: sup_state where
  "fresh_sup = \<lparr>sv_orders = \<lparr>om_increments = [], om_underlying_increments = [], om_log = []\<rparr>,
     sv_tracker = \<lparr>by_symbol = (\<lambda>_. 0), by_deployment = (\<lambda>_. 0), pt_positions = []\<rparr>, sv_lifecycle = [],
     sv_trades = \<lparr>db_trades = [], db_legs = [], db_next_leg = 1\<rparr>, sv_events = [], sv_ladder = [], sv_frozen = [],
     sv_durable = [], sv_exits = None, sv_reservations = [], sv_degraded = [], sv_recovery_events = [], sv_refresh_wanted = False, sv_reads = 0\<rparr>"

definition demo_exit_position :: tracked_position where
  "demo_exit_position = \<lparr>tp_symbol = ''SPY'', tp_deployment_id = ''d1'', tp_trade_id = None,
     tp_option_symbol = Some ''SPY260101C00500000'', tp_quantity = 3, tp_entry_price = Some 2,
     tp_underlying_entry_price = None, tp_entry_timestamp = None, tp_source = ''live'', tp_order_id = Some ''e1'',
     tp_stop_order_id = None, tp_stop_price = None, tp_target_order_id = None, tp_target_price = None,
     tp_target_activation_price = None, tp_target_activation_high_price = None, tp_target_activated_at = None,
     tp_exit_order_id = Some ''x1'', tp_exit_limit_price = Some 2, tp_exit_submitted_at = Some (Aware 0),
     tp_exit_mode = Some STRATEGY, tp_exit_reprice_count = 0\<rparr>"

end
