(* ===== verification/Exit_Safety.thy ===== *)
theory Exit_Safety
  imports Pending_Exit Demo_Account
begin

text \<open>
  What one poll of a pending exit can send. The lemmas follow the log of the broker's calls
  through the handlers; the properties say when a close order may be placed, of which size, and
  where the code departs from its own rule.
\<close>

section \<open>At most one live order\<close>

text \<open>
  The orders among some calls all satisfy \<open>ok\<close>, are at most two, and each but the last was
  definitely rejected.
\<close>

definition one_live ::
  "broker \<Rightarrow> broker_call list \<Rightarrow> (order_payload \<Rightarrow> bool) \<Rightarrow> broker_call list \<Rightarrow> bool" where
  "one_live br log0 ok calls \<longleftrightarrow> (\<forall>p\<in>set (placed calls). ok p) \<and> length (placed calls) \<le> 2
     \<and> (\<forall>before p after. calls = before @ Place p # after \<and> placed after \<noteq> [] \<longrightarrow>
          reply_rejected (br (log0 @ before) (Place p)))"

lemma placed_mem: "placed (before @ Place p # after) = placed before @ p # placed after"
  by simp

lemma one_live_quiet: "placed calls = [] \<Longrightarrow> one_live br log0 ok calls"
  by (auto simp: one_live_def)

lemma submission_one_live: "submission_calls br log0 ok h calls \<Longrightarrow> one_live br log0 ok calls"
  unfolding one_live_def
  by (intro conjI allI impI) (auto elim: submission_calls.cases intro: submission_calls_first)

lemma one_live_prefix:
  assumes "one_live br (log0 @ pre) ok calls" "placed pre = []"
  shows "one_live br log0 ok (pre @ calls)"
  unfolding one_live_def
proof (intro conjI allI impI)
  fix before p after
  assume split: "pre @ calls = before @ Place p # after \<and> placed after \<noteq> []"
  then obtain us where us: "before = pre @ us \<and> calls = us @ Place p # after
      \<or> pre = before @ us \<and> us @ calls = Place p # after"
    by (auto simp: append_eq_append_conv2)
  then show "reply_rejected (br (log0 @ before) (Place p))"
  proof
    assume "before = pre @ us \<and> calls = us @ Place p # after"
    then show ?thesis using assms(1) split by (auto simp: one_live_def)
  next
    assume pre: "pre = before @ us \<and> us @ calls = Place p # after"
    then have "us = []" using assms(2) by (cases us) auto
    then have calls: "calls = [] @ Place p # after" and before: "before = pre" using pre by auto
    have "reply_rejected (br ((log0 @ pre) @ []) (Place p))"
      using assms(1) split calls unfolding one_live_def by blast
    then show ?thesis by (simp add: before)
  qed
qed (use assms in \<open>auto simp: one_live_def\<close>)

lemma one_live_suffix:
  assumes "one_live br log0 ok calls" "placed post = []"
  shows "one_live br log0 ok (calls @ post)"
  unfolding one_live_def
proof (intro conjI allI impI)
  fix before p after
  assume split: "calls @ post = before @ Place p # after \<and> placed after \<noteq> []"
  then obtain us where us: "before = calls @ us \<and> post = us @ Place p # after
      \<or> calls = before @ us \<and> us @ post = Place p # after"
    by (auto simp: append_eq_append_conv2)
  then show "reply_rejected (br (log0 @ before) (Place p))"
  proof
    assume "before = calls @ us \<and> post = us @ Place p # after"
    then show ?thesis using assms(2) by simp
  next
    assume calls: "calls = before @ us \<and> us @ post = Place p # after"
    show ?thesis
    proof (cases us)
      case Nil
      then show ?thesis using calls assms(2) by auto
    next
      case (Cons c us')
      then have "calls = before @ Place p # us'" "after = us' @ post" using calls by auto
      then show ?thesis using assms split by (auto simp: one_live_def)
    qed
  qed
qed (use assms in \<open>auto simp: one_live_def\<close>)

section \<open>Close orders\<close>

definition close_of :: "string \<Rightarrow> int \<Rightarrow> order_payload \<Rightarrow> bool" where
  "close_of o' q p \<longleftrightarrow> op_symbol p = normalize_option_symbol o' \<and> op_side p = ''SELL''
     \<and> op_open_close p = ''CLOSE'' \<and> op_quantity p = q"

lemma close_of_payload [simp]: "close_of o' q (close_payload oid o' q type limit stop)"
  by (simp add: close_of_def close_payload_def)

lemma close_of_set [simp]: "close_of o' q (set_price key x p) = close_of o' q p"
  by (cases key) (simp_all add: close_of_def)

lemma correction_close:
  assumes "apply_increment_correction br key p s = (Inr p', s')" "close_of o' q p"
  shows "close_of o' q p'"
  using assms
  by (auto simp: apply_increment_correction_def Let_def sx_bind_Inr sx_lift_Inr sx_return_def
      split: option.splits)

lemma retry_close_calls:
  assumes "retry_submission br tx nid key no_guard original x p s = (res, s')" "close_of o' q p"
  shows "\<exists>calls. om_log s' = om_log s @ calls
    \<and> (placed calls = [] \<or> (\<exists>mid p2. calls = mid @ [Place p2] \<and> placed mid = [] \<and> close_of o' q p2))"
proof -
  have sell: "op_side p \<noteq> ''BUY''" using assms(2) by (simp add: close_of_def)
  from assms(1) [unfolded retry_submission_def] sends_nothing_cache show ?thesis
  proof (cases rule: bind_quiet_cases)
    case (passed u s1 c1)
    from passed(4) quiet_lift [of om_log] show ?thesis
    proof (cases rule: bind_quiet_cases)
      case (passed corrected s2 c2)
      have "submit br tx (set_price key corrected p) s2 = (res, s')"
        using passed(4) sell by (simp add: retry_payload_def sx_bind_def om_guard_def no_guard_def sx_return_def Let_def)
      from submit_effect(1) [OF this] show ?thesis
        using passed(2,3) \<open>om_log s1 = om_log s @ c1\<close> \<open>placed c1 = []\<close> assms(2)
        by (auto intro!: exI [of _ "(c1 @ c2) @ [Place (set_price key corrected p)]"])
    qed (use passed in auto)
  qed auto
qed

lemma submit_close_calls:
  assumes "submit_with_increment_retry br tx nid key no_guard p s = (res, s')" "close_of o' q p"
  shows "\<exists>calls. om_log s' = om_log s @ calls \<and> one_live br (om_log s) (close_of o' q) calls"
proof -
  obtain res1 s1 where sub: "submit br tx p s = (res1, s1)" by fastforce
  note eff = submit_effect [OF sub]
  from eff(2) obtain r where r: "res1 = Inr r"
    "or_increment_rejected r \<Longrightarrow> reply_rejected (br (om_log s) (Place p))" by auto
  have single: "one_live br (om_log s) (close_of o' q) [Place p]"
    using assms(2) by (auto simp: one_live_def Cons_eq_append_conv)
  have run: "(if text_truthy (or_order_id r) \<or> \<not> text_truthy (or_error r) then sx_return r
       else case (if or_increment_rejected r then extract_price_increment (or_error r) else None) of
         None \<Rightarrow> sx_return r
       | Some x \<Rightarrow>
           if normalize_option_symbol (op_symbol p) = [] then sx_return r
           else (case get_price key p of
               None \<Rightarrow> sx_raise (Py_Error KeyError)
             | Some original \<Rightarrow> retry_submission br tx nid key no_guard original x p)) s1 = (res, s')"
    using assms(1) sub r(1) by (simp add: submit_with_increment_retry_def sx_bind_def om_guard_def no_guard_def)
  consider (stop) "s' = s1"
    | (again) x original where "or_increment_rejected r"
        "retry_submission br tx nid key no_guard original x p s1 = (res, s')"
    using run by (auto simp: sx_return_def sx_raise_def split: if_splits option.splits)
  then show ?thesis
  proof cases
    case stop
    then show ?thesis using single eff(1) by auto
  next
    case again
    from retry_close_calls [OF again(2) assms(2)] obtain c2 where c2: "om_log s' = om_log s1 @ c2"
      "placed c2 = [] \<or> (\<exists>mid p2. c2 = mid @ [Place p2] \<and> placed mid = [] \<and> close_of o' q p2)" by blast
    have rej: "reply_rejected (br (om_log s) (Place p))" by (rule r(2) [OF again(1)])
    have "one_live br (om_log s) (close_of o' q) (Place p # c2)"
      using c2(2)
    proof
      assume "placed c2 = []"
      then show ?thesis using one_live_suffix [OF single] by simp
    next
      assume "\<exists>mid p2. c2 = mid @ [Place p2] \<and> placed mid = [] \<and> close_of o' q p2"
      then obtain mid p2 where "c2 = mid @ [Place p2]" "placed mid = []" "close_of o' q p2" by blast
      then have "submission_calls br (om_log s) (close_of o' q) True (Place p # c2)"
        using submission_calls.two [of "[]" mid "close_of o' q" p p2 br "om_log s" True] assms(2) rej by simp
      then show ?thesis by (rule submission_one_live)
    qed
    then show ?thesis using c2(1) eff(1) by auto
  qed
qed

lemma place_close_calls:
  assumes "place_close_order br tx nid o' q mode limit oid s = (res, s')"
  shows "\<exists>calls. om_log s' = om_log s @ calls \<and> one_live br (om_log s) (close_of o' q) calls"
proof (cases "if mode \<noteq> EMERGENCY then limit else None")
  case None
  then have "submit br tx (close_payload oid o' q ''MARKET'' None None) s = (res, s')"
    using assms by (simp add: place_close_order_def)
  from submit_effect(1) [OF this] show ?thesis
    by (auto simp: one_live_def Cons_eq_append_conv intro!: exI [of _ "[Place (close_payload oid o' q ''MARKET'' None None)]"])
next
  case (Some lim)
  then have "place_target_order br tx nid o' lim q oid s = (res, s')"
    using assms by (simp add: place_close_order_def)
  from this [unfolded place_target_order_def] correction_quiet show ?thesis
  proof (cases rule: bind_quiet_cases)
    case (failed e calls)
    then show ?thesis by (auto intro: one_live_quiet)
  next
    case (passed p s1 calls)
    have "close_of o' q p" by (rule correction_close [OF passed(1)]) simp
    from submit_close_calls [OF passed(4) this] obtain c2 where
      "om_log s' = om_log s1 @ c2" "one_live br (om_log s1) (close_of o' q) c2" by blast
    with passed(2,3) show ?thesis by (auto intro!: one_live_prefix)
  qed
qed

section \<open>The supervisor's calls\<close>

abbreviation sv_log :: "sup_state \<Rightarrow> broker_call list" where
  "sv_log s \<equiv> om_log (sv_orders s)"

abbreviation quiet :: "'a sup \<Rightarrow> bool" where
  "quiet \<equiv> quiet_on sv_log"

named_theorems quiets \<open>operations of the supervisor that place no order\<close>

declare quiet_bind [quiets] quiet_return [quiets] quiet_raise [quiets] quiet_lift [quiets]

lemma quiet_catch_any [quiets]:
  assumes "quiet_on L m" "\<And>x. quiet_on L (h x)"
  shows "quiet_on L (sx_catch m h)"
  unfolding quiet_on_def
proof
  fix s
  obtain r s1 where m: "m s = (r, s1)" by fastforce
  obtain c1 where c1: "L s1 = L s @ c1" "placed c1 = []" using quiet_on_log [OF assms(1) m] .
  show "\<exists>calls. L (snd (sx_catch m h s)) = L s @ calls \<and> placed calls = []"
  proof (cases r)
    case (Inl x)
    obtain r2 s2 where h: "h x s1 = (r2, s2)" by fastforce
    obtain c2 where "L s2 = L s1 @ c2" "placed c2 = []" using quiet_on_log [OF assms(2) h] .
    then show ?thesis using m h c1 Inl by (simp add: sx_catch_def)
  next
    case (Inr y)
    then show ?thesis using m c1 by (simp add: sx_catch_def)
  qed
qed

lemma quiet_zoom [quiets]: "sends_nothing m \<Longrightarrow> quiet (sv_zoom m)"
  unfolding quiet_on_def sv_zoom_def by (auto split: prod.split) (metis snd_conv)

lemma quiet_total [quiets]:
  "(\<And>s. \<exists>calls. om_log (snd (m s)) = om_log s @ calls \<and> placed calls = []) \<Longrightarrow> quiet (sv_total m)"
  unfolding quiet_on_def sv_total_def by (auto split: prod.split) (metis snd_conv)

lemma quiet_do [quiets]: "(\<And>s. sv_log (f s) = sv_log s) \<Longrightarrow> quiet (sv_do f)"
  by (simp add: quiet_on_def sv_do_def)

lemma quiet_get [quiets]: "quiet (sv_get f)"
  by (simp add: quiet_on_def sv_get_def)

lemma quiet_now [quiets]: "quiet (sv_now e)"
  by (simp add: quiet_on_def sv_now_def)

lemma quiet_uuid [quiets]: "quiet (sv_uuid e)"
  by (simp add: quiet_on_def sv_uuid_def)

lemma quiet_emit [quiets]: "quiet (sv_emit n ps)"
  unfolding sv_emit_def by (intro quiets) simp

lemma quiet_lifecycle [quiets]: "quiet (sv_lifecycle_step f)"
  by (auto simp: quiet_on_def sv_lifecycle_step_def split: prod.split)

lemma call_log: "om_log (snd (om_call br c s)) = om_log s @ [c]"
  by (simp add: om_call_def Let_def split: broker_reply.split)

lemma status_log: "om_log (snd (get_order_status br oid s)) = om_log s @ [Get_Order oid]"
  using call_log [of br "Get_Order oid" s]
  by (auto simp: get_order_status_def split: prod.splits sum.splits broker_exc.splits)

lemma cancel_log: "om_log (snd (cancel_order br late oid s)) = om_log s @ [Cancel oid, Get_Order oid]"
proof -
  obtain r s1 where c: "om_call br (Cancel oid) s = (r, s1)" by fastforce
  have "om_log s1 = om_log s @ [Cancel oid]" using call_log [of br "Cancel oid" s] c by simp
  then show ?thesis
    using status_log [of br oid s1] c
    by (auto simp: cancel_order_def Let_def split: prod.splits)
qed

lemma quiet_status [quiets]: "quiet (sv_total (get_order_status br oid))"
  by (intro quiets) (simp add: status_log)

lemma quiet_cancel [quiets]: "quiet (sv_cancel e oid)"
  unfolding sv_cancel_def by (intro quiets) (simp add: cancel_log)

lemma quiet_option_quote [quiets]: "sends_nothing (get_option_quote br ip fmt tx o')"
  unfolding get_option_quote_def
  by (intro quiet_bind sends_nothing_call) (auto split: pyval.split list.split)

lemma quiet_emit_transition [quiets]: "quiet (emit_lifecycle_transition e t reason)"
  unfolding emit_lifecycle_transition_def by (cases t) (auto intro!: quiets)

lemma quiet_upsert [quiets]: "quiet (upsert_trade_record e r)"
  unfolding upsert_trade_record_def by (intro quiets) simp

lemma quiet_close_trade [quiets]: "quiet (mark_trade_closed_with_exit_truth e tid oid st pl)"
  unfolding mark_trade_closed_with_exit_truth_def by (intro quiets) simp

lemma quiet_clear [quiets]: "quiet (sv_clear_ladder p)"
  unfolding sv_clear_ladder_def by (intro quiets) simp

lemma quiet_finalize [quiets]: "quiet (finalize_pending_exit_fill e d p oid st pl reason)"
  unfolding finalize_pending_exit_fill_def Let_def
  by (intro quiets) (auto intro!: quiets split: option.split)

lemma quiet_record_leg [quiets]: "quiet (record_dead_leg e d p oid f origin details)"
  unfolding record_dead_leg_def sv_record_leg_def by (auto intro!: quiets split: option.split)

lemma quiet_cancel_check [quiets]: "quiet (cancel_exit_order_and_check_fill e oid)"
  unfolding cancel_exit_order_and_check_fill_def by (auto intro!: quiets split: prod.split)

lemma quiet_ambiguous [quiets]: "quiet (ambiguous_cancel_event d p oid kind reason err)"
  unfolding ambiguous_cancel_event_def by (intro quiets)

lemma quiet_cancel_one [quiets]: "quiet (cancel_one_protection e d p dry reason oid kind name f)"
  unfolding cancel_one_protection_def by (auto intro!: quiets split: prod.split)

lemma quiet_cancel_protection [quiets]: "quiet (cancel_exit_protection e d p dry reason)"
  unfolding cancel_exit_protection_def by (auto intro!: quiets split: prod.split)

lemma quiet_after_cancel [quiets]: "quiet (after_exit_cancel e d p oid reason canceled cerr status payload serr)"
  unfolding after_exit_cancel_def Let_def
  by (auto intro!: quiets split: prod.split option.split)

lemma quiet_resolve_race [quiets]: "quiet (resolve_exit_cancel_for_reprice e d p oid reason)"
  unfolding resolve_exit_cancel_for_reprice_def
  by (auto intro!: quiets split: prod.split option.split)

lemma quiet_resolve_dead [quiets]: "quiet (resolve_dead_status_exit_for_resubmit e d p oid st pl)"
  unfolding resolve_dead_status_exit_for_resubmit_def Let_def
  by (auto intro!: quiets split: prod.split option.split)

lemma quiet_exit_price [quiets]: "quiet (sv_exit_price e o')"
  unfolding sv_exit_price_def sv_quote_def by (auto intro!: quiets split: sum.split)

lemma quiet_record_submission [quiets]: "quiet (record_submission e d a u ctype err)"
  unfolding record_submission_def sv_open_position_def
  by (auto intro!: quiets split: option.split)

section \<open>Operations that sell\<close>

definition sells :: "broker \<Rightarrow> (order_payload \<Rightarrow> bool) \<Rightarrow> 'a sup \<Rightarrow> bool" where
  "sells br ok m \<longleftrightarrow> (\<forall>s. \<exists>calls. sv_log (snd (m s)) = sv_log s @ calls \<and> one_live br (sv_log s) ok calls)"

lemma sells_quiet: "quiet m \<Longrightarrow> sells br ok m"
  unfolding sells_def quiet_on_def using one_live_quiet by blast

lemma sells_log:
  assumes "sells br ok m" "m s = (r, s')"
  obtains calls where "sv_log s' = sv_log s @ calls" "one_live br (sv_log s) ok calls"
  using assms unfolding sells_def by (metis snd_conv)

lemma sells_bind_quiet:
  assumes "quiet m" "\<And>x. sells br ok (f x)"
  shows "sells br ok (sx_bind m f)"
  unfolding sells_def
proof
  fix s
  obtain r s' where run: "sx_bind m f s = (r, s')" by fastforce
  from run assms(1) show "\<exists>calls. sv_log (snd (sx_bind m f s)) = sv_log s @ calls \<and> one_live br (sv_log s) ok calls"
  proof (cases rule: bind_quiet_cases)
    case (failed x calls)
    then show ?thesis using run by (auto intro: one_live_quiet)
  next
    case (passed x s1 c1)
    obtain c2 where "sv_log s' = sv_log s1 @ c2" "one_live br (sv_log s1) ok c2"
      using sells_log [OF assms(2) passed(4)] .
    then show ?thesis using run passed(2,3) by (auto intro!: one_live_prefix)
  qed
qed

lemma sells_bind:
  assumes "sells br ok m" "\<And>x. quiet (f x)"
  shows "sells br ok (sx_bind m f)"
  unfolding sells_def
proof
  fix s
  obtain r1 s1 where m: "m s = (r1, s1)" by fastforce
  obtain c1 where c1: "sv_log s1 = sv_log s @ c1" "one_live br (sv_log s) ok c1"
    using sells_log [OF assms(1) m] .
  show "\<exists>calls. sv_log (snd (sx_bind m f s)) = sv_log s @ calls \<and> one_live br (sv_log s) ok calls"
  proof (cases r1)
    case (Inl x)
    then show ?thesis using m c1 by (simp add: sx_bind_def)
  next
    case (Inr x)
    obtain r2 s2 where f: "f x s1 = (r2, s2)" by fastforce
    obtain c2 where "sv_log s2 = sv_log s1 @ c2" "placed c2 = []" using quiet_on_log [OF assms(2) f] .
    then show ?thesis using m f c1 Inr one_live_suffix by (auto simp: sx_bind_def)
  qed
qed

lemma sells_place_close: "sells (se_broker e) (close_of o' q) (sv_place_close e o' q mode limit)"
proof -
  have "sells (se_broker e) (close_of o' q)
      (sv_zoom (place_close_order (se_broker e) (se_tx e) nid o' q mode limit oid))" for nid oid
    unfolding sells_def sv_zoom_def
    by (auto split: prod.split dest!: place_close_calls)
  then show ?thesis unfolding sv_place_close_def by (intro sells_bind_quiet quiets)
qed

lemma sells_submit_close:
  "sells (se_broker e) (close_of o' (tp_quantity p)) (submit_close e d p o' mode reason force ctype price err)"
proof (cases ctype)
  case CT_Market
  show ?thesis unfolding submit_close_def CT_Market close_type.case
    by (rule sells_bind_quiet) (auto intro!: quiets intro: sells_bind [OF sells_place_close])
next
  case CT_Limit
  show ?thesis unfolding submit_close_def CT_Limit close_type.case
    by (auto intro!: sells_bind sells_place_close quiets)
next
  case CT_Wait
  show ?thesis unfolding submit_close_def CT_Wait close_type.case by (auto intro!: sells_quiet quiets)
qed

lemma sells_submit_exit:
  assumes "tp_option_symbol p = Some o'"
  shows "sells (se_broker e) (close_of o' (tp_quantity p)) (submit_exit_request e d a p)"
  unfolding submit_exit_request_def assms option.case Let_def
proof (intro sells_bind_quiet)
  fix submitted_at pr
  show "sells (se_broker e) (close_of o' (tp_quantity p)) (case pr of (price, failure) \<Rightarrow>
      sx_bind (submit_close e d p o' (sa_mode a) (sa_reason a) (sa_force_market a)
          (close_type_of (sa_mode a) (sa_force_market a) price) price (or_text (sa_inherited_error a) failure))
       (\<lambda>(oid, limit, error1).
        sx_bind (if close_type_of (sa_mode a) (sa_force_market a) price \<noteq> CT_Wait \<and> oid = None
          then sx_bind (sv_get (state_version_of p)) (\<lambda>version. sv_emit ''exit_submission_failure''
            ([(''deployment_id'', PStr (dep_id d)), (''trade_id'', v_text (tp_trade_id p)), (''symbol'', PStr (tp_symbol p)),
              (''option_symbol'', PStr o')] @ policy_event d @
             [(''state_version'', version), (''quantity'', PInt (tp_quantity p)),
              (''exit_mode'', PStr (exit_mode_value (sa_mode a))),
              (''order_type'', PStr (close_type_text (close_type_of (sa_mode a) (sa_force_market a) price))),
              (''error'', v_text error1)]))
          else sx_return ()) (\<lambda>_.
        sx_bind (record_submission e d a (tracked_after_submit p (sa_mode a) oid limit submitted_at (sa_increment_reprice a))
            (close_type_of (sa_mode a) (sa_force_market a) price) error1)
          (\<lambda>plan. sx_return (tracked_after_submit p (sa_mode a) oid limit submitted_at (sa_increment_reprice a), plan)))))"
    by (cases pr) (auto intro!: sells_bind sells_submit_close quiets split: prod.split)
qed (auto intro!: quiets split: option.split)

lemma sells_resubmitted:
  "tp_option_symbol p = Some o' \<Longrightarrow> sells (se_broker e) (close_of o' (tp_quantity p)) (resubmitted e d a p)"
  unfolding resubmitted_def by (auto intro!: sells_bind sells_submit_exit quiets split: prod.split)

section \<open>What justifies a sale\<close>

text \<open>
  Among the calls, before any order, the broker answered that the order is dead.
\<close>

definition terminal_reply ::
  "broker \<Rightarrow> broker_call list \<Rightarrow> broker_call list \<Rightarrow> string \<Rightarrow> params \<Rightarrow> bool" where
  "terminal_reply br log0 calls oid payload \<longleftrightarrow> (\<exists>before after. calls = before @ Get_Order oid # after
     \<and> placed before = [] \<and> br (log0 @ before) (Get_Order oid) = Reply payload
     \<and> py_upper (text_or (payload_status payload)) \<in> set PUBLIC_DEAD_ORDER_STATUSES)"

text \<open>
  \<open>n\<close> contracts are left of a dead order: with a reported fill it is what the order was placed
  for less the fill, without one the position.
\<close>

definition unsold :: "params option \<Rightarrow> tracked_position \<Rightarrow> int \<Rightarrow> bool" where
  "unsold payload p n \<longleftrightarrow> (\<exists>filled whole. sv_maybe_int (payload_get payload ''filledQuantity'') = Inr filled
     \<and> placed_quantity payload p = Inr whole
     \<and> (case filled of None \<Rightarrow> n = tp_quantity p
        | Some f \<Rightarrow> f < whole \<and> (if 0 < f then n + f = whole else n = tp_quantity p)))"

lemma terminal_reply_more: "terminal_reply br log0 calls oid pl \<Longrightarrow> terminal_reply br log0 (calls @ extra) oid pl"
  unfolding terminal_reply_def by (metis append_Cons append_assoc)

lemma terminal_reply_after:
  "terminal_reply br (log0 @ pre) calls oid pl \<Longrightarrow> placed pre = [] \<Longrightarrow> terminal_reply br log0 (pre @ calls) oid pl"
  unfolding terminal_reply_def by (metis append_assoc placed_append append_Nil)

lemma one_live_mono:
  "one_live br log0 ok calls \<Longrightarrow> (\<And>p. ok p \<Longrightarrow> ok' p) \<Longrightarrow> one_live br log0 ok' calls"
  by (auto simp: one_live_def)

lemma bind_lift_cases:
  assumes "sx_bind (sx_lift m) f s = (res, s')"
  obtains (failed) x where "res = Inl (Py_Error x)" "s' = s" | (passed) x where "m = Inr x" "f x s = (res, s')"
  using assms by (cases m) (auto simp: sx_bind_def sx_lift_def sx_raise_def sx_return_def)

lemma bind_emit: "sx_bind (sv_emit n ps) f s = f () (s\<lparr>sv_events := sv_events s @ [(n, ps)]\<rparr>)"
  by (simp add: sx_bind_def sv_emit_def sv_do_def)

lemma status_terminal:
  assumes "get_order_status br oid o1 = ((status, payload, err), o2)"
    and "py_upper (text_or status) \<noteq> []"
  shows "\<exists>d. payload = Some d \<and> br (om_log o1) (Get_Order oid) = Reply d \<and> status = payload_status d"
proof -
  have "text_or None = []" by simp
  then show ?thesis
    using assms
    by (auto simp: get_order_status_def om_call_def Let_def py_upper_def text_or_def
        split: broker_reply.splits broker_exc.splits if_splits)
qed

lemma dead_word_nonempty: "w \<in> set PUBLIC_DEAD_ORDER_STATUSES \<Longrightarrow> w \<noteq> []"
  by (auto simp: PUBLIC_DEAD_ORDER_STATUSES_def)

lemma cancel_check_terminal:
  assumes "cancel_exit_order_and_check_fill e oid s = (Inr (canceled, err, status, payload, st_err), s')"
    and "py_upper (text_or status) \<in> set PUBLIC_DEAD_ORDER_STATUSES"
  shows "\<exists>d calls. payload = Some d \<and> sv_log s' = sv_log s @ calls
    \<and> terminal_reply (se_broker e) (sv_log s) calls oid d"
proof -
  obtain res o1 where c: "cancel_order (se_broker e) (se_late e) oid (sv_orders s) = (res, o1)" by fastforce
  have log1: "om_log o1 = sv_log s @ [Cancel oid, Get_Order oid]"
    using cancel_log [of "se_broker e" "se_late e" oid "sv_orders s"] c by simp
  obtain ok ce where res: "res = (ok, ce)" by fastforce
  have "\<not> se_readback_late e (om_log o1)"
  proof
    assume "se_readback_late e (om_log o1)"
    then have "status = None"
      using assms(1) c res by (auto simp: cancel_exit_order_and_check_fill_def sx_bind_def sv_cancel_def sv_total_def sv_get_def sx_return_def)
    then show False using assms(2) dead_word_nonempty by (auto simp: py_upper_def)
  qed
  then obtain o2 where st: "get_order_status (se_broker e) oid o1 = ((status, payload, st_err), o2)" "s' = s\<lparr>sv_orders := o2\<rparr>"
    using assms(1) c res
    by (auto simp: cancel_exit_order_and_check_fill_def sx_bind_def sv_cancel_def sv_total_def sv_get_def sx_return_def
        split: prod.splits)
  from status_terminal [OF st(1) dead_word_nonempty [OF assms(2)]] obtain d where
    d: "payload = Some d" "se_broker e (om_log o1) (Get_Order oid) = Reply d" "status = payload_status d" by blast
  have log2: "om_log o2 = om_log o1 @ [Get_Order oid]"
    using status_log [of "se_broker e" oid o1] st(1) by simp
  have "terminal_reply (se_broker e) (sv_log s) ([Cancel oid, Get_Order oid] @ [Get_Order oid]) oid d"
    unfolding terminal_reply_def
    by (rule exI [of _ "[Cancel oid, Get_Order oid]"]) (use d log1 assms(2) in simp)
  then show ?thesis using d(1) st(2) log1 log2 by (auto intro!: exI [of _ d] exI [of _ "[Cancel oid, Get_Order oid] @ [Get_Order oid]"])
qed

lemma unsold_partial:
  assumes "sv_maybe_int (payload_get payload ''filledQuantity'') = Inr filled" "placed_quantity payload p = Inr whole"
    "\<not> covers filled whole" "partial_of filled whole = Some f"
  shows "unsold payload p (whole - f)"
  using assms by (auto simp: unsold_def partial_of_def covers_def split: option.splits if_splits)

lemma unsold_whole:
  assumes "sv_maybe_int (payload_get payload ''filledQuantity'') = Inr filled" "placed_quantity payload p = Inr whole"
    "\<not> covers filled whole" "partial_of filled whole = None"
  shows "unsold payload p (tp_quantity p)"
  using assms by (auto simp: unsold_def partial_of_def covers_def split: option.splits if_splits)

lemma resolve_dead_resubmits:
  assumes "resolve_dead_status_exit_for_resubmit e d p oid status payload s = (Inr (Resubmit q err), s')"
  shows "\<exists>n. q = p\<lparr>tp_quantity := n\<rparr> \<and> unsold payload p n"
proof -
  from assms [unfolded resolve_dead_status_exit_for_resubmit_def Let_def] show ?thesis
  proof (cases rule: bind_lift_cases)
    case (passed filled)
    from passed(2) show ?thesis
    proof (cases rule: bind_lift_cases)
      case (passed whole)
      note read = \<open>sv_maybe_int (payload_get payload ''filledQuantity'') = Inr filled\<close> passed(1)
      have cov: "\<not> covers filled whole"
        and run: "(case partial_of filled whole of
            Some f \<Rightarrow> sx_bind (sx_lift (exit_fill_details (se_iso_parse e) payload status)) (\<lambda>details.
              sx_bind (record_dead_leg e d p oid f ''exit_dead_status'' details) (\<lambda>_.
              sx_bind (sv_emit ''exit_dead_status_partial_fill'' (race_event_base d p oid @
                [(''status'', v_text status), (''filled_quantity'', PInt f), (''order_quantity'', PInt whole),
                 (''residual_quantity'', PInt (whole - f)), (''fill_price'', v_real (fd_price details))])) (\<lambda>_.
              sx_return (Resubmit (p\<lparr>tp_quantity := whole - f\<rparr>) None))))
          | None \<Rightarrow> sx_return (Resubmit p None)) s = (Inr (Resubmit q err), s')"
        using passed(2) by (auto simp: sx_bind_Inr sx_return_def split: if_splits)
      show ?thesis
      proof (cases "partial_of filled whole")
        case None
        then show ?thesis
          using run unsold_whole [OF read cov None] by (auto simp: sx_return_def intro!: exI [of _ "tp_quantity p"])
      next
        case (Some f)
        then show ?thesis
          using run unsold_partial [OF read cov Some] by (auto simp: sx_bind_Inr sx_return_def)
      qed
    qed simp
  qed simp
qed

lemma after_cancel_resubmits:
  assumes "after_exit_cancel e d p oid reason canceled cerr status payload serr s = (Inr (Resubmit q err), s')"
  shows "py_upper (text_or status) \<in> set PUBLIC_DEAD_ORDER_STATUSES \<and> sv_log s' = sv_log s
    \<and> (\<exists>n. q = p\<lparr>tp_quantity := n\<rparr> \<and> unsold payload p n)"
proof -
  from assms [unfolded after_exit_cancel_def Let_def] show ?thesis
  proof (cases rule: bind_lift_cases)
    case (passed filled)
    from passed(2) show ?thesis
    proof (cases rule: bind_lift_cases)
      case (passed whole)
      note read = \<open>sv_maybe_int (payload_get payload ''filledQuantity'') = Inr filled\<close> passed(1)
      have notfull: "\<not> (py_upper (text_or status) = ''FILLED'' \<or> covers filled whole)"
      proof
        assume "py_upper (text_or status) = ''FILLED'' \<or> covers filled whole"
        note run = passed(2) [unfolded if_P [OF this]]
        then show False unfolding sx_bind_Inr by (auto simp: sx_return_def)
      qed
      then have cov: "\<not> covers filled whole" by blast
      have dead: "py_upper (text_or status) \<in> set PUBLIC_DEAD_ORDER_STATUSES"
      proof (rule ccontr)
        assume "py_upper (text_or status) \<notin> set PUBLIC_DEAD_ORDER_STATUSES"
        note run = passed(2) [unfolded if_not_P [OF notfull] if_P [OF this]]
        then show False unfolding sx_bind_Inr by (auto simp: sx_return_def)
      qed
      have notdead: "\<not> py_upper (text_or status) \<notin> set PUBLIC_DEAD_ORDER_STATUSES" using dead by blast
      note run = passed(2) [unfolded if_not_P [OF notfull] if_not_P [OF notdead]]
      show ?thesis
      proof (cases "partial_of filled whole")
        case None
        then show ?thesis
          using run dead unsold_whole [OF read cov None] by (auto simp: sx_return_def intro!: exI [of _ "tp_quantity p"])
      next
        case (Some f)
        note run1 = run [unfolded Some option.case]
        have "q = p\<lparr>tp_quantity := whole - f\<rparr> \<and> sv_log s' = sv_log s"
          using run1 unfolding sx_bind_Inr
          by (auto simp: sx_return_def sx_lift_Inr record_dead_leg_def sv_record_leg_def sv_do_def sv_emit_def
              split: option.splits)
        then show ?thesis using dead unsold_partial [OF read cov Some] by auto
      qed
    qed simp
  qed simp
qed

lemma resolve_race_resubmits:
  assumes "resolve_exit_cancel_for_reprice e d p oid reason s = (Inr (Resubmit q err), s')"
  shows "\<exists>n payload calls. q = p\<lparr>tp_quantity := n\<rparr> \<and> unsold (Some payload) p n \<and> sv_log s' = sv_log s @ calls
    \<and> terminal_reply (se_broker e) (sv_log s) calls oid payload"
proof -
  obtain canceled cerr status payload serr s1 where
    chk: "cancel_exit_order_and_check_fill e oid s = (Inr (canceled, cerr, status, payload, serr), s1)"
    and rest: "after_exit_cancel e d p oid reason canceled cerr status payload serr s1 = (Inr (Resubmit q err), s')"
    using assms unfolding resolve_exit_cancel_for_reprice_def sx_bind_Inr by auto
  note after = after_cancel_resubmits [OF rest]
  from cancel_check_terminal [OF chk conjunct1 [OF after]] obtain pl calls where
    "payload = Some pl" "sv_log s1 = sv_log s @ calls" "terminal_reply (se_broker e) (sv_log s) calls oid pl"
    by blast
  then show ?thesis using after by auto
qed

lemma cancel_protection_keeps:
  assumes "cancel_exit_protection e d p dry reason s = (Inr c, s')"
  shows "tp_quantity (pc_position c) = tp_quantity p \<and> tp_option_symbol (pc_position c) = tp_option_symbol p
    \<and> tp_exit_order_id (pc_position c) = tp_exit_order_id p"
proof -
  define keeps :: "protection_cancel \<Rightarrow> bool" where "keeps c \<longleftrightarrow> tp_quantity (pc_position c) = tp_quantity p
    \<and> tp_option_symbol (pc_position c) = tp_option_symbol p \<and> tp_exit_order_id (pc_position c) = tp_exit_order_id p" for c
  from assms [unfolded cancel_exit_protection_def sx_bind_Inr] obtain c1 s1 where
    first: "(if text_truthy (tp_stop_order_id p)
       then sx_bind (cancel_one_protection e d p dry reason (text_or (tp_stop_order_id p)) ''stop''
              ''protection_cancel_attempt'' ''stop_order_id'') (\<lambda>(canceled, error).
            sx_return (if canceled
              then \<lparr>pc_position = p\<lparr>tp_stop_order_id := None, tp_stop_price := None\<rparr>, pc_stop = tp_stop_order_id p,
                    pc_target = None, pc_error = error\<rparr>
              else \<lparr>pc_position = p, pc_stop = None, pc_target = None, pc_error = error\<rparr>))
       else sx_return \<lparr>pc_position = p, pc_stop = None, pc_target = None, pc_error = None\<rparr>) s = (Inr c1, s1)"
    and second: "(if text_truthy (tp_target_order_id p)
     then sx_bind (cancel_one_protection e d p dry reason (text_or (tp_target_order_id p)) ''target''
            ''target_cancel_attempt'' ''target_order_id'') (\<lambda>(canceled, error).
          sx_return (c1\<lparr>
            pc_position := (if canceled then (pc_position c1)\<lparr>tp_target_order_id := None\<rparr> else pc_position c1),
            pc_target := (if canceled then tp_target_order_id p else None),
            pc_error := (if pc_error c1 = None then error else pc_error c1)\<rparr>))
     else sx_return c1) s1 = (Inr c, s')" by blast
  have "keeps c1"
  proof (cases "text_truthy (tp_stop_order_id p)")
    case True
    then show ?thesis using first by (auto simp: sx_bind_Inr sx_return_def keeps_def)
  next
    case False
    then show ?thesis using first by (auto simp: sx_return_def keeps_def)
  qed
  then have "keeps c"
  proof (cases "text_truthy (tp_target_order_id p)")
    case True
    then show ?thesis using second \<open>keeps c1\<close> by (auto simp: sx_bind_Inr sx_return_def keeps_def)
  next
    case False
    then show ?thesis using second \<open>keeps c1\<close> by (auto simp: sx_return_def)
  qed
  then show ?thesis by (simp add: keeps_def)
qed

lemma unsold_quantity: "tp_quantity p' = tp_quantity p \<Longrightarrow> unsold pl p' n = unsold pl p n"
  unfolding unsold_def placed_quantity_def by (erule ssubst) (rule refl)

section \<open>One poll\<close>

text \<open>
  A close order of \<open>p\<close>'s contract that a poll may send: the first one of the position, or one for
  what is left of the order the broker has just reported dead.
\<close>

definition justified ::
  "broker \<Rightarrow> tracked_position \<Rightarrow> broker_call list \<Rightarrow> broker_call list \<Rightarrow> order_payload \<Rightarrow> bool" where
  "justified br p log0 calls x \<longleftrightarrow> op_side x = ''SELL'' \<and> op_open_close x = ''CLOSE''
     \<and> (tp_exit_order_id p = None \<and> op_quantity x = tp_quantity p
        \<or> (\<exists>oid payload. tp_exit_order_id p = Some oid \<and> terminal_reply br log0 calls oid payload
             \<and> unsold (Some payload) p (op_quantity x)))"

definition poll_safe :: "broker \<Rightarrow> tracked_position \<Rightarrow> broker_call list \<Rightarrow> broker_call list \<Rightarrow> bool" where
  "poll_safe br p log0 calls \<longleftrightarrow> one_live br log0 (justified br p log0 calls) calls"

lemma poll_safe_quiet: "placed calls = [] \<Longrightarrow> poll_safe br p log0 calls"
  by (simp add: poll_safe_def one_live_quiet)

lemma poll_safe_prefix:
  assumes "poll_safe br p (log0 @ pre) calls" "placed pre = []"
  shows "poll_safe br p log0 (pre @ calls)"
proof -
  have "one_live br (log0 @ pre) (justified br p log0 (pre @ calls)) calls"
    using assms(1) unfolding poll_safe_def
    by (rule one_live_mono) (use terminal_reply_after [OF _ assms(2)] in \<open>auto simp: justified_def\<close>)
  then show ?thesis unfolding poll_safe_def using assms(2) by (rule one_live_prefix)
qed

lemma poll_safe_first:
  assumes "one_live br log0 (close_of o' (tp_quantity p)) calls" "tp_exit_order_id p = None"
  shows "poll_safe br p log0 calls"
  unfolding poll_safe_def using assms(1)
  by (rule one_live_mono) (use assms(2) in \<open>auto simp: justified_def close_of_def\<close>)

lemma poll_safe_residual:
  assumes "one_live br (log0 @ c1) (close_of o' n) c2" "placed c1 = []" "tp_exit_order_id p = Some oid"
    and "terminal_reply br log0 c1 oid payload" "unsold (Some payload) p n"
  shows "poll_safe br p log0 (c1 @ c2)"
proof -
  have "one_live br log0 (close_of o' n) (c1 @ c2)" by (rule one_live_prefix [OF assms(1,2)])
  moreover have "terminal_reply br log0 (c1 @ c2) oid payload" by (rule terminal_reply_more [OF assms(4)])
  ultimately show ?thesis
    unfolding poll_safe_def
    by (elim one_live_mono) (use assms(3,5) in \<open>auto simp: justified_def close_of_def\<close>)
qed

lemma race_then_resubmit:
  assumes "sx_bind (resolve_exit_cancel_for_reprice e d p oid reason) (\<lambda>r. case r of
        Finalized plan \<Rightarrow> sx_return (Some plan)
      | Blocked _ \<Rightarrow> sx_return None
      | Resubmit q err \<Rightarrow> resubmitted e d (a err) q) s = (res, s')"
    and "tp_option_symbol p = Some o'" "tp_exit_order_id p = Some oid"
  shows "\<exists>calls. sv_log s' = sv_log s @ calls \<and> poll_safe (se_broker e) p (sv_log s) calls"
proof -
  from assms(1) quiet_resolve_race show ?thesis
  proof (cases rule: bind_quiet_cases)
    case (failed x calls)
    then show ?thesis by (auto intro: poll_safe_quiet)
  next
    case (passed r s1 c1)
    show ?thesis
    proof (cases r)
      case (Resubmit q err)
      from resolve_race_resubmits [OF passed(1) [unfolded Resubmit]] passed(2) obtain n payload where
        q: "q = p\<lparr>tp_quantity := n\<rparr>" "unsold (Some payload) p n"
        "terminal_reply (se_broker e) (sv_log s) c1 oid payload" by auto
      have "resubmitted e d (a err) q s1 = (res, s')" using passed(4) Resubmit by simp
      from sells_log [OF sells_resubmitted this] q(1) assms(2) obtain c2 where
        "sv_log s' = sv_log s1 @ c2" "one_live (se_broker e) (sv_log s1) (close_of o' n) c2" by auto
      then show ?thesis using passed(2,3) poll_safe_residual [OF _ passed(3) assms(3) q(3,2)] by auto
    qed (use passed in \<open>auto simp: sx_return_def intro: poll_safe_quiet\<close>)
  qed
qed

lemma poll_safe_cong:
  "tp_quantity p' = tp_quantity p \<Longrightarrow> tp_exit_order_id p' = tp_exit_order_id p \<Longrightarrow>
   poll_safe br p' log0 calls = poll_safe br p log0 calls"
  by (simp add: poll_safe_def justified_def [abs_def] unsold_quantity [of p' p])

text \<open>What a poll adds to the log, once the status was read.\<close>

definition safe_from :: "sup_env \<Rightarrow> tracked_position \<Rightarrow> 'a sup \<Rightarrow> bool" where
  "safe_from e p m \<longleftrightarrow> (\<forall>s. \<exists>calls. sv_log (snd (m s)) = sv_log s @ calls \<and> poll_safe (se_broker e) p (sv_log s) calls)"

lemma safe_from_quiet: "quiet m \<Longrightarrow> safe_from e p m"
  unfolding safe_from_def quiet_on_def using poll_safe_quiet by blast

lemma safe_from_log:
  assumes "safe_from e p m" "m s = (r, s')"
  obtains calls where "sv_log s' = sv_log s @ calls" "poll_safe (se_broker e) p (sv_log s) calls"
  using assms unfolding safe_from_def by (metis snd_conv)

lemma safe_from_bind:
  assumes "quiet m" "\<And>x s s1. m s = (Inr x, s1) \<Longrightarrow> safe_from e p (f x)"
  shows "safe_from e p (sx_bind m f)"
  unfolding safe_from_def
proof
  fix s
  obtain r s' where run: "sx_bind m f s = (r, s')" by fastforce
  from run assms(1) show "\<exists>calls. sv_log (snd (sx_bind m f s)) = sv_log s @ calls \<and> poll_safe (se_broker e) p (sv_log s) calls"
  proof (cases rule: bind_quiet_cases)
    case (failed x calls)
    then show ?thesis using run by (auto intro: poll_safe_quiet)
  next
    case (passed x s1 c1)
    obtain c2 where "sv_log s' = sv_log s1 @ c2" "poll_safe (se_broker e) p (sv_log s1) c2"
      using safe_from_log [OF assms(2) [OF passed(1)] passed(4)] .
    then show ?thesis using run passed(2,3) by (auto intro!: poll_safe_prefix)
  qed
qed

lemma safe_race_then_resubmit:
  assumes "tp_option_symbol p' = Some o'" "tp_exit_order_id p' = Some oid"
    and "tp_quantity p' = tp_quantity p" "tp_exit_order_id p' = tp_exit_order_id p"
  shows "safe_from e p (sx_bind (resolve_exit_cancel_for_reprice e d p' oid reason) (\<lambda>r. case r of
        Finalized plan \<Rightarrow> sx_return (Some plan)
      | Blocked _ \<Rightarrow> sx_return None
      | Resubmit q err \<Rightarrow> resubmitted e d (a err) q))"
  unfolding safe_from_def
proof
  fix s
  let ?m = "sx_bind (resolve_exit_cancel_for_reprice e d p' oid reason) (\<lambda>r. case r of
        Finalized plan \<Rightarrow> sx_return (Some plan)
      | Blocked _ \<Rightarrow> sx_return None
      | Resubmit q err \<Rightarrow> resubmitted e d (a err) q)"
  obtain r s' where run: "?m s = (r, s')" by fastforce
  from race_then_resubmit [OF run assms(1,2)] run
  show "\<exists>calls. sv_log (snd (?m s)) = sv_log s @ calls \<and> poll_safe (se_broker e) p (sv_log s) calls"
    using poll_safe_cong [OF assms(3,4)] by auto
qed

lemma safe_strategy:
  assumes "tp_option_symbol p = Some o'" "tp_exit_order_id p = Some oid" "oid \<noteq> []"
  shows "safe_from e p (reprice_strategy_exit e d p o')"
  unfolding reprice_strategy_exit_def
proof (intro safe_from_bind)
  show "quiet (sx_catch (sx_bind (sv_quote e o') (\<lambda>q. sx_return (Some q))) (\<lambda>_. sx_return None))"
    unfolding sv_quote_def by (intro quiets)
next
  fix quote
  show "quiet (case quote of None \<Rightarrow> sx_return None | Some q \<Rightarrow> sx_lift (exit_reference_price q))"
    by (auto intro!: quiets split: option.split)
next
  fix next_price :: "real option"
  have "safe_from e p (if pc_error c \<noteq> None
       then sx_bind (sv_emit ''exit_reprice_blocked'' [(''deployment_id'', PStr (dep_id d)), (''symbol'', PStr (tp_symbol p)),
              (''option_symbol'', v_text (tp_option_symbol p)), (''order_id'', v_text (tp_exit_order_id p)),
              (''reason'', PStr ''protection_cancel_confirmation_pending''), (''cancel_error'', v_text (pc_error c))]) (\<lambda>_.
            sx_return None)
       else sx_bind (if text_truthy (tp_exit_order_id p)
           then resolve_exit_cancel_for_reprice e d (pc_position c) (text_or (tp_exit_order_id p)) ''exit_reprice''
           else sx_return (Resubmit (pc_position c) None)) (\<lambda>r. case r of
               Finalized plan \<Rightarrow> sx_return (Some plan)
             | Blocked _ \<Rightarrow> sx_return None
             | Resubmit q error \<Rightarrow>
                 resubmitted e d (resubmit_args STRATEGY ''exit_reprice'' ''exit_reprice'' error (tp_exit_submitted_at p)) q))"
    if "cancel_exit_protection e d p False ''exit_reprice'' s = (Inr c, s1)" for c s s1
  proof (cases "pc_error c = None")
    case True
    then show ?thesis
      using cancel_protection_keeps [OF that] assms
      by (simp add: safe_race_then_resubmit [where p' = "pc_position c" and
            a = "\<lambda>err. resubmit_args STRATEGY ''exit_reprice'' ''exit_reprice'' err (tp_exit_submitted_at p)"])
  qed (auto intro!: safe_from_quiet quiets)
  then show "safe_from e p (if \<not> material_exit_price_change (tp_exit_limit_price p) next_price then sx_return None
     else sx_bind (cancel_exit_protection e d p False ''exit_reprice'') (\<lambda>c.
       if pc_error c \<noteq> None
       then sx_bind (sv_emit ''exit_reprice_blocked'' [(''deployment_id'', PStr (dep_id d)), (''symbol'', PStr (tp_symbol p)),
              (''option_symbol'', v_text (tp_option_symbol p)), (''order_id'', v_text (tp_exit_order_id p)),
              (''reason'', PStr ''protection_cancel_confirmation_pending''), (''cancel_error'', v_text (pc_error c))]) (\<lambda>_.
            sx_return None)
       else sx_bind (if text_truthy (tp_exit_order_id p)
           then resolve_exit_cancel_for_reprice e d (pc_position c) (text_or (tp_exit_order_id p)) ''exit_reprice''
           else sx_return (Resubmit (pc_position c) None)) (\<lambda>r. case r of
               Finalized plan \<Rightarrow> sx_return (Some plan)
             | Blocked _ \<Rightarrow> sx_return None
             | Resubmit q error \<Rightarrow>
                 resubmitted e d (resubmit_args STRATEGY ''exit_reprice'' ''exit_reprice'' error (tp_exit_submitted_at p)) q)))"
    by (cases "material_exit_price_change (tp_exit_limit_price p) next_price")
      (auto intro: safe_from_bind [OF quiet_cancel_protection] safe_from_quiet [OF quiet_return])
qed

lemma safe_hard_flat:
  assumes "tp_option_symbol p = Some o'" "tp_exit_order_id p = Some oid" "oid \<noteq> []" "tp_exit_reprice_count p = 0"
  shows "safe_from e p (reprice_hard_flat_exit e d p now)"
  using assms
  by (simp add: reprice_hard_flat_exit_def
      safe_race_then_resubmit [where a = "\<lambda>err. (resubmit_args HARD_FLAT_MODE ''hard_flat_reprice'' ''exit_reprice'' err
        (tp_exit_submitted_at p))\<lparr>sa_increment_reprice := True\<rparr>" and p' = p])

lemma safe_dead_resubmit:
  assumes "resubmit_dead_exit e d p mode status (Some payload) err s1 = (r, s')"
    and "tp_option_symbol p = Some o'" "tp_exit_order_id p = Some oid"
    and "sv_log s1 = sv_log s @ c1" "placed c1 = []" "terminal_reply (se_broker e) (sv_log s) c1 oid payload"
  shows "\<exists>calls. sv_log s' = sv_log s @ calls \<and> poll_safe (se_broker e) p (sv_log s) calls"
proof -
  from assms(1,3) have "sx_bind (resolve_dead_status_exit_for_resubmit e d p oid status (Some payload)) (\<lambda>r. case r of
        Finalized plan \<Rightarrow> sx_return (Some plan)
      | Blocked _ \<Rightarrow> sx_return None
      | Resubmit q _ \<Rightarrow> resubmitted e d ((resubmit_args mode ''exit_resubmitted'' ''exit_resubmitted'' err
          (tp_exit_submitted_at p))\<lparr>sa_force_market := (mode = EMERGENCY)\<rparr>) q) s1 = (r, s')"
    by (simp add: resubmit_dead_exit_def)
  from this quiet_resolve_dead show ?thesis
  proof (cases rule: bind_quiet_cases)
    case (failed x calls)
    then show ?thesis using assms(4,5) by (auto intro!: poll_safe_quiet)
  next
    case (passed x s2 c2)
    show ?thesis
    proof (cases x)
      case (Resubmit q err')
      from resolve_dead_resubmits [OF passed(1) [unfolded Resubmit]] obtain n where
        q: "q = p\<lparr>tp_quantity := n\<rparr>" "unsold (Some payload) p n" by blast
      have run: "resubmitted e d ((resubmit_args mode ''exit_resubmitted'' ''exit_resubmitted'' err
          (tp_exit_submitted_at p))\<lparr>sa_force_market := (mode = EMERGENCY)\<rparr>) q s2 = (r, s')"
        using passed(4) Resubmit by simp
      have "tp_option_symbol q = Some o'" "tp_quantity q = n" using q(1) assms(2) by simp_all
      from sells_log [OF sells_resubmitted [OF this(1)] run] this(2) obtain c3 where
        c3: "sv_log s' = sv_log s2 @ c3" "one_live (se_broker e) (sv_log s2) (close_of o' n) c3" by auto
      have "poll_safe (se_broker e) p (sv_log s) ((c1 @ c2) @ c3)"
        using c3(2) passed(2,3) assms(4,5) terminal_reply_more [OF assms(6)]
        by (intro poll_safe_residual [OF _ _ assms(3) _ q(2)]) simp_all
      then show ?thesis using c3(1) passed(2) assms(4) by auto
    qed (use passed assms(4,5) in \<open>auto simp: sx_return_def intro!: poll_safe_quiet\<close>)
  qed
qed

lemma bind_total: "f (sv_orders s) = (x, o1) \<Longrightarrow> sx_bind (sv_total f) g s = g x (s\<lparr>sv_orders := o1\<rparr>)"
  by (simp add: sx_bind_def sv_total_def)

lemma quiet_status_event [quiets]: "quiet (exit_status_event d p mode o' status error)"
  unfolding exit_status_event_def by (rule quiet_emit)

lemma safe_from_if: "(b \<Longrightarrow> safe_from e p m) \<Longrightarrow> (\<not> b \<Longrightarrow> safe_from e p m') \<Longrightarrow> safe_from e p (if b then m else m')"
  by simp

lemma safe_on_status:
  assumes "tp_option_symbol p = Some o'" "tp_exit_order_id p = Some oid" "oid \<noteq> []"
    and "\<not> (mode = HARD_FLAT_MODE \<and> tp_exit_reprice_count p \<noteq> 0)"
    and "\<not> (py_upper (text_or status) \<in> set PUBLIC_DEAD_ORDER_STATUSES \<and> py_upper (text_or status) \<noteq> ''FILLED''
           \<and> \<not> text_truthy err)"
  shows "safe_from e p (on_exit_status e d p now mode o' status payload err)"
proof -
  have filled: "safe_from e p (sx_bind (finalize_pending_exit_fill e d p (tp_exit_order_id p) status payload ''exit_filled'')
      (\<lambda>plan. sx_return (Some plan)))"
    and unknown: "safe_from e p (sx_bind (ambiguous_cancel_event d p (text_or (tp_exit_order_id p)) ''exit_status''
      ''status_unavailable'' err) (\<lambda>_. sx_return None))"
    and idle: "safe_from e p (sx_return None)"
    by (intro safe_from_quiet quiets)+
  have working: "safe_from e p (case mode of STRATEGY \<Rightarrow> reprice_strategy_exit e d p o'
      | HARD_FLAT_MODE \<Rightarrow> reprice_hard_flat_exit e d p now | EMERGENCY \<Rightarrow> sx_return None)"
  proof (cases mode)
    case HARD_FLAT_MODE
    then show ?thesis using assms(4) safe_hard_flat [OF assms(1-3)] by simp
  qed (simp_all add: safe_strategy [OF assms(1-3)] idle)
  show ?thesis
    unfolding on_exit_status_def Let_def
    by (intro safe_from_if filled unknown idle working) (use assms(2,5) in auto)
qed

lemma poll_with_order:
  assumes "manage_pending_exit_locked e d p now s = (r, s')"
    and "tp_exit_order_id p = Some oid"
    and "\<not> (tp_exit_mode p = Some HARD_FLAT_MODE \<and> tp_exit_reprice_count p \<noteq> 0)"
  shows "\<exists>calls. sv_log s' = sv_log s @ calls \<and> poll_safe (se_broker e) p (sv_log s) calls"
proof (cases "oid \<noteq> [] \<and> 0 < tp_quantity p \<and> tp_option_symbol p \<noteq> None \<and> tp_exit_mode p \<noteq> None")
  case False
  have "quiet (manage_pending_exit_locked e d p now)"
    using False assms(2)
    by (auto simp: manage_pending_exit_locked_def on_exit_status_def py_upper_def PUBLIC_DEAD_ORDER_STATUSES_def
        PUBLIC_WORKING_ORDER_STATUSES_def Let_def intro!: quiets split: option.split)
  from quiet_on_log [OF this assms(1)] show ?thesis by (auto intro: poll_safe_quiet)
next
  case True
  then obtain o' mode where o': "tp_option_symbol p = Some o'" and mode: "tp_exit_mode p = Some mode" by blast
  obtain status payload err o1 where st: "get_order_status (se_broker e) oid (sv_orders s) = ((status, payload, err), o1)"
    by (metis prod.exhaust)
  define s1 where "s1 = s\<lparr>sv_orders := o1\<rparr>"
  have log1: "sv_log s1 = sv_log s @ [Get_Order oid]"
    using status_log [of "se_broker e" oid "sv_orders s"] st by (simp add: s1_def)
  have "sx_bind (exit_status_event d p mode o' status err) (\<lambda>_.
      on_exit_status e d p now mode o' status payload err) s1 = (r, s')"
    using assms(1) True o' mode assms(2) by (simp add: manage_pending_exit_locked_def bind_total [where f = "get_order_status (se_broker e) oid", OF st] s1_def)
  then obtain s2 where log2: "sv_log s2 = sv_log s @ [Get_Order oid]"
    and run: "on_exit_status e d p now mode o' status payload err s2 = (r, s')"
    unfolding exit_status_event_def bind_emit by (rule that [rotated]) (use log1 in simp)
  show ?thesis
  proof (cases "py_upper (text_or status) \<in> set PUBLIC_DEAD_ORDER_STATUSES \<and> py_upper (text_or status) \<noteq> ''FILLED''
      \<and> \<not> text_truthy err")
    case dead: True
    then have "py_upper (text_or status) \<noteq> []" using dead_word_nonempty by blast
    from status_terminal [OF st this] obtain pl where
      pl: "payload = Some pl" "se_broker e (sv_log s) (Get_Order oid) = Reply pl" "status = payload_status pl" by blast
    have "terminal_reply (se_broker e) (sv_log s) [Get_Order oid] oid pl"
      unfolding terminal_reply_def by (intro exI [of _ "[]"]) (use pl dead in simp)
    moreover have "resubmit_dead_exit e d p mode status (Some pl) err s2 = (r, s')"
      using run dead pl(1) by (simp add: on_exit_status_def Let_def)
    ultimately show ?thesis using safe_dead_resubmit [OF _ o' assms(2) log2] by simp
  next
    case False
    from True assms(3) mode have "oid \<noteq> []" "\<not> (mode = HARD_FLAT_MODE \<and> tp_exit_reprice_count p \<noteq> 0)" by simp_all
    from safe_on_status [OF o' assms(2) this False]
    have "safe_from e p (on_exit_status e d p now mode o' status payload err)" .
    then obtain calls where calls: "sv_log s' = sv_log s2 @ calls" "poll_safe (se_broker e) p (sv_log s2) calls"
      using run by (rule safe_from_log)
    have "poll_safe (se_broker e) p (sv_log s) ([Get_Order oid] @ calls)"
      using calls(2) by (intro poll_safe_prefix) (simp_all add: log2)
    then show ?thesis using calls(1) log2 by (intro exI [of _ "[Get_Order oid] @ calls"]) simp
  qed
qed

lemma poll_without_order:
  assumes "manage_pending_exit_locked e d p now s = (r, s')" "tp_exit_order_id p = None"
  shows "\<exists>calls. sv_log s' = sv_log s @ calls \<and> poll_safe (se_broker e) p (sv_log s) calls"
proof (cases "0 < tp_quantity p \<and> tp_option_symbol p \<noteq> None \<and> tp_exit_mode p \<noteq> None")
  case False
  have "quiet (manage_pending_exit_locked e d p now)"
    using False by (auto simp: manage_pending_exit_locked_def intro!: quiets split: option.split)
  from quiet_on_log [OF this assms(1)] show ?thesis by (auto intro: poll_safe_quiet)
next
  case True
  then obtain o' mode where o': "tp_option_symbol p = Some o'" and mode: "tp_exit_mode p = Some mode" by blast
  have "manage_pending_exit_locked e d p now = sx_bind (exit_status_event d p mode o' None None) (\<lambda>_.
      resubmit_dead_exit e d p mode None None None)"
  proof -
    have "on_exit_status e d p now mode o' None None None = resubmit_dead_exit e d p mode None None None"
      unfolding on_exit_status_def Let_def by (simp add: assms(2) py_upper_def del: split_paired_All split_paired_Ex)
    then show ?thesis using True by (simp add: manage_pending_exit_locked_def o' mode assms(2))
  qed
  also have "\<dots> = sx_bind (exit_status_event d p mode o' None None) (\<lambda>_. resubmitted e d
      ((resubmit_args mode ''exit_resubmitted'' ''exit_resubmitted'' None (tp_exit_submitted_at p))
        \<lparr>sa_force_market := (mode = EMERGENCY)\<rparr>) p)"
    by (simp only: resubmit_dead_exit_def assms(2) Let_def option.case)
  finally have eq: "manage_pending_exit_locked e d p now = \<dots>" .
  have "sells (se_broker e) (close_of o' (tp_quantity p)) (manage_pending_exit_locked e d p now)"
    unfolding eq by (rule sells_bind_quiet [OF quiet_status_event]) (rule sells_resubmitted [OF o'])
  then obtain calls where "sv_log s' = sv_log s @ calls"
    "one_live (se_broker e) (sv_log s) (close_of o' (tp_quantity p)) calls" using assms(1) by (rule sells_log)
  then show ?thesis using poll_safe_first [OF _ assms(2)] by blast
qed

text \<open>Three contracts, an exit order of which the broker sold two.\<close>

definition partly_sold_broker :: "string \<Rightarrow> broker" where
  "partly_sold_broker status = (\<lambda>_ c. case c of
      Get_Order _ \<Rightarrow> Reply [(''status'', PStr status), (''filledQuantity'', PStr ''2''), (''quantity'', PStr ''3'')]
    | Place _ \<Rightarrow> Reply [(''orderId'', PStr ''x2'')]
    | _ \<Rightarrow> Failure (Timeout_Error ''Timeout'' []))"

definition demo_exit_run :: "(broker_exc + exit_plan option) \<times> sup_state" where
  "demo_exit_run = manage_pending_exit_locked (demo_sup_env (partly_sold_broker ''CANCELLED'')) demo_exit_deployment
     (demo_exit_position\<lparr>tp_exit_mode := Some EMERGENCY\<rparr>) (Aware 0) fresh_sup"

lemma demo_exit_orders: "map op_quantity (placed (sv_log (snd demo_exit_run))) = [1]"
  by code_simp



end
