(* ===== verification/Exit_Outcomes.thy ===== *)
theory Exit_Outcomes
  imports Exit_Safety
begin

text \<open>
  What becomes of a pending exit: a filled order closes the position in the poll that sees the
  fill, and the market fallback of a hard flat, which sends a second order beside the first.
\<close>

section \<open>Steps that leave the orders alone\<close>

definition silent :: "'a sup \<Rightarrow> bool" where
  "silent m \<longleftrightarrow> (\<forall>s. sv_orders (snd (m s)) = sv_orders s)"

named_theorems silents

lemma silent_run: "silent m \<Longrightarrow> m s = (r, s') \<Longrightarrow> sv_orders s' = sv_orders s"
  unfolding silent_def by (metis snd_conv)

lemma silent_return [silents]: "silent (sx_return x)"
  by (simp add: silent_def sx_return_def)

lemma silent_do [silents]: "(\<And>s. sv_orders (f s) = sv_orders s) \<Longrightarrow> silent (sv_do f)"
  by (simp add: silent_def sv_do_def)

lemma silent_get [silents]: "silent (sv_get f)"
  by (simp add: silent_def sv_get_def)

lemma silent_lift [silents]: "silent (sx_lift r)"
  by (cases r) (simp_all add: silent_def sx_lift_def sx_raise_def sx_return_def)

lemma silent_now [silents]: "silent (sv_now e)"
  by (simp add: silent_def sv_now_def)

lemma silent_uuid [silents]: "silent (sv_uuid e)"
  by (simp add: silent_def sv_uuid_def)

lemma silent_emit [silents]: "silent (sv_emit n ps)"
  unfolding sv_emit_def by (intro silents) simp

lemma silent_bind [silents]:
  assumes "silent m" "\<And>x. silent (f x)"
  shows "silent (sx_bind m f)"
  unfolding silent_def
proof
  fix s
  obtain r s1 where m: "m s = (r, s1)" by fastforce
  have "sv_orders s1 = sv_orders s" using assms(1) m by (rule silent_run)
  then show "sv_orders (snd (sx_bind m f s)) = sv_orders s"
    using m assms(2) by (cases r) (auto simp: sx_bind_def silent_def)
qed

lemma silent_lifecycle [silents]: "silent (sv_lifecycle_step f)"
  by (auto simp: silent_def sv_lifecycle_step_def split: prod.split)

lemma silent_emit_transition [silents]: "silent (emit_lifecycle_transition e t reason)"
  unfolding emit_lifecycle_transition_def by (cases t) (auto intro!: silents)

lemma silent_upsert [silents]: "silent (upsert_trade_record e r)"
  unfolding upsert_trade_record_def by (intro silents) simp

lemma silent_open [silents]: "silent (sv_open_position p)"
  unfolding sv_open_position_def by (intro silents) simp

lemma silent_record_submission [silents]: "silent (record_submission e d a u ctype error)"
  unfolding record_submission_def by (auto intro!: silents split: option.split)

section \<open>The market fallback\<close>

lemma place_market:
  "\<exists>uid. sv_log (snd (sv_place_close e o' q HARD_FLAT_MODE None s)) = sv_log s @ [Place (close_payload uid o' q ''MARKET'' None None)]"
proof -
  obtain res o1 where run: "submit (se_broker e) (se_tx e) (close_payload (se_uuid e (Suc (sv_reads s))) o' q ''MARKET'' None None)
      (sv_orders s) = (res, o1)" by fastforce
  from submit_effect(1) [OF this] run show ?thesis
    by (auto simp: sv_place_close_def sx_bind_def sv_uuid_def sv_zoom_def place_close_order_def)
qed

lemma log_then_silent:
  assumes "\<exists>uid. sv_log (snd (m s)) = sv_log s @ [Place (pay uid)]" "\<And>x. silent (f x)"
  shows "\<exists>uid. sv_log (snd (sx_bind m f s)) = sv_log s @ [Place (pay uid)]"
proof -
  obtain r s1 where m: "m s = (r, s1)" by fastforce
  have "sv_orders (snd (sx_bind m f s)) = sv_orders s1"
    using assms(2) m by (cases r) (auto simp: sx_bind_def silent_def)
  then show ?thesis using assms(1) m by simp
qed

lemma silent_then_log:
  assumes "silent m" "\<And>s. fst (m s) = Inr x" "\<And>s. \<exists>uid. sv_log (snd (f x s)) = sv_log s @ [Place (pay uid)]"
  shows "\<exists>uid. sv_log (snd (sx_bind m f s)) = sv_log s @ [Place (pay uid)]"
proof -
  obtain s1 where m: "m s = (Inr x, s1)" using assms(2) by (metis prod.collapse)
  then show ?thesis using assms(3) [of s1] silent_run [OF assms(1) m] by (simp add: sx_bind_def)
qed

lemma fallback_log:
  assumes "tp_option_symbol p = Some o'" "tp_exit_submitted_at p = Some t"
  shows "\<exists>uid. sv_log (snd (resubmitted e d ((resubmit_args HARD_FLAT_MODE reason ev err (tp_exit_submitted_at p))
      \<lparr>sa_force_market := True\<rparr>) p s)) = sv_log s @ [Place (close_payload uid o' (tp_quantity p) ''MARKET'' None None)]"
proof -
  let ?a = "(resubmit_args HARD_FLAT_MODE reason ev err (Some t))\<lparr>sa_force_market := True\<rparr>"
  have submit: "\<exists>uid. sv_log (snd (submit_close e d p o' HARD_FLAT_MODE reason True CT_Market None err s))
      = sv_log s @ [Place (close_payload uid o' (tp_quantity p) ''MARKET'' None None)]" for s err
    unfolding submit_close_def close_type.case
  proof (rule silent_then_log [where x = "()"])
    show "silent (if True \<and> HARD_FLAT_MODE \<noteq> EMERGENCY
      then sx_bind (sv_get (exit_event_identity d p None)) (\<lambda>ident. sv_emit ''exit_market_fallback''
        ([(''deployment_id'', PStr (dep_id d))] @ ident @ [(''symbol'', PStr (tp_symbol p)), (''option_symbol'', PStr o'),
          (''exit_mode'', PStr (exit_mode_value HARD_FLAT_MODE)), (''reason'', PStr reason)]))
      else sx_return ())" by (auto intro!: silents)
  next
    show "\<exists>uid. sv_log (snd (sx_bind (sv_place_close e o' (tp_quantity p) HARD_FLAT_MODE None)
        (\<lambda>r. sx_return (or_order_id r, None, or_error_text r err)) s))
      = sv_log s @ [Place (close_payload uid o' (tp_quantity p) ''MARKET'' None None)]" for s
      by (intro log_then_silent place_market silents)
  qed (simp add: sx_bind_def sv_get_def sv_emit_def sv_do_def)
  have request: "\<exists>uid. sv_log (snd (submit_exit_request e d ?a p s))
      = sv_log s @ [Place (close_payload uid o' (tp_quantity p) ''MARKET'' None None)]" for s
    using submit assms(1)
    by (auto simp: submit_exit_request_def resubmit_args_def close_type_of_def or_text_def Let_def
        intro!: log_then_silent silents split: prod.split)
  show ?thesis unfolding resubmitted_def assms(2)
    by (rule log_then_silent [OF request]) (auto intro!: silents split: prod.split)
qed

text \<open>A poll that could read the status goes on with it.\<close>

lemma poll_reaches:
  assumes "manage_pending_exit_locked e d p now s = (r, s')"
    and "tp_exit_mode p = Some mode" "0 < tp_quantity p" "tp_option_symbol p = Some o'" "tp_exit_order_id p = Some oid"
    and "oid \<noteq> []" "se_broker e (sv_log s) (Get_Order oid) = Reply payload"
  obtains o1 ev where "om_log o1 = sv_log s @ [Get_Order oid]"
    and "on_exit_status e d p now mode o' (payload_status payload) (Some payload) None
      (s\<lparr>sv_orders := o1, sv_events := sv_events s @ ev\<rparr>) = (r, s')"
proof -
  obtain o1 where st: "get_order_status (se_broker e) oid (sv_orders s) = ((payload_status payload, Some payload, None), o1)"
    and o1: "om_log o1 = sv_log s @ [Get_Order oid]"
    using assms(7) by (auto simp: get_order_status_def om_call_def Let_def)
  have "sx_bind (exit_status_event d p mode o' (payload_status payload) None) (\<lambda>_.
      on_exit_status e d p now mode o' (payload_status payload) (Some payload) None) (s\<lparr>sv_orders := o1\<rparr>) = (r, s')"
    using assms(1-6)
    by (simp add: manage_pending_exit_locked_def bind_total [where f = "get_order_status (se_broker e) oid", OF st])
  then show ?thesis using o1 unfolding exit_status_event_def bind_emit by (intro that) simp_all
qed

text \<open>
  C30. The market fallback of a hard flat does not replace the resting exit order, it adds to it.
  When a hard-flat exit has been repriced once, its time is up and the broker answers that the
  order is still working, even that it is partially filled, then the poll sends a market order
  for the whole quantity and nothing else: the working order is not cancelled, and what it
  already filled is not taken off. With the fill of the resting order the position is oversold.
\<close>

theorem market_fallback_adds_an_order:
  assumes "manage_pending_exit_locked e d p now s = (r, s')"
    and "tp_exit_mode p = Some HARD_FLAT_MODE" "tp_exit_reprice_count p \<noteq> 0" "0 < tp_quantity p"
    and "tp_option_symbol p = Some o'" "tp_exit_order_id p = Some oid" "oid \<noteq> []"
    and "se_broker e (sv_log s) (Get_Order oid) = Reply payload"
    and "py_upper (text_or (payload_status payload)) \<in> set PUBLIC_WORKING_ORDER_STATUSES"
    and "hard_flat_market_fallback_due (se_et e) (se_time_iso e) (tp_exit_submitted_at p) now d = Inr True"
  shows "\<exists>uid. sv_log s' = sv_log s @ [Get_Order oid, Place (close_payload uid o' (tp_quantity p) ''MARKET'' None None)]"
proof -
  obtain t where t: "tp_exit_submitted_at p = Some t"
    using assms(10) by (cases "tp_exit_submitted_at p") (simp_all add: hard_flat_market_fallback_due_def)
  have word: "py_upper (text_or (payload_status payload)) \<noteq> ''FILLED''"
    "py_upper (text_or (payload_status payload)) \<notin> set PUBLIC_DEAD_ORDER_STATUSES"
    using assms(9) by (auto simp: PUBLIC_WORKING_ORDER_STATUSES_def PUBLIC_DEAD_ORDER_STATUSES_def)
  have "on_exit_status e d p now HARD_FLAT_MODE o' (payload_status payload) (Some payload) None =
      resubmitted e d ((resubmit_args HARD_FLAT_MODE ''hard_flat_market_fallback'' ''exit_resubmitted'' None
        (tp_exit_submitted_at p))\<lparr>sa_force_market := True\<rparr>) p"
    using word assms(3,6,9,10) unfolding on_exit_status_def Let_def
    by (simp add: reprice_hard_flat_exit_def sx_lift_def)
  note dispatch = this
  obtain o1 ev where o1: "om_log o1 = sv_log s @ [Get_Order oid]"
    and run: "on_exit_status e d p now HARD_FLAT_MODE o' (payload_status payload) (Some payload) None
      (s\<lparr>sv_orders := o1, sv_events := sv_events s @ ev\<rparr>) = (r, s')"
    using poll_reaches [OF assms(1,2,4-8)] .
  show ?thesis
    using fallback_log [OF assms(5) t, of e d "''hard_flat_market_fallback''" "''exit_resubmitted''" None
        "s\<lparr>sv_orders := o1, sv_events := sv_events s @ ev\<rparr>"] o1 run
    by (simp add: dispatch)
qed

definition demo_fallback_position :: tracked_position where
  "demo_fallback_position = demo_exit_position\<lparr>tp_exit_mode := Some HARD_FLAT_MODE, tp_exit_reprice_count := 1\<rparr>"

theorem market_fallback_adds_an_order_witness:
  "\<exists>uid. sv_log (snd (manage_pending_exit_locked (demo_sup_env (partly_sold_broker ''PARTIALLY_FILLED'')) demo_exit_deployment
       demo_fallback_position (Aware (11 * usec_per_sec)) fresh_sup))
     = [Get_Order ''x1'', Place (close_payload uid ''SPY260101C00500000'' 3 ''MARKET'' None None)]"
proof -
  let ?e = "demo_sup_env (partly_sold_broker ''PARTIALLY_FILLED'')"
  have "hard_flat_market_fallback_due (se_et ?e) (se_time_iso ?e) (tp_exit_submitted_at demo_fallback_position)
      (Aware (11 * usec_per_sec)) demo_exit_deployment = Inr True" by code_simp
  note due = this
  have word: "py_upper (text_or (payload_status [(''status'', PStr ''PARTIALLY_FILLED''), (''filledQuantity'', PStr ''2''),
      (''quantity'', PStr ''3'')])) \<in> set PUBLIC_WORKING_ORDER_STATUSES" by code_simp
  from market_fallback_adds_an_order [OF surjective_pairing _ _ _ _ _ _ _ word due,
      of "''SPY260101C00500000''" "''x1''" fresh_sup]
  show ?thesis
    by (simp add: demo_fallback_position_def demo_exit_position_def demo_sup_env_def partly_sold_broker_def fresh_sup_def)
qed

section \<open>A fill that is seen closes the position\<close>

lemma filter_remove_first: "filter P (remove_first P xs) = tl (filter P xs)"
  by (induction xs) auto

lemma close_truth_run:
  assumes "exit_fill_details (se_iso_parse e) payload status = Inr details"
  shows "\<exists>now. mark_trade_closed_with_exit_truth e tid oid status payload s = (Inr (), s\<lparr>sv_reads := Suc (sv_reads s),
     sv_trades := sq_mark_closed (se_codec e) now tid (facts_of_details oid details) None (sv_trades s),
     sv_ladder := (if tid = [] then sv_ladder s else AList.delete (''trade:'' @ tid) (sv_ladder s))\<rparr>)"
  using assms
  by (auto simp: mark_trade_closed_with_exit_truth_def sx_lift_def sx_bind_def sx_return_def sv_now_def sv_do_def)

lemma closed_session:
  assumes "find_session db tid = Some w"
  shows "\<exists>w'. find_session (sq_mark_closed c now tid (facts_of_details oid details) None db) tid = Some w'
     \<and> ss_status w' = ''closed'' \<and> (oid \<noteq> None \<longrightarrow> ss_exit_order_id w' = oid)
     \<and> (fd_price details \<noteq> None \<longrightarrow> ss_exit_price w' = fd_price details)"
  using assms find_session_id [OF assms]
  by (auto simp: find_mark_closed close_row_def facts_of_details_def coalesce_def)

text \<open>The last steps of a close: the lifecycle and the plan.\<close>

lemma closing_steps:
  assumes "sx_bind (sv_lifecycle_step (mark_closed k)) (\<lambda>t. sx_bind (emit_lifecycle_transition e t reason) (\<lambda>_.
      sx_bind (sv_emit ''exit_plan'' ps) (\<lambda>_. sx_return plan))) s = (r, s')"
  shows "r = Inr plan \<and> sv_lifecycle s' = snd (mark_closed k (sv_lifecycle s)) \<and> sv_orders s' = sv_orders s
    \<and> sv_tracker s' = sv_tracker s \<and> sv_trades s' = sv_trades s"
  using assms
  by (cases "fst (mark_closed k (sv_lifecycle s))")
    (auto simp: sx_bind_def sv_lifecycle_step_def split_beta emit_lifecycle_transition_def sx_return_def sv_emit_def
      sv_do_def sv_now_def)

lemma bind_do: "sx_bind (sv_do f) g s = g () (f s)"
  by (simp add: sx_bind_def sv_do_def)

lemma finalize_effect:
  assumes "exit_fill_details (se_iso_parse e) payload status = Inr details"
    and "finalize_pending_exit_fill e d p oid status payload reason s = (r, s')"
  shows "r = Inr (square_off_plan d p reason oid) \<and> sv_orders s' = sv_orders s
     \<and> sv_tracker s' = close_position (tp_symbol p) (tp_deployment_id p) (tp_option_symbol p) None (sv_tracker s)
     \<and> sv_lifecycle s' = snd (mark_closed (tp_symbol p, tp_deployment_id p) (sv_lifecycle s))
     \<and> (\<forall>tid. tp_trade_id p = Some tid \<longrightarrow>
          (\<exists>now. sv_trades s' = sq_mark_closed (se_codec e) now tid (facts_of_details oid details) None (sv_trades s)))"
proof -
  define s1 where "s1 = s\<lparr>sv_tracker := close_position (tp_symbol p) (tp_deployment_id p) (tp_option_symbol p) None (sv_tracker s),
    sv_ladder := clear_profile_exit_state (ladder_key_position p) (sv_ladder s)\<rparr>"
  define rest where "rest = (\<lambda>_::unit. sx_bind (sv_lifecycle_step (mark_closed (tp_symbol p, tp_deployment_id p))) (\<lambda>t.
     sx_bind (emit_lifecycle_transition e t ''exit_closed'') (\<lambda>_.
     sx_bind (sv_emit ''exit_plan'' (plan_event (square_off_plan d p reason oid))) (\<lambda>_.
     sx_return (square_off_plan d p reason oid)))))"
  have run: "sx_bind (case tp_trade_id p of None \<Rightarrow> sx_return ()
      | Some tid \<Rightarrow> mark_trade_closed_with_exit_truth e tid oid status payload) rest s1 = (r, s')"
    using assms(2)
    by (simp add: finalize_pending_exit_fill_def rest_def Let_def bind_do sv_clear_ladder_def s1_def)
  obtain s2 where s2: "rest () s2 = (r, s')" "sv_orders s2 = sv_orders s1" "sv_tracker s2 = sv_tracker s1"
    "sv_lifecycle s2 = sv_lifecycle s1"
    "\<forall>tid. tp_trade_id p = Some tid \<longrightarrow>
      (\<exists>now. sv_trades s2 = sq_mark_closed (se_codec e) now tid (facts_of_details oid details) None (sv_trades s1))"
  proof (cases "tp_trade_id p")
    case None
    then show ?thesis using run by (intro that [of s1]) simp_all
  next
    case (Some tid)
    obtain now where "mark_trade_closed_with_exit_truth e tid oid status payload s1 = (Inr (), s1\<lparr>sv_reads := Suc (sv_reads s1),
       sv_trades := sq_mark_closed (se_codec e) now tid (facts_of_details oid details) None (sv_trades s1),
       sv_ladder := (if tid = [] then sv_ladder s1 else AList.delete (''trade:'' @ tid) (sv_ladder s1))\<rparr>)" (is "_ = (_, ?s2)")
      using close_truth_run [OF assms(1)] by blast
    then show ?thesis using run Some by (intro that [of ?s2]) (auto simp: sx_bind_def)
  qed
  from closing_steps [OF s2(1) [unfolded rest_def]] have "r = Inr (square_off_plan d p reason oid)"
    "sv_lifecycle s' = snd (mark_closed (tp_symbol p, tp_deployment_id p) (sv_lifecycle s2))"
    "sv_orders s' = sv_orders s2" "sv_tracker s' = sv_tracker s2" "sv_trades s' = sv_trades s2" by blast+
  then show ?thesis using s2 by (auto simp: s1_def)
qed

text \<open>
  C12. A fill that is seen closes the position. When the broker answers that the exit order is
  filled, and the quantity it reports can be read, the poll does not fail and returns the closing
  plan: it sends no order, takes the position out of the tracker, marks the trade's stored
  session closed with the exit order and the fill price the broker reported, and the slot of
  the deployment can take a new entry.
\<close>

theorem seen_fill_closes_position:
  assumes "manage_pending_exit_locked e d p now s = (r, s')"
    and "tp_exit_mode p = Some mode" "0 < tp_quantity p" "tp_option_symbol p = Some o'" "tp_exit_order_id p = Some oid"
    and "oid \<noteq> []" "se_broker e (sv_log s) (Get_Order oid) = Reply payload"
    and "py_upper (text_or (payload_status payload)) = ''FILLED''"
    and "exit_fill_details (se_iso_parse e) (Some payload) (payload_status payload) = Inr details"
  shows "r = Inr (Some (square_off_plan d p ''exit_filled'' (Some oid)))
     \<and> sv_log s' = sv_log s @ [Get_Order oid]
     \<and> filter (matches_close (tp_symbol p) (tp_deployment_id p) (Some o') None) (pt_positions (sv_tracker s'))
         = tl (filter (matches_close (tp_symbol p) (tp_deployment_id p) (Some o') None) (pt_positions (sv_tracker s)))
     \<and> can_submit_entry (sv_lifecycle s') (tp_symbol p, tp_deployment_id p)
     \<and> (\<forall>tid w. tp_trade_id p = Some tid \<and> find_session (sv_trades s) tid = Some w \<longrightarrow>
          (\<exists>w'. find_session (sv_trades s') tid = Some w' \<and> ss_status w' = ''closed'' \<and> ss_exit_order_id w' = Some oid
             \<and> (fd_price details \<noteq> None \<longrightarrow> ss_exit_price w' = fd_price details)))"
proof -
  obtain o1 ev where o1: "om_log o1 = sv_log s @ [Get_Order oid]"
    and run: "on_exit_status e d p now mode o' (payload_status payload) (Some payload) None
      (s\<lparr>sv_orders := o1, sv_events := sv_events s @ ev\<rparr>) = (r, s')"
    using poll_reaches [OF assms(1-7)] .
  define s1 where "s1 = s\<lparr>sv_orders := o1, sv_events := sv_events s @ ev\<rparr>"
  obtain q s2 where fin: "finalize_pending_exit_fill e d p (Some oid) (payload_status payload) (Some payload) ''exit_filled'' s1 = (q, s2)"
    by fastforce
  note fx = finalize_effect [OF assms(9) fin]
  have "r = map_sum id Some q \<and> s' = s2"
    using run assms(5,8) fin fx unfolding on_exit_status_def Let_def s1_def [symmetric]
    by (simp add: sx_bind_def sx_return_def)
  then have eff: "r = Inr (Some (square_off_plan d p ''exit_filled'' (Some oid)))" "s' = s2" using fx by simp_all
  moreover have "\<exists>w'. find_session (sv_trades s2) tid = Some w' \<and> ss_status w' = ''closed'' \<and> ss_exit_order_id w' = Some oid
      \<and> (fd_price details \<noteq> None \<longrightarrow> ss_exit_price w' = fd_price details)"
    if "tp_trade_id p = Some tid" "find_session (sv_trades s) tid = Some w" for tid w
  proof -
    have "\<exists>now. sv_trades s2 = sq_mark_closed (se_codec e) now tid (facts_of_details (Some oid) details) None (sv_trades s1)"
      using fx that(1) by blast
    then obtain now where "sv_trades s2 = sq_mark_closed (se_codec e) now tid (facts_of_details (Some oid) details) None (sv_trades s)"
      by (auto simp: s1_def)
    with closed_session [OF that(2)] show ?thesis by (metis option.distinct(1))
  qed
  ultimately show ?thesis
    using fx o1 assms(4)
    by (simp add: s1_def close_position_def rebuild_counters_def filter_remove_first can_submit_entry_def lifecycle_get_def
        mark_closed_def put_record_def Let_def AList.update_conv')
qed

definition demo_filled_broker :: broker where
  "demo_filled_broker = (\<lambda>_ c. case c of
      Get_Order _ \<Rightarrow> Reply [(''status'', PStr ''FILLED''), (''filledQuantity'', PInt 3), (''averagePrice'', PInt 4)]
    | _ \<Rightarrow> Failure (Timeout_Error ''Timeout'' []))"

theorem seen_fill_closes_position_witness:
  "sv_log (snd (manage_pending_exit_locked (demo_sup_env demo_filled_broker) demo_exit_deployment demo_exit_position
       (Aware 0) fresh_sup)) = [Get_Order ''x1'']
   \<and> can_submit_entry (sv_lifecycle (snd (manage_pending_exit_locked (demo_sup_env demo_filled_broker) demo_exit_deployment
       demo_exit_position (Aware 0) fresh_sup))) (''SPY'', ''d1'')"
proof -
  let ?pay = "[(''status'', PStr ''FILLED''), (''filledQuantity'', PInt 3), (''averagePrice'', PInt 4)]"
  have word: "py_upper (text_or (payload_status ?pay)) = ''FILLED''" by code_simp
  have "exit_fill_details (se_iso_parse (demo_sup_env demo_filled_broker)) (Some ?pay) (payload_status ?pay)
      = Inr (projr (exit_fill_details (se_iso_parse (demo_sup_env demo_filled_broker)) (Some ?pay) (payload_status ?pay)))"
    by code_simp
  from seen_fill_closes_position [OF surjective_pairing _ _ _ _ _ _ word this,
      of demo_exit_position STRATEGY "''SPY260101C00500000''" "''x1''" fresh_sup demo_exit_deployment "Aware 0"]
  show ?thesis by (simp add: demo_exit_position_def demo_sup_env_def demo_filled_broker_def fresh_sup_def)
qed

end
