(* ===== verification/Reconciliation.thy ===== *)
theory Reconciliation
  imports Demo_Account Quote_Lineage
begin

text \<open>
  Reconciliation with the broker: \<open>src/bhiksha/state/reconciliation.py\<close>, which maps the positions
  and working orders of a portfolio to tracked positions of the deployments, and the part of
  \<open>src/bhiksha/app/runtime.py\<close> that merges the result into the tracker and judges its failures.
  Prices are finite; an instant is its UTC microsecond. The environment holds \<open>str\<close> of a float or
  container, \<open>datetime.fromisoformat\<close>, \<open>isoformat\<close> of a UTC instant and the \<open>.2f\<close> format.
\<close>

record recon_env =
  rc_tx :: "pyval \<Rightarrow> string"
  rc_iso_parse :: "string \<Rightarrow> pydt option"
  rc_isofmt :: "int \<Rightarrow> string"
  rc_fmt2 :: "real \<Rightarrow> string"

section \<open>Reading the portfolio\<close>

definition is_live_entry_order_id :: "string option \<Rightarrow> bool" where
  "is_live_entry_order_id oid \<longleftrightarrow> (case oid of None \<Rightarrow> False
     | Some t \<Rightarrow> t \<noteq> [] \<and> \<not> (t = ''SHADOW_ENTRY'' \<or> py_startswith t ''DRY_RUN''))"

text \<open>\<open>d.get(key, {}) or {}\<close>, before a \<open>.get\<close> on it.\<close>

definition sub_dict :: "params \<Rightarrow> string \<Rightarrow> params result" where
  "sub_dict d k = (let v = dict_get d k in if py_truthy v then dict_val v else Inr [])"

definition parse_option_root :: "string \<Rightarrow> string" where
  "parse_option_root s = takeWhile is_upper s"

definition parse_entry_price :: "params \<Rightarrow> real option result" where
  "parse_entry_price p = bind_result (sub_dict p ''costBasis'') (\<lambda>c. Inr (sv_maybe_float (dict_get c ''unitCost'')))"

text \<open>\<open>int(float(position.get("quantity", "0") or 0))\<close>.\<close>

definition parse_quantity :: "params \<Rightarrow> int result" where
  "parse_quantity p =
     (let v = dict_get_default p ''quantity'' (PStr ''0'')
      in bind_result (float_of (if py_truthy v then v else PInt 0)) int_of_float)"

fun first_true_value :: "pyval list \<Rightarrow> pyval" where
  "first_true_value [] = PNone"
| "first_true_value [v] = v"
| "first_true_value (v # vs) = (if py_truthy v then v else first_true_value vs)"

definition opened_epoch :: "pyfloat \<Rightarrow> int option result" where
  "opened_epoch x = (case epoch_instant x of None \<Rightarrow> Inl ValueError | Some t \<Rightarrow> Inr (Some t))"

definition parse_opened_at :: "(string \<Rightarrow> pydt option) \<Rightarrow> params \<Rightarrow> int option result" where
  "parse_opened_at iso_parse p =
     (case first_true_value (map (dict_get p) [''openedAt'', ''opened_at'', ''openDate'', ''open_date'']) of
        PBool b \<Rightarrow> opened_epoch (Fin (if b then 1 else 0))
      | PInt n \<Rightarrow> opened_epoch (Fin (of_int n))
      | PFloat x \<Rightarrow> opened_epoch x
      | PStr t \<Rightarrow>
          (let n = py_strip t
           in Inr (if n = [] then None
                   else map_option instant (iso_parse (concat (map (\<lambda>c. if c = CHR ''Z'' then ''+00:00'' else [c]) n)))))
      | _ \<Rightarrow> Inr None)"

record resting_order =
  ro_order_id :: string
  ro_price :: "real option"
  ro_remaining :: "int option"

text \<open>The side a working sell order protects: its contract, whether it is a stop, and what is kept of it.\<close>

definition open_exit_order :: "(pyval \<Rightarrow> string) \<Rightarrow> params \<Rightarrow> (string \<times> bool \<times> resting_order) option result" where
  "open_exit_order tx order =
     bind_result (sub_dict order ''instrument'') (\<lambda>instrument.
     let word = (\<lambda>k. py_upper (py_str tx (dict_get_default order k (PStr []))));
         symb = normalize_option_symbol (py_str tx (dict_get_default instrument ''symbol'' (PStr [])));
         oid = dict_get order ''orderId'' in
     if dict_get instrument ''type'' \<noteq> PStr ''OPTION'' \<or> word ''side'' \<noteq> ''SELL''
        \<or> word ''status'' \<notin> set PUBLIC_WORKING_ORDER_STATUSES \<or> symb = [] \<or> \<not> py_truthy oid then Inr None
     else if word ''type'' = ''STOP''
     then bind_result (sv_remaining_order_quantity order) (\<lambda>n.
          Inr (Some (symb, True, \<lparr>ro_order_id = py_str tx oid, ro_price = sv_maybe_float (dict_get order ''stopPrice''),
            ro_remaining = n\<rparr>)))
     else if word ''type'' = ''LIMIT''
     then Inr (Some (symb, False, \<lparr>ro_order_id = py_str tx oid, ro_price = sv_maybe_float (dict_get order ''limitPrice''),
            ro_remaining = None\<rparr>))
     else Inr None)"

text \<open>The last order of a contract is the one kept.\<close>

type_synonym order_index = "(string \<times> resting_order) list"

fun index_open_exit_orders :: "(pyval \<Rightarrow> string) \<Rightarrow> params list \<Rightarrow> order_index \<times> order_index \<Rightarrow> (order_index \<times> order_index) result" where
  "index_open_exit_orders tx [] ix = Inr ix"
| "index_open_exit_orders tx (d # ds) (stops, limits) =
     bind_result (open_exit_order tx d) (\<lambda>x. index_open_exit_orders tx ds (case x of
         None \<Rightarrow> (stops, limits)
       | Some (symb, is_stop, ro) \<Rightarrow>
           if is_stop then (AList.update symb ro stops, limits) else (stops, AList.update symb ro limits)))"

section \<open>Matching a position with a trade\<close>

definition RECOVERY_MATCH_WINDOW :: int where
  "RECOVERY_MATCH_WINDOW = 6 * 3600 * usec_per_sec"

definition matches_broker_opened_at :: "trade_session \<Rightarrow> int option \<Rightarrow> bool" where
  "matches_broker_opened_at t opened = (case (opened, tr_entry_timestamp t) of
      (Some b, Some x) \<Rightarrow> abs (instant x - b) \<le> RECOVERY_MATCH_WINDOW | _ \<Rightarrow> False)"

definition matches_broker_entry_price :: "trade_session \<Rightarrow> real option \<Rightarrow> bool" where
  "matches_broker_entry_price t price = (case (price, tr_entry_price t) of
      (Some b, Some x) \<Rightarrow> abs (x - b) \<le> 0.05 | _ \<Rightarrow> False)"

definition contradicts_broker_evidence :: "trade_session \<Rightarrow> int option \<Rightarrow> real option \<Rightarrow> bool" where
  "contradicts_broker_evidence t opened price \<longleftrightarrow>
     (opened \<noteq> None \<and> tr_entry_timestamp t \<noteq> None \<and> \<not> matches_broker_opened_at t opened)
     \<or> (case (price, tr_entry_price t) of
         (Some b, Some x) \<Rightarrow> abs (x - b) > max 0.25 (0.10 * max x b) | _ \<Rightarrow> False)"

definition is_closed :: "trade_session \<Rightarrow> bool" where
  "is_closed t \<longleftrightarrow> tr_status t = ''closed''"

text \<open>The open trades by the ids of their orders, the newest trade first.\<close>

definition trades_by_order_id :: "trade_session list \<Rightarrow> (string \<times> trade_session) list" where
  "trades_by_order_id ts = concat (map (\<lambda>t. if is_closed t then []
     else concat (map (\<lambda>x. case x of Some oid \<Rightarrow> if oid = [] then [] else [(oid, t)] | None \<Rightarrow> [])
            [tr_entry_order_id t, tr_stop_order_id t, tr_target_order_id t, tr_exit_order_id t])) ts)"

definition trades_of_option :: "string \<Rightarrow> trade_session list \<Rightarrow> trade_session list" where
  "trades_of_option o' ts = filter (\<lambda>t. tr_option_symbol t = Some o' \<and> o' \<noteq> []) ts"

definition owner_of :: "trade_session list \<Rightarrow> string option \<Rightarrow> trade_session option" where
  "owner_of ts oid = (case oid of None \<Rightarrow> None
     | Some x \<Rightarrow> if x = [] then None else map_of (trades_by_order_id ts) x)"

definition the_only :: "'a list \<Rightarrow> 'a option" where
  "the_only xs = (case xs of [x] \<Rightarrow> Some x | _ \<Rightarrow> None)"

text \<open>Without an order of its own, the trade has to be the only candidate at some level of evidence.\<close>

definition fuzzy_match :: "trade_session list \<Rightarrow> int option \<Rightarrow> real option \<Rightarrow> trade_session option" where
  "fuzzy_match ts opened price =
     (let candidates = filter (\<lambda>t. \<not> contradicts_broker_evidence t opened price) ts;
          open_trades = filter (\<lambda>t. \<not> is_closed t) candidates;
          time_matches = filter (\<lambda>t. matches_broker_opened_at t opened) candidates;
          price_matches = filter (\<lambda>t. matches_broker_entry_price t price)
            (if time_matches = [] then candidates else time_matches)
      in case the_only open_trades of Some t \<Rightarrow> Some t
         | None \<Rightarrow> (case the_only time_matches of Some t \<Rightarrow> Some t | None \<Rightarrow> the_only price_matches))"

definition resolve_trade ::
  "trade_session list \<Rightarrow> string \<Rightarrow> string option \<Rightarrow> string option \<Rightarrow> int option \<Rightarrow> real option \<Rightarrow> trade_session option" where
  "resolve_trade ts o' stop_id limit_id opened price = (case owner_of ts stop_id of
      Some t \<Rightarrow> Some t
    | None \<Rightarrow> (case owner_of ts limit_id of
        Some t \<Rightarrow> Some t
      | None \<Rightarrow> fuzzy_match (trades_of_option o' ts) opened price))"

section \<open>The tracked positions of a portfolio\<close>

text \<open>\<open>a or b\<close> of two prices.\<close>

definition or_price :: "real option \<Rightarrow> real option \<Rightarrow> real option" where
  "or_price a b = (if a = None \<or> a = Some 0 then b else a)"

definition synthetic_trade_id :: "recon_env \<Rightarrow> string \<Rightarrow> string \<Rightarrow> int \<Rightarrow> real option \<Rightarrow> int option \<Rightarrow> string" where
  "synthetic_trade_id e dep o' quantity price opened =
     ''recovered:'' @ dep @ '':'' @ o' @ '':'' @ int_str quantity @ '':''
       @ (case price of None \<Rightarrow> ''unknown'' | Some x \<Rightarrow> rc_fmt2 e x) @ '':''
       @ (case opened of None \<Rightarrow> ''unknown'' | Some t \<Rightarrow> rc_isofmt e t)"

definition deployment_by_id :: "deployment list \<Rightarrow> string \<Rightarrow> deployment option" where
  "deployment_by_id ds i = map_of (rev (map (\<lambda>d. (dep_id d, d)) ds)) i"

text \<open>Who owns the position: the deployment, the trade's id, the source.\<close>

record ownership =
  ow_deployment :: deployment
  ow_trade :: "trade_session option"
  ow_trade_id :: string
  ow_source :: string

definition trade_source :: "trade_session \<Rightarrow> string" where
  "trade_source t =
     (if is_live_entry_order_id (tr_entry_order_id t) \<and> \<not> is_closed t
      then if tr_status t = ''pending_entry_reconcile'' then LIVE_ENTRY_RECONCILIATION_HOLD_SOURCE else ''live_open''
      else ''broker_sync'')"

definition owned_position ::
  "recon_env \<Rightarrow> deployment list \<Rightarrow> string \<Rightarrow> string \<Rightarrow> params \<Rightarrow> real option \<Rightarrow> int option \<Rightarrow> trade_session option
     \<Rightarrow> ownership option result" where
  "owned_position e ds symb o' position price opened matched =
     (case matched of
        Some t \<Rightarrow> Inr (map_option (\<lambda>d. \<lparr>ow_deployment = d, ow_trade = Some t, ow_trade_id = tr_trade_id t,
             ow_source = trade_source t\<rparr>) (deployment_by_id ds (tr_deployment_id t)))
      | None \<Rightarrow> (case filter (\<lambda>d. dep_symbol d = symb) ds of
           [d] \<Rightarrow>
             if ex_shadow_only (dep_execution d) then Inr None
             else bind_result (parse_quantity position) (\<lambda>q.
               Inr (Some \<lparr>ow_deployment = d, ow_trade = None,
                 ow_trade_id = synthetic_trade_id e (dep_id d) o' q price opened, ow_source = ''broker_recovered''\<rparr>))
         | _ \<Rightarrow> Inr None))"

definition shadow_without_ownership :: "ownership \<Rightarrow> bool" where
  "shadow_without_ownership w \<longleftrightarrow> ex_shadow_only (dep_execution (ow_deployment w))
     \<and> \<not> (case ow_trade w of None \<Rightarrow> False | Some t \<Rightarrow> is_live_entry_order_id (tr_entry_order_id t))"

text \<open>The fields the trade contributes, absent without one.\<close>

definition of_trade :: "trade_session option \<Rightarrow> (trade_session \<Rightarrow> 'a option) \<Rightarrow> 'a option" where
  "of_trade t f = (case t of None \<Rightarrow> None | Some x \<Rightarrow> f x)"

definition exit_pending_trade :: "trade_session option \<Rightarrow> bool" where
  "exit_pending_trade t \<longleftrightarrow> (case t of None \<Rightarrow> False | Some x \<Rightarrow> tr_status x = ''exit_pending'')"

definition tracked_from_broker ::
  "string \<Rightarrow> string \<Rightarrow> int \<Rightarrow> ownership \<Rightarrow> real option \<Rightarrow> pydt option \<Rightarrow> resting_order option \<Rightarrow> resting_order option
     \<Rightarrow> tracked_position" where
  "tracked_from_broker symb o' quantity w price entered stop limit =
     (let t = ow_trade w;
          exit_order = (if exit_pending_trade t then limit else None);
          target_order = (if exit_pending_trade t then None else limit)
      in \<lparr>tp_symbol = symb, tp_deployment_id = dep_id (ow_deployment w), tp_trade_id = Some (ow_trade_id w),
         tp_option_symbol = Some o', tp_quantity = quantity, tp_entry_price = price,
         tp_underlying_entry_price = of_trade t tr_underlying_entry_price, tp_entry_timestamp = entered,
         tp_source = ow_source w, tp_order_id = of_trade t tr_entry_order_id,
         tp_stop_order_id = map_option ro_order_id stop, tp_stop_price = opt_bind stop ro_price,
         tp_target_order_id = map_option ro_order_id target_order, tp_target_price = opt_bind target_order ro_price,
         tp_target_activation_price = None, tp_target_activation_high_price = None, tp_target_activated_at = None,
         tp_exit_order_id = or_text (map_option ro_order_id exit_order) (of_trade t tr_exit_order_id),
         tp_exit_limit_price = or_price (opt_bind exit_order ro_price) (of_trade t tr_exit_limit_price),
         tp_exit_submitted_at = of_trade t tr_exit_submitted_at,
         tp_exit_mode = (if exit_pending_trade t then of_trade t tr_exit_mode else None),
         tp_exit_reprice_count = 0\<rparr>)"

text \<open>A stop of another size than the position is left unattached.\<close>

definition fitting_stop :: "resting_order option \<Rightarrow> int \<Rightarrow> resting_order option" where
  "fitting_stop stop quantity =
     (case stop of Some ro \<Rightarrow> if ro_remaining ro = Some quantity then Some ro else None | None \<Rightarrow> None)"

definition entry_price_of :: "trade_session option \<Rightarrow> real option \<Rightarrow> real option" where
  "entry_price_of matched price = (case matched of None \<Rightarrow> price | Some t \<Rightarrow> or_price price (tr_entry_price t))"

definition entered_at :: "trade_session option \<Rightarrow> int option \<Rightarrow> pydt option" where
  "entered_at matched opened = (case opened of Some t \<Rightarrow> Some (Aware t) | None \<Rightarrow> of_trade matched tr_entry_timestamp)"

text \<open>The position of an owned contract.\<close>

definition reconcile_owned ::
  "string \<Rightarrow> params \<Rightarrow> ownership \<Rightarrow> int option \<Rightarrow> real option \<Rightarrow> resting_order option \<Rightarrow> resting_order option
     \<Rightarrow> tracked_position option result" where
  "reconcile_owned o' position w opened price stop limit =
     (if shadow_without_ownership w then Inr None
      else bind_result (parse_quantity position) (\<lambda>quantity.
        if quantity \<le> 0 then Inr None
        else Inr (Some (tracked_from_broker (parse_option_root o') o' quantity w (entry_price_of (ow_trade w) price)
               (entered_at (ow_trade w) opened) (fitting_stop stop quantity) limit))))"

text \<open>One contract of the portfolio.\<close>

definition reconcile_contract ::
  "recon_env \<Rightarrow> deployment list \<Rightarrow> trade_session list \<Rightarrow> string \<Rightarrow> resting_order option \<Rightarrow> resting_order option \<Rightarrow>
   params \<Rightarrow> tracked_position option result" where
  "reconcile_contract e ds ts o' stop limit position =
     bind_result (parse_opened_at (rc_iso_parse e) position) (\<lambda>opened.
     bind_result (parse_entry_price position) (\<lambda>price.
     bind_result (owned_position e ds (parse_option_root o') o' position price opened
         (resolve_trade ts o' (map_option ro_order_id stop) (map_option ro_order_id limit) opened price)) (\<lambda>owner.
     case owner of None \<Rightarrow> Inr None | Some w \<Rightarrow> reconcile_owned o' position w opened price stop limit)))"

definition contract_of :: "recon_env \<Rightarrow> params \<Rightarrow> string" where
  "contract_of e instrument = normalize_option_symbol (py_str (rc_tx e) (dict_get_default instrument ''symbol'' (PStr [])))"

definition reconcile_position ::
  "recon_env \<Rightarrow> deployment list \<Rightarrow> trade_session list \<Rightarrow> order_index \<times> order_index \<Rightarrow> params \<Rightarrow>
   tracked_position option result" where
  "reconcile_position e ds ts ix position =
     bind_result (sub_dict position ''instrument'') (\<lambda>instrument.
     if dict_get instrument ''type'' \<noteq> PStr ''OPTION'' then Inr None
     else reconcile_contract e ds ts (contract_of e instrument) (map_of (fst ix) (contract_of e instrument))
            (map_of (snd ix) (contract_of e instrument)) position)"

fun reconcile_each ::
  "recon_env \<Rightarrow> deployment list \<Rightarrow> trade_session list \<Rightarrow> order_index \<times> order_index \<Rightarrow> params list \<Rightarrow>
   tracked_position list result" where
  "reconcile_each e ds ts ix [] = Inr []"
| "reconcile_each e ds ts ix (p # ps) =
     bind_result (reconcile_position e ds ts ix p) (\<lambda>x.
     bind_result (reconcile_each e ds ts ix ps) (\<lambda>xs. Inr (case x of None \<Rightarrow> xs | Some y \<Rightarrow> y # xs)))"

definition reconcile_public_positions ::
  "recon_env \<Rightarrow> params list \<Rightarrow> deployment list \<Rightarrow> params list \<Rightarrow> trade_session list \<Rightarrow> tracked_position list result" where
  "reconcile_public_positions e positions ds orders ts =
     bind_result (index_open_exit_orders (rc_tx e) orders ([], [])) (\<lambda>ix. reconcile_each e ds ts ix positions)"

section \<open>Merging with the tracker\<close>

definition position_key :: "tracked_position \<Rightarrow> string option \<times> string \<times> string option" where
  "position_key p = (tp_trade_id p, tp_deployment_id p, tp_option_symbol p)"

definition merge_tracked_positions :: "tracked_position list \<Rightarrow> tracked_position list \<Rightarrow> tracked_position list" where
  "merge_tracked_positions broker paper = map snd (fold (\<lambda>p m. AList.update (position_key p) p m) (broker @ paper) [])"

definition position_has_pending_exit :: "tracked_position \<Rightarrow> bool" where
  "position_has_pending_exit p \<longleftrightarrow> text_truthy (tp_exit_order_id p) \<or> tp_exit_submitted_at p \<noteq> None \<or> tp_exit_mode p \<noteq> None"

definition pending_exit_is_at_least_as_new :: "tracked_position \<Rightarrow> tracked_position \<Rightarrow> bool result" where
  "pending_exit_is_at_least_as_new broker current =
     (if \<not> position_has_pending_exit broker then Inr False
      else case tp_exit_submitted_at current of
        None \<Rightarrow> Inr True
      | Some c \<Rightarrow> (case tp_exit_submitted_at broker of None \<Rightarrow> Inr False | Some b \<Rightarrow> dt_ge b c))"

text \<open>\<open>replace(broker_position, ...)\<close> with the exit and protection of the tracked position.\<close>

definition with_pending_exit :: "tracked_position \<Rightarrow> tracked_position \<Rightarrow> tracked_position" where
  "with_pending_exit b c = b\<lparr>
     tp_stop_order_id := tp_stop_order_id c, tp_stop_price := tp_stop_price c,
     tp_target_order_id := tp_target_order_id c, tp_target_price := tp_target_price c,
     tp_target_activation_price := tp_target_activation_price c,
     tp_target_activation_high_price := tp_target_activation_high_price c,
     tp_target_activated_at := tp_target_activated_at c,
     tp_exit_order_id := tp_exit_order_id c, tp_exit_limit_price := tp_exit_limit_price c,
     tp_exit_submitted_at := tp_exit_submitted_at c, tp_exit_mode := tp_exit_mode c,
     tp_exit_reprice_count := tp_exit_reprice_count c\<rparr>"

definition current_by_identity ::
  "tracked_position list \<Rightarrow> string option \<times> string \<times> string option \<Rightarrow> tracked_position option" where
  "current_by_identity current k = map_of (rev (map (\<lambda>p. (position_key p, p))
     (filter (\<lambda>p. tp_trade_id p \<noteq> None \<and> tp_option_symbol p \<noteq> None) current))) k"

definition preserve_position ::
  "tracked_position list \<Rightarrow> tracked_position \<Rightarrow> tracked_position option result" where
  "preserve_position currents b = (let current = current_by_identity currents (position_key b) in
     if tp_source b \<in> set NON_LIVE_POSITION_SOURCES then Inr current
     else case current of
       None \<Rightarrow> Inr (Some b)
     | Some c \<Rightarrow>
         if \<not> position_has_pending_exit c then Inr (Some b)
         else bind_result (pending_exit_is_at_least_as_new b c) (\<lambda>newer.
           Inr (Some (if newer then b else with_pending_exit b c))))"

fun preserve_each :: "tracked_position list \<Rightarrow> tracked_position list \<Rightarrow> tracked_position list result" where
  "preserve_each currents [] = Inr []"
| "preserve_each currents (b # bs) =
     bind_result (preserve_position currents b) (\<lambda>x.
     bind_result (preserve_each currents bs) (\<lambda>xs. Inr (case x of None \<Rightarrow> xs | Some y \<Rightarrow> y # xs)))"

definition preserve_newer_pending_exit_state ::
  "tracked_position list \<Rightarrow> tracked_position list \<Rightarrow> tracked_position list result" where
  "preserve_newer_pending_exit_state broker current =
     bind_result (preserve_each current broker) (\<lambda>merged. Inr (merged @
       filter (\<lambda>p. tp_source p \<in> set NON_LIVE_POSITION_SOURCES \<and> position_key p \<notin> set (map position_key broker)) current))"

section \<open>What a matched position rests on\<close>

text \<open>Every indexed order is a working sell order of the portfolio for that contract.\<close>

definition indexed_from :: "(pyval \<Rightarrow> string) \<Rightarrow> params list \<Rightarrow> bool \<Rightarrow> order_index \<Rightarrow> bool" where
  "indexed_from tx ds is_stop ix \<longleftrightarrow> (\<forall>o' ro. map_of ix o' = Some ro \<longrightarrow>
     (\<exists>d\<in>set ds. open_exit_order tx d = Inr (Some (o', is_stop, ro))))"

lemma indexed_from_update:
  "indexed_from tx ds b ix \<Longrightarrow> d \<in> set ds \<Longrightarrow> open_exit_order tx d = Inr (Some (o', b, ro)) \<Longrightarrow>
   indexed_from tx ds b (AList.update o' ro ix)"
  unfolding indexed_from_def by (auto simp: AList.update_conv')

lemma index_sound_from:
  assumes "index_open_exit_orders tx ds ix = Inr ix'" "set ds \<subseteq> set all"
    and "indexed_from tx all True (fst ix)" "indexed_from tx all False (snd ix)"
  shows "indexed_from tx all True (fst ix') \<and> indexed_from tx all False (snd ix')"
  using assms
proof (induction ds arbitrary: ix)
  case Nil
  then show ?case by (cases ix) simp
next
  case (Cons d ds)
  obtain stops limits where ix: "ix = (stops, limits)" by (cases ix)
  obtain x where x: "open_exit_order tx d = Inr x"
    "index_open_exit_orders tx ds (case x of None \<Rightarrow> (stops, limits)
       | Some (symb, is_stop, ro) \<Rightarrow>
           if is_stop then (AList.update symb ro stops, limits) else (stops, AList.update symb ro limits)) = Inr ix'"
    using Cons.prems(1) by (auto simp: ix bind_result_Inr_iff)
  show ?case
  proof (rule Cons.IH [OF x(2)])
    show "set ds \<subseteq> set all" using Cons.prems(2) by simp
  qed (use Cons.prems(2-4) x(1) in \<open>auto simp: ix split: option.split intro: indexed_from_update\<close>)
qed

lemma index_sound:
  "index_open_exit_orders tx ds ([], []) = Inr ix \<Longrightarrow> indexed_from tx ds True (fst ix) \<and> indexed_from tx ds False (snd ix)"
  by (rule index_sound_from [where ds = ds and ix = "([], [])"]) (auto simp: indexed_from_def)

text \<open>A trade owns an order: it is open and the order is one of its own.\<close>

definition owns_order :: "trade_session \<Rightarrow> string option \<Rightarrow> bool" where
  "owns_order t oid \<longleftrightarrow> \<not> is_closed t \<and> oid \<noteq> None
     \<and> oid \<in> {tr_entry_order_id t, tr_stop_order_id t, tr_target_order_id t, tr_exit_order_id t}"

lemma owner_of_owns: "owner_of ts oid = Some t \<Longrightarrow> t \<in> set ts \<and> owns_order t oid"
  by (auto simp: owner_of_def trades_by_order_id_def owns_order_def split: option.splits if_splits dest!: map_of_SomeD)

lemma the_only_in: "the_only xs = Some x \<Longrightarrow> x \<in> set xs"
  by (auto simp: the_only_def split: list.splits)

lemma filter_single: "filter P xs = [x] \<Longrightarrow> x \<in> set xs \<and> P x"
  by (metis filter_eq_ConsD in_set_conv_decomp)

lemma fuzzy_match_evidence:
  "fuzzy_match ts opened price = Some t \<Longrightarrow> t \<in> set ts \<and> \<not> contradicts_broker_evidence t opened price"
  by (auto simp: fuzzy_match_def Let_def split: option.splits if_splits dest!: the_only_in)

definition evidenced :: "trade_session \<Rightarrow> string \<Rightarrow> string option \<Rightarrow> string option \<Rightarrow> int option \<Rightarrow> real option \<Rightarrow> bool" where
  "evidenced t o' stop_id limit_id opened price \<longleftrightarrow> owns_order t stop_id \<or> owns_order t limit_id
     \<or> tr_option_symbol t = Some o' \<and> \<not> contradicts_broker_evidence t opened price"

lemma resolve_trade_evidence:
  "resolve_trade ts o' stop_id limit_id opened price = Some t \<Longrightarrow>
   t \<in> set ts \<and> evidenced t o' stop_id limit_id opened price"
  by (auto simp: resolve_trade_def evidenced_def trades_of_option_def split: option.splits
      dest!: owner_of_owns fuzzy_match_evidence)

lemma deployment_by_id_in: "deployment_by_id ds i = Some d \<Longrightarrow> d \<in> set ds \<and> dep_id d = i"
  by (auto simp: deployment_by_id_def dest!: map_of_SomeD)

lemma owned_position_sound:
  assumes "owned_position e ds symb o' position price opened matched = Inr (Some w)"
  shows "ow_deployment w \<in> set ds \<and> ow_trade w = matched
    \<and> (case matched of None \<Rightarrow> ow_source w = ''broker_recovered''
       | Some t \<Rightarrow> ow_source w = trade_source t \<and> ow_trade_id w = tr_trade_id t \<and> dep_id (ow_deployment w) = tr_deployment_id t)"
  using assms
proof (cases matched)
  case None
  obtain d where "filter (\<lambda>d. dep_symbol d = symb) ds = [d]" "ow_deployment w = d" "ow_trade w = None"
    "ow_source w = ''broker_recovered''"
    using assms None by (auto simp: owned_position_def bind_result_Inr_iff split: list.splits if_splits)
  then show ?thesis using None filter_single by fastforce
qed (auto simp: owned_position_def dest!: deployment_by_id_in)

text \<open>
  What a tracked position of the reconciliation rests on: the quantity of the broker, a
  deployment that may own it, a stop of exactly its size, and, where it has live authority, an
  open trade with a real entry order that owns a working order of the contract or agrees with
  the broker on when and at what price the position was opened.
\<close>

definition stop_backed :: "recon_env \<Rightarrow> params list \<Rightarrow> tracked_position \<Rightarrow> bool" where
  "stop_backed e orders p \<longleftrightarrow> tp_stop_order_id p = None \<or> (\<exists>order\<in>set orders. \<exists>o' ro.
     open_exit_order (rc_tx e) order = Inr (Some (o', True, ro)) \<and> tp_option_symbol p = Some o'
     \<and> tp_stop_order_id p = Some (ro_order_id ro) \<and> ro_remaining ro = Some (tp_quantity p))"

definition trade_backed ::
  "recon_env \<Rightarrow> params list \<Rightarrow> trade_session \<Rightarrow> params \<Rightarrow> tracked_position \<Rightarrow> bool" where
  "trade_backed e orders t position p \<longleftrightarrow> (\<exists>o' opened price. tp_option_symbol p = Some o'
     \<and> parse_opened_at (rc_iso_parse e) position = Inr opened \<and> parse_entry_price position = Inr price
     \<and> (tr_option_symbol t = Some o' \<and> \<not> contradicts_broker_evidence t opened price
        \<or> (\<exists>order\<in>set orders. \<exists>b ro. open_exit_order (rc_tx e) order = Inr (Some (o', b, ro))
             \<and> owns_order t (Some (ro_order_id ro)))))"

lemma owns_resting:
  assumes "owns_order t (map_option ro_order_id (map_of ix o'))" "indexed_from tx orders b ix"
  shows "\<exists>order\<in>set orders. \<exists>b ro. open_exit_order tx order = Inr (Some (o', b, ro)) \<and> owns_order t (Some (ro_order_id ro))"
proof -
  obtain ro where ro: "map_of ix o' = Some ro" using assms(1) by (cases "map_of ix o'") (auto simp: owns_order_def)
  with assms(2) obtain order where "order \<in> set orders" "open_exit_order tx order = Inr (Some (o', b, ro))"
    unfolding indexed_from_def by blast
  then show ?thesis using assms(1) ro by auto
qed

lemma reconcile_position_sound:
  assumes "reconcile_position e ds ts ix position = Inr (Some p)"
    and "indexed_from (rc_tx e) orders True (fst ix)" "indexed_from (rc_tx e) orders False (snd ix)"
  shows "parse_quantity position = Inr (tp_quantity p) \<and> 0 < tp_quantity p \<and> stop_backed e orders p
    \<and> (\<exists>d\<in>set ds. dep_id d = tp_deployment_id p)
    \<and> (tp_source p \<in> {''live_open'', LIVE_ENTRY_RECONCILIATION_HOLD_SOURCE} \<longrightarrow> (\<exists>t\<in>set ts.
         tp_trade_id p = Some (tr_trade_id t) \<and> tp_deployment_id p = tr_deployment_id t \<and> tp_order_id p = tr_entry_order_id t
         \<and> \<not> is_closed t \<and> is_live_entry_order_id (tr_entry_order_id t) \<and> trade_backed e orders t position p))
    \<and> tp_exit_reprice_count p = 0"
proof -
  obtain o' stop limit where stop: "stop = map_of (fst ix) o'" and limit: "limit = map_of (snd ix) o'"
    and run: "reconcile_contract e ds ts o' stop limit position = Inr (Some p)"
    using assms(1) by (auto simp: reconcile_position_def bind_result_Inr_iff split: if_splits)
  obtain opened price w where opened: "parse_opened_at (rc_iso_parse e) position = Inr opened"
    and price: "parse_entry_price position = Inr price"
    and w: "owned_position e ds (parse_option_root o') o' position price opened
      (resolve_trade ts o' (map_option ro_order_id stop) (map_option ro_order_id limit) opened price) = Inr (Some w)"
    and fin: "reconcile_owned o' position w opened price stop limit = Inr (Some p)"
    using run by (auto simp: reconcile_contract_def bind_result_Inr_iff split: option.splits)
  obtain quantity entry entered where quantity: "parse_quantity position = Inr quantity" "0 < quantity"
    and p: "p = tracked_from_broker (parse_option_root o') o' quantity w entry entered (fitting_stop stop quantity) limit"
    using fin by (auto simp: reconcile_owned_def bind_result_Inr_iff split: if_splits)
  note owned = owned_position_sound [OF w]
  have simps: "tp_quantity p = quantity" "tp_option_symbol p = Some o'" "tp_source p = ow_source w"
    "tp_deployment_id p = dep_id (ow_deployment w)" "tp_trade_id p = Some (ow_trade_id w)"
    "tp_order_id p = of_trade (ow_trade w) tr_entry_order_id" "tp_exit_reprice_count p = 0"
    "tp_stop_order_id p = map_option ro_order_id (fitting_stop stop quantity)"
    by (simp_all add: p tracked_from_broker_def Let_def)
  have "stop_backed e orders p"
    using assms(2) unfolding stop_backed_def indexed_from_def simps stop fitting_stop_def by (fastforce split: option.split)
  moreover have "\<exists>t\<in>set ts. tp_trade_id p = Some (tr_trade_id t) \<and> tp_deployment_id p = tr_deployment_id t
      \<and> tp_order_id p = tr_entry_order_id t \<and> \<not> is_closed t \<and> is_live_entry_order_id (tr_entry_order_id t)
      \<and> trade_backed e orders t position p"
    if "tp_source p \<in> {''live_open'', LIVE_ENTRY_RECONCILIATION_HOLD_SOURCE}"
  proof -
    have "ow_trade w \<noteq> None"
      using that owned by (auto simp: simps LIVE_ENTRY_RECONCILIATION_HOLD_SOURCE_def split: option.splits)
    then obtain t where t: "ow_trade w = Some t" by blast
    then have res: "resolve_trade ts o' (map_option ro_order_id stop) (map_option ro_order_id limit) opened price = Some t"
      using owned by simp
    from resolve_trade_evidence [OF this] have mem: "t \<in> set ts"
      and ev: "evidenced t o' (map_option ro_order_id stop) (map_option ro_order_id limit) opened price" by blast+
    have "trade_backed e orders t position p"
      unfolding trade_backed_def
    proof (intro exI [of _ o'] exI [of _ opened] exI [of _ price] conjI simps(2) opened price)
      show "tr_option_symbol t = Some o' \<and> \<not> contradicts_broker_evidence t opened price
        \<or> (\<exists>order\<in>set orders. \<exists>b ro. open_exit_order (rc_tx e) order = Inr (Some (o', b, ro))
             \<and> owns_order t (Some (ro_order_id ro)))"
        using ev owns_resting [OF _ assms(2)] owns_resting [OF _ assms(3)] unfolding evidenced_def stop limit by blast
    qed
    moreover have "\<not> is_closed t \<and> is_live_entry_order_id (tr_entry_order_id t)"
      using that owned res by (auto simp: simps trade_source_def LIVE_ENTRY_RECONCILIATION_HOLD_SOURCE_def split: if_splits)
    ultimately show ?thesis using mem owned res t by (auto simp: simps of_trade_def)
  qed
  ultimately show ?thesis using quantity owned by (auto simp: simps)
qed

lemma reconcile_each_in:
  "reconcile_each e ds ts ix positions = Inr ps \<Longrightarrow> p \<in> set ps \<Longrightarrow>
   \<exists>position\<in>set positions. reconcile_position e ds ts ix position = Inr (Some p)"
  by (induction positions arbitrary: ps) (auto simp: bind_result_Inr_iff split: option.splits)


definition demo_recon_env :: recon_env where
  "demo_recon_env = \<lparr>rc_tx = (\<lambda>_. []), rc_iso_parse = (\<lambda>_. None), rc_isofmt = (\<lambda>_. []), rc_fmt2 = (\<lambda>_. [])\<rparr>"

definition demo_holding :: params where
  "demo_holding = [(''instrument'', PDict [(''type'', PStr ''OPTION''), (''symbol'', PStr ''SPY260101C00500000'')]),
     (''quantity'', PStr ''3'')]"

definition demo_open_trade :: trade_session where
  "demo_open_trade = demo_session\<lparr>tr_deployment_id := ''d1'', tr_option_symbol := Some ''SPY260101C00500000'',
     tr_status := ''open_protected'', tr_entry_order_id := Some ''e1''\<rparr>"

lemma demo_reconciled:
  "map_sum id (map (\<lambda>p. (tp_source p, tp_quantity p)))
     (reconcile_public_positions demo_recon_env [demo_holding] [demo_exit_deployment] [] [demo_open_trade])
   = Inr [(''live_open'', 3)]"
  by code_simp


end
