(* ===== verification/Exit_Race.thy ===== *)
theory Exit_Race
  imports Reconciliation Exit_Outcomes
begin

text \<open>
  Pending exits and reconciliation together: what becomes of a repriced exit when a portfolio
  that was fetched before the reprice is committed after it.
\<close>



end
