(* ===== verification/Sync_Lifecycle.thy ===== *)
theory Sync_Lifecycle
  imports Pending_Exit
begin

text \<open>
  The synchronisation of trades with the broker (\<open>src/bhiksha/execution/supervisor.py\<close>,
  \<open>sync_lifecycle\<close> and what it calls): trades whose position disappeared are closed with the exit
  the broker reports, exits and banked legs without fill facts are asked for again, an entry that
  was left pending is resolved from its order, and every tracked position is written back.
\<close>

section \<open>Steps over lists, stores and reservations\<close>

fun sx_each :: "('a \<Rightarrow> ('s, unit) sx) \<Rightarrow> 'a list \<Rightarrow> ('s, unit) sx" where
  "sx_each f [] = sx_return ()"
| "sx_each f (x # xs) = sx_bind (f x) (\<lambda>_. sx_each f xs)"

definition sv_exit_write :: "sup_env \<Rightarrow> (string \<Rightarrow> exit_db \<Rightarrow> exit_db result) \<Rightarrow> unit sup" where
  "sv_exit_write e f =
     sx_bind (sv_now e) (\<lambda>now s. case sv_exits s of
         None \<Rightarrow> (Inr (), s)
       | Some db \<Rightarrow> (case f (xk_iso_text (se_exit_codec e) now) db of
             Inl x \<Rightarrow> (Inl (Py_Error x), s) | Inr db' \<Rightarrow> (Inr (), s\<lparr>sv_exits := Some db'\<rparr>)))"

definition sv_reserve :: "reservation_call list \<Rightarrow> unit sup" where
  "sv_reserve cs = sv_do (\<lambda>s. s\<lparr>sv_reservations := sv_reservations s @ cs\<rparr>)"

definition release_entry_reservations :: "string \<Rightarrow> unit sup" where
  "release_entry_reservations tid = sv_reserve [Release_Cash tid, Release_Risk tid]"

definition sv_read_trades :: "(trade_db \<Rightarrow> 'a result) \<Rightarrow> 'a sup" where
  "sv_read_trades f = sx_bind (sv_get (\<lambda>s. f (sv_trades s))) sx_lift"

definition clear_profile_exit_state_for_identity ::
  "string option \<Rightarrow> string option \<Rightarrow> string \<Rightarrow> string \<Rightarrow> string option \<Rightarrow> unit sup" where
  "clear_profile_exit_state_for_identity tid oid dep symb o' =
     (let identity = or_text tid oid;
          drop_trade = (if text_truthy identity then AList.delete (''trade:'' @ text_or identity) else id)
      in sv_do (\<lambda>s. s\<lparr>sv_ladder := AList.delete
           (''pos:'' @ dep @ '':'' @ symb @ '':'' @ (case o' of None \<Rightarrow> ''None'' | Some t \<Rightarrow> t))
           (drop_trade (sv_ladder s))\<rparr>))"

text \<open>A status read with the one-second limit.\<close>

definition sv_status_within :: "sup_env \<Rightarrow> string \<Rightarrow> string \<Rightarrow> order_status sup" where
  "sv_status_within e oid timeout_error =
     sx_bind (sv_get (\<lambda>s. se_readback_late e (om_log (sv_orders s)))) (\<lambda>late.
     if late then sv_total (\<lambda>o'. ((None, None, Some timeout_error), o'\<lparr>om_log := om_log o' @ [Get_Order oid]\<rparr>))
     else sv_total (get_order_status (se_broker e) oid))"

section \<open>The exit of a closed trade\<close>

text \<open>The first of the trade's orders that the broker reports filled, or dead with a fill.\<close>

fun terminal_exit_among ::
  "sup_env \<Rightarrow> string option \<Rightarrow> string list \<Rightarrow> string option list \<Rightarrow> (string \<times> string option \<times> params) option sup" where
  "terminal_exit_among e o' seen [] = sx_return None"
| "terminal_exit_among e o' seen (oid # oids) =
     (if \<not> text_truthy oid \<or> text_or oid \<in> set seen \<or> is_paper_order_id oid then terminal_exit_among e o' seen oids
      else sx_bind (sv_total (get_order_status (se_broker e) (text_or oid))) (\<lambda>(status, payload, error).
        case (if text_truthy error then None else payload) of
          None \<Rightarrow> terminal_exit_among e o' (text_or oid # seen) oids
        | Some d \<Rightarrow>
            sx_bind (sx_lift (is_filled_exit_order (se_tx e) d status o')) (\<lambda>filled.
            sx_bind (if filled then sx_return True
              else sx_lift (is_dead_exit_order_with_fill (se_tx e) (se_iso_parse e) d status o')) (\<lambda>terminal.
            if terminal then sx_return (Some (text_or oid, status, d))
            else terminal_exit_among e o' (text_or oid # seen) oids))))"

definition find_terminal_exit_order_payload ::
  "sup_env \<Rightarrow> trade_session \<Rightarrow> (string \<times> string option \<times> params) option sup" where
  "find_terminal_exit_order_payload e t =
     terminal_exit_among e (tr_option_symbol t) [] [tr_exit_order_id t, tr_stop_order_id t, tr_target_order_id t]"

definition exit_fill_enriched_event :: "trade_session \<Rightarrow> string \<Rightarrow> string option \<Rightarrow> string \<Rightarrow> params \<Rightarrow> unit sup" where
  "exit_fill_enriched_event t oid status source payload = sv_emit ''exit_fill_enriched''
     [(''deployment_id'', PStr (tr_deployment_id t)), (''symbol'', PStr (tr_symbol t)), (''trade_id'', PStr (tr_trade_id t)),
      (''option_symbol'', v_text (tr_option_symbol t)), (''exit_order_id'', PStr oid), (''status'', v_text status),
      (''source'', PStr source), (''payload'', PDict payload)]"

definition mark_disappeared_trade_closed :: "sup_env \<Rightarrow> trade_session \<Rightarrow> unit sup" where
  "mark_disappeared_trade_closed e t =
     sx_bind (find_terminal_exit_order_payload e t) (\<lambda>found.
     let oid = map_option fst found; status = opt_bind found (fst \<circ> snd); payload = map_option (snd \<circ> snd) found in
     sx_bind (mark_trade_closed_with_exit_truth e (tr_trade_id t) (or_text oid (tr_exit_order_id t)) status payload) (\<lambda>_.
     sx_bind (clear_profile_exit_state_for_identity (Some (tr_trade_id t)) (tr_entry_order_id t) (tr_deployment_id t)
         (tr_symbol t) (tr_option_symbol t)) (\<lambda>_.
     case found of None \<Rightarrow> sx_return ()
     | Some (i, st, d) \<Rightarrow> exit_fill_enriched_event t i st ''disappeared_position_reconcile'' d)))"

definition enrich_closed_trade :: "sup_env \<Rightarrow> trade_session \<Rightarrow> unit sup" where
  "enrich_closed_trade e t =
     (if tr_status t \<noteq> ''closed'' \<or> tr_exit_price t \<noteq> None
         \<or> \<not> list_ex text_truthy [tr_exit_order_id t, tr_stop_order_id t, tr_target_order_id t] then sx_return ()
      else sx_bind (find_terminal_exit_order_payload e t) (\<lambda>found. case found of
          None \<Rightarrow> sx_return ()
        | Some (oid, status, d) \<Rightarrow>
            sx_bind (mark_trade_closed_with_exit_truth e (tr_trade_id t) (Some oid) status (Some d)) (\<lambda>_.
            exit_fill_enriched_event t oid status ''recent_closed_retry'' d)))"

definition enrich_recent_closed_exit_truth :: "sup_env \<Rightarrow> trade_session list \<Rightarrow> unit sup" where
  "enrich_recent_closed_exit_truth e ts = sx_each (enrich_closed_trade e) ts"

section \<open>Banked legs without a confirmed fill\<close>

definition PARTIAL_FILL_ENRICH_MAX_ATTEMPTS :: int where
  "PARTIAL_FILL_ENRICH_MAX_ATTEMPTS = 40"

definition leg_event :: "partial_leg \<Rightarrow> params" where
  "leg_event r = [(''deployment_id'', PStr (pl_deployment_id r)), (''symbol'', PStr (pl_symbol r)),
     (''trade_id'', PStr (pf_trade_id r)), (''option_symbol'', v_text (pl_option_symbol r)),
     (''order_id'', v_text (pf_order_id r)), (''closed_quantity'', PInt (pf_closed_quantity r))]"

text \<open>The events come before the mark, so that a crash in between repeats them.\<close>

definition abandon_partial_fill :: "partial_leg \<Rightarrow> string \<Rightarrow> unit sup" where
  "abandon_partial_fill r reason = (case pf_id r of
      None \<Rightarrow> sx_return ()
    | Some i \<Rightarrow>
        sx_bind (sv_emit ''runtime_issue'' ([(''category'', PStr ''partial_fill_abandoned'')] @ leg_event r @
          [(''error'', PStr reason), (''stage'', PStr ''partial_fill_enrichment_sweep'')])) (\<lambda>_.
        sx_bind (sv_emit ''partial_fill_enrich_abandoned'' (leg_event r @ [(''origin'', PStr (pf_origin r)),
          (''enrich_attempts'', PInt (pf_enrich_attempts r)), (''reason'', PStr reason)])) (\<lambda>_.
        sv_do (\<lambda>s. s\<lparr>sv_trades := sq_mark_partial_fill_abandoned i reason (sv_trades s)\<rparr>))))"

definition register_partial_fill_poll_failure :: "partial_leg \<Rightarrow> string \<Rightarrow> unit sup" where
  "register_partial_fill_poll_failure r error = (case pf_id r of
      None \<Rightarrow> sx_return ()
    | Some i \<Rightarrow>
        if pf_enrich_attempts r + 1 \<ge> PARTIAL_FILL_ENRICH_MAX_ATTEMPTS
        then abandon_partial_fill r (''max_poll_attempts:'' @ error)
        else sv_do (\<lambda>s. s\<lparr>sv_trades := sq_increment_partial_fill_enrich_attempts i (sv_trades s)\<rparr>))"

text \<open>The open intent of the order, where the exits are durable.\<close>

definition open_partial_intent :: "sup_env \<Rightarrow> string \<Rightarrow> string option \<Rightarrow> action_intent option sup" where
  "open_partial_intent e tid oid =
     sx_bind (sv_get sv_exits) (\<lambda>db. case db of
         None \<Rightarrow> sx_return None
       | Some x \<Rightarrow> sx_bind (sx_lift (get_open_action_intents (se_exit_codec e) tid x)) (\<lambda>intents.
           sx_return (find (\<lambda>i. ai_kind i = ''partial_scale'' \<and> ai_order_id i = oid) intents)))"

definition banked_state :: "exit_runtime_state \<Rightarrow> int \<Rightarrow> exit_runtime_state" where
  "banked_state d confirmed = d\<lparr>er_target_1_banked := True, er_banked_quantity := max (er_banked_quantity d) confirmed,
     er_runner_state := ''post_t1'', er_recovery_status := ''active'', er_degraded_reason := None,
     er_version := er_version d + 1\<rparr>"

definition commit_partial_intent ::
  "sup_env \<Rightarrow> string \<Rightarrow> string option \<Rightarrow> int \<Rightarrow> params \<Rightarrow> action_intent \<Rightarrow> exit_runtime_state \<Rightarrow> unit sup" where
  "commit_partial_intent e tid oid confirmed payload i d =
     (let advanced = banked_state d confirmed in
     sx_bind (sv_exit_write e (\<lambda>now. transition_runtime_state (se_exit_codec e) now advanced (er_version d))) (\<lambda>_.
     sx_bind (sv_exit_write e (\<lambda>now. resolve_action_intent (se_exit_codec e) now (ai_key i) ''confirmed'' (Some (PDict payload)))) (\<lambda>_.
     sx_bind (sv_do (\<lambda>s. s\<lparr>sv_durable := AList.update tid advanced (sv_durable s)\<rparr>)) (\<lambda>_.
     sx_bind (sv_get (\<lambda>s. map_of (sv_frozen s) tid)) (\<lambda>snapshot.
     sv_emit ''exit_action_committed'' [(''trade_id'', PStr tid),
       (''policy_schema_version'', v_text (opt_bind snapshot fp_schema_version)), (''policy_id'', v_text (opt_bind snapshot fp_id)),
       (''policy_hash'', PStr (er_policy_hash advanced)), (''action_kind'', PStr ''partial_scale''),
       (''idempotency_key'', PStr (ai_key i)), (''broker_order_id'', v_text oid), (''confirmed_quantity'', PInt confirmed),
       (''state_version'', PInt (er_version advanced))])))))"

definition sv_runtime_state :: "sup_env \<Rightarrow> string \<Rightarrow> exit_runtime_state option sup" where
  "sv_runtime_state e tid = sx_bind (sv_get sv_exits) (\<lambda>db. case db of
      None \<Rightarrow> sx_return None | Some x \<Rightarrow> sx_lift (get_runtime_state (se_exit_codec e) tid x))"

definition confirm_partial_action_intent ::
  "sup_env \<Rightarrow> string \<Rightarrow> string option \<Rightarrow> int \<Rightarrow> params \<Rightarrow> unit sup" where
  "confirm_partial_action_intent e tid oid confirmed payload =
     sx_bind (open_partial_intent e tid oid) (\<lambda>intent. case intent of
         None \<Rightarrow> sx_return ()
       | Some i \<Rightarrow> sx_bind (sv_runtime_state e tid) (\<lambda>durable. case durable of
             None \<Rightarrow> sx_return () | Some d \<Rightarrow> commit_partial_intent e tid oid confirmed payload i d))"

definition fail_partial_action_intent :: "sup_env \<Rightarrow> string \<Rightarrow> string option \<Rightarrow> params \<Rightarrow> unit sup" where
  "fail_partial_action_intent e tid oid payload =
     sx_bind (open_partial_intent e tid oid) (\<lambda>intent. case intent of
         None \<Rightarrow> sx_return ()
       | Some i \<Rightarrow> sv_exit_write e (\<lambda>now. resolve_action_intent (se_exit_codec e) now (ai_key i) ''failed'' (Some (PDict payload))))"

definition leg_has_fill :: "exit_fill_details \<Rightarrow> bool" where
  "leg_has_fill f \<longleftrightarrow> fd_price f \<noteq> None \<and> (case fd_quantity f of None \<Rightarrow> False | Some n \<Rightarrow> n \<noteq> 0)"

text \<open>Whether the reply is the fill of the leg.\<close>

definition leg_filled :: "sup_env \<Rightarrow> partial_leg \<Rightarrow> params \<Rightarrow> string option \<Rightarrow> exit_fill_details \<Rightarrow> bool result" where
  "leg_filled e r d status f =
     bind_result (is_filled_exit_order (se_tx e) d status (pl_option_symbol r)) (\<lambda>filled.
     if filled then Inr True
     else if order_status_word status (Some d) \<in> set PUBLIC_DEAD_ORDER_STATUSES \<and> leg_has_fill f
     then matches_exit_order_identity (se_tx e) d (pl_option_symbol r) else Inr False)"

definition record_leg_fill ::
  "sup_env \<Rightarrow> partial_leg \<Rightarrow> int \<Rightarrow> params \<Rightarrow> string option \<Rightarrow> exit_fill_details \<Rightarrow> unit sup" where
  "record_leg_fill e r i d status f =
     sx_bind (sv_do (\<lambda>s. s\<lparr>sv_trades := sq_enrich_partial_fill (se_codec e) i (fd_price f) (fd_quantity f) (fd_filled_at f)
         (fd_status f) (fd_type f) (fd_payload f) (sv_trades s)\<rparr>)) (\<lambda>_.
     sx_bind (sv_emit ''partial_fill_enriched'' (leg_event r @ [(''status'', v_text status), (''payload'', PDict d)])) (\<lambda>_.
     confirm_partial_action_intent e (pf_trade_id r) (pf_order_id r)
       (case fd_quantity f of None \<Rightarrow> pf_closed_quantity r | Some n \<Rightarrow> if n = 0 then pf_closed_quantity r else n) d))"

definition resolve_leg_status ::
  "sup_env \<Rightarrow> partial_leg \<Rightarrow> int \<Rightarrow> params \<Rightarrow> string option \<Rightarrow> unit sup" where
  "resolve_leg_status e r i d status =
     (let normalized = order_status_word status (Some d) in
     sx_bind (sx_lift (exit_fill_details (se_iso_parse e) (Some d) status)) (\<lambda>f.
     sx_bind (sx_lift (leg_filled e r d status f)) (\<lambda>filled.
     if filled then record_leg_fill e r i d status f
     else if normalized \<in> set PUBLIC_DEAD_ORDER_STATUSES
     then sx_bind (abandon_partial_fill r (''terminal_status:'' @ normalized)) (\<lambda>_.
          fail_partial_action_intent e (pf_trade_id r) (pf_order_id r) d)
     else register_partial_fill_poll_failure r
            (''non_terminal_status:'' @ (if normalized = [] then ''unknown'' else normalized)))))"

definition enrich_partial_fill_leg :: "sup_env \<Rightarrow> partial_leg \<Rightarrow> unit sup" where
  "enrich_partial_fill_leg e r = (case (pf_id r, pf_order_id r) of
      (Some i, Some oid) \<Rightarrow>
        if is_paper_order_id (Some oid) then sx_return ()
        else sx_bind (sv_status_within e oid ''partial_fill_status_readback_timeout'') (\<lambda>(status, payload, error).
          case (if text_truthy error then None else payload) of
            None \<Rightarrow> register_partial_fill_poll_failure r
              (if text_truthy error then text_or error else ''missing_status_payload'')
          | Some d \<Rightarrow> resolve_leg_status e r i d status)
    | _ \<Rightarrow> sx_return ())"

definition enrich_pending_partial_fills :: "sup_env \<Rightarrow> unit sup" where
  "enrich_pending_partial_fills e =
     sx_bind (sv_read_trades (sq_get_unconfirmed_partial_fills (se_codec e) 200)) (sx_each (enrich_partial_fill_leg e))"

section \<open>An entry whose release was left open\<close>

definition entry_terminal :: "trade_session \<Rightarrow> order_status \<Rightarrow> entry_cancel_result" where
  "entry_terminal t st = (case st of (status, payload, error) \<Rightarrow> \<lparr>cx_cancel_ok = False, cx_cancel_error = None,
     cx_order_quantity = tr_quantity t, cx_status = status, cx_payload = payload, cx_status_error = error\<rparr>)"

definition payload_or_empty :: "params option \<Rightarrow> pyval" where
  "payload_or_empty payload = PDict (case payload of None \<Rightarrow> [] | Some d \<Rightarrow> d)"

definition entry_reconcile_event :: "trade_session \<Rightarrow> string \<Rightarrow> params" where
  "entry_reconcile_event t normalized = [(''deployment_id'', PStr (tr_deployment_id t)), (''symbol'', PStr (tr_symbol t)),
     (''trade_id'', PStr (tr_trade_id t)), (''entry_order_id'', v_text (tr_entry_order_id t)), (''status'', PStr normalized)]"

definition entry_fill_price :: "trade_session \<Rightarrow> params option \<Rightarrow> real" where
  "entry_fill_price t payload = filled_entry_price payload (case tr_entry_price t of None \<Rightarrow> 0 | Some x \<Rightarrow> x)"

definition recovered_position :: "trade_session \<Rightarrow> tracked_position option \<Rightarrow> int \<Rightarrow> real \<Rightarrow> tracked_position" where
  "recovered_position t active quantity price = \<lparr>tp_symbol = tr_symbol t, tp_deployment_id = tr_deployment_id t,
     tp_trade_id = Some (tr_trade_id t), tp_option_symbol = tr_option_symbol t, tp_quantity = quantity,
     tp_entry_price = Some price, tp_underlying_entry_price = tr_underlying_entry_price t,
     tp_entry_timestamp = tr_entry_timestamp t, tp_source = ''live_open'', tp_order_id = tr_entry_order_id t,
     tp_stop_order_id = opt_bind active tp_stop_order_id, tp_stop_price = opt_bind active tp_stop_price,
     tp_target_order_id = opt_bind active tp_target_order_id, tp_target_price = opt_bind active tp_target_price,
     tp_target_activation_price = None, tp_target_activation_high_price = None, tp_target_activated_at = None,
     tp_exit_order_id = None, tp_exit_limit_price = None, tp_exit_submitted_at = None, tp_exit_mode = None,
     tp_exit_reprice_count = 0\<rparr>"

text \<open>The filled entry becomes a position of the broker's quantity and price.\<close>

definition recover_filled_entry ::
  "sup_env \<Rightarrow> trade_session \<Rightarrow> tracked_position option \<Rightarrow> string \<Rightarrow> int \<Rightarrow> real \<Rightarrow> params option \<Rightarrow> unit sup" where
  "recover_filled_entry e t active normalized quantity price payload =
     sx_bind (sv_do (\<lambda>s. s\<lparr>sv_tracker := open_position (recovered_position t active quantity price) (sv_tracker s)\<rparr>)) (\<lambda>_.
     sx_bind (sv_lifecycle_step (mark_open (tr_symbol t, tr_deployment_id t) (tr_option_symbol t) (tr_entry_order_id t) False)) (\<lambda>tr.
     sx_bind (emit_lifecycle_transition e tr ''entry_reconcile_terminal_fill_recovered'') (\<lambda>_.
     sx_bind (sv_emit ''entry_reconcile_terminal_fill_recovered'' (entry_reconcile_event t normalized @
       [(''filled_quantity'', PInt quantity), (''original_quantity'', PInt (tr_quantity t)), (''entry_price'', PFloat (Fin price)),
        (''payload'', payload_or_empty payload)])) (\<lambda>_.
     sv_reserve [Commit_Risk (tr_trade_id t)]))))"

text \<open>The entry is dead without a fill and nothing is held: its reservations are released, the trade closes.\<close>

definition close_dead_entry :: "sup_env \<Rightarrow> trade_session \<Rightarrow> string \<Rightarrow> params option \<Rightarrow> unit sup" where
  "close_dead_entry e t normalized payload =
     sx_bind (sx_bind (sv_now e) (\<lambda>now. sv_do (\<lambda>s. s\<lparr>sv_trades := sq_mark_closed (se_codec e) (iso_text (se_codec e) now)
        (tr_trade_id t) \<lparr>ef_exit_order_id = tr_exit_order_id t, ef_exit_price = None, ef_exit_filled_quantity = None,
          ef_exit_filled_at = None, ef_exit_order_status = None, ef_exit_order_type = None, ef_exit_broker_payload = None\<rparr>
        None (sv_trades s)\<rparr>))) (\<lambda>_.
     sx_bind (clear_profile_exit_state_for_identity (Some (tr_trade_id t)) (tr_entry_order_id t) (tr_deployment_id t)
         (tr_symbol t) (tr_option_symbol t)) (\<lambda>_.
     sx_bind (sv_lifecycle_step (mark_closed (tr_symbol t, tr_deployment_id t))) (\<lambda>tr.
     sx_bind (emit_lifecycle_transition e tr ''entry_reconcile_released'') (\<lambda>_.
     sv_emit ''entry_reconcile_released'' (entry_reconcile_event t normalized @ [(''payload'', payload_or_empty payload)])))))"

definition release_dead_entry :: "sup_env \<Rightarrow> trade_session \<Rightarrow> string \<Rightarrow> params option \<Rightarrow> unit sup" where
  "release_dead_entry e t normalized payload =
     sx_bind (release_entry_reservations (tr_trade_id t)) (\<lambda>_. close_dead_entry e t normalized payload)"

datatype entry_outcome = Entry_Pending | Entry_Recovered | Entry_Released

definition resolve_unfilled_entry ::
  "sup_env \<Rightarrow> trade_session \<Rightarrow> tracked_position option \<Rightarrow> entry_cancel_result \<Rightarrow> entry_outcome sup" where
  "resolve_unfilled_entry e t active r =
     (let normalized = cx_normalized_status r; tail = [(''payload'', payload_or_empty (cx_payload r))] in
     if normalized \<notin> set PUBLIC_DEAD_ORDER_STATUSES then sx_return Entry_Pending
     else sx_bind (sx_lift (cx_safe_to_replace_or_close r)) (\<lambda>safe.
       if \<not> safe then
         sx_bind (sx_lift (cx_reported_filled_quantity r)) (\<lambda>reported.
         sx_bind (sx_lift (cx_fill_quantity_ambiguous r)) (\<lambda>ambiguous.
         sx_bind (sv_emit ''entry_reconcile_terminal_fill_unresolved'' (entry_reconcile_event t normalized @
           [(''filled_quantity'', v_int reported), (''fill_quantity_ambiguous'', PBool ambiguous)] @ tail)) (\<lambda>_.
         sx_return Entry_Pending)))
       else case active of
         Some p \<Rightarrow> sx_bind (sv_emit ''entry_reconcile_position_order_conflict'' (entry_reconcile_event t normalized @
             [(''position_quantity'', PInt (tp_quantity p))] @ tail)) (\<lambda>_. sx_return Entry_Pending)
       | None \<Rightarrow> sx_bind (release_dead_entry e t normalized (cx_payload r)) (\<lambda>_. sx_return Entry_Released)))"

definition resolve_entry ::
  "sup_env \<Rightarrow> trade_session \<Rightarrow> tracked_position option \<Rightarrow> entry_cancel_result \<Rightarrow> entry_outcome sup" where
  "resolve_entry e t active r =
     sx_bind (sx_lift (cx_confirmed_filled_quantity r)) (\<lambda>confirmed. case confirmed of
         None \<Rightarrow> resolve_unfilled_entry e t active r
       | Some n \<Rightarrow>
           let price = entry_fill_price t (cx_payload r) in
           if price > 0
           then sx_bind (recover_filled_entry e t active (cx_normalized_status r) (if n = 0 then tr_quantity t else n) price
                  (cx_payload r)) (\<lambda>_. sx_return Entry_Recovered)
           else resolve_unfilled_entry e t active r)"

definition reconcile_pending_entry_release ::
  "sup_env \<Rightarrow> trade_session \<Rightarrow> tracked_position option \<Rightarrow> entry_outcome sup" where
  "reconcile_pending_entry_release e t active = (case tr_entry_order_id t of
      None \<Rightarrow> sx_return Entry_Pending
    | Some oid \<Rightarrow> sx_bind (sv_total (get_order_status (se_broker e) oid)) (\<lambda>st.
        resolve_entry e t active (entry_terminal t st)))"

section \<open>The synchronisation\<close>

definition sv_positions :: "tracked_position list sup" where
  "sv_positions = sv_get (\<lambda>s. pt_positions (sv_tracker s))"

definition last_by :: "('a \<Rightarrow> string option) \<Rightarrow> 'a list \<Rightarrow> string \<Rightarrow> 'a option" where
  "last_by key xs k = find (\<lambda>x. key x = Some k) (rev xs)"

definition recover_paper_trade :: "trade_session \<Rightarrow> unit sup" where
  "recover_paper_trade t = sv_do (\<lambda>s. s\<lparr>sv_tracker := open_position
     \<lparr>tp_symbol = tr_symbol t, tp_deployment_id = tr_deployment_id t, tp_trade_id = Some (tr_trade_id t),
      tp_option_symbol = tr_option_symbol t, tp_quantity = tr_quantity t, tp_entry_price = tr_entry_price t,
      tp_underlying_entry_price = tr_underlying_entry_price t, tp_entry_timestamp = tr_entry_timestamp t,
      tp_source = paper_trade_source (trade_record.truncate t), tp_order_id = tr_entry_order_id t,
      tp_stop_order_id = tr_stop_order_id t, tp_stop_price = tr_stop_price t,
      tp_target_order_id = tr_target_order_id t, tp_target_price = tr_target_price t,
      tp_target_activation_price = None, tp_target_activation_high_price = None, tp_target_activated_at = None,
      tp_exit_order_id = tr_exit_order_id t, tp_exit_limit_price = tr_exit_limit_price t,
      tp_exit_submitted_at = tr_exit_submitted_at t, tp_exit_mode = tr_exit_mode t, tp_exit_reprice_count = 0\<rparr>
     (sv_tracker s)\<rparr>)"

definition paper_recovered_event :: "sup_env \<Rightarrow> trade_session \<Rightarrow> params" where
  "paper_recovered_event e t = [(''deployment_id'', PStr (tr_deployment_id t)), (''symbol'', PStr (tr_symbol t)),
     (''trade_id'', PStr (tr_trade_id t)), (''option_symbol'', v_text (tr_option_symbol t)),
     (''quantity'', PInt (tr_quantity t)), (''entry_price'', v_real (tr_entry_price t)),
     (''underlying_entry_price'', v_real (tr_underlying_entry_price t)),
     (''entry_timestamp'', v_text (map_option (iso_text (se_codec e)) (tr_entry_timestamp t))),
     (''source'', PStr (paper_trade_source (trade_record.truncate t))), (''reason'', PStr ''sync_lifecycle_rehydrate'')]"

text \<open>What the pass over the open trades has found: the trades with a position, the outcomes of pending entries.\<close>

record sync_progress =
  sp_active :: "string list"
  sp_outcomes :: "(string \<times> entry_outcome) list"

definition sync_pending_entry ::
  "sup_env \<Rightarrow> tracked_position list \<Rightarrow> trade_session \<Rightarrow> sync_progress \<Rightarrow> sync_progress sup" where
  "sync_pending_entry e ps t g =
     sx_bind (reconcile_pending_entry_release e t (last_by tp_trade_id ps (tr_trade_id t))) (\<lambda>outcome.
     sx_return (g\<lparr>sp_outcomes := AList.update (tr_trade_id t) outcome (sp_outcomes g),
       sp_active := (if outcome = Entry_Recovered then tr_trade_id t # sp_active g else sp_active g)\<rparr>))"

definition sync_open_trade ::
  "sup_env \<Rightarrow> tracked_position list \<Rightarrow> trade_session \<Rightarrow> sync_progress \<Rightarrow> sync_progress sup" where
  "sync_open_trade e ps t g =
     (if tr_status t = ''pending_entry'' then sx_return g
      else if tr_status t = ''pending_entry_reconcile'' then sync_pending_entry e ps t g
      else if tr_trade_id t \<in> set (sp_active g) then sx_return g
      else if is_paper_trade_record (trade_record.truncate t)
      then sx_bind (recover_paper_trade t) (\<lambda>_.
           sx_bind (sv_emit ''paper_position_recovered'' (paper_recovered_event e t)) (\<lambda>_.
           sx_return (g\<lparr>sp_active := tr_trade_id t # sp_active g\<rparr>)))
      else sx_bind (mark_disappeared_trade_closed e t) (\<lambda>_. sx_return g))"

fun sync_open_trades ::
  "sup_env \<Rightarrow> tracked_position list \<Rightarrow> trade_session list \<Rightarrow> sync_progress \<Rightarrow> sync_progress sup" where
  "sync_open_trades e ps [] g = sx_return g"
| "sync_open_trades e ps (t # ts) g = sx_bind (sync_open_trade e ps t g) (sync_open_trades e ps ts)"

definition orphan_event :: "sup_env \<Rightarrow> tracked_position \<Rightarrow> params" where
  "orphan_event e p = [(''deployment_id'', PStr (tp_deployment_id p)), (''symbol'', PStr (tp_symbol p)),
     (''trade_id'', v_text (tp_trade_id p)), (''option_symbol'', v_text (tp_option_symbol p)),
     (''quantity'', PInt (tp_quantity p)), (''entry_price'', v_real (tp_entry_price p)),
     (''entry_timestamp'', v_text (map_option (iso_text (se_codec e)) (tp_entry_timestamp p)))]"

text \<open>The record of a position; while its entry is unresolved the hold and the ordered quantity stay.\<close>

definition synced_session :: "trade_session option \<Rightarrow> entry_outcome option \<Rightarrow> tracked_position \<Rightarrow> string \<Rightarrow> trade_session" where
  "synced_session previous outcome p tid = (case previous of
      Some t \<Rightarrow> if tr_status t = ''pending_entry_reconcile'' \<and> outcome = Some Entry_Pending
                then (position_session p tid ''pending_entry_reconcile'' None)\<lparr>tr_quantity := tr_quantity t\<rparr>
                else position_session p tid (tracked_trade_status p) None
    | None \<Rightarrow> position_session p tid (tracked_trade_status p) None)"

definition sync_one_position ::
  "sup_env \<Rightarrow> trade_session list \<Rightarrow> trade_session list \<Rightarrow> sync_progress \<Rightarrow> tracked_position \<Rightarrow> unit sup" where
  "sync_one_position e recent opens g p = (case (tp_trade_id p, tp_option_symbol p) of
      (Some tid, Some _) \<Rightarrow>
        sx_bind (if tp_source p = ''broker_recovered'' \<and> tid \<notin> set (map tr_trade_id recent)
          then sv_emit ''orphan_position_recovered'' (orphan_event e p) else sx_return ()) (\<lambda>_.
        let previous = last_by (\<lambda>t. Some (tr_trade_id t)) opens tid; outcome = map_of (sp_outcomes g) tid in
        sx_bind (upsert_trade_record e (synced_session previous outcome p tid)) (\<lambda>_.
        if (case previous of None \<Rightarrow> False | Some t \<Rightarrow> tr_status t = ''pending_entry_reconcile'') \<and> outcome = Some Entry_Recovered
        then sv_emit ''entry_reconcile_recovered'' [(''deployment_id'', PStr (tp_deployment_id p)),
               (''symbol'', PStr (tp_symbol p)), (''trade_id'', PStr tid), (''option_symbol'', v_text (tp_option_symbol p)),
               (''entry_order_id'', v_text (tp_order_id p))]
        else sx_return ()))
    | _ \<Rightarrow> sx_return ())"

definition sync_cash_guard :: "sup_env \<Rightarrow> unit sup" where
  "sync_cash_guard e = sx_bind sv_positions (\<lambda>ps. sx_bind (sv_read_trades (sq_get_open_trades (se_codec e))) (\<lambda>opens.
     sv_reserve [Sync_Cash ps opens]))"

definition sync_positions_back :: "sup_env \<Rightarrow> trade_session list \<Rightarrow> trade_session list \<Rightarrow> sync_progress \<Rightarrow> unit sup" where
  "sync_positions_back e recent opens g =
     sx_bind (enrich_recent_closed_exit_truth e recent) (\<lambda>_.
     sx_bind (enrich_pending_partial_fills e) (\<lambda>_.
     sx_bind sv_positions (\<lambda>ps.
     sx_bind (sx_each (sync_one_position e recent opens g) ps) (\<lambda>_. sync_cash_guard e))))"

definition sv_sync_slots :: "lifecycle_transition list sup" where
  "sv_sync_slots = (\<lambda>s. let (ts, l) = sync_from_positions (pt_positions (sv_tracker s)) (sv_lifecycle s)
     in (Inr ts, s\<lparr>sv_lifecycle := l\<rparr>))"

definition sync_lifecycle :: "sup_env \<Rightarrow> unit sup" where
  "sync_lifecycle e =
     sx_bind sv_sync_slots (\<lambda>transitions.
     sx_bind (sx_each (\<lambda>t. emit_lifecycle_transition e (Some t) ''broker_reconciliation_sync'') transitions) (\<lambda>_.
     sx_bind (sv_read_trades (sq_get_recent_trades (se_codec e) 200)) (\<lambda>recent.
     sx_bind (sv_read_trades (sq_get_open_trades (se_codec e))) (\<lambda>opens.
     sx_bind sv_positions (\<lambda>ps.
     sx_bind (sync_open_trades e ps opens \<lparr>sp_active = List.map_filter tp_trade_id ps, sp_outcomes = []\<rparr>) (\<lambda>g.
     sync_positions_back e recent opens g))))))"

end
