(* ===== verification/Step_Order.thy ===== *)
theory Step_Order
  imports Exit_Safety Sync_Lifecycle
begin

text \<open>
  What every step of the supervisor keeps. \<open>step_order\<close> is a preorder on states, respected by
  what is composed of steps that respect it. \<open>supervisor_order\<close> adds what the elementary steps of
  the supervisor owe it: changes outside the orders and the books, status reads of the broker,
  writes of the trade store, of the banked legs and of the durable exit state. The handlers of a
  synchronisation respect every such order; \<open>trading_order\<close>, which does not look at the orders, is
  respected by the handlers of pending exits too.
\<close>

named_theorems keeps \<open>operations that respect an order on the states\<close>

definition steps_within :: "('s \<Rightarrow> 's \<Rightarrow> bool) \<Rightarrow> ('s, 'a) sx \<Rightarrow> bool" where
  "steps_within R m \<longleftrightarrow> (\<forall>s. R s (snd (m s)))"

lemma steps_within_run: "steps_within R m \<Longrightarrow> m s = (r, s') \<Longrightarrow> R s s'"
  unfolding steps_within_def by (metis snd_conv)

locale step_order =
  fixes R :: "'s \<Rightarrow> 's \<Rightarrow> bool"
  assumes reflexive: "R s s"
    and transitive: "R s t \<Longrightarrow> R t u \<Longrightarrow> R s u"
begin

lemma within_pure:
  assumes "\<And>s. snd (m s) = s"
  shows "steps_within R m"
  using assms reflexive by (simp add: steps_within_def)

lemma within_return [keeps]: "steps_within R (sx_return x)"
  by (rule within_pure) (simp add: sx_return_def)

lemma within_raise [keeps]: "steps_within R (sx_raise x)"
  by (rule within_pure) (simp add: sx_raise_def)

lemma within_lift [keeps]: "steps_within R (sx_lift r)"
  by (cases r) (simp_all add: sx_lift_def within_return within_raise)

lemma within_bind [keeps]:
  assumes "steps_within R m" "\<And>x. steps_within R (f x)"
  shows "steps_within R (sx_bind m f)"
  unfolding steps_within_def
proof
  fix s
  obtain r s1 where m: "m s = (r, s1)" by fastforce
  have "R s s1" using steps_within_run [OF assms(1) m] .
  moreover have "R s1 (snd (f x s1))" for x using assms(2) by (simp add: steps_within_def)
  ultimately show "R s (snd (sx_bind m f s))" using m transitive by (auto simp: sx_bind_def split: sum.split)
qed

lemma within_catch [keeps]:
  assumes "steps_within R m" "\<And>x. steps_within R (h x)"
  shows "steps_within R (sx_catch m h)"
  unfolding steps_within_def
proof
  fix s
  obtain r s1 where m: "m s = (r, s1)" by fastforce
  have "R s s1" using steps_within_run [OF assms(1) m] .
  moreover have "R s1 (snd (h x s1))" for x using assms(2) by (simp add: steps_within_def)
  ultimately show "R s (snd (sx_catch m h s))" using m transitive by (auto simp: sx_catch_def split: sum.split)
qed

lemma within_each [keeps]:
  assumes "\<And>x. steps_within R (f x)"
  shows "steps_within R (sx_each f xs)"
  by (induction xs) (auto intro: within_return within_bind assms)

end

section \<open>Orders on the supervisor's states\<close>

definition trade_write :: "codec \<Rightarrow> trade_db \<Rightarrow> trade_db \<Rightarrow> bool" where
  "trade_write c db db' \<longleftrightarrow> (\<exists>x. db' = snd (store_step c x ([], db)))"

lemma trade_write_closed: "trade_write c db (sq_mark_closed c now tid f rule db)"
  unfolding trade_write_def by (rule exI [of _ "store_op.Close now tid f rule"]) (simp add: store_step_simps)

locale supervisor_order = step_order R for R :: "sup_state \<Rightarrow> sup_state \<Rightarrow> bool" +
  assumes frame: "sv_orders s' = sv_orders s \<Longrightarrow> sv_trades s' = sv_trades s \<Longrightarrow> sv_exits s' = sv_exits s \<Longrightarrow> R s s'"
    and status_asked: "om_log o' = om_log (sv_orders s) @ [Get_Order oid] \<Longrightarrow> R s (s\<lparr>sv_orders := o'\<rparr>)"
    and trade_written: "trade_write c (sv_trades s) db \<Longrightarrow> R s (s\<lparr>sv_trades := db\<rparr>)"
    and leg_written: "db_trades db = db_trades (sv_trades s) \<Longrightarrow> R s (s\<lparr>sv_trades := db\<rparr>)"
    and exit_written: "sv_exits s = Some xdb \<Longrightarrow> exit_step xc x xdb = Inr xdb' \<Longrightarrow> R s (s\<lparr>sv_exits := Some xdb'\<rparr>)"
begin

lemma within_frame:
  assumes "\<And>s. sv_orders (snd (m s)) = sv_orders s" "\<And>s. sv_trades (snd (m s)) = sv_trades s"
    and "\<And>s. sv_exits (snd (m s)) = sv_exits s"
  shows "steps_within R m"
  using assms frame by (simp add: steps_within_def)

lemma within_do:
  "(\<And>s. sv_orders (f s) = sv_orders s \<and> sv_trades (f s) = sv_trades s \<and> sv_exits (f s) = sv_exits s) \<Longrightarrow>
   steps_within R (sv_do f)"
  by (rule within_frame) (simp_all add: sv_do_def)

lemma within_get [keeps]: "steps_within R (sv_get f)"
  by (rule within_frame) (simp_all add: sv_get_def)

lemma within_now [keeps]: "steps_within R (sv_now e)"
  by (rule within_frame) (simp_all add: sv_now_def)

lemma within_uuid [keeps]: "steps_within R (sv_uuid e)"
  by (rule within_frame) (simp_all add: sv_uuid_def)

lemma within_emit [keeps]: "steps_within R (sv_emit n ps)"
  unfolding sv_emit_def by (rule within_do) simp

lemma within_lifecycle [keeps]: "steps_within R (sv_lifecycle_step f)"
  by (rule within_frame) (simp_all add: sv_lifecycle_step_def split: prod.split)

lemma within_status [keeps]: "steps_within R (sv_total (get_order_status br oid))"
  unfolding steps_within_def
proof
  fix s :: sup_state
  obtain x o' where run: "get_order_status br oid (sv_orders s) = (x, o')" by fastforce
  with status_log [of br oid "sv_orders s"] have "om_log o' = om_log (sv_orders s) @ [Get_Order oid]" by simp
  then show "R s (snd (sv_total (get_order_status br oid) s))" using run status_asked by (simp add: sv_total_def)
qed

lemma within_late [keeps]: "steps_within R (sv_total (\<lambda>o'. (x, o'\<lparr>om_log := om_log o' @ [Get_Order oid]\<rparr>)))"
  using status_asked by (simp add: steps_within_def sv_total_def)

text \<open>Writes of the trade store, with or without changes outside the books.\<close>

lemma within_trade_write:
  assumes "\<And>s. sv_orders (f s) = sv_orders s" "\<And>s. sv_exits (f s) = sv_exits s"
    and "\<And>s. trade_write c (sv_trades s) (sv_trades (f s))"
  shows "steps_within R (sv_do f)"
  unfolding steps_within_def
proof
  fix s
  have "R s (s\<lparr>sv_trades := sv_trades (f s)\<rparr>)" using trade_written [OF assms(3)] .
  moreover have "R (s\<lparr>sv_trades := sv_trades (f s)\<rparr>) (f s)" using assms(1,2) by (intro frame) simp_all
  ultimately show "R s (snd (sv_do f s))" using transitive by (simp add: sv_do_def)
qed

lemma within_leg_write:
  assumes "\<And>s. db_trades (f s) = db_trades (sv_trades s)"
  shows "steps_within R (sv_do (\<lambda>s. s\<lparr>sv_trades := f s\<rparr>))"
  using assms leg_written by (simp add: steps_within_def sv_do_def)

lemma within_exit_write:
  assumes "\<And>now db. \<exists>x. f now db = exit_step (se_exit_codec e) x db"
  shows "steps_within R (sv_exit_write e f)"
proof -
  have "steps_within R (\<lambda>s. case sv_exits s of None \<Rightarrow> (Inr (), s)
      | Some db \<Rightarrow> (case f now db of Inl x \<Rightarrow> (Inl (Py_Error x), s) | Inr db' \<Rightarrow> (Inr (), s\<lparr>sv_exits := Some db'\<rparr>)))" for now
    unfolding steps_within_def using assms exit_written reflexive
    by (auto split: option.split sum.split) metis
  then show ?thesis unfolding sv_exit_write_def by (intro within_bind within_now)
qed

lemma within_transition [keeps]: "steps_within R (emit_lifecycle_transition e t reason)"
  unfolding emit_lifecycle_transition_def by (cases t) (auto intro!: within_return within_bind within_now within_emit)

lemma within_upsert [keeps]: "steps_within R (upsert_trade_record e r)"
  unfolding upsert_trade_record_def
proof (intro within_bind within_now within_trade_write [where c = "se_codec e"])
  fix now s
  show "trade_write (se_codec e) (sv_trades s) (sv_trades (s\<lparr>sv_trades := sq_upsert_trade (se_codec e) (iso_text (se_codec e) now)
      (decorate_record e r) (sv_trades s)\<rparr>))"
    unfolding trade_write_def
    by (rule exI [of _ "Upsert (iso_text (se_codec e) now) (decorate_record e r)"]) (simp add: store_step_simps)
qed simp_all

lemma within_close_trade [keeps]: "steps_within R (mark_trade_closed_with_exit_truth e tid oid st pl)"
  unfolding mark_trade_closed_with_exit_truth_def
  by (intro within_bind within_lift within_now within_trade_write [where c = "se_codec e"]) (simp_all add: trade_write_closed)

end

end
