(* ===== verification/Protection.thy ===== *)
theory Protection
  imports Step_Order
begin

text \<open>
  The broker-side protection of an open position (\<open>src/bhiksha/execution/supervisor.py\<close>):
  the search for a working close order of the contract, the arming of a stop and of a target,
  and the restoration of a missing protection.
\<close>

section \<open>The stop's percentage and price\<close>

definition stop_config_of :: "deployment \<Rightarrow> stop_config" where
  "stop_config_of d = \<lparr>sc_exit_stop_loss_pct = Some (xs_stop_loss_pct (dep_exit d)),
     sc_risk_stop_loss_pct = Some (dep_risk_stop_loss_pct d), sc_profile_exit_id = xs_profile_exit_id (dep_exit d),
     sc_initial_stop_pct = xs_initial_stop_pct (dep_exit d),
     sc_premium_disaster_stop_pct = xs_premium_disaster_stop_pct (dep_exit d)\<rparr>"

definition recovery_stop_loss_pct :: "deployment \<Rightarrow> real option \<times> string" where
  "recovery_stop_loss_pct d = resolve_planned_stop_loss_pct (stop_config_of d)"

text \<open>\<open>_max_valid_sell_stop_price\<close> of a bid that need not be finite: \<open>math.floor\<close> raises.\<close>

fun max_valid_stop_of :: "pyfloat \<Rightarrow> real option result" where
  "max_valid_stop_of (Fin bid) = Inr (max_valid_sell_stop_price bid)"
| "max_valid_stop_of PosInf = Inl OverflowError"
| "max_valid_stop_of NegInf = Inr None"
| "max_valid_stop_of NaN = Inl ValueError"

text \<open>The stop price, the bid it was checked against, and why it was changed.\<close>

definition sanitize_recovered_stop_price ::
  "sup_env \<Rightarrow> string \<Rightarrow> real \<Rightarrow> (real option \<times> pyfloat option \<times> string option) sup" where
  "sanitize_recovered_stop_price e o' requested_price =
     sx_bind (sv_quote e o') (\<lambda>q. case pq_bid q of
         None \<Rightarrow> sx_return (Some (round_price requested_price), None, None)
       | Some bid \<Rightarrow>
           let requested = round_price requested_price in
           sx_bind (sx_lift (max_valid_stop_of bid)) (\<lambda>valid. case valid of
               None \<Rightarrow> sx_return (None, Some bid, Some ''no_valid_bid_buffer'')
             | Some v \<Rightarrow>
                 if f_lt (Fin requested) bid then sx_return (Some requested, Some bid, None)
                 else sx_return (Some (min requested v), Some bid, Some ''below_bid_buffer'')))"

section \<open>A working close order\<close>

record active_close =
  fc_order_id :: string
  fc_stop :: bool
  fc_price :: "real option"
  fc_remaining :: "int option"

text \<open>The order as protection of the contract, if it is a working sell-to-close stop or limit.\<close>

definition close_order_of :: "(pyval \<Rightarrow> string) \<Rightarrow> string \<Rightarrow> params \<Rightarrow> active_close option result" where
  "close_order_of tx wanted order =
     (let instrument_value = dict_get order ''instrument'' in
     bind_result (if py_truthy instrument_value then dict_val instrument_value else Inr []) (\<lambda>instrument.
     let word = (\<lambda>k. py_upper (py_str tx (dict_get_default order k (PStr []))));
         oid = dict_get order ''orderId'';
         price = (if word ''type'' = ''STOP'' then dict_get order ''stopPrice'' else dict_get order ''limitPrice'') in
     if dict_get instrument ''type'' \<noteq> PStr ''OPTION''
        \<or> normalize_option_symbol (py_str tx (dict_get_default instrument ''symbol'' (PStr []))) \<noteq> wanted
        \<or> word ''side'' \<noteq> ''SELL'' \<or> word ''openCloseIndicator'' \<noteq> ''CLOSE''
        \<or> word ''status'' \<notin> set PUBLIC_WORKING_ORDER_STATUSES
        \<or> word ''type'' \<notin> {''STOP'', ''LIMIT''} \<or> \<not> py_truthy oid then Inr None
     else bind_result (sv_remaining_order_quantity order) (\<lambda>n.
          Inr (Some \<lparr>fc_order_id = py_str tx oid, fc_stop = (word ''type'' = ''STOP''), fc_price = sv_maybe_float price,
            fc_remaining = n\<rparr>))))"

fun first_close_order :: "(pyval \<Rightarrow> string) \<Rightarrow> string \<Rightarrow> pyval list \<Rightarrow> active_close option result" where
  "first_close_order tx wanted [] = Inr None"
| "first_close_order tx wanted (v # vs) =
     bind_result (dict_val v) (\<lambda>order. bind_result (close_order_of tx wanted order) (\<lambda>x. case x of
         Some c \<Rightarrow> Inr (Some c) | None \<Rightarrow> first_close_order tx wanted vs))"

text \<open>\<open>portfolio.get("orders", []) or []\<close>, iterated over.\<close>

definition order_values :: "params \<Rightarrow> pyval list result" where
  "order_values portfolio = (let v = dict_get portfolio ''orders'' in
     if \<not> py_truthy v then Inr [] else case v of PList xs \<Rightarrow> Inr xs | _ \<Rightarrow> Inl TypeError)"

definition sv_portfolio :: "sup_env \<Rightarrow> params sup" where
  "sv_portfolio e = sv_zoom (om_call (se_broker e) Get_Portfolio)"

definition find_active_close_order :: "sup_env \<Rightarrow> string option \<Rightarrow> active_close option sup" where
  "find_active_close_order e o' = (case o' of
      None \<Rightarrow> sx_return None
    | Some contract \<Rightarrow>
        sx_bind (sx_catch (sx_bind (sv_portfolio e) (\<lambda>d. sx_return (Some d))) (\<lambda>_. sx_return None)) (\<lambda>portfolio.
        case portfolio of None \<Rightarrow> sx_return None
        | Some d \<Rightarrow> sx_lift (bind_result (order_values d)
            (first_close_order (se_tx e) (normalize_option_symbol contract)))))"

section \<open>Arming a stop and a target\<close>

definition sv_place_stop :: "sup_env \<Rightarrow> string \<Rightarrow> real \<Rightarrow> int \<Rightarrow> string option \<Rightarrow> order_result sup" where
  "sv_place_stop e o' price quantity oid =
     sx_bind (sv_uuid e) (\<lambda>new_id. sx_bind (sv_uuid e) (\<lambda>fresh.
     sv_zoom (place_stop_loss_order (se_broker e) (se_tx e) new_id o' price quantity
       (if text_truthy oid then text_or oid else fresh))))"

definition sv_place_target :: "sup_env \<Rightarrow> string \<Rightarrow> real \<Rightarrow> int \<Rightarrow> order_result sup" where
  "sv_place_target e o' price quantity =
     sx_bind (sv_uuid e) (\<lambda>new_id. sx_bind (sv_uuid e) (\<lambda>fresh.
     sv_zoom (place_target_order (se_broker e) (se_tx e) new_id o' price quantity fresh)))"

text \<open>The id and the error of an order, or of the stand-in of a dry run.\<close>

type_synonym placed_id = "string option \<times> string option"

definition place_or_pretend :: "bool \<Rightarrow> string \<Rightarrow> order_result sup \<Rightarrow> placed_id sup" where
  "place_or_pretend dry_run label m =
     (if dry_run then sx_return (Some label, None) else sx_bind m (\<lambda>r. sx_return (or_order_id r, or_error r)))"

text \<open>\<open>event_payload\<close> with the names of its callers.\<close>

record protection_request =
  pq_option :: string
  pq_quantity :: int
  pq_entry_price :: real
  pq_dry_run :: bool
  pq_event :: params
  pq_source :: "string option"
  pq_emit_suppressed :: bool

definition stop_request :: "sup_env \<Rightarrow> protection_request \<Rightarrow> real \<Rightarrow> (real option \<times> pyfloat option \<times> string option) sup" where
  "stop_request e q requested =
     (if pq_source q = Some ''broker_sync'' then sanitize_recovered_stop_price e (pq_option q) requested
      else sx_return (Some requested, None, None))"

definition arm_stop :: "sup_env \<Rightarrow> protection_request \<Rightarrow> real option \<Rightarrow> placed_id sup" where
  "arm_stop e q price = (case price of
      None \<Rightarrow> sx_return (None, Some ''recovered_stop_sanitization_failed'')
    | Some x \<Rightarrow> place_or_pretend (pq_dry_run q) ''DRY_RUN_STOP'' (sv_place_stop e (pq_option q) x (pq_quantity q) None))"

definition arm_target :: "sup_env \<Rightarrow> deployment \<Rightarrow> protection_request \<Rightarrow> (string option \<times> real option) sup" where
  "arm_target e d q =
     (if profit_target_configured (se_live_env e) d then
        let price = deployment_target_price d (pq_entry_price q) in
        if se_concurrent_exits e then
          sx_bind (place_or_pretend (pq_dry_run q) ''DRY_RUN_TARGET''
              (sv_place_target e (pq_option q) price (pq_quantity q))) (\<lambda>(oid, error).
          sx_bind (sv_emit ''profit_target_submission'' (pq_event q @ [(''target_order_id'', v_text oid),
            (''target_error'', v_text error), (''target_price'', PFloat (Fin price))])) (\<lambda>_.
          sx_return (oid, Some price)))
        else sx_bind (sv_emit ''profit_target_armed'' (pq_event q @ [(''target_order_id'', PNone),
            (''target_price'', PFloat (Fin price)), (''mode'', PStr ''virtual''),
            (''reason'', PStr ''single_resting_exit_order_broker'')])) (\<lambda>_. sx_return (None, Some price))
      else if pq_emit_suppressed q \<and> profit_target_would_be_configured_absent_profile_rule d
      then sx_bind (sv_emit ''profit_target_suppressed'' [(''deployment_id'', PStr (dep_id d)),
             (''symbol'', PStr (dep_symbol d)), (''reason'', PStr ''profile_owns_profit_taking'')]) (\<lambda>_.
           sx_return (None, None))
      else sx_return (None, None))"

record armed_protection =
  ap_stop :: placed_id
  ap_stop_price :: "real option"
  ap_target_id :: "string option"
  ap_target_price :: "real option"

text \<open>What follows the stop: the target and the event.\<close>

definition after_stop ::
  "sup_env \<Rightarrow> deployment \<Rightarrow> protection_request \<Rightarrow> real \<Rightarrow> real option \<times> pyfloat option \<times> string option \<Rightarrow> placed_id \<Rightarrow>
   armed_protection sup" where
  "after_stop e d q requested r stop = (case r of (price, bid, reason) \<Rightarrow>
     sx_bind (arm_target e d q) (\<lambda>(target_id, target).
     sx_bind (sv_emit ''protective_stop_submission'' (pq_event q @ [(''stop_order_id'', v_text (fst stop)),
        (''stop_error'', v_text (snd stop)), (''stop_price'', v_real price),
        (''requested_stop_price'', PFloat (Fin (round_price requested))),
        (''quote_bid'', case bid of None \<Rightarrow> PNone | Some x \<Rightarrow> PFloat x),
        (''stop_sanitized'', PBool (reason \<noteq> None)), (''stop_sanitized_reason'', v_text reason)])) (\<lambda>_.
     sx_return \<lparr>ap_stop = stop, ap_stop_price = price, ap_target_id = target_id, ap_target_price = target\<rparr>)))"

definition arm_position_protection :: "sup_env \<Rightarrow> deployment \<Rightarrow> protection_request \<Rightarrow> armed_protection sup" where
  "arm_position_protection e d q =
     (let requested = pq_entry_price q * (1 - (case fst (recovery_stop_loss_pct d) of None \<Rightarrow> 0 | Some x \<Rightarrow> x)) in
     sx_bind (stop_request e q requested) (\<lambda>r.
     sx_bind (arm_stop e q (fst r)) (after_stop e d q requested r)))"

section \<open>Restoring a missing protection\<close>

definition position_event :: "deployment \<Rightarrow> tracked_position \<Rightarrow> params" where
  "position_event d p = [(''deployment_id'', PStr (dep_id d)), (''symbol'', PStr (tp_symbol p)),
     (''trade_id'', v_text (tp_trade_id p)), (''option_symbol'', v_text (tp_option_symbol p))]"

definition protection_issue ::
  "deployment \<Rightarrow> tracked_position \<Rightarrow> active_close \<Rightarrow> string \<Rightarrow> params \<Rightarrow> string \<Rightarrow> unit sup" where
  "protection_issue d p c category extra error = sv_emit ''runtime_issue'' ([(''category'', PStr category)] @ position_event d p @
     [(''position_quantity'', PInt (tp_quantity p)), (''protection_order_id'', PStr (fc_order_id c))] @ extra @
     [(''error'', PStr error), (''stage'', PStr ''protection_restore'')])"

text \<open>What is left of the order found: one of another size is cancelled first.\<close>

definition settle_found_order ::
  "sup_env \<Rightarrow> deployment \<Rightarrow> tracked_position \<Rightarrow> active_close option \<Rightarrow> active_close option sup" where
  "settle_found_order e d p found = (case found of
      None \<Rightarrow> sx_return None
    | Some c \<Rightarrow>
        if fc_remaining c = None
        then sx_bind (protection_issue d p c ''protection_quantity_unknown'' [] ''protection_remaining_quantity_unavailable'')
               (\<lambda>_. sx_return (Some c))
        else if fc_remaining c = Some (tp_quantity p) then sx_return (Some c)
        else sx_bind (sv_cancel e (fc_order_id c)) (\<lambda>(canceled, error).
          sx_bind (sv_emit ''protection_quantity_mismatch'' (position_event d p @
            [(''position_quantity'', PInt (tp_quantity p)), (''protection_order_id'', PStr (fc_order_id c)),
             (''protection_remaining_quantity'', v_int (fc_remaining c)), (''cancel_confirmed'', PBool canceled),
             (''cancel_error'', v_text error)])) (\<lambda>_.
          if canceled then sx_return None
          else sx_bind (protection_issue d p c ''protection_quantity_mismatch''
                 [(''protection_remaining_quantity'', v_int (fc_remaining c))] (if text_truthy error then text_or error else ''protection_cancel_confirmation_pending'')) (\<lambda>_.
               sx_return (Some c)))))"

definition mark_protected :: "sup_env \<Rightarrow> tracked_position \<Rightarrow> string option \<Rightarrow> string option \<Rightarrow> string \<Rightarrow> unit sup" where
  "mark_protected e p stop target reason =
     sx_bind (sv_lifecycle_step (if text_truthy target
        then mark_target_active (tp_symbol p, tp_deployment_id p) (tp_option_symbol p) target
        else mark_open (tp_symbol p, tp_deployment_id p) (tp_option_symbol p) stop True)) (\<lambda>t.
     emit_lifecycle_transition e t reason)"

definition adopt_found_order :: "sup_env \<Rightarrow> deployment \<Rightarrow> tracked_position \<Rightarrow> active_close \<Rightarrow> tracked_position sup" where
  "adopt_found_order e d p c =
     (let oid = Some (fc_order_id c);
          u = p\<lparr>tp_stop_order_id := (if fc_stop c then oid else None), tp_stop_price := (if fc_stop c then fc_price c else None),
                tp_target_order_id := (if fc_stop c then None else oid),
                tp_target_price := (if fc_stop c then None else fc_price c)\<rparr> in
     sx_bind (sv_emit ''protection_restore_skipped'' (position_event d p @
        [(''reason'', PStr ''active_close_order_exists''), (''order_id'', PStr (fc_order_id c)),
         (''order_type'', PStr (if fc_stop c then ''STOP'' else ''LIMIT'')), (''price'', v_real (fc_price c))])) (\<lambda>_.
     sx_bind (mark_protected e u (tp_stop_order_id u) (tp_target_order_id u) ''protection_reconciled'') (\<lambda>_.
     sx_return u)))"

definition restore_request :: "tracked_position \<Rightarrow> deployment \<Rightarrow> string \<Rightarrow> real \<Rightarrow> string \<Rightarrow> bool \<Rightarrow> protection_request" where
  "restore_request p d o' entry policy dry_run = \<lparr>pq_option = o', pq_quantity = tp_quantity p, pq_entry_price = entry,
     pq_dry_run = dry_run, pq_event = position_event d p @ [(''policy'', PStr policy), (''source'', PStr (tp_source p)),
       (''dry_run'', PBool dry_run)], pq_source = Some (tp_source p), pq_emit_suppressed = False\<rparr>"

text \<open>The position with the protection that was armed, if it was.\<close>

definition armed_position :: "sup_env \<Rightarrow> deployment \<Rightarrow> tracked_position \<Rightarrow> armed_protection \<Rightarrow> tracked_position sup" where
  "armed_position e d p a =
     (if fst (ap_stop a) = None
      then sx_bind (sv_emit ''runtime_issue'' [(''category'', PStr ''protection_restore''), (''symbol'', PStr (tp_symbol p)),
             (''deployment_id'', PStr (dep_id d)), (''trade_id'', v_text (tp_trade_id p)),
             (''error'', PStr (if text_truthy (snd (ap_stop a)) then text_or (snd (ap_stop a)) else ''missing_stop_order_id'')),
             (''stage'', PStr ''protection_restore'')]) (\<lambda>_. sx_return p)
      else
        let u = p\<lparr>tp_stop_order_id := fst (ap_stop a), tp_stop_price := ap_stop_price a,
                  tp_target_order_id := ap_target_id a, tp_target_price := ap_target_price a\<rparr> in
        sx_bind (mark_protected e u (fst (ap_stop a)) (ap_target_id a) ''protection_restored'') (\<lambda>_. sx_return u))"

definition arm_missing_protection ::
  "sup_env \<Rightarrow> deployment \<Rightarrow> tracked_position \<Rightarrow> string \<Rightarrow> bool \<Rightarrow> tracked_position sup" where
  "arm_missing_protection e d p policy dry_run =
     sx_bind (sv_emit ''protection_restore_attempt'' (position_event d p @ [(''policy'', PStr policy), (''dry_run'', PBool dry_run)])) (\<lambda>_.
     case (tp_option_symbol p, tp_entry_price p) of
       (Some o', Some entry) \<Rightarrow>
         sx_bind (arm_position_protection e d (restore_request p d o' entry policy dry_run)) (armed_position e d p)
     | _ \<Rightarrow> sx_raise (Py_Error TypeError))"

definition restore_missing_protection ::
  "sup_env \<Rightarrow> deployment \<Rightarrow> tracked_position \<Rightarrow> bool \<Rightarrow> tracked_position sup" where
  "restore_missing_protection e d p dry_run = (case recovery_stop_loss_pct d of
      (None, policy) \<Rightarrow> sx_return p
    | (Some pct, policy) \<Rightarrow>
        if pct \<le> 0 then sx_return p
        else sx_bind (if dry_run then sx_return None else find_active_close_order e (tp_option_symbol p)) (\<lambda>found.
             sx_bind (settle_found_order e d p found) (\<lambda>existing. case existing of
                 Some c \<Rightarrow> adopt_found_order e d p c
               | None \<Rightarrow> arm_missing_protection e d p policy dry_run)))"

end
