(* ===== verification/Protection_Safety.thy ===== *)
theory Protection_Safety
  imports Protection
begin

text \<open>
  What the restoration of a missing protection sends: the lemmas follow the broker's calls
  through it as \<open>Exit_Safety\<close> does for a pending exit.
\<close>

section \<open>Quiet steps\<close>

lemma quiet_portfolio [quiets]: "quiet (sv_portfolio e)"
proof -
  have "sends_nothing (om_call br Get_Portfolio)" for br by (simp add: quiet_on_def call_log)
  then show ?thesis unfolding sv_portfolio_def by (intro quiets)
qed

lemma quiet_find_active [quiets]: "quiet (find_active_close_order e o')"
  unfolding find_active_close_order_def by (auto intro!: quiets split: option.split)

lemma quiet_quote [quiets]: "quiet (sv_quote e o')"
  unfolding sv_quote_def by (intro quiets)

lemma quiet_stop_request [quiets]: "quiet (stop_request e q x)"
  unfolding stop_request_def sanitize_recovered_stop_price_def Let_def by (auto intro!: quiets split: option.split)

lemma quiet_mark_protected [quiets]: "quiet (mark_protected e p stop target reason)"
  unfolding mark_protected_def by (intro quiets)

lemma quiet_adopt_found [quiets]: "quiet (adopt_found_order e d p c)"
  unfolding adopt_found_order_def Let_def by (intro quiets)

lemma quiet_settle_found [quiets]: "quiet (settle_found_order e d p found)"
  unfolding settle_found_order_def protection_issue_def by (auto intro!: quiets split: option.split)

lemma quiet_arm_target [quiets]: "\<not> se_concurrent_exits e \<Longrightarrow> quiet (arm_target e d q)"
  unfolding arm_target_def Let_def by (auto intro!: quiets)

section \<open>The stop that is armed\<close>

lemma place_stop_calls:
  assumes "place_stop_loss_order br tx nid o' price n oid s = (res, s')"
  shows "\<exists>calls. om_log s' = om_log s @ calls \<and> one_live br (om_log s) (close_of o' n) calls"
  using assms [unfolded place_stop_loss_order_def] correction_quiet
proof (cases rule: bind_quiet_cases)
  case (failed x calls)
  then show ?thesis by (auto intro: one_live_quiet)
next
  case (passed p s1 calls)
  have "close_of o' n p" by (rule correction_close [OF passed(1)]) simp
  from submit_close_calls [OF passed(4) this] obtain c2 where
    "om_log s' = om_log s1 @ c2" "one_live br (om_log s1) (close_of o' n) c2" by blast
  with passed(2,3) show ?thesis by (auto intro!: one_live_prefix)
qed

lemma sells_place_stop: "sells (se_broker e) (close_of o' n) (sv_place_stop e o' price n oid)"
proof -
  have "sells (se_broker e) (close_of o' n)
      (sv_zoom (place_stop_loss_order (se_broker e) (se_tx e) nid o' price n oid'))" for nid oid'
    unfolding sells_def sv_zoom_def by (auto split: prod.split dest!: place_stop_calls)
  then show ?thesis unfolding sv_place_stop_def by (intro sells_bind_quiet quiets)
qed

lemma sells_arm_stop: "sells (se_broker e) (close_of (pq_option q) (pq_quantity q)) (arm_stop e q price)"
proof (cases price)
  case (Some x)
  show ?thesis
  proof (cases "pq_dry_run q")
    case False
    then show ?thesis unfolding arm_stop_def Some option.case place_or_pretend_def
      by (simp add: sells_bind sells_place_stop quiet_return)
  qed (simp add: arm_stop_def Some place_or_pretend_def sells_quiet quiet_return)
qed (simp add: arm_stop_def sells_quiet quiet_return)

lemma quiet_after_stop [quiets]: "\<not> se_concurrent_exits e \<Longrightarrow> quiet (after_stop e d q x r stop)"
  unfolding after_stop_def by (auto intro!: quiets split: prod.split)

lemma quiet_armed [quiets]: "quiet (armed_position e d p a)"
  unfolding armed_position_def Let_def by (auto intro!: quiets)

lemma sells_arm:
  assumes "\<not> se_concurrent_exits e"
  shows "sells (se_broker e) (close_of (pq_option q) (pq_quantity q)) (arm_position_protection e d q)"
  unfolding arm_position_protection_def Let_def
  using assms by (intro sells_bind_quiet [OF quiet_stop_request] sells_bind [OF sells_arm_stop] quiet_after_stop)

lemma sells_arm_missing:
  assumes "tp_option_symbol p = Some o'" "\<not> se_concurrent_exits e"
  shows "sells (se_broker e) (close_of o' (tp_quantity p)) (arm_missing_protection e d p policy dry_run)"
proof -
  have arm: "sells (se_broker e) (close_of o' (tp_quantity p))
      (arm_position_protection e d (restore_request p d o' entry policy dry_run))" for entry
    using sells_arm [OF assms(2), of "restore_request p d o' entry policy dry_run" d] by (simp add: restore_request_def)
  show ?thesis
  proof (cases "tp_entry_price p")
    case None
    then show ?thesis unfolding arm_missing_protection_def by (auto intro!: sells_quiet quiets simp: assms(1))
  next
    case (Some entry)
    show ?thesis
      unfolding arm_missing_protection_def assms(1) Some prod.case option.case
      by (rule sells_bind_quiet [OF quiet_emit sells_bind [OF arm quiet_armed]])
  qed
qed

section \<open>Nothing else protects the position\<close>

text \<open>The broker said that the order is dead and unfilled.\<close>

definition dead_unfilled_answer :: "broker \<Rightarrow> broker_call list \<Rightarrow> broker_call list \<Rightarrow> string \<Rightarrow> bool" where
  "dead_unfilled_answer br log0 calls oid \<longleftrightarrow> (\<exists>before after d. calls = before @ Get_Order oid # after \<and> placed before = []
     \<and> br (log0 @ before) (Get_Order oid) = Reply d \<and> public_order_confirmed_dead_unfilled (payload_status d) (Some d))"

lemma dead_unfilled_after:
  "dead_unfilled_answer br (log0 @ pre) calls oid \<Longrightarrow> placed pre = [] \<Longrightarrow> dead_unfilled_answer br log0 (pre @ calls) oid"
  unfolding dead_unfilled_answer_def
  by (elim exE conjE, rule_tac x = "pre @ before" in exI) auto

lemma dead_unfilled_more: "dead_unfilled_answer br log0 calls oid \<Longrightarrow> dead_unfilled_answer br log0 (calls @ extra) oid"
  unfolding dead_unfilled_answer_def by (metis append_Cons append_assoc)

lemma cancel_confirmed:
  assumes "cancel_order br late oid o1 = ((True, err), o2)"
  shows "om_log o2 = om_log o1 @ [Cancel oid, Get_Order oid]"
    and "dead_unfilled_answer br (om_log o1) [Cancel oid, Get_Order oid] oid"
proof -
  show "om_log o2 = om_log o1 @ [Cancel oid, Get_Order oid]" using cancel_log [of br late oid o1] assms by simp
  obtain r s1 where c: "om_call br (Cancel oid) o1 = (r, s1)" by fastforce
  have log1: "om_log s1 = om_log o1 @ [Cancel oid]" using call_log [of br "Cancel oid" o1] c by simp
  have unread: "\<not> public_order_confirmed_dead_unfilled None None"
    by (simp add: public_order_confirmed_dead_unfilled_def status_or_payload_def normalize_public_order_status_def
        PUBLIC_DEAD_ORDER_STATUSES_def py_upper_def text_or_def py_strip_def)
  obtain st s2 where st: "(if late (om_log s1) then ((None, None, Some ''cancel_status_readback_timeout''),
      s1\<lparr>om_log := om_log s1 @ [Get_Order oid]\<rparr>) else get_order_status br oid s1) = (st, s2)" by fastforce
  have "public_order_confirmed_dead_unfilled (fst st) (fst (snd st))"
    using assms c st by (auto simp: cancel_order_def Let_def split: prod.splits if_splits)
  then have "\<exists>d. br (om_log s1) (Get_Order oid) = Reply d \<and> public_order_confirmed_dead_unfilled (payload_status d) (Some d)"
    using st unread by (auto simp: get_order_status_def om_call_def Let_def
        split: if_splits broker_reply.splits broker_exc.splits)
  then obtain d where d: "br (om_log s1) (Get_Order oid) = Reply d"
    "public_order_confirmed_dead_unfilled (payload_status d) (Some d)" by blast
  then show "dead_unfilled_answer br (om_log o1) [Cancel oid, Get_Order oid] oid"
    unfolding dead_unfilled_answer_def using log1
    by (intro exI [of _ "[Cancel oid]"] exI [of _ "[]"] exI [of _ d]) simp
qed

text \<open>What the portfolio shows of the contract, and what became of it.\<close>

definition nothing_protects ::
  "sup_env \<Rightarrow> broker_call list \<Rightarrow> broker_call list \<Rightarrow> string \<Rightarrow> int \<Rightarrow> bool" where
  "nothing_protects e log0 calls o' quantity \<longleftrightarrow> (case se_broker e log0 Get_Portfolio of
      Failure x \<Rightarrow> True
    | Reply d \<Rightarrow> (case bind_result (order_values d) (first_close_order (se_tx e) (normalize_option_symbol o')) of
        Inl x \<Rightarrow> False
      | Inr None \<Rightarrow> True
      | Inr (Some c) \<Rightarrow> (\<exists>n. fc_remaining c = Some n \<and> n \<noteq> quantity) \<and> dead_unfilled_answer (se_broker e) log0 calls (fc_order_id c)))"

lemma find_active_runs:
  assumes "find_active_close_order e (Some o') s = (Inr found, s')"
  shows "sv_log s' = sv_log s @ [Get_Portfolio]"
    and "case se_broker e (sv_log s) Get_Portfolio of Failure x \<Rightarrow> found = None
      | Reply d \<Rightarrow> bind_result (order_values d) (first_close_order (se_tx e) (normalize_option_symbol o')) = Inr found"
  using assms
  by (auto simp: find_active_close_order_def sx_bind_def sx_catch_def sx_return_def sv_portfolio_def sv_zoom_def om_call_def
      Let_def sx_lift_def sx_raise_def split: broker_reply.splits sum.splits prod.splits)

lemma settle_emptied:
  assumes "settle_found_order e d p found s = (Inr None, s')"
  shows "found = None \<and> s' = s \<or> (\<exists>c n calls. found = Some c \<and> fc_remaining c = Some n \<and> n \<noteq> tp_quantity p
    \<and> sv_log s' = sv_log s @ calls \<and> placed calls = [] \<and> dead_unfilled_answer (se_broker e) (sv_log s) calls (fc_order_id c))"
proof (cases found)
  case None
  then show ?thesis using assms by (simp add: settle_found_order_def sx_return_def)
next
  case (Some c)
  obtain n where n: "fc_remaining c = Some n" "n \<noteq> tp_quantity p"
    using assms Some by (auto simp: settle_found_order_def protection_issue_def bind_emit sx_return_def split: if_splits)
  obtain ok err o2 where c: "cancel_order (se_broker e) (se_late e) (fc_order_id c) (sv_orders s) = ((ok, err), o2)"
    by (metis surj_pair)
  have ok: "ok" and s': "sv_log s' = om_log o2"
    using assms Some n c
    by (auto simp: settle_found_order_def protection_issue_def sv_cancel_def bind_total bind_emit sx_return_def split: if_splits)
  show ?thesis
    using cancel_confirmed [of "se_broker e" "se_late e" "fc_order_id c" "sv_orders s" err o2] c ok n s' Some
    by (auto intro!: exI [of _ "[Cancel (fc_order_id c), Get_Order (fc_order_id c)]"])
qed

lemma bind_Inr_cases:
  assumes "sx_bind m f s = (res, s')"
  obtains (failed) x where "res = Inl x" "m s = (Inl x, s')" | (passed) y s1 where "m s = (Inr y, s1)" "f y s1 = (res, s')"
  using assms by (auto simp: sx_bind_def split: prod.splits sum.splits)

text \<open>What follows the search of the portfolio.\<close>

lemma searched_sends:
  assumes run: "sx_bind (find_active_close_order e (Some o')) (\<lambda>found. sx_bind (settle_found_order e d p found) (\<lambda>existing.
        case existing of Some c \<Rightarrow> adopt_found_order e d p c | None \<Rightarrow> arm_missing_protection e d p policy False)) s = (r, s')"
    and o: "tp_option_symbol p = Some o'" "\<not> se_concurrent_exits e"
  shows "\<exists>calls. sv_log s' = sv_log s @ calls \<and> one_live (se_broker e) (sv_log s) (close_of o' (tp_quantity p)) calls
    \<and> (placed calls \<noteq> [] \<longrightarrow> nothing_protects e (sv_log s) calls o' (tp_quantity p))"
  using run
proof (cases rule: bind_Inr_cases)
  case (failed x)
  from quiet_on_log [OF quiet_find_active failed(2)] show ?thesis by (metis one_live_quiet)
next
  case (passed found s1)
  note find = find_active_runs [OF passed(1)]
  show ?thesis
    using passed(2)
  proof (cases rule: bind_Inr_cases)
    case (failed x)
    from quiet_on_log [OF quiet_settle_found failed(2)] obtain c where "sv_log s' = sv_log s1 @ c" "placed c = []" .
    with find(1) show ?thesis by (auto intro: one_live_quiet)
  next
    case settled: (passed existing s2)
    obtain c1 where c1: "sv_log s2 = sv_log s1 @ c1" "placed c1 = []"
      using quiet_on_log [OF quiet_settle_found settled(1)] .
    show ?thesis
    proof (cases existing)
      case (Some c)
      then obtain c2 where "sv_log s' = sv_log s2 @ c2" "placed c2 = []"
        using quiet_on_log [OF quiet_adopt_found, of e d p c s2 r s'] settled(2) by auto
      with find(1) c1 show ?thesis by (auto intro: one_live_quiet)
    next
      case None
      then have arm: "arm_missing_protection e d p policy False s2 = (r, s')" using settled(2) by simp
      obtain c2 where c2: "sv_log s' = sv_log s2 @ c2" "one_live (se_broker e) (sv_log s2) (close_of o' (tp_quantity p)) c2"
        using sells_log [OF sells_arm_missing [OF o] arm] .
      let ?pre = "[Get_Portfolio] @ c1"
      have "one_live (se_broker e) (sv_log s) (close_of o' (tp_quantity p)) (?pre @ c2)"
        by (rule one_live_prefix) (use c2 c1 find(1) in simp_all)
      moreover have "nothing_protects e (sv_log s) (?pre @ c2) o' (tp_quantity p)"
        using settle_emptied [of e d p found s1 s2] settled(1) None find c1 dead_unfilled_after [of "se_broker e" "sv_log s" "[Get_Portfolio]"]
        by (auto simp: nothing_protects_def split: broker_reply.splits intro!: dead_unfilled_more [of _ _ "Get_Portfolio # c1" _ c2, simplified])
      ultimately show ?thesis using c1 c2 find(1) by auto
    qed
  qed
qed

text \<open>
  C37. A missing protection is armed once, for the size of the position. On a broker that keeps one
  resting exit per position, restoring the protection sends at most two orders, a second only
  after the first was definitely rejected, each selling to close the position's quantity of its
  contract; and anything is sent only if the portfolio shows no working close order of the
  contract, or one of another size that the broker then answered to be dead and unfilled, or if
  the portfolio could not be read at all.
\<close>

theorem restore_arms_missing_stop:
  assumes "restore_missing_protection e d p False s = (r, s')" "tp_option_symbol p = Some o'" "\<not> se_concurrent_exits e"
  shows "\<exists>calls. sv_log s' = sv_log s @ calls \<and> one_live (se_broker e) (sv_log s) (close_of o' (tp_quantity p)) calls
    \<and> (placed calls \<noteq> [] \<longrightarrow> nothing_protects e (sv_log s) calls o' (tp_quantity p))"
proof -
  obtain pct policy where rec: "recovery_stop_loss_pct d = (pct, policy)" by fastforce
  show ?thesis
  proof (cases "pct = None \<or> (\<exists>x. pct = Some x \<and> x \<le> 0)")
    case True
    then have "s' = s" using assms(1) rec by (auto simp: restore_missing_protection_def sx_return_def)
    then show ?thesis by (auto intro: one_live_quiet)
  next
    case False
    then obtain x where "pct = Some x" "\<not> x \<le> 0" by auto
    then show ?thesis
      using assms(1,2) rec by (intro searched_sends [OF _ assms(2,3)]) (simp add: restore_missing_protection_def)
  qed
qed

section \<open>A portfolio that cannot be read\<close>

lemma submission_places:
  assumes "submit_with_increment_retry br tx nid key no_guard p s = (res, s')" "close_of o' q p"
  shows "\<exists>rest. om_log s' = om_log s @ Place p # rest"
proof -
  obtain res1 s1 where sub: "submit br tx p s = (res1, s1)" by fastforce
  note eff = submit_effect [OF sub]
  from eff(2) obtain r where r: "res1 = Inr r" by auto
  consider (stop) "s' = s1"
    | (again) x original where "retry_submission br tx nid key no_guard original x p s1 = (res, s')"
    using assms(1) sub r
    by (auto simp: submit_with_increment_retry_def sx_bind_def om_guard_def no_guard_def sx_return_def sx_raise_def
        split: if_splits option.splits)
  then show ?thesis
  proof cases
    case stop
    then show ?thesis using eff(1) by simp
  next
    case again
    from retry_close_calls [OF again assms(2)] show ?thesis using eff(1) by auto
  qed
qed

lemma place_stop_places:
  assumes "place_stop_loss_order br tx nid o' price n oid s = (Inr r, s')"
  shows "\<exists>calls p. om_log s' = om_log s @ calls \<and> p \<in> set (placed calls) \<and> close_of o' n p"
  using assms [unfolded place_stop_loss_order_def] correction_quiet
proof (cases rule: bind_quiet_cases)
  case (passed p s1 calls)
  have p: "close_of o' n p" by (rule correction_close [OF passed(1)]) simp
  from submission_places [OF passed(4) p] obtain rest where "om_log s' = om_log s1 @ Place p # rest" by blast
  with passed(2) p show ?thesis by (intro exI [of _ "calls @ Place p # rest"] exI [of _ p]) simp
qed simp

lemma sv_place_stop_places:
  assumes "sv_place_stop e o' price n oid s = (Inr r, s')"
  shows "\<exists>calls p. sv_log s' = sv_log s @ calls \<and> p \<in> set (placed calls) \<and> close_of o' n p"
  using assms
  by (auto simp: sv_place_stop_def sx_bind_def sv_uuid_def sv_zoom_def split: prod.splits dest!: place_stop_places)

lemma arm_places:
  assumes "arm_position_protection e d q s = (Inr a, s')" "\<not> pq_dry_run q" "pq_source q \<noteq> Some ''broker_sync''"
    and "\<not> se_concurrent_exits e"
  shows "\<exists>calls p. sv_log s' = sv_log s @ calls \<and> p \<in> set (placed calls) \<and> close_of (pq_option q) (pq_quantity q) p"
proof -
  obtain x where run: "sx_bind (arm_stop e q (Some x)) (after_stop e d q x (Some x, None, None)) s = (Inr a, s')"
    using assms(1,3) by (simp add: arm_position_protection_def Let_def stop_request_def)
  from run show ?thesis
  proof (cases rule: bind_Inr_cases)
    case (passed y s1)
    obtain c2 where c2: "sv_log s' = sv_log s1 @ c2" by (rule quiet_on_log [OF quiet_after_stop [OF assms(4)] passed(2)])
    have "sx_bind (sv_place_stop e (pq_option q) x (pq_quantity q) None) (\<lambda>r. sx_return (or_order_id r, or_error r)) s = (Inr y, s1)"
      using passed(1) assms(2) by (simp add: arm_stop_def place_or_pretend_def)
    then obtain r where "sv_place_stop e (pq_option q) x (pq_quantity q) None s = (Inr r, s1)"
      by (cases rule: bind_Inr_cases) (auto simp: sx_return_def)
    from sv_place_stop_places [OF this] c2 show ?thesis by auto
  qed simp
qed


section \<open>A position without a stop\<close>

definition demo_bare_position :: tracked_position where
  "demo_bare_position = demo_exit_position\<lparr>tp_trade_id := Some ''t1'', tp_exit_order_id := None, tp_exit_limit_price := None,
     tp_exit_submitted_at := None, tp_exit_mode := None\<rparr>"

text \<open>A broker that takes every order, and either shows an empty portfolio or cannot show it.\<close>

definition taking_broker :: "bool \<Rightarrow> broker" where
  "taking_broker readable calls c = (case c of
      Place p \<Rightarrow> Reply [(''orderId'', PStr ''s1'')]
    | Get_Portfolio \<Rightarrow> if readable then Reply [] else Failure (Timeout_Error ''ReadTimeout'' [])
    | _ \<Rightarrow> Reply [])"

definition demo_restore :: "bool \<Rightarrow> (broker_exc + tracked_position) \<times> sup_state" where
  "demo_restore readable =
     restore_missing_protection (demo_sup_env (taking_broker readable)) demo_exit_deployment demo_bare_position False fresh_sup"

lemma demo_restored: "map op_quantity (placed (sv_log (snd (demo_restore True)))) = [3]"
  by code_simp

lemma demo_restored_blind: "map_sum (\<lambda>_. ()) tp_stop_order_id (fst (demo_restore False)) = Inr (Some ''s1'')"
  by code_simp

theorem restore_arms_missing_stop_witness:
  "\<exists>calls. sv_log (snd (demo_restore True)) = calls \<and> placed calls \<noteq> []
     \<and> nothing_protects (demo_sup_env (taking_broker True)) [] calls ''SPY260101C00500000'' 3"
proof -
  have run: "restore_missing_protection (demo_sup_env (taking_broker True)) demo_exit_deployment demo_bare_position False fresh_sup
      = (fst (demo_restore True), snd (demo_restore True))" by (simp add: demo_restore_def)
  have h: "tp_option_symbol demo_bare_position = Some ''SPY260101C00500000''" "tp_quantity demo_bare_position = 3"
    "\<not> se_concurrent_exits (demo_sup_env (taking_broker True))" "sv_log fresh_sup = []"
    by (simp_all add: demo_bare_position_def demo_exit_position_def demo_sup_env_def fresh_sup_def)
  have "placed (sv_log (snd (demo_restore True))) \<noteq> []" using demo_restored by auto
  with restore_arms_missing_stop [OF run h(1,3)] h(2,4) show ?thesis by auto
qed


end
