(* ===== verification/Stop_Handoff.thy ===== *)
theory Stop_Handoff
  imports Protection_Safety
begin

text \<open>
  The recovery of a durable exit action (\<open>src/bhiksha/execution/supervisor.py\<close>): a stop ratchet
  that was interrupted is resumed from the stage its intent recorded (the prior stop dead, the
  replacement submitted, the prior stop restored), a partial exit or a move to breakeven is
  resolved from what the broker says of its order. An intent is read from the exit-state store.
\<close>

section \<open>What the broker says of a stop\<close>

datatype stop_outcome = Stop_Filled | Stop_Partly_Filled | Stop_Working | Stop_Dead | Stop_Ambiguous

fun outcome_text :: "stop_outcome \<Rightarrow> string" where
  "outcome_text Stop_Filled = ''full_fill''"
| "outcome_text Stop_Partly_Filled = ''partial_fill''"
| "outcome_text Stop_Working = ''working''"
| "outcome_text Stop_Dead = ''dead_zero_fill''"
| "outcome_text Stop_Ambiguous = ''ambiguous''"

definition fills :: "stop_outcome \<Rightarrow> bool" where
  "fills x \<longleftrightarrow> x = Stop_Filled \<or> x = Stop_Partly_Filled"

definition or_value :: "pyval \<Rightarrow> pyval \<Rightarrow> pyval" where
  "or_value a b = (if py_truthy a then a else b)"

text \<open>\<open>(payload.get("instrument") or {}).get("symbol") or ""\<close>, normalized.\<close>

definition order_contract :: "(pyval \<Rightarrow> string) \<Rightarrow> params \<Rightarrow> string result" where
  "order_contract tx d = (let v = dict_get d ''instrument'' in
     bind_result (if py_truthy v then dict_val v else Inr []) (\<lambda>instrument.
     Inr (normalize_option_symbol (py_str tx (or_value (dict_get instrument ''symbol'') (PStr []))))))"

definition exact_stop :: "(pyval \<Rightarrow> string) \<Rightarrow> params \<Rightarrow> string \<Rightarrow> bool result" where
  "exact_stop tx d o' =
     bind_result (order_contract tx d) (\<lambda>contract.
     bind_result (matches_exit_order_identity tx d (Some o')) (\<lambda>matched.
     Inr (matched \<and> contract = normalize_option_symbol o'
       \<and> upper_of tx [dict_get d ''side'', dict_get d ''orderSide''] = ''SELL''
       \<and> upper_of tx [dict_get d ''type'', dict_get d ''orderType''] = ''STOP'')))"

definition broker_stop_price :: "params \<Rightarrow> real option" where
  "broker_stop_price d = sv_maybe_float (or_value (dict_get d ''stopPrice'') (dict_get d ''stop_price''))"

definition same_cents :: "real option \<Rightarrow> real \<Rightarrow> bool" where
  "same_cents x y = (case x of None \<Rightarrow> False | Some v \<Rightarrow> round2 v = round2 y)"

text \<open>The verdict on one reply; \<^const>\<open>None\<close> if it proves nothing.\<close>

definition stop_verdict ::
  "(pyval \<Rightarrow> string) \<Rightarrow> string \<Rightarrow> int \<Rightarrow> real \<Rightarrow> string option \<Rightarrow> params \<Rightarrow> stop_outcome option result" where
  "stop_verdict tx o' quantity price status d =
     (let word = order_status_word status (Some d) in
     bind_result (exact_stop tx d o') (\<lambda>exact.
     bind_result (sv_maybe_int (dict_get d ''filledQuantity'')) (\<lambda>filled.
     let some_fill = (case filled of None \<Rightarrow> False | Some n \<Rightarrow> 0 < n) in
     if exact \<and> (word = ''FILLED'' \<or> some_fill)
     then Inr (Some (if word = ''FILLED'' \<or> covers filled quantity then Stop_Filled else Stop_Partly_Filled))
     else bind_result (if exact \<and> word \<in> set PUBLIC_WORKING_ORDER_STATUSES then sv_remaining_order_quantity d else Inr None) (\<lambda>left.
       if left = Some quantity \<and> same_cents (broker_stop_price d) price then Inr (Some Stop_Working)
       else if exact \<and> word \<in> set PUBLIC_DEAD_ORDER_STATUSES \<and> filled = Some 0 then Inr (Some Stop_Dead)
       else Inr None))))"

record stop_truth =
  st_outcome :: stop_outcome
  st_status :: "string option"
  st_payload :: "params option"
  st_error :: "string option"

text \<open>Up to three reads, the next only while the order is not indexed yet.\<close>

fun stop_polls :: "nat \<Rightarrow> sup_env \<Rightarrow> string \<Rightarrow> string \<Rightarrow> int \<Rightarrow> real \<Rightarrow> order_status \<Rightarrow> stop_truth sup" where
  "stop_polls 0 e oid o' quantity price (status, payload, error) =
     sx_return \<lparr>st_outcome = Stop_Ambiguous, st_status = status, st_payload = payload,
       st_error = Some (if text_truthy error then text_or error else ''stop_truth_unproved'')\<rparr>"
| "stop_polls (Suc n) e oid o' quantity price prev =
     sx_bind (sv_total (get_order_status (se_broker e) oid)) (\<lambda>(status, payload, error).
     sx_bind (case payload of None \<Rightarrow> sx_return None | Some d \<Rightarrow> sx_lift (stop_verdict (se_tx e) o' quantity price status d)) (\<lambda>v.
     case v of
       Some x \<Rightarrow> sx_return \<lparr>st_outcome = x, st_status = status, st_payload = payload, st_error = None\<rparr>
     | None \<Rightarrow> stop_polls (if error = Some ''order_not_indexed_yet'' then n else 0) e oid o' quantity price
                 (status, payload, error)))"

definition classify_stop_readback :: "sup_env \<Rightarrow> string \<Rightarrow> string \<Rightarrow> int \<Rightarrow> real \<Rightarrow> stop_truth sup" where
  "classify_stop_readback e oid o' quantity price = stop_polls 3 e oid o' quantity price (None, None, None)"

section \<open>Adopting a stop\<close>

definition adopted_session :: "tracked_position \<Rightarrow> string \<Rightarrow> trade_session" where
  "adopted_session p tid = (position_session p tid ''open_protected'' None)
     \<lparr>tr_target_order_id := None, tr_target_price := None, tr_exit_order_id := None, tr_exit_limit_price := None,
      tr_exit_submitted_at := None, tr_exit_mode := None\<rparr>"

definition adopt_recovered_ratchet_stop :: "sup_env \<Rightarrow> tracked_position \<Rightarrow> string \<Rightarrow> real \<Rightarrow> unit sup" where
  "adopt_recovered_ratchet_stop e p oid price =
     (let adopted = p\<lparr>tp_stop_order_id := Some oid, tp_stop_price := Some price\<rparr> in
     sx_bind (sv_open_position adopted) (\<lambda>_.
     sx_bind (case (tp_trade_id adopted, tp_option_symbol adopted) of
         (Some tid, Some _) \<Rightarrow> upsert_trade_record e (adopted_session adopted tid) | _ \<Rightarrow> sx_return ()) (\<lambda>_.
     sx_bind (sv_lifecycle_step (mark_open (tp_symbol adopted, tp_deployment_id adopted) (tp_option_symbol adopted) (Some oid) True)) (\<lambda>t.
     emit_lifecycle_transition e t ''risk_envelope_recovered_stop_adopted''))))"

section \<open>Writes of an intent\<close>

definition sv_handoff :: "sup_env \<Rightarrow> string \<Rightarrow> string \<Rightarrow> string option \<Rightarrow> params option \<Rightarrow> unit sup" where
  "sv_handoff e key stage restore payload =
     sv_exit_write e (\<lambda>now. update_action_handoff (se_exit_codec e) now key stage restore (map_option PDict payload))"

definition sv_resolve :: "sup_env \<Rightarrow> string \<Rightarrow> string \<Rightarrow> params \<Rightarrow> unit sup" where
  "sv_resolve e key status payload =
     sv_exit_write e (\<lambda>now. resolve_action_intent (se_exit_codec e) now key status (Some (PDict payload)))"

definition sv_bind_order :: "sup_env \<Rightarrow> string \<Rightarrow> string \<Rightarrow> params option \<Rightarrow> unit sup" where
  "sv_bind_order e key oid payload =
     sv_exit_write e (\<lambda>now. bind_action_order (se_exit_codec e) now key oid (map_option PDict payload))"

definition sv_advance :: "sup_env \<Rightarrow> exit_runtime_state \<Rightarrow> exit_runtime_state \<Rightarrow> unit sup" where
  "sv_advance e old new =
     sv_exit_write e (\<lambda>now. transition_runtime_state (se_exit_codec e) now new (er_version old))"

definition sv_remember :: "string \<Rightarrow> exit_runtime_state \<Rightarrow> unit sup" where
  "sv_remember tid new = sv_do (\<lambda>s. s\<lparr>sv_durable := AList.update tid new (sv_durable s)\<rparr>)"

definition v_payload :: "params option \<Rightarrow> pyval" where
  "v_payload payload = (case payload of None \<Rightarrow> PNone | Some d \<Rightarrow> PDict d)"

section \<open>Resuming a stop ratchet\<close>

text \<open>An intent with what the resumption needs of it.\<close>

record ratchet =
  ra_key :: string
  ra_trade :: string
  ra_option :: string
  ra_quantity :: int
  ra_prior_id :: string
  ra_prior_price :: real
  ra_price :: real
  ra_floor :: "real option"
  ra_order_id :: "string option"
  ra_restore_id :: "string option"

definition ratchet_of :: "tracked_position \<Rightarrow> action_intent \<Rightarrow> ratchet option" where
  "ratchet_of p i = (case (tp_option_symbol p, ai_prior_stop_id i, ai_prior_stop_price i, ai_stop_price i) of
      (Some o', Some prior, Some prior_price, Some price) \<Rightarrow> Some \<lparr>ra_key = ai_key i, ra_trade = ai_trade_id i, ra_option = o',
        ra_quantity = (case ai_quantity i of None \<Rightarrow> tp_quantity p | Some n \<Rightarrow> if n = 0 then tp_quantity p else n),
        ra_prior_id = prior, ra_prior_price = prior_price, ra_price = price, ra_floor = ai_floor_r i,
        ra_order_id = ai_order_id i, ra_restore_id = ai_restore_id i\<rparr>
    | _ \<Rightarrow> None)"

definition initial_stage :: "action_intent \<Rightarrow> string" where
  "initial_stage i = (let stage = (if ai_stage i = [] then ''prepared'' else ai_stage i) in
     if stage = ''prepared'' \<and> ai_order_id i \<noteq> None then ''replacement_submitted'' else stage)"

definition filled_payload :: "string \<Rightarrow> stop_truth \<Rightarrow> params" where
  "filled_payload stage t = [(''stage'', PStr stage), (''classification'', PStr (outcome_text (st_outcome t))),
     (''order'', v_payload (st_payload t))]"

text \<open>A stop that filled ends the position.\<close>

definition close_on_stop_fill ::
  "sup_env \<Rightarrow> deployment \<Rightarrow> tracked_position \<Rightarrow> string \<Rightarrow> string \<Rightarrow> string \<Rightarrow> string \<Rightarrow> stop_truth \<Rightarrow> unit sup" where
  "close_on_stop_fill e d p key oid stage reason t =
     sx_bind (sv_resolve e key ''confirmed'' (filled_payload stage t)) (\<lambda>_.
     sx_bind (finalize_pending_exit_fill e d p (Some oid) (st_status t) (st_payload t) reason) (\<lambda>_. sx_return ()))"

definition prior_is_dead :: "sup_env \<Rightarrow> ratchet \<Rightarrow> stop_truth \<Rightarrow> bool sup" where
  "prior_is_dead e r t = (if st_outcome t = Stop_Dead then sx_return True
     else sx_bind (sv_cancel e (ra_prior_id r)) (\<lambda>(canceled, _). sx_return canceled))"

text \<open>The prior stop first: \<^const>\<open>True\<close> if it is out of the way.\<close>

definition clear_prior_stop :: "sup_env \<Rightarrow> deployment \<Rightarrow> tracked_position \<Rightarrow> ratchet \<Rightarrow> bool sup" where
  "clear_prior_stop e d p r =
     sx_bind (classify_stop_readback e (ra_prior_id r) (ra_option r) (ra_quantity r) (ra_prior_price r)) (\<lambda>t.
     if fills (st_outcome t)
     then sx_bind (close_on_stop_fill e d p (ra_key r) (ra_prior_id r) ''prior_stop_filled_during_handoff''
            ''risk_envelope_prior_stop_filled'' t) (\<lambda>_. sx_return False)
     else sx_bind (prior_is_dead e r t) (\<lambda>dead.
       if dead then sx_bind (sv_handoff e (ra_key r) ''prior_stop_dead_zero_fill'' None (Some [(''prior_stop'', v_payload (st_payload t))]))
                      (\<lambda>_. sx_return True)
       else sx_return False))"

text \<open>The replacement, under the intent's own key as the client's order id.\<close>

definition submit_replacement :: "sup_env \<Rightarrow> ratchet \<Rightarrow> string sup" where
  "submit_replacement e r =
     sx_bind (sv_handoff e (ra_key r) ''replacement_submit_pending'' None None) (\<lambda>_.
     sx_bind (sv_place_stop e (ra_option r) (ra_price r) (ra_quantity r) (Some (ra_key r))) (\<lambda>result.
     sx_bind (case (or_order_id result, ra_order_id r) of
         (Some oid, None) \<Rightarrow> sv_bind_order e (ra_key r) oid None | _ \<Rightarrow> sx_return ()) (\<lambda>_.
     sx_bind (sv_handoff e (ra_key r) ''replacement_submitted'' None (Some [(''submission_error'', v_text (or_error result))])) (\<lambda>_.
     sx_return (if text_truthy (or_order_id result) then text_or (or_order_id result) else ra_key r)))))"

definition ratcheted_state :: "ratchet \<Rightarrow> exit_runtime_state \<Rightarrow> exit_runtime_state" where
  "ratcheted_state r s =
     (let floor_r = (case ra_floor r of Some x \<Rightarrow> x | None \<Rightarrow> (ra_price r - er_seed_entry_premium s) / er_initial_risk s)
      in s\<lparr>er_locked_floor_r := Some (max (case er_locked_floor_r s of Some x \<Rightarrow> x | None \<Rightarrow> floor_r) floor_r),
           er_committed_stop := Some (ra_price r), er_recovery_status := ''active'', er_degraded_reason := None,
           er_version := er_version s + 1\<rparr>)"

text \<open>The replacement works: the durable state, the tracker, then the intent.\<close>

definition commit_replacement :: "sup_env \<Rightarrow> tracked_position \<Rightarrow> ratchet \<Rightarrow> string \<Rightarrow> stop_truth \<Rightarrow> unit sup" where
  "commit_replacement e p r oid t =
     sx_bind (sv_runtime_state e (ra_trade r)) (\<lambda>durable. case durable of
         None \<Rightarrow> sx_return ()
       | Some s \<Rightarrow>
           sx_bind (sv_advance e s (ratcheted_state r s)) (\<lambda>_.
           sx_bind (adopt_recovered_ratchet_stop e p oid (ra_price r)) (\<lambda>_.
           sx_bind (sv_resolve e (ra_key r) ''confirmed'' (case st_payload t of None \<Rightarrow> [] | Some d \<Rightarrow> d)) (\<lambda>_.
           sv_remember (ra_trade r) (ratcheted_state r s)))))"

definition restore_key :: "sup_env \<Rightarrow> ratchet \<Rightarrow> string" where
  "restore_key e r = se_uuid5 e (ra_key r @ '':restore'')"

text \<open>\<^const>\<open>True\<close> if the prior stop has to be restored.\<close>

definition settle_replacement ::
  "sup_env \<Rightarrow> deployment \<Rightarrow> tracked_position \<Rightarrow> ratchet \<Rightarrow> string \<Rightarrow> bool sup" where
  "settle_replacement e d p r oid =
     sx_bind (classify_stop_readback e oid (ra_option r) (ra_quantity r) (ra_price r)) (\<lambda>t.
     case st_outcome t of
       Stop_Working \<Rightarrow> sx_bind (commit_replacement e p r oid t) (\<lambda>_. sx_return False)
     | Stop_Ambiguous \<Rightarrow> sx_return False
     | Stop_Dead \<Rightarrow> sx_bind (sv_handoff e (ra_key r) ''restore_submit_pending'' (Some (restore_key e r))
           (Some [(''replacement'', v_payload (st_payload t))])) (\<lambda>_. sx_return True)
     | _ \<Rightarrow> sx_bind (close_on_stop_fill e d p (ra_key r) oid ''replacement_filled_on_recovery''
           ''risk_envelope_stop_filled_on_recovery'' t) (\<lambda>_. sx_return False))"

definition initial_restore_id :: "sup_env \<Rightarrow> ratchet \<Rightarrow> string" where
  "initial_restore_id e r = (if text_truthy (ra_restore_id r) then text_or (ra_restore_id r) else restore_key e r)"

definition submit_restore :: "sup_env \<Rightarrow> ratchet \<Rightarrow> string sup" where
  "submit_restore e r =
     sx_bind (sv_place_stop e (ra_option r) (ra_prior_price r) (ra_quantity r) (Some (initial_restore_id e r))) (\<lambda>result.
     let oid = (if text_truthy (or_order_id result) then text_or (or_order_id result) else initial_restore_id e r) in
     sx_bind (sv_handoff e (ra_key r) ''restore_submitted'' (Some oid) (Some [(''restore_submission_error'', v_text (or_error result))])) (\<lambda>_.
     sx_return oid))"

definition settle_restore :: "sup_env \<Rightarrow> deployment \<Rightarrow> tracked_position \<Rightarrow> ratchet \<Rightarrow> string \<Rightarrow> unit sup" where
  "settle_restore e d p r oid =
     sx_bind (classify_stop_readback e oid (ra_option r) (ra_quantity r) (ra_prior_price r)) (\<lambda>t.
     case st_outcome t of
       Stop_Working \<Rightarrow> sx_bind (adopt_recovered_ratchet_stop e p oid (ra_prior_price r)) (\<lambda>_.
         sv_resolve e (ra_key r) ''failed'' [(''stage'', PStr ''old_stop_restored''), (''order'', v_payload (st_payload t))])
     | Stop_Ambiguous \<Rightarrow> sx_return ()
     | Stop_Dead \<Rightarrow> sv_resolve e (ra_key r) ''failed'' [(''stage'', PStr ''restore_dead_zero_fill''), (''order'', v_payload (st_payload t))]
     | _ \<Rightarrow> close_on_stop_fill e d p (ra_key r) oid ''restore_filled_on_recovery'' ''risk_envelope_restore_stop_filled_on_recovery'' t)"

section \<open>The stages in order\<close>

definition EARLY_STAGES :: "string list" where
  "EARLY_STAGES = [''prepared'', ''prior_stop_cancel_pending'']"

definition SUBMIT_STAGES :: "string list" where
  "SUBMIT_STAGES = [''prior_stop_dead_zero_fill'', ''replacement_submit_pending'']"

definition restore_prior_stop :: "sup_env \<Rightarrow> deployment \<Rightarrow> tracked_position \<Rightarrow> ratchet \<Rightarrow> unit sup" where
  "restore_prior_stop e d p r = sx_bind (submit_restore e r) (settle_restore e d p r)"

definition after_replacement :: "sup_env \<Rightarrow> deployment \<Rightarrow> tracked_position \<Rightarrow> ratchet \<Rightarrow> string \<Rightarrow> unit sup" where
  "after_replacement e d p r oid =
     sx_bind (settle_replacement e d p r oid) (\<lambda>restore. if restore then restore_prior_stop e d p r else sx_return ())"

definition replace_stop :: "sup_env \<Rightarrow> deployment \<Rightarrow> tracked_position \<Rightarrow> ratchet \<Rightarrow> unit sup" where
  "replace_stop e d p r = sx_bind (submit_replacement e r) (after_replacement e d p r)"

definition resume_ratchet :: "sup_env \<Rightarrow> deployment \<Rightarrow> tracked_position \<Rightarrow> ratchet \<Rightarrow> string \<Rightarrow> unit sup" where
  "resume_ratchet e d p r stage =
     (if stage \<in> set EARLY_STAGES
      then sx_bind (clear_prior_stop e d p r) (\<lambda>dead. if dead then replace_stop e d p r else sx_return ())
      else if stage \<in> set SUBMIT_STAGES then replace_stop e d p r
      else if stage = ''replacement_submitted''
      then after_replacement e d p r (if text_truthy (ra_order_id r) then text_or (ra_order_id r) else ra_key r)
      else if stage = ''restore_submit_pending'' then restore_prior_stop e d p r
      else if stage = ''restore_submitted'' then settle_restore e d p r (initial_restore_id e r)
      else sx_return ())"

definition reconcile_stop_ratchet_intent ::
  "sup_env \<Rightarrow> deployment \<Rightarrow> tracked_position \<Rightarrow> action_intent \<Rightarrow> unit sup" where
  "reconcile_stop_ratchet_intent e d p i = (case ratchet_of p i of
      None \<Rightarrow> sx_return () | Some r \<Rightarrow> resume_ratchet e d p r (initial_stage i))"

section \<open>No two stops at a time\<close>

text \<open>A reply that proves an order dead and unfilled.\<close>

definition dead_and_unfilled :: "params \<Rightarrow> bool" where
  "dead_and_unfilled d \<longleftrightarrow> public_order_confirmed_dead_unfilled (payload_status d) (Some d)
     \<or> (order_status_word (payload_status d) (Some d) \<in> set PUBLIC_DEAD_ORDER_STATUSES
        \<and> sv_maybe_int (dict_get d ''filledQuantity'') = Inr (Some 0))"

definition proved_dead :: "broker \<Rightarrow> broker_call list \<Rightarrow> broker_call list \<Rightarrow> string \<Rightarrow> bool" where
  "proved_dead br log0 calls oid \<longleftrightarrow> (\<exists>before after d. calls = before @ Get_Order oid # after \<and> placed before = []
     \<and> br (log0 @ before) (Get_Order oid) = Reply d \<and> dead_and_unfilled d)"

lemma proved_dead_after:
  "proved_dead br (log0 @ pre) calls oid \<Longrightarrow> placed pre = [] \<Longrightarrow> proved_dead br log0 (pre @ calls) oid"
  unfolding proved_dead_def by (elim exE conjE, rule_tac x = "pre @ before" in exI) auto

lemma proved_dead_more: "proved_dead br log0 calls oid \<Longrightarrow> proved_dead br log0 (calls @ extra) oid"
  unfolding proved_dead_def by (metis append_Cons append_assoc)

lemma proved_dead_cancel: "dead_unfilled_answer br log0 calls oid \<Longrightarrow> proved_dead br log0 calls oid"
  unfolding dead_unfilled_answer_def proved_dead_def dead_and_unfilled_def by blast

lemma status_reply:
  assumes "get_order_status br oid o1 = ((status, Some d, err), o2)"
  shows "br (om_log o1) (Get_Order oid) = Reply d" "status = payload_status d"
  using assms by (auto simp: get_order_status_def om_call_def Let_def split: broker_reply.splits broker_exc.splits if_splits)

lemma verdict_dead:
  assumes "stop_verdict tx o' n x status d = Inr (Some Stop_Dead)" "status = payload_status d"
  shows "dead_and_unfilled d"
  using assms by (auto simp: stop_verdict_def dead_and_unfilled_def Let_def bind_result_Inr_iff split: if_splits)

text \<open>A reading of a stop.\<close>

lemma quiet_polls [quiets]: "quiet (stop_polls n e oid o' q x prev)"
  by (induction n arbitrary: prev) (auto intro!: quiets split: prod.split option.split)

lemma quiet_classify [quiets]: "quiet (classify_stop_readback e oid o' q x)"
  unfolding classify_stop_readback_def by (rule quiet_polls)

lemma polls_dead:
  assumes "stop_polls n e oid o' q x prev s = (Inr t, s')" "st_outcome t = Stop_Dead"
  shows "\<exists>calls. sv_log s' = sv_log s @ calls \<and> placed calls = [] \<and> proved_dead (se_broker e) (sv_log s) calls oid"
  using assms
proof (induction n arbitrary: prev s)
  case 0
  then show ?case by (cases prev) (auto simp: sx_return_def)
next
  case (Suc n)
  obtain status payload error o1 where st: "get_order_status (se_broker e) oid (sv_orders s) = ((status, payload, error), o1)"
    by (metis prod_cases3 surj_pair)
  let ?s1 = "s\<lparr>sv_orders := o1\<rparr>"
  have log1: "sv_log ?s1 = sv_log s @ [Get_Order oid]" using status_log [of "se_broker e" oid "sv_orders s"] st by simp
  have run: "sx_bind (case payload of None \<Rightarrow> sx_return None | Some d \<Rightarrow> sx_lift (stop_verdict (se_tx e) o' q x status d)) (\<lambda>v.
     case v of
       Some y \<Rightarrow> sx_return \<lparr>st_outcome = y, st_status = status, st_payload = payload, st_error = None\<rparr>
     | None \<Rightarrow> stop_polls (if error = Some ''order_not_indexed_yet'' then n else 0) e oid o' q x (status, payload, error)) ?s1 = (Inr t, s')"
    using Suc.prems(1) by (simp add: bind_total [where f = "get_order_status (se_broker e) oid", OF st])
  from run show ?case
  proof (cases rule: bind_Inr_cases)
    case (passed v s2)
    have s2: "s2 = ?s1" using passed(1) by (cases payload) (auto simp: sx_return_def sx_lift_Inr)
    show ?thesis
    proof (cases v)
      case None
      have "\<exists>calls. sv_log s' = sv_log ?s1 @ calls \<and> placed calls = [] \<and> proved_dead (se_broker e) (sv_log ?s1) calls oid"
      proof (cases "error = Some ''order_not_indexed_yet''")
        case True
        show ?thesis by (rule Suc.IH [OF _ Suc.prems(2)]) (use True passed(2) None s2 in simp)
      next
        case False
        then show ?thesis using passed(2) None s2 Suc.prems(2) by (auto simp: sx_return_def)
      qed
      then obtain calls where "sv_log s' = sv_log ?s1 @ calls" "placed calls = []" "proved_dead (se_broker e) (sv_log ?s1) calls oid"
        by blast
      then show ?thesis
        using log1 proved_dead_after [of "se_broker e" "sv_log s" "[Get_Order oid]" calls oid] by auto
    next
      case (Some y)
      then have y: "y = Stop_Dead" "s' = ?s1" using passed(2) s2 Suc.prems(2) by (auto simp: sx_return_def)
      obtain d where d: "payload = Some d" "stop_verdict (se_tx e) o' q x status d = Inr (Some Stop_Dead)"
        using passed(1) Some y by (cases payload) (auto simp: sx_return_def sx_lift_Inr)
      have "proved_dead (se_broker e) (sv_log s) [Get_Order oid] oid"
        unfolding proved_dead_def
        using status_reply [of "se_broker e" oid "sv_orders s" status d error o1] st d verdict_dead
        by (intro exI [of _ "[]"] exI [of _ "[]"] exI [of _ d]) auto
      then show ?thesis using log1 y(2) by auto
    qed
  qed auto
qed

lemma classify_dead:
  assumes "classify_stop_readback e oid o' q x s = (Inr t, s')" "st_outcome t = Stop_Dead"
  shows "\<exists>calls. sv_log s' = sv_log s @ calls \<and> placed calls = [] \<and> proved_dead (se_broker e) (sv_log s) calls oid"
  using assms unfolding classify_stop_readback_def by (rule polls_dead)

lemma quiet_exit_write [quiets]: "quiet (sv_exit_write e f)"
proof -
  have "quiet (\<lambda>s. case sv_exits s of None \<Rightarrow> (Inr (), s)
      | Some db \<Rightarrow> (case f now db of Inl x \<Rightarrow> (Inl (Py_Error x), s) | Inr db' \<Rightarrow> (Inr (), s\<lparr>sv_exits := Some db'\<rparr>)))" for now
    by (auto simp: quiet_on_def split: option.split sum.split)
  then show ?thesis unfolding sv_exit_write_def by (intro quiets)
qed

lemma quiet_intent_writes [quiets]:
  "quiet (sv_handoff e key stage restore payload)" "quiet (sv_resolve e key status d)" "quiet (sv_bind_order e key oid payload)"
  "quiet (sv_advance e old new)"
  unfolding sv_handoff_def sv_resolve_def sv_bind_order_def sv_advance_def by (intro quiets)+

lemma quiet_open_position [quiets]: "quiet (sv_open_position p)"
  unfolding sv_open_position_def by (intro quiets) simp

lemma quiet_adopt [quiets]: "quiet (adopt_recovered_ratchet_stop e p oid x)"
  unfolding adopt_recovered_ratchet_stop_def Let_def by (auto intro!: quiets split: option.split)

lemma quiet_close_on_fill [quiets]: "quiet (close_on_stop_fill e d p key oid stage reason t)"
  unfolding close_on_stop_fill_def by (intro quiets)

lemma quiet_clear_prior [quiets]: "quiet (clear_prior_stop e d p r)"
  unfolding clear_prior_stop_def prior_is_dead_def by (auto intro!: quiets split: prod.split)

lemma quiet_runtime_state [quiets]: "quiet (sv_runtime_state e tid)"
  unfolding sv_runtime_state_def by (auto intro!: quiets split: option.split)

lemma quiet_commit [quiets]: "quiet (commit_replacement e p r oid t)"
  unfolding commit_replacement_def sv_remember_def by (auto intro!: quiets split: option.split)

lemma quiet_settle_replacement [quiets]: "quiet (settle_replacement e d p r oid)"
  unfolding settle_replacement_def by (auto intro!: quiets split: stop_outcome.split)

lemma quiet_settle_restore [quiets]: "quiet (settle_restore e d p r oid)"
  unfolding settle_restore_def by (auto intro!: quiets split: stop_outcome.split)

text \<open>The stages that go on prove that the stop before them is dead.\<close>

lemma cancel_prior_proved:
  assumes "sv_cancel e oid s = (Inr (True, err), s')"
  shows "sv_log s' = sv_log s @ [Cancel oid, Get_Order oid]"
    "proved_dead (se_broker e) (sv_log s) [Cancel oid, Get_Order oid] oid"
proof -
  obtain o2 where c: "cancel_order (se_broker e) (se_late e) oid (sv_orders s) = ((True, err), o2)" "s' = s\<lparr>sv_orders := o2\<rparr>"
    using assms by (auto simp: sv_cancel_def sv_total_def split: prod.splits)
  from cancel_confirmed [OF c(1)] c(2) show "sv_log s' = sv_log s @ [Cancel oid, Get_Order oid]"
    "proved_dead (se_broker e) (sv_log s) [Cancel oid, Get_Order oid] oid" by (simp_all add: proved_dead_cancel)
qed

lemma exit_write_log: "sv_exit_write e f s = (x, s') \<Longrightarrow> sv_log s' = sv_log s"
  by (auto simp: sv_exit_write_def sx_bind_def sv_now_def split: option.splits sum.splits)

lemma clear_prior_proved:
  assumes "clear_prior_stop e d p r s = (Inr True, s')"
  shows "\<exists>calls. sv_log s' = sv_log s @ calls \<and> placed calls = [] \<and> proved_dead (se_broker e) (sv_log s) calls (ra_prior_id r)"
  using assms unfolding clear_prior_stop_def
proof (cases rule: bind_Inr_cases)
  case (passed t s1)
  obtain c1 where c1: "sv_log s1 = sv_log s @ c1" "placed c1 = []" by (rule quiet_on_log [OF quiet_classify passed(1)])
  have open_prior: "\<not> fills (st_outcome t)"
    using passed(2) by (auto simp: sx_bind_def sx_return_def split: if_splits prod.splits sum.splits)
  then have "sx_bind (prior_is_dead e r t) (\<lambda>dead. if dead then sx_bind (sv_handoff e (ra_key r) ''prior_stop_dead_zero_fill'' None
      (Some [(''prior_stop'', v_payload (st_payload t))])) (\<lambda>_. sx_return True) else sx_return False) s1 = (Inr True, s')"
    using passed(2) by simp
  then obtain s2 where dead: "prior_is_dead e r t s1 = (Inr True, s2)" and rest: "sv_log s' = sv_log s2"
    by (cases rule: bind_Inr_cases)
      (auto simp: sx_return_def sv_handoff_def elim!: bind_Inr_cases dest!: exit_write_log split: if_splits)
  show ?thesis
  proof (cases "st_outcome t = Stop_Dead")
    case True
    then show ?thesis using classify_dead [OF passed(1)] dead rest by (auto simp: prior_is_dead_def sx_return_def)
  next
    case False
    then have "sx_bind (sv_cancel e (ra_prior_id r)) (\<lambda>(canceled, _). sx_return canceled) s1 = (Inr True, s2)"
      using dead by (simp add: prior_is_dead_def)
    then obtain err where "sv_cancel e (ra_prior_id r) s1 = (Inr (True, err), s2)"
      by (cases rule: bind_Inr_cases) (auto simp: sx_return_def)
    from cancel_prior_proved [OF this] c1 rest proved_dead_after [of "se_broker e" "sv_log s" c1] show ?thesis
      by (intro exI [of _ "c1 @ [Cancel (ra_prior_id r), Get_Order (ra_prior_id r)]"]) simp
  qed
qed simp

lemma settle_replacement_proved:
  assumes "settle_replacement e d p r oid s = (Inr True, s')"
  shows "\<exists>calls. sv_log s' = sv_log s @ calls \<and> placed calls = [] \<and> proved_dead (se_broker e) (sv_log s) calls oid"
  using assms unfolding settle_replacement_def
proof (cases rule: bind_Inr_cases)
  case (passed t s1)
  have "st_outcome t = Stop_Dead" "sv_log s' = sv_log s1"
    using passed(2)
    by (auto simp: sx_return_def sv_handoff_def elim!: bind_Inr_cases dest!: exit_write_log split: stop_outcome.splits)
  with classify_dead [OF passed(1)] show ?thesis by auto
qed simp

lemma sells_submissions:
  "sells (se_broker e) (close_of (ra_option r) (ra_quantity r)) (submit_replacement e r)"
  "sells (se_broker e) (close_of (ra_option r) (ra_quantity r)) (submit_restore e r)"
  unfolding submit_replacement_def submit_restore_def Let_def
  by (intro sells_bind_quiet quiets sells_bind [OF sells_place_stop]; auto intro!: quiets split: option.split)+

text \<open>The id under which the broker accepted one of the orders.\<close>

definition accepted_as :: "(pyval \<Rightarrow> string) \<Rightarrow> broker \<Rightarrow> broker_call list \<Rightarrow> broker_call list \<Rightarrow> string \<Rightarrow> bool" where
  "accepted_as tx br log0 calls oid \<longleftrightarrow> (\<exists>before p after d. calls = before @ Place p # after
     \<and> br (log0 @ before) (Place p) = Reply d
     \<and> oid = py_str tx (or_value (dict_get d ''orderId'') (dict_get d ''id'')))"

lemma accepted_as_extend:
  "accepted_as tx br (log0 @ pre) calls oid \<Longrightarrow> accepted_as tx br log0 (pre @ calls @ post) oid"
  unfolding accepted_as_def by (elim exE conjE, rule_tac x = "pre @ before" in exI) auto

lemma submit_id:
  assumes "submit br tx p s = (Inr r, s')" "op_side p \<noteq> ''BUY''" "or_order_id r = Some oid"
  shows "accepted_as tx br (om_log s) [Place p] oid"
  using assms
  by (auto simp: submit_def om_call_def Let_def submit_failed_def accepted_as_def or_value_def Cons_eq_append_conv
      split: broker_reply.splits if_splits)

lemma retry_id:
  assumes "retry_submission br tx nid key no_guard original x p s = (Inr r, s')" "close_of o' q p" "or_order_id r = Some oid"
  shows "\<exists>calls. om_log s' = om_log s @ calls \<and> accepted_as tx br (om_log s) calls oid"
proof -
  have sell: "op_side p \<noteq> ''BUY''" "\<And>c. op_side (set_price key c p) \<noteq> ''BUY''"
    using assms(2) by (cases key; simp add: close_of_def)+
  from assms(1) [unfolded retry_submission_def] sends_nothing_cache show ?thesis
  proof (cases rule: bind_quiet_cases)
    case (passed u s1 c1)
    from passed(4) quiet_lift [of om_log] show ?thesis
    proof (cases rule: bind_quiet_cases)
      case (passed corrected s2 c2)
      have run: "submit br tx (set_price key corrected p) s2 = (Inr r, s')"
        using passed(4) sell by (simp add: retry_payload_def sx_bind_def om_guard_def no_guard_def sx_return_def Let_def)
      from submit_id [OF run sell(2) assms(3)] submit_effect(1) [OF run]
        accepted_as_extend [of tx br "om_log s" "c1 @ c2" "[Place (set_price key corrected p)]" oid "[]"]
      show ?thesis using passed(2,3) \<open>om_log s1 = om_log s @ c1\<close> by auto
    qed (use passed in auto)
  qed auto
qed

lemma submission_id:
  assumes "submit_with_increment_retry br tx nid key no_guard p s = (Inr r, s')" "close_of o' q p" "or_order_id r = Some oid"
  shows "\<exists>calls. om_log s' = om_log s @ calls \<and> accepted_as tx br (om_log s) calls oid"
proof -
  obtain res1 s1 where sub: "submit br tx p s = (res1, s1)" by fastforce
  note eff = submit_effect [OF sub]
  from eff(2) obtain r1 where r1: "res1 = Inr r1" by auto
  have sell: "op_side p \<noteq> ''BUY''" using assms(2) by (simp add: close_of_def)
  consider (stop) "s' = s1" "r = r1"
    | (again) x original where "retry_submission br tx nid key no_guard original x p s1 = (Inr r, s')"
    using assms(1) sub r1
    by (auto simp: submit_with_increment_retry_def sx_bind_def om_guard_def no_guard_def sx_return_def sx_raise_def
        split: if_splits option.splits)
  then show ?thesis
  proof cases
    case stop
    then show ?thesis using submit_id [OF _ sell, of br tx s r1 s1 oid] sub r1 assms(3) eff(1) by auto
  next
    case again
    from retry_id [OF again assms(2,3)] obtain c where "om_log s' = om_log s1 @ c" "accepted_as tx br (om_log s1) c oid" by blast
    with eff(1) accepted_as_extend [of tx br "om_log s" "[Place p]" c oid "[]"] show ?thesis by auto
  qed
qed

lemma place_stop_id:
  assumes "sv_place_stop e o' price n oid s = (Inr r, s')" "or_order_id r = Some got"
  shows "\<exists>calls. sv_log s' = sv_log s @ calls \<and> accepted_as (se_tx e) (se_broker e) (sv_log s) calls got"
proof -
  have "\<exists>calls. om_log s1 = om_log s0 @ calls \<and> accepted_as tx br (om_log s0) calls got"
    if run: "place_stop_loss_order br tx nid o' price n oid' s0 = (Inr r, s1)" for br tx nid oid' s0 s1
    using run [unfolded place_stop_loss_order_def] correction_quiet
  proof (cases rule: bind_quiet_cases)
    case (passed p s2 calls)
    have p: "close_of o' n p" by (rule correction_close [OF passed(1)]) simp
    from submission_id [OF passed(4) p assms(2)] obtain c where "om_log s1 = om_log s2 @ c" "accepted_as tx br (om_log s2) c got" by blast
    with passed(2) accepted_as_extend [of tx br "om_log s0" calls c got "[]"] show ?thesis by auto
  qed simp
  then show ?thesis using assms(1) by (auto simp: sv_place_stop_def sx_bind_def sv_uuid_def sv_zoom_def split: prod.splits)
qed

text \<open>The order that stands for the replacement: known from the intent, or accepted in this step.\<close>

definition is_replacement :: "sup_env \<Rightarrow> broker_call list \<Rightarrow> broker_call list \<Rightarrow> ratchet \<Rightarrow> string \<Rightarrow> bool" where
  "is_replacement e log0 calls r oid \<longleftrightarrow> oid = ra_key r \<or> ra_order_id r = Some oid
     \<or> accepted_as (se_tx e) (se_broker e) log0 calls oid"

lemma replacement_id:
  assumes "submit_replacement e r s = (Inr oid, s')" "sv_log s' = sv_log s @ calls"
  shows "is_replacement e (sv_log s) calls r oid"
proof -
  have wrote: "sv_handoff e (ra_key r) st re pl s1 = (x, s2) \<Longrightarrow> sv_log s2 = sv_log s1" for st re pl s1 x s2
    unfolding sv_handoff_def by (rule exit_write_log)
  have bound: "(case (or_order_id result, ra_order_id r) of (Some i, None) \<Rightarrow> sv_bind_order e (ra_key r) i None
      | _ \<Rightarrow> sx_return ()) s1 = (x, s2) \<Longrightarrow> sv_log s2 = sv_log s1" for result s1 x s2
    by (auto simp: sv_bind_order_def sx_return_def dest!: exit_write_log split: option.splits)
  from assms(1) [unfolded submit_replacement_def] show ?thesis
  proof (cases rule: bind_Inr_cases)
    case (passed u s1)
    from passed(2) show ?thesis
    proof (cases rule: bind_Inr_cases)
      case (passed result s2)
      note placed_it = passed(1)
      from passed(2) show ?thesis
      proof (cases rule: bind_Inr_cases)
        case (passed u2 s3)
        note b = bound [OF passed(1)]
        from passed(2) show ?thesis
        proof (cases rule: bind_Inr_cases)
          case (passed u3 s4)
          have logs: "sv_log s1 = sv_log s" "sv_log s' = sv_log s2"
            using wrote \<open>sv_handoff e (ra_key r) _ None None s = _\<close> b passed by (auto simp: sx_return_def)
          have oid: "oid = (if text_truthy (or_order_id result) then text_or (or_order_id result) else ra_key r)"
            using passed(2) by (simp add: sx_return_def)
          show ?thesis
          proof (cases "or_order_id result")
            case (Some got)
            from place_stop_id [OF placed_it this] logs assms(2) show ?thesis using oid Some by (auto simp: is_replacement_def)
          qed (use oid in \<open>simp add: is_replacement_def\<close>)
        qed simp
      qed simp
    qed simp
  qed simp
qed

abbreviation ratchet_close :: "ratchet \<Rightarrow> order_payload \<Rightarrow> bool" where
  "ratchet_close r \<equiv> close_of (ra_option r) (ra_quantity r)"

lemma restore_runs:
  assumes "restore_prior_stop e d p r s = (x, s')"
  shows "\<exists>calls. sv_log s' = sv_log s @ calls \<and> one_live (se_broker e) (sv_log s) (ratchet_close r) calls"
  using sells_log [OF sells_bind [OF sells_submissions(2) quiet_settle_restore] assms [unfolded restore_prior_stop_def]] by metis

lemma after_replacement_runs:
  assumes "after_replacement e d p r oid s = (x, s')"
  shows "\<exists>calls. sv_log s' = sv_log s @ calls \<and> one_live (se_broker e) (sv_log s) (ratchet_close r) calls
    \<and> (placed calls \<noteq> [] \<longrightarrow> proved_dead (se_broker e) (sv_log s) calls oid)"
  using assms unfolding after_replacement_def
proof (cases rule: bind_Inr_cases)
  case (failed y)
  from quiet_on_log [OF quiet_settle_replacement failed(2)] show ?thesis by (metis one_live_quiet)
next
  case (passed restore s1)
  show ?thesis
  proof (cases restore)
    case True
    with settle_replacement_proved [of e d p r oid s s1] passed(1) obtain c1 where
      c1: "sv_log s1 = sv_log s @ c1" "placed c1 = []" "proved_dead (se_broker e) (sv_log s) c1 oid" by auto
    from restore_runs [of e d p r s1 x s'] passed(2) True obtain c2 where
      c2: "sv_log s' = sv_log s1 @ c2" "one_live (se_broker e) (sv_log s1) (ratchet_close r) c2" by auto
    from c1 c2 show ?thesis
      by (intro exI [of _ "c1 @ c2"]) (simp add: one_live_prefix proved_dead_more)
  next
    case False
    then have "s' = s1" using passed(2) by (simp add: sx_return_def)
    with quiet_on_log [OF quiet_settle_replacement passed(1)] show ?thesis by (metis one_live_quiet)
  qed
qed

text \<open>
  The calls of a replacement: those of the replacement itself, then those of the restoration,
  which sends something only after the replacement was proved dead.
\<close>

definition replaced_by :: "sup_env \<Rightarrow> ratchet \<Rightarrow> broker_call list \<Rightarrow> broker_call list \<Rightarrow> broker_call list \<Rightarrow> bool" where
  "replaced_by e r log0 c1 c2 \<longleftrightarrow> one_live (se_broker e) log0 (ratchet_close r) c1
     \<and> one_live (se_broker e) (log0 @ c1) (ratchet_close r) c2
     \<and> (placed c2 \<noteq> [] \<longrightarrow> (\<exists>oid. is_replacement e log0 c1 r oid \<and> proved_dead (se_broker e) (log0 @ c1) c2 oid))"

lemma is_replacement_after: "is_replacement e (log0 @ pre) calls r oid \<Longrightarrow> is_replacement e log0 (pre @ calls) r oid"
  using accepted_as_extend [of "se_tx e" "se_broker e" log0 pre calls oid "[]"] by (auto simp: is_replacement_def)

lemma replaced_by_prefix:
  "replaced_by e r (log0 @ pre) c1 c2 \<Longrightarrow> placed pre = [] \<Longrightarrow> replaced_by e r log0 (pre @ c1) c2"
  unfolding replaced_by_def by (auto intro: one_live_prefix is_replacement_after)

lemma replace_runs:
  assumes "replace_stop e d p r s = (x, s')"
  shows "\<exists>c1 c2. sv_log s' = sv_log s @ c1 @ c2 \<and> replaced_by e r (sv_log s) c1 c2"
  using assms unfolding replace_stop_def
proof (cases rule: bind_Inr_cases)
  case (failed y)
  obtain c1 where "sv_log s' = sv_log s @ c1" "one_live (se_broker e) (sv_log s) (ratchet_close r) c1"
    using sells_log [OF sells_submissions(1) failed(2)] .
  then show ?thesis
    by (intro exI [of _ c1] exI [of _ "[]"]) (simp add: replaced_by_def one_live_quiet)
next
  case (passed oid s1)
  obtain c1 where c1: "sv_log s1 = sv_log s @ c1" "one_live (se_broker e) (sv_log s) (ratchet_close r) c1"
    using sells_log [OF sells_submissions(1) passed(1)] .
  from after_replacement_runs [OF passed(2)] obtain c2 where c2: "sv_log s' = sv_log s1 @ c2"
    "one_live (se_broker e) (sv_log s1) (ratchet_close r) c2"
    "placed c2 \<noteq> [] \<longrightarrow> proved_dead (se_broker e) (sv_log s1) c2 oid" by blast
  from replacement_id [OF passed(1) c1(1)] c1 c2 show ?thesis
    by (intro exI [of _ c1] exI [of _ c2]) (auto simp: replaced_by_def)
qed

lemma restore_only:
  assumes "\<exists>calls. sv_log s' = sv_log s @ calls \<and> one_live (se_broker e) (sv_log s) (ratchet_close r) calls
    \<and> (placed calls \<noteq> [] \<longrightarrow> P calls)"
  shows "\<exists>c1 c2. sv_log s' = sv_log s @ c1 @ c2 \<and> one_live (se_broker e) (sv_log s) (ratchet_close r) c1
    \<and> one_live (se_broker e) (sv_log s @ c1) (ratchet_close r) c2 \<and> placed c1 = [] \<and> (placed c2 \<noteq> [] \<longrightarrow> c1 = [] \<and> P c2)"
  using assms by (elim exE conjE, rule_tac x = "[]" in exI, rule_tac x = calls in exI) (auto simp: one_live_quiet)

lemma replaced_by_quiet: "placed c = [] \<Longrightarrow> replaced_by e r log0 c []"
  by (simp add: replaced_by_def one_live_quiet)

lemma quiet_replaced:
  assumes "quiet m" "m s = (x, s')"
  shows "\<exists>c1 c2. sv_log s' = sv_log s @ c1 @ c2 \<and> replaced_by e r (sv_log s) c1 c2 \<and> placed (c1 @ c2) = []"
  using quiet_on_log [OF assms] by (metis append_Nil2 replaced_by_quiet)

text \<open>From the start: the old stop has to be proved dead before anything is sent.\<close>

lemma early_runs:
  assumes "sx_bind (clear_prior_stop e d p r) (\<lambda>dead. if dead then replace_stop e d p r else sx_return ()) s = (x, s')"
  shows "\<exists>c1 c2. sv_log s' = sv_log s @ c1 @ c2 \<and> replaced_by e r (sv_log s) c1 c2
    \<and> (placed (c1 @ c2) \<noteq> [] \<longrightarrow> proved_dead (se_broker e) (sv_log s) c1 (ra_prior_id r))"
  using assms
proof (cases rule: bind_Inr_cases)
  case (failed y)
  from quiet_replaced [OF quiet_clear_prior failed(2)] show ?thesis by blast
next
  case (passed dead s1)
  show ?thesis
  proof (cases dead)
    case True
    with clear_prior_proved [of e d p r s s1] passed(1) obtain c0 where c0: "sv_log s1 = sv_log s @ c0" "placed c0 = []"
      "proved_dead (se_broker e) (sv_log s) c0 (ra_prior_id r)" by auto
    from replace_runs [of e d p r s1 x s'] passed(2) True obtain c1 c2 where
      c: "sv_log s' = sv_log s1 @ c1 @ c2" "replaced_by e r (sv_log s1) c1 c2" by auto
    have "replaced_by e r (sv_log s) (c0 @ c1) c2" by (rule replaced_by_prefix) (use c c0 in simp_all)
    with c c0 show ?thesis by (intro exI [of _ "c0 @ c1"] exI [of _ c2]) (auto simp: proved_dead_more)
  next
    case False
    with passed(2) have "s' = s1" by (simp add: sx_return_def)
    with quiet_replaced [OF quiet_clear_prior passed(1)] show ?thesis by blast
  qed
qed

text \<open>A replacement that was submitted already: what follows is at most the restoration.\<close>

lemma submitted_runs:
  assumes "after_replacement e d p r (if text_truthy (ra_order_id r) then text_or (ra_order_id r) else ra_key r) s = (x, s')"
  shows "\<exists>c1 c2. sv_log s' = sv_log s @ c1 @ c2 \<and> replaced_by e r (sv_log s) c1 c2"
proof -
  let ?oid = "if text_truthy (ra_order_id r) then text_or (ra_order_id r) else ra_key r"
  have "is_replacement e (sv_log s) [] r ?oid" by (auto simp: is_replacement_def text_truthy_def text_or_def split: option.splits)
  moreover from restore_only [OF after_replacement_runs [OF assms]] obtain c1 c2 where "sv_log s' = sv_log s @ c1 @ c2"
    "one_live (se_broker e) (sv_log s) (ratchet_close r) c1" "one_live (se_broker e) (sv_log s @ c1) (ratchet_close r) c2"
    "placed c2 \<noteq> [] \<longrightarrow> c1 = [] \<and> proved_dead (se_broker e) (sv_log s) c2 ?oid" by blast
  ultimately show ?thesis by (intro exI [of _ c1] exI [of _ c2]) (auto simp: replaced_by_def)
qed


section \<open>A ratchet that was interrupted\<close>

definition demo_ratchet_intent :: action_intent where
  "demo_ratchet_intent = demo_intent\<lparr>ai_kind := ''stop_ratchet'', ai_prior_stop_id := Some ''s0'', ai_prior_stop_price := Some 1,
     ai_stop_price := Some (3/2), ai_stage := ''prior_stop_cancel_pending'', ai_quantity := Some 3, ai_order_id := None\<rparr>"

text \<open>A broker at which the old stop is gone, and which answers every order it takes with its id.\<close>

definition canceled_broker :: broker where
  "canceled_broker calls c = (case c of
      Place p \<Rightarrow> Reply [(''orderId'', PStr ''s1'')]
    | Get_Order oid \<Rightarrow> Reply [(''status'', PStr ''CANCELLED''), (''filledQuantity'', PInt 0)]
    | _ \<Rightarrow> Reply [])"

definition demo_resumed :: "(broker_exc + unit) \<times> sup_state" where
  "demo_resumed = reconcile_stop_ratchet_intent (demo_sup_env canceled_broker) demo_exit_deployment demo_exit_position
     demo_ratchet_intent fresh_sup"

lemma demo_resumed_sends: "map op_quantity (placed (sv_log (snd demo_resumed))) = [3]"
  by code_simp


end
