(* ===== verification/Forced_Flat.thy ===== *)
theory Forced_Flat
  imports Stop_Handoff
begin

text \<open>
  The forced flat (\<open>src/bhiksha/execution/supervisor.py\<close>): the sweep at the hard flat time
  (\<open>close_due_positions\<close>) and the emergency flat (\<open>halt_and_flatten_positions\<close>). Before a live
  position is sold, its durable exit actions are settled: an interrupted stop ratchet is resumed, a
  working partial exit is cancelled or its fill is booked. A paper position is closed at its quote.
  The objects of the tracker are read afresh for every position of the sweep, as Python's shared
  references do. The operator's sheet and the Cartographer's facts are left out.
\<close>

section \<open>Durable exit actions\<close>

definition sv_open_intents :: "sup_env \<Rightarrow> string \<Rightarrow> action_intent list sup" where
  "sv_open_intents e tid = sx_bind (sv_get sv_exits) (\<lambda>db. case db of
      None \<Rightarrow> sx_return [] | Some x \<Rightarrow> sx_lift (get_open_action_intents (se_exit_codec e) tid x))"

definition of_kind :: "string \<Rightarrow> action_intent list \<Rightarrow> action_intent list" where
  "of_kind kind = filter (\<lambda>i. ai_kind i = kind)"

text \<open>\<open>intent.broker_order_id or intent.idempotency_key\<close>.\<close>

definition intent_lookup_id :: "action_intent \<Rightarrow> string" where
  "intent_lookup_id i = (if text_truthy (ai_order_id i) then text_or (ai_order_id i) else ai_key i)"

definition bind_found_order :: "sup_env \<Rightarrow> action_intent \<Rightarrow> params \<Rightarrow> action_intent sup" where
  "bind_found_order e i d = (if ai_order_id i \<noteq> None then sx_return i
     else sx_bind (sv_bind_order e (ai_key i) (intent_lookup_id i) (Some d)) (\<lambda>_.
       sx_return (i\<lparr>ai_order_id := Some (intent_lookup_id i)\<rparr>)))"

text \<open>A stop at breakeven counts only if the broker shows exactly the stop that was asked for.\<close>

definition breakeven_stop_works ::
  "(pyval \<Rightarrow> string) \<Rightarrow> tracked_position \<Rightarrow> action_intent \<Rightarrow> params \<Rightarrow> bool result" where
  "breakeven_stop_works tx p i d =
     bind_result (order_contract tx d) (\<lambda>contract.
     bind_result (matches_exit_order_identity tx d (tp_option_symbol p)) (\<lambda>matched.
     if \<not> matched \<or> contract \<noteq> normalize_option_symbol (text_or (tp_option_symbol p))
        \<or> (case ai_stop_price i of None \<Rightarrow> True | Some x \<Rightarrow> \<not> same_cents (broker_stop_price d) x)
     then Inr False
     else bind_result (sv_remaining_order_quantity d) (\<lambda>left. Inr (left = Some (tp_quantity p)))))"

definition breakeven_state :: "action_intent \<Rightarrow> exit_runtime_state \<Rightarrow> exit_runtime_state" where
  "breakeven_state i s = s\<lparr>er_committed_stop := ai_stop_price i, er_recovery_status := ''active'',
     er_degraded_reason := None, er_version := er_version s + 1, er_breakeven_emitted := True,
     er_runner_state := ''post_t1''\<rparr>"

definition settle_breakeven ::
  "sup_env \<Rightarrow> tracked_position \<Rightarrow> action_intent \<Rightarrow> params \<Rightarrow> string \<Rightarrow> unit sup" where
  "settle_breakeven e p i d word =
     (if word \<in> set PUBLIC_WORKING_ORDER_STATUSES
      then sx_bind (sx_lift (breakeven_stop_works (se_tx e) p i d)) (\<lambda>works.
        if \<not> works then sx_return ()
        else sx_bind (sv_runtime_state e (ai_trade_id i)) (\<lambda>durable. case durable of
            None \<Rightarrow> sx_return ()
          | Some s \<Rightarrow>
              sx_bind (sv_advance e s (breakeven_state i s)) (\<lambda>_.
              sx_bind (sv_resolve e (ai_key i) ''confirmed'' d) (\<lambda>_.
              sv_remember (ai_trade_id i) (breakeven_state i s)))))
      else if word \<in> set PUBLIC_DEAD_ORDER_STATUSES then sv_resolve e (ai_key i) ''failed'' d
      else sx_return ())"

text \<open>The leg of a partial exit, as it is recorded from its intent.\<close>

definition intent_leg :: "deployment \<Rightarrow> tracked_position \<Rightarrow> action_intent \<Rightarrow> pydt \<Rightarrow> partial_leg" where
  "intent_leg d p i created = \<lparr>pf_id = None, pf_trade_id = ai_trade_id i,
     pf_closed_quantity = (case ai_quantity i of None \<Rightarrow> 0 | Some n \<Rightarrow> n), pf_order_id = ai_order_id i,
     pf_exit_rule = Some ''target_1_partial'', pf_fill_price = None, pf_fill_quantity = None, pf_filled_at = None,
     pf_order_status = None, pf_origin = ''partial_scale'', pf_enrich_attempts = 0, pf_abandoned_reason = None,
     pl_deployment_id = dep_id d, pl_symbol = tp_symbol p, pl_option_symbol = tp_option_symbol p,
     pl_submitted_at = Some created, pl_order_type = None, pl_broker_payload = None\<rparr>"

definition sv_leg_id :: "sup_env \<Rightarrow> partial_leg \<Rightarrow> int sup" where
  "sv_leg_id e r = (\<lambda>s. let (i, db) = sq_record_partial_fill (se_codec e) r (sv_trades s)
     in (Inr i, s\<lparr>sv_trades := db\<rparr>))"

definition book_partial_fill ::
  "sup_env \<Rightarrow> action_intent \<Rightarrow> partial_leg \<Rightarrow> params \<Rightarrow> exit_fill_details \<Rightarrow> unit sup" where
  "book_partial_fill e i leg d f =
     sx_bind (sv_leg_id e leg) (\<lambda>n.
     sx_bind (sv_do (\<lambda>s. s\<lparr>sv_trades := sq_enrich_partial_fill (se_codec e) n (fd_price f) (fd_quantity f) (fd_filled_at f)
         (fd_status f) (fd_type f) (fd_payload f) (sv_trades s)\<rparr>)) (\<lambda>_.
     confirm_partial_action_intent e (ai_trade_id i) (ai_order_id i)
       (case fd_quantity f of None \<Rightarrow> 0 | Some n \<Rightarrow> n) d))"

text \<open>Whether the leg filled is asked of its contract alone; the time it was submitted plays no part.\<close>

definition settle_partial ::
  "sup_env \<Rightarrow> deployment \<Rightarrow> tracked_position \<Rightarrow> action_intent \<Rightarrow> params \<Rightarrow> string option \<Rightarrow> unit sup" where
  "settle_partial e d p i pl status =
     sx_bind (sx_lift (exit_fill_details (se_iso_parse e) (Some pl) status)) (\<lambda>f.
     sx_bind (sx_lift (leg_filled e (intent_leg d p i (Aware 0)) pl status f)) (\<lambda>filled.
     if filled
     then sx_bind (case ai_created_at i of Some t \<Rightarrow> sx_return t | None \<Rightarrow> sv_now e) (\<lambda>created.
          book_partial_fill e i (intent_leg d p i created) pl f)
     else if order_status_word status (Some pl) \<in> set PUBLIC_DEAD_ORDER_STATUSES
     then sv_resolve e (ai_key i) ''failed'' pl
     else sx_return ()))"

text \<open>\<open>_reconcile_open_profile_intents\<close>, one intent and all of them.\<close>

definition settle_profile_intent ::
  "sup_env \<Rightarrow> deployment \<Rightarrow> tracked_position \<Rightarrow> action_intent \<Rightarrow> unit sup" where
  "settle_profile_intent e d p i =
     (if ai_kind i = ''stop_ratchet'' then reconcile_stop_ratchet_intent e d p i
      else sx_bind (sv_status_within e (intent_lookup_id i) ''timeout'') (\<lambda>(status, payload, error).
        case (if text_truthy error then None else payload) of
          None \<Rightarrow> sx_return ()
        | Some pl \<Rightarrow>
            sx_bind (bind_found_order e i pl) (\<lambda>i'.
            if ai_kind i' = ''stop_to_breakeven'' then settle_breakeven e p i' pl (order_status_word status (Some pl))
            else if ai_kind i' = ''partial_scale'' then settle_partial e d p i' pl status
            else sx_return ())))"

definition reconcile_open_profile_intents ::
  "sup_env \<Rightarrow> deployment \<Rightarrow> tracked_position \<Rightarrow> action_intent list \<Rightarrow> unit sup" where
  "reconcile_open_profile_intents e d p = sx_each (settle_profile_intent e d p)"

section \<open>What has to be settled before a position is sold\<close>

text \<open>\<open>_tracked_position_like\<close>: the first tracked position of the deployment in the contract.\<close>

definition alike :: "tracked_position \<Rightarrow> tracked_position \<Rightarrow> bool" where
  "alike p q \<longleftrightarrow> tp_deployment_id q = tp_deployment_id p \<and> tp_symbol q = tp_symbol p
     \<and> tp_option_symbol q = tp_option_symbol p"

definition tracked_position_like :: "tracked_position \<Rightarrow> sup_state \<Rightarrow> tracked_position option" where
  "tracked_position_like p s = find (alike p) (pt_positions (sv_tracker s))"

definition rollback_unconfirmed_target_1 :: "tracked_position \<Rightarrow> unit sup" where
  "rollback_unconfirmed_target_1 p = sv_do (\<lambda>s.
     let key = profile_state_key (ladder_key_position p) in
     case map_of (sv_ladder s) key of None \<Rightarrow> s
     | Some st \<Rightarrow> s\<lparr>sv_ladder := AList.update key (st\<lparr>target_1_banked := False, target_1_premium := None,
         banked_quantity := 0, stop_at_breakeven := False, breakeven_emitted := False\<rparr>) (sv_ladder s)\<rparr>)"

definition request_refresh :: "unit sup" where
  "request_refresh = sv_do (\<lambda>s. s\<lparr>sv_refresh_wanted := True\<rparr>)"

text \<open>Stop ratchets: resumed first; while one is still open the position is not sold.\<close>

definition handoff_event :: "deployment \<Rightarrow> string \<Rightarrow> action_intent list \<Rightarrow> params \<Rightarrow> params" where
  "handoff_event d reason is ident =
     [(''category'', PStr (reason @ ''_stop_ratchet_confirmation_pending'')), (''deployment_id'', PStr (dep_id d))] @ ident @
     [(''stage'', PStr reason),
      (''open_stop_ratchet_intents'', PList (map (\<lambda>i. PDict [(''idempotency_key'', PStr (ai_key i)),
         (''handoff_stage'', PStr (ai_stage i)), (''prior_stop_order_id'', v_text (ai_prior_stop_id i)),
         (''replacement_order_id'', v_text (ai_order_id i)), (''restore_order_id'', v_text (ai_restore_id i))]) is))]"

definition resume_stop_handoffs ::
  "sup_env \<Rightarrow> deployment \<Rightarrow> tracked_position \<Rightarrow> string \<Rightarrow> string \<Rightarrow> action_intent list \<Rightarrow>
   (tracked_position \<times> action_intent list) option sup" where
  "resume_stop_handoffs e d p reason tid is =
     (if of_kind ''stop_ratchet'' is = [] then sx_return (Some (p, is))
      else sx_bind (sx_each (reconcile_stop_ratchet_intent e d p) (of_kind ''stop_ratchet'' is)) (\<lambda>_.
        sx_bind (sv_get (tracked_position_like p)) (\<lambda>tracked. case tracked of
            None \<Rightarrow> sx_return None
          | Some q \<Rightarrow>
              sx_bind (sv_open_intents e tid) (\<lambda>still.
              if of_kind ''stop_ratchet'' still = [] then sx_return (Some (q, still))
              else sx_bind request_refresh (\<lambda>_.
                sx_bind (sv_get (exit_event_identity d q None)) (\<lambda>ident.
                sx_bind (sv_emit ''runtime_issue'' (handoff_event d reason (of_kind ''stop_ratchet'' still) ident)) (\<lambda>_.
                sx_return None)))))))"

text \<open>A partial exit: cancelled, or settled from what the broker says of it.\<close>

definition cancel_partial_exit ::
  "sup_env \<Rightarrow> deployment \<Rightarrow> tracked_position \<Rightarrow> string \<Rightarrow> action_intent \<Rightarrow> unit sup" where
  "cancel_partial_exit e d p reason i =
     sx_bind (sv_cancel e (intent_lookup_id i)) (\<lambda>(canceled, error).
     sx_bind (sv_get (exit_event_identity d p (Some (ai_key i)))) (\<lambda>ident.
     sx_bind (sv_emit ''forced_flat_partial_cancel'' ([(''deployment_id'', PStr (dep_id d))] @ ident @
       [(''symbol'', PStr (tp_symbol p)), (''option_symbol'', v_text (tp_option_symbol p)),
        (''broker_order_id'', PStr (intent_lookup_id i)), (''forced_flat_reason'', PStr reason),
        (''canceled_dead_unfilled'', PBool canceled), (''error'', v_text error)])) (\<lambda>_.
     if canceled
     then sx_bind (sv_resolve e (ai_key i) ''failed''
            [(''stage'', PStr (reason @ ''_cancel_working_partial'')), (''error'', v_text error)]) (\<lambda>_.
          rollback_unconfirmed_target_1 p)
     else reconcile_open_profile_intents e d p [i])))"

text \<open>The quantity that the booked partial fills leave, if the position does not show it yet.\<close>

definition residual_quantity :: "exit_runtime_state \<Rightarrow> int" where
  "residual_quantity x = er_seed_quantity x - er_banked_quantity x"

definition quantity_outdated :: "tracked_position \<Rightarrow> exit_runtime_state option \<Rightarrow> bool" where
  "quantity_outdated p durable = (case durable of None \<Rightarrow> False
     | Some x \<Rightarrow> 0 < er_banked_quantity x \<and> tp_quantity p \<noteq> residual_quantity x)"

definition partial_event ::
  "deployment \<Rightarrow> tracked_position \<Rightarrow> string \<Rightarrow> action_intent list \<Rightarrow> exit_runtime_state option \<Rightarrow> params \<Rightarrow> params" where
  "partial_event d p reason is durable ident =
     [(''category'', PStr (reason @ ''_partial_scale_confirmation_pending'')), (''deployment_id'', PStr (dep_id d))] @ ident @
     [(''symbol'', PStr (tp_symbol p)), (''option_symbol'', v_text (tp_option_symbol p)),
      (''position_quantity'', PInt (tp_quantity p)),
      (''expected_residual_quantity'', v_int (map_option residual_quantity durable)),
      (''open_partial_intents'', PList (map (\<lambda>i. PStr (ai_key i)) (of_kind ''partial_scale'' is))), (''stage'', PStr reason)]"

definition settle_partial_exits ::
  "sup_env \<Rightarrow> deployment \<Rightarrow> tracked_position \<Rightarrow> string \<Rightarrow> string \<Rightarrow> action_intent list \<Rightarrow> tracked_position option sup" where
  "settle_partial_exits e d p reason tid is =
     sx_bind (sx_each (cancel_partial_exit e d p reason) (of_kind ''partial_scale'' is)) (\<lambda>_.
     sx_bind (if of_kind ''partial_scale'' is = [] then sx_return is else sv_open_intents e tid) (\<lambda>still.
     sx_bind (sv_runtime_state e tid) (\<lambda>durable.
     sx_bind (case durable of None \<Rightarrow> sx_return () | Some x \<Rightarrow> sv_remember tid x) (\<lambda>_.
     if of_kind ''partial_scale'' still \<noteq> [] \<or> quantity_outdated p durable
     then sx_bind request_refresh (\<lambda>_.
          sx_bind (sv_get (exit_event_identity d p None)) (\<lambda>ident.
          sx_bind (sv_emit ''runtime_issue'' (partial_event d p reason still durable ident)) (\<lambda>_.
          sx_return None)))
     else sx_bind (sv_get (tracked_position_like p)) (\<lambda>tracked.
          sx_return (Some (case tracked of None \<Rightarrow> p | Some q \<Rightarrow> q)))))))"

text \<open>\<open>_prepare_position_for_forced_flat\<close>: \<^const>\<open>None\<close> if the position must not be sold in this sweep.\<close>

definition prepare_position_for_forced_flat ::
  "sup_env \<Rightarrow> deployment \<Rightarrow> tracked_position \<Rightarrow> string \<Rightarrow> tracked_position option sup" where
  "prepare_position_for_forced_flat e d p reason =
     sx_bind (sv_get sv_exits) (\<lambda>db. case (tp_trade_id p, db) of
         (Some tid, Some _) \<Rightarrow>
           sx_bind (sv_open_intents e tid) (\<lambda>is.
           sx_bind (resume_stop_handoffs e d p reason tid is) (\<lambda>r. case r of
               None \<Rightarrow> sx_return None
             | Some (q, still) \<Rightarrow> settle_partial_exits e d q reason tid still))
       | _ \<Rightarrow> sx_return (Some p))"

section \<open>Closing a paper position\<close>

definition paper_payload :: "sup_env \<Rightarrow> tracked_position \<Rightarrow> public_quote \<Rightarrow> real option \<Rightarrow> pydt \<Rightarrow> params" where
  "paper_payload e p q price now =
     [(''source'', PStr (if tp_source p = ''shadow'' then ''paper_shadow'' else ''dry_run'')),
      (''symbol'', v_text (tp_option_symbol p)), (''bid'', v_float (pq_bid q)), (''ask'', v_float (pq_ask q)),
      (''last'', v_float (pq_last q)), (''spread_pct'', v_float (quote_spread_pct q)), (''averagePrice'', v_real price),
      (''filledQuantity'', PInt (tp_quantity p)), (''closedAt'', PStr (iso_text (se_codec e) now)),
      (''status'', PStr ''FILLED''), (''type'', PStr ''PAPER'')]"

definition paper_exit_fill_details :: "sup_env \<Rightarrow> tracked_position \<Rightarrow> exit_fill_details sup" where
  "paper_exit_fill_details e p =
     sx_bind (if text_truthy (tp_option_symbol p)
       then sx_bind (sv_quote e (text_or (tp_option_symbol p))) (\<lambda>q.
            sx_bind (sx_lift (exit_reference_price q)) (\<lambda>price.
            sx_bind (sv_now e) (\<lambda>now. sx_return (price, Some (PDict (paper_payload e p q price now))))))
       else sx_return (None, None)) (\<lambda>(price, payload).
     if price = None
     then sx_return \<lparr>fd_price = None, fd_quantity = None, fd_filled_at = None, fd_status = None, fd_type = None,
            fd_payload = payload\<rparr>
     else sx_bind (sv_now e) (\<lambda>now. sx_return \<lparr>fd_price = price, fd_quantity = Some (tp_quantity p),
            fd_filled_at = Some now, fd_status = Some ''FILLED'', fd_type = Some ''PAPER'', fd_payload = payload\<rparr>))"

text \<open>\<open>_mark_dry_run_closed_once\<close>: a shadow trade is closed by a conditional write, which one caller wins.\<close>

definition mark_dry_run_closed_once ::
  "sup_env \<Rightarrow> tracked_position \<Rightarrow> string \<Rightarrow> exit_fill_details \<Rightarrow> bool sup" where
  "mark_dry_run_closed_once e p oid f = (case tp_trade_id p of
      None \<Rightarrow> sx_return True
    | Some tid \<Rightarrow>
        sx_bind (sv_now e) (\<lambda>now.
        if tp_source p = ''shadow''
        then (\<lambda>s. let (won, db) = sq_mark_closed_if_open (se_codec e) (iso_text (se_codec e) now) tid
                (facts_of_details (Some oid) f) None (sv_trades s) in (Inr won, s\<lparr>sv_trades := db\<rparr>))
        else sx_bind (sv_do (\<lambda>s. s\<lparr>sv_trades := sq_mark_closed (se_codec e) (iso_text (se_codec e) now) tid
                (facts_of_details (Some oid) f) None (sv_trades s)\<rparr>)) (\<lambda>_. sx_return True)))"

text \<open>\<open>deployment.exit.stop_loss_pct or deployment.risk.stop_loss_pct\<close>.\<close>

definition stop_pct_of :: "deployment \<Rightarrow> real" where
  "stop_pct_of d = (if xs_stop_loss_pct (dep_exit d) \<noteq> 0 then xs_stop_loss_pct (dep_exit d) else dep_risk_stop_loss_pct d)"

definition emit_shadow_exit_assumed ::
  "deployment \<Rightarrow> tracked_position \<Rightarrow> string \<Rightarrow> exit_fill_details \<Rightarrow> string list \<Rightarrow> unit sup" where
  "emit_shadow_exit_assumed d p oid f reason = sv_emit ''shadow_exit_assumed''
     [(''deployment_id'', PStr (dep_id d)), (''symbol'', PStr (tp_symbol p)), (''trade_id'', v_text (tp_trade_id p)),
      (''option_symbol'', v_text (tp_option_symbol p)), (''quantity'', PInt (tp_quantity p)),
      (''entry_price'', v_real (tp_entry_price p)), (''exit_price'', v_real (fd_price f)),
      (''realized_pnl_usd'', v_real (premium_pnl (tp_entry_price p) (fd_price f) (Some (tp_quantity p)))),
      (''realized_stop_r'', v_real (realized_stop_r (tp_entry_price p) (fd_price f) (Some (stop_pct_of d)))),
      (''exit_order_id'', PStr oid), (''reason'', PList (map PStr reason))]"

section \<open>Flattening one position\<close>

text \<open>What the sweep at the hard flat time and the emergency flat differ in.\<close>

record flat_kind =
  fk_reason :: string
  fk_trigger :: string
  fk_issue :: string
  fk_paper_id :: string
  fk_mode :: exit_mode
  fk_force_market :: bool

definition HARD_FLAT_KIND :: flat_kind where
  "HARD_FLAT_KIND = \<lparr>fk_reason = ''hard_flat'', fk_trigger = ''hard_flat_time_reached'',
     fk_issue = ''hard_flat_cancel_confirmation_pending'', fk_paper_id = ''DRY_RUN_CLOSE'',
     fk_mode = HARD_FLAT_MODE, fk_force_market = False\<rparr>"

definition EMERGENCY_FLAT_KIND :: flat_kind where
  "EMERGENCY_FLAT_KIND = \<lparr>fk_reason = ''halt_and_flatten'', fk_trigger = ''halt_and_flatten_triggered'',
     fk_issue = ''halt_flatten_cancel_confirmation_pending'', fk_paper_id = ''DRY_RUN_EMERGENCY_FLAT'',
     fk_mode = EMERGENCY, fk_force_market = True\<rparr>"

text \<open>\<open>SignalDirection(str(params.get("direction", "short")).lower())\<close>.\<close>

definition flat_direction :: "(pyval \<Rightarrow> string) \<Rightarrow> deployment \<Rightarrow> signal_direction result" where
  "flat_direction tx d = (let w = py_lower (py_str tx (dict_get_default (dep_strategy_params d) ''direction'' (PStr ''short'')))
     in if w = ''long'' then Inr LONG else if w = ''short'' then Inr SHORT else Inl ValueError)"

definition flat_plan ::
  "tracked_position \<Rightarrow> signal_direction \<Rightarrow> string \<Rightarrow> bool \<Rightarrow> string option \<Rightarrow> trade_plan" where
  "flat_plan p dir trigger dry oid = \<lparr>pn_trade_id = plan_trade_id p, pn_deployment_id = tp_deployment_id p,
     pn_symbol = tp_symbol p, pn_direction = dir, pn_option_symbol = text_or (tp_option_symbol p),
     pn_quantity = tp_quantity p, pn_estimated_entry_price = 0, pn_risk_reasons = [trigger], pn_dry_run = dry,
     pn_order_id = oid, pn_stop_order_id = None, pn_target_order_id = None, pn_underlying_entry_price = None,
     pn_entry_timestamp = None, pn_risk_details = []\<rparr>"

text \<open>The plan and the event that end the treatment of a position.\<close>

definition report_flat ::
  "sup_env \<Rightarrow> deployment \<Rightarrow> tracked_position \<Rightarrow> flat_kind \<Rightarrow> bool \<Rightarrow> string option \<Rightarrow> string option \<Rightarrow> params \<Rightarrow>
   trade_plan option sup" where
  "report_flat e d p k dry oid error extra =
     sx_bind (sx_lift (flat_direction (se_tx e) d)) (\<lambda>dir.
     sx_bind (sv_emit (fk_reason k @ ''_submission'')
       ([(''deployment_id'', PStr (tp_deployment_id p)), (''symbol'', PStr (tp_symbol p)),
         (''option_symbol'', v_text (tp_option_symbol p)), (''quantity'', PInt (tp_quantity p)),
         (''order_id'', v_text oid), (''error'', v_text error)] @ extra)) (\<lambda>_.
     sx_return (Some (flat_plan p dir (fk_trigger k) dry oid))))"

definition sv_drop_position :: "tracked_position \<Rightarrow> unit sup" where
  "sv_drop_position p = sv_do (\<lambda>s. s\<lparr>sv_tracker :=
     close_position (tp_symbol p) (tp_deployment_id p) (tp_option_symbol p) None (sv_tracker s)\<rparr>)"

definition flatten_paper ::
  "sup_env \<Rightarrow> deployment \<Rightarrow> tracked_position \<Rightarrow> flat_kind \<Rightarrow> unit sup" where
  "flatten_paper e d p k =
     sx_bind (paper_exit_fill_details e p) (\<lambda>f.
     sx_bind (sv_drop_position p) (\<lambda>_.
     sx_bind (sv_clear_ladder p) (\<lambda>_.
     sx_bind (mark_dry_run_closed_once e p (fk_paper_id k) f) (\<lambda>closed_now.
     if \<not> closed_now then sx_return ()
     else sx_bind (sv_lifecycle_step (mark_closed (tp_symbol p, tp_deployment_id p))) (\<lambda>t.
          sx_bind (emit_lifecycle_transition e t (fk_reason k @ ''_closed'')) (\<lambda>_.
          if tp_source p = ''shadow'' then emit_shadow_exit_assumed d p (fk_paper_id k) f [fk_trigger k]
          else sx_return ()))))))"

definition flat_args :: "flat_kind \<Rightarrow> protection_cancel \<Rightarrow> submit_args" where
  "flat_args k c = \<lparr>sa_mode = fk_mode k, sa_reason = fk_reason k @ ''_submitted'', sa_event_type = ''exit_submission'',
     sa_canceled_stop = pc_stop c, sa_canceled_target = pc_target c, sa_inherited_error = pc_error c,
     sa_force_market = fk_force_market k, sa_submitted_at = None, sa_increment_reprice = False, sa_exit_rule = None\<rparr>"

text \<open>The protection goes first; if its cancellation is not confirmed, nothing is sold.\<close>

definition sell_flat ::
  "sup_env \<Rightarrow> deployment \<Rightarrow> tracked_position \<Rightarrow> flat_kind \<Rightarrow> (protection_cancel \<times> exit_plan) option sup" where
  "sell_flat e d p k =
     sx_bind (cancel_exit_protection e d p False (fk_reason k)) (\<lambda>c.
     if pc_error c \<noteq> None
     then sx_bind (sv_emit ''runtime_issue'' [(''category'', PStr (fk_issue k)), (''deployment_id'', PStr (dep_id d)),
            (''symbol'', PStr (tp_symbol p)), (''option_symbol'', v_text (tp_option_symbol p)),
            (''error'', v_text (pc_error c)), (''stage'', PStr (fk_reason k))]) (\<lambda>_. sx_return None)
     else sx_bind (submit_exit_request e d (flat_args k c) (pc_position c)) (\<lambda>(_, plan). sx_return (Some (c, plan))))"

definition flatten_live ::
  "sup_env \<Rightarrow> deployment \<Rightarrow> tracked_position \<Rightarrow> flat_kind \<Rightarrow> trade_plan option sup" where
  "flatten_live e d p k =
     sx_bind (sell_flat e d p k) (\<lambda>r. case r of
         None \<Rightarrow> sx_return None
       | Some (c, plan) \<Rightarrow> report_flat e d p k False (xp_order_id plan) (xp_error plan)
           (if fk_mode k = EMERGENCY then [(''canceled_stop_order_id'', v_text (pc_stop c)),
              (''canceled_target_order_id'', v_text (pc_target c))] else []))"

text \<open>An entry that still waits for its fill is cancelled instead; only the emergency flat asks.\<close>

definition cancel_pending_entry_flat ::
  "sup_env \<Rightarrow> deployment \<Rightarrow> tracked_position \<Rightarrow> string \<Rightarrow> bool \<Rightarrow> trade_plan option sup" where
  "cancel_pending_entry_flat e d p oid dry_run =
     (let base = [(''deployment_id'', PStr (tp_deployment_id p)), (''symbol'', PStr (tp_symbol p)),
            (''option_symbol'', v_text (tp_option_symbol p))] in
     sx_bind (sv_cancel e oid) (\<lambda>(canceled, error).
     sx_bind (sv_emit ''entry_cancel_attempt'' (base @ [(''entry_order_id'', PStr oid), (''canceled'', PBool canceled),
       (''error'', v_text error), (''reason'', PStr ''halt_and_flatten'')])) (\<lambda>_.
     if \<not> canceled
     then sx_bind (sv_emit ''halt_and_flatten_failure'' (base @ [(''quantity'', PInt (tp_quantity p)), (''error'', v_text error),
            (''reason'', PStr ''pending_entry_cancel_failed'')])) (\<lambda>_. sx_return None)
     else
       sx_bind (sv_drop_position p) (\<lambda>_.
       sx_bind (sv_clear_ladder p) (\<lambda>_.
       sx_bind (case tp_trade_id p of None \<Rightarrow> sx_return ()
           | Some tid \<Rightarrow> sx_bind (sv_now e) (\<lambda>now. sv_do (\<lambda>s. s\<lparr>sv_trades :=
               sq_mark_closed (se_codec e) (iso_text (se_codec e) now) tid \<lparr>ef_exit_order_id = Some oid, ef_exit_price = None,
                 ef_exit_filled_quantity = None, ef_exit_filled_at = None, ef_exit_order_status = None,
                 ef_exit_order_type = None, ef_exit_broker_payload = None\<rparr> None (sv_trades s)\<rparr>))) (\<lambda>_.
       sx_bind (sv_lifecycle_step (mark_closed (tp_symbol p, tp_deployment_id p))) (\<lambda>t.
       sx_bind (emit_lifecycle_transition e t ''halt_and_flatten_pending_entry_canceled'') (\<lambda>_.
       report_flat e d p EMERGENCY_FLAT_KIND dry_run (Some oid) error [(''mode'', PStr ''pending_entry_cancel'')]))))))))"

section \<open>The two sweeps\<close>

definition hard_flat_time_of :: "sup_env \<Rightarrow> deployment \<Rightarrow> dt_time result" where
  "hard_flat_time_of e d = parse_time_text (se_time_iso e)
     (if xs_hard_flat_time_et (dep_exit d) \<noteq> [] then xs_hard_flat_time_et (dep_exit d)
      else if text_truthy (dep_risk_hard_flat_time_et d) then text_or (dep_risk_hard_flat_time_et d) else ''15:55'')"

text \<open>The deployment of a position that a sweep looks at: in the market, and not leaving it already.\<close>

definition flat_candidate ::
  "(string \<times> deployment) list \<Rightarrow> string option \<Rightarrow> tracked_position \<Rightarrow> deployment option" where
  "flat_candidate deps symb p =
     (if (case symb of None \<Rightarrow> False | Some x \<Rightarrow> tp_symbol p \<noteq> x) then None
      else if tp_option_symbol p = None \<or> tp_quantity p \<le> 0 then None
      else if tp_exit_mode p \<noteq> None \<or> tp_exit_order_id p \<noteq> None then None
      else map_of deps (tp_deployment_id p))"

definition paper_flat :: "bool \<Rightarrow> tracked_position \<Rightarrow> bool" where
  "paper_flat dry_run p \<longleftrightarrow> dry_run \<or> tp_source p = ''shadow''"

definition flatten_paper_reported ::
  "sup_env \<Rightarrow> deployment \<Rightarrow> tracked_position \<Rightarrow> flat_kind \<Rightarrow> trade_plan option sup" where
  "flatten_paper_reported e d p k =
     sx_bind (flatten_paper e d p k) (\<lambda>_. report_flat e d p k True (Some (fk_paper_id k)) None
       (if fk_mode k = EMERGENCY then [(''canceled_stop_order_id'', PNone), (''canceled_target_order_id'', PNone)] else []))"

definition hard_flat_position ::
  "sup_env \<Rightarrow> (string \<times> deployment) list \<Rightarrow> pydt \<Rightarrow> bool \<Rightarrow> string option \<Rightarrow> tracked_position \<Rightarrow> trade_plan option sup" where
  "hard_flat_position e deps now dry_run symb p = (case flat_candidate deps symb p of
      None \<Rightarrow> sx_return None
    | Some d \<Rightarrow>
        sx_bind (sx_lift (hard_flat_time_of e d)) (\<lambda>flat.
        if time_of_micros (et_micros (se_et e) (instant now)) < flat then sx_return None
        else if tp_source p = LIVE_ENTRY_RECONCILIATION_HOLD_SOURCE
        then sx_bind (defer_reconcile_hold_flatten e p ''hard_flat'' dry_run) (\<lambda>_. sx_return None)
        else if paper_flat dry_run p then flatten_paper_reported e d p HARD_FLAT_KIND
        else sx_bind (prepare_position_for_forced_flat e d p ''hard_flat'') (\<lambda>r. case r of
            None \<Rightarrow> sx_return None | Some q \<Rightarrow> flatten_live e d q HARD_FLAT_KIND)))"

definition emergency_flat_position ::
  "sup_env \<Rightarrow> (string \<times> deployment) list \<Rightarrow> bool \<Rightarrow> string option \<Rightarrow> tracked_position \<Rightarrow> trade_plan option sup" where
  "emergency_flat_position e deps dry_run symb p = (case flat_candidate deps symb p of
      None \<Rightarrow> sx_return None
    | Some d \<Rightarrow>
        if tp_source p = LIVE_ENTRY_RECONCILIATION_HOLD_SOURCE
        then sx_bind (defer_reconcile_hold_flatten e p ''halt_and_flatten'' dry_run) (\<lambda>_. sx_return None)
        else sx_bind (if paper_flat dry_run p then sx_return (Some p)
            else prepare_position_for_forced_flat e d p ''halt_and_flatten'') (\<lambda>r. case r of
            None \<Rightarrow> sx_return None
          | Some q \<Rightarrow>
              if tp_source q = ''live_pending'' \<and> text_truthy (tp_order_id q)
              then cancel_pending_entry_flat e d q (text_or (tp_order_id q)) dry_run
              else if paper_flat dry_run p then flatten_paper_reported e d q EMERGENCY_FLAT_KIND
              else flatten_live e d q EMERGENCY_FLAT_KIND))"

text \<open>A position of the list as the tracker has it now.\<close>

definition as_tracked :: "tracked_position \<Rightarrow> sup_state \<Rightarrow> tracked_position" where
  "as_tracked p s = (case find (same_position p) (pt_positions (sv_tracker s)) of None \<Rightarrow> p | Some q \<Rightarrow> q)"

fun sweep_positions ::
  "(tracked_position \<Rightarrow> trade_plan option sup) \<Rightarrow> tracked_position list \<Rightarrow> trade_plan list sup" where
  "sweep_positions f [] = sx_return []"
| "sweep_positions f (p # ps) =
     sx_bind (sv_get (as_tracked p)) (\<lambda>q. sx_bind (f q) (\<lambda>plan. sx_bind (sweep_positions f ps) (\<lambda>plans.
     sx_return (case plan of None \<Rightarrow> plans | Some x \<Rightarrow> x # plans))))"

definition close_due_positions ::
  "sup_env \<Rightarrow> (string \<times> deployment) list \<Rightarrow> pydt \<Rightarrow> bool \<Rightarrow> string option \<Rightarrow> trade_plan list sup" where
  "close_due_positions e deps now dry_run symb =
     sx_bind (sv_get (\<lambda>s. pt_positions (sv_tracker s))) (sweep_positions (hard_flat_position e deps now dry_run symb))"

definition halt_and_flatten_positions ::
  "sup_env \<Rightarrow> (string \<times> deployment) list \<Rightarrow> bool \<Rightarrow> string option \<Rightarrow> trade_plan list sup" where
  "halt_and_flatten_positions e deps dry_run symb =
     sx_bind (sv_get (\<lambda>s. pt_positions (sv_tracker s))) (sweep_positions (emergency_flat_position e deps dry_run symb))"

end
