(* ===== verification/Sync_Safety.thy ===== *)
theory Sync_Safety
  imports Step_Order
begin

text \<open>
  What a synchronisation does to the world: it asks the broker and sends nothing, and the books
  only grow. What the resolution of a pending entry does to the reservations of the entry.
\<close>

section \<open>The handlers of a synchronisation\<close>

context supervisor_order begin

lemma within_status_within [keeps]: "steps_within R (sv_status_within e oid err)"
  unfolding sv_status_within_def by (auto intro!: keeps)

lemma within_transition_state [keeps]:
  "steps_within R (sv_exit_write e (\<lambda>now. transition_runtime_state (se_exit_codec e) now st v))"
  by (rule within_exit_write) (metis exit_step.simps(2))

lemma within_resolve_intent [keeps]:
  "steps_within R (sv_exit_write e (\<lambda>now. resolve_action_intent (se_exit_codec e) now key w pl))"
  by (rule within_exit_write) (metis exit_step.simps(6))

lemma within_reserve [keeps]: "steps_within R (sv_reserve cs)"
  unfolding sv_reserve_def by (rule within_do) simp

lemma within_read_trades [keeps]: "steps_within R (sv_read_trades f)"
  unfolding sv_read_trades_def by (intro keeps)

lemma within_clear_identity [keeps]: "steps_within R (clear_profile_exit_state_for_identity tid oid dep symb o')"
  unfolding clear_profile_exit_state_for_identity_def Let_def by (rule within_do) simp

lemma within_terminal [keeps]: "steps_within R (terminal_exit_among e o' seen oids)"
  by (induction oids arbitrary: seen) (auto intro!: keeps split: prod.split option.split)

lemma within_find_terminal [keeps]: "steps_within R (find_terminal_exit_order_payload e t)"
  unfolding find_terminal_exit_order_payload_def by (intro keeps)

lemma within_enriched_event [keeps]: "steps_within R (exit_fill_enriched_event t oid st src pl)"
  unfolding exit_fill_enriched_event_def by (intro keeps)

lemma within_disappeared [keeps]: "steps_within R (mark_disappeared_trade_closed e t)"
  unfolding mark_disappeared_trade_closed_def Let_def by (auto intro!: keeps split: option.split prod.split)

lemma within_enrich_closed [keeps]: "steps_within R (enrich_closed_trade e t)"
  unfolding enrich_closed_trade_def by (auto intro!: keeps split: option.split prod.split)

lemma within_abandon [keeps]: "steps_within R (abandon_partial_fill r reason)"
  unfolding abandon_partial_fill_def
  by (auto intro!: keeps within_leg_write simp: sq_mark_partial_fill_abandoned_def split: option.split)

lemma within_poll_failure [keeps]: "steps_within R (register_partial_fill_poll_failure r err)"
  unfolding register_partial_fill_poll_failure_def
  by (auto intro!: keeps within_leg_write simp: sq_increment_partial_fill_enrich_attempts_def split: option.split)

lemma within_open_intent [keeps]: "steps_within R (open_partial_intent e tid oid)"
  unfolding open_partial_intent_def by (auto intro!: keeps split: option.split)

lemma within_commit_intent [keeps]: "steps_within R (commit_partial_intent e tid oid n pl i d)"
  unfolding commit_partial_intent_def Let_def by (intro keeps within_do) simp

lemma within_runtime_state [keeps]: "steps_within R (sv_runtime_state e tid)"
  unfolding sv_runtime_state_def by (auto intro!: keeps split: option.split)

lemma within_confirm_intent [keeps]: "steps_within R (confirm_partial_action_intent e tid oid n pl)"
  unfolding confirm_partial_action_intent_def by (auto intro!: keeps split: option.split)

lemma within_fail_intent [keeps]: "steps_within R (fail_partial_action_intent e tid oid pl)"
  unfolding fail_partial_action_intent_def by (auto intro!: keeps split: option.split)

lemma within_leg_fill [keeps]: "steps_within R (record_leg_fill e r i d st f)"
  unfolding record_leg_fill_def by (intro keeps within_leg_write) (simp add: sq_enrich_partial_fill_def)

lemma within_leg_status [keeps]: "steps_within R (resolve_leg_status e r i d st)"
  unfolding resolve_leg_status_def Let_def by (auto intro!: keeps)

lemma within_enrich_leg [keeps]: "steps_within R (enrich_partial_fill_leg e r)"
  unfolding enrich_partial_fill_leg_def by (auto intro!: keeps split: option.split prod.split)

lemma within_enrich [keeps]:
  "steps_within R (enrich_pending_partial_fills e)" "steps_within R (enrich_recent_closed_exit_truth e ts)"
  unfolding enrich_pending_partial_fills_def enrich_recent_closed_exit_truth_def by (intro keeps)+

lemma within_recover [keeps]: "steps_within R (recover_filled_entry e t active w n x pl)"
  unfolding recover_filled_entry_def by (intro keeps within_do) simp

lemma within_release [keeps]: "steps_within R (release_dead_entry e t w pl)"
  unfolding release_dead_entry_def close_dead_entry_def release_entry_reservations_def
  by (intro keeps within_trade_write [where c = "se_codec e"]) (simp_all add: trade_write_closed)

lemma within_unfilled [keeps]: "steps_within R (resolve_unfilled_entry e t active r)"
  unfolding resolve_unfilled_entry_def Let_def by (auto intro!: keeps split: option.split)

lemma within_entry [keeps]: "steps_within R (reconcile_pending_entry_release e t active)"
  unfolding reconcile_pending_entry_release_def resolve_entry_def Let_def by (auto intro!: keeps split: option.split)

lemma within_recover_paper [keeps]: "steps_within R (recover_paper_trade t)"
  unfolding recover_paper_trade_def by (rule within_do) simp

lemma within_open_trade [keeps]: "steps_within R (sync_open_trade e ps t g)"
  unfolding sync_open_trade_def sync_pending_entry_def by (auto intro!: keeps)

lemma within_open_trades [keeps]: "steps_within R (sync_open_trades e ps ts g)"
  by (induction ts arbitrary: g) (auto intro!: keeps)

lemma within_positions [keeps]: "steps_within R sv_positions"
  unfolding sv_positions_def by (intro keeps)

lemma within_one_position [keeps]: "steps_within R (sync_one_position e recent opens g p)"
  unfolding sync_one_position_def Let_def by (auto intro!: keeps split: option.split)

lemma within_slots [keeps]: "steps_within R sv_sync_slots"
  by (rule within_frame) (simp_all add: sv_sync_slots_def split: prod.split)

lemma within_sync [keeps]: "steps_within R (sync_lifecycle e)"
  unfolding sync_lifecycle_def sync_positions_back_def sync_cash_guard_def by (intro keeps)

end

section \<open>A synchronisation only asks\<close>

fun status_read :: "broker_call \<Rightarrow> bool" where
  "status_read (Get_Order oid) = True"
| "status_read _ = False"

definition only_reads :: "sup_state \<Rightarrow> sup_state \<Rightarrow> bool" where
  "only_reads s s' \<longleftrightarrow> (\<exists>calls. om_log (sv_orders s') = om_log (sv_orders s) @ calls \<and> list_all status_read calls)"

lemma only_reads_same: "sv_orders s' = sv_orders s \<Longrightarrow> only_reads s s'"
  unfolding only_reads_def by (intro exI [of _ "[]"]) simp

interpretation asking: supervisor_order only_reads
proof
  show "only_reads s u" if "only_reads s t" "only_reads t u" for s t u
    using that unfolding only_reads_def by fastforce
  show "only_reads s (s\<lparr>sv_orders := o'\<rparr>)" if "om_log o' = om_log (sv_orders s) @ [Get_Order oid]" for s o' oid
    unfolding only_reads_def using that by (intro exI [of _ "[Get_Order oid]"]) simp
qed (simp_all add: only_reads_same)


end
