(* ===== verification/Books.thy ===== *)
theory Books
  imports Sync_Safety Exit_Outcomes
begin

text \<open>
  The books under the handlers: neither a poll of the pending exits nor a synchronisation loses
  an exit fact, alters a frozen policy, lets a runtime state regress or rebinds an action intent.
  And what the resolution of a pending entry tells the risk manager and the cash guard.
\<close>

section \<open>Orders that do not look at the broker\<close>

locale trading_order = supervisor_order +
  assumes orders_free: "sv_trades s' = sv_trades s \<Longrightarrow> sv_exits s' = sv_exits s \<Longrightarrow> R s s'"
begin

lemma within_total [keeps]: "steps_within R (sv_total m)"
  using orders_free by (simp add: steps_within_def sv_total_def split: prod.split)

lemma within_zoom [keeps]: "steps_within R (sv_zoom m)"
  using orders_free by (simp add: steps_within_def sv_zoom_def split: prod.split)

lemma within_broker [keeps]: "steps_within R (sv_cancel e oid)" "steps_within R (sv_quote e o')"
  "steps_within R (sv_place_close e o' n mode limit)"
  unfolding sv_cancel_def sv_quote_def sv_place_close_def by (intro keeps)+

lemma within_exit_price [keeps]: "steps_within R (sv_exit_price e o')"
  unfolding sv_exit_price_def by (auto intro!: keeps split: sum.split)

lemma within_submit_close [keeps]: "steps_within R (submit_close e d p o' mode reason force ctype price err)"
  unfolding submit_close_def by (auto intro!: keeps split: close_type.split)

lemma within_open_position [keeps]: "steps_within R (sv_open_position p)"
  unfolding sv_open_position_def by (rule within_do) simp

lemma within_record_submission [keeps]: "steps_within R (record_submission e d a u ctype err)"
  unfolding record_submission_def by (auto intro!: keeps split: option.split)

lemma within_submit [keeps]: "steps_within R (submit_exit_request e d a p)"
  unfolding submit_exit_request_def Let_def by (auto intro!: keeps split: option.split prod.split)

lemma within_cancel_one [keeps]:
  "steps_within R (ambiguous_cancel_event d p oid kind reason err)"
  "steps_within R (cancel_one_protection e d p dry reason oid kind name f)"
  unfolding cancel_one_protection_def ambiguous_cancel_event_def by (auto intro!: keeps)

lemma within_cancel_protection [keeps]: "steps_within R (cancel_exit_protection e d p dry reason)"
  unfolding cancel_exit_protection_def by (auto intro!: keeps)

lemma within_clear_ladder [keeps]: "steps_within R (sv_clear_ladder p)"
  unfolding sv_clear_ladder_def by (rule within_do) simp

lemma within_finalize [keeps]: "steps_within R (finalize_pending_exit_fill e d p oid st pl reason)"
  unfolding finalize_pending_exit_fill_def Let_def by (auto intro!: keeps within_do split: option.split)

lemma within_record_leg [keeps]: "steps_within R (record_dead_leg e d p oid f origin details)"
  unfolding record_dead_leg_def sv_record_leg_def
  by (auto intro!: keeps within_leg_write simp: sq_record_partial_fill_def split: option.split)

lemma within_after_cancel [keeps]: "steps_within R (after_exit_cancel e d p oid reason ok cerr st pl serr)"
  unfolding after_exit_cancel_def Let_def by (auto intro!: keeps split: option.split)

lemma within_race [keeps]: "steps_within R (resolve_exit_cancel_for_reprice e d p oid reason)"
  unfolding resolve_exit_cancel_for_reprice_def cancel_exit_order_and_check_fill_def by (auto intro!: keeps)

lemma within_dead [keeps]: "steps_within R (resolve_dead_status_exit_for_resubmit e d p oid st pl)"
  unfolding resolve_dead_status_exit_for_resubmit_def Let_def by (auto intro!: keeps split: option.split)

lemma within_resubmitted [keeps]: "steps_within R (resubmitted e d a p)"
  unfolding resubmitted_def by (auto intro!: keeps)

lemma within_reprices [keeps]:
  "steps_within R (resubmit_dead_exit e d p mode st pl err)"
  "steps_within R (reprice_strategy_exit e d p o')"
  "steps_within R (reprice_hard_flat_exit e d p now)"
  unfolding resubmit_dead_exit_def reprice_strategy_exit_def reprice_hard_flat_exit_def Let_def
  by (auto intro!: keeps split: option.split race_outcome.split)

lemma within_poll [keeps]: "steps_within R (manage_pending_exit_locked e d p now)"
  unfolding manage_pending_exit_locked_def on_exit_status_def exit_status_event_def Let_def
  by (auto intro!: keeps split: option.split exit_mode.split)

lemma within_polls [keeps]: "steps_within R (manage_each e ds now ps)"
  by (induction ps) (auto intro!: keeps split: option.split)

lemma within_pending [keeps]: "steps_within R (manage_pending_positions e ds now)"
  using within_polls unfolding manage_pending_positions_def steps_within_def by blast

end

section \<open>The books only grow\<close>

definition trades_kept :: "trade_db \<Rightarrow> trade_db \<Rightarrow> bool" where
  "trades_kept db db' \<longleftrightarrow> (\<forall>tid w. find_session db tid = Some w \<longrightarrow>
     (\<exists>w'. find_session db' tid = Some w' \<and> facts_kept w w'))"

definition exits_kept :: "exit_db \<Rightarrow> exit_db \<Rightarrow> bool" where
  "exits_kept db db' \<longleftrightarrow>
     (\<forall>tid w. find_state db tid = Some w \<longrightarrow> (\<exists>w'. find_state db' tid = Some w' \<and> state_advances w w'))
     \<and> (\<forall>tid v. find_policy db tid = Some v \<longrightarrow> find_policy db' tid = Some v)
     \<and> (\<forall>key i. find_intent db key = Some i \<longrightarrow> (\<exists>i'. find_intent db' key = Some i' \<and> intent_kept i i'))"

definition books_kept :: "sup_state \<Rightarrow> sup_state \<Rightarrow> bool" where
  "books_kept s s' \<longleftrightarrow> trades_kept (sv_trades s) (sv_trades s') \<and> rel_option exits_kept (sv_exits s) (sv_exits s')"

lemma trades_kept_refl [simp]: "trades_kept db db"
  by (auto simp: trades_kept_def)

lemma trades_kept_trans: "trades_kept u v \<Longrightarrow> trades_kept v w \<Longrightarrow> trades_kept u w"
  unfolding trades_kept_def by (meson facts_kept_trans)

lemma exits_kept_refl [simp]: "exits_kept db db"
  by (auto simp: exits_kept_def state_advances_def)

lemma exits_kept_trans: "exits_kept u v \<Longrightarrow> exits_kept v w \<Longrightarrow> exits_kept u w"
  unfolding exits_kept_def by (meson state_advances_trans intent_kept_trans)

lemma exits_kept_option [simp]: "rel_option exits_kept x x"
  by (rule option.rel_refl) simp

lemma trades_kept_write: "trade_write c db db' \<Longrightarrow> trades_kept db db'"
  unfolding trade_write_def trades_kept_def using store_step_keeps [of "([], db)"] by fastforce

lemma trades_kept_legs: "db_trades db' = db_trades db \<Longrightarrow> trades_kept db db'"
  by (auto simp: trades_kept_def find_session_def)

lemma exits_kept_step: "exit_step c x db = Inr db' \<Longrightarrow> exits_kept db db'"
  unfolding exits_kept_def using state_step policy_step intent_step by blast

interpretation books: trading_order books_kept
proof
  show "books_kept s u" if "books_kept s t" "books_kept t u" for s t u
    using that trades_kept_trans unfolding books_kept_def by (auto simp: option.rel_sel intro: exits_kept_trans)
  show "books_kept s (s\<lparr>sv_exits := Some xdb'\<rparr>)" if "sv_exits s = Some xdb" "exit_step xc x xdb = Inr xdb'" for s xdb xc x xdb'
    using that exits_kept_step by (simp add: books_kept_def)
qed (simp_all add: books_kept_def trades_kept_write trades_kept_legs)

section \<open>The reservations of a pending entry\<close>

definition same_reservations :: "sup_state \<Rightarrow> sup_state \<Rightarrow> bool" where
  "same_reservations s s' \<longleftrightarrow> sv_reservations s' = sv_reservations s \<and> sv_tracker s' = sv_tracker s"

interpretation unreserved: step_order same_reservations
  by unfold_locales (simp_all add: same_reservations_def)

lemma unreserved_pure:
  assumes "\<And>s. sv_reservations (snd (m s)) = sv_reservations s" "\<And>s. sv_tracker (snd (m s)) = sv_tracker s"
  shows "steps_within same_reservations m"
  using assms by (simp add: steps_within_def same_reservations_def)

lemma unreserved_basic [keeps]:
  "steps_within same_reservations (sv_emit n ps)" "steps_within same_reservations (sv_now e)"
  "steps_within same_reservations (sv_lifecycle_step f)" "steps_within same_reservations (sv_total g)"
  by (auto intro!: unreserved_pure
      simp: sv_emit_def sv_do_def sv_now_def sv_lifecycle_step_def sv_total_def split: prod.split)

lemma unreserved_transition [keeps]: "steps_within same_reservations (emit_lifecycle_transition e t reason)"
  unfolding emit_lifecycle_transition_def by (cases t) (auto intro!: keeps)

text \<open>Neither step can raise, and this is all they tell of the entry.\<close>

lemma bind_transition:
  assumes "sx_bind (emit_lifecycle_transition e t reason) f s = (r, s')"
  obtains s1 where "same_reservations s s1" "f () s1 = (r, s')"
proof -
  obtain s1 where run: "emit_lifecycle_transition e t reason s = (Inr (), s1)"
    by (cases t) (simp_all add: emit_lifecycle_transition_def sx_return_def sx_bind_def sv_now_def sv_emit_def sv_do_def)
  show ?thesis
  proof (rule that)
    show "same_reservations s s1" using steps_within_run [OF unreserved_transition run] .
    show "f () s1 = (r, s')" using assms run by (simp add: sx_bind_def)
  qed
qed

lemma put_position_mem: "p \<in> set (put_position p ps)"
  by (induction ps) simp_all

lemma bind_lifecycle_step: "sx_bind (sv_lifecycle_step f) g s =
   (case f (sv_lifecycle s) of (t, l) \<Rightarrow> g t (s\<lparr>sv_lifecycle := l\<rparr>))"
  by (simp add: sx_bind_def sv_lifecycle_step_def split: prod.split)

lemma recover_reserves:
  assumes "recover_filled_entry e t active w n x payload s = (r, s')"
  shows "sv_reservations s' = sv_reservations s @ [Commit_Risk (tr_trade_id t)]
    \<and> recovered_position t active n x \<in> set (pt_positions (sv_tracker s'))"
proof -
  obtain s1 where "same_reservations (s\<lparr>sv_tracker := open_position (recovered_position t active n x) (sv_tracker s)\<rparr>) s1"
    and run: "sx_bind (sv_emit ''entry_reconcile_terminal_fill_recovered'' (entry_reconcile_event t w @
       [(''filled_quantity'', PInt n), (''original_quantity'', PInt (tr_quantity t)), (''entry_price'', PFloat (Fin x)),
        (''payload'', payload_or_empty payload)])) (\<lambda>_. sv_reserve [Commit_Risk (tr_trade_id t)]) s1 = (r, s')"
    using assms unfolding recover_filled_entry_def bind_do bind_lifecycle_step
    by (auto simp: same_reservations_def split: prod.splits elim!: bind_transition)
  then show ?thesis
    by (auto simp: bind_emit sv_reserve_def sv_do_def same_reservations_def open_position_def rebuild_counters_def put_position_mem)
qed

lemma unreserved_clear [keeps]: "steps_within same_reservations (clear_profile_exit_state_for_identity a b c d o')"
  unfolding clear_profile_exit_state_for_identity_def Let_def by (rule unreserved_pure) (simp_all add: sv_do_def)

lemma unreserved_trades [keeps]: "steps_within same_reservations (sv_do (\<lambda>s. s\<lparr>sv_trades := g (sv_trades s)\<rparr>))"
  by (rule unreserved_pure) (simp_all add: sv_do_def)

lemma unreserved_close_dead [keeps]: "steps_within same_reservations (close_dead_entry e t w payload)"
  unfolding close_dead_entry_def by (intro keeps)

lemma release_reserves:
  assumes "release_dead_entry e t w payload s = (r, s')"
  shows "sv_reservations s' = sv_reservations s @ [Release_Cash (tr_trade_id t), Release_Risk (tr_trade_id t)]"
  using steps_within_run [OF unreserved_close_dead, of e t w payload _ r s'] assms
  unfolding release_dead_entry_def release_entry_reservations_def sv_reserve_def bind_do
  by (auto simp: same_reservations_def)

text \<open>
  What each of the three endings of a pending entry needs: the broker's answer \<open>r\<close> on its order.
\<close>

definition entry_ending :: "trade_session \<Rightarrow> tracked_position option \<Rightarrow> entry_cancel_result \<Rightarrow> sup_state \<Rightarrow> sup_state \<Rightarrow> bool" where
  "entry_ending t active r s s' \<longleftrightarrow>
     sv_reservations s' = sv_reservations s
     \<or> sv_reservations s' = sv_reservations s @ [Commit_Risk (tr_trade_id t)]
       \<and> (\<exists>n x. cx_confirmed_filled_quantity r = Inr (Some n) \<and> 0 < x
            \<and> recovered_position t active (if n = 0 then tr_quantity t else n) x \<in> set (pt_positions (sv_tracker s')))
     \<or> sv_reservations s' = sv_reservations s @ [Release_Cash (tr_trade_id t), Release_Risk (tr_trade_id t)]
       \<and> active = None \<and> cx_normalized_status r \<in> set PUBLIC_DEAD_ORDER_STATUSES
       \<and> cx_fill_quantity_ambiguous r = Inr False
       \<and> (\<exists>n. cx_reported_filled_quantity r = Inr n \<and> (case n of None \<Rightarrow> True | Some k \<Rightarrow> k \<le> 0))"

lemma safe_facts:
  assumes "cx_safe_to_replace_or_close r = Inr True"
  shows "cx_fill_quantity_ambiguous r = Inr False"
    "\<exists>n. cx_reported_filled_quantity r = Inr n \<and> (case n of None \<Rightarrow> True | Some k \<Rightarrow> k \<le> 0)"
  using assms by (auto simp: cx_safe_to_replace_or_close_def bind_result_Inr_iff split: if_splits)

lemma entry_ending_same: "steps_within same_reservations m \<Longrightarrow> m s = (x, s') \<Longrightarrow> entry_ending t active r s s'"
  using steps_within_run [of same_reservations m s x s'] by (simp add: entry_ending_def same_reservations_def)

lemma bind_lift_Inl: "sx_bind (sx_lift (Inl a)) f = sx_raise (Py_Error a)"
  by (simp add: sx_bind_def sx_lift_def sx_raise_def fun_eq_iff)

lemma within_if: "steps_within R f \<Longrightarrow> steps_within R g \<Longrightarrow> steps_within R (if b then f else g)"
  by simp

lemma bind_lift_Inr: "sx_bind (sx_lift (Inr x)) f = f x"
  by (simp add: sx_lift_def)

lemma unfilled_ending:
  assumes "resolve_unfilled_entry e t active r s = (x, s')"
  shows "entry_ending t active r s s'"
proof -
  have quiet: "steps_within same_reservations (resolve_unfilled_entry e t active r)"
    if "\<not> (active = None \<and> cx_normalized_status r \<in> set PUBLIC_DEAD_ORDER_STATUSES \<and> cx_safe_to_replace_or_close r = Inr True)"
  proof (cases "cx_safe_to_replace_or_close r = Inr True")
    case True
    then show ?thesis
      using that unfolding resolve_unfilled_entry_def Let_def by (auto intro!: keeps simp: bind_lift_Inr split: option.split)
  next
    case False
    then have unsafe: "steps_within same_reservations (sx_bind (sx_lift (cx_safe_to_replace_or_close r))
        (\<lambda>safe. if \<not> safe then f else g))" if "steps_within same_reservations f" for f g :: "entry_outcome sup"
      using that by (cases "cx_safe_to_replace_or_close r") (simp_all add: bind_lift_Inr bind_lift_Inl unreserved.within_raise)
    show ?thesis unfolding resolve_unfilled_entry_def Let_def
      by (rule within_if) (rule unreserved.within_return, rule unsafe, intro keeps)
  qed
  show ?thesis
  proof (cases "active = None \<and> cx_normalized_status r \<in> set PUBLIC_DEAD_ORDER_STATUSES \<and> cx_safe_to_replace_or_close r = Inr True")
    case True
    then obtain s1 where "release_dead_entry e t (cx_normalized_status r) (cx_payload r) s = s1" "s' = snd s1"
      using assms by (auto simp: resolve_unfilled_entry_def Let_def sx_bind_def sx_lift_def sx_return_def split: prod.splits sum.splits)
    then have "sv_reservations s' = sv_reservations s @ [Release_Cash (tr_trade_id t), Release_Risk (tr_trade_id t)]"
      using release_reserves [of e t "cx_normalized_status r" "cx_payload r" s "fst s1" "snd s1"] by simp
    then show ?thesis using True safe_facts [of r] by (simp add: entry_ending_def)
  next
    case False
    then show ?thesis using entry_ending_same [OF quiet assms] by blast
  qed
qed

lemma entry_resolved_ending:
  assumes "resolve_entry e t active r s = (x, s')"
  shows "entry_ending t active r s s'"
  using assms unfolding resolve_entry_def
proof (cases rule: bind_lift_cases)
  case failed
  then show ?thesis by (simp add: entry_ending_def)
next
  case (passed confirmed)
  show ?thesis
  proof (cases "\<exists>n. confirmed = Some n \<and> entry_fill_price t (cx_payload r) > 0")
    case True
    then obtain n where n: "confirmed = Some n" "entry_fill_price t (cx_payload r) > 0" by blast
    obtain y s1 where run: "recover_filled_entry e t active (cx_normalized_status r) (if n = 0 then tr_quantity t else n)
        (entry_fill_price t (cx_payload r)) (cx_payload r) s = (y, s1)" by fastforce
    have "s' = s1" using passed(2) n run by (auto simp: Let_def sx_bind_def sx_return_def split: sum.splits)
    with recover_reserves [OF run] n passed(1) show ?thesis by (auto simp: entry_ending_def)
  next
    case False
    then have "resolve_unfilled_entry e t active r s = (x, s')" using passed(2) by (auto simp: Let_def split: option.splits)
    then show ?thesis by (rule unfilled_ending)
  qed
qed

text \<open>
  C35. A pending entry is released only when it is dead. Resolving an entry whose order was left
  open tells the risk manager and the cash guard one of three things: nothing; that the entry is
  committed, and then the broker confirmed a filled quantity and a position of that quantity is
  tracked; or that its cash and its risk are released, and then the broker answered in this very
  step that the order is dead, reported no fill, nothing about the quantity is ambiguous, and no
  position of the trade is tracked.
\<close>

theorem release_needs_dead_order:
  assumes "reconcile_pending_entry_release e t active s = (x, s')"
  shows "sv_reservations s' = sv_reservations s \<or> (\<exists>oid. tr_entry_order_id t = Some oid \<and>
     entry_ending t active (entry_terminal t (fst (get_order_status (se_broker e) oid (sv_orders s)))) s s')"
proof (cases "tr_entry_order_id t")
  case None
  then show ?thesis using assms by (simp add: reconcile_pending_entry_release_def sx_return_def)
next
  case (Some oid)
  obtain st o1 where st: "get_order_status (se_broker e) oid (sv_orders s) = (st, o1)" by fastforce
  have "resolve_entry e t active (entry_terminal t st) (s\<lparr>sv_orders := o1\<rparr>) = (x, s')"
    using assms Some st by (simp add: reconcile_pending_entry_release_def bind_total)
  from entry_resolved_ending [OF this] have "entry_ending t active (entry_terminal t st) s s'"
    by (simp add: entry_ending_def)
  then show ?thesis using Some st by simp
qed

section \<open>A dead entry\<close>

definition dead_entry_broker :: broker where
  "dead_entry_broker calls c = (case c of
     Get_Order oid \<Rightarrow> Reply [(''status'', PStr ''CANCELLED''), (''filledQuantity'', PStr ''0'')] | _ \<Rightarrow> Reply [])"

definition held_entry :: trade_session where
  "held_entry = demo_session\<lparr>tr_entry_order_id := Some ''e1'', tr_quantity := 2\<rparr>"

definition demo_release :: "(broker_exc + entry_outcome) \<times> sup_state" where
  "demo_release = reconcile_pending_entry_release (demo_sup_env dead_entry_broker) held_entry None fresh_sup"

lemma demo_released:
  "case sv_reservations (snd demo_release) of [Release_Cash a, Release_Risk b] \<Rightarrow> a = ''t1'' \<and> b = ''t1'' | _ \<Rightarrow> False"
  by code_simp

theorem release_needs_dead_order_witness:
  "sv_reservations (snd demo_release) \<noteq> []
   \<and> cx_normalized_status (entry_terminal held_entry (fst (get_order_status dead_entry_broker ''e1'' (sv_orders fresh_sup))))
     \<in> set PUBLIC_DEAD_ORDER_STATUSES"
proof -
  have run: "reconcile_pending_entry_release (demo_sup_env dead_entry_broker) held_entry None fresh_sup
      = (fst demo_release, snd demo_release)" by (simp add: demo_release_def)
  have some: "sv_reservations (snd demo_release) \<noteq> []" "sv_reservations fresh_sup = []"
    "\<forall>x. sv_reservations (snd demo_release) \<noteq> [Commit_Risk x]" "tr_entry_order_id held_entry = Some ''e1''"
    using demo_released by (auto simp: fresh_sup_def held_entry_def)
  from release_needs_dead_order [OF run] some show ?thesis
    by (auto simp: entry_ending_def demo_sup_env_def)
qed

end
