(* ===== verification/Forced_Flat_Safety.thy ===== *)
theory Forced_Flat_Safety
  imports Forced_Flat Books
begin

text \<open>
  What a forced flat sends, and what it leaves of the books: the durable exit actions are settled
  and the resting protection is proved dead before a position is sold, and the sweeps keep the
  books as the polls and the synchronisation do.
\<close>

section \<open>Parts of the state that a step leaves alone\<close>

text \<open>A part of the state that the elementary steps outside it do not see.\<close>

locale side_part =
  fixes part :: "sup_state \<Rightarrow> 'a"
  assumes side: "part (s\<lparr>sv_orders := o'\<rparr>) = part s" "part (s\<lparr>sv_events := ev\<rparr>) = part s"
    "part (s\<lparr>sv_reads := n\<rparr>) = part s" "part (s\<lparr>sv_lifecycle := l\<rparr>) = part s"
    "part (s\<lparr>sv_trades := t\<rparr>) = part s"
begin

definition same_part :: "sup_state \<Rightarrow> sup_state \<Rightarrow> bool" where
  "same_part s s' \<longleftrightarrow> part s' = part s"

sublocale step_order same_part
  by unfold_locales (simp_all add: same_part_def)

lemma same_pure:
  assumes "\<And>s. part (snd (m s)) = part s"
  shows "steps_within same_part m"
  using assms by (simp add: steps_within_def same_part_def)

lemma same_basic [keeps]:
  "steps_within same_part (sv_emit n ps)" "steps_within same_part (sv_now e)" "steps_within same_part (sv_uuid e)"
  "steps_within same_part (sv_lifecycle_step f)" "steps_within same_part (sv_total g)" "steps_within same_part (sv_get h)"
  "steps_within same_part (sv_zoom z)" "steps_within same_part (sv_do (\<lambda>s. s\<lparr>sv_trades := u s\<rparr>))"
  by (auto intro!: same_pure simp: sv_emit_def sv_do_def sv_now_def sv_uuid_def sv_lifecycle_step_def sv_total_def sv_get_def
      sv_zoom_def side split: prod.split)

lemma same_transition [keeps]: "steps_within same_part (emit_lifecycle_transition e t reason)"
  unfolding emit_lifecycle_transition_def by (cases t) (auto intro!: keeps)

lemma same_broker [keeps]:
  "steps_within same_part (sv_cancel e oid)" "steps_within same_part (sv_quote e o')"
  "steps_within same_part (sv_place_close e c n mode limit)" "steps_within same_part (sv_status_within e oid w)"
  unfolding sv_cancel_def sv_quote_def sv_place_close_def sv_status_within_def by (auto intro!: keeps)

lemma same_upsert [keeps]: "steps_within same_part (upsert_trade_record e r)"
  unfolding upsert_trade_record_def by (intro keeps)

end

interpretation tracker_part: side_part sv_tracker
  by unfold_locales simp_all

interpretation exits_part: side_part sv_exits
  by unfold_locales simp_all

abbreviation same_tracker :: "sup_state \<Rightarrow> sup_state \<Rightarrow> bool" where
  "same_tracker \<equiv> tracker_part.same_part"

abbreviation same_exits :: "sup_state \<Rightarrow> sup_state \<Rightarrow> bool" where
  "same_exits \<equiv> exits_part.same_part"

section \<open>The sale leaves the durable exits alone\<close>

lemma exits_open_position [keeps]: "steps_within same_exits (sv_open_position p)"
  unfolding sv_open_position_def by (rule exits_part.same_pure) (simp add: sv_do_def)

lemma exits_price [keeps]: "steps_within same_exits (sv_exit_price e o')"
  unfolding sv_exit_price_def by (auto intro!: keeps split: sum.split)

lemma exits_submit_close [keeps]: "steps_within same_exits (submit_close e d p o' mode reason force ctype price err)"
  unfolding submit_close_def by (auto intro!: keeps split: close_type.split)

lemma exits_record_submission [keeps]: "steps_within same_exits (record_submission e d a u ctype err)"
  unfolding record_submission_def by (auto intro!: keeps split: option.split)

lemma exits_submit [keeps]: "steps_within same_exits (submit_exit_request e d a p)"
  unfolding submit_exit_request_def Let_def by (auto intro!: keeps split: option.split prod.split)

lemma exits_cancel_protection [keeps]: "steps_within same_exits (cancel_exit_protection e d p dry reason)"
  unfolding cancel_exit_protection_def cancel_one_protection_def ambiguous_cancel_event_def
  by (auto intro!: keeps split: prod.split)

lemma exits_flatten_live [keeps]: "steps_within same_exits (flatten_live e d p k)"
  unfolding flatten_live_def sell_flat_def report_flat_def by (auto intro!: keeps split: option.split prod.split)

section \<open>The settlement of the exits leaves the tracker alone\<close>

lemma tracker_exit_write [keeps]: "steps_within same_tracker (sv_exit_write e f)"
  by (rule tracker_part.same_pure)
    (auto simp: sv_exit_write_def sx_bind_def sv_now_def split: option.split sum.split)

lemma tracker_intent_writes [keeps]:
  "steps_within same_tracker (sv_resolve e key status d)" "steps_within same_tracker (sv_bind_order e key oid payload)"
  "steps_within same_tracker (sv_advance e old new)"
  unfolding sv_resolve_def sv_bind_order_def sv_advance_def by (intro keeps)+

lemma tracker_memory [keeps]:
  "steps_within same_tracker (sv_remember tid x)" "steps_within same_tracker (rollback_unconfirmed_target_1 p)"
  "steps_within same_tracker request_refresh" "steps_within same_tracker (sv_leg_id e r)"
  "steps_within same_tracker (sv_do (\<lambda>s. s\<lparr>sv_durable := g s\<rparr>))"
  by (auto intro!: tracker_part.same_pure
      simp: sv_remember_def rollback_unconfirmed_target_1_def request_refresh_def sv_leg_id_def sv_do_def Let_def
      split: prod.split option.split)

lemma tracker_reads [keeps]:
  "steps_within same_tracker (sv_runtime_state e tid)" "steps_within same_tracker (open_partial_intent e tid oid)"
  "steps_within same_tracker (sv_open_intents e tid)"
  unfolding sv_runtime_state_def open_partial_intent_def sv_open_intents_def by (auto intro!: keeps split: option.split)

lemma tracker_confirm [keeps]: "steps_within same_tracker (confirm_partial_action_intent e tid oid n pl)"
  unfolding confirm_partial_action_intent_def commit_partial_intent_def Let_def
  by (auto intro!: keeps split: option.split)

lemma tracker_settle_partial [keeps]: "steps_within same_tracker (settle_partial e d p i pl st)"
  unfolding settle_partial_def book_partial_fill_def by (auto intro!: keeps split: option.split)

lemma tracker_settle_breakeven [keeps]: "steps_within same_tracker (settle_breakeven e p i d w)"
  unfolding settle_breakeven_def by (auto intro!: keeps split: option.split)

lemma tracker_settle_intent:
  "ai_kind i \<noteq> ''stop_ratchet'' \<Longrightarrow> steps_within same_tracker (settle_profile_intent e d p i)"
  unfolding settle_profile_intent_def bind_found_order_def by (auto intro!: keeps split: option.split prod.split)

lemma tracker_cancel_partial:
  "ai_kind i = ''partial_scale'' \<Longrightarrow> steps_within same_tracker (cancel_partial_exit e d p reason i)"
  unfolding cancel_partial_exit_def reconcile_open_profile_intents_def sx_each.simps
  by (auto intro!: keeps tracker_settle_intent split: prod.split)

text \<open>Over a list, what holds of each element.\<close>

lemma within_each_of:
  assumes "step_order R" "\<And>x. x \<in> set xs \<Longrightarrow> steps_within R (f x)"
  shows "steps_within R (sx_each f xs)"
  using assms(2)
proof (induction xs)
  case Nil
  show ?case using step_order.within_return [OF assms(1)] by simp
next
  case (Cons x xs)
  then show ?case by (auto intro!: step_order.within_bind [OF assms(1)])
qed

section \<open>Quiet steps\<close>

lemma quiet_status_within [quiets]: "quiet (sv_status_within e oid w)"
proof -
  have "quiet (sv_total (\<lambda>o'. (x, o'\<lparr>om_log := om_log o' @ [Get_Order oid]\<rparr>)))" for x :: order_status
    by (intro quiets exI [of _ "[Get_Order oid]"]) simp
  then show ?thesis unfolding sv_status_within_def by (auto intro!: quiets)
qed

lemma quiet_memory [quiets]:
  "quiet (sv_remember tid x)" "quiet (rollback_unconfirmed_target_1 p)" "quiet request_refresh" "quiet (sv_leg_id e r)"
  "quiet (sv_drop_position p)"
  by (auto simp: quiet_on_def sv_remember_def rollback_unconfirmed_target_1_def request_refresh_def sv_leg_id_def
      sv_drop_position_def sv_do_def Let_def split: prod.split option.split)

lemma quiet_intent_reads [quiets]: "quiet (open_partial_intent e tid oid)" "quiet (sv_open_intents e tid)"
  unfolding open_partial_intent_def sv_open_intents_def by (auto intro!: quiets split: option.split)

lemma quiet_confirm [quiets]: "quiet (confirm_partial_action_intent e tid oid n pl)"
  unfolding confirm_partial_action_intent_def commit_partial_intent_def Let_def
  by (auto intro!: quiets split: option.split)

lemma quiet_settle_partial [quiets]: "quiet (settle_partial e d p i pl st)"
  unfolding settle_partial_def book_partial_fill_def by (auto intro!: quiets split: option.split)

lemma quiet_settle_breakeven [quiets]: "quiet (settle_breakeven e p i d w)"
  unfolding settle_breakeven_def by (auto intro!: quiets split: option.split)

lemma quiet_settle_intent: "ai_kind i \<noteq> ''stop_ratchet'' \<Longrightarrow> quiet (settle_profile_intent e d p i)"
  unfolding settle_profile_intent_def bind_found_order_def by (auto intro!: quiets split: option.split prod.split)

lemma quiet_cancel_partial: "ai_kind i = ''partial_scale'' \<Longrightarrow> quiet (cancel_partial_exit e d p reason i)"
  unfolding cancel_partial_exit_def reconcile_open_profile_intents_def sx_each.simps
  by (auto intro!: quiets quiet_settle_intent split: prod.split)

lemma quiet_each_of: "(\<And>x. x \<in> set xs \<Longrightarrow> quiet (f x)) \<Longrightarrow> quiet (sx_each f xs)"
  by (induction xs) (auto intro!: quiets)

lemma of_kind_in: "i \<in> set (of_kind kind is) \<Longrightarrow> ai_kind i = kind"
  by (simp add: of_kind_def)

lemma quiet_settle_partials [quiets]: "quiet (settle_partial_exits e d p reason tid is)"
  unfolding settle_partial_exits_def
  by (auto intro!: quiets quiet_each_of quiet_cancel_partial dest: of_kind_in split: option.split)

lemma quiet_report [quiets]: "quiet (report_flat e d p k dry oid err extra)"
  unfolding report_flat_def by (intro quiets)

lemma quiet_defer [quiets]: "quiet (defer_reconcile_hold_flatten e p reason dry)"
  unfolding defer_reconcile_hold_flatten_def Let_def by (auto intro!: quiets split: option.split prod.split)

lemma quiet_flatten_paper [quiets]: "quiet (flatten_paper_reported e d p k)"
proof -
  have "quiet (mark_dry_run_closed_once e p oid f)" for oid f
    unfolding mark_dry_run_closed_once_def
    by (auto intro!: quiets simp: quiet_on_def sx_bind_def sv_now_def sv_do_def sx_return_def split: option.split prod.split)
  then show ?thesis
    unfolding flatten_paper_reported_def flatten_paper_def paper_exit_fill_details_def emit_shadow_exit_assumed_def
    by (auto intro!: quiets split: prod.split)
qed

lemma quiet_cancel_entry [quiets]: "quiet (cancel_pending_entry_flat e d p oid dry)"
  unfolding cancel_pending_entry_flat_def Let_def by (auto intro!: quiets split: option.split prod.split)

section \<open>The protection is proved dead before the sale\<close>

text \<open>The resting orders the position knows of.\<close>

definition resting_ids :: "tracked_position \<Rightarrow> string list" where
  "resting_ids p = map text_or (filter text_truthy [tp_stop_order_id p, tp_target_order_id p])"

lemma cancel_answers:
  assumes "sv_cancel e oid s = (Inr (canceled, err), s')"
  shows "(err = None) = canceled"
  using assms by (auto simp: sv_cancel_def sv_total_def cancel_order_def Let_def split: prod.splits if_splits)

lemma cancel_one_proved:
  assumes "cancel_one_protection e d p False reason oid kind ev field s = (Inr (canceled, None), s')"
  shows "sv_log s' = sv_log s @ [Cancel oid, Get_Order oid]
    \<and> proved_dead (se_broker e) (sv_log s) [Cancel oid, Get_Order oid] oid"
  using assms unfolding cancel_one_protection_def if_False
proof (cases rule: bind_Inr_cases)
  case (passed y s1)
  obtain c err where y: "y = (c, err)" by fastforce
  have "c = canceled \<and> err = None \<and> sv_log s' = sv_log s1"
    using passed(2) unfolding y prod.case
    by (auto simp: sx_bind_def sv_get_def sv_emit_def sv_do_def sx_return_def ambiguous_cancel_event_def split: if_splits)
  moreover have c using cancel_answers [of e oid s c err s1] passed(1) y calculation by simp
  ultimately show ?thesis using cancel_prior_proved [of e oid s err s1] passed(1) y by simp
qed simp

lemma cancel_protection_proved:
  assumes "cancel_exit_protection e d p False reason s = (Inr c, s')" "pc_error c = None"
  shows "\<exists>calls. sv_log s' = sv_log s @ calls \<and> placed calls = []
    \<and> (\<forall>oid\<in>set (resting_ids p). proved_dead (se_broker e) (sv_log s) calls oid)"
  using assms(1) unfolding cancel_exit_protection_def
proof (cases rule: bind_Inr_cases)
  case (passed c1 s1)
  let ?stop = "tp_stop_order_id p" and ?target = "tp_target_order_id p"
  have err1: "pc_error c1 = None"
    using passed(2) assms(2) by (auto simp: sx_return_def elim!: bind_Inr_cases split: if_splits)
  obtain calls1 where 1: "sv_log s1 = sv_log s @ calls1" "placed calls1 = []"
    "text_truthy ?stop \<Longrightarrow> proved_dead (se_broker e) (sv_log s) calls1 (text_or ?stop)"
  proof (cases "text_truthy ?stop")
    case True
    with passed(1) err1 obtain canceled where
      "cancel_one_protection e d p False reason (text_or ?stop) ''stop'' ''protection_cancel_attempt'' ''stop_order_id'' s
        = (Inr (canceled, None), s1)"
      by (auto simp: sx_return_def elim!: bind_Inr_cases split: if_splits)
    from cancel_one_proved [OF this] True that show thesis by auto
  next
    case False
    with passed(1) have "s1 = s" by (simp add: sx_return_def)
    with False that [of "[]"] show thesis by simp
  qed
  obtain calls2 where 2: "sv_log s' = sv_log s1 @ calls2" "placed calls2 = []"
    "text_truthy ?target \<Longrightarrow> proved_dead (se_broker e) (sv_log s1) calls2 (text_or ?target)"
  proof (cases "text_truthy ?target")
    case True
    with passed(2) err1 assms(2) obtain canceled where
      "cancel_one_protection e d p False reason (text_or ?target) ''target'' ''target_cancel_attempt'' ''target_order_id'' s1
        = (Inr (canceled, None), s')"
      by (auto simp: sx_return_def elim!: bind_Inr_cases split: if_splits)
    from cancel_one_proved [OF this] True that show thesis by auto
  next
    case False
    with passed(2) have "s' = s1" by (simp add: sx_return_def)
    with False that [of "[]"] show thesis by simp
  qed
  show ?thesis
    using 1 2 proved_dead_more [of "se_broker e" "sv_log s" calls1 _ calls2]
      proved_dead_after [of "se_broker e" "sv_log s" calls1 calls2]
    by (intro exI [of _ "calls1 @ calls2"]) (auto simp: resting_ids_def)
qed simp

text \<open>
  What a forced flat may send for a position: one live close order of its contract and quantity,
  and only after the broker answered that its resting orders are dead and unfilled.
\<close>

definition flat_sale :: "broker \<Rightarrow> tracked_position \<Rightarrow> broker_call list \<Rightarrow> broker_call list \<Rightarrow> bool" where
  "flat_sale br p log0 calls \<longleftrightarrow> one_live br log0 (close_of (text_or (tp_option_symbol p)) (tp_quantity p)) calls
     \<and> (placed calls \<noteq> [] \<longrightarrow> (\<forall>oid\<in>set (resting_ids p). proved_dead br log0 calls oid))"

lemma flat_sale_quiet: "placed calls = [] \<Longrightarrow> flat_sale br p log0 calls"
  by (simp add: flat_sale_def one_live_quiet)

lemma flat_sale_prefix: "flat_sale br p (log0 @ pre) calls \<Longrightarrow> placed pre = [] \<Longrightarrow> flat_sale br p log0 (pre @ calls)"
  by (auto simp: flat_sale_def intro: one_live_prefix proved_dead_after)

lemma flat_sale_suffix: "flat_sale br p log0 calls \<Longrightarrow> placed post = [] \<Longrightarrow> flat_sale br p log0 (calls @ post)"
  by (auto simp: flat_sale_def intro: one_live_suffix proved_dead_more)

lemma sell_flat_calls:
  assumes "sell_flat e d p k s = (r, s')" "tp_option_symbol p \<noteq> None"
  shows "\<exists>calls. sv_log s' = sv_log s @ calls \<and> flat_sale (se_broker e) p (sv_log s) calls"
  using assms(1) unfolding sell_flat_def
proof (cases rule: bind_Inr_cases)
  case (failed x)
  from quiet_on_log [OF quiet_cancel_protection failed(2)] show ?thesis by (metis flat_sale_quiet)
next
  case (passed c s1)
  let ?q = "pc_position c"
  have q: "tp_quantity ?q = tp_quantity p" "tp_option_symbol ?q = Some (text_or (tp_option_symbol p))"
    using cancel_protection_keeps [OF passed(1)] assms(2) by (auto simp: text_or_def)
  show ?thesis
  proof (cases "pc_error c = None")
    case False
    have "quiet (sx_bind (sv_emit ''runtime_issue'' [(''category'', PStr (fk_issue k)), (''deployment_id'', PStr (dep_id d)),
            (''symbol'', PStr (tp_symbol p)), (''option_symbol'', v_text (tp_option_symbol p)),
            (''error'', v_text (pc_error c)), (''stage'', PStr (fk_reason k))])
         (\<lambda>_. sx_return None :: (protection_cancel \<times> exit_plan) option sup))"
      by (intro quiets)
    from quiet_on_log [OF this, of s1 r s'] passed(2) False obtain calls2 where "sv_log s' = sv_log s1 @ calls2" "placed calls2 = []"
      by auto
    moreover obtain calls1 where "sv_log s1 = sv_log s @ calls1" "placed calls1 = []"
      by (rule quiet_on_log [OF quiet_cancel_protection passed(1)])
    ultimately show ?thesis by (intro exI [of _ "calls1 @ calls2"]) (simp add: flat_sale_quiet)
  next
    case True
    obtain calls1 where 1: "sv_log s1 = sv_log s @ calls1" "placed calls1 = []"
      "\<forall>oid\<in>set (resting_ids p). proved_dead (se_broker e) (sv_log s) calls1 oid"
      using cancel_protection_proved [OF passed(1) True] by blast
    have "sells (se_broker e) (close_of (text_or (tp_option_symbol p)) (tp_quantity p))
        (sx_bind (submit_exit_request e d (flat_args k c) ?q) (\<lambda>(_, plan). sx_return (Some (c, plan))))"
      using sells_submit_exit [OF q(2), of e d "flat_args k c"] q(1)
      by (intro sells_bind) (auto intro!: quiets split: prod.split)
    from sells_log [OF this, of s1 r s'] passed(2) True obtain calls2 where
      2: "sv_log s' = sv_log s1 @ calls2" "one_live (se_broker e) (sv_log s1) (close_of (text_or (tp_option_symbol p)) (tp_quantity p)) calls2"
      by auto
    show ?thesis
      using 1 2 by (intro exI [of _ "calls1 @ calls2"]) (auto simp: flat_sale_def intro: one_live_prefix proved_dead_more)
  qed
qed

lemma flatten_live_calls:
  assumes "flatten_live e d p k s = (r, s')" "tp_option_symbol p \<noteq> None"
  shows "\<exists>calls. sv_log s' = sv_log s @ calls \<and> flat_sale (se_broker e) p (sv_log s) calls"
  using assms(1) unfolding flatten_live_def
proof (cases rule: bind_Inr_cases)
  case (failed x)
  from sell_flat_calls [OF failed(2) assms(2)] show ?thesis .
next
  case (passed y s1)
  obtain calls1 where 1: "sv_log s1 = sv_log s @ calls1" "flat_sale (se_broker e) p (sv_log s) calls1"
    using sell_flat_calls [OF passed(1) assms(2)] by blast
  have "quiet (case y of None \<Rightarrow> sx_return None
       | Some (c, plan) \<Rightarrow> report_flat e d p k False (xp_order_id plan) (xp_error plan)
           (if fk_mode k = EMERGENCY then [(''canceled_stop_order_id'', v_text (pc_stop c)),
              (''canceled_target_order_id'', v_text (pc_target c))] else []))"
    by (auto intro!: quiets split: option.split prod.split)
  from quiet_on_log [OF this passed(2)] obtain calls2 where "sv_log s' = sv_log s1 @ calls2" "placed calls2 = []" .
  with 1 show ?thesis by (intro exI [of _ "calls1 @ calls2"]) (simp add: flat_sale_suffix)
qed

section \<open>The durable exits are settled before the sale\<close>

definition no_handoff :: "sup_env \<Rightarrow> tracked_position \<Rightarrow> sup_state \<Rightarrow> bool" where
  "no_handoff e p s \<longleftrightarrow> (\<forall>tid db is. tp_trade_id p = Some tid \<and> sv_exits s = Some db
     \<and> get_open_action_intents (se_exit_codec e) tid db = Inr is \<longrightarrow> of_kind ''stop_ratchet'' is = [])"

text \<open>No partial exit is open, and the position shows what the booked fills leave.\<close>

definition exits_settled :: "sup_env \<Rightarrow> tracked_position \<Rightarrow> sup_state \<Rightarrow> bool" where
  "exits_settled e p s \<longleftrightarrow> (case (tp_trade_id p, sv_exits s) of
      (Some tid, Some db) \<Rightarrow>
        (\<exists>is. get_open_action_intents (se_exit_codec e) tid db = Inr is \<and> of_kind ''partial_scale'' is = [])
        \<and> (\<exists>durable. get_runtime_state (se_exit_codec e) tid db = Inr durable \<and> \<not> quantity_outdated p durable)
    | _ \<Rightarrow> True)"

definition only_this :: "tracked_position \<Rightarrow> sup_state \<Rightarrow> bool" where
  "only_this p s \<longleftrightarrow> (\<forall>x\<in>set (pt_positions (sv_tracker s)). alike p x \<longrightarrow> x = p)"

lemma open_intents_run:
  "sv_open_intents e tid s = (Inr is, s') \<longleftrightarrow> s' = s \<and> (case sv_exits s of None \<Rightarrow> is = []
     | Some db \<Rightarrow> get_open_action_intents (se_exit_codec e) tid db = Inr is)"
  by (auto simp: sv_open_intents_def sx_bind_def sv_get_def sx_return_def sx_lift_Inr split: option.split)

lemma runtime_state_run:
  "sv_runtime_state e tid s = (Inr x, s') \<longleftrightarrow> s' = s \<and> (case sv_exits s of None \<Rightarrow> x = None
     | Some db \<Rightarrow> get_runtime_state (se_exit_codec e) tid db = Inr x)"
  by (auto simp: sv_runtime_state_def sx_bind_def sv_get_def sx_return_def sx_lift_Inr split: option.split)

lemma like_only: "only_this p s \<Longrightarrow> (case tracked_position_like p s of None \<Rightarrow> p | Some q \<Rightarrow> q) = p"
  by (auto simp: only_this_def tracked_position_like_def find_Some_iff split: option.split)

text \<open>What the settlement of the partial exits proves.\<close>

lemma settle_partials_settles:
  assumes "settle_partial_exits e d p reason tid is s = (Inr (Some q), s')" "tp_trade_id p = Some tid"
    and "\<And>db. sv_exits s = Some db \<Longrightarrow> get_open_action_intents (se_exit_codec e) tid db = Inr is" "only_this p s"
  shows "q = p \<and> exits_settled e p s'"
  using assms(1) unfolding settle_partial_exits_def
proof (cases rule: bind_Inr_cases)
  case (passed u s1)
  let ?partials = "of_kind ''partial_scale'' is"
  have "same_tracker s s1"
    by (rule steps_within_run [OF within_each_of [OF tracker_part.step_order_axioms] passed(1)])
      (auto intro: tracker_cancel_partial dest: of_kind_in)
  with assms(4) have only: "only_this p s1" by (simp add: only_this_def tracker_part.same_part_def)
  have kept: "s1 = s" if "?partials = []" using passed(1) that by (simp add: sx_return_def)
  show ?thesis
    using passed(2)
  proof (cases rule: bind_Inr_cases)
    case inner: (passed still s2)
    have s2: "s2 = s1" using inner(1) by (auto simp: sx_return_def open_intents_run split: if_splits)
    have still: "get_open_action_intents (se_exit_codec e) tid db = Inr still" if "sv_exits s2 = Some db" for db
      using inner(1) that assms(3) kept s2 by (auto simp: sx_return_def open_intents_run split: if_splits)
    show ?thesis
      using inner(2)
    proof (cases rule: bind_Inr_cases)
      case state: (passed durable s3)
      have s3: "s3 = s2" using state(1) by (simp add: runtime_state_run)
      let ?memo = "case durable of None \<Rightarrow> sx_return () | Some x \<Rightarrow> sv_remember tid x"
      show ?thesis
        using state(2)
      proof (cases rule: bind_Inr_cases)
        case memo: (passed v s4)
        have s4: "sv_exits s4 = sv_exits s2 \<and> sv_tracker s4 = sv_tracker s2"
          using memo(1) s3 by (auto simp: sx_return_def sv_remember_def sv_do_def split: option.splits)
        have open_now: "of_kind ''partial_scale'' still = [] \<and> \<not> quantity_outdated p durable"
          using memo(2) by (auto simp: sx_return_def request_refresh_def sv_do_def sv_get_def sv_emit_def sx_bind_def split: if_splits)
        then have final: "s' = s4" "q = (case tracked_position_like p s4 of None \<Rightarrow> p | Some q \<Rightarrow> q)"
          using memo(2) by (auto simp: sx_return_def sv_get_def sx_bind_def)
        have "only_this p s4" using only s4 s2 by (simp add: only_this_def)
        with final(2) have "q = p" by (simp add: like_only)
        moreover have "exits_settled e p s'"
          using open_now still state(1) s4 final(1) assms(2)
          by (auto simp: exits_settled_def runtime_state_run split: option.split)
        ultimately show ?thesis by simp
      qed simp
    qed simp
  qed simp
qed simp

lemma prepare_run:
  assumes "no_handoff e p s"
  shows "prepare_position_for_forced_flat e d p reason s = (case (tp_trade_id p, sv_exits s) of
      (Some tid, Some db) \<Rightarrow> (case get_open_action_intents (se_exit_codec e) tid db of
          Inl x \<Rightarrow> (Inl (Py_Error x), s) | Inr is \<Rightarrow> settle_partial_exits e d p reason tid is s)
    | _ \<Rightarrow> (Inr (Some p), s))"
proof (cases "tp_trade_id p = None \<or> sv_exits s = None")
  case True
  then show ?thesis
    by (auto simp: prepare_position_for_forced_flat_def sx_bind_def sv_get_def sx_return_def split: option.split)
next
  case False
  then obtain tid db where t: "tp_trade_id p = Some tid" "sv_exits s = Some db" by auto
  show ?thesis
  proof (cases "get_open_action_intents (se_exit_codec e) tid db")
    case (Inl x)
    then show ?thesis using t
      by (simp add: prepare_position_for_forced_flat_def sx_bind_def sv_get_def sv_open_intents_def sx_lift_def sx_raise_def)
  next
    case (Inr "is")
    then have "of_kind ''stop_ratchet'' is = []" using assms t by (simp add: no_handoff_def)
    then show ?thesis using t Inr
      by (simp add: prepare_position_for_forced_flat_def sx_bind_def sv_get_def sv_open_intents_def sx_lift_def sx_return_def
          resume_stop_handoffs_def)
  qed
qed

lemma prepare_calls:
  assumes "prepare_position_for_forced_flat e d p reason s = (x, s1)" "no_handoff e p s"
  obtains calls where "sv_log s1 = sv_log s @ calls" "placed calls = []"
proof -
  note run = assms(1) [unfolded prepare_run [OF assms(2)]]
  consider (same) "s1 = s" | (settled) tid "is" where "settle_partial_exits e d p reason tid is s = (x, s1)"
    using run by (auto split: option.splits sum.splits)
  then show thesis
  proof cases
    case same
    then show ?thesis using that [of "[]"] by simp
  next
    case settled
    show ?thesis by (rule quiet_on_log [OF quiet_settle_partials settled]) (rule that)
  qed
qed

lemma prepare_settles:
  assumes "prepare_position_for_forced_flat e d p reason s = (Inr (Some q), s1)" "no_handoff e p s" "only_this p s"
  shows "q = p \<and> exits_settled e p s1"
proof (cases "tp_trade_id p = None \<or> sv_exits s = None")
  case True
  then show ?thesis using assms(1) prepare_run [OF assms(2)] by (auto simp: exits_settled_def split: option.splits)
next
  case False
  then obtain tid db where t: "tp_trade_id p = Some tid" "sv_exits s = Some db" by auto
  with assms(1) prepare_run [OF assms(2)] obtain "is" where
    "get_open_action_intents (se_exit_codec e) tid db = Inr is" "settle_partial_exits e d p reason tid is s = (Inr (Some q), s1)"
    by (auto split: sum.splits)
  then show ?thesis using settle_partials_settles [of e d p reason tid "is" s q s1] t assms(3) by simp
qed

text \<open>The sale of a prepared position, in either sweep.\<close>

definition flat_sold :: "sup_env \<Rightarrow> bool \<Rightarrow> tracked_position \<Rightarrow> sup_state \<Rightarrow> sup_state \<Rightarrow> bool" where
  "flat_sold e dry_run p s s' \<longleftrightarrow> (\<exists>calls. sv_log s' = sv_log s @ calls \<and> flat_sale (se_broker e) p (sv_log s) calls
     \<and> (placed calls \<noteq> [] \<longrightarrow> \<not> paper_flat dry_run p \<and> exits_settled e p s'))"

lemma flat_sold_quiet:
  assumes "quiet m" "m s = (r, s')"
  shows "flat_sold e dry_run p s s'"
  using quiet_on_log [OF assms] unfolding flat_sold_def by (metis flat_sale_quiet)

lemma prepared_sale:
  assumes run: "sx_bind (prepare_position_for_forced_flat e d p reason) f s = (r, s')"
    and f: "\<And>s1 r s2. f None s1 = (r, s2) \<Longrightarrow> s2 = s1"
      "\<And>s1 r s2. f (Some p) s1 = (r, s2) \<Longrightarrow> same_exits s1 s2 \<and>
         (\<exists>calls. sv_log s2 = sv_log s1 @ calls \<and> flat_sale (se_broker e) p (sv_log s1) calls)
         \<or> (\<exists>calls. sv_log s2 = sv_log s1 @ calls \<and> placed calls = [])"
    and s: "no_handoff e p s" "only_this p s" "\<not> paper_flat dry_run p"
  shows "flat_sold e dry_run p s s'"
  using run
proof (cases rule: bind_Inr_cases)
  case (failed x)
  obtain calls where "sv_log s' = sv_log s @ calls" "placed calls = []" by (rule prepare_calls [OF failed(2) s(1)])
  then show ?thesis unfolding flat_sold_def by (auto simp: flat_sale_quiet)
next
  case (passed prepared s1)
  obtain calls1 where 1: "sv_log s1 = sv_log s @ calls1" "placed calls1 = []" by (rule prepare_calls [OF passed(1) s(1)])
  show ?thesis
  proof (cases prepared)
    case None
    with passed(2) f(1) 1 show ?thesis unfolding flat_sold_def by (intro exI [of _ calls1]) (auto simp: flat_sale_quiet)
  next
    case (Some q)
    with passed(1) prepare_settles [OF _ s(1,2)] have q: "q = p" "exits_settled e p s1" by auto
    have "exits_settled e p s'" if "same_exits s1 s'"
      using q(2) that by (simp add: exits_settled_def exits_part.same_part_def)
    moreover have "(\<exists>calls. sv_log s' = sv_log s1 @ calls \<and> flat_sale (se_broker e) p (sv_log s1) calls \<and> exits_settled e p s')
        \<or> (\<exists>calls. sv_log s' = sv_log s1 @ calls \<and> placed calls = [])"
      using f(2) [of s1 r s'] passed(2) Some q(1) calculation by blast
    ultimately obtain calls where "sv_log s' = sv_log s1 @ calls" "flat_sale (se_broker e) p (sv_log s1) calls"
      "placed calls \<noteq> [] \<longrightarrow> exits_settled e p s'"
      using flat_sale_quiet by blast
    then show ?thesis
      using 1 s(3) flat_sale_prefix [of "se_broker e" p "sv_log s" calls1] unfolding flat_sold_def
      by (intro exI [of _ "calls1 @ calls"]) simp
  qed
qed

lemma candidate_option: "flat_candidate deps symb p = Some d \<Longrightarrow> tp_option_symbol p \<noteq> None"
  by (auto simp: flat_candidate_def split: if_splits)

lemma sale_step:
  assumes "flatten_live e d p k s = (r, s')" "tp_option_symbol p \<noteq> None"
  shows "same_exits s s' \<and> (\<exists>calls. sv_log s' = sv_log s @ calls \<and> flat_sale (se_broker e) p (sv_log s) calls)"
  using flatten_live_calls [OF assms] steps_within_run [OF exits_flatten_live assms(1)] by blast

definition sells_settled :: "sup_env \<Rightarrow> bool \<Rightarrow> tracked_position \<Rightarrow> 'a sup \<Rightarrow> bool" where
  "sells_settled e dry_run p m \<longleftrightarrow> (\<forall>s r s'. m s = (r, s') \<and> no_handoff e p s \<and> only_this p s \<longrightarrow> flat_sold e dry_run p s s')"

lemma settled_quiet: "quiet m \<Longrightarrow> sells_settled e dry_run p m"
  unfolding sells_settled_def using flat_sold_quiet by blast

lemma settled_if:
  "(b \<Longrightarrow> sells_settled e dry_run p m) \<Longrightarrow> (\<not> b \<Longrightarrow> sells_settled e dry_run p n) \<Longrightarrow>
   sells_settled e dry_run p (if b then m else n)"
  by simp

lemma settled_lift:
  assumes "\<And>x. sells_settled e dry_run p (f x)"
  shows "sells_settled e dry_run p (sx_bind (sx_lift w) f)"
proof (cases w)
  case (Inl x)
  then have "sx_bind (sx_lift w) f = sx_raise (Py_Error x)" by (auto simp: sx_bind_def sx_lift_def sx_raise_def)
  then show ?thesis using settled_quiet [OF quiet_raise] by metis
next
  case (Inr x)
  then show ?thesis using assms by (simp add: sx_lift_def)
qed

lemma settled_prepared:
  assumes "\<not> paper_flat dry_run p" "f None = sx_return None"
    and "(\<forall>s r s'. f (Some p) s = (r, s') \<longrightarrow> same_exits s s' \<and>
        (\<exists>calls. sv_log s' = sv_log s @ calls \<and> flat_sale (se_broker e) p (sv_log s) calls)) \<or> quiet (f (Some p))"
  shows "sells_settled e dry_run p (sx_bind (prepare_position_for_forced_flat e d p reason) f)"
  unfolding sells_settled_def
proof (intro allI impI, elim conjE)
  fix s r s'
  assume run: "sx_bind (prepare_position_for_forced_flat e d p reason) f s = (r, s')" and s: "no_handoff e p s" "only_this p s"
  show "flat_sold e dry_run p s s'"
  proof (rule prepared_sale [OF run _ _ s assms(1)])
    show "s2 = s1" if "f None s1 = (r, s2)" for s1 r s2 using that assms(2) by (simp add: sx_return_def)
    show "same_exits s1 s2 \<and> (\<exists>calls. sv_log s2 = sv_log s1 @ calls \<and> flat_sale (se_broker e) p (sv_log s1) calls)
        \<or> (\<exists>calls. sv_log s2 = sv_log s1 @ calls \<and> placed calls = [])" if "f (Some p) s1 = (r, s2)" for s1 r s2
      using assms(3)
    proof
      assume "quiet (f (Some p))"
      from quiet_on_log [OF this that] show ?thesis by auto
    qed (use that in blast)
  qed
qed

lemma settled_hard_flat: "sells_settled e dry_run p (hard_flat_position e deps now dry_run symb p)"
proof (cases "flat_candidate deps symb p")
  case None
  then show ?thesis by (simp add: hard_flat_position_def settled_quiet quiet_return)
next
  case (Some d)
  show ?thesis
    unfolding hard_flat_position_def Some option.case
    by (intro settled_lift settled_if settled_prepared disjI1)
      (use sale_step [OF _ candidate_option [OF Some]] in \<open>auto intro!: settled_quiet quiets\<close>)
qed

lemma settled_emergency: "sells_settled e dry_run p (emergency_flat_position e deps dry_run symb p)"
proof (cases "flat_candidate deps symb p")
  case None
  then show ?thesis by (simp add: emergency_flat_position_def settled_quiet quiet_return)
next
  case (Some d)
  note step = sale_step [OF _ candidate_option [OF Some]]
  show ?thesis
  proof (cases "paper_flat dry_run p")
    case True
    then show ?thesis by (auto intro!: settled_quiet quiets simp: emergency_flat_position_def Some)
  next
    case False
    let ?go = "\<lambda>r. case r of None \<Rightarrow> sx_return None
       | Some q \<Rightarrow> if tp_source q = ''live_pending'' \<and> text_truthy (tp_order_id q)
           then cancel_pending_entry_flat e d q (text_or (tp_order_id q)) dry_run else flatten_live e d q EMERGENCY_FLAT_KIND"
    have "sells_settled e dry_run p (sx_bind (prepare_position_for_forced_flat e d p ''halt_and_flatten'') ?go)"
      by (rule settled_prepared [OF False]) (use step in \<open>auto intro!: quiets\<close>)
    moreover have "emergency_flat_position e deps dry_run symb p
       = (if tp_source p = LIVE_ENTRY_RECONCILIATION_HOLD_SOURCE
          then sx_bind (defer_reconcile_hold_flatten e p ''halt_and_flatten'' dry_run) (\<lambda>_. sx_return None)
          else sx_bind (prepare_position_for_forced_flat e d p ''halt_and_flatten'') ?go)"
      by (simp add: emergency_flat_position_def Some False cong: if_cong option.case_cong)
    ultimately show ?thesis by (simp add: settled_quiet quiet_bind quiet_defer quiet_return)
  qed
qed

text \<open>
  C10. A forced flat sells a position once, unprotected and settled. At the hard flat time and in
  an emergency flat, for a trade without an interrupted stop ratchet that is the only one its
  deployment tracks in the contract, whatever the broker answers: at most two orders are sent, a
  second only after the first was definitely rejected, each selling to close exactly the tracked
  quantity. If anything is sent, the position is no paper position, every resting stop or target
  was answered dead and unfilled before, no partial exit of the trade is open any more in the
  durable store, and the quantity is what the fills booked there leave.
\<close>

theorem forced_flat_sells_settled_position:
  assumes "hard_flat_position e deps now dry_run symb p s = (r, s') \<or> emergency_flat_position e deps dry_run symb p s = (r, s')"
    and "no_handoff e p s" "only_this p s"
  shows "\<exists>calls. sv_log s' = sv_log s @ calls \<and> flat_sale (se_broker e) p (sv_log s) calls
    \<and> (placed calls \<noteq> [] \<longrightarrow> \<not> paper_flat dry_run p \<and> exits_settled e p s')"
  using assms settled_hard_flat settled_emergency unfolding sells_settled_def flat_sold_def by metis

definition demo_flat_position :: tracked_position where
  "demo_flat_position = demo_exit_position\<lparr>tp_trade_id := Some ''t1'', tp_source := ''live_open'', tp_stop_order_id := Some ''s0'',
     tp_stop_price := Some 1, tp_exit_order_id := None, tp_exit_limit_price := None, tp_exit_submitted_at := None,
     tp_exit_mode := None\<rparr>"

definition demo_flat_state :: sup_state where
  "demo_flat_state = fresh_sup\<lparr>sv_tracker := (sv_tracker fresh_sup)\<lparr>pt_positions := [demo_flat_position]\<rparr>,
     sv_exits := Some empty_exit_db\<rparr>"

abbreviation demo_flat_env :: sup_env where
  "demo_flat_env \<equiv> demo_sup_env canceled_broker"

abbreviation demo_deployments :: "(string \<times> deployment) list" where
  "demo_deployments \<equiv> [(''d1'', demo_exit_deployment)]"

text \<open>A live position whose preparation ends well is sold.\<close>

lemma hard_flat_reaches:
  assumes "flat_candidate deps symb p = Some d" "hard_flat_time_of e d = Inr flat"
    and "\<not> time_of_micros (et_micros (se_et e) (instant now)) < flat" "tp_source p \<noteq> LIVE_ENTRY_RECONCILIATION_HOLD_SOURCE"
    and "\<not> paper_flat dry_run p" "prepare_position_for_forced_flat e d p ''hard_flat'' s = (Inr (Some q), s1)"
  shows "hard_flat_position e deps now dry_run symb p s = flatten_live e d q HARD_FLAT_KIND s1"
  using assms by (simp add: hard_flat_position_def sx_lift_def sx_bind_def sx_return_def)

lemma emergency_flat_reaches:
  assumes "flat_candidate deps symb p = Some d" "tp_source p \<noteq> LIVE_ENTRY_RECONCILIATION_HOLD_SOURCE"
    and "\<not> paper_flat dry_run p" "prepare_position_for_forced_flat e d p ''halt_and_flatten'' s = (Inr (Some q), s1)"
  shows "emergency_flat_position e deps dry_run symb p s =
    (if tp_source q = ''live_pending'' \<and> text_truthy (tp_order_id q)
     then cancel_pending_entry_flat e d q (text_or (tp_order_id q)) dry_run s1 else flatten_live e d q EMERGENCY_FLAT_KIND s1)"
  using assms by (simp add: emergency_flat_position_def sx_bind_def)

lemma demo_flat_hypotheses:
  "no_handoff demo_flat_env demo_flat_position demo_flat_state" "only_this demo_flat_position demo_flat_state"
  "flat_candidate demo_deployments None demo_flat_position = Some demo_exit_deployment"
  by (auto simp: no_handoff_def only_this_def demo_flat_state_def demo_flat_position_def fresh_sup_def demo_exit_position_def
      of_kind_def get_open_action_intents_def empty_exit_db_def flat_candidate_def)

lemma demo_flat_prepared:
  "prepare_position_for_forced_flat demo_flat_env demo_exit_deployment demo_flat_position reason demo_flat_state
     = (Inr (Some demo_flat_position), demo_flat_state)"
  unfolding prepare_run [OF demo_flat_hypotheses(1)]
  by (simp add: demo_flat_state_def demo_flat_position_def demo_exit_position_def fresh_sup_def empty_exit_db_def
      get_open_action_intents_def settle_partial_exits_def of_kind_def sx_bind_def sx_return_def sv_runtime_state_def sv_get_def
      get_runtime_state_def find_state_def sx_lift_def quantity_outdated_def tracked_position_like_def alike_def)

lemma demo_flat_sold:
  "map op_quantity (placed (sv_log (snd (flatten_live demo_flat_env demo_exit_deployment demo_flat_position EMERGENCY_FLAT_KIND
     demo_flat_state)))) = [3]"
  by code_simp

definition demo_flat_run :: "(broker_exc + trade_plan option) \<times> sup_state" where
  "demo_flat_run = emergency_flat_position demo_flat_env demo_deployments False None demo_flat_position demo_flat_state"

theorem forced_flat_sells_settled_position_witness:
  "\<exists>calls. sv_log (snd demo_flat_run) = calls \<and> length (placed calls) \<le> 2 \<and> placed calls \<noteq> []
     \<and> proved_dead canceled_broker [] calls ''s0'' \<and> exits_settled demo_flat_env demo_flat_position (snd demo_flat_run)"
proof -
  have run: "emergency_flat_position demo_flat_env demo_deployments False None demo_flat_position demo_flat_state
      = (fst demo_flat_run, snd demo_flat_run)" by (simp add: demo_flat_run_def)
  have h: "sv_log demo_flat_state = []" "se_broker demo_flat_env = canceled_broker" "resting_ids demo_flat_position = [''s0'']"
    "tp_source demo_flat_position = ''live_open''"
    by (simp_all add: demo_flat_state_def demo_flat_position_def demo_sup_env_def fresh_sup_def resting_ids_def
        demo_exit_position_def text_truthy_def text_or_def)
  have "demo_flat_run = flatten_live demo_flat_env demo_exit_deployment demo_flat_position EMERGENCY_FLAT_KIND demo_flat_state"
    unfolding demo_flat_run_def
    by (simp add: emergency_flat_reaches [OF demo_flat_hypotheses(3) _ _ demo_flat_prepared] h(4) paper_flat_def
        LIVE_ENTRY_RECONCILIATION_HOLD_SOURCE_def)
  then have "placed (sv_log (snd demo_flat_run)) \<noteq> []" using demo_flat_sold by auto
  with forced_flat_sells_settled_position [OF disjI2 [OF run] demo_flat_hypotheses(1,2)] show ?thesis
    unfolding h(1,2) by (auto simp: flat_sale_def one_live_def h(3))
qed

section \<open>An entry that still waits for its fill\<close>

text \<open>
  The emergency flat cancels the entry of a position that still waits for its fill. The sweep at
  the hard flat time treats the same position as if it were held: it sells the whole quantity and
  leaves the entry working.
\<close>

definition waiting_position :: tracked_position where
  "waiting_position = demo_flat_position\<lparr>tp_source := ''live_pending'', tp_stop_order_id := None, tp_stop_price := None\<rparr>"

definition waiting_state :: sup_state where
  "waiting_state = fresh_sup\<lparr>sv_tracker := (sv_tracker fresh_sup)\<lparr>pt_positions := [waiting_position]\<rparr>\<rparr>"

definition demo_late :: pydt where
  "demo_late = Aware (16 * 3600 * 1000000)"

fun is_cancel :: "broker_call \<Rightarrow> bool" where
  "is_cancel (Cancel oid) = True"
| "is_cancel _ = False"

definition sales_and_cancels :: "broker_call list \<Rightarrow> int list \<times> broker_call list" where
  "sales_and_cancels calls = (map op_quantity (placed calls), filter is_cancel calls)"

lemma waiting_hypotheses:
  "flat_candidate demo_deployments None waiting_position = Some demo_exit_deployment"
  "tp_source waiting_position = ''live_pending''" "tp_order_id waiting_position = Some ''e1''"
  "prepare_position_for_forced_flat e d waiting_position reason waiting_state = (Inr (Some waiting_position), waiting_state)"
  "hard_flat_time_of demo_flat_env demo_exit_deployment = Inr (DtTime 15 55 0)"
  "\<not> time_of_micros (et_micros (se_et demo_flat_env) (instant demo_late)) < DtTime 15 55 0"
proof -
  show "hard_flat_time_of demo_flat_env demo_exit_deployment = Inr (DtTime 15 55 0)"
    "\<not> time_of_micros (et_micros (se_et demo_flat_env) (instant demo_late)) < DtTime 15 55 0" by code_simp+
qed (simp_all add: waiting_position_def demo_flat_position_def demo_exit_position_def flat_candidate_def waiting_state_def
    fresh_sup_def prepare_position_for_forced_flat_def sx_bind_def sv_get_def sx_return_def)

lemma waiting_sold:
  "sales_and_cancels (sv_log (snd (flatten_live demo_flat_env demo_exit_deployment waiting_position HARD_FLAT_KIND waiting_state)))
     = ([3], [])"
  "sales_and_cancels (sv_log (snd (cancel_pending_entry_flat demo_flat_env demo_exit_deployment waiting_position ''e1'' False
     waiting_state))) = ([], [Cancel ''e1''])"
  by code_simp+

lemma hard_flat_sells_waiting_entry:
  "sales_and_cancels (sv_log (snd (hard_flat_position demo_flat_env demo_deployments demo_late False None waiting_position
     waiting_state))) = ([3], [])"
  using hard_flat_reaches [where dry_run = False, OF waiting_hypotheses(1,5,6) _ _ waiting_hypotheses(4)] waiting_sold(1)
  by (simp add: waiting_hypotheses(2) paper_flat_def LIVE_ENTRY_RECONCILIATION_HOLD_SOURCE_def)

lemma emergency_flat_cancels_waiting_entry:
  "sales_and_cancels (sv_log (snd (emergency_flat_position demo_flat_env demo_deployments False None waiting_position
     waiting_state))) = ([], [Cancel ''e1''])"
  using emergency_flat_reaches [where dry_run = False and e = demo_flat_env, OF waiting_hypotheses(1) _ _ waiting_hypotheses(4)] waiting_sold(2)
  by (simp add: waiting_hypotheses(2,3) paper_flat_def LIVE_ENTRY_RECONCILIATION_HOLD_SOURCE_def text_truthy_def text_or_def)

end
