(* ===== verification/Books_Survive.thy ===== *)
theory Books_Survive
  imports Forced_Flat_Safety
begin

text \<open>
  The books under every handler of the supervisor that is modelled: the polls of pending exits,
  the synchronisation, the resumption of durable exit actions and the two forced flats.
\<close>

context trading_order begin

lemma within_intent_writes [keeps]:
  "steps_within R (sv_handoff e key stage restore pl)" "steps_within R (sv_resolve e key w d)"
  "steps_within R (sv_bind_order e key oid pl)" "steps_within R (sv_advance e old new)"
  unfolding sv_handoff_def sv_resolve_def sv_bind_order_def sv_advance_def
  by (rule within_exit_write, metis exit_step.simps)+

lemma within_memory [keeps]:
  "steps_within R (sv_remember tid x)" "steps_within R (rollback_unconfirmed_target_1 p)" "steps_within R request_refresh"
  "steps_within R (sv_drop_position p)"
  unfolding sv_remember_def rollback_unconfirmed_target_1_def request_refresh_def sv_drop_position_def
  by (auto intro!: within_do simp: Let_def split: option.split)

lemma within_place_stop [keeps]: "steps_within R (sv_place_stop e o' x n oid)"
  unfolding sv_place_stop_def by (intro keeps)

lemma within_classify [keeps]: "steps_within R (classify_stop_readback e oid o' n x)"
proof -
  have "steps_within R (stop_polls k e oid o' n x prev)" for k prev
    by (induction k arbitrary: prev) (auto intro!: keeps split: prod.split option.split)
  then show ?thesis by (simp add: classify_stop_readback_def)
qed

lemma within_adopt [keeps]: "steps_within R (adopt_recovered_ratchet_stop e p oid x)"
  unfolding adopt_recovered_ratchet_stop_def Let_def by (auto intro!: keeps split: option.split)

lemma within_stop_fill [keeps]: "steps_within R (close_on_stop_fill e d p key oid stage reason t)"
  unfolding close_on_stop_fill_def by (intro keeps)

lemma within_prior [keeps]: "steps_within R (clear_prior_stop e d p r)"
  unfolding clear_prior_stop_def prior_is_dead_def by (auto intro!: keeps split: prod.split)

lemma within_replacement [keeps]:
  "steps_within R (submit_replacement e r)" "steps_within R (settle_replacement e d p r oid)"
  "steps_within R (submit_restore e r)" "steps_within R (settle_restore e d p r oid)"
  unfolding submit_replacement_def settle_replacement_def commit_replacement_def submit_restore_def settle_restore_def Let_def
  by (auto intro!: keeps split: option.split stop_outcome.split)

lemma within_ratchet [keeps]: "steps_within R (reconcile_stop_ratchet_intent e d p i)"
  unfolding reconcile_stop_ratchet_intent_def resume_ratchet_def replace_stop_def after_replacement_def restore_prior_stop_def
  by (auto intro!: keeps split: option.split)

lemma within_open_intents [keeps]: "steps_within R (sv_open_intents e tid)"
  unfolding sv_open_intents_def by (auto intro!: keeps split: option.split)

lemma within_leg_id [keeps]: "steps_within R (sv_leg_id e r)"
  unfolding steps_within_def
proof
  fix s :: sup_state
  show "R s (snd (sv_leg_id e r s))"
    unfolding sv_leg_id_def
    by (auto simp: sq_record_partial_fill_def intro!: leg_written reflexive split: option.split prod.split)
qed

lemma within_partial [keeps]: "steps_within R (settle_partial e d p i pl st)"
  unfolding settle_partial_def book_partial_fill_def
  by (auto intro!: keeps within_leg_write simp: sq_enrich_partial_fill_def split: option.split)

lemma within_breakeven [keeps]: "steps_within R (settle_breakeven e p i d w)"
  unfolding settle_breakeven_def by (auto intro!: keeps split: option.split)

lemma within_intents [keeps]: "steps_within R (reconcile_open_profile_intents e d p is)"
  unfolding reconcile_open_profile_intents_def settle_profile_intent_def bind_found_order_def
  by (auto intro!: keeps split: option.split prod.split)

lemma within_prepare [keeps]: "steps_within R (prepare_position_for_forced_flat e d p reason)"
  unfolding prepare_position_for_forced_flat_def resume_stop_handoffs_def settle_partial_exits_def cancel_partial_exit_def
  by (auto intro!: keeps split: option.split prod.split)

lemma within_close_once [keeps]: "steps_within R (mark_dry_run_closed_once e p oid f)"
proof -
  have "steps_within R (\<lambda>s. let (won, db) = sq_mark_closed_if_open (se_codec e) now tid facts None (sv_trades s)
      in (Inr won, s\<lparr>sv_trades := db\<rparr>))" for now tid facts
    unfolding steps_within_def
  proof
    fix s :: sup_state
    have "trade_write (se_codec e) (sv_trades s) (snd (sq_mark_closed_if_open (se_codec e) now tid facts None (sv_trades s)))"
      unfolding trade_write_def
      by (rule exI [of _ "Close_If_Open now tid facts None"]) (simp add: store_step_simps)
    from trade_written [OF this] show "R s (snd (let (won, db) = sq_mark_closed_if_open (se_codec e) now tid facts None (sv_trades s)
      in (Inr won :: broker_exc + bool, s\<lparr>sv_trades := db\<rparr>)))" by (simp add: split_beta Let_def)
  qed
  then show ?thesis
    unfolding mark_dry_run_closed_once_def
    by (auto intro!: keeps within_trade_write [where c = "se_codec e"] simp: trade_write_closed split: option.split)
qed

lemma within_report [keeps]: "steps_within R (report_flat e d p k dry oid err extra)"
  unfolding report_flat_def by (intro keeps)

lemma within_paper_flat [keeps]: "steps_within R (flatten_paper_reported e d p k)"
  unfolding flatten_paper_reported_def flatten_paper_def paper_exit_fill_details_def emit_shadow_exit_assumed_def
  by (auto intro!: keeps split: prod.split)

lemma within_live_flat [keeps]: "steps_within R (flatten_live e d p k)"
  unfolding flatten_live_def sell_flat_def by (auto intro!: keeps split: option.split prod.split)

lemma within_cancel_entry [keeps]: "steps_within R (cancel_pending_entry_flat e d p oid dry)"
  unfolding cancel_pending_entry_flat_def Let_def
  by (auto intro!: keeps within_trade_write [where c = "se_codec e"] simp: trade_write_closed split: option.split prod.split)

lemma within_defer [keeps]: "steps_within R (defer_reconcile_hold_flatten e p reason dry)"
  unfolding defer_reconcile_hold_flatten_def Let_def by (auto intro!: keeps split: option.split prod.split)

lemma within_flat_positions [keeps]:
  "steps_within R (hard_flat_position e deps now dry symb p)" "steps_within R (emergency_flat_position e deps dry symb p)"
  unfolding hard_flat_position_def emergency_flat_position_def by (auto intro!: keeps split: option.split)

lemma within_sweep: "(\<And>p. steps_within R (f p)) \<Longrightarrow> steps_within R (sweep_positions f ps)"
  by (induction ps) (auto intro!: keeps)

lemma within_flats [keeps]:
  "steps_within R (close_due_positions e deps now dry symb)" "steps_within R (halt_and_flatten_positions e deps dry symb)"
  unfolding close_due_positions_def halt_and_flatten_positions_def by (intro keeps within_sweep)+

end

section \<open>No handler loses what the books hold\<close>

text \<open>The handlers that run between two states, each in the world it meets.\<close>

datatype handler =
    Poll_Exits "(string \<times> deployment) list" pydt
  | Synchronise
  | Settle_Intents deployment tracked_position "action_intent list"
  | Close_Due "(string \<times> deployment) list" pydt bool "string option"
  | Halt_And_Flatten "(string \<times> deployment) list" bool "string option"

definition handle :: "sup_env \<times> handler \<Rightarrow> sup_state \<Rightarrow> sup_state" where
  "handle x s = (case x of
      (e, Poll_Exits ds now) \<Rightarrow> snd (manage_pending_positions e ds now s)
    | (e, Synchronise) \<Rightarrow> snd (sync_lifecycle e s)
    | (e, Settle_Intents d p is) \<Rightarrow> snd (reconcile_open_profile_intents e d p is s)
    | (e, Close_Due ds now dry_run symb) \<Rightarrow> snd (close_due_positions e ds now dry_run symb s)
    | (e, Halt_And_Flatten ds dry_run symb) \<Rightarrow> snd (halt_and_flatten_positions e ds dry_run symb s))"

text \<open>
  C11. The books survive the supervisor. Over any sequence of polls of the pending exits,
  synchronisations, resumptions of durable exit actions (interrupted stop ratchets among them) and
  forced flats, against any answers of the broker and whichever of them raise half-way, every
  stored trade session stays with the exit facts it has, every frozen exit policy stays as
  frozen, every durable runtime state only advances, and every action intent keeps its request
  and the order bound to it.
\<close>

theorem books_survive:
  "trades_kept (sv_trades s) (sv_trades (fold handle hs s)) \<and> rel_option exits_kept (sv_exits s) (sv_exits (fold handle hs s))"
proof -
  have one: "books_kept s (handle x s)" for x s
    using books.within_pending books.within_sync books.within_intents books.within_flats
    by (auto simp: handle_def steps_within_def split: prod.split handler.split)
  have "books_kept s (fold handle hs s)"
  proof (induction hs arbitrary: s)
    case (Cons x hs)
    from books.transitive [OF one Cons.IH] show ?case by simp
  qed (simp add: books.reflexive)
  then show ?thesis by (simp add: books_kept_def)
qed

end
