(* ===== verification/Entry_Plan.thy ===== *)
theory Entry_Plan
  imports Protection Exit_Safety Risk_Budget Cash_Guard Selectors
begin

text \<open>
  \<open>ExecutionPlanner\<close> (\<open>src/bhiksha/execution/planner.py\<close>): from a signal to an order. One attempt
  selects the contract, prices it, sizes it, asks the governor, the cash guard and the risk
  manager, and submits; the recovery tries the next contract of the same chain. The state holds
  the orders, the two stores, the risk manager's state, the tracker and the context an attempt
  leaves to the next; the environment holds the broker, the chain service, the clock and what the
  guard and the risk manager read from outside. Time passes between any two broker calls: the
  clock is a function of the number of readings and of the broker's log. Of the receipts in
  \<open>risk_details\<close> the model keeps what a later decision reads; the snapshots of the chain are
  telemetry (they never raise) and are left out, as are latencies. The SQLite database of the
  weekly-chart strategy is behind one function of the environment. The broker's amounts of a
  preflight are finite: another one counts as an error of the sizing.
\<close>

section \<open>State and environment\<close>

record plan_state =
  ps_orders :: order_state
  ps_cash :: cash_db
  ps_risk :: risk_state
  ps_tracker :: position_tracker
  ps_trades :: trade_db
  ps_rank :: int
  ps_contracts :: "option_contract list option"
  ps_references :: "(string \<times> params) list"
  ps_rebuilding :: bool
  ps_validation :: "(string \<times> string) option"
  ps_reads :: nat

record plan_env =
  pe_broker :: broker
  pe_tx :: "pyval \<Rightarrow> string"
  pe_iso_parse :: "string \<Rightarrow> pydt option"
  pe_isofmt :: "int \<Rightarrow> string"
  pe_time_iso :: "string \<Rightarrow> dt_time option"
  pe_et :: "int \<Rightarrow> int"
  pe_codec :: codec
  pe_now :: "nat \<Rightarrow> broker_call list \<Rightarrow> int"
  pe_uuid :: "nat \<Rightarrow> string"
  pe_chain :: "nat \<Rightarrow> string \<Rightarrow> pydt \<Rightarrow> int \<Rightarrow> broker_exc + option_contract list"
  pe_entry_guard :: "(nat \<Rightarrow> broker_call list \<Rightarrow> string option) option"
  pe_weekly_block :: "nat \<Rightarrow> broker_call list \<Rightarrow> string option"
  pe_cash_env :: "environment option"
  pe_account_info :: "string option"
  pe_portfolio :: "nat \<Rightarrow> portfolio_call"
  pe_settings :: "risk_settings option"
  pe_world :: "nat \<Rightarrow> risk_world"
  pe_sized_error :: "nat \<Rightarrow> string option"
  pe_intents :: bool
  pe_intent_error :: "nat \<Rightarrow> bool"

type_synonym 'a planner = "(plan_state, 'a) sx"

abbreviation ps_log :: "plan_state \<Rightarrow> broker_call list" where
  "ps_log s \<equiv> om_log (ps_orders s)"

definition ps_zoom :: "'a om \<Rightarrow> 'a planner" where
  "ps_zoom m = (\<lambda>s. let (r, o') = m (ps_orders s) in (r, s\<lparr>ps_orders := o'\<rparr>))"

definition ps_do :: "(plan_state \<Rightarrow> plan_state) \<Rightarrow> unit planner" where
  "ps_do f = (\<lambda>s. (Inr (), f s))"

definition ps_get :: "(plan_state \<Rightarrow> 'a) \<Rightarrow> 'a planner" where
  "ps_get f = (\<lambda>s. (Inr (f s), s))"

text \<open>One reading of something that changes with time.\<close>

definition ps_read :: "(nat \<Rightarrow> broker_call list \<Rightarrow> 'a) \<Rightarrow> 'a planner" where
  "ps_read f = (\<lambda>s. (Inr (f (ps_reads s) (ps_log s)), s\<lparr>ps_reads := Suc (ps_reads s)\<rparr>))"

definition ps_now :: "plan_env \<Rightarrow> pydt planner" where
  "ps_now e = ps_read (\<lambda>n log. Aware (pe_now e n log))"

section \<open>The request\<close>

record signal_decision =
  sd_timestamp :: pydt
  sd_signal :: bool
  sd_direction :: "signal_direction option"
  sd_features :: params

text \<open>A deployment with what only the planner reads of its risk, exit and execution parts.\<close>

record entry_spec =
  es_deployment :: deployment
  es_max_trade_premium :: "real option"
  es_max_contracts :: "int option"
  es_max_open_total :: "int option"
  es_max_open_per_symbol :: "int option"
  es_max_open_per_deployment :: "int option"
  es_envelope_mode :: string
  es_envelope_cap_fraction :: "real option"
  es_dte_max :: int
  es_dte_fallback_policy :: string
  es_dte_fallback_max :: "int option"
  es_option_mapping :: "(string \<times> string) list"
  es_native_orders :: bool

record entry_call =
  en_spec :: entry_spec
  en_decision :: signal_decision
  en_dry_run :: bool
  en_simulate_only :: bool

abbreviation en_deployment :: "entry_call \<Rightarrow> deployment" where
  "en_deployment c \<equiv> es_deployment (en_spec c)"

definition underlying_entry_price_of :: "signal_decision \<Rightarrow> real option" where
  "underlying_entry_price_of d = (case dict_get (sd_features d) ''close'' of
      PNone \<Rightarrow> None
    | v \<Rightarrow> (case as_float v of Some (Fin x) \<Rightarrow> Some x | _ \<Rightarrow> None))"

definition parse_optional_et_time :: "(string \<Rightarrow> dt_time option) \<Rightarrow> string option \<Rightarrow> dt_time option result" where
  "parse_optional_et_time time_iso v = (case v of
      None \<Rightarrow> Inr None
    | Some t \<Rightarrow> if py_strip t = [] then Inr None
        else bind_result (parse_time_text time_iso t) (\<lambda>x. Inr (Some x)))"

definition after_start :: "dt_time option \<Rightarrow> dt_time \<Rightarrow> bool" where
  "after_start start t = (case start of None \<Rightarrow> True | Some x \<Rightarrow> x \<le> t)"

definition before_end :: "dt_time option \<Rightarrow> dt_time \<Rightarrow> bool" where
  "before_end end t = (case end of None \<Rightarrow> True | Some x \<Rightarrow> t \<le> x)"

definition entry_window_allows :: "plan_env \<Rightarrow> deployment \<Rightarrow> pydt \<Rightarrow> bool result" where
  "entry_window_allows e d t =
     bind_result (parse_optional_et_time (pe_time_iso e) (ex_entry_window_start_et (dep_execution d))) (\<lambda>start.
     bind_result (parse_optional_et_time (pe_time_iso e) (ex_entry_window_end_et (dep_execution d))) (\<lambda>end.
     let current = time_of_micros (et_micros (pe_et e) (instant t)) in
     bind_result (if text_truthy (xs_management_exit (dep_exit d)) \<and> xs_eod_flat (dep_exit d)
         then parse_optional_et_time (pe_time_iso e) (Some (xs_hard_flat_time_et (dep_exit d))) else Inr None) (\<lambda>flat.
     Inr ((case flat of None \<Rightarrow> True | Some x \<Rightarrow> current < x) \<and> after_start start current \<and> before_end end current))))"

definition intrinsic_value :: "string \<Rightarrow> real option \<Rightarrow> real option \<Rightarrow> real option" where
  "intrinsic_value contract_type strike underlying = (case (strike, underlying) of
      (Some k, Some u) \<Rightarrow>
        if py_upper contract_type = ''CALL'' then Some (max (u - k) 0)
        else if py_upper contract_type = ''PUT'' then Some (max (k - u) 0) else None
    | _ \<Rightarrow> None)"

definition risk_profile_for_deployment :: "entry_spec \<Rightarrow> real \<Rightarrow> risk_profile" where
  "risk_profile_for_deployment es max_trade_premium = \<lparr>
     max_open_positions_total = (case es_max_open_total es of None \<Rightarrow> 2 | Some n \<Rightarrow> n),
     max_open_positions_per_symbol = (case es_max_open_per_symbol es of None \<Rightarrow> 1 | Some n \<Rightarrow> n),
     max_open_positions_per_deployment = (case es_max_open_per_deployment es of None \<Rightarrow> 1 | Some n \<Rightarrow> n),
     max_trade_premium_usd = max_trade_premium\<rparr>"

definition mapped_type :: "entry_spec \<Rightarrow> string \<Rightarrow> string \<Rightarrow> pyval" where
  "mapped_type es key other = PStr (case map_of (es_option_mapping es) key of Some v \<Rightarrow> v | None \<Rightarrow> other)"

definition selection_request_of :: "entry_call \<Rightarrow> signal_direction \<Rightarrow> int \<Rightarrow> option_selection_request" where
  "selection_request_of c dir rank = \<lparr>rq_deployment_id = dep_id (en_deployment c), rq_symbol = dep_symbol (en_deployment c),
     rq_direction = dir,
     rq_execution_params = dict_merge (ex_params (dep_execution (en_deployment c)))
       [(''_entry_candidate_rank'', PInt rank),
        (''long_signal_contract_type'', mapped_type (en_spec c) ''long_signal'' ''CALL''),
        (''short_signal_contract_type'', mapped_type (en_spec c) ''short_signal'' ''PUT'')]\<rparr>"

definition DTE_FALLBACK_LOOKAHEAD_DAYS :: int where
  "DTE_FALLBACK_LOOKAHEAD_DAYS = 7"

definition lookup_dte_max :: "entry_spec \<Rightarrow> int" where
  "lookup_dte_max es =
     (let policy = py_lower (py_strip (if es_dte_fallback_policy es = [] then ''strict'' else es_dte_fallback_policy es))
      in if policy = ''allow_nearest_after''
         then (case es_dte_fallback_max es of Some n \<Rightarrow> n + 1 | None \<Rightarrow> es_dte_max es + (1 + DTE_FALLBACK_LOOKAHEAD_DAYS))
         else es_dte_max es + 1)"

section \<open>Sizing\<close>

text \<open>The binary search for the largest quantity whose planned loss fits.\<close>

function fit_search :: "(int \<Rightarrow> bool) \<Rightarrow> int \<Rightarrow> int \<Rightarrow> int" where
  "fit_search fits low high =
     (if low < high
      then let candidate = (low + high + 1) div 2
           in if fits candidate then fit_search fits candidate high else fit_search fits low (candidate - 1)
      else low)"
  by pat_completeness auto
termination by (relation "measure (\<lambda>(_, low, high). nat (high - low))") auto

declare fit_search.simps [simp del]

definition loss_fits :: "real \<Rightarrow> real option \<Rightarrow> pyfloat \<Rightarrow> int \<Rightarrow> bool" where
  "loss_fits price stop headroom n = (case planned_stop_loss_usd (Some price) n None stop of
      None \<Rightarrow> False | Some loss \<Rightarrow> f_le (Fin loss) headroom)"

definition contracts_for :: "real \<Rightarrow> real \<Rightarrow> int" where
  "contracts_for money price = \<lfloor>money / (price * 100)\<rfloor>"

definition ps_portfolio :: "plan_env \<Rightarrow> portfolio_call planner" where
  "ps_portfolio e = ps_read (\<lambda>n _. pe_portfolio e n)"

definition ps_preview_cash :: "plan_env \<Rightarrow> environment \<Rightarrow> string \<Rightarrow> pydt \<Rightarrow> cash_guard_result planner" where
  "ps_preview_cash e env tid t = sx_bind (ps_portfolio e) (\<lambda>pf s.
     let (r, db) = preview_entry sqlite_cash_repo env (pe_et e) (pe_account_info e) pf tid t (ps_cash s)
     in (Inr r, s\<lparr>ps_cash := db\<rparr>))"

text \<open>What the cash leaves of a quantity: the new quantity, or why there is none.\<close>

definition fit_cash ::
  "plan_env \<Rightarrow> string \<Rightarrow> pydt \<Rightarrow> real \<Rightarrow> real \<Rightarrow> int \<Rightarrow> (string option + int) planner" where
  "fit_cash e tid t price extra_cash quantity = (case pe_cash_env e of
      None \<Rightarrow> sx_return (Inr quantity)
    | Some env \<Rightarrow> sx_bind (ps_preview_cash e env tid t) (\<lambda>cash.
        if cg_blocked cash then sx_return (Inl (cg_reason cash))
        else if \<not> cg_enforced cash then sx_return (Inr quantity)
        else (case as_float (dict_get (cg_details cash) ''remaining_budget'') of
            Some (Fin capacity) \<Rightarrow>
              let n = min quantity (contracts_for (max 0 (capacity - extra_cash)) price)
              in sx_return (if n < 1 then Inl (Some ''insufficient_internal_settled_cash_budget'') else Inr n)
          | _ \<Rightarrow> sx_return (Inl (Some ''cash_guard_cash_unavailable'')))))"

definition sized_request_for :: "entry_call \<Rightarrow> string \<Rightarrow> real \<Rightarrow> int \<Rightarrow> sized_request" where
  "sized_request_for c tid price quantity = \<lparr>sz_trade_id = tid, sz_deployment_id = dep_id (en_deployment c),
     sz_symbol = dep_symbol (en_deployment c), sz_entry_price = price, sz_quantity = quantity,
     sz_stop_loss_pct = fst (recovery_stop_loss_pct (en_deployment c))\<rparr>"

definition ps_preview_risk :: "plan_env \<Rightarrow> risk_settings \<Rightarrow> sized_request \<Rightarrow> entry_decision planner" where
  "ps_preview_risk e st q = sx_bind (ps_read (\<lambda>n _. pe_world e n)) (\<lambda>w s.
     let (d, rs) = preview_sized_entry st (pe_et e) w q (ps_risk s) in (Inr d, s\<lparr>ps_risk := rs\<rparr>))"

definition fit_risk ::
  "plan_env \<Rightarrow> entry_call \<Rightarrow> string \<Rightarrow> real \<Rightarrow> int \<Rightarrow> (string option + int) planner" where
  "fit_risk e c tid price quantity = (case pe_settings e of
      None \<Rightarrow> sx_return (Inr quantity)
    | Some st \<Rightarrow> sx_bind (ps_preview_risk e st (sized_request_for c tid price (max 1 quantity))) (\<lambda>d.
        if \<not> ed_allowed d \<and> ed_reason d \<noteq> Some ''risk_prospective_loss_headroom_exceeded''
        then sx_return (Inl (ed_reason d))
        else (case as_float (dict_get (ed_details d) ''remaining_loss_headroom_usd'') of
            Some headroom \<Rightarrow>
              let n = fit_search (loss_fits price (fst (recovery_stop_loss_pct (en_deployment c))) headroom) 0 quantity
              in sx_return (if n < 1 then Inl (Some ''risk_prospective_loss_headroom_exceeded'') else Inr n)
          | None \<Rightarrow> sx_return (if ed_allowed d then Inr quantity else Inl (ed_reason d)))))"

text \<open>The quantity, and the reason if it does not do.\<close>

definition fit_live_quantity ::
  "plan_env \<Rightarrow> entry_call \<Rightarrow> string \<Rightarrow> real \<Rightarrow> int \<Rightarrow> real \<Rightarrow> real \<Rightarrow> (int \<times> string option) planner" where
  "fit_live_quantity e c tid price upper cap extra_cash =
     sx_bind (fit_cash e tid (sd_timestamp (en_decision c)) price extra_cash (min upper (contracts_for cap price))) (\<lambda>a. case a of
       Inl reason \<Rightarrow> sx_return (0, reason)
     | Inr n \<Rightarrow> sx_bind (fit_risk e c tid price n) (\<lambda>b. case b of
         Inl reason \<Rightarrow> sx_return (0, reason)
       | Inr m \<Rightarrow> sx_return (m, if 0 < m then None else Some ''insufficient_budget_for_single_contract'')))"

section \<open>Plans\<close>

text \<open>What an attempt has found so far.\<close>

record entry_draft =
  df_trade_id :: string
  df_selection :: option_selection
  df_quote :: public_quote
  df_params :: params
  df_refreshed :: bool
  df_again :: bool
  df_pricing :: pricing_result
  df_underlying :: "real option"

definition selection_estimate :: "option_selection \<Rightarrow> real" where
  "selection_estimate sel = (case estimated_entry_price sel of None \<Rightarrow> 0 | Some x \<Rightarrow> x)"

definition validation_receipt :: "(string \<times> string) option \<Rightarrow> params" where
  "validation_receipt v = (case v of None \<Rightarrow> [] | Some (status, stage) \<Rightarrow>
     [(''entry_pricing'', PDict [(''final_quote_validation'', PDict [(''quote_timestamp_status'', PStr status)]),
        (''final_quote_validation_stage'', PStr stage)])])"

definition retry_receipt :: "bool \<Rightarrow> params" where
  "retry_receipt b = [(''pre_submission_retryable'', PBool b)]"

definition entry_plan_of ::
  "entry_call \<Rightarrow> string \<Rightarrow> string \<Rightarrow> int \<Rightarrow> real \<Rightarrow> string list \<Rightarrow> bool \<Rightarrow> string option \<Rightarrow> real option \<Rightarrow> params \<Rightarrow> trade_plan" where
  "entry_plan_of c tid o' quantity price reasons dry oid underlying details =
     \<lparr>pn_trade_id = tid, pn_deployment_id = dep_id (en_deployment c), pn_symbol = dep_symbol (en_deployment c),
      pn_direction = (case sd_direction (en_decision c) of Some x \<Rightarrow> x | None \<Rightarrow> LONG), pn_option_symbol = o',
      pn_quantity = quantity, pn_estimated_entry_price = price, pn_risk_reasons = reasons, pn_dry_run = dry,
      pn_order_id = oid, pn_stop_order_id = None, pn_target_order_id = None, pn_underlying_entry_price = underlying,
      pn_entry_timestamp = Some (sd_timestamp (en_decision c)), pn_risk_details = details\<rparr>"

text \<open>A plan without an order.\<close>

definition refused_plan :: "entry_call \<Rightarrow> entry_draft \<Rightarrow> int \<Rightarrow> real \<Rightarrow> string list \<Rightarrow> params \<Rightarrow> trade_plan" where
  "refused_plan c dr quantity price reasons details =
     entry_plan_of c (df_trade_id dr) (os_option_symbol (df_selection dr)) quantity price reasons (en_dry_run c) None
       (df_underlying dr) details"

section \<open>The guard before each commitment\<close>

definition quote_reason :: "bool \<Rightarrow> string list \<Rightarrow> string \<Rightarrow> string option" where
  "quote_reason dry blocks status = (case blocks of
      x # _ \<Rightarrow> Some x
    | [] \<Rightarrow> if dry \<or> status = ''current'' then None
        else Some (if status = ''missing'' then ''public_quote_timestamp_missing'' else ''public_quote_stale_or_unproven''))"

text \<open>The operator's guard, the entry window, the strategy's own state.\<close>

definition permission_reason :: "plan_env \<Rightarrow> entry_call \<Rightarrow> entry_draft \<Rightarrow> nat \<Rightarrow> broker_call list \<Rightarrow> string option result" where
  "permission_reason e c dr n calls =
     (let d = en_deployment c; weekly = (dep_strategy_key d = ''weekly_chart'');
          first = (case pe_entry_guard e of None \<Rightarrow> None | Some g \<Rightarrow> g n calls)
      in bind_result (if first = None \<and> (df_refreshed dr \<or> weekly \<or> df_again dr)
           then bind_result (entry_window_allows e d (Aware (pe_now e n calls))) (\<lambda>ok.
             Inr (if ok then None else Some ''execution_window_blocked''))
           else Inr first) (\<lambda>second.
         Inr (if second = None \<and> weekly then pe_weekly_block e n calls else second)))"

text \<open>The reason, and the status of the quote if it was checked.\<close>

definition guard_check ::
  "plan_env \<Rightarrow> entry_call \<Rightarrow> entry_draft \<Rightarrow> bool \<Rightarrow> nat \<Rightarrow> broker_call list \<Rightarrow> (string option \<times> string option) result" where
  "guard_check e c dr check_freshness n calls =
     bind_result (permission_reason e c dr n calls) (\<lambda>reason.
     if reason = None \<and> check_freshness \<and> (df_refreshed dr \<or> \<not> en_dry_run c \<or> en_simulate_only c)
     then let now = Aware (pe_now e n calls); status = quote_timestamp_status (pe_iso_parse e) (df_quote dr) now in
       bind_result (select_entry_limit (pe_iso_parse e) (df_quote dr) (df_params dr) None now) (\<lambda>p.
       Inr (quote_reason (en_dry_run c) (pr_block_reasons p) status, Some status))
     else Inr (reason, None))"

definition guard_plan :: "entry_call \<Rightarrow> entry_draft \<Rightarrow> string \<Rightarrow> string \<Rightarrow> string option \<Rightarrow> trade_plan" where
  "guard_plan c dr stage reason status = refused_plan c dr 0
     (case pr_limit_price (df_pricing dr) of
        Some x \<Rightarrow> if x = 0 then selection_estimate (df_selection dr) else x
      | None \<Rightarrow> selection_estimate (df_selection dr)) [reason] (validation_receipt (map_option (\<lambda>st. (st, stage)) status))"

text \<open>The guard as a step: a plan if it refuses.\<close>

definition guarded :: "plan_env \<Rightarrow> entry_call \<Rightarrow> entry_draft \<Rightarrow> bool \<Rightarrow> string \<Rightarrow> trade_plan option planner" where
  "guarded e c dr check_freshness stage =
     sx_bind (ps_read (guard_check e c dr check_freshness)) (\<lambda>r.
     sx_bind (sx_lift r) (\<lambda>(reason, status).
     sx_bind (case status of None \<Rightarrow> sx_return () | Some st \<Rightarrow> ps_do (\<lambda>s. s\<lparr>ps_validation := Some (st, stage)\<rparr>)) (\<lambda>_.
     sx_return (map_option (\<lambda>x. guard_plan c dr stage x status) reason))))"

definition BEFORE_PREFLIGHT :: string where
  "BEFORE_PREFLIGHT = ''before_preflight''"

definition BEFORE_SUBMISSION :: string where
  "BEFORE_SUBMISSION = ''before_submission''"

section \<open>Quotes\<close>

definition ps_quote :: "plan_env \<Rightarrow> string \<Rightarrow> public_quote planner" where
  "ps_quote e o' = ps_zoom (get_option_quote (pe_broker e) (pe_iso_parse e) (pe_isofmt e) (pe_tx e) o')"

definition ps_price :: "plan_env \<Rightarrow> public_quote \<Rightarrow> params \<Rightarrow> pricing_result planner" where
  "ps_price e q ps = sx_bind (ps_now e) (\<lambda>now. sx_lift (select_entry_limit (pe_iso_parse e) q ps None now))"

text \<open>An operation whose exceptions the code swallows.\<close>

definition attempted :: "'a planner \<Rightarrow> 'a option planner" where
  "attempted m = sx_catch (sx_bind m (\<lambda>x. sx_return (Some x))) (\<lambda>_. sx_return None)"

definition usable_market :: "pricing_result \<Rightarrow> bool" where
  "usable_market r \<longleftrightarrow> pricing_approved r \<and> \<not> pr_wide_market r"

text \<open>A candidate of the search for a narrower market: its quote if the market will do.\<close>

definition narrower_quote :: "plan_env \<Rightarrow> string \<Rightarrow> params \<Rightarrow> public_quote option planner" where
  "narrower_quote e o' ps =
     sx_bind (attempted (sx_bind (ps_quote e o') (\<lambda>q. sx_bind (ps_price e q ps) (\<lambda>r. sx_return (q, usable_market r))))) (\<lambda>found.
     sx_return (case found of Some (q, True) \<Rightarrow> Some q | _ \<Rightarrow> None))"

text \<open>The search over the ranks after the first choice.\<close>

fun search_narrower ::
  "int list \<Rightarrow> plan_env \<Rightarrow> entry_call \<Rightarrow> signal_direction \<Rightarrow> option_contract list \<Rightarrow> params \<Rightarrow>
   (option_selection \<times> public_quote) option planner" where
  "search_narrower [] e c dir contracts ps = sx_return None"
| "search_narrower (rank # ranks) e c dir contracts ps =
     (case select_contract (pe_tx e) (selection_request_of c dir rank) contracts of
        Inl (Selector_Empty _ _ _) \<Rightarrow> sx_return None
      | Inl (Selector_Raise x) \<Rightarrow> sx_raise (Py_Error x)
      | Inr candidate \<Rightarrow>
          sx_bind (ps_get (\<lambda>s. find_by_option_symbol (ps_tracker s) (Some (os_option_symbol candidate)))) (\<lambda>owned.
          if owned \<noteq> [] then search_narrower ranks e c dir contracts ps
          else sx_bind (narrower_quote e (os_option_symbol candidate) ps) (\<lambda>found. case found of
              None \<Rightarrow> search_narrower ranks e c dir contracts ps
            | Some q \<Rightarrow> sx_bind (ps_do (\<lambda>s. s\<lparr>ps_rank := rank\<rparr>)) (\<lambda>_. sx_return (Some (candidate, q))))))"

end
