(* ===== verification/Entry_Attempt.thy ===== *)
theory Entry_Attempt
  imports Entry_Plan
begin

text \<open>
  One attempt at an entry (\<open>_plan_entry_once\<close> of \<open>src/bhiksha/execution/planner.py\<close>), stage by
  stage, and the recovery \<open>plan_entry\<close> around it. A stage either ends the attempt with a plan
  (\<^const>\<open>Inl\<close>) or passes on what it found; only the last stage of a live entry submits an order.
\<close>

section \<open>Stages\<close>

text \<open>An early return.\<close>

definition stage_bind :: "(trade_plan + 'a) planner \<Rightarrow> ('a \<Rightarrow> trade_plan planner) \<Rightarrow> trade_plan planner" where
  "stage_bind m f = sx_bind m (\<lambda>r. case r of Inl p \<Rightarrow> sx_return p | Inr x \<Rightarrow> f x)"

definition stage_guard :: "plan_env \<Rightarrow> entry_call \<Rightarrow> entry_draft \<Rightarrow> bool \<Rightarrow> string \<Rightarrow> (trade_plan + unit) planner" where
  "stage_guard e c dr check_freshness stage = sx_bind (guarded e c dr check_freshness stage) (\<lambda>g.
     sx_return (case g of Some p \<Rightarrow> Inl p | None \<Rightarrow> Inr ()))"

definition ps_uuid :: "plan_env \<Rightarrow> string planner" where
  "ps_uuid e = ps_read (\<lambda>n _. pe_uuid e n)"

section \<open>The contract and its price\<close>

definition chain_of :: "plan_env \<Rightarrow> entry_call \<Rightarrow> option_contract list planner" where
  "chain_of e c = sx_bind (ps_get ps_contracts) (\<lambda>known. case known of
      Some contracts \<Rightarrow> sx_return contracts
    | None \<Rightarrow> sx_bind (ps_read (\<lambda>n _. pe_chain e n (dep_symbol (en_deployment c)) (sd_timestamp (en_decision c)) (lookup_dte_max (en_spec c)))) (\<lambda>r.
        case r of
          Inl x \<Rightarrow> sx_raise x
        | Inr contracts \<Rightarrow> sx_bind (ps_do (\<lambda>s. s\<lparr>ps_contracts := Some contracts\<rparr>)) (\<lambda>_. sx_return contracts)))"

text \<open>\<^const>\<open>None\<close> where the code raises \<open>SelectorEmptyError\<close>.\<close>

definition resolve_contract ::
  "plan_env \<Rightarrow> entry_call \<Rightarrow> signal_direction \<Rightarrow> option_contract list \<Rightarrow> option_selection option planner" where
  "resolve_contract e c dir contracts = sx_bind (ps_get ps_rank) (\<lambda>rank.
     case select_contract (pe_tx e) (selection_request_of c dir rank) contracts of
       Inl (Selector_Empty _ _ _) \<Rightarrow> sx_return None
     | Inl (Selector_Raise x) \<Rightarrow> sx_raise (Py_Error x)
     | Inr sel \<Rightarrow> sx_return (Some sel))"

definition owned_elsewhere :: "entry_call \<Rightarrow> option_selection \<Rightarrow> position_tracker \<Rightarrow> bool" where
  "owned_elsewhere c sel t \<longleftrightarrow> (\<exists>p\<in>set (find_by_option_symbol t (Some (os_option_symbol sel))).
     tp_deployment_id p \<noteq> dep_id (en_deployment c))"

definition unpriced_plan :: "entry_call \<Rightarrow> string \<Rightarrow> option_selection \<Rightarrow> string \<Rightarrow> trade_plan" where
  "unpriced_plan c tid sel reason = entry_plan_of c tid (os_option_symbol sel) 0 (selection_estimate sel) [reason]
     (en_dry_run c) None (underlying_entry_price_of (en_decision c)) []"

text \<open>The quote of the contract, or of a later candidate with a narrower market.\<close>

definition chosen_market ::
  "plan_env \<Rightarrow> entry_call \<Rightarrow> signal_direction \<Rightarrow> option_contract list \<Rightarrow> option_selection \<Rightarrow> public_quote \<Rightarrow>
   (option_selection \<times> public_quote) planner" where
  "chosen_market e c dir contracts sel q =
     (let ps = ex_params (dep_execution (en_deployment c)) in
     sx_bind (ps_price e q ps) (\<lambda>r.
     if \<not> pr_wide_market r then sx_return (sel, q)
     else sx_bind (ps_get ps_rank) (\<lambda>rank.
          sx_bind (search_narrower [rank + 1..4] e c dir contracts ps) (\<lambda>found.
          sx_return (case found of None \<Rightarrow> (sel, q) | Some market \<Rightarrow> market)))))"

definition frozen_params :: "entry_call \<Rightarrow> option_selection \<Rightarrow> (string \<times> params) list \<Rightarrow> params" where
  "frozen_params c sel refs = (case map_of refs (os_option_symbol sel) of
      None \<Rightarrow> ex_params (dep_execution (en_deployment c))
    | Some frozen \<Rightarrow> dict_merge (ex_params (dep_execution (en_deployment c))) frozen)"

definition first_draft ::
  "plan_env \<Rightarrow> entry_call \<Rightarrow> string \<Rightarrow> option_selection \<Rightarrow> public_quote \<Rightarrow> entry_draft planner" where
  "first_draft e c tid sel q =
     sx_bind (ps_get (\<lambda>s. (frozen_params c sel (ps_references s), ps_rank s \<noteq> 0 \<or> ps_rebuilding s))) (\<lambda>(ps, again).
     sx_bind (ps_price e q ps) (\<lambda>r.
     sx_return \<lparr>df_trade_id = tid, df_selection = sel, df_quote = q, df_params = ps, df_refreshed = False,
       df_again = again, df_pricing = r, df_underlying = underlying_entry_price_of (en_decision c)\<rparr>))"

definition TIMESTAMP_BLOCKS :: "string list" where
  "TIMESTAMP_BLOCKS = [''public_quote_stale_or_unproven'', ''public_quote_timestamp_missing'']"

definition timestamp_blocked :: "pricing_result \<Rightarrow> bool" where
  "timestamp_blocked r \<longleftrightarrow> pr_block_reasons r \<noteq> [] \<and> list_all (\<lambda>x. x \<in> set TIMESTAMP_BLOCKS) (pr_block_reasons r)"

definition requoted :: "plan_env \<Rightarrow> entry_draft \<Rightarrow> entry_draft planner" where
  "requoted e dr =
     sx_bind (attempted (ps_quote e (os_option_symbol (df_selection dr)))) (\<lambda>quote. case quote of
       None \<Rightarrow> sx_return dr
     | Some q \<Rightarrow> sx_bind (attempted (ps_price e q (df_params dr))) (\<lambda>priced. sx_return (case priced of
           None \<Rightarrow> dr\<lparr>df_quote := q\<rparr>
         | Some r \<Rightarrow> dr\<lparr>df_quote := q, df_pricing := r\<rparr>)))"

text \<open>A quote that is only stale is asked for once more.\<close>

definition refresh_quote :: "plan_env \<Rightarrow> entry_call \<Rightarrow> entry_draft \<Rightarrow> (trade_plan + entry_draft) planner" where
  "refresh_quote e c dr =
     (if \<not> timestamp_blocked (df_pricing dr) then sx_return (Inr dr)
      else let dr1 = dr\<lparr>df_refreshed := True\<rparr> in
        sx_bind (guarded e c dr1 False BEFORE_PREFLIGHT) (\<lambda>g. case g of
          Some p \<Rightarrow> sx_return (Inl p)
        | None \<Rightarrow> sx_bind (requoted e dr1) (\<lambda>dr2.
            sx_bind (guarded e c dr2 False BEFORE_PREFLIGHT) (\<lambda>g2.
            sx_return (case g2 of Some p \<Rightarrow> Inl p | None \<Rightarrow> Inr dr2)))))"

text \<open>What the first approved quote of a contract fixes for the whole recovery.\<close>

definition reference_of :: "plan_env \<Rightarrow> entry_draft \<Rightarrow> params" where
  "reference_of e dr = (let r = df_pricing dr in
     [(''entry_original_mid'', opt_float (pr_original_mid r)), (''entry_price_ceiling'', opt_float (pr_max_entry_price r)),
      (''entry_wide_market'', PBool (pr_wide_market r)), (''entry_starting_bid'', opt_float (pq_bid (df_quote dr))),
      (''entry_starting_ask'', opt_float (pq_ask (df_quote dr))),
      (''entry_starting_quote_at'', dict_get (pricing_evidence (pe_iso_parse e) (pe_isofmt e) r) ''effective_quote_at'')])"

definition freeze_reference :: "plan_env \<Rightarrow> entry_draft \<Rightarrow> unit planner" where
  "freeze_reference e dr = ps_do (\<lambda>s.
     if pricing_approved (df_pricing dr) \<and> map_of (ps_references s) (os_option_symbol (df_selection dr)) = None
     then s\<lparr>ps_references := (os_option_symbol (df_selection dr), reference_of e dr) # ps_references s\<rparr> else s)"

text \<open>The limit price, unless the quote, or the contract's intrinsic value, speaks against it.\<close>

definition entry_price_stage :: "entry_call \<Rightarrow> entry_draft \<Rightarrow> trade_plan + real" where
  "entry_price_stage c dr =
     (let sel = df_selection dr; r = df_pricing dr in
      if pr_block_reasons r \<noteq> [] then Inl (refused_plan c dr 0 (selection_estimate sel) (pr_block_reasons r) [])
      else case pr_limit_price r of
          None \<Rightarrow> Inl (refused_plan c dr 0 (selection_estimate sel) [''public_quote_missing_price''] [])
        | Some price \<Rightarrow> (case intrinsic_value (os_contract_type sel) (os_strike sel) (df_underlying dr) of
              Some v \<Rightarrow> if price + 5 / 100 < v then Inl (refused_plan c dr 0 price [''underlying_option_price_inconsistent''] [])
                        else Inr price
            | None \<Rightarrow> Inr price))"

section \<open>The size and the governor\<close>

record entry_size =
  ez_price :: real
  ez_sizing_price :: real
  ez_cap :: real
  ez_quantity :: int
  ez_reasons :: "string list"

definition premium_cap :: "entry_spec \<Rightarrow> real result" where
  "premium_cap es =
     (let base = (case es_max_trade_premium es of None \<Rightarrow> 300 | Some x \<Rightarrow> if x = 0 then 300 else x)
      in if es_envelope_mode es = ''canary''
         then (case es_envelope_cap_fraction es of None \<Rightarrow> Inl ValueError | Some f \<Rightarrow> Inr (base * f))
         else Inr base)"

text \<open>The ceiling of an approved price is finite.\<close>

definition sizing_price_of :: "pricing_result \<Rightarrow> real \<Rightarrow> real" where
  "sizing_price_of r price = (case pr_max_entry_price r of Some (Fin x) \<Rightarrow> if x = 0 then price else x | _ \<Rightarrow> price)"

definition capped_quantity :: "entry_spec \<Rightarrow> real \<Rightarrow> real \<Rightarrow> int" where
  "capped_quantity es cap price = (case es_max_contracts es of
      None \<Rightarrow> contracts_for cap price | Some n \<Rightarrow> min (contracts_for cap price) n)"

definition governor_decision :: "entry_call \<Rightarrow> position_tracker \<Rightarrow> entry_size \<Rightarrow> risk_decision" where
  "governor_decision c t z = planned_entry_check (risk_profile_for_deployment (en_spec c) (ez_cap z)) t
     (dep_symbol (en_deployment c)) (dep_id (en_deployment c)) (ez_sizing_price z * of_int (ez_quantity z) * 100)
     (en_dry_run c) (en_simulate_only c)"

definition size_stage :: "entry_call \<Rightarrow> entry_draft \<Rightarrow> real \<Rightarrow> (trade_plan + entry_size) planner" where
  "size_stage c dr price =
     sx_bind (sx_lift (premium_cap (en_spec c))) (\<lambda>cap.
     let sizing = sizing_price_of (df_pricing dr) price; n = capped_quantity (en_spec c) cap sizing;
         z = \<lparr>ez_price = price, ez_sizing_price = sizing, ez_cap = cap, ez_quantity = n, ez_reasons = []\<rparr> in
     if n \<le> 0 then sx_return (Inl (refused_plan c dr 0 price [''insufficient_budget_for_single_contract''] []))
     else sx_bind (ps_get (\<lambda>s. governor_decision c (ps_tracker s) z)) (\<lambda>g.
       sx_return (if rd_approved g then Inr (z\<lparr>ez_reasons := rd_reasons g\<rparr>)
         else Inl (refused_plan c dr n price (rd_reasons g) []))))"

section \<open>Simulated and dry entries\<close>

definition entry_position :: "entry_call \<Rightarrow> entry_draft \<Rightarrow> int \<Rightarrow> string \<Rightarrow> string \<Rightarrow> tracked_position" where
  "entry_position c dr quantity source oid = \<lparr>tp_symbol = dep_symbol (en_deployment c),
     tp_deployment_id = dep_id (en_deployment c), tp_trade_id = Some (df_trade_id dr),
     tp_option_symbol = Some (os_option_symbol (df_selection dr)), tp_quantity = quantity, tp_entry_price = None,
     tp_underlying_entry_price = df_underlying dr, tp_entry_timestamp = Some (sd_timestamp (en_decision c)),
     tp_source = source, tp_order_id = Some oid, tp_stop_order_id = None, tp_stop_price = None,
     tp_target_order_id = None, tp_target_price = None, tp_target_activation_price = None,
     tp_target_activation_high_price = None, tp_target_activated_at = None, tp_exit_order_id = None,
     tp_exit_limit_price = None, tp_exit_submitted_at = None, tp_exit_mode = None, tp_exit_reprice_count = 0\<rparr>"

definition track_entry :: "entry_call \<Rightarrow> entry_draft \<Rightarrow> int \<Rightarrow> string \<Rightarrow> string \<Rightarrow> unit planner" where
  "track_entry c dr quantity source oid =
     ps_do (\<lambda>s. s\<lparr>ps_tracker := open_position (entry_position c dr quantity source oid) (ps_tracker s)\<rparr>)"

definition ps_preflight :: "plan_env \<Rightarrow> entry_draft \<Rightarrow> real \<Rightarrow> int \<Rightarrow> preflight_check planner" where
  "ps_preflight e dr price quantity = sx_bind (ps_uuid e) (\<lambda>nid.
     ps_zoom (preflight_entry (pe_broker e) (pe_tx e) nid (os_option_symbol (df_selection dr)) price quantity))"

text \<open>An operation and the exception it may end with.\<close>

definition caught :: "'a planner \<Rightarrow> (broker_exc + 'a) planner" where
  "caught m = (\<lambda>s. let (r, s') = m s in (Inr r, s'))"

definition preflight_price :: "preflight_check \<Rightarrow> real" where
  "preflight_price k = (case op_limit_price (pf_payload k) of None \<Rightarrow> 0 | Some x \<Rightarrow> x)"

definition simulated_refusal :: "entry_call \<Rightarrow> entry_draft \<Rightarrow> entry_size \<Rightarrow> string \<Rightarrow> bool \<Rightarrow> trade_plan" where
  "simulated_refusal c dr z reason retry =
     (refused_plan c dr (ez_quantity z) (ez_price z) [reason] (retry_receipt retry))\<lparr>pn_dry_run := True\<rparr>"

text \<open>The broker's tick for a simulated entry.\<close>

definition simulate_stage :: "plan_env \<Rightarrow> entry_call \<Rightarrow> entry_draft \<Rightarrow> entry_size \<Rightarrow> (trade_plan + entry_size) planner" where
  "simulate_stage e c dr z =
     (if \<not> en_simulate_only c then sx_return (Inr z)
      else sx_bind (caught (ps_preflight e dr (ez_price z) (ez_quantity z))) (\<lambda>r. case r of
          Inl x \<Rightarrow> sx_return (Inl (simulated_refusal c dr z ''public_preflight_failed'' (preflight_failure_is_transient x)))
        | Inr k \<Rightarrow>
            if truthy_increment (pf_current_increment k) = None
            then sx_return (Inl (simulated_refusal c dr z ''public_preflight_tick_metadata_unavailable''
                   (preflight_failure_is_transient (Py_Error ValueError))))
            else if preflight_price k > ez_price z + 1 / 10 ^ 9
            then sx_return (Inl (simulated_refusal c dr z ''public_preflight_failed''
                   (preflight_failure_is_transient (Py_Error ValueError))))
            else sx_bind (guarded e c dr True BEFORE_PREFLIGHT) (\<lambda>g. sx_return (case g of
                Some p \<Rightarrow> Inl p | None \<Rightarrow> Inr (z\<lparr>ez_price := preflight_price k\<rparr>)))))"

definition approved_plan :: "entry_call \<Rightarrow> entry_draft \<Rightarrow> entry_size \<Rightarrow> string option \<Rightarrow> trade_plan" where
  "approved_plan c dr z oid = (refused_plan c dr (ez_quantity z) (ez_price z) (ez_reasons z) [])
     \<lparr>pn_dry_run := True, pn_order_id := oid\<rparr>"

definition dry_entry :: "entry_call \<Rightarrow> entry_draft \<Rightarrow> entry_size \<Rightarrow> trade_plan planner" where
  "dry_entry c dr z =
     (if en_simulate_only c then sx_return (approved_plan c dr z None)
      else sx_bind (track_entry c dr (ez_quantity z) ''dry_run'' ''DRY_RUN'') (\<lambda>_.
        sx_return (approved_plan c dr z (Some ''DRY_RUN''))))"

section \<open>The size of a live entry\<close>

text \<open>The broker's amounts, \<open>value or 0.0\<close>.\<close>

definition amount_or_zero :: "pyfloat option \<Rightarrow> real result" where
  "amount_or_zero v = (case v of None \<Rightarrow> Inr 0 | Some (Fin x) \<Rightarrow> Inr x | Some _ \<Rightarrow> Inl ValueError)"

definition preflight_amounts :: "preflight_check \<Rightarrow> (real \<times> real) result" where
  "preflight_amounts k = bind_result (amount_or_zero (pf_buying_power k)) (\<lambda>bp.
     bind_result (amount_or_zero (pf_estimated_cost k)) (\<lambda>cost. Inr (bp, cost)))"

datatype sizing = Sized int preflight_check | Unsized int string bool

definition sizing_failed :: "int \<Rightarrow> broker_exc \<Rightarrow> sizing" where
  "sizing_failed quantity x = Unsized quantity (''public_preflight_failed:'' @ exc_text x) (preflight_failure_is_transient x)"

text \<open>A broker price or fees that leave less room are answered by a smaller quantity, preflighted again.\<close>

fun settle_quantity :: "nat \<Rightarrow> plan_env \<Rightarrow> entry_call \<Rightarrow> entry_draft \<Rightarrow> entry_size \<Rightarrow> int \<Rightarrow> sizing planner" where
  "settle_quantity 0 e c dr z quantity = sx_return (Unsized quantity ''entry_sizing_preflight_unstable'' False)"
| "settle_quantity (Suc n) e c dr z quantity =
     sx_bind (caught (ps_preflight e dr (ez_price z) quantity)) (\<lambda>r. case r of
       Inl x \<Rightarrow> sx_return (sizing_failed quantity x)
     | Inr k \<Rightarrow> (case preflight_amounts k of
         Inl x \<Rightarrow> sx_return (Unsized quantity ''entry_sizing_failed:'' False)
       | Inr (bp, cost) \<Rightarrow>
           let price = preflight_price k; gross = price * of_int quantity * 100; required = max (max bp cost) gross in
           sx_bind (fit_live_quantity e c (df_trade_id dr) (max (ez_sizing_price z) price) quantity (ez_cap z)
             (max 0 (required - gross))) (\<lambda>(fitted, reason).
           if text_truthy reason then sx_return (Unsized fitted (text_or reason) False)
           else if fitted = quantity then sx_return (Sized quantity k)
           else settle_quantity n e c dr z fitted)))"

definition live_quantity :: "plan_env \<Rightarrow> entry_call \<Rightarrow> entry_draft \<Rightarrow> entry_size \<Rightarrow> sizing planner" where
  "live_quantity e c dr z =
     sx_bind (fit_live_quantity e c (df_trade_id dr) (ez_sizing_price z) (ez_quantity z) (ez_cap z) 0) (\<lambda>(quantity, reason).
     if text_truthy reason then sx_return (Unsized quantity (text_or reason) False)
     else settle_quantity 3 e c dr z quantity)"

section \<open>Reservations, intent and submission\<close>

record live_order =
  lo_quantity :: int
  lo_limit :: real
  lo_required_cash :: real

definition ps_receipt :: "params planner" where
  "ps_receipt = ps_get (\<lambda>s. validation_receipt (ps_validation s))"

definition live_refusal ::
  "entry_call \<Rightarrow> entry_draft \<Rightarrow> int \<Rightarrow> real \<Rightarrow> string \<Rightarrow> params \<Rightarrow> trade_plan planner" where
  "live_refusal c dr quantity price reason details = sx_bind ps_receipt (\<lambda>receipt.
     sx_return ((refused_plan c dr quantity price [reason] (receipt @ details))\<lparr>pn_dry_run := False\<rparr>))"

definition ps_cash_reserve :: "plan_env \<Rightarrow> environment \<Rightarrow> string \<Rightarrow> real \<Rightarrow> pydt \<Rightarrow> cash_guard_result planner" where
  "ps_cash_reserve e env tid required t = sx_bind (ps_portfolio e) (\<lambda>pf s.
     let (r, db) = reserve_entry sqlite_cash_repo env (pe_et e) (pe_account_info e) pf tid required t True (ps_cash s)
     in (Inr r, s\<lparr>ps_cash := db\<rparr>))"

definition ps_cash_release :: "plan_env \<Rightarrow> string \<Rightarrow> unit planner" where
  "ps_cash_release e tid = (if pe_cash_env e = None then sx_return ()
     else ps_do (\<lambda>s. s\<lparr>ps_cash := release_entry sqlite_cash_repo tid (ps_cash s)\<rparr>))"

definition ps_risk_reserve :: "plan_env \<Rightarrow> risk_settings \<Rightarrow> sized_request \<Rightarrow> entry_decision planner" where
  "ps_risk_reserve e st q = sx_bind (ps_read (\<lambda>n _. pe_world e n)) (\<lambda>w s.
     let (d, rs) = reserve_sized_entry st (pe_et e) w q True (ps_risk s) in (Inr d, s\<lparr>ps_risk := rs\<rparr>))"

definition ps_risk_release :: "plan_env \<Rightarrow> string \<Rightarrow> unit planner" where
  "ps_risk_release e tid = (if pe_settings e = None then sx_return ()
     else ps_do (\<lambda>s. s\<lparr>ps_risk := release_sized_entry tid (ps_risk s)\<rparr>))"

definition release_both :: "plan_env \<Rightarrow> string \<Rightarrow> unit planner" where
  "release_both e tid = sx_bind (ps_cash_release e tid) (\<lambda>_. ps_risk_release e tid)"

text \<open>The durable intent: the trade is recorded before the order is sent.\<close>

definition entry_intent :: "entry_call \<Rightarrow> entry_draft \<Rightarrow> live_order \<Rightarrow> trade_session" where
  "entry_intent c dr o' = (position_session (entry_position c dr (lo_quantity o') ''live_pending'' (df_trade_id dr))
     (df_trade_id dr) ''pending_entry_reconcile'' None)\<lparr>tr_entry_price := Some (lo_limit o')\<rparr>"

definition ps_upsert_trade :: "plan_env \<Rightarrow> trade_session \<Rightarrow> unit planner" where
  "ps_upsert_trade e r = sx_bind (ps_now e) (\<lambda>now. ps_do (\<lambda>s. s\<lparr>ps_trades :=
     sq_upsert_trade (pe_codec e) (iso_text (pe_codec e) now) r (ps_trades s)\<rparr>))"

definition clear_unsubmitted_intent :: "plan_env \<Rightarrow> entry_call \<Rightarrow> entry_draft \<Rightarrow> live_order \<Rightarrow> unit planner" where
  "clear_unsubmitted_intent e c dr o' = (if \<not> pe_intents e then sx_return ()
     else ps_upsert_trade e ((entry_intent c dr o')\<lparr>tr_quantity := 0, tr_entry_price := None, tr_entry_order_id := None,
       tr_status := ''closed''\<rparr>))"

text \<open>Whether the intent was written.\<close>

definition write_intent :: "plan_env \<Rightarrow> entry_call \<Rightarrow> entry_draft \<Rightarrow> live_order \<Rightarrow> bool planner" where
  "write_intent e c dr o' = (if \<not> pe_intents e then sx_return True
     else sx_bind (ps_read (\<lambda>n _. pe_intent_error e n)) (\<lambda>failed.
       if failed then sx_return False else sx_bind (ps_upsert_trade e (entry_intent c dr o')) (\<lambda>_. sx_return True)))"

text \<open>The guard inside the submission: asked with the log as it is then.\<close>

definition submission_guard_of :: "plan_env \<Rightarrow> entry_call \<Rightarrow> entry_draft \<Rightarrow> nat \<Rightarrow> submission_guard" where
  "submission_guard_of e c dr n calls = (case guard_check e c dr True n calls of Inl _ \<Rightarrow> None | Inr (reason, _) \<Rightarrow> reason)"

definition uncertain_result :: "string \<Rightarrow> real \<Rightarrow> broker_exc \<Rightarrow> order_result" where
  "uncertain_result tid limit x = \<lparr>or_order_id = Some tid, or_error = Some (''entry_submission_uncertain:'' @ exc_class x),
     or_actual_limit_price = Some limit, or_increment_rejected = False, or_submission_uncertain = True,
     or_submission_attempted = True, or_pre_submission_retryable = False\<rparr>"

definition submit_entry :: "plan_env \<Rightarrow> entry_call \<Rightarrow> entry_draft \<Rightarrow> live_order \<Rightarrow> order_result planner" where
  "submit_entry e c dr o' = sx_bind (ps_uuid e) (\<lambda>nid.
     sx_bind (ps_get ps_reads) (\<lambda>n.
     sx_catch (ps_zoom (place_entry_order (pe_broker e) (pe_tx e) nid (os_option_symbol (df_selection dr)) (lo_limit o')
         (lo_quantity o') (df_trade_id dr) (submission_guard_of e c dr n)))
       (\<lambda>x. sx_return (uncertain_result (df_trade_id dr) (lo_limit o') x))))"

definition nothing_submitted :: "order_result \<Rightarrow> bool" where
  "nothing_submitted r \<longleftrightarrow> or_order_id r = None \<or> text_truthy (or_error r) \<and> \<not> or_submission_uncertain r"

text \<open>The guard that refused inside the submission leaves its reading of the quote.\<close>

definition note_refusal :: "plan_env \<Rightarrow> entry_call \<Rightarrow> entry_draft \<Rightarrow> nat \<Rightarrow> order_result \<Rightarrow> unit planner" where
  "note_refusal e c dr n r = ps_do (\<lambda>s. case guard_check e c dr True n (ps_log s) of
      Inr (Some reason, Some status) \<Rightarrow>
        if or_order_id r = None \<and> or_error r = Some reason then s\<lparr>ps_validation := Some (status, BEFORE_SUBMISSION)\<rparr> else s
    | _ \<Rightarrow> s)"

definition settle_submission ::
  "plan_env \<Rightarrow> entry_call \<Rightarrow> entry_draft \<Rightarrow> entry_size \<Rightarrow> live_order \<Rightarrow> order_result \<Rightarrow> trade_plan planner" where
  "settle_submission e c dr z o' r =
     sx_bind (if or_order_id r = None then clear_unsubmitted_intent e c dr o' else sx_return ()) (\<lambda>_.
     sx_bind (if nothing_submitted r then release_both e (df_trade_id dr) else sx_return ()) (\<lambda>_.
     sx_bind (case or_order_id r of
         Some oid \<Rightarrow> if oid = [] then sx_return () else track_entry c dr (lo_quantity o') ''live_pending'' oid
       | None \<Rightarrow> sx_return ()) (\<lambda>_.
     sx_bind ps_receipt (\<lambda>receipt.
     let price = (case or_actual_limit_price r of Some x \<Rightarrow> x | None \<Rightarrow> lo_limit o');
         reasons = (if text_truthy (or_order_id r) then ez_reasons z
           else ez_reasons z @ [if text_truthy (or_error r) then text_or (or_error r) else ''order_submit_failed''])
     in sx_return ((refused_plan c dr (lo_quantity o') price reasons (receipt @ retry_receipt (or_pre_submission_retryable r)))
          \<lparr>pn_dry_run := False, pn_order_id := or_order_id r\<rparr>)))))"

definition submission_stage ::
  "plan_env \<Rightarrow> entry_call \<Rightarrow> entry_draft \<Rightarrow> entry_size \<Rightarrow> live_order \<Rightarrow> trade_plan planner" where
  "submission_stage e c dr z o' =
     sx_bind (guarded e c dr True BEFORE_SUBMISSION) (\<lambda>g. case g of
       Some p \<Rightarrow> sx_bind (release_both e (df_trade_id dr)) (\<lambda>_.
         sx_bind (clear_unsubmitted_intent e c dr o') (\<lambda>_. sx_return p))
     | None \<Rightarrow> sx_bind (submit_entry e c dr o') (\<lambda>r.
         sx_bind (ps_get ps_reads) (\<lambda>n. sx_bind (note_refusal e c dr n r) (\<lambda>_. settle_submission e c dr z o' r))))"

section \<open>A live entry\<close>

definition required_cash_of :: "entry_size \<Rightarrow> int \<Rightarrow> real \<Rightarrow> real \<times> real \<Rightarrow> real" where
  "required_cash_of z quantity limit amounts = (let (bp, cost) = amounts; gross = limit * of_int quantity * 100 in
     max (max bp cost) (ez_sizing_price z * of_int quantity * 100 + max 0 (cost - gross)))"

definition live_order_of :: "entry_size \<Rightarrow> int \<Rightarrow> preflight_check \<Rightarrow> live_order result" where
  "live_order_of z quantity k = bind_result (preflight_amounts k) (\<lambda>amounts.
     Inr \<lparr>lo_quantity = quantity, lo_limit = preflight_price k,
       lo_required_cash = required_cash_of z quantity (preflight_price k) amounts\<rparr>)"

text \<open>The cash guard; \<^const>\<open>None\<close> lets the entry pass.\<close>

definition cash_stage :: "plan_env \<Rightarrow> entry_call \<Rightarrow> entry_draft \<Rightarrow> live_order \<Rightarrow> trade_plan option planner" where
  "cash_stage e c dr o' = (case pe_cash_env e of
      None \<Rightarrow> sx_return None
    | Some env \<Rightarrow> sx_bind (ps_cash_reserve e env (df_trade_id dr) (lo_required_cash o') (sd_timestamp (en_decision c))) (\<lambda>r.
        if cg_blocked r
        then sx_bind (live_refusal c dr (lo_quantity o') (lo_limit o')
               (if text_truthy (cg_reason r) then text_or (cg_reason r) else ''cash_guard_blocked'') []) (\<lambda>p. sx_return (Some p))
        else sx_return None))"

definition intent_stage :: "plan_env \<Rightarrow> entry_call \<Rightarrow> entry_draft \<Rightarrow> live_order \<Rightarrow> trade_plan option planner" where
  "intent_stage e c dr o' = sx_bind (write_intent e c dr o') (\<lambda>written.
     if written then sx_return None
     else sx_bind (release_both e (df_trade_id dr)) (\<lambda>_.
       sx_bind (live_refusal c (dr\<lparr>df_underlying := None\<rparr>) (lo_quantity o') (lo_limit o') ''entry_intent_persistence_failed'' []) (\<lambda>p.
       sx_return (Some p))))"

text \<open>The risk manager; its answer may be lost after its reservation was written.\<close>

definition risk_stage ::
  "plan_env \<Rightarrow> entry_call \<Rightarrow> entry_draft \<Rightarrow> entry_size \<Rightarrow> live_order \<Rightarrow> trade_plan option planner" where
  "risk_stage e c dr z o' = (case pe_settings e of
      None \<Rightarrow> sx_return None
    | Some st \<Rightarrow>
        sx_bind (ps_read (\<lambda>n _. pe_sized_error e n)) (\<lambda>lost.
        sx_bind (ps_risk_reserve e st (sized_request_for c (df_trade_id dr) (ez_sizing_price z) (lo_quantity o'))) (\<lambda>d.
        case lost of
          Some text \<Rightarrow> sx_bind (release_both e (df_trade_id dr)) (\<lambda>_.
            sx_bind (clear_unsubmitted_intent e c dr o') (\<lambda>_.
            sx_bind (live_refusal c dr (lo_quantity o') (lo_limit o') (''sized_entry_risk_check_failed:'' @ text) []) (\<lambda>p.
            sx_return (Some p))))
        | None \<Rightarrow>
            if ed_allowed d then sx_return None
            else sx_bind (ps_cash_release e (df_trade_id dr)) (\<lambda>_.
              sx_bind (clear_unsubmitted_intent e c dr o') (\<lambda>_.
              sx_bind (live_refusal c dr (lo_quantity o') (lo_limit o')
                (if text_truthy (ed_reason d) then text_or (ed_reason d) else ''sized_entry_risk_blocked'') []) (\<lambda>p.
              sx_return (Some p)))))))"

text \<open>A stage that may refuse.\<close>

definition unless_refused :: "trade_plan option planner \<Rightarrow> trade_plan planner \<Rightarrow> trade_plan planner" where
  "unless_refused m next = sx_bind m (\<lambda>g. case g of Some p \<Rightarrow> sx_return p | None \<Rightarrow> next)"

definition commit_entry :: "plan_env \<Rightarrow> entry_call \<Rightarrow> entry_draft \<Rightarrow> entry_size \<Rightarrow> live_order \<Rightarrow> trade_plan planner" where
  "commit_entry e c dr z o' =
     unless_refused (cash_stage e c dr o')
       (unless_refused (intent_stage e c dr o')
         (unless_refused (risk_stage e c dr z o') (submission_stage e c dr z o')))"

definition live_entry :: "plan_env \<Rightarrow> entry_call \<Rightarrow> entry_draft \<Rightarrow> entry_size \<Rightarrow> trade_plan planner" where
  "live_entry e c dr z = sx_bind (live_quantity e c dr z) (\<lambda>size. case size of
       Unsized n reason retry \<Rightarrow> live_refusal c dr n (ez_price z) reason (retry_receipt retry)
     | Sized n k \<Rightarrow>
         if preflight_price k > ez_price z + 1 / 10 ^ 9
         then live_refusal c (dr\<lparr>df_underlying := None\<rparr>) n (ez_price z) ''broker_entry_price_exceeds_limit'' []
         else sx_bind (sx_lift (live_order_of z n k)) (commit_entry e c dr z))"

section \<open>One attempt\<close>

definition entry_of_size :: "plan_env \<Rightarrow> entry_call \<Rightarrow> entry_draft \<Rightarrow> entry_size \<Rightarrow> trade_plan planner" where
  "entry_of_size e c dr z = stage_bind (stage_guard e c dr True BEFORE_PREFLIGHT) (\<lambda>_.
     stage_bind (simulate_stage e c dr z) (\<lambda>z1.
     if en_dry_run c then dry_entry c dr z1 else live_entry e c dr z1))"

definition entry_of_draft :: "plan_env \<Rightarrow> entry_call \<Rightarrow> entry_draft \<Rightarrow> trade_plan planner" where
  "entry_of_draft e c dr = stage_bind (refresh_quote e c dr) (\<lambda>dr1.
     sx_bind (freeze_reference e dr1) (\<lambda>_.
     stage_bind (sx_return (entry_price_stage c dr1)) (\<lambda>price.
     stage_bind (size_stage c dr1 price) (entry_of_size e c dr1))))"

definition entry_of_contract ::
  "plan_env \<Rightarrow> entry_call \<Rightarrow> signal_direction \<Rightarrow> option_contract list \<Rightarrow> option_selection \<Rightarrow> trade_plan planner" where
  "entry_of_contract e c dir contracts sel =
     (if es_native_orders (en_spec c) then sx_raise (Py_Error ValueError)
      else sx_bind (ps_get (\<lambda>s. owned_elsewhere c sel (ps_tracker s))) (\<lambda>taken.
        sx_bind (ps_uuid e) (\<lambda>tid.
        if taken then sx_return (unpriced_plan c tid sel ''option_contract_already_owned_by_other_deployment'')
        else sx_bind (attempted (ps_quote e (os_option_symbol sel))) (\<lambda>quote. case quote of
            None \<Rightarrow> sx_return (unpriced_plan c tid sel ''public_quote_unavailable'')
          | Some q \<Rightarrow> sx_bind (chosen_market e c dir contracts sel q) (\<lambda>(sel1, q1).
              sx_bind (first_draft e c tid sel1 q1) (entry_of_draft e c))))))"

datatype attempt = No_Signal | No_Contract | Planned trade_plan

definition window_plan :: "entry_call \<Rightarrow> string \<Rightarrow> trade_plan" where
  "window_plan c tid = entry_plan_of c tid [] 0 0 [''execution_window_blocked''] (en_dry_run c) None
     (underlying_entry_price_of (en_decision c)) []"

definition plan_entry_once :: "plan_env \<Rightarrow> entry_call \<Rightarrow> attempt planner" where
  "plan_entry_once e c = (case sd_direction (en_decision c) of
      None \<Rightarrow> sx_return No_Signal
    | Some dir \<Rightarrow>
        if \<not> sd_signal (en_decision c) then sx_return No_Signal
        else sx_bind (ps_do (\<lambda>s. s\<lparr>ps_validation := None\<rparr>)) (\<lambda>_.
          sx_bind (sx_lift (entry_window_allows e (en_deployment c) (sd_timestamp (en_decision c)))) (\<lambda>allowed.
          if \<not> allowed then sx_bind (ps_uuid e) (\<lambda>tid. sx_return (Planned (window_plan c tid)))
          else sx_bind (chain_of e c) (\<lambda>contracts.
            sx_bind (resolve_contract e c dir contracts) (\<lambda>found. case found of
              None \<Rightarrow> sx_return No_Contract
            | Some sel \<Rightarrow> sx_bind (entry_of_contract e c dir contracts sel) (\<lambda>p. sx_return (Planned p)))))))"

section \<open>The recovery\<close>

definition CONTRACT_BLOCKS :: "string list" where
  "CONTRACT_BLOCKS = [''insufficient_budget_for_single_contract'', ''option_contract_already_owned_by_other_deployment'',
     ''public_quote_stale_or_unproven'', ''public_quote_timestamp_missing'', ''public_quote_unavailable'',
     ''public_quote_crossed_bid_ask'', ''public_quote_nonfinite'', ''public_open_interest_missing'',
     ''public_quote_missing_bid_ask'', ''public_spread_absurd'', ''public_spread_unavailable'',
     ''risk_prospective_loss_headroom_exceeded'', ''insufficient_internal_settled_cash_budget'']"

definition plan_reasons :: "trade_plan \<Rightarrow> string list" where
  "plan_reasons p = filter (\<lambda>r. r \<noteq> ''approved'') (pn_risk_reasons p)"

text \<open>The final reading of the quote before the submission was not current.\<close>

definition final_quote_lost :: "trade_plan \<Rightarrow> bool" where
  "final_quote_lost p = (case dict_get (pn_risk_details p) ''entry_pricing'' of
      PDict pr \<Rightarrow> (case dict_get pr ''final_quote_validation'' of
          PDict (x # final) \<Rightarrow> dict_get (x # final) ''quote_timestamp_status'' \<noteq> PStr ''current''
            \<and> dict_get pr ''final_quote_validation_stage'' = PStr BEFORE_SUBMISSION
        | _ \<Rightarrow> False)
    | _ \<Rightarrow> False)"

datatype recovery = Stop | Rebuild | Next_Contract

definition recovery_of :: "bool \<Rightarrow> int \<Rightarrow> trade_plan \<Rightarrow> recovery" where
  "recovery_of rebuilt rank p =
     (if text_truthy (pn_order_id p) \<or> plan_reasons p = [] then Stop
      else if \<not> rebuilt \<and> list_all (\<lambda>r. r \<in> set TIMESTAMP_BLOCKS) (plan_reasons p) \<and> final_quote_lost p then Rebuild
      else if list_all (\<lambda>r. r \<in> set CONTRACT_BLOCKS) (plan_reasons p) \<and> rank < 4 then Next_Contract
      else Stop)"

text \<open>
  Up to \<open>n\<close> more attempts after \<open>previous\<close>; \<^const>\<open>None\<close> where there is nothing to plan. Without
  any plan an empty selection is an error.
\<close>

fun plan_attempts :: "nat \<Rightarrow> plan_env \<Rightarrow> entry_call \<Rightarrow> trade_plan option \<Rightarrow> bool \<Rightarrow> trade_plan option planner" where
  "plan_attempts 0 e c previous rebuilt = sx_return previous"
| "plan_attempts (Suc n) e c previous rebuilt =
     sx_bind (plan_entry_once e c) (\<lambda>a. case a of
       No_Signal \<Rightarrow> sx_return None
     | No_Contract \<Rightarrow> (case previous of
           None \<Rightarrow> sx_raise (Other_Error ''SelectorEmptyError'' [])
         | Some p \<Rightarrow> sx_return (Some p))
     | Planned p \<Rightarrow> sx_bind (ps_get ps_rank) (\<lambda>rank. case recovery_of rebuilt rank p of
           Stop \<Rightarrow> sx_return (Some p)
         | Rebuild \<Rightarrow> sx_bind (ps_do (\<lambda>s. s\<lparr>ps_rebuilding := True\<rparr>)) (\<lambda>_. plan_attempts n e c (Some p) True)
         | Next_Contract \<Rightarrow> sx_bind (ps_do (\<lambda>s. s\<lparr>ps_rank := rank + 1\<rparr>)) (\<lambda>_. plan_attempts n e c (Some p) rebuilt)))"

definition plan_entry :: "plan_env \<Rightarrow> entry_call \<Rightarrow> (string \<times> params) list \<Rightarrow> trade_plan option planner" where
  "plan_entry e c references =
     sx_bind (ps_do (\<lambda>s. s\<lparr>ps_rank := 0, ps_contracts := None, ps_references := references, ps_rebuilding := False\<rparr>)) (\<lambda>_.
     plan_attempts 6 e c None False)"

end
