(* ===== verification/Entry_Quiet.thy ===== *)
theory Entry_Quiet
  imports Entry_Attempt
begin

text \<open>
  What the stages of an entry ask of the broker: every stage but the submission sends no order,
  and the submission is that of \<open>place_entry_order\<close>; an order the broker did not reject leaves the
  submission with an order id.
\<close>

section \<open>Stages that send nothing\<close>

abbreviation quiet_plan :: "'a planner \<Rightarrow> bool" where
  "quiet_plan \<equiv> quiet_on ps_log"

lemma quiet_ps_zoom [quiets]: "sends_nothing m \<Longrightarrow> quiet_plan (ps_zoom m)"
  unfolding quiet_on_def ps_zoom_def by (auto split: prod.split) (metis snd_conv)

lemma quiet_ps_do [quiets]: "(\<And>s. ps_log (f s) = ps_log s) \<Longrightarrow> quiet_plan (ps_do f)"
  by (simp add: quiet_on_def ps_do_def)

lemma quiet_ps_get [quiets]: "quiet_plan (ps_get f)"
  by (simp add: quiet_on_def ps_get_def)

lemma quiet_ps_read [quiets]: "quiet_plan (ps_read f)"
  by (simp add: quiet_on_def ps_read_def)

lemma quiet_ps_update:
  "(\<And>s. \<exists>y s'. f s = (Inr y, s') \<and> ps_log s' = ps_log s) \<Longrightarrow> quiet_plan f"
  unfolding quiet_on_def by (metis append_Nil2 placed.simps(1) snd_conv)

lemma quiet_preview_cash [quiets]: "quiet_plan (ps_preview_cash e env tid t)"
  unfolding ps_preview_cash_def ps_portfolio_def
  by (intro quiets quiet_ps_update) (auto split: prod.split)

lemma quiet_preview_risk [quiets]: "quiet_plan (ps_preview_risk e st q)"
  unfolding ps_preview_risk_def by (intro quiets quiet_ps_update) (auto split: prod.split)

lemma quiet_cash_reserve [quiets]: "quiet_plan (ps_cash_reserve e env tid req t)"
  unfolding ps_cash_reserve_def ps_portfolio_def
  by (intro quiets quiet_ps_update) (auto split: prod.split)

lemma quiet_risk_reserve [quiets]: "quiet_plan (ps_risk_reserve e st q)"
  unfolding ps_risk_reserve_def by (intro quiets quiet_ps_update) (auto split: prod.split)

lemma quiet_fit [quiets]: "quiet_plan (fit_live_quantity e c tid price upper cap extra)"
  unfolding fit_live_quantity_def fit_cash_def fit_risk_def Let_def
  by (auto intro!: quiets split: option.split sum.split pyfloat.split)

lemma quiet_guarded [quiets]: "quiet_plan (guarded e c dr chk stage)"
  unfolding guarded_def by (auto intro!: quiets split: option.split prod.split)

lemma quiet_ps_quote [quiets]: "quiet_plan (ps_quote e o')"
  unfolding ps_quote_def by (intro quiets)

lemma quiet_ps_price [quiets]: "quiet_plan (ps_price e q ps)"
  unfolding ps_price_def ps_now_def by (intro quiets)

lemma quiet_attempted [quiets]: "quiet_plan m \<Longrightarrow> quiet_plan (attempted m)"
  unfolding attempted_def by (intro quiets)

lemma quiet_caught [quiets]: "quiet_plan m \<Longrightarrow> quiet_plan (caught m)"
  by (auto simp: quiet_on_def caught_def split: prod.split) (metis snd_conv)

lemma quiet_narrower [quiets]: "quiet_plan (narrower_quote e o' ps)"
  unfolding narrower_quote_def by (intro quiets)

lemma quiet_search [quiets]: "quiet_plan (search_narrower ranks e c dir contracts ps)"
  by (induction ranks) (auto intro!: quiets split: sum.split selector_error.split option.split)

lemma quiet_ps_uuid [quiets]: "quiet_plan (ps_uuid e)"
  unfolding ps_uuid_def by (intro quiets)

lemma quiet_chain [quiets]: "quiet_plan (chain_of e c)"
  unfolding chain_of_def by (auto intro!: quiets split: option.split sum.split)

lemma quiet_resolve [quiets]: "quiet_plan (resolve_contract e c dir contracts)"
  unfolding resolve_contract_def by (auto intro!: quiets split: sum.split selector_error.split)

lemma quiet_market [quiets]: "quiet_plan (chosen_market e c dir contracts sel q)"
  unfolding chosen_market_def Let_def by (auto intro!: quiets)

lemma quiet_first_draft [quiets]: "quiet_plan (first_draft e c tid sel q)"
  unfolding first_draft_def by (auto intro!: quiets split: prod.split)

lemma quiet_requoted [quiets]: "quiet_plan (requoted e dr)"
  unfolding requoted_def by (auto intro!: quiets split: option.split)

lemma quiet_refresh [quiets]: "quiet_plan (refresh_quote e c dr)"
  unfolding refresh_quote_def Let_def by (auto intro!: quiets split: option.split)

lemma quiet_freeze [quiets]: "quiet_plan (freeze_reference e dr)"
  unfolding freeze_reference_def by (intro quiets) simp

lemma quiet_size_stage [quiets]: "quiet_plan (size_stage c dr price)"
  unfolding size_stage_def Let_def by (auto intro!: quiets)

lemma quiet_preflight_entry [quiets]: "sends_nothing (preflight_entry br tx nid sy v q)"
  unfolding preflight_entry_def quiet_on_def by (metis preflight_attempts_quiet quiet_on_def)

lemma quiet_ps_preflight [quiets]: "quiet_plan (ps_preflight e dr price n)"
  unfolding ps_preflight_def by (intro quiets)

lemma quiet_simulate [quiets]: "quiet_plan (simulate_stage e c dr z)"
  unfolding simulate_stage_def by (auto intro!: quiets split: sum.split)

lemma quiet_track [quiets]: "quiet_plan (track_entry c dr n src oid)"
  unfolding track_entry_def by (intro quiets) simp

lemma quiet_dry [quiets]: "quiet_plan (dry_entry c dr z)"
  unfolding dry_entry_def by (auto intro!: quiets)

lemma quiet_settle_quantity [quiets]: "quiet_plan (settle_quantity n e c dr z q)"
  by (induction n arbitrary: q) (auto simp: Let_def intro!: quiets split: sum.split prod.split)

lemma quiet_live_quantity [quiets]: "quiet_plan (live_quantity e c dr z)"
  unfolding live_quantity_def by (auto intro!: quiets split: prod.split)

lemma quiet_refusal [quiets]: "quiet_plan (live_refusal c dr n price reason details)"
  unfolding live_refusal_def ps_receipt_def by (intro quiets)

lemma quiet_releases [quiets]:
  "quiet_plan (ps_cash_release e tid)" "quiet_plan (ps_risk_release e tid)" "quiet_plan (release_both e tid)"
  unfolding release_both_def ps_cash_release_def ps_risk_release_def by (auto intro!: quiets)

lemma quiet_intents [quiets]:
  "quiet_plan (ps_upsert_trade e r)" "quiet_plan (clear_unsubmitted_intent e c dr lo)" "quiet_plan (write_intent e c dr lo)"
  unfolding clear_unsubmitted_intent_def write_intent_def ps_upsert_trade_def ps_now_def by (auto intro!: quiets)

lemma quiet_cash_stage [quiets]: "quiet_plan (cash_stage e c dr lo)"
  unfolding cash_stage_def by (auto intro!: quiets split: option.split)

lemma quiet_intent_stage [quiets]: "quiet_plan (intent_stage e c dr lo)"
  unfolding intent_stage_def by (auto intro!: quiets)

lemma quiet_risk_stage [quiets]: "quiet_plan (risk_stage e c dr z lo)"
  unfolding risk_stage_def by (auto intro!: quiets split: option.split)

lemma quiet_note [quiets]: "quiet_plan (note_refusal e c dr n r)"
  unfolding note_refusal_def by (intro quiets) (auto split: sum.split prod.split option.split)

lemma quiet_settle_submission [quiets]: "quiet_plan (settle_submission e c dr z lo r)"
  unfolding settle_submission_def ps_receipt_def Let_def by (auto intro!: quiets split: option.split)

section \<open>An order that was not rejected has an id\<close>

text \<open>\<open>str(v)\<close> of a value that counts as true is not empty.\<close>

definition texts_ok :: "(pyval \<Rightarrow> string) \<Rightarrow> bool" where
  "texts_ok tx \<longleftrightarrow> (\<forall>v. py_truthy v \<longrightarrow> py_str tx v \<noteq> [])"

definition live_result :: "broker_exc + order_result \<Rightarrow> bool" where
  "live_result res \<longleftrightarrow> (\<exists>r. res = Inr r \<and> text_truthy (or_order_id r) \<and> \<not> nothing_submitted r)"

text \<open>The last order among the calls may be live.\<close>

definition last_may_live :: "broker \<Rightarrow> broker_call list \<Rightarrow> broker_call list \<Rightarrow> bool" where
  "last_may_live br log0 calls \<longleftrightarrow> (\<exists>before p after. calls = before @ Place p # after \<and> placed after = []
     \<and> \<not> reply_rejected (br (log0 @ before) (Place p)))"

lemma last_may_live_quiet [simp]: "placed calls = [] \<Longrightarrow> \<not> last_may_live br log0 calls"
  by (auto simp: last_may_live_def)

lemma last_may_live_after:
  assumes "last_may_live br log0 (pre @ calls)" "placed pre = []"
  shows "last_may_live br (log0 @ pre) calls"
proof -
  obtain before p after where split: "pre @ calls = before @ Place p # after" and a: "placed after = []"
    and r: "\<not> reply_rejected (br (log0 @ before) (Place p))" using assms(1) by (auto simp: last_may_live_def)
  from split obtain us where "pre = before @ us \<and> us @ calls = Place p # after \<or> pre @ us = before \<and> calls = us @ Place p # after"
    by (auto simp: append_eq_append_conv2)
  then show ?thesis
  proof
    assume h: "pre = before @ us \<and> us @ calls = Place p # after"
    then have "us = []" using assms(2) by (cases us) auto
    with h a r show ?thesis unfolding last_may_live_def by (metis append.left_neutral append_Nil2)
  next
    assume "pre @ us = before \<and> calls = us @ Place p # after"
    with a r show ?thesis unfolding last_may_live_def by (metis append_assoc)
  qed
qed

lemma last_may_live_one: "last_may_live br log0 [Place p] \<longleftrightarrow> \<not> reply_rejected (br log0 (Place p))"
  by (auto simp: last_may_live_def Cons_eq_append_conv intro: exI [of _ "[]"])

lemma submit_live:
  assumes "submit br tx p s = (res, s')" "texts_ok tx" "op_side p = ''BUY''" "op_order_id p \<noteq> []"
    and "\<not> reply_rejected (br (om_log s) (Place p))"
  shows "live_result res"
proof (cases "br (om_log s) (Place p)")
  case (Reply d)
  let ?v = "if py_truthy (dict_get d ''orderId'') then dict_get d ''orderId'' else dict_get d ''id''"
  have res: "res = Inr (if py_truthy ?v
      then \<lparr>or_order_id = Some (py_str tx ?v), or_error = None, or_actual_limit_price = submitted_price p,
        or_increment_rejected = False, or_submission_uncertain = False, or_submission_attempted = True,
        or_pre_submission_retryable = False\<rparr>
      else submit_failed p ''missing_order_id'' True False)"
    using assms(1) Reply unfolding submit_def om_call_def Let_def by simp
  show ?thesis
  proof (cases "py_truthy ?v")
    case True
    then have "py_str tx ?v \<noteq> []" using assms(2) unfolding texts_ok_def by blast
    then show ?thesis unfolding res if_P [OF True]
      by (simp add: live_result_def nothing_submitted_def text_truthy_def text_or_def)
  next
    case False
    then show ?thesis unfolding res if_not_P [OF False] using assms(3,4)
      by (simp add: live_result_def nothing_submitted_def submit_failed_def text_truthy_def text_or_def)
  qed
next
  case (Failure x)
  then have "\<not> definite_rejection x" using assms(5) by (simp add: reply_rejected_def)
  then show ?thesis using assms(1,3,4) Failure
    by (simp add: submit_def om_call_def live_result_def nothing_submitted_def submit_failed_def text_truthy_def text_or_def Let_def)
      (elim conjE, drule sym, simp)
qed

lemma guarded_submit_live:
  assumes "sx_bind (om_guard g) (\<lambda>reason. if text_truthy reason then sx_return (order_refused (text_or reason) False)
      else submit br tx p2) s = (res, s')" "texts_ok tx" "op_side p2 = ''BUY''" "op_order_id p2 \<noteq> []"
    and "om_log s' = om_log s @ calls" "last_may_live br (om_log s) calls"
  shows "live_result res"
proof (cases "text_truthy (g (om_log s))")
  case True
  then show ?thesis using assms(1,5,6) by (auto simp: sx_bind_def om_guard_def sx_return_def)
next
  case False
  then have run: "submit br tx p2 s = (res, s')" using assms(1) by (simp add: sx_bind_def om_guard_def)
  from submit_effect(1) [OF run] assms(5,6) have "\<not> reply_rejected (br (om_log s) (Place p2))"
    by (simp add: last_may_live_one)
  with submit_live [OF run assms(2-4)] show ?thesis .
qed

lemma retry_live:
  assumes "retry_submission br tx nid LimitPrice g original x p s = (res, s')" "entry_at oid symbl q v p"
    and "op_limit_price p = Some original" "oid \<noteq> []" "texts_ok tx"
    and "om_log s' = om_log s @ calls" "last_may_live br (om_log s) calls"
  shows "live_result res"
proof -
  have orig: "original \<le> v" "round_price original = original"
    using assms(2,3) by (auto simp: entry_at_def)
  have after: "last_may_live br (om_log s @ pre) rest" if "calls = pre @ rest" "placed pre = []" for pre rest
    using last_may_live_after [of br "om_log s" pre rest] assms(7) that by simp
  from assms(1) [unfolded retry_submission_def] sends_nothing_cache show ?thesis
  proof (cases rule: bind_quiet_cases)
    case one: (passed u s1 c1)
    from one(4) quiet_lift [of om_log] show ?thesis
    proof (cases rule: bind_quiet_cases)
      case two: (passed corrected s2 c2)
      have ox: "snap_price (Fin original) x = Inr corrected" using two(1) by (simp add: sx_lift_Inr)
      have cor: "corrected \<le> v" "round_price corrected = corrected"
        using snap_price_le [OF ox orig(2)] orig(1) by simp_all
      from two(4) retry_payload_quiet show ?thesis
      proof (cases rule: bind_quiet_cases)
        case three: (passed outcome s3 c3)
        let ?pre = "c1 @ c2 @ c3"
        have log3: "om_log s3 = om_log s @ ?pre" "placed ?pre = []" using one(2,3) two(2,3) three(2,3) by simp_all
        show ?thesis
        proof (cases outcome)
          case (Inl e)
          then have "calls = ?pre" using three(4) log3(1) assms(6) by (simp add: sx_return_def)
          then show ?thesis using assms(7) log3(2) by simp
        next
          case (Inr p2)
          have at2: "entry_at oid symbl q v p2" using retry_payload_at [OF three(1) [unfolded Inr] assms(2) cor] .
          obtain rest where rest: "om_log s' = om_log s3 @ rest"
            using guarded_submit_calls [OF three(4) [unfolded Inr sum.case] at2 assms(4)] by auto
          then have "last_may_live br (om_log s3) rest" using after [of ?pre rest] log3 assms(6) by simp
          then show ?thesis
            using guarded_submit_live [OF three(4) [unfolded Inr sum.case] assms(5) _ _ rest] at2 assms(4)
            by (simp add: entry_at_def)
        qed
      qed (use assms(6,7) one(2,3) two(2,3) in auto)
    qed (use assms(6,7) one(2,3) in auto)
  qed (use assms(6,7) in auto)
qed

lemma submit_retry_live:
  assumes "submit_with_increment_retry br tx nid LimitPrice g p s = (res, s')" "entry_at oid symbl q v p" "oid \<noteq> []"
    and "texts_ok tx" "om_log s' = om_log s @ calls" "last_may_live br (om_log s) calls"
  shows "live_result res"
proof (cases "text_truthy (g (om_log s))")
  case True
  then show ?thesis
    using assms(1,5,6) by (auto simp: submit_with_increment_retry_def sx_bind_def om_guard_def sx_return_def)
next
  case False
  obtain res1 s1 where sub: "submit br tx p s = (res1, s1)" by fastforce
  note eff = submit_effect [OF sub]
  from eff(2) obtain r where r: "res1 = Inr r" "or_increment_rejected r \<Longrightarrow> reply_rejected (br (om_log s) (Place p))" by auto
  have buy: "op_side p = ''BUY''" "op_order_id p \<noteq> []" using assms(2,3) by (auto simp: entry_at_def)
  have run: "(if text_truthy (or_order_id r) \<or> \<not> text_truthy (or_error r) then sx_return r
       else case (if or_increment_rejected r then extract_price_increment (or_error r) else None) of
         None \<Rightarrow> sx_return r
       | Some x \<Rightarrow>
           if normalize_option_symbol (op_symbol p) = [] then sx_return r
           else (case get_price LimitPrice p of
               None \<Rightarrow> sx_raise (Py_Error KeyError)
             | Some original \<Rightarrow> retry_submission br tx nid LimitPrice g original x p)) s1 = (res, s')"
    using assms(1) False sub r(1) by (simp add: submit_with_increment_retry_def sx_bind_def om_guard_def)
  consider (stop) "sx_return r s1 = (res, s')"
    | (again) x original where "or_increment_rejected r" "op_limit_price p = Some original"
        "retry_submission br tx nid LimitPrice g original x p s1 = (res, s')"
    using run assms(2) by (auto simp: entry_at_def split: if_splits option.splits)
  then show ?thesis
  proof cases
    case stop
    then have "calls = [Place p]" "res = Inr r" using assms(5) eff(1) by (auto simp: sx_return_def)
    then show ?thesis using submit_live [OF sub assms(4) buy] assms(6) r(1) by (simp add: last_may_live_one)
  next
    case again
    from retry_calls [OF again(3) assms(2) again(2) assms(3)] obtain c2 where c2: "om_log s' = om_log s1 @ c2" by blast
    then have calls: "calls = Place p # c2" using assms(5) eff(1) by simp
    have "last_may_live br (om_log s1) c2"
    proof -
      obtain before p' after where split: "Place p # c2 = before @ Place p' # after" "placed after = []"
        "\<not> reply_rejected (br (om_log s @ before) (Place p'))" using assms(6) calls by (auto simp: last_may_live_def)
      from split(1) show ?thesis
      proof (cases before)
        case Nil
        then show ?thesis using split r(2) [OF again(1)] by auto
      next
        case (Cons b bs)
        then show ?thesis using split eff(1) unfolding last_may_live_def by (intro exI [of _ bs] exI [of _ p'] exI [of _ after]) simp
      qed
    qed
    from retry_live [OF again(3) assms(2) again(2) assms(3,4) c2 this] show ?thesis .
  qed
qed

lemma place_entry_live:
  assumes "place_entry_order br tx nid sy limit q oid g s = (res, s')" "oid \<noteq> []" "texts_ok tx"
    and "om_log s' = om_log s @ calls" "last_may_live br (om_log s) calls"
  shows "live_result res"
  using assms(1) [unfolded place_entry_order_def] correction_quiet
proof (cases rule: bind_quiet_cases)
  case (failed e c)
  then show ?thesis using assms(4,5) by simp
next
  case (passed p s1 c1)
  note at = correction_at [OF passed(1) entry_payload_at]
  from submit_retry_calls [OF passed(4) at assms(2)] obtain c2 where c2: "om_log s' = om_log s1 @ c2" by blast
  then have "last_may_live br (om_log s1) c2"
    using last_may_live_after [of br "om_log s" c1 c2] assms(4,5) passed(2,3) by simp
  from submit_retry_live [OF passed(4) at assms(2,3) c2 this] show ?thesis .
qed

section \<open>The submission of an entry\<close>

definition entry_order :: "entry_draft \<Rightarrow> live_order \<Rightarrow> order_payload \<Rightarrow> bool" where
  "entry_order dr lo = entry_at (df_trade_id dr) (normalize_option_symbol (os_option_symbol (df_selection dr)))
     (lo_quantity lo) (round_price (lo_limit lo))"

lemma submit_entry_runs:
  assumes "submit_entry e c dr lo s = (res, s')" "df_trade_id dr \<noteq> []" "texts_ok (pe_tx e)"
  shows "\<exists>r calls h. res = Inr r \<and> ps_log s' = ps_log s @ calls
    \<and> submission_calls (pe_broker e) (ps_log s) (entry_order dr lo) h calls
    \<and> (last_may_live (pe_broker e) (ps_log s) calls \<longrightarrow> live_result (Inr r))
    \<and> s' = s\<lparr>ps_orders := ps_orders s', ps_reads := Suc (ps_reads s)\<rparr>"
proof -
  let ?n = "Suc (ps_reads s)"
  obtain nid where nid: "nid = pe_uuid e (ps_reads s)" by simp
  obtain res0 o1 where run: "place_entry_order (pe_broker e) (pe_tx e) nid (os_option_symbol (df_selection dr)) (lo_limit lo)
      (lo_quantity lo) (df_trade_id dr) (submission_guard_of e c dr ?n) (ps_orders s) = (res0, o1)" by fastforce
  have s': "s' = s\<lparr>ps_orders := o1, ps_reads := ?n\<rparr>" and
    res: "res = (case res0 of Inl x \<Rightarrow> Inr (uncertain_result (df_trade_id dr) (lo_limit lo) x) | Inr r \<Rightarrow> Inr r)"
    using assms(1) run
    by (auto simp: submit_entry_def sx_bind_def ps_uuid_def ps_read_def ps_get_def sx_catch_def ps_zoom_def nid sx_return_def
        split: sum.splits prod.splits)
  from place_entry_calls [OF run assms(2)] obtain calls where calls: "om_log o1 = ps_log s @ calls"
    "submission_calls (pe_broker e) (ps_log s) (entry_order dr lo) (held (df_trade_id dr) res0) calls"
    by (auto simp: entry_order_def)
  have "\<exists>r. res = Inr r \<and> (last_may_live (pe_broker e) (ps_log s) calls \<longrightarrow> live_result (Inr r))"
  proof (cases res0)
    case (Inl x)
    then show ?thesis using res assms(2)
      by (simp add: live_result_def uncertain_result_def nothing_submitted_def text_truthy_def text_or_def)
  next
    case (Inr r)
    then show ?thesis using res place_entry_live [OF run assms(2,3) calls(1)] by simp
  qed
  with calls s' show ?thesis by auto
qed

end
