(* ===== verification/Entry_Claims.thy ===== *)
theory Entry_Claims
  imports Entry_Quiet Step_Order
begin

text \<open>
  What an entry claims of the cash ledger and of the risk manager's reservations. \<open>claims\<close> orders
  the states: later, the trades outside two sets (one for the ledger, one for the reservations)
  hold nothing that they did not hold before. A reservation respects the order with its own trade
  as the exception, and a release ends the exception.
\<close>

section \<open>Claims\<close>

definition ledger_claims :: "string set \<Rightarrow> cash_db \<Rightarrow> cash_db \<Rightarrow> bool" where
  "ledger_claims X db db' \<longleftrightarrow> (\<forall>tid row. tid \<notin> X \<and> sq_get_reservation db' tid = Some row \<longrightarrow>
     cr_status row = ''released'' \<or> sq_get_reservation db tid = Some row)"

definition rows_claims :: "string set \<Rightarrow> risk_reservation list \<Rightarrow> risk_reservation list \<Rightarrow> bool" where
  "rows_claims X rows rows' \<longleftrightarrow> (\<forall>row\<in>set rows'. risk_reservation.rr_trade_id row \<notin> X
     \<and> risk_reservation.rr_status row = ''reserved'' \<longrightarrow> row \<in> set rows)"

text \<open>A planner without a cash guard, or without a risk manager, has no exception there.\<close>

definition claims :: "plan_env \<Rightarrow> string set \<times> string set \<Rightarrow> plan_state \<Rightarrow> plan_state \<Rightarrow> bool" where
  "claims e X s s' \<longleftrightarrow> ledger_claims (if pe_cash_env e = None then {} else fst X) (ps_cash s) (ps_cash s')
     \<and> rows_claims (if pe_settings e = None then {} else snd X) (rs_reservations (ps_risk s)) (rs_reservations (ps_risk s'))"

lemma ledger_claims_refl [simp]: "ledger_claims X db db"
  by (simp add: ledger_claims_def)

lemma rows_claims_refl [simp]: "rows_claims X rows rows"
  by (simp add: rows_claims_def)

lemma ledger_claims_trans: "ledger_claims X a b \<Longrightarrow> ledger_claims X b c \<Longrightarrow> ledger_claims X a c"
  unfolding ledger_claims_def by blast

lemma rows_claims_trans: "rows_claims X a b \<Longrightarrow> rows_claims X b c \<Longrightarrow> rows_claims X a c"
  unfolding rows_claims_def by blast

lemma ledger_claims_mono: "ledger_claims {} a b \<Longrightarrow> ledger_claims X a b"
  unfolding ledger_claims_def by blast

lemma rows_claims_mono: "rows_claims {} a b \<Longrightarrow> rows_claims X a b"
  unfolding rows_claims_def by blast

lemma claims_frame: "ps_cash s' = ps_cash s \<Longrightarrow> ps_risk s' = ps_risk s \<Longrightarrow> claims e X s s'"
  by (simp add: claims_def)

lemma claims_refl: "claims e X s s"
  by (rule claims_frame) simp_all

lemma claims_trans: "claims e X s t \<Longrightarrow> claims e X t u \<Longrightarrow> claims e X s u"
  unfolding claims_def by (blast intro: ledger_claims_trans rows_claims_trans)

lemma claims_mono: "claims e ({}, {}) s s' \<Longrightarrow> claims e X s s'"
  by (auto simp: claims_def intro: ledger_claims_mono rows_claims_mono)

interpretation claiming: step_order "claims e X" for e X
  by standard (rule claims_refl, rule claims_trans)

section \<open>The ledger\<close>

lemma find_map_status:
  "List.find (\<lambda>x. cr_trade_id x = tid) (map (\<lambda>x. if P x then x\<lparr>cr_status := st\<rparr> else x) xs)
    = map_option (\<lambda>x. if P x then x\<lparr>cr_status := st\<rparr> else x) (List.find (\<lambda>x. cr_trade_id x = tid) xs)"
  by (induction xs) auto

lemma synthetic_claims: "ledger_claims {} db (snd (sq_release_synthetic d db))"
  by (auto simp: ledger_claims_def sq_release_synthetic_def sq_get_reservation_def Let_def find_map_status split: option.splits if_splits)

lemma day_claims: "sq_get_reservation (sq_upsert_day day db) tid = sq_get_reservation db tid"
  by (simp add: sq_get_reservation_def sq_upsert_day_def)

lemma upsert_find:
  "sq_get_reservation (sq_upsert_reservation x db) tid = (if tid = cr_trade_id x then Some x else sq_get_reservation db tid)"
  unfolding sq_get_reservation_def sq_upsert_reservation_def by (simp add: upsert_row_find [where key = cr_trade_id])

lemma upsert_claims: "ledger_claims {cr_trade_id x} db (sq_upsert_reservation x db)"
  by (simp add: ledger_claims_def upsert_find)

lemma found_key: "sq_get_reservation db tid = Some row \<Longrightarrow> cr_trade_id row = tid"
  unfolding sq_get_reservation_def by (induction "db_reservations db") (auto simp: find_Some_iff)

lemma mark_find: "sq_get_reservation (sq_mark_reservation_status tid st db) tid'
    = (if tid' = tid then map_option (\<lambda>x. x\<lparr>cr_status := st\<rparr>) (sq_get_reservation db tid') else sq_get_reservation db tid')"
proof -
  have eq: "sq_get_reservation (sq_mark_reservation_status tid st db) tid'
      = map_option (\<lambda>x. if cr_trade_id x = tid then x\<lparr>cr_status := st\<rparr> else x) (sq_get_reservation db tid')"
    by (simp add: sq_get_reservation_def sq_mark_reservation_status_def find_map_status)
  show ?thesis by (cases "sq_get_reservation db tid'") (use eq found_key in auto)
qed

lemma release_claims:
  "ledger_claims {} db (release_entry sqlite_cash_repo tid db)"
  "ledger_claims {tid} db db' \<Longrightarrow> ledger_claims {} db (release_entry sqlite_cash_repo tid db')"
proof -
  have fate: "sq_get_reservation (release_entry sqlite_cash_repo tid x) tid' = Some row \<Longrightarrow>
      (if tid' = tid then cr_status row = ''released'' else sq_get_reservation x tid' = Some row)" for x tid' row
    by (auto simp: release_entry_def sqlite_cash_repo_def mark_find split: option.splits if_splits)
  show "ledger_claims {} db (release_entry sqlite_cash_repo tid db)"
    unfolding ledger_claims_def using fate by (metis (no_types))
  show "ledger_claims {tid} db db' \<Longrightarrow> ledger_claims {} db (release_entry sqlite_cash_repo tid db')"
    unfolding ledger_claims_def using fate by (metis (no_types) singletonD)
qed

lemma reserve_on_day_claims:
  assumes "reserve_on_day sqlite_cash_repo ctx tid req rsv d day db = (r, db')"
  shows "ledger_claims {tid} db db'" "\<not> rsv \<or> cg_blocked r \<Longrightarrow> ledger_claims {} db db'"
    and "rsv \<Longrightarrow> \<not> cg_blocked r \<Longrightarrow> sq_get_reservation db' tid
      = Some \<lparr>cr_trade_id = tid, cr_trade_date = d, cr_amount = req, cr_status = ''reserved''\<rparr>"
proof -
  let ?db1 = "snd (sq_release_synthetic d db)"
  let ?row = "\<lparr>cr_trade_id = tid, cr_trade_date = d, cr_amount = req, cr_status = ''reserved''\<rparr>"
  have ends: "(db' = ?db1 \<and> (cg_blocked r \<or> \<not> rsv)) \<or> (db' = sq_upsert_reservation ?row ?db1 \<and> \<not> cg_blocked r \<and> rsv)"
    using assms by (auto simp: reserve_on_day_def guard_result_def sqlite_cash_repo_def Let_def split: if_splits)
  have "ledger_claims {tid} ?db1 (sq_upsert_reservation ?row ?db1)" using upsert_claims [of ?row] by simp
  with ends show "ledger_claims {tid} db db'"
    using ledger_claims_trans [OF ledger_claims_mono [OF synthetic_claims]] ledger_claims_mono [OF synthetic_claims] by blast
  from ends show "\<not> rsv \<or> cg_blocked r \<Longrightarrow> ledger_claims {} db db'" using synthetic_claims by blast
  from ends show "rsv \<Longrightarrow> \<not> cg_blocked r \<Longrightarrow> sq_get_reservation db' tid = Some ?row" by (auto simp: upsert_find)
qed

lemma day_for_entry_claims:
  assumes "day_for_entry sqlite_cash_repo env acct pf d db = (r, db')"
  shows "ledger_claims X db db'"
proof -
  have "sq_get_reservation db' tid = sq_get_reservation db tid" for tid
    using assms by (auto simp: day_for_entry_def sqlite_cash_repo_def Let_def day_claims split: option.splits sum.splits)
  then show ?thesis by (simp add: ledger_claims_def)
qed

definition cash_enforced :: "plan_env \<Rightarrow> bool" where
  "cash_enforced e \<longleftrightarrow> (case pe_cash_env e of None \<Rightarrow> False
    | Some env \<Rightarrow> cash_guard_mode env \<noteq> ''off'' \<and> should_enforce (cash_guard_mode env) (account_type (pe_account_info e)))"

lemma reserve_entry_claims:
  assumes "reserve_entry sqlite_cash_repo env et info pf tid req t rsv db = (r, db')"
  shows "ledger_claims {tid} db db'" "\<not> rsv \<or> cg_blocked r \<Longrightarrow> ledger_claims {} db db'"
    and "rsv \<Longrightarrow> \<not> cg_blocked r \<Longrightarrow> cash_guard_mode env \<noteq> ''off'' \<Longrightarrow>
      should_enforce (cash_guard_mode env) (account_type info) \<Longrightarrow> sq_get_reservation db' tid
      = Some \<lparr>cr_trade_id = tid, cr_trade_date = trade_date_et et t, cr_amount = round2 (max req 0), cr_status = ''reserved''\<rparr>"
proof -
  let ?d = "trade_date_et et t"
  consider (off) "db' = db" "cash_guard_mode env = ''off'' \<or> \<not> should_enforce (cash_guard_mode env) (account_type info)"
    | (unread) err where "day_for_entry sqlite_cash_repo env (account_type info) pf ?d db = (Inl err, db')" "cg_blocked r"
    | (day) day db1 where "day_for_entry sqlite_cash_repo env (account_type info) pf ?d db = (Inr day, db1)"
      "reserve_on_day sqlite_cash_repo (guard_context (cash_guard_mode env) (account_type info)) tid
        (round2 (max req 0)) rsv ?d day db1 = (r, db')"
    using assms
    by (auto simp: reserve_entry_def guard_result_def Let_def split: if_splits prod.splits sum.splits)
  note all = this
  show "ledger_claims {tid} db db'"
    using all by cases (auto dest: reserve_on_day_claims(1) day_for_entry_claims intro: ledger_claims_trans)
  show "\<not> rsv \<or> cg_blocked r \<Longrightarrow> ledger_claims {} db db'"
    using all by cases (auto dest: reserve_on_day_claims(2) day_for_entry_claims intro: ledger_claims_trans)
  show "sq_get_reservation db' tid
      = Some \<lparr>cr_trade_id = tid, cr_trade_date = trade_date_et et t, cr_amount = round2 (max req 0), cr_status = ''reserved''\<rparr>"
    if "rsv" "\<not> cg_blocked r" "cash_guard_mode env \<noteq> ''off''" "should_enforce (cash_guard_mode env) (account_type info)"
    using all that by cases (auto simp: reserve_on_day_claims(3))
qed

section \<open>The reservations of the risk manager\<close>

lemma mark_claims:
  assumes "st \<noteq> ''reserved''"
  shows "rows_claims {} rows (rq_mark tid st rows)"
    and "rows_claims {tid} rows0 rows \<Longrightarrow> rows_claims {} rows0 (rq_mark tid st rows)"
  using assms by (auto simp: rows_claims_def rq_mark_def)

lemma expire_claims: "rows_claims {} (rs_reservations st) (rs_reservations (expire_reservations now act st))"
proof -
  have mark: "rows_claims {} rows (rq_mark tid ''expired'' rows)" for tid rows by (rule mark_claims(1)) simp
  have "rows_claims {} rows (fold (\<lambda>x rows. if risk_reservation.rr_expires_at x \<le> now
      then rq_mark (risk_reservation.rr_trade_id x) ''expired'' rows else rows) act rows)" for rows
    by (induction act arbitrary: rows) (auto intro: rows_claims_trans [OF mark])
  then show ?thesis by (simp add: expire_reservations_def)
qed

lemma rq_upsert_claims: "rows_claims {risk_reservation.rr_trade_id x} rows (rq_upsert x rows)"
  using upsert_row_set [of risk_reservation.rr_trade_id x rows] by (auto simp: rows_claims_def rq_upsert_def)

lemma rq_upsert_member: "x \<in> set (rq_upsert x rows)"
proof -
  have "x \<in> set (upsert_row key x ys)" for key :: "risk_reservation \<Rightarrow> string" and ys by (induction ys) auto
  then show ?thesis by (simp add: rq_upsert_def)
qed

lemma commit_stage_claims:
  "rows_claims {sz_trade_id q} (rs_reservations st) (rs_reservations (snd (sized_commit_stage w q rsv cl p ds st)))"
  "\<not> rsv \<or> \<not> ed_allowed (fst (sized_commit_stage w q rsv cl p ds st)) \<Longrightarrow>
    rows_claims {} (rs_reservations st) (rs_reservations (snd (sized_commit_stage w q rsv cl p ds st)))"
  using rq_upsert_claims [of "sized_reservation q cl p (w_now w)"]
  by (auto simp: sized_commit_stage_def own_in_force split: option.splits)

lemma prospective_reason:
  "prospective_stage s et w p others opens ds st = (Inl (reason, rail, ds'), st') \<Longrightarrow> reason \<noteq> []"
  by (auto simp: prospective_stage_def Let_def split: if_splits prod.splits)

text \<open>The book's rails end with a refusal that names its reason, or with the commitment.\<close>

lemma book_stage_cases:
  assumes "sized_book_stage s et w q rsv p trades st = (d, st')"
  obtains (refused) "rs_reservations st'
        = rs_reservations (expire_reservations (w_now w) (rq_active (w_closed_sessions w) (rs_reservations st)) st)"
      "\<not> ed_allowed d" "text_truthy (ed_reason d)"
    | (commit) cl ds st2 where "(d, st') = sized_commit_stage w q rsv cl p ds st2"
      "rs_reservations st2
        = rs_reservations (expire_reservations (w_now w) (rq_active (w_closed_sessions w) (rs_reservations st)) st)"
proof -
  let ?act = "rq_active (w_closed_sessions w) (rs_reservations st)"
  let ?st1 = "expire_reservations (w_now w) ?act st"
  have end': thesis if "sized_decision False dep tid rail rsv reason ds st2 = (d, st')" "reason \<noteq> []"
      "rs_reservations st2 = rs_reservations ?st1" for dep tid rail reason ds st2
  proof (rule refused)
    show "rs_reservations st' = rs_reservations ?st1" using that sized_decision_fields(4) by (metis snd_conv)
    show "\<not> ed_allowed d" using that(1) sized_decision_fields(5) by (metis fst_conv)
    show "text_truthy (ed_reason d)"
      using that(1,2) sized_decision_fields(6) by (metis fst_conv text_or_def text_truthy_def option.simps(5))
  qed
  show thesis
    using assms unfolding sized_book_stage_def Let_def
    by (auto split: if_splits prod.splits sum.splits intro: end' commit [OF sym]
        dest: prospective_reason prospective_state [THEN conjunct2])
qed

lemma book_stage_claims:
  assumes "sized_book_stage s et w q rsv p trades st = (d, st')"
  shows "rows_claims {sz_trade_id q} (rs_reservations st) (rs_reservations st')"
    and "\<not> rsv \<or> \<not> ed_allowed d \<Longrightarrow> rows_claims {} (rs_reservations st) (rs_reservations st')"
proof -
  show "rows_claims {sz_trade_id q} (rs_reservations st) (rs_reservations st')"
    using assms
  proof (cases rule: book_stage_cases)
    case refused
    then show ?thesis using expire_claims rows_claims_mono by metis
  next
    case commit
    then show ?thesis
      using rows_claims_trans [OF rows_claims_mono [OF expire_claims]] commit_stage_claims(1) by (metis snd_conv)
  qed
  show "rows_claims {} (rs_reservations st) (rs_reservations st')" if "\<not> rsv \<or> \<not> ed_allowed d"
    using assms
  proof (cases rule: book_stage_cases)
    case refused
    then show ?thesis using expire_claims by metis
  next
    case commit
    then show ?thesis
      using that rows_claims_trans [OF expire_claims] commit_stage_claims(2) by (metis fst_conv snd_conv)
  qed
qed

lemma sized_claims:
  assumes "reserve_sized_entry s et w q rsv st = (d, st')"
  shows "rows_claims {sz_trade_id q} (rs_reservations st) (rs_reservations st')"
    and "\<not> rsv \<or> \<not> ed_allowed d \<Longrightarrow> rows_claims {} (rs_reservations st) (rs_reservations st')"
proof -
  consider (refused) "rs_reservations st' = rs_reservations st"
    | (book) p trades where "sized_book_stage s et w q rsv p trades st = (d, st')"
    using assms unfolding reserve_sized_entry_def Let_def
    by (auto split: if_splits sum.splits option.splits) (metis sized_decision_fields(4) snd_conv)+
  note all = this
  show "rows_claims {sz_trade_id q} (rs_reservations st) (rs_reservations st')"
    using all by cases (simp, rule book_stage_claims(1))
  show "rows_claims {} (rs_reservations st) (rs_reservations st')" if "\<not> rsv \<or> \<not> ed_allowed d"
    using all by cases (simp, rule book_stage_claims(2) [OF _ that])
qed

lemma sized_reserved:
  assumes "reserve_sized_entry s et w q True st = (d, st')" "ed_allowed d"
  shows "sized_reservation q (correlation_cluster (Some (sz_symbol q)))
      (or_zero (planned_stop_loss_usd (Some (sz_entry_price q)) (sz_quantity q) None (sz_stop_loss_pct q))) (w_now w)
    \<in> set (rs_reservations st')"
  using sized_passed [OF assms] book_stage_passed [OF _ assms(2)] rq_upsert_member by metis

end
