(* ===== verification/Entry_Runs.thy ===== *)
theory Entry_Runs
  imports Entry_Claims Protection_Safety
begin

text \<open>
  A small logic of the runs of an entry. \<open>yields\<close> bounds the results of a step. \<open>run_ok\<close> is what
  a run owes: at most its last order may be live, a live order comes with a plan that covers it,
  and a run that ends without an order leaves no claim; the rules compose it along the stages.
\<close>

section \<open>What a step yields\<close>

definition yields :: "('a \<Rightarrow> bool) \<Rightarrow> ('s, 'a) sx \<Rightarrow> bool" where
  "yields P m \<longleftrightarrow> (\<forall>s x s'. m s = (Inr x, s') \<longrightarrow> P x)"

named_theorems yieldings \<open>what the steps of an entry yield\<close>

lemma yieldsD: "yields P m \<Longrightarrow> m s = (Inr x, s') \<Longrightarrow> P x"
  by (auto simp: yields_def)

lemma yields_return [yieldings]: "P x \<Longrightarrow> yields P (sx_return x)"
  by (simp add: yields_def sx_return_def)

lemma yields_raise [yieldings]: "yields P (sx_raise x)"
  by (simp add: yields_def sx_raise_def)

lemma yields_lift [yieldings]: "(\<And>x. r = Inr x \<Longrightarrow> P x) \<Longrightarrow> yields P (sx_lift r)"
  by (auto simp: yields_def sx_lift_def sx_return_def sx_raise_def split: sum.splits)

lemma yields_bind:
  assumes "yields P m" "\<And>x. P x \<Longrightarrow> yields Q (f x)"
  shows "yields Q (sx_bind m f)"
  unfolding yields_def
proof (intro allI impI)
  fix s y s'
  assume "sx_bind m f s = (Inr y, s')"
  then obtain x s1 where "m s = (Inr x, s1)" "f x s1 = (Inr y, s')" by (cases rule: bind_Inr_cases) auto
  then show "Q y" using yieldsD [OF assms(1)] yieldsD [OF assms(2)] by blast
qed

lemma yields_any_bind: "(\<And>x. yields Q (f x)) \<Longrightarrow> yields Q (sx_bind m f)"
  by (rule yields_bind [where P = "\<lambda>_. True"]) (simp_all add: yields_def)

lemma yields_catch:
  assumes "yields P m" "\<And>x. yields P (h x)"
  shows "yields P (sx_catch m h)"
  using assms by (auto simp: yields_def sx_catch_def split: sum.splits prod.splits)

lemma yields_zoom: "yields P m \<Longrightarrow> yields P (ps_zoom m)"
  by (auto simp: yields_def ps_zoom_def split: prod.splits)

lemma yields_caught: "yields P m \<Longrightarrow> yields (\<lambda>r. \<forall>x. r = Inr x \<longrightarrow> P x) (caught m)"
  by (auto simp: yields_def caught_def split: prod.splits)

lemma yields_attempted: "yields P m \<Longrightarrow> yields (\<lambda>r. \<forall>x. r = Some x \<longrightarrow> P x) (attempted m)"
  unfolding attempted_def by (intro yields_catch yields_return yields_bind [where P = P and m = m]) auto

section \<open>The runs of an entry\<close>

text \<open>Every order but the last was definitely rejected.\<close>

definition only_last_live ::
  "broker \<Rightarrow> broker_call list \<Rightarrow> (order_payload \<Rightarrow> bool) \<Rightarrow> broker_call list \<Rightarrow> bool" where
  "only_last_live br log0 ok calls \<longleftrightarrow> (\<forall>before p after. calls = before @ Place p # after \<longrightarrow>
     ok p \<and> (placed after \<noteq> [] \<longrightarrow> reply_rejected (br (log0 @ before) (Place p))))"

text \<open>An order an entry may send.\<close>

definition entry_allowed :: "entry_call \<Rightarrow> order_payload \<Rightarrow> bool" where
  "entry_allowed c pl \<longleftrightarrow> \<not> en_dry_run c \<and> op_side pl = ''BUY'' \<and> op_type pl = ''LIMIT'' \<and> op_open_close pl = ''OPEN''
     \<and> 0 < op_quantity pl \<and> (\<forall>n. es_max_contracts (en_spec c) = Some n \<longrightarrow> op_quantity pl \<le> n)
     \<and> (\<exists>x cap. op_limit_price pl = Some x \<and> premium_cap (en_spec c) = Inr cap \<and> x * of_int (op_quantity pl) * 100 \<le> cap)"

text \<open>What a live order is covered by: the tracker, the cash, the risk and the record.\<close>

definition entry_covered :: "plan_env \<Rightarrow> entry_call \<Rightarrow> trade_plan \<Rightarrow> order_payload \<Rightarrow> plan_state \<Rightarrow> bool" where
  "entry_covered e c p pl s \<longleftrightarrow> op_order_id pl = pn_trade_id p
     \<and> (\<exists>pos\<in>set (pt_positions (ps_tracker s)). tp_trade_id pos = Some (pn_trade_id p) \<and> tp_quantity pos = op_quantity pl
          \<and> tp_source pos = ''live_pending'' \<and> tp_order_id pos = pn_order_id p)
     \<and> (\<exists>x. op_limit_price pl = Some x
          \<and> (cash_enforced e \<longrightarrow> (\<exists>row. sq_get_reservation (ps_cash s) (pn_trade_id p) = Some row
               \<and> cr_status row = ''reserved'' \<and> x * of_int (op_quantity pl) * 100 \<le> cr_amount row))
          \<and> (pe_settings e \<noteq> None \<longrightarrow> (\<exists>row\<in>set (rs_reservations (ps_risk s)).
               risk_reservation.rr_trade_id row = pn_trade_id p \<and> risk_reservation.rr_status row = ''reserved''
               \<and> (\<exists>y\<ge>x. rr_planned_stop_loss_usd row = or_zero (planned_stop_loss_usd (Some y) (op_quantity pl) None
                    (fst (recovery_stop_loss_pct (en_deployment c))))))))
     \<and> (pe_intents e \<longrightarrow> (\<exists>row. find_session (ps_trades s) (pn_trade_id p) = Some row
          \<and> ss_status row = ''pending_entry_reconcile'' \<and> ss_quantity row = op_quantity pl))"

definition has_order :: "('a \<Rightarrow> trade_plan option) \<Rightarrow> 'a \<Rightarrow> bool" where
  "has_order plan x \<longleftrightarrow> (\<exists>p. plan x = Some p \<and> text_truthy (pn_order_id p))"

definition live_is_covered ::
  "plan_env \<Rightarrow> entry_call \<Rightarrow> ('a \<Rightarrow> trade_plan option) \<Rightarrow> broker_call list \<Rightarrow> (broker_exc + 'a) \<times> plan_state \<Rightarrow> bool" where
  "live_is_covered e c plan calls out \<longleftrightarrow> (\<exists>x p before pl after. fst out = Inr x \<and> plan x = Some p
     \<and> text_truthy (pn_order_id p) \<and> calls = before @ Place pl # after \<and> placed after = []
     \<and> entry_covered e c p pl (snd out))"

definition run_ok ::
  "plan_env \<Rightarrow> entry_call \<Rightarrow> ('a \<Rightarrow> trade_plan option) \<Rightarrow> plan_state \<Rightarrow> plan_state \<Rightarrow> (broker_exc + 'a) \<times> plan_state \<Rightarrow> bool" where
  "run_ok e c plan s0 s out \<longleftrightarrow> (\<exists>calls. ps_log (snd out) = ps_log s @ calls
     \<and> only_last_live (pe_broker e) (ps_log s) (entry_allowed c) calls
     \<and> (last_may_live (pe_broker e) (ps_log s) calls \<longrightarrow> live_is_covered e c plan calls out)
     \<and> (\<forall>x. fst out = Inr x \<and> \<not> has_order plan x \<longrightarrow> claims e ({}, {}) s0 (snd out)))"

definition entry_runs ::
  "plan_env \<Rightarrow> entry_call \<Rightarrow> ('a \<Rightarrow> trade_plan option) \<Rightarrow> string set \<times> string set \<Rightarrow> (plan_state \<Rightarrow> bool) \<Rightarrow>
   'a planner \<Rightarrow> bool" where
  "entry_runs e c plan X Pre m \<longleftrightarrow> (\<forall>s0 s. claims e X s0 s \<and> Pre s \<longrightarrow> run_ok e c plan s0 s (m s))"

lemma only_last_live_quiet [simp]: "placed calls = [] \<Longrightarrow> only_last_live br log0 ok calls"
  by (auto simp: only_last_live_def)

lemma append_split_order:
  assumes "c1 @ c2 = before @ Place p # after"
  obtains (left) mid where "c1 = before @ Place p # mid" "after = mid @ c2"
    | (right) mid where "before = c1 @ mid" "c2 = mid @ Place p # after"
  using assms by (auto simp: append_eq_append_conv2 append_eq_Cons_conv)

lemma last_may_live_append:
  "placed c2 = [] \<Longrightarrow> last_may_live br log0 (c1 @ c2) \<Longrightarrow> last_may_live br log0 c1"
  unfolding last_may_live_def by (elim exE conjE, erule append_split_order) auto

lemma last_may_live_second:
  assumes "last_may_live br log0 (c1 @ c2)" "\<not> last_may_live br log0 c1"
  shows "last_may_live br (log0 @ c1) c2"
proof -
  obtain before p after where split: "c1 @ c2 = before @ Place p # after" "placed after = []"
    "\<not> reply_rejected (br (log0 @ before) (Place p))" using assms(1) by (auto simp: last_may_live_def)
  from split(1) show ?thesis
  proof (cases rule: append_split_order)
    case (left mid)
    then show ?thesis using assms(2) split(2,3) by (auto simp: last_may_live_def)
  next
    case (right mid)
    then show ?thesis using split(2,3) by (auto simp: last_may_live_def)
  qed
qed

lemma only_last_live_append:
  assumes "only_last_live br log0 ok c1" "only_last_live br (log0 @ c1) ok c2" "placed c2 = [] \<or> \<not> last_may_live br log0 c1"
  shows "only_last_live br log0 ok (c1 @ c2)"
  unfolding only_last_live_def
proof (intro allI impI)
  fix before p after
  assume "c1 @ c2 = before @ Place p # after"
  then show "ok p \<and> (placed after \<noteq> [] \<longrightarrow> reply_rejected (br (log0 @ before) (Place p)))"
  proof (cases rule: append_split_order)
    case (left mid)
    then have "placed mid \<noteq> [] \<Longrightarrow> reply_rejected (br (log0 @ before) (Place p))" "ok p"
      using assms(1) by (auto simp: only_last_live_def)
    moreover have "reply_rejected (br (log0 @ before) (Place p))" if "placed mid = []" "\<not> last_may_live br log0 c1"
      using that left(1) by (auto simp: last_may_live_def)
    ultimately show ?thesis using left(2) assms(3) by auto
  next
    case (right mid)
    then show ?thesis using assms(2) by (auto simp: only_last_live_def)
  qed
qed

lemma only_last_live_submission:
  assumes "submission_calls br log0 ok h calls"
  shows "only_last_live br log0 ok calls"
  unfolding only_last_live_def
proof (intro allI impI conjI)
  fix before p after
  assume split: "calls = before @ Place p # after"
  have "\<forall>q\<in>set (placed calls). ok q" using submission_one_live [OF assms] by (simp add: one_live_def)
  then show "ok p" using split by simp
  show "placed after \<noteq> [] \<Longrightarrow> reply_rejected (br (log0 @ before) (Place p))"
    using submission_calls_first [OF assms split] .
qed

lemma only_last_live_mono:
  "only_last_live br log0 ok calls \<Longrightarrow> (\<And>p. ok p \<Longrightarrow> ok' p) \<Longrightarrow> only_last_live br log0 ok' calls"
  unfolding only_last_live_def by blast

section \<open>Rules\<close>

lemma run_ok_quiet:
  assumes "ps_log (snd out) = ps_log s @ calls" "placed calls = []" "\<And>x. fst out = Inr x \<Longrightarrow> claims e ({}, {}) s0 (snd out)"
  shows "run_ok e c plan s0 s out"
  unfolding run_ok_def using assms by (intro exI [of _ calls]) auto

lemma runs_return: "entry_runs e c plan ({}, {}) Pre (sx_return x)"
  by (auto simp: entry_runs_def sx_return_def intro!: run_ok_quiet)

lemma runs_raise: "entry_runs e c plan X Pre (sx_raise x)"
  by (auto simp: entry_runs_def sx_raise_def intro!: run_ok_quiet)

lemma run_ok_after:
  assumes "run_ok e c plan s0 s1 out" "ps_log s1 = ps_log s @ pre" "placed pre = []"
  shows "run_ok e c plan s0 s out"
proof -
  obtain calls where calls: "ps_log (snd out) = ps_log s1 @ calls"
    "only_last_live (pe_broker e) (ps_log s1) (entry_allowed c) calls"
    "last_may_live (pe_broker e) (ps_log s1) calls \<Longrightarrow> live_is_covered e c plan calls out"
    "\<And>x. fst out = Inr x \<Longrightarrow> \<not> has_order plan x \<Longrightarrow> claims e ({}, {}) s0 (snd out)"
    using assms(1) by (auto simp: run_ok_def)
  have cover: "live_is_covered e c plan (pre @ calls) out" if live: "live_is_covered e c plan calls out"
  proof -
    obtain x p before pl after where l: "fst out = Inr x" "plan x = Some p" "text_truthy (pn_order_id p)"
      "calls = before @ Place pl # after" "placed after = []" "entry_covered e c p pl (snd out)"
      using live unfolding live_is_covered_def by blast
    then have "pre @ calls = (pre @ before) @ Place pl # after" by simp
    with l show ?thesis unfolding live_is_covered_def by blast
  qed
  have "only_last_live (pe_broker e) (ps_log s) (entry_allowed c) (pre @ calls)"
    using only_last_live_append [of _ "ps_log s" _ pre calls] calls(2) assms(2,3) by simp
  moreover have "live_is_covered e c plan (pre @ calls) out" if "last_may_live (pe_broker e) (ps_log s) (pre @ calls)"
    using last_may_live_after [OF that assms(3)] assms(2) calls(3) cover by simp
  ultimately show ?thesis
    unfolding run_ok_def using calls(1,4) assms(2) by (intro exI [of _ "pre @ calls"]) auto
qed

text \<open>A step that sends nothing, and what follows it.\<close>

lemma runs_bind:
  assumes "quiet_plan m"
    and step: "\<And>s0 s x s1. claims e X s0 s \<Longrightarrow> Pre s \<Longrightarrow> m s = (Inr x, s1) \<Longrightarrow> claims e (X' x) s0 s1 \<and> Pre' x s1"
    and "\<And>x. entry_runs e c plan (X' x) (Pre' x) (f x)"
  shows "entry_runs e c plan X Pre (sx_bind m f)"
  unfolding entry_runs_def
proof (intro allI impI)
  fix s0 s
  assume pre: "claims e X s0 s \<and> Pre s"
  obtain res s' where run: "sx_bind m f s = (res, s')" by fastforce
  from run assms(1) show "run_ok e c plan s0 s (sx_bind m f s)"
  proof (cases rule: bind_quiet_cases)
    case (failed x calls)
    then show ?thesis unfolding run by (intro run_ok_quiet [of _ _ calls]) auto
  next
    case (passed x s1 calls)
    from step [OF conjunct1 [OF pre] conjunct2 [OF pre] passed(1)] have "run_ok e c plan s0 s1 (f x s1)"
      using assms(3) [of x] unfolding entry_runs_def by blast
    then show ?thesis unfolding run passed(4) [symmetric] by (rule run_ok_after) (use passed in auto)
  qed
qed

text \<open>A step that claims nothing either.\<close>

lemma runs_step:
  assumes "quiet_plan m" "steps_within (claims e ({}, {})) m" "yields P m"
    and "\<And>x. P x \<Longrightarrow> entry_runs e c plan ({}, {}) (\<lambda>_. True) (f x)"
  shows "entry_runs e c plan ({}, {}) (\<lambda>_. True) (sx_bind m f)"
proof (rule runs_bind [where X' = "\<lambda>_. ({}, {})" and Pre' = "\<lambda>x _. P x", OF assms(1)])
  show "claims e ({}, {}) s0 s1 \<and> P x" if "claims e ({}, {}) s0 s" "m s = (Inr x, s1)" for s0 s x s1
    using claims_trans [OF that(1) steps_within_run [OF assms(2) that(2)]] yieldsD [OF assms(3) that(2)] by simp
  show "entry_runs e c plan ({}, {}) (\<lambda>_. P x) (f x)" for x
    using assms(4) [of x] by (cases "P x") (simp_all add: entry_runs_def)
qed

lemma runs_map:
  assumes "entry_runs e c plan X Pre m" "\<And>x. plan' (g x) = plan x"
  shows "entry_runs e c plan' X Pre (sx_bind m (\<lambda>x. sx_return (g x)))"
proof -
  have "run_ok e c plan' s0 s (sx_bind m (\<lambda>x. sx_return (g x)) s)" if "run_ok e c plan s0 s (m s)" for s0 s
  proof -
    obtain r s1 where m: "m s = (r, s1)" by fastforce
    have out: "sx_bind m (\<lambda>x. sx_return (g x)) s = (map_sum id g r, s1)"
      by (cases r) (simp_all add: sx_bind_def sx_return_def m)
    have covered: "live_is_covered e c plan' calls (map_sum id g r, s1)" if "live_is_covered e c plan calls (r, s1)" for calls
      using that assms(2) unfolding live_is_covered_def by fastforce
    have ended: "\<exists>y. r = Inr y \<and> \<not> has_order plan y" if "map_sum id g r = Inr x" "\<not> has_order plan' x" for x
      using that assms(2) by (cases r) (auto simp: has_order_def)
    show ?thesis
      using that covered ended unfolding run_ok_def m out fst_conv snd_conv by blast
  qed
  then show ?thesis using assms(1) unfolding entry_runs_def by blast
qed

text \<open>A run, and what follows it unless it ended with an order.\<close>

lemma runs_again:
  assumes "entry_runs e c plan ({}, {}) (\<lambda>_. True) m"
    and stop: "\<And>x s. has_order plan x \<Longrightarrow> \<exists>y. f x s = (Inr y, s) \<and> plan' y = plan x"
    and again: "\<And>x. \<not> has_order plan x \<Longrightarrow> entry_runs e c plan' ({}, {}) (\<lambda>_. True) (f x)"
  shows "entry_runs e c plan' ({}, {}) (\<lambda>_. True) (sx_bind m f)"
  unfolding entry_runs_def
proof (intro allI impI)
  fix s0 s
  assume pre: "claims e ({}, {}) s0 s \<and> True"
  obtain r s1 where m: "m s = (r, s1)" by fastforce
  obtain calls where calls: "ps_log s1 = ps_log s @ calls" "only_last_live (pe_broker e) (ps_log s) (entry_allowed c) calls"
    "last_may_live (pe_broker e) (ps_log s) calls \<Longrightarrow> live_is_covered e c plan calls (r, s1)"
    "\<And>x. r = Inr x \<Longrightarrow> \<not> has_order plan x \<Longrightarrow> claims e ({}, {}) s0 s1"
    using assms(1) pre m unfolding entry_runs_def run_ok_def by (metis fst_conv snd_conv)
  show "run_ok e c plan' s0 s (sx_bind m f s)"
  proof (cases r)
    case (Inl x)
    then have "sx_bind m f s = (Inl x, s1)" using m by (simp add: sx_bind_def)
    moreover have "\<not> last_may_live (pe_broker e) (ps_log s) calls" using calls(3) Inl by (auto simp: live_is_covered_def)
    ultimately show ?thesis unfolding run_ok_def using calls(1,2) by auto
  next
    case (Inr x)
    then have bind: "sx_bind m f s = f x s1" using m by (simp add: sx_bind_def)
    show ?thesis
    proof (cases "has_order plan x")
      case True
      obtain y where y: "f x s1 = (Inr y, s1)" "plan' y = plan x" using stop [OF True] by blast
      have "live_is_covered e c plan' calls (Inr y, s1)" if "last_may_live (pe_broker e) (ps_log s) calls"
        using calls(3) [OF that] y(2) Inr unfolding live_is_covered_def by auto
      moreover have "has_order plan' y" using True y(2) by (simp add: has_order_def)
      ultimately show ?thesis unfolding bind y(1) run_ok_def using calls(1,2) by auto
    next
      case False
      have dead: "\<not> last_may_live (pe_broker e) (ps_log s) calls"
        using calls(3) False Inr unfolding live_is_covered_def has_order_def by auto
      have "run_ok e c plan' s0 s1 (f x s1)"
        using again [OF False] calls(4) [OF Inr False] unfolding entry_runs_def by blast
      then obtain c2 where c2: "ps_log (snd (f x s1)) = ps_log s1 @ c2"
        "only_last_live (pe_broker e) (ps_log s1) (entry_allowed c) c2"
        "last_may_live (pe_broker e) (ps_log s1) c2 \<Longrightarrow> live_is_covered e c plan' c2 (f x s1)"
        "\<And>y. fst (f x s1) = Inr y \<Longrightarrow> \<not> has_order plan' y \<Longrightarrow> claims e ({}, {}) s0 (snd (f x s1))"
        unfolding run_ok_def by blast
      have "only_last_live (pe_broker e) (ps_log s) (entry_allowed c) (calls @ c2)"
        using only_last_live_append [OF calls(2)] c2(2) calls(1) dead by simp
      moreover have "live_is_covered e c plan' (calls @ c2) (f x s1)"
        if "last_may_live (pe_broker e) (ps_log s) (calls @ c2)"
      proof -
        have "last_may_live (pe_broker e) (ps_log s1) c2" using last_may_live_second [OF that dead] calls(1) by simp
        from c2(3) [OF this] show ?thesis unfolding live_is_covered_def by (metis append_assoc)
      qed
      ultimately show ?thesis
        unfolding bind run_ok_def using c2(1,4) calls(1) by (intro exI [of _ "calls @ c2"]) auto
    qed
  qed
qed

end
