(* ===== verification/Entry_Stages.thy ===== *)
theory Entry_Stages
  imports Entry_Runs
begin

text \<open>
  The stages of an entry in the logic of \<open>Entry_Runs\<close>: which of them claim nothing, what the
  prices and quantities they pass on are bounded by, and what each stage of the commitment
  establishes for the next.
\<close>

section \<open>Stages that claim nothing\<close>

abbreviation unclaiming :: "plan_env \<Rightarrow> 'a planner \<Rightarrow> bool" where
  "unclaiming e \<equiv> steps_within (claims e ({}, {}))"

named_theorems unclaimed \<open>steps of an entry that claim nothing\<close>

lemmas unclaimed_basic [unclaimed] = claiming.within_return claiming.within_raise claiming.within_lift
  claiming.within_bind claiming.within_catch

lemma unclaiming_frame:
  assumes "\<And>s. ps_cash (snd (m s)) = ps_cash s \<and> ps_risk (snd (m s)) = ps_risk s"
  shows "unclaiming e m"
  using assms by (simp add: steps_within_def claims_frame)

lemma unclaimed_steps [unclaimed]:
  "unclaiming e (ps_zoom m0)" "unclaiming e (ps_get f)" "unclaiming e (ps_read g)"
  by (rule unclaiming_frame, simp add: ps_zoom_def ps_get_def ps_read_def split: prod.split)+

lemma unclaimed_do:
  "(\<And>s. ps_cash (f s) = ps_cash s \<and> ps_risk (f s) = ps_risk s) \<Longrightarrow> unclaiming e (ps_do f)"
  by (rule unclaiming_frame) (simp add: ps_do_def)

lemma unclaimed_preview_cash [unclaimed]:
  assumes "pe_cash_env e = Some env"
  shows "unclaiming e (ps_preview_cash e env tid t)"
  unfolding steps_within_def
proof
  fix s :: plan_state
  let ?pf = "pe_portfolio e (ps_reads s)"
  obtain r db where run: "preview_entry sqlite_cash_repo env (pe_et e) (pe_account_info e) ?pf tid t (ps_cash s) = (r, db)"
    by fastforce
  then have "ledger_claims {} (ps_cash s) db"
    unfolding preview_entry_def using reserve_entry_claims(2) [OF run [unfolded preview_entry_def]] by simp
  moreover have "snd (ps_preview_cash e env tid t s) = s\<lparr>ps_reads := Suc (ps_reads s), ps_cash := db\<rparr>"
    using run by (simp add: ps_preview_cash_def ps_portfolio_def sx_bind_def ps_read_def)
  ultimately show "claims e ({}, {}) s (snd (ps_preview_cash e env tid t s))" by (simp add: claims_def)
qed

lemma unclaimed_preview_risk [unclaimed]: "unclaiming e (ps_preview_risk e st q)"
  unfolding steps_within_def
proof
  fix s :: plan_state
  let ?w = "pe_world e (ps_reads s)"
  obtain d rs where run: "preview_sized_entry st (pe_et e) ?w q (ps_risk s) = (d, rs)" by fastforce
  then have "rows_claims {} (rs_reservations (ps_risk s)) (rs_reservations rs)"
    using sized_claims(2) [OF run [unfolded preview_sized_entry_def]] by simp
  moreover have "snd (ps_preview_risk e st q s) = s\<lparr>ps_reads := Suc (ps_reads s), ps_risk := rs\<rparr>"
    using run by (simp add: ps_preview_risk_def sx_bind_def ps_read_def)
  ultimately show "claims e ({}, {}) s (snd (ps_preview_risk e st q s))" by (simp add: claims_def)
qed

lemma unclaimed_fit [unclaimed]: "unclaiming e (fit_live_quantity e c tid price upper cap extra)"
  unfolding fit_live_quantity_def fit_cash_def fit_risk_def Let_def
  by (auto intro!: unclaimed split: option.split sum.split pyfloat.split)

lemma unclaimed_guarded [unclaimed]: "unclaiming e (guarded e c dr chk stage)"
  unfolding guarded_def by (auto intro!: unclaimed unclaimed_do split: option.split prod.split)

lemma unclaimed_price [unclaimed]: "unclaiming e (ps_price e q ps)" "unclaiming e (ps_quote e o')"
  "unclaiming e (ps_uuid e)" "unclaiming e (ps_now e)"
  unfolding ps_price_def ps_quote_def ps_now_def ps_uuid_def by (intro unclaimed)+

lemma unclaimed_attempted [unclaimed]: "unclaiming e m \<Longrightarrow> unclaiming e (attempted m)"
  unfolding attempted_def by (intro unclaimed)

lemma unclaimed_caught [unclaimed]: "unclaiming e m \<Longrightarrow> unclaiming e (caught m)"
  by (auto simp: steps_within_def caught_def split: prod.split) (metis snd_conv)

lemma unclaimed_narrower [unclaimed]: "unclaiming e (narrower_quote e o' ps)"
  unfolding narrower_quote_def by (intro unclaimed)

lemma unclaimed_search [unclaimed]: "unclaiming e (search_narrower ranks e c dir contracts ps)"
  by (induction ranks) (auto intro!: unclaimed unclaimed_do split: sum.split selector_error.split option.split)

lemma unclaimed_chain [unclaimed]: "unclaiming e (chain_of e c)"
  unfolding chain_of_def by (auto intro!: unclaimed unclaimed_do split: option.split sum.split)

lemma unclaimed_resolve [unclaimed]: "unclaiming e (resolve_contract e c dir contracts)"
  unfolding resolve_contract_def by (auto intro!: unclaimed split: sum.split selector_error.split)

lemma unclaimed_market [unclaimed]: "unclaiming e (chosen_market e c dir contracts sel q)"
  unfolding chosen_market_def Let_def by (auto intro!: unclaimed)

lemma unclaimed_first_draft [unclaimed]: "unclaiming e (first_draft e c tid sel q)"
  unfolding first_draft_def by (auto intro!: unclaimed split: prod.split)

lemma unclaimed_refresh [unclaimed]: "unclaiming e (refresh_quote e c dr)"
  unfolding refresh_quote_def requoted_def Let_def by (auto intro!: unclaimed split: option.split)

lemma unclaimed_freeze [unclaimed]: "unclaiming e (freeze_reference e dr)"
  unfolding freeze_reference_def by (rule unclaimed_do) simp

lemma unclaimed_size_stage [unclaimed]: "unclaiming e (size_stage c dr price)"
  unfolding size_stage_def Let_def by (auto intro!: unclaimed)

lemma unclaimed_preflight [unclaimed]: "unclaiming e (ps_preflight e dr price n)"
  unfolding ps_preflight_def by (intro unclaimed)

lemma unclaimed_simulate [unclaimed]: "unclaiming e (simulate_stage e c dr z)"
  unfolding simulate_stage_def by (auto intro!: unclaimed split: sum.split)

lemma unclaimed_track [unclaimed]: "unclaiming e (track_entry c dr n src oid)"
  unfolding track_entry_def by (rule unclaimed_do) simp

lemma unclaimed_dry [unclaimed]: "unclaiming e (dry_entry c dr z)"
  unfolding dry_entry_def by (auto intro!: unclaimed)

lemma unclaimed_settle_quantity [unclaimed]: "unclaiming e (settle_quantity n e c dr z q)"
  by (induction n arbitrary: q) (auto simp: Let_def intro!: unclaimed split: sum.split prod.split)

lemma unclaimed_live_quantity [unclaimed]: "unclaiming e (live_quantity e c dr z)"
  unfolding live_quantity_def by (auto intro!: unclaimed split: prod.split)

lemma unclaimed_refusal [unclaimed]: "unclaiming e (live_refusal c dr n price reason details)"
  unfolding live_refusal_def ps_receipt_def by (intro unclaimed)

lemma unclaimed_intents [unclaimed]:
  "unclaiming e (ps_upsert_trade e r)" "unclaiming e (clear_unsubmitted_intent e c dr lo)" "unclaiming e (write_intent e c dr lo)"
  unfolding clear_unsubmitted_intent_def write_intent_def ps_upsert_trade_def by (auto intro!: unclaimed unclaimed_do)

lemma unclaimed_note [unclaimed]: "unclaiming e (note_refusal e c dr n r)"
  unfolding note_refusal_def by (rule unclaimed_do) (auto split: sum.split prod.split option.split)

text \<open>The quantity loop asks for nothing but quiet, unclaiming steps: it may precede a run.\<close>

lemmas runs_quiet_step = runs_step [where P = "\<lambda>_. True"]

lemma yields_any: "yields (\<lambda>_. True) m"
  by (simp add: yields_def)

section \<open>Prices\<close>

text \<open>An approved price is on the grid of cents and not above its ceiling.\<close>

definition fair_price :: "pricing_result \<Rightarrow> bool" where
  "fair_price r \<longleftrightarrow> (\<forall>L. pr_block_reasons r = [] \<and> pr_limit_price r = Some L \<longrightarrow>
     0 < L \<and> round_price L = L \<and> (\<exists>c\<ge>L. pr_max_entry_price r = Some (Fin c)))"

lemma price_entry_fair:
  assumes "price_entry ps pol q t bid ask = Inr r"
  shows "fair_price r"
  unfolding fair_price_def
proof (intro allI impI)
  fix L
  assume "pr_block_reasons r = [] \<and> pr_limit_price r = Some L"
  then obtain c wide where c: "pr_max_entry_price r = Some (Fin c)"
    "floor_entry_price (Fin (min (min (proposed_price ps wide bid ask) ask) c)) = Inr L"
    using price_entry_approved [OF assms] by metis
  from floor_entry_price_bounds [OF c(2)] obtain k where k: "0 < L" "L \<le> c" "L = of_int k / 100" by auto
  moreover have "round_price L = L" unfolding k(3) by (rule round_price_of_cents)
  ultimately have "0 < L" "L \<le> c" "round_price L = L" by simp_all
  then show "0 < L \<and> round_price L = L \<and> (\<exists>c\<ge>L. pr_max_entry_price r = Some (Fin c))" using c(1) by blast
qed

lemma select_fair:
  assumes "select_entry_limit iso_parse q ps policy t = Inr r"
  shows "fair_price r"
proof (cases "pricing_approved r")
  case True
  then show ?thesis using select_approved [OF assms] price_entry_fair by metis
next
  case False
  then show ?thesis by (auto simp: pricing_approved_def fair_price_def)
qed

lemma yields_ps_price: "yields fair_price (ps_price e q ps)"
  unfolding ps_price_def by (intro yields_any_bind yields_lift) (rule select_fair)

definition draft_ok :: "entry_draft \<Rightarrow> bool" where
  "draft_ok dr \<longleftrightarrow> fair_price (df_pricing dr) \<and> df_trade_id dr \<noteq> []"

lemma yields_first_draft: "tid \<noteq> [] \<Longrightarrow> yields draft_ok (first_draft e c tid sel q)"
  unfolding first_draft_def
  by (rule yields_any_bind, clarify, rule yields_bind [OF yields_ps_price], rule yields_return) (simp add: draft_ok_def)

lemma yields_requoted: "draft_ok dr \<Longrightarrow> yields draft_ok (requoted e dr)"
  unfolding requoted_def
  by (auto intro!: yields_any_bind yields_return yields_bind [OF yields_attempted [OF yields_ps_price]]
      simp: draft_ok_def split: option.split)

lemma yields_refresh: "draft_ok dr \<Longrightarrow> yields (\<lambda>r. \<forall>x. r = Inr x \<longrightarrow> draft_ok x) (refresh_quote e c dr)"
proof -
  assume ok: "draft_ok dr"
  have again: "draft_ok (dr\<lparr>df_refreshed := True\<rparr>)" using ok by (simp add: draft_ok_def)
  have guard: "yields (\<lambda>r. \<forall>x. r = Inr x \<longrightarrow> draft_ok x) (sx_bind m (\<lambda>g. sx_return (case g of Some p \<Rightarrow> Inl p | None \<Rightarrow> Inr x)))"
    if "draft_ok x" for m x
    using that by (auto intro!: yields_any_bind yields_return split: option.splits)
  have second: "yields (\<lambda>r. \<forall>x. r = Inr x \<longrightarrow> draft_ok x) (sx_bind (requoted e (dr\<lparr>df_refreshed := True\<rparr>)) (\<lambda>x.
      sx_bind (guarded e c x False BEFORE_PREFLIGHT) (\<lambda>g. sx_return (case g of Some p \<Rightarrow> Inl p | None \<Rightarrow> Inr x))))"
    by (rule yields_bind [OF yields_requoted [OF again] guard])
  show ?thesis
    unfolding refresh_quote_def Let_def using ok second
    by (auto intro!: yields_any_bind [of _ _ "guarded e c (dr\<lparr>df_refreshed := True\<rparr>) False BEFORE_PREFLIGHT"]
        intro: yields_return split: option.split)
qed

definition size_ok :: "entry_call \<Rightarrow> entry_size \<Rightarrow> bool" where
  "size_ok c z \<longleftrightarrow> 0 < ez_sizing_price z \<and> round_price (ez_price z) = ez_price z \<and> ez_price z \<le> ez_sizing_price z
     \<and> premium_cap (en_spec c) = Inr (ez_cap z)
     \<and> (\<forall>n. es_max_contracts (en_spec c) = Some n \<longrightarrow> ez_quantity z \<le> n)"

lemma entry_price_fair:
  assumes "entry_price_stage c dr = Inr price" "draft_ok dr"
  shows "0 < price \<and> round_price price = price \<and> price \<le> sizing_price_of (df_pricing dr) price"
proof -
  have "pr_block_reasons (df_pricing dr) = []" "pr_limit_price (df_pricing dr) = Some price"
    using assms(1) by (auto simp: entry_price_stage_def Let_def split: if_splits option.splits)
  then obtain x where "0 < price" "round_price price = price" "price \<le> x" "pr_max_entry_price (df_pricing dr) = Some (Fin x)"
    using assms(2) unfolding draft_ok_def fair_price_def by blast
  then show ?thesis by (simp add: sizing_price_of_def)
qed

lemma yields_size:
  assumes "entry_price_stage c dr = Inr price" "draft_ok dr"
  shows "yields (\<lambda>r. \<forall>z. r = Inr z \<longrightarrow> size_ok c z) (size_stage c dr price)"
proof -
  have cap: "yields (\<lambda>x. premium_cap (en_spec c) = Inr x) (sx_lift (premium_cap (en_spec c)))"
    by (rule yields_lift)
  show ?thesis
    unfolding size_stage_def Let_def
    by (rule yields_bind [OF cap]) (use entry_price_fair [OF assms] order.strict_trans2 in \<open>auto intro!: yields_any_bind yields_return
        simp: size_ok_def capped_quantity_def split: if_splits\<close>)
qed

lemma yields_preflight:
  assumes "round_price v = v"
  shows "yields (\<lambda>k. preflight_price k \<le> v \<and> round_price (preflight_price k) = preflight_price k) (ps_preflight e dr v n)"
proof -
  have "yields (\<lambda>k. limit_within v (pf_payload k)) (preflight_entry br tx nid sy v n)" for br tx nid sy
    unfolding yields_def preflight_entry_def
  proof (intro allI impI)
    fix s k s'
    assume run: "preflight_attempts br tx sy v 3 (lookup_price_increment sy s) (entry_payload nid sy v n) s = (Inr k, s')"
    have "limit_within v (entry_payload nid sy v n)" using assms by (simp add: limit_within_def entry_payload_def)
    from preflight_attempts_within [OF run this assms] show "limit_within v (pf_payload k)" .
  qed
  then have "yields (\<lambda>k. limit_within v (pf_payload k)) (ps_preflight e dr v n)"
    unfolding ps_preflight_def by (intro yields_any_bind yields_zoom)
  moreover have "preflight_price k \<le> v \<and> round_price (preflight_price k) = preflight_price k"
    if "limit_within v (pf_payload k)" for k
    using that by (auto simp: limit_within_def preflight_price_def)
  ultimately show ?thesis unfolding yields_def by blast
qed

end
