(* ===== verification/Entry_Size.thy ===== *)
theory Entry_Size
  imports Entry_Stages
begin

text \<open>
  The size of a live entry: a refusal always names its reason, a quantity that was fitted is
  positive and within the cap at the price it was fitted for, and the order made of it is within
  its cap and asks for its whole cost.
\<close>

section \<open>Reasons\<close>

lemma sized_decision_reason: "(d, st') = sized_decision al dep tid rail rsv reason ds st \<Longrightarrow> ed_reason d = Some reason"
  by (metis fst_conv sized_decision_fields(6))

lemma commit_stage_reason: "text_truthy (ed_reason (fst (sized_commit_stage w q rsv cl p ds st)))"
  by (simp add: sized_commit_stage_def entry_decision_of_def text_truthy_def text_or_def split: option.split)

lemma book_stage_reason:
  assumes "sized_book_stage s et w q rsv p trades st = (d, st')"
  shows "text_truthy (ed_reason d)"
  using assms by (cases rule: book_stage_cases) (simp, metis commit_stage_reason fst_conv)

lemma sized_reason:
  assumes "reserve_sized_entry s et w q rsv st = (d, st')"
  shows "text_truthy (ed_reason d)"
proof -
  have "text_truthy (ed_reason d) \<or> (\<exists>p trades. sized_book_stage s et w q rsv p trades st = (d, st'))"
    using assms unfolding reserve_sized_entry_def Let_def
    by (auto split: if_splits sum.splits option.splits dest!: sized_decision_reason [OF sym] simp: text_truthy_def text_or_def)
  then show ?thesis using book_stage_reason by blast
qed

lemma day_for_entry_reason: "day_for_entry R env acct pf d db = (Inl reason, db') \<Longrightarrow> reason \<noteq> []"
  by (auto simp: day_for_entry_def Let_def split: option.splits sum.splits)

lemma cash_reason:
  assumes "reserve_entry R env et info pf tid req t rsv db = (r, db')" "cg_blocked r"
  shows "text_truthy (cg_reason r)"
  using assms
  by (auto simp: reserve_entry_def reserve_on_day_def guard_result_def Let_def text_truthy_def text_or_def
      split: if_splits prod.splits sum.splits dest: day_for_entry_reason)

section \<open>Quantities\<close>

lemma fit_search_le: "fit_search fits low high \<le> max low high"
proof (induction fits low high rule: fit_search.induct)
  case (1 fits low high)
  let ?mid = "(low + high + 1) div 2"
  have "fit_search fits low high = (if low < high
      then (if fits ?mid then fit_search fits ?mid high else fit_search fits low (?mid - 1)) else low)"
    by (subst fit_search.simps) (simp only: Let_def)
  with "1.IH" [OF _ refl] show ?case by (cases "low < high"; cases "fits ?mid") force+
qed

lemma yields_preview_cash: "yields (\<lambda>r. cg_blocked r \<longrightarrow> text_truthy (cg_reason r)) (ps_preview_cash e env tid t)"
  unfolding ps_preview_cash_def
  by (rule yields_any_bind) (auto simp: yields_def preview_entry_def dest: cash_reason split: prod.splits)

lemma yields_preview_risk: "yields (\<lambda>d. text_truthy (ed_reason d)) (ps_preview_risk e st q)"
  unfolding ps_preview_risk_def
  by (rule yields_any_bind) (auto simp: yields_def preview_sized_entry_def dest: sized_reason split: prod.splits)

definition fitted :: "int \<Rightarrow> string option + int \<Rightarrow> bool" where
  "fitted upper a = (case a of Inl reason \<Rightarrow> text_truthy reason | Inr n \<Rightarrow> n \<le> upper)"

lemma fitted_simps [simp]: "fitted upper (Inl (Some (x # xs)))" "fitted upper (Inr n) \<longleftrightarrow> n \<le> upper"
  "fitted upper (Inl reason) \<longleftrightarrow> text_truthy reason"
  by (simp_all add: fitted_def text_truthy_def text_or_def)

lemma yields_fit_cash: "yields (fitted quantity) (fit_cash e tid t price extra quantity)"
proof (cases "pe_cash_env e")
  case None
  then show ?thesis by (simp add: fit_cash_def yields_return)
next
  case (Some env)
  show ?thesis
    unfolding fit_cash_def Some option.case Let_def
    by (rule yields_bind [OF yields_preview_cash]) (auto intro!: yields_return split: option.split pyfloat.split)
qed

lemma yields_fit_risk: "yields (fitted quantity) (fit_risk e c tid price quantity)"
proof (cases "pe_settings e")
  case None
  then show ?thesis by (simp add: fit_risk_def yields_return)
next
  case (Some st)
  have le: "fit_search fits 0 quantity \<le> quantity" if "\<not> fit_search fits 0 quantity < 1" for fits
    using fit_search_le [of fits 0 quantity] that by linarith
  show ?thesis
    unfolding fit_risk_def Some option.case Let_def
    by (rule yields_bind [OF yields_preview_risk]) (use le in \<open>auto intro!: yields_return split: option.split\<close>)
qed

definition fits_live :: "int \<Rightarrow> real \<Rightarrow> real \<Rightarrow> int \<times> string option \<Rightarrow> bool" where
  "fits_live upper cap price r \<longleftrightarrow> (\<not> text_truthy (snd r) \<longrightarrow> 0 < fst r \<and> fst r \<le> upper \<and> fst r \<le> contracts_for cap price)"

lemma yields_fit_live: "yields (fits_live upper cap price) (fit_live_quantity e c tid price upper cap extra)"
proof -
  have second: "yields (fits_live upper cap price) (sx_bind (fit_risk e c tid price n) (\<lambda>b. case b of
         Inl reason \<Rightarrow> sx_return (0, reason)
       | Inr m \<Rightarrow> sx_return (m, if 0 < m then None else Some ''insufficient_budget_for_single_contract'')))"
    if "n \<le> min upper (contracts_for cap price)" for n
    by (rule yields_bind [OF yields_fit_risk])
      (use that in \<open>auto intro!: yields_return split: sum.split simp: fits_live_def text_truthy_def text_or_def\<close>)
  show ?thesis
    unfolding fit_live_quantity_def
    by (rule yields_bind [OF yields_fit_cash])
      (use second in \<open>auto intro!: yields_return split: sum.split simp: fits_live_def\<close>)
qed

definition sized_ok :: "entry_size \<Rightarrow> sizing \<Rightarrow> bool" where
  "sized_ok z r = (case r of Unsized _ _ _ \<Rightarrow> True
    | Sized n k \<Rightarrow> 0 < n \<and> n \<le> ez_quantity z \<and> n \<le> contracts_for (ez_cap z) (max (ez_sizing_price z) (preflight_price k))
        \<and> preflight_price k \<le> ez_price z \<and> round_price (preflight_price k) = preflight_price k)"

lemma sized_ok_simps [simp]: "sized_ok z (Unsized n t b)"
  "sized_ok z (Sized n k) \<longleftrightarrow> 0 < n \<and> n \<le> ez_quantity z \<and> n \<le> contracts_for (ez_cap z) (max (ez_sizing_price z) (preflight_price k))
        \<and> preflight_price k \<le> ez_price z \<and> round_price (preflight_price k) = preflight_price k"
  by (simp_all add: sized_ok_def)

lemma yields_settle_quantity:
  assumes "size_ok c z" "quantity \<le> ez_quantity z"
  shows "yields (sized_ok z) (settle_quantity n e c dr z quantity)"
  using assms(2)
proof (induction n arbitrary: quantity)
  case 0
  then show ?case by (simp add: yields_return)
next
  case (Suc n)
  have after: "yields (sized_ok z)
      (sx_bind (fit_live_quantity e c (df_trade_id dr) (max (ez_sizing_price z) (preflight_price k)) quantity (ez_cap z) extra)
        (\<lambda>(fitted, reason).
           if text_truthy reason then sx_return (Unsized fitted (text_or reason) False)
           else if fitted = quantity then sx_return (Sized quantity k)
           else settle_quantity n e c dr z fitted))"
    if "preflight_price k \<le> ez_price z \<and> round_price (preflight_price k) = preflight_price k" for k extra
    by (rule yields_bind [OF yields_fit_live])
      (use that Suc in \<open>auto intro!: yields_return Suc.IH simp: fits_live_def split: prod.split\<close>)
  have pre: "yields (\<lambda>k. preflight_price k \<le> ez_price z \<and> round_price (preflight_price k) = preflight_price k)
      (ps_preflight e dr (ez_price z) quantity)"
    using assms(1) by (intro yields_preflight) (auto simp: size_ok_def)
  show ?case
    unfolding settle_quantity.simps Let_def sizing_failed_def
    by (rule yields_bind [OF yields_caught [OF pre]])
      (auto intro!: yields_return after split: sum.split prod.split)
qed

lemma yields_live_quantity: "size_ok c z \<Longrightarrow> yields (sized_ok z) (live_quantity e c dr z)"
  unfolding live_quantity_def
  by (rule yields_bind [OF yields_fit_live])
    (auto intro!: yields_return yields_settle_quantity simp: fits_live_def split: prod.split)

section \<open>The order\<close>

definition order_ok :: "entry_call \<Rightarrow> entry_size \<Rightarrow> live_order \<Rightarrow> bool" where
  "order_ok c z lo \<longleftrightarrow> 0 < lo_quantity lo \<and> (\<forall>n. es_max_contracts (en_spec c) = Some n \<longrightarrow> lo_quantity lo \<le> n)
     \<and> round_price (lo_limit lo) = lo_limit lo \<and> lo_limit lo \<le> ez_sizing_price z
     \<and> premium_cap (en_spec c) = Inr (ez_cap z) \<and> lo_limit lo * of_int (lo_quantity lo) * 100 \<le> ez_cap z
     \<and> ez_sizing_price z * of_int (lo_quantity lo) * 100 \<le> lo_required_cash lo"

lemma contracts_for_cost:
  assumes "0 < price" "n \<le> contracts_for cap price"
  shows "price * of_int n * 100 \<le> cap"
proof -
  have "of_int n \<le> cap / (price * 100)" using assms(2) by (simp add: contracts_for_def le_floor_iff)
  then show ?thesis using assms(1) by (simp add: pos_le_divide_eq mult_ac)
qed

lemma live_order_ok:
  assumes "live_order_of z n k = Inr lo" "size_ok c z" "sized_ok z (Sized n k)"
  shows "order_ok c z lo"
proof -
  let ?price = "max (ez_sizing_price z) (preflight_price k)"
  have lo: "lo_quantity lo = n" "lo_limit lo = preflight_price k"
    "\<exists>amounts. lo_required_cash lo = required_cash_of z n (preflight_price k) amounts"
    using assms(1) by (auto simp: live_order_of_def bind_result_Inr_iff) blast
  have z: "0 < ez_sizing_price z" "ez_price z \<le> ez_sizing_price z" using assms(2) by (auto simp: size_ok_def)
  then have "?price * of_int n * 100 \<le> ez_cap z" using assms(3) by (intro contracts_for_cost) auto
  moreover have "preflight_price k * of_int n * 100 \<le> ?price * of_int n * 100"
    using assms(3) by (intro mult_right_mono) auto
  ultimately have cap: "preflight_price k * of_int n * 100 \<le> ez_cap z" by linarith
  have "ez_sizing_price z * of_int n * 100 \<le> lo_required_cash lo"
    using lo(3) by (auto simp: required_cash_of_def Let_def)
  with lo z cap assms(2,3) show ?thesis by (auto simp: order_ok_def size_ok_def)
qed

end
