(* ===== verification/Entry_Commit.thy ===== *)
theory Entry_Commit
  imports Entry_Size
begin

text \<open>
  The commitment of a live entry, from the cash guard to the submission: what each stage holds for
  the next, what a refusal gives back, and that a submission either ends with a live order that is
  covered or releases everything.
\<close>

section \<open>A placed entry has an id\<close>

definition id_ok :: "order_result \<Rightarrow> bool" where
  "id_ok r \<longleftrightarrow> or_order_id r \<noteq> Some []"

lemma id_ok_refused [simp]: "id_ok (order_refused reason b)"
  by (simp add: id_ok_def order_refused_def)

lemma submit_id_ok:
  assumes "op_order_id p \<noteq> []" "texts_ok tx"
  shows "yields id_ok (submit br tx p)"
  unfolding yields_def
proof (intro allI impI)
  fix s r s'
  assume run: "submit br tx p s = (Inr r, s')"
  have texts: "py_str tx v \<noteq> []" if "py_truthy v" for v using assms(2) that by (simp add: texts_ok_def)
  have failed: "id_ok (submit_failed p err unc inc)" for err unc inc using assms(1) by (simp add: id_ok_def submit_failed_def Let_def)
  show "id_ok r"
    using run texts failed
    unfolding submit_def Let_def by (auto split: prod.splits sum.splits if_splits simp: id_ok_def)
qed

lemma correction_id: "yields (\<lambda>p'. op_order_id p' = op_order_id p) (apply_increment_correction br LimitPrice p)"
  unfolding apply_increment_correction_def Let_def
  by (auto intro!: yields_return yields_any_bind split: option.split)

lemma retry_payload_id:
  "yields (\<lambda>r. \<forall>p2. r = Inr p2 \<longrightarrow> op_order_id p2 = op_order_id p) (retry_payload br tx nid LimitPrice corrected p)"
  unfolding retry_payload_def Let_def
  by (auto simp: yields_def sx_return_def split: prod.splits sum.splits option.splits)

lemma retry_id_ok:
  assumes "op_order_id p \<noteq> []" "texts_ok tx"
  shows "yields id_ok (retry_submission br tx nid LimitPrice g original x p)"
proof -
  have "yields id_ok (case r of
      Inl e \<Rightarrow> sx_return (order_refused (''public_preflight_failed:'' @ exc_class e) (preflight_failure_is_transient e))
    | Inr p2 \<Rightarrow> sx_bind (om_guard g) (\<lambda>reason.
        if text_truthy reason then sx_return (order_refused (text_or reason) False) else submit br tx p2))"
    if "\<forall>p2. r = Inr p2 \<longrightarrow> op_order_id p2 = op_order_id p" for r
    using that assms by (auto intro!: yields_return yields_any_bind submit_id_ok split: sum.split)
  then show ?thesis
    unfolding retry_submission_def by (intro yields_any_bind yields_bind [OF retry_payload_id])
qed

lemma submit_retry_id_ok:
  assumes "op_order_id p \<noteq> []" "texts_ok tx"
  shows "yields id_ok (submit_with_increment_retry br tx nid LimitPrice g p)"
proof -
  have "yields id_ok (if text_truthy (or_order_id r) \<or> \<not> text_truthy (or_error r) then sx_return r
       else case (if or_increment_rejected r then extract_price_increment (or_error r) else None) of
         None \<Rightarrow> sx_return r
       | Some x \<Rightarrow>
           if normalize_option_symbol (op_symbol p) = [] then sx_return r
           else (case get_price LimitPrice p of
               None \<Rightarrow> sx_raise (Py_Error KeyError)
             | Some original \<Rightarrow> retry_submission br tx nid LimitPrice g original x p))" if "id_ok r" for r
    using that retry_id_ok [OF assms] by (auto intro!: yields_return yields_raise split: option.split)
  then have "yields id_ok (sx_bind (submit br tx p) (\<lambda>r.
      if text_truthy (or_order_id r) \<or> \<not> text_truthy (or_error r) then sx_return r
       else case (if or_increment_rejected r then extract_price_increment (or_error r) else None) of
         None \<Rightarrow> sx_return r
       | Some x \<Rightarrow>
           if normalize_option_symbol (op_symbol p) = [] then sx_return r
           else (case get_price LimitPrice p of
               None \<Rightarrow> sx_raise (Py_Error KeyError)
             | Some original \<Rightarrow> retry_submission br tx nid LimitPrice g original x p)))"
    by (rule yields_bind [OF submit_id_ok [OF assms]])
  then show ?thesis
    unfolding submit_with_increment_retry_def by (auto intro!: yields_any_bind yields_return)
qed

lemma place_entry_id_ok:
  assumes "oid \<noteq> []" "texts_ok tx"
  shows "yields id_ok (place_entry_order br tx nid sy limit q oid g)"
  unfolding place_entry_order_def
proof (rule yields_bind [OF correction_id])
  fix p :: order_payload
  assume "op_order_id p = op_order_id (entry_payload oid sy limit q)"
  then show "yields id_ok (submit_with_increment_retry br tx nid LimitPrice g p)"
    using assms by (intro submit_retry_id_ok) (simp_all add: entry_payload_def)
qed

lemma submit_entry_id_ok:
  assumes "df_trade_id dr \<noteq> []" "texts_ok (pe_tx e)"
  shows "yields id_ok (submit_entry e c dr lo)"
  unfolding submit_entry_def
  by (intro yields_any_bind yields_catch yields_zoom place_entry_id_ok yields_return assms)
    (simp add: id_ok_def uncertain_result_def assms)

section \<open>What is held\<close>

definition cash_held :: "plan_env \<Rightarrow> entry_draft \<Rightarrow> live_order \<Rightarrow> plan_state \<Rightarrow> bool" where
  "cash_held e dr lo s \<longleftrightarrow> (cash_enforced e \<longrightarrow> (\<exists>row. sq_get_reservation (ps_cash s) (df_trade_id dr) = Some row
     \<and> cr_status row = ''reserved'' \<and> cr_amount row = round2 (max (lo_required_cash lo) 0)))"

definition intent_held :: "plan_env \<Rightarrow> entry_draft \<Rightarrow> live_order \<Rightarrow> plan_state \<Rightarrow> bool" where
  "intent_held e dr lo s \<longleftrightarrow> (pe_intents e \<longrightarrow> (\<exists>row. find_session (ps_trades s) (df_trade_id dr) = Some row
     \<and> ss_status row = ''pending_entry_reconcile'' \<and> ss_quantity row = lo_quantity lo))"

definition risk_held :: "plan_env \<Rightarrow> entry_call \<Rightarrow> entry_draft \<Rightarrow> entry_size \<Rightarrow> live_order \<Rightarrow> plan_state \<Rightarrow> bool" where
  "risk_held e c dr z lo s \<longleftrightarrow> (pe_settings e \<noteq> None \<longrightarrow> (\<exists>row\<in>set (rs_reservations (ps_risk s)).
     risk_reservation.rr_trade_id row = df_trade_id dr \<and> risk_reservation.rr_status row = ''reserved''
     \<and> rr_planned_stop_loss_usd row = or_zero (planned_stop_loss_usd (Some (ez_sizing_price z)) (lo_quantity lo) None
          (fst (recovery_stop_loss_pct (en_deployment c))))))"

section \<open>Releases\<close>

lemma cash_release_claims:
  assumes "ps_cash_release e tid s = (r, s')" "claims e ({tid}, R) s0 s"
  shows "claims e ({}, R) s0 s' \<and> ps_risk s' = ps_risk s"
  using assms release_claims(2) [of tid "ps_cash s0" "ps_cash s"]
  by (auto simp: ps_cash_release_def sx_return_def ps_do_def claims_def split: if_splits)

lemma release_both_claims:
  assumes "release_both e tid s = (r, s')" "claims e ({tid}, {tid}) s0 s"
  shows "claims e ({}, {}) s0 s'"
proof -
  obtain s1 where c: "ps_cash_release e tid s = (Inr (), s1)" "ps_risk_release e tid s1 = (r, s')"
    using assms(1) unfolding release_both_def ps_cash_release_def by (auto simp: sx_bind_def sx_return_def ps_do_def split: if_splits)
  have "claims e ({}, {tid}) s0 s1" using cash_release_claims [OF c(1) assms(2)] by simp
  then show ?thesis
    using c(2) mark_claims(2) [of "''released''" tid "rs_reservations (ps_risk s0)" "rs_reservations (ps_risk s1)"]
    by (auto simp: ps_risk_release_def sx_return_def ps_do_def claims_def release_sized_entry_def split: if_splits)
qed

section \<open>The stages of the commitment\<close>

lemma runs_unless:
  assumes "quiet_plan m"
    and "\<And>s0 s x s1. claims e X s0 s \<Longrightarrow> Pre s \<Longrightarrow> m s = (Inr x, s1) \<Longrightarrow>
      (case x of None \<Rightarrow> claims e X' s0 s1 \<and> Pre' s1 | Some p \<Rightarrow> claims e ({}, {}) s0 s1)"
    and "entry_runs e c plan X' Pre' next"
    and "\<And>p. plan p = Some p"
  shows "entry_runs e c plan X Pre (unless_refused m next)"
  unfolding unless_refused_def
proof (rule runs_bind [where X' = "\<lambda>x. case x of None \<Rightarrow> X' | Some p \<Rightarrow> ({}, {})"
    and Pre' = "\<lambda>x s. case x of None \<Rightarrow> Pre' s | Some p \<Rightarrow> True", OF assms(1)])
  show "claims e (case x of None \<Rightarrow> X' | Some p \<Rightarrow> ({}, {})) s0 s1 \<and> (case x of None \<Rightarrow> Pre' s1 | Some p \<Rightarrow> True)"
    if "claims e X s0 s" "Pre s" "m s = (Inr x, s1)" for s0 s x s1
    using assms(2) [OF that] by (cases x) auto
  show "entry_runs e c plan (case x of None \<Rightarrow> X' | Some p \<Rightarrow> ({}, {})) (\<lambda>s. case x of None \<Rightarrow> Pre' s | Some p \<Rightarrow> True)
      (case x of Some p \<Rightarrow> sx_return p | None \<Rightarrow> next)" for x
    using assms(3) by (cases x) (simp_all add: runs_return)
qed

lemma cash_stage_step:
  assumes "claims e ({}, {}) s0 s" "cash_stage e c dr lo s = (Inr x, s1)"
  shows "case x of None \<Rightarrow> claims e ({df_trade_id dr}, {}) s0 s1 \<and> cash_held e dr lo s1 | Some p \<Rightarrow> claims e ({}, {}) s0 s1"
proof (cases "pe_cash_env e")
  case None
  then show ?thesis
    using assms by (auto simp: cash_stage_def sx_return_def cash_held_def cash_enforced_def intro: claims_mono)
next
  case (Some env)
  let ?tid = "df_trade_id dr"
  obtain r db where run: "reserve_entry sqlite_cash_repo env (pe_et e) (pe_account_info e) (pe_portfolio e (ps_reads s)) ?tid
      (lo_required_cash lo) (sd_timestamp (en_decision c)) True (ps_cash s) = (r, db)" by fastforce
  let ?s2 = "s\<lparr>ps_reads := Suc (ps_reads s), ps_cash := db\<rparr>"
  have res: "ps_cash_reserve e env ?tid (lo_required_cash lo) (sd_timestamp (en_decision c)) s = (Inr r, ?s2)"
    using run by (simp add: ps_cash_reserve_def ps_portfolio_def sx_bind_def ps_read_def)
  note fact = reserve_entry_claims [OF run]
  have rest: "(if cg_blocked r
        then sx_bind (live_refusal c dr (lo_quantity lo) (lo_limit lo)
               (if text_truthy (cg_reason r) then text_or (cg_reason r) else ''cash_guard_blocked'') []) (\<lambda>p. sx_return (Some p))
        else sx_return None) ?s2 = (Inr x, s1)"
    using assms(2) res by (simp add: cash_stage_def Some sx_bind_def)
  show ?thesis
  proof (cases "cg_blocked r")
    case True
    then have "s1 = ?s2" "x \<noteq> None"
      using rest by (auto simp: live_refusal_def ps_receipt_def ps_get_def sx_bind_def sx_return_def)
    moreover have "claims e ({}, {}) s ?s2" using fact(2) True by (simp add: claims_def)
    ultimately show ?thesis using claims_trans [OF assms(1)] by auto
  next
    case False
    then have "s1 = ?s2" "x = None" using rest by (auto simp: sx_return_def)
    moreover have "claims e ({?tid}, {}) s ?s2" using fact(1) by (simp add: claims_def Some)
    moreover have "cash_held e dr lo ?s2" using fact(3) False Some by (simp add: cash_held_def cash_enforced_def)
    ultimately show ?thesis using claims_trans [OF claims_mono [OF assms(1)]] by auto
  qed
qed

lemma upsert_trade_run: "ps_upsert_trade e r s = (Inr (), s\<lparr>ps_reads := Suc (ps_reads s),
    ps_trades := sq_upsert_trade (pe_codec e) (iso_text (pe_codec e) (Aware (pe_now e (ps_reads s) (ps_log s)))) r (ps_trades s)\<rparr>)"
  by (simp add: ps_upsert_trade_def ps_now_def ps_read_def ps_do_def sx_bind_def)

lemma intent_recorded:
  "find_session (sq_upsert_trade cd now (entry_intent c dr lo) db) (df_trade_id dr) = Some row \<Longrightarrow>
   ss_status row = ''pending_entry_reconcile'' \<and> ss_quantity row = lo_quantity lo"
  by (auto simp: find_upsert entry_intent_def position_session_def row_of_session_def merge_session_def exit_unaware_def
      entry_position_def Let_def split: option.splits)

lemma intent_found: "\<exists>row. find_session (sq_upsert_trade cd now (entry_intent c dr lo) db) (df_trade_id dr) = Some row"
  by (auto simp: find_upsert entry_intent_def position_session_def split: option.split)

lemma write_intent_run:
  assumes "write_intent e c dr lo s = (Inr w, s1)"
  shows "ps_cash s1 = ps_cash s \<and> ps_risk s1 = ps_risk s \<and> (w \<longrightarrow> intent_held e dr lo s1)"
proof (cases "pe_intents e")
  case True
  have kept: "intent_held e dr lo (s'\<lparr>ps_trades := sq_upsert_trade cd now (entry_intent c dr lo) db\<rparr>)"
    for s' :: plan_state and cd now db
    using intent_found [of cd now c dr lo db] intent_recorded by (auto simp: intent_held_def)
  show ?thesis
    using assms True kept
    by (auto simp: write_intent_def sx_return_def sx_bind_def ps_read_def upsert_trade_run split: if_splits)
qed (use assms in \<open>auto simp: write_intent_def sx_return_def intent_held_def\<close>)

lemma unclaimed_run: "unclaiming e m \<Longrightarrow> m s = (r, s') \<Longrightarrow> claims e X s0 s \<Longrightarrow> claims e X s0 s'"
  by (blast intro: claims_trans claims_mono steps_within_run)

lemma intent_stage_step:
  assumes "claims e ({df_trade_id dr}, {}) s0 s" "cash_held e dr lo s" "intent_stage e c dr lo s = (Inr x, s1)"
  shows "case x of None \<Rightarrow> claims e ({df_trade_id dr}, {}) s0 s1 \<and> (cash_held e dr lo s1 \<and> intent_held e dr lo s1)
    | Some p \<Rightarrow> claims e ({}, {}) s0 s1"
  using assms(3) unfolding intent_stage_def
proof (cases rule: bind_Inr_cases)
  case (passed w s2)
  note w = write_intent_run [OF passed(1)]
  have c2: "claims e ({df_trade_id dr}, {}) s0 s2" using claims_trans [OF assms(1)] claims_frame w by blast
  show ?thesis
  proof (cases w)
    case True
    then show ?thesis using passed(2) c2 w assms(2) by (auto simp: sx_return_def cash_held_def)
  next
    case False
    then have "sx_bind (release_both e (df_trade_id dr)) (\<lambda>_.
       sx_bind (live_refusal c (dr\<lparr>df_underlying := None\<rparr>) (lo_quantity lo) (lo_limit lo) ''entry_intent_persistence_failed'' []) (\<lambda>p.
       sx_return (Some p))) s2 = (Inr x, s1)" using passed(2) by simp
    then show ?thesis
    proof (cases rule: bind_Inr_cases)
      case rel: (passed u s3)
      have "claims e ({df_trade_id dr}, {df_trade_id dr}) s0 s2"
        using c2 by (auto simp: claims_def intro: rows_claims_mono)
      from release_both_claims [OF rel(1) this] have c3: "claims e ({}, {}) s0 s3" .
      have "x \<noteq> None" "s1 = s3"
        using rel(2) by (auto simp: live_refusal_def ps_receipt_def ps_get_def sx_bind_def sx_return_def)
      with c3 show ?thesis by auto
    qed simp
  qed
qed simp

lemma refused_after_release:
  assumes "sx_bind (release_both e tid) (\<lambda>_. m) s = (Inr x, s')" "claims e ({tid}, {tid}) s0 s" "unclaiming e m"
  shows "claims e ({}, {}) s0 s'"
  using assms(1)
proof (cases rule: bind_Inr_cases)
  case (passed u s1)
  from unclaimed_run [OF assms(3) passed(2) release_both_claims [OF passed(1) assms(2)]] show ?thesis .
qed simp

lemma refused_some:
  assumes "sx_bind m (\<lambda>p. sx_return (Some p)) s = (Inr x, s')"
  shows "x \<noteq> None"
  using assms by (auto simp: sx_bind_def sx_return_def split: sum.splits prod.splits)

lemma bind_some: "sx_bind m f s = (Inr x, s') \<Longrightarrow> (\<And>y s1. f y s1 = (Inr x, s') \<Longrightarrow> x \<noteq> None) \<Longrightarrow> x \<noteq> None"
  by (cases rule: bind_Inr_cases [of m f s]) auto

lemma risk_stage_step:
  assumes "claims e ({df_trade_id dr}, {}) s0 s" "cash_held e dr lo s \<and> intent_held e dr lo s"
    and run: "risk_stage e c dr z lo s = (Inr x, s1)"
  shows "case x of None \<Rightarrow> claims e ({df_trade_id dr}, {df_trade_id dr}) s0 s1
      \<and> (cash_held e dr lo s1 \<and> intent_held e dr lo s1 \<and> risk_held e c dr z lo s1)
    | Some p \<Rightarrow> claims e ({}, {}) s0 s1"
proof (cases "pe_settings e")
  case None
  then show ?thesis
    using assms by (auto simp: risk_stage_def sx_return_def risk_held_def claims_def)
next
  case (Some st)
  let ?tid = "df_trade_id dr" and ?q = "sized_request_for c (df_trade_id dr) (ez_sizing_price z) (lo_quantity lo)"
  let ?lost = "pe_sized_error e (ps_reads s)" and ?w = "pe_world e (Suc (ps_reads s))"
  obtain d rs where r: "reserve_sized_entry st (pe_et e) ?w ?q True (ps_risk s) = (d, rs)" by fastforce
  let ?s2 = "s\<lparr>ps_reads := Suc (Suc (ps_reads s)), ps_risk := rs\<rparr>"
  let ?refuse = "\<lambda>reason. sx_bind (clear_unsubmitted_intent e c dr lo) (\<lambda>_.
      sx_bind (live_refusal c dr (lo_quantity lo) (lo_limit lo) reason []) (\<lambda>p. sx_return (Some p)))"
  have calm: "unclaiming e (?refuse reason)" for reason by (intro unclaimed)
  have some: "x \<noteq> None" if "sx_bind m (\<lambda>_. ?refuse reason) t = (Inr x, s1)" for m :: "unit planner" and reason t
    using that by (elim bind_some refused_some)
  have rest: "(case ?lost of
        Some text \<Rightarrow> sx_bind (release_both e ?tid) (\<lambda>_. ?refuse (''sized_entry_risk_check_failed:'' @ text))
      | None \<Rightarrow> if ed_allowed d then sx_return None
          else sx_bind (ps_cash_release e ?tid) (\<lambda>_. ?refuse
            (if text_truthy (ed_reason d) then text_or (ed_reason d) else ''sized_entry_risk_blocked''))) ?s2 = (Inr x, s1)"
    using run r by (simp add: risk_stage_def Some sx_bind_def ps_read_def ps_risk_reserve_def)
  have q: "rows_claims {?tid} (rs_reservations (ps_risk s)) (rs_reservations rs)"
    "\<not> ed_allowed d \<Longrightarrow> rows_claims {} (rs_reservations (ps_risk s)) (rs_reservations rs)"
    using sized_claims [OF r] by (simp_all add: sized_request_for_def)
  have c2: "claims e ({?tid}, {?tid}) s0 ?s2"
    using assms(1) q(1) rows_claims_trans [OF rows_claims_mono] by (auto simp: claims_def Some)
  consider (lost) msg where "?lost = Some msg" | (allowed) "?lost = None" "ed_allowed d" | (refused) "?lost = None" "\<not> ed_allowed d"
    by (cases ?lost) auto
  then show ?thesis
  proof cases
    case lost
    note rest' = rest [unfolded lost option.case]
    from refused_after_release [OF rest' c2 calm] some [OF rest'] show ?thesis by auto
  next
    case allowed
    then have "x = None" "s1 = ?s2" using rest by (auto simp: sx_return_def)
    moreover have "risk_held e c dr z lo ?s2"
      using sized_reserved [OF r allowed(2)]
      unfolding risk_held_def by (auto simp: sized_reservation_def sized_request_for_def intro!: bexI)
    moreover have "cash_held e dr lo ?s2 \<and> intent_held e dr lo ?s2" using assms(2) by (simp add: cash_held_def intent_held_def)
    ultimately show ?thesis using c2 by simp
  next
    case refused
    then have rest': "sx_bind (ps_cash_release e ?tid) (\<lambda>_. ?refuse
            (if text_truthy (ed_reason d) then text_or (ed_reason d) else ''sized_entry_risk_blocked'')) ?s2 = (Inr x, s1)"
      using rest by simp
    have c: "claims e ({?tid}, {}) s0 ?s2"
      using assms(1) q(2) refused(2) rows_claims_trans by (auto simp: claims_def Some)
    from rest' show ?thesis
    proof (cases rule: bind_Inr_cases)
      case (passed u s3)
      from unclaimed_run [OF calm passed(2) conjunct1 [OF cash_release_claims [OF passed(1) c]]] some [OF rest']
      show ?thesis by auto
    qed simp
  qed
qed

section \<open>The submission\<close>

definition all_held :: "plan_env \<Rightarrow> entry_call \<Rightarrow> entry_draft \<Rightarrow> entry_size \<Rightarrow> live_order \<Rightarrow> plan_state \<Rightarrow> bool" where
  "all_held e c dr z lo s \<longleftrightarrow> cash_held e dr lo s \<and> intent_held e dr lo s \<and> risk_held e c dr z lo s"

definition same_books :: "plan_state \<Rightarrow> plan_state \<Rightarrow> bool" where
  "same_books s s' \<longleftrightarrow> ps_cash s' = ps_cash s \<and> ps_risk s' = ps_risk s \<and> ps_trades s' = ps_trades s"

lemma all_held_books: "same_books s s' \<Longrightarrow> all_held e c dr z lo s' = all_held e c dr z lo s"
  by (simp add: same_books_def all_held_def cash_held_def intent_held_def risk_held_def)

lemma claims_books: "same_books s s' \<Longrightarrow> claims e X s0 s' = claims e X s0 s"
  by (simp add: same_books_def claims_def)

lemma guarded_books: "guarded e c dr chk stage s = (Inr g, s') \<Longrightarrow> same_books s s'"
  by (auto simp: guarded_def sx_bind_def ps_read_def sx_lift_def sx_return_def sx_raise_def ps_do_def same_books_def
      split: sum.splits prod.splits option.splits)

lemma note_refusal_run:
  "\<exists>v. note_refusal e c dr n r s = (Inr (), s\<lparr>ps_validation := v\<rparr>)"
proof -
  have same: "\<exists>v. s = s\<lparr>ps_validation := v\<rparr>" by (rule exI [of _ "ps_validation s"]) simp
  show ?thesis
    using same by (auto simp: note_refusal_def ps_do_def split: sum.split prod.split option.split)
qed

text \<open>What follows the answer of the submission.\<close>

definition after_submission ::
  "plan_env \<Rightarrow> entry_call \<Rightarrow> entry_draft \<Rightarrow> entry_size \<Rightarrow> live_order \<Rightarrow> order_result \<Rightarrow> trade_plan planner" where
  "after_submission e c dr z lo r =
     sx_bind (ps_get ps_reads) (\<lambda>n. sx_bind (note_refusal e c dr n r) (\<lambda>_. settle_submission e c dr z lo r))"

lemma quiet_after_submission [quiets]: "quiet_plan (after_submission e c dr z lo r)"
  unfolding after_submission_def by (intro quiets)

lemma yields_after_submission: "yields (\<lambda>p. pn_order_id p = or_order_id r) (after_submission e c dr z lo r)"
  unfolding after_submission_def settle_submission_def Let_def
  by (intro yields_any_bind yields_return) simp

lemma after_submission_live:
  assumes "live_result (Inr r)"
  shows "\<exists>p s'. after_submission e c dr z lo r s = (Inr p, s') \<and> pn_trade_id p = df_trade_id dr
    \<and> pn_order_id p = or_order_id r \<and> same_books s s'
    \<and> ps_tracker s' = open_position (entry_position c dr (lo_quantity lo) ''live_pending'' (text_or (or_order_id r))) (ps_tracker s)"
proof -
  have live: "text_truthy (or_order_id r)" "\<not> nothing_submitted r" using assms by (auto simp: live_result_def)
  then obtain oid where oid: "or_order_id r = Some oid" "oid \<noteq> []" by (auto simp: text_truthy_def text_or_def split: option.splits)
  obtain v where v: "note_refusal e c dr (ps_reads s) r s = (Inr (), s\<lparr>ps_validation := v\<rparr>)"
    using note_refusal_run by blast
  show ?thesis
    using v live oid
    by (auto simp: after_submission_def settle_submission_def sx_bind_def sx_return_def ps_get_def track_entry_def ps_do_def
        ps_receipt_def refused_plan_def entry_plan_of_def same_books_def text_or_def Let_def)
qed

lemma after_submission_none:
  assumes "or_order_id r = None" "after_submission e c dr z lo r s = (Inr p, s')"
    and "claims e ({df_trade_id dr}, {df_trade_id dr}) s0 s"
  shows "claims e ({}, {}) s0 s'"
proof -
  obtain v where v: "note_refusal e c dr (ps_reads s) r s = (Inr (), s\<lparr>ps_validation := v\<rparr>)"
    using note_refusal_run by blast
  have c: "claims e ({df_trade_id dr}, {df_trade_id dr}) s0 (s\<lparr>ps_validation := v\<rparr>)"
    using assms(3) by (simp add: claims_def)
  have none: "nothing_submitted r" using assms(1) by (simp add: nothing_submitted_def)
  have "settle_submission e c dr z lo r (s\<lparr>ps_validation := v\<rparr>) = (Inr p, s')"
    using assms(2) v by (simp add: after_submission_def sx_bind_def ps_get_def)
  from this [unfolded settle_submission_def assms(1) if_P [OF refl] if_P [OF none] option.case]
  show ?thesis
  proof (cases rule: bind_Inr_cases)
    case (passed u s1)
    have "claims e ({df_trade_id dr}, {df_trade_id dr}) s0 s1" by (rule unclaimed_run [OF unclaimed_intents(2) passed(1) c])
    from refused_after_release [OF passed(2) this] show ?thesis
      by (simp add: ps_receipt_def Let_def) (metis unclaimed)
  qed simp
qed

end
