(* ===== verification/Entry_Safety.thy ===== *)
theory Entry_Safety
  imports Entry_Commit
begin

text \<open>
  The entry from the signal to the order, with its whole recovery: at most the last order sent may
  be live, it is within the deployment's cap, a live order is covered by the tracker, the cash
  ledger, the risk manager and the durable record, and an entry that ends without an order leaves
  no claim behind.
\<close>

section \<open>The submission\<close>

lemma entry_order_allowed:
  assumes "entry_order dr lo pl" "order_ok c z lo" "\<not> en_dry_run c"
  shows "entry_allowed c pl"
proof -
  obtain x where x: "op_limit_price pl = Some x" "x \<le> lo_limit lo" and n: "op_quantity pl = lo_quantity lo"
    using assms(1,2) by (auto simp: entry_order_def entry_at_def order_ok_def)
  have "x * of_int (lo_quantity lo) * 100 \<le> lo_limit lo * of_int (lo_quantity lo) * 100"
    using x(2) assms(2) by (intro mult_right_mono) (auto simp: order_ok_def)
  moreover have "lo_limit lo * of_int (lo_quantity lo) * 100 \<le> ez_cap z" "premium_cap (en_spec c) = Inr (ez_cap z)"
    using assms(2) by (simp_all add: order_ok_def)
  ultimately have "x * of_int (op_quantity pl) * 100 \<le> ez_cap z" "premium_cap (en_spec c) = Inr (ez_cap z)"
    unfolding n by linarith+
  then have cap: "\<exists>x cap. op_limit_price pl = Some x \<and> premium_cap (en_spec c) = Inr cap \<and> x * of_int (op_quantity pl) * 100 \<le> cap"
    using x(1) by blast
  have "0 < lo_quantity lo" "\<forall>n. es_max_contracts (en_spec c) = Some n \<longrightarrow> lo_quantity lo \<le> n"
    using assms(2) by (auto simp: order_ok_def)
  with assms(1,3) n cap show ?thesis by (auto simp: entry_allowed_def entry_order_def entry_at_def)
qed

lemma cents_cost:
  assumes "round_price x = x" "x * of_int n * 100 \<le> required"
  shows "x * of_int n * 100 \<le> round2 (max required 0)"
proof -
  have "cents x" using assms(1) by (metis cents_intros(2) round_price_def)
  then obtain k :: int where "x = of_int k / 100" by (auto simp: cents_iff)
  then have whole: "x * of_int n * 100 = of_int (k * n * 100) / 10 ^ 2" by simp
  have "round2 (x * of_int n * 100) \<le> round2 (max required 0)" using assms(2) by (intro py_round_mono) simp
  then show ?thesis unfolding whole py_round_grid by simp
qed

lemma held_covers:
  assumes "all_held e c dr z lo s" "entry_order dr lo pl" "order_ok c z lo" "same_books s s'"
    and "pn_trade_id p = df_trade_id dr" "pn_order_id p = Some oid"
    and "ps_tracker s' = open_position (entry_position c dr (lo_quantity lo) ''live_pending'' oid) t"
  shows "entry_covered e c p pl s'"
proof -
  have held: "cash_held e dr lo s'" "intent_held e dr lo s'" "risk_held e c dr z lo s'"
    using assms(1) all_held_books [OF assms(4), of e c dr z lo] unfolding all_held_def by simp_all
  obtain x where x: "op_limit_price pl = Some x" "x \<le> lo_limit lo" "round_price x = x"
    and n: "op_quantity pl = lo_quantity lo" "op_order_id pl = df_trade_id dr"
    using assms(2,3) by (auto simp: entry_order_def entry_at_def order_ok_def)
  have sizing: "x \<le> ez_sizing_price z" using x(2) assms(3) by (simp add: order_ok_def)
  then have "x * of_int (lo_quantity lo) * 100 \<le> ez_sizing_price z * of_int (lo_quantity lo) * 100"
    using assms(3) by (intro mult_right_mono) (auto simp: order_ok_def)
  moreover have "ez_sizing_price z * of_int (lo_quantity lo) * 100 \<le> lo_required_cash lo"
    using assms(3) by (simp add: order_ok_def)
  ultimately have cost: "x * of_int (lo_quantity lo) * 100 \<le> round2 (max (lo_required_cash lo) 0)"
    by (intro cents_cost x(3)) linarith
  have "p' \<in> set (put_position p' ps)" for p' ps by (induction ps) auto
  then have tracked: "entry_position c dr (lo_quantity lo) ''live_pending'' oid \<in> set (pt_positions (ps_tracker s'))"
    by (simp add: assms(7) open_position_def rebuild_counters_def)
  have pos: "\<exists>pos\<in>set (pt_positions (ps_tracker s')). tp_trade_id pos = Some (df_trade_id dr) \<and> tp_quantity pos = lo_quantity lo
      \<and> tp_source pos = ''live_pending'' \<and> tp_order_id pos = Some oid"
    by (rule bexI [OF _ tracked]) (simp add: entry_position_def)
  have cash: "cash_enforced e \<longrightarrow> (\<exists>row. sq_get_reservation (ps_cash s') (df_trade_id dr) = Some row
      \<and> cr_status row = ''reserved'' \<and> x * of_int (lo_quantity lo) * 100 \<le> cr_amount row)"
    using held(1) cost unfolding cash_held_def by metis
  have risk: "pe_settings e \<noteq> None \<longrightarrow> (\<exists>row\<in>set (rs_reservations (ps_risk s')).
      risk_reservation.rr_trade_id row = df_trade_id dr \<and> risk_reservation.rr_status row = ''reserved''
      \<and> (\<exists>y\<ge>x. rr_planned_stop_loss_usd row = or_zero (planned_stop_loss_usd (Some y) (lo_quantity lo) None
           (fst (recovery_stop_loss_pct (en_deployment c))))))"
    using held(3) sizing unfolding risk_held_def by blast
  show ?thesis
    unfolding entry_covered_def assms(5,6) n x(1)
    using pos cash risk held(2) unfolding intent_held_def by blast
qed

lemma submission_runs:
  assumes "df_trade_id dr \<noteq> []" "texts_ok (pe_tx e)" "order_ok c z lo" "\<not> en_dry_run c"
  shows "entry_runs e c Some ({df_trade_id dr}, {df_trade_id dr}) (all_held e c dr z lo)
    (sx_bind (submit_entry e c dr lo) (after_submission e c dr z lo))"
  unfolding entry_runs_def
proof (intro allI impI)
  fix s0 s :: plan_state
  assume pre: "claims e ({df_trade_id dr}, {df_trade_id dr}) s0 s \<and> all_held e c dr z lo s"
  obtain res s1 where run: "submit_entry e c dr lo s = (res, s1)" by fastforce
  obtain r calls h where r: "res = Inr r" and log1: "ps_log s1 = ps_log s @ calls"
    and calls: "submission_calls (pe_broker e) (ps_log s) (entry_order dr lo) h calls"
    and live: "last_may_live (pe_broker e) (ps_log s) calls \<Longrightarrow> live_result (Inr r)"
    and s1: "s1 = s\<lparr>ps_orders := ps_orders s1, ps_reads := Suc (ps_reads s)\<rparr>"
    using submit_entry_runs [OF run assms(1,2)] by blast
  have id: "or_order_id r \<noteq> Some []"
    using yieldsD [OF submit_entry_id_ok [OF assms(1,2)] run [unfolded r]] by (simp add: id_ok_def)
  have books: "same_books s s1" unfolding same_books_def by (intro conjI; subst s1) simp_all
  obtain res2 s2 where run2: "after_submission e c dr z lo r s1 = (res2, s2)" by fastforce
  have out: "sx_bind (submit_entry e c dr lo) (after_submission e c dr z lo) s = (res2, s2)"
    using run run2 r by (simp add: sx_bind_def)
  obtain post where post: "ps_log s2 = ps_log s1 @ post" "placed post = []"
    using quiet_on_log [OF quiet_after_submission run2] .
  let ?all = "calls @ post"
  have within: "only_last_live (pe_broker e) (ps_log s) (entry_allowed c) calls"
    using only_last_live_mono [OF only_last_live_submission [OF calls] entry_order_allowed [OF _ assms(3,4)]] .
  have one: "only_last_live (pe_broker e) (ps_log s) (entry_allowed c) ?all"
    by (rule only_last_live_append [OF within]) (use post(2) in simp_all)
  have covered: "live_is_covered e c Some ?all (res2, s2)" if may: "last_may_live (pe_broker e) (ps_log s) ?all"
  proof -
    have first: "last_may_live (pe_broker e) (ps_log s) calls" using last_may_live_append [OF post(2) may] .
    obtain before pl after where split: "calls = before @ Place pl # after" "placed after = []"
      using first by (auto simp: last_may_live_def)
    have order: "entry_order dr lo pl"
      using only_last_live_submission [OF calls] split(1) by (auto simp: only_last_live_def)
    from after_submission_live [OF live [OF first], of e c dr z lo s1] run2
    obtain p where p: "res2 = Inr p" "pn_trade_id p = df_trade_id dr" "pn_order_id p = or_order_id r" "same_books s1 s2"
      "ps_tracker s2 = open_position (entry_position c dr (lo_quantity lo) ''live_pending'' (text_or (or_order_id r))) (ps_tracker s1)"
      by auto
    obtain oid where oid: "or_order_id r = Some oid" "text_truthy (Some oid)"
      using live [OF first] by (auto simp: live_result_def text_truthy_def text_or_def split: option.splits)
    have "entry_covered e c p pl s2"
      by (rule held_covers [OF _ order assms(3) p(4)])
        (use pre all_held_books [OF books] p oid in \<open>auto simp: text_or_def\<close>)
    then show ?thesis
      unfolding live_is_covered_def using p(1,3) oid split post(2)
      by (intro exI [of _ p] exI [of _ before] exI [of _ pl] exI [of _ "after @ post"]) auto
  qed
  have unheld: "claims e ({}, {}) s0 s2" if "res2 = Inr p" "\<not> has_order Some p" for p
  proof -
    have "pn_order_id p = or_order_id r" using yieldsD [OF yields_after_submission run2 [unfolded that(1)]] .
    then have "or_order_id r = None"
      using that(2) id by (cases "or_order_id r") (auto simp: has_order_def text_truthy_def text_or_def)
    then show ?thesis
      using after_submission_none [OF _ run2 [unfolded that(1)]] pre claims_books [OF books] by blast
  qed
  show "run_ok e c Some s0 s (sx_bind (submit_entry e c dr lo) (after_submission e c dr z lo) s)"
    unfolding out run_ok_def using one covered unheld log1 post(1) by (intro exI [of _ ?all]) auto
qed

lemma submission_stage_runs:
  assumes "df_trade_id dr \<noteq> []" "texts_ok (pe_tx e)" "order_ok c z lo" "\<not> en_dry_run c"
  shows "entry_runs e c Some ({df_trade_id dr}, {df_trade_id dr}) (all_held e c dr z lo) (submission_stage e c dr z lo)"
  unfolding submission_stage_def
proof (rule runs_bind [where X' = "\<lambda>_. ({df_trade_id dr}, {df_trade_id dr})" and Pre' = "\<lambda>_. all_held e c dr z lo"])
  show "claims e ({df_trade_id dr}, {df_trade_id dr}) s0 s1 \<and> all_held e c dr z lo s1"
    if "claims e ({df_trade_id dr}, {df_trade_id dr}) s0 s" "all_held e c dr z lo s"
      "guarded e c dr True BEFORE_SUBMISSION s = (Inr g, s1)" for s0 s g s1
    using that(1,2) claims_books [OF guarded_books [OF that(3)]] all_held_books [OF guarded_books [OF that(3)]] by simp
  have given_back: "entry_runs e c Some ({df_trade_id dr}, {df_trade_id dr}) (all_held e c dr z lo)
      (sx_bind (release_both e (df_trade_id dr)) (\<lambda>_. sx_bind (clear_unsubmitted_intent e c dr lo) (\<lambda>_. sx_return p)))" for p
    by (rule runs_bind [where X' = "\<lambda>_. ({}, {})" and Pre' = "\<lambda>_ _. True"])
      (auto intro!: quiets runs_step [where P = "\<lambda>_. True"] unclaimed yields_any runs_return dest: release_both_claims)
  show "entry_runs e c Some ({df_trade_id dr}, {df_trade_id dr}) (all_held e c dr z lo)
      (case g of Some p \<Rightarrow> sx_bind (release_both e (df_trade_id dr)) (\<lambda>_.
         sx_bind (clear_unsubmitted_intent e c dr lo) (\<lambda>_. sx_return p))
     | None \<Rightarrow> sx_bind (submit_entry e c dr lo) (\<lambda>r.
         sx_bind (ps_get ps_reads) (\<lambda>n. sx_bind (note_refusal e c dr n r) (\<lambda>_. settle_submission e c dr z lo r))))" for g
    using given_back submission_runs [OF assms, unfolded after_submission_def] by (cases g) simp_all
qed (rule quiets)

lemma commit_runs:
  assumes "df_trade_id dr \<noteq> []" "texts_ok (pe_tx e)" "order_ok c z lo" "\<not> en_dry_run c"
  shows "entry_runs e c Some ({}, {}) (\<lambda>_. True) (commit_entry e c dr z lo)"
  unfolding commit_entry_def
proof (rule runs_unless [OF quiet_cash_stage _ _ refl])
  show "case x of None \<Rightarrow> claims e ({df_trade_id dr}, {}) s0 s1 \<and> cash_held e dr lo s1 | Some p \<Rightarrow> claims e ({}, {}) s0 s1"
    if "claims e ({}, {}) s0 s" "cash_stage e c dr lo s = (Inr x, s1)" for s0 s x s1
    using cash_stage_step [OF that] .
  show "entry_runs e c Some ({df_trade_id dr}, {}) (cash_held e dr lo)
      (unless_refused (intent_stage e c dr lo) (unless_refused (risk_stage e c dr z lo) (submission_stage e c dr z lo)))"
  proof (rule runs_unless [OF quiet_intent_stage intent_stage_step _ refl])
    show "entry_runs e c Some ({df_trade_id dr}, {}) (\<lambda>s. cash_held e dr lo s \<and> intent_held e dr lo s)
        (unless_refused (risk_stage e c dr z lo) (submission_stage e c dr z lo))"
      by (rule runs_unless [OF quiet_risk_stage risk_stage_step [folded all_held_def] submission_stage_runs [OF assms] refl])
  qed
qed

section \<open>One attempt\<close>

lemma runs_stage:
  assumes "quiet_plan m" "unclaiming e m" "yields (\<lambda>r. \<forall>x. r = Inr x \<longrightarrow> P x) m"
    and "\<And>x. P x \<Longrightarrow> entry_runs e c Some ({}, {}) (\<lambda>_. True) (f x)"
  shows "entry_runs e c Some ({}, {}) (\<lambda>_. True) (stage_bind m f)"
  unfolding stage_bind_def
  by (rule runs_step [OF assms(1-3)]) (auto split: sum.split intro: runs_return assms(4))

lemma runs_quiet:
  assumes "quiet_plan m" "unclaiming e m"
  shows "entry_runs e c plan ({}, {}) (\<lambda>_. True) m"
  unfolding entry_runs_def
proof (intro allI impI)
  fix s0 s :: plan_state
  assume pre: "claims e ({}, {}) s0 s \<and> True"
  obtain r s1 where m: "m s = (r, s1)" by fastforce
  obtain calls where "ps_log s1 = ps_log s @ calls" "placed calls = []" using quiet_on_log [OF assms(1) m] .
  then show "run_ok e c plan s0 s (m s)"
    unfolding m by (intro run_ok_quiet [of _ _ calls]) (use unclaimed_run [OF assms(2) m] pre in auto)
qed

lemma live_entry_runs:
  assumes "df_trade_id dr \<noteq> []" "texts_ok (pe_tx e)" "size_ok c z" "\<not> en_dry_run c"
  shows "entry_runs e c Some ({}, {}) (\<lambda>_. True) (live_entry e c dr z)"
  unfolding live_entry_def
proof (rule runs_step [OF quiet_live_quantity unclaimed_live_quantity yields_live_quantity [OF assms(3)]])
  fix size
  assume ok: "sized_ok z size"
  show "entry_runs e c Some ({}, {}) (\<lambda>_. True) (case size of
       Unsized n reason retry \<Rightarrow> live_refusal c dr n (ez_price z) reason (retry_receipt retry)
     | Sized n k \<Rightarrow>
         if preflight_price k > ez_price z + 1 / 10 ^ 9
         then live_refusal c (dr\<lparr>df_underlying := None\<rparr>) n (ez_price z) ''broker_entry_price_exceeds_limit'' []
         else sx_bind (sx_lift (live_order_of z n k)) (commit_entry e c dr z))"
  proof (cases size)
    case (Unsized n reason retry)
    then show ?thesis by (simp add: runs_quiet quiet_refusal unclaimed_refusal)
  next
    case (Sized n k)
    have "yields (order_ok c z) (sx_lift (live_order_of z n k))"
      by (rule yields_lift) (use live_order_ok [OF _ assms(3)] ok Sized in blast)
    then have "entry_runs e c Some ({}, {}) (\<lambda>_. True) (sx_bind (sx_lift (live_order_of z n k)) (commit_entry e c dr z))"
      by (rule runs_step [OF quiet_lift claiming.within_lift]) (rule commit_runs [OF assms(1,2) _ assms(4)])
    then show ?thesis using Sized by (simp add: runs_quiet quiet_refusal unclaimed_refusal)
  qed
qed

lemma yields_simulate:
  assumes "size_ok c z"
  shows "yields (\<lambda>r. \<forall>z1. r = Inr z1 \<longrightarrow> size_ok c z1) (simulate_stage e c dr z)"
proof -
  have "yields (\<lambda>k. preflight_price k \<le> ez_price z \<and> round_price (preflight_price k) = preflight_price k)
      (ps_preflight e dr (ez_price z) (ez_quantity z))"
    using assms by (intro yields_preflight) (simp add: size_ok_def)
  note pre = yields_caught [OF this]
  have kept: "size_ok c (z\<lparr>ez_price := preflight_price k\<rparr>)"
    if "preflight_price k \<le> ez_price z \<and> round_price (preflight_price k) = preflight_price k" for k
    using assms that by (simp add: size_ok_def)
  have after: "yields (\<lambda>r. \<forall>z1. r = Inr z1 \<longrightarrow> size_ok c z1)
      (sx_bind m (\<lambda>g. sx_return (case g of Some p \<Rightarrow> Inl p | None \<Rightarrow> Inr (z\<lparr>ez_price := preflight_price k\<rparr>))))"
    if "preflight_price k \<le> ez_price z \<and> round_price (preflight_price k) = preflight_price k" for m k
    using kept [OF that] by (auto intro!: yields_any_bind yields_return split: option.splits)
  show ?thesis
  proof (cases "en_simulate_only c")
    case True
    then have "simulate_stage e c dr z = sx_bind (caught (ps_preflight e dr (ez_price z) (ez_quantity z))) (\<lambda>r. case r of
          Inl x \<Rightarrow> sx_return (Inl (simulated_refusal c dr z ''public_preflight_failed'' (preflight_failure_is_transient x)))
        | Inr k \<Rightarrow>
            if truthy_increment (pf_current_increment k) = None
            then sx_return (Inl (simulated_refusal c dr z ''public_preflight_tick_metadata_unavailable''
                   (preflight_failure_is_transient (Py_Error ValueError))))
            else if preflight_price k > ez_price z + 1 / 10 ^ 9
            then sx_return (Inl (simulated_refusal c dr z ''public_preflight_failed''
                   (preflight_failure_is_transient (Py_Error ValueError))))
            else sx_bind (guarded e c dr True BEFORE_PREFLIGHT) (\<lambda>g. sx_return (case g of
                Some p \<Rightarrow> Inl p | None \<Rightarrow> Inr (z\<lparr>ez_price := preflight_price k\<rparr>))))"
      by (simp add: simulate_stage_def)
    then show ?thesis
      by (simp only:) (rule yields_bind [OF pre], auto intro!: yields_return after split: sum.split)
  qed (use assms in \<open>simp add: simulate_stage_def yields_return\<close>)
qed

lemma entry_of_size_runs:
  assumes "draft_ok dr" "texts_ok (pe_tx e)" "size_ok c z"
  shows "entry_runs e c Some ({}, {}) (\<lambda>_. True) (entry_of_size e c dr z)"
  unfolding entry_of_size_def
proof (rule runs_stage [where P = "\<lambda>_. True"])
  show "entry_runs e c Some ({}, {}) (\<lambda>_. True) (stage_bind (simulate_stage e c dr z) (\<lambda>z1.
     if en_dry_run c then dry_entry c dr z1 else live_entry e c dr z1))"
  proof (rule runs_stage [OF quiet_simulate unclaimed_simulate yields_simulate [OF assms(3)]])
    show "entry_runs e c Some ({}, {}) (\<lambda>_. True) (if en_dry_run c then dry_entry c dr z1 else live_entry e c dr z1)"
      if "size_ok c z1" for z1
      using assms(1,2) that by (simp add: runs_quiet quiet_dry unclaimed_dry live_entry_runs draft_ok_def)
  qed
qed (auto simp: stage_guard_def yields_def intro!: quiets unclaimed)

lemma entry_of_draft_runs:
  assumes "draft_ok dr" "texts_ok (pe_tx e)"
  shows "entry_runs e c Some ({}, {}) (\<lambda>_. True) (entry_of_draft e c dr)"
  unfolding entry_of_draft_def
proof (rule runs_stage [OF quiet_refresh unclaimed_refresh yields_refresh [OF assms(1)]])
  fix dr1
  assume ok: "draft_ok dr1"
  have sized: "entry_runs e c Some ({}, {}) (\<lambda>_. True) (stage_bind (size_stage c dr1 price) (entry_of_size e c dr1))"
    if "entry_price_stage c dr1 = Inr price" for price
    by (rule runs_stage [OF quiet_size_stage unclaimed_size_stage yields_size [OF that ok]])
      (rule entry_of_size_runs [OF ok assms(2)])
  have "entry_runs e c Some ({}, {}) (\<lambda>_. True) (stage_bind (sx_return (entry_price_stage c dr1)) (\<lambda>price.
     stage_bind (size_stage c dr1 price) (entry_of_size e c dr1)))"
    by (rule runs_stage [where P = "\<lambda>price. entry_price_stage c dr1 = Inr price"])
      (auto intro!: quiets unclaimed yields_return sized)
  then show "entry_runs e c Some ({}, {}) (\<lambda>_. True) (sx_bind (freeze_reference e dr1) (\<lambda>_.
     stage_bind (sx_return (entry_price_stage c dr1)) (\<lambda>price.
     stage_bind (size_stage c dr1 price) (entry_of_size e c dr1))))"
    by (rule runs_step [OF quiet_freeze unclaimed_freeze yields_any])
qed

text \<open>The trade ids and the texts of the broker's ids are not empty.\<close>

definition ids_ok :: "plan_env \<Rightarrow> bool" where
  "ids_ok e \<longleftrightarrow> texts_ok (pe_tx e) \<and> (\<forall>n. pe_uuid e n \<noteq> [])"

lemma yields_uuid: "ids_ok e \<Longrightarrow> yields (\<lambda>tid. tid \<noteq> []) (ps_uuid e)"
  by (auto simp: yields_def ps_uuid_def ps_read_def ids_ok_def)

lemma entry_of_contract_runs:
  assumes "ids_ok e"
  shows "entry_runs e c Some ({}, {}) (\<lambda>_. True) (entry_of_contract e c dir contracts sel)"
proof -
  have drafted: "entry_runs e c Some ({}, {}) (\<lambda>_. True) (sx_bind (first_draft e c tid sel1 q1) (entry_of_draft e c))"
    if "tid \<noteq> []" for tid sel1 q1
    by (rule runs_step [OF quiet_first_draft unclaimed_first_draft yields_first_draft [OF that]])
      (rule entry_of_draft_runs, use assms in \<open>auto simp: ids_ok_def\<close>)
  have market: "entry_runs e c Some ({}, {}) (\<lambda>_. True) (sx_bind (chosen_market e c dir contracts sel q) (\<lambda>(sel1, q1).
      sx_bind (first_draft e c tid sel1 q1) (entry_of_draft e c)))" if "tid \<noteq> []" for tid q
    by (rule runs_step [OF quiet_market unclaimed_market yields_any]) (use drafted [OF that] in auto)
  have quoted: "entry_runs e c Some ({}, {}) (\<lambda>_. True) (sx_bind (attempted (ps_quote e (os_option_symbol sel)))
      (\<lambda>quote. case quote of None \<Rightarrow> sx_return (unpriced_plan c tid sel ''public_quote_unavailable'')
       | Some q \<Rightarrow> sx_bind (chosen_market e c dir contracts sel q) (\<lambda>(sel1, q1).
           sx_bind (first_draft e c tid sel1 q1) (entry_of_draft e c))))" if "tid \<noteq> []" for tid
    by (rule runs_step [OF quiet_attempted [OF quiet_ps_quote] unclaimed_attempted [OF unclaimed_price(2)] yields_any])
      (use market [OF that] in \<open>auto intro: runs_return split: option.split\<close>)
  have named: "entry_runs e c Some ({}, {}) (\<lambda>_. True) (sx_bind (ps_uuid e) (\<lambda>tid.
        if taken then sx_return (unpriced_plan c tid sel ''option_contract_already_owned_by_other_deployment'')
        else sx_bind (attempted (ps_quote e (os_option_symbol sel))) (\<lambda>quote. case quote of
            None \<Rightarrow> sx_return (unpriced_plan c tid sel ''public_quote_unavailable'')
          | Some q \<Rightarrow> sx_bind (chosen_market e c dir contracts sel q) (\<lambda>(sel1, q1).
              sx_bind (first_draft e c tid sel1 q1) (entry_of_draft e c)))))" for taken
    by (rule runs_step [OF quiet_ps_uuid unclaimed_price(3) yields_uuid [OF assms]])
      (use quoted in \<open>auto intro: runs_return\<close>)
  have "entry_runs e c Some ({}, {}) (\<lambda>_. True) (sx_bind (ps_get (\<lambda>s. owned_elsewhere c sel (ps_tracker s))) (\<lambda>taken.
        sx_bind (ps_uuid e) (\<lambda>tid.
        if taken then sx_return (unpriced_plan c tid sel ''option_contract_already_owned_by_other_deployment'')
        else sx_bind (attempted (ps_quote e (os_option_symbol sel))) (\<lambda>quote. case quote of
            None \<Rightarrow> sx_return (unpriced_plan c tid sel ''public_quote_unavailable'')
          | Some q \<Rightarrow> sx_bind (chosen_market e c dir contracts sel q) (\<lambda>(sel1, q1).
              sx_bind (first_draft e c tid sel1 q1) (entry_of_draft e c))))))"
    by (rule runs_step [OF quiet_ps_get unclaimed_steps(2) yields_any]) (rule named)
  then show ?thesis unfolding entry_of_contract_def by (simp add: runs_raise)
qed

text \<open>The plan of an attempt.\<close>

definition planned :: "attempt \<Rightarrow> trade_plan option" where
  "planned a = (case a of Planned p \<Rightarrow> Some p | _ \<Rightarrow> None)"

lemma plan_entry_once_runs:
  assumes "ids_ok e"
  shows "entry_runs e c planned ({}, {}) (\<lambda>_. True) (plan_entry_once e c)"
proof (cases "sd_direction (en_decision c) = None \<or> \<not> sd_signal (en_decision c)")
  case True
  then show ?thesis by (auto simp: plan_entry_once_def intro: runs_return split: option.split)
next
  case False
  then obtain dir where dir: "sd_direction (en_decision c) = Some dir" "sd_signal (en_decision c)" by auto
  have contract: "entry_runs e c planned ({}, {}) (\<lambda>_. True)
      (sx_bind (entry_of_contract e c dir contracts sel) (\<lambda>p. sx_return (Planned p)))" for contracts sel
    by (rule runs_map [OF entry_of_contract_runs [OF assms]]) (simp add: planned_def)
  have chosen: "entry_runs e c planned ({}, {}) (\<lambda>_. True) (sx_bind (resolve_contract e c dir contracts) (\<lambda>found. case found of
              None \<Rightarrow> sx_return No_Contract
            | Some sel \<Rightarrow> sx_bind (entry_of_contract e c dir contracts sel) (\<lambda>p. sx_return (Planned p))))" for contracts
    by (rule runs_step [OF quiet_resolve unclaimed_resolve yields_any])
      (use contract in \<open>auto intro: runs_return split: option.split\<close>)
  have chain: "entry_runs e c planned ({}, {}) (\<lambda>_. True) (sx_bind (chain_of e c) (\<lambda>contracts.
            sx_bind (resolve_contract e c dir contracts) (\<lambda>found. case found of
              None \<Rightarrow> sx_return No_Contract
            | Some sel \<Rightarrow> sx_bind (entry_of_contract e c dir contracts sel) (\<lambda>p. sx_return (Planned p)))))"
    by (rule runs_step [OF quiet_chain unclaimed_chain yields_any]) (rule chosen)
  have closed: "entry_runs e c planned ({}, {}) (\<lambda>_. True) (sx_bind (ps_uuid e) (\<lambda>tid. sx_return (Planned (window_plan c tid))))"
    by (intro runs_quiet quiets unclaimed)
  have reset: "quiet_plan (ps_do (\<lambda>s. s\<lparr>ps_validation := None\<rparr>))" "unclaiming e (ps_do (\<lambda>s. s\<lparr>ps_validation := None\<rparr>))"
    by (auto intro!: quiets unclaimed_do)
  have inside: "entry_runs e c planned ({}, {}) (\<lambda>_. True)
      (sx_bind (sx_lift (entry_window_allows e (en_deployment c) (sd_timestamp (en_decision c)))) (\<lambda>allowed.
          if \<not> allowed then sx_bind (ps_uuid e) (\<lambda>tid. sx_return (Planned (window_plan c tid)))
          else sx_bind (chain_of e c) (\<lambda>contracts.
            sx_bind (resolve_contract e c dir contracts) (\<lambda>found. case found of
              None \<Rightarrow> sx_return No_Contract
            | Some sel \<Rightarrow> sx_bind (entry_of_contract e c dir contracts sel) (\<lambda>p. sx_return (Planned p))))))"
    by (rule runs_step [OF quiet_lift claiming.within_lift yields_any]) (use chain closed in auto)
  show ?thesis
    unfolding plan_entry_once_def dir option.case using dir(2) runs_step [OF reset yields_any inside] by simp
qed

section \<open>The recovery\<close>

lemma plan_attempts_runs:
  assumes "ids_ok e" "\<And>p. previous = Some p \<Longrightarrow> \<not> text_truthy (pn_order_id p)"
  shows "entry_runs e c (\<lambda>x. x) ({}, {}) (\<lambda>_. True) (plan_attempts n e c previous rebuilt)"
  using assms(2)
proof (induction n arbitrary: previous rebuilt)
  case 0
  then show ?case by (simp add: runs_return)
next
  case (Suc n)
  show ?case
    unfolding plan_attempts.simps
  proof (rule runs_again [OF plan_entry_once_runs [OF assms(1)]])
    fix a :: attempt and s :: plan_state
    assume "has_order planned a"
    then obtain p where "a = Planned p" "text_truthy (pn_order_id p)"
      by (auto simp: has_order_def planned_def split: attempt.splits)
    then show "\<exists>y. (case a of
       No_Signal \<Rightarrow> sx_return None
     | No_Contract \<Rightarrow> (case previous of
           None \<Rightarrow> sx_raise (Other_Error ''SelectorEmptyError'' [])
         | Some p \<Rightarrow> sx_return (Some p))
     | Planned p \<Rightarrow> sx_bind (ps_get ps_rank) (\<lambda>rank. case recovery_of rebuilt rank p of
           Stop \<Rightarrow> sx_return (Some p)
         | Rebuild \<Rightarrow> sx_bind (ps_do (\<lambda>s. s\<lparr>ps_rebuilding := True\<rparr>)) (\<lambda>_. plan_attempts n e c (Some p) True)
         | Next_Contract \<Rightarrow> sx_bind (ps_do (\<lambda>s. s\<lparr>ps_rank := rank + 1\<rparr>)) (\<lambda>_. plan_attempts n e c (Some p) rebuilt))) s
        = (Inr y, s) \<and> y = planned a"
      by (auto simp: sx_bind_def ps_get_def sx_return_def recovery_of_def planned_def)
  next
    fix a :: attempt
    assume free: "\<not> has_order planned a"
    have move: "quiet_plan (ps_do (\<lambda>s. s\<lparr>ps_rebuilding := True\<rparr>))" "unclaiming e (ps_do (\<lambda>s. s\<lparr>ps_rebuilding := True\<rparr>))"
      "quiet_plan (ps_do (\<lambda>s. s\<lparr>ps_rank := rank + 1\<rparr>))" "unclaiming e (ps_do (\<lambda>s. s\<lparr>ps_rank := rank + 1\<rparr>))" for rank
      by (auto intro!: quiets unclaimed_do)
    have go: "entry_runs e c (\<lambda>x. x) ({}, {}) (\<lambda>_. True) (case recovery_of rebuilt rank p of
           Stop \<Rightarrow> sx_return (Some p)
         | Rebuild \<Rightarrow> sx_bind (ps_do (\<lambda>s. s\<lparr>ps_rebuilding := True\<rparr>)) (\<lambda>_. plan_attempts n e c (Some p) True)
         | Next_Contract \<Rightarrow> sx_bind (ps_do (\<lambda>s. s\<lparr>ps_rank := rank + 1\<rparr>)) (\<lambda>_. plan_attempts n e c (Some p) rebuilt))"
      if "a = Planned p" for p rank
    proof -
      have "\<not> text_truthy (pn_order_id p)" using free that by (simp add: has_order_def planned_def)
      then have ih: "entry_runs e c (\<lambda>x. x) ({}, {}) (\<lambda>_. True) (plan_attempts n e c (Some p) r)" for r
        by (intro Suc.IH) simp
      show ?thesis
        using runs_step [OF move(1,2) yields_any ih] runs_step [OF move(3,4) yields_any ih]
        by (cases "recovery_of rebuilt rank p") (simp_all add: runs_return)
    qed
    show "entry_runs e c (\<lambda>x. x) ({}, {}) (\<lambda>_. True) (case a of
       No_Signal \<Rightarrow> sx_return None
     | No_Contract \<Rightarrow> (case previous of
           None \<Rightarrow> sx_raise (Other_Error ''SelectorEmptyError'' [])
         | Some p \<Rightarrow> sx_return (Some p))
     | Planned p \<Rightarrow> sx_bind (ps_get ps_rank) (\<lambda>rank. case recovery_of rebuilt rank p of
           Stop \<Rightarrow> sx_return (Some p)
         | Rebuild \<Rightarrow> sx_bind (ps_do (\<lambda>s. s\<lparr>ps_rebuilding := True\<rparr>)) (\<lambda>_. plan_attempts n e c (Some p) True)
         | Next_Contract \<Rightarrow> sx_bind (ps_do (\<lambda>s. s\<lparr>ps_rank := rank + 1\<rparr>)) (\<lambda>_. plan_attempts n e c (Some p) rebuilt)))"
    proof (cases a)
      case (Planned p)
      show ?thesis
        unfolding Planned attempt.case
        by (rule runs_step [OF quiet_ps_get unclaimed_steps(2) yields_any]) (rule go [OF Planned])
    qed (auto intro: runs_return runs_raise split: option.split)
  qed
qed

lemma plan_entry_runs: "ids_ok e \<Longrightarrow> entry_runs e c (\<lambda>x. x) ({}, {}) (\<lambda>_. True) (plan_entry e c references)"
  unfolding plan_entry_def
  by (rule runs_step [where P = "\<lambda>_. True"]) (auto intro!: quiets unclaimed_do yields_any plan_attempts_runs)

lemma plan_entry_ok:
  assumes "ids_ok e" "plan_entry e c references s = (res, s')"
  shows "run_ok e c (\<lambda>x. x) s s (res, s')"
  using plan_entry_runs [OF assms(1), of c references] assms(2) claims_refl unfolding entry_runs_def by metis

end
