(* ===== verification/Entry_Path.thy ===== *)
theory Entry_Path
  imports Entry_Safety Demo_Account
begin

text \<open>
  The properties of the entry path as a whole, over \<open>plan_entry\<close>, with an account at which they
  are evaluated: a broker that quotes one contract, previews every order, and takes, refuses or
  loses the order that is sent.
\<close>

section \<open>A concrete entry\<close>

definition entry_broker :: "broker_reply \<Rightarrow> broker" where
  "entry_broker answer calls k = (case k of
      Place pl \<Rightarrow> answer
    | Get_Quotes symbl \<Rightarrow> Reply [(''quotes'', PList [PDict [(''bid'', PFloat (Fin 2)), (''ask'', PFloat (Fin 2)),
        (''openInterest'', PInt 100), (''quoteTimestamp'', PStr ''t1'')]])]
    | _ \<Rightarrow> Reply [])"

definition entry_contract :: option_contract where
  "entry_contract = (demo_contract ''SPY260101C00500000'' 3 (1/2))\<lparr>oc_contract_type := ''CALL''\<rparr>"

definition demo_plan_env :: "broker_reply \<Rightarrow> plan_env" where
  "demo_plan_env answer = \<lparr>pe_broker = entry_broker answer, pe_tx = (\<lambda>_. ''x''),
     pe_iso_parse = (\<lambda>t. Some (Aware 0)), pe_isofmt = (\<lambda>_. ''t1''), pe_time_iso = (\<lambda>_. None), pe_et = (\<lambda>_. 0),
     pe_codec = \<lparr>iso_text = (\<lambda>_. []), iso_read = (\<lambda>_. None), json_text = (\<lambda>_. []), json_read = (\<lambda>_. None)\<rparr>,
     pe_now = (\<lambda>_ _. 0), pe_uuid = (\<lambda>n. replicate (Suc n) CHR ''u''), pe_chain = (\<lambda>_ _ _ _. Inr [entry_contract]),
     pe_entry_guard = None, pe_weekly_block = (\<lambda>_ _. None),
     pe_cash_env = Some [''BHIKSHA_CASH_GUARD_MODE'' \<mapsto> ''on''], pe_account_info = None,
     pe_portfolio = (\<lambda>_. Inr (CashNumber 1000)), pe_settings = Some demo_risk_settings, pe_world = (\<lambda>_. funded_world),
     pe_sized_error = (\<lambda>_. None), pe_intents = True, pe_intent_error = (\<lambda>_. False)\<rparr>"

definition demo_entry_call :: entry_call where
  "demo_entry_call = \<lparr>en_spec = \<lparr>es_deployment = demo_exit_deployment, es_max_trade_premium = Some 500,
       es_max_contracts = Some 1, es_max_open_total = None, es_max_open_per_symbol = None,
       es_max_open_per_deployment = None, es_envelope_mode = ''full'', es_envelope_cap_fraction = None, es_dte_max = 7,
       es_dte_fallback_policy = ''strict'', es_dte_fallback_max = None, es_option_mapping = [], es_native_orders = False\<rparr>,
     en_decision = \<lparr>sd_timestamp = Aware 0, sd_signal = True, sd_direction = Some LONG, sd_features = []\<rparr>,
     en_dry_run = False, en_simulate_only = False\<rparr>"

definition fresh_plan :: plan_state where
  "fresh_plan = \<lparr>ps_orders = fresh_orders, ps_cash = empty_cash_db None, ps_risk = new_risk_state,
     ps_tracker = \<lparr>by_symbol = (\<lambda>_. 0), by_deployment = (\<lambda>_. 0), pt_positions = []\<rparr>,
     ps_trades = \<lparr>db_trades = [], db_legs = [], db_next_leg = 1\<rparr>, ps_rank = 0, ps_contracts = None,
     ps_references = [], ps_rebuilding = False, ps_validation = None, ps_reads = 0\<rparr>"

definition demo_entry :: "broker_reply \<Rightarrow> (broker_exc + trade_plan option) \<times> plan_state" where
  "demo_entry answer = plan_entry (demo_plan_env answer) demo_entry_call [] fresh_plan"

definition taken :: broker_reply where
  "taken = Reply [(''orderId'', PStr ''o1'')]"

definition refused :: broker_reply where
  "refused = Failure (Http_Error 403 None ''forbidden'')"

lemma text_digits: "nat_digits n \<noteq> []"
  by (subst nat_digits.simps) simp

lemma texts_demo: "texts_ok (\<lambda>_. ''x'')"
proof -
  have "py_str (\<lambda>_. ''x'') v \<noteq> []" if "py_truthy v" for v
    using that text_digits by (cases v) (auto simp: py_str_def int_str_def)
  then show ?thesis by (simp add: texts_ok_def)
qed

lemma ids_demo: "ids_ok (demo_plan_env answer)"
  by (simp add: ids_ok_def demo_plan_env_def texts_demo)

lemma demo_broker: "pe_broker (demo_plan_env answer) calls (Place p) = answer"
  by (simp add: demo_plan_env_def entry_broker_def)

lemma demo_run: "plan_entry (demo_plan_env answer) demo_entry_call [] fresh_plan = (fst (demo_entry answer), snd (demo_entry answer))"
  by (simp add: demo_entry_def)

lemma fresh_log: "ps_log fresh_plan = []"
  by (simp add: fresh_plan_def fresh_orders_def)

lemma demo_taken_log: "map op_quantity (placed (ps_log (snd (demo_entry taken)))) = [1]"
  by code_simp

lemma demo_refused_ends: "case demo_entry refused of (Inr (Some p), s) \<Rightarrow> pn_order_id p = None
     \<and> map_option cr_status (sq_get_reservation (ps_cash s) ''uu'') = Some ''released'' | _ \<Rightarrow> False"
  by code_simp

section \<open>Properties\<close>

text \<open>
  C8. One live order. Whatever the broker answers, over the whole recovery of an entry (up to six
  attempts on the contracts of the chain) every order but the last was definitely rejected by the
  broker; and each order is a limit order to buy to open, not sent in a dry run, for a positive
  quantity of at most the deployment's contracts, which costs at most the premium cap.
\<close>

theorem entry_sends_one_live_order:
  assumes "plan_entry e c references s = (res, s')" "ids_ok e"
  shows "\<exists>calls. ps_log s' = ps_log s @ calls \<and> only_last_live (pe_broker e) (ps_log s) (entry_allowed c) calls"
  using plan_entry_ok [OF assms(2,1)] by (auto simp: run_ok_def)

theorem entry_sends_one_live_order_witness:
  "placed (ps_log (snd (demo_entry taken))) \<noteq> []
   \<and> only_last_live (pe_broker (demo_plan_env taken)) [] (entry_allowed demo_entry_call) (ps_log (snd (demo_entry taken)))"
proof -
  from entry_sends_one_live_order [OF demo_run ids_demo, of taken]
  have "only_last_live (pe_broker (demo_plan_env taken)) [] (entry_allowed demo_entry_call) (ps_log (snd (demo_entry taken)))"
    by (simp add: fresh_log)
  with demo_taken_log show ?thesis by auto
qed

text \<open>
  C6. A live order is covered. When an entry has sent an order that the broker did not definitely
  reject (it took it, or the answer was lost), the entry ends with a plan that names the order,
  and for that very order: the tracker holds it as a pending position of its quantity; the cash
  ledger, where it is enforced, holds a reservation of at least its whole cost; the risk manager,
  where there is one, holds a reservation for the planned loss of its quantity at no lower a
  price; and the durable record, where it is kept, shows the trade as pending with that quantity.
\<close>

theorem live_entry_is_covered:
  assumes "plan_entry e c references s = (res, s')" "ids_ok e" "ps_log s' = ps_log s @ calls"
    and "last_may_live (pe_broker e) (ps_log s) calls"
  shows "\<exists>p before pl after. res = Inr (Some p) \<and> text_truthy (pn_order_id p) \<and> calls = before @ Place pl # after
    \<and> placed after = [] \<and> entry_covered e c p pl s'"
  using plan_entry_ok [OF assms(2,1)] assms(3,4) by (auto simp: run_ok_def live_is_covered_def)

lemma last_order_live:
  assumes "placed calls \<noteq> []" "\<And>log p. \<not> reply_rejected (br log (Place p))"
  shows "last_may_live br log0 calls"
proof -
  have "\<exists>before p after. xs = before @ Place p # after \<and> placed after = []" if "placed xs \<noteq> []" for xs
    using that
  proof (induction xs)
    case (Cons k xs)
    show ?case
    proof (cases "placed xs = []")
      case True
      then obtain p where "k = Place p" using Cons.prems by (cases k) auto
      with True have "k # xs = [] @ Place p # xs \<and> placed xs = []" by simp
      then show ?thesis by blast
    next
      case False
      then obtain before p after where "xs = before @ Place p # after" "placed after = []" using Cons.IH by blast
      then have "k # xs = (k # before) @ Place p # after \<and> placed after = []" by simp
      then show ?thesis by blast
    qed
  qed simp
  with assms show ?thesis unfolding last_may_live_def by blast
qed

theorem live_entry_is_covered_witness:
  "\<exists>p pl. fst (demo_entry taken) = Inr (Some p) \<and> op_quantity pl = 1
     \<and> entry_covered (demo_plan_env taken) demo_entry_call p pl (snd (demo_entry taken))"
proof -
  let ?calls = "ps_log (snd (demo_entry taken))"
  have log: "ps_log (snd (demo_entry taken)) = ps_log fresh_plan @ ?calls" by (simp add: fresh_log)
  have "placed ?calls \<noteq> []" using demo_taken_log by auto
  then have "last_may_live (pe_broker (demo_plan_env taken)) (ps_log fresh_plan) ?calls"
    by (rule last_order_live) (simp add: demo_broker taken_def reply_rejected_def)
  from live_entry_is_covered [OF demo_run ids_demo log this]
  obtain p before pl after where p: "fst (demo_entry taken) = Inr (Some p)" "?calls = before @ Place pl # after"
    "entry_covered (demo_plan_env taken) demo_entry_call p pl (snd (demo_entry taken))" by blast
  have "op_quantity pl \<in> set (map op_quantity (placed ?calls))" unfolding p(2) by simp
  then have "op_quantity pl = 1" by (simp add: demo_taken_log)
  with p show ?thesis by blast
qed

text \<open>
  C9. A failed entry claims nothing. When the planning of an entry ends without an order, for
  whatever reason and after any number of attempts, every row of the cash ledger is released or
  as it was before, and the risk manager holds no reservation that it did not hold before.
\<close>

theorem failed_entry_leaves_no_claim:
  assumes "plan_entry e c references s = (Inr outcome, s')" "ids_ok e"
    and "\<forall>p. outcome = Some p \<longrightarrow> \<not> text_truthy (pn_order_id p)"
  shows "(\<forall>tid row. sq_get_reservation (ps_cash s') tid = Some row \<longrightarrow>
      cr_status row = ''released'' \<or> sq_get_reservation (ps_cash s) tid = Some row)
    \<and> (\<forall>row\<in>set (rs_reservations (ps_risk s')). risk_reservation.rr_status row = ''reserved'' \<longrightarrow>
        row \<in> set (rs_reservations (ps_risk s)))"
proof -
  have "claims e ({}, {}) s s'"
    using plan_entry_ok [OF assms(2,1)] assms(3) by (auto simp: run_ok_def has_order_def)
  then show ?thesis by (simp add: claims_def ledger_claims_def rows_claims_def)
qed

theorem failed_entry_leaves_no_claim_witness:
  "map_option cr_status (sq_get_reservation (ps_cash (snd (demo_entry refused))) ''uu'') = Some ''released''
   \<and> filter (\<lambda>row. risk_reservation.rr_status row = ''reserved'') (rs_reservations (ps_risk (snd (demo_entry refused)))) = []"
proof -
  obtain p where p: "fst (demo_entry refused) = Inr (Some p)" "pn_order_id p = None"
    and row: "map_option cr_status (sq_get_reservation (ps_cash (snd (demo_entry refused))) ''uu'') = Some ''released''"
    using demo_refused_ends by (cases "demo_entry refused"; cases "fst (demo_entry refused)") (auto split: option.splits)
  have "\<forall>q. Some p = Some q \<longrightarrow> \<not> text_truthy (pn_order_id q)" using p(2) by (simp add: text_truthy_def text_or_def)
  from failed_entry_leaves_no_claim [OF demo_run [of refused, unfolded p(1)] ids_demo this] row show ?thesis
    by (auto simp: filter_empty_conv fresh_plan_def new_risk_state_def)
qed

section \<open>The search for the quantity\<close>

lemma fit_search_finds:
  assumes "\<And>m n. fits n \<Longrightarrow> 0 < m \<Longrightarrow> m \<le> n \<Longrightarrow> fits m" "0 \<le> low" "0 < low \<longrightarrow> fits low" "low \<le> high"
  shows "low \<le> fit_search fits low high \<and> fit_search fits low high \<le> high
    \<and> (0 < fit_search fits low high \<longrightarrow> fits (fit_search fits low high))
    \<and> (\<forall>m. fit_search fits low high < m \<and> m \<le> high \<longrightarrow> \<not> fits m)"
  using assms
proof (induction fits low high rule: fit_search.induct)
  case (1 fits low high)
  let ?mid = "(low + high + 1) div 2"
  have eq: "fit_search fits low high = (if low < high
      then (if fits ?mid then fit_search fits ?mid high else fit_search fits low (?mid - 1)) else low)"
    by (subst fit_search.simps) (simp only: Let_def)
  show ?case
  proof (cases "low < high")
    case False
    then have "fit_search fits low high = low" "low = high" using eq "1.prems"(4) by simp_all
    then show ?thesis using "1.prems"(2,3) by auto
  next
    case True
    then have mid: "low < ?mid" "?mid \<le> high" by auto
    show ?thesis
    proof (cases "fits ?mid")
      case fit: True
      obtain mid where m: "mid = ?mid" by simp
      have ih: "mid \<le> fit_search fits mid high \<and> fit_search fits mid high \<le> high
          \<and> (0 < fit_search fits mid high \<longrightarrow> fits (fit_search fits mid high))
          \<and> (\<forall>k. fit_search fits mid high < k \<and> k \<le> high \<longrightarrow> \<not> fits k)"
        using "1.IH"(1) [OF True refl fit "1.prems"(1)] mid fit "1.prems"(2) unfolding m by simp
      moreover have "fit_search fits low high = fit_search fits mid high" using eq True fit unfolding m by simp
      ultimately show ?thesis using mid unfolding m by simp
    next
      case False
      obtain mid where m: "mid = ?mid" by simp
      have none: "\<not> fits k" if "mid \<le> k" for k
        using "1.prems"(1) [of k mid] False mid(1) "1.prems"(2) that unfolding m by linarith
      have rest: "low \<le> fit_search fits low (mid - 1) \<and> fit_search fits low (mid - 1) \<le> mid - 1
          \<and> (0 < fit_search fits low (mid - 1) \<longrightarrow> fits (fit_search fits low (mid - 1)))
          \<and> (\<forall>k. fit_search fits low (mid - 1) < k \<and> k \<le> mid - 1 \<longrightarrow> \<not> fits k)"
        using "1.IH"(2) [OF True refl False "1.prems"(1,2,3)] mid unfolding m by simp
      have "fit_search fits low high = fit_search fits low (mid - 1)" using eq True False unfolding m by simp
      moreover have "\<not> fits k" if "fit_search fits low (mid - 1) < k" for k
        using rest none [of k] that by (cases "mid \<le> k") auto
      ultimately show ?thesis using rest mid unfolding m by auto
    qed
  qed
qed

lemma loss_fits_down:
  assumes "loss_fits price stop headroom n" "0 < m" "m \<le> n"
  shows "loss_fits price stop headroom m"
proof -
  obtain loss where loss: "planned_stop_loss_usd (Some price) n None stop = Some loss" "f_le (Fin loss) headroom"
    using assms(1) by (auto simp: loss_fits_def split: option.splits)
  then have "0 < price" "positive_pct stop" by (auto simp: planned_stop_loss_usd_def split: if_splits)
  then obtain pct where pct: "positive_pct stop" "0 < price" "stop = Some pct" "loss = round2 (price * pct * of_int n * 100)"
    using loss(1) by (cases stop) (auto simp: planned_stop_loss_usd_def split: if_splits)
  let ?less = "round2 (price * pct * of_int m * 100)"
  have "0 < pct" using pct(1,3) by auto
  then have "price * pct * of_int m * 100 \<le> price * pct * of_int n * 100"
    using pct(2) assms(3) by (intro mult_right_mono mult_left_mono) auto
  then have "?less \<le> loss" unfolding pct(4) by (rule py_round_mono)
  then have "f_le (Fin ?less) headroom" using loss(2) by (cases headroom) auto
  moreover have "planned_stop_loss_usd (Some price) m None stop = Some ?less"
    using pct assms(2) by (simp add: planned_stop_loss_usd_def)
  ultimately show ?thesis by (simp add: loss_fits_def)
qed

text \<open>
  C40. The largest quantity. The binary search over the quantities ends, and finds the largest
  quantity up to the wanted one whose planned loss fits the headroom: what it returns fits, unless
  it is none, and nothing larger does.
\<close>

theorem fitted_quantity_is_largest:
  assumes "0 \<le> quantity"
  shows "fit_search (loss_fits price stop headroom) 0 quantity
    = Max {n. n = 0 \<or> 0 < n \<and> n \<le> quantity \<and> loss_fits price stop headroom n}"
proof -
  let ?fits = "loss_fits price stop headroom" and ?n = "fit_search (loss_fits price stop headroom) 0 quantity"
  let ?S = "{n. n = 0 \<or> 0 < n \<and> n \<le> quantity \<and> ?fits n}"
  have found: "0 \<le> ?n \<and> ?n \<le> quantity \<and> (0 < ?n \<longrightarrow> ?fits ?n) \<and> (\<forall>m. ?n < m \<and> m \<le> quantity \<longrightarrow> \<not> ?fits m)"
    by (rule fit_search_finds) (use assms loss_fits_down in auto)
  have "finite ?S" by (rule finite_subset [of _ "{0..quantity}"]) (use assms in auto)
  moreover have "?n \<in> ?S" using found by (cases "?n = 0") auto
  moreover have "m \<le> ?n" if "m \<in> ?S" for m using found that by (cases "m \<le> ?n") auto
  ultimately show ?thesis by (intro Max_eqI [symmetric]) simp_all
qed

theorem fitted_quantity_is_largest_witness:
  "Max {n. n = 0 \<or> 0 < n \<and> n \<le> 9 \<and> loss_fits 2 (Some (1/2)) (Fin 450) n} = 4"
proof -
  have "fit_search (loss_fits 2 (Some (1/2)) (Fin 450)) 0 9 = 4" by code_simp
  with fitted_quantity_is_largest [of 9 2 "Some (1/2)" "Fin 450"] show ?thesis by simp
qed

end
